(* ===== verification/Prelude.thy ===== *)
theory Prelude imports Main begin

text \<open>
  Shared vocabulary of the development: the collections that carry the component proofs, the
  generic facts on lists and integer division that several components use, and the names of
  the model's basic types. Byte strings are HOL \<open>string\<close>s (Go strings are byte
  sequences), Go's nil-able pointers are \<open>option\<close>s and \<open>int64\<close> identifiers are
  \<open>int\<close> values with their range stated where it matters.
\<close>

type_synonym bytes = string

named_theorems table_simps \<open>characteristic equations of table lookups and updates\<close>
named_theorems keeps_intros \<open>relations on database states kept by monadic programs\<close>

definition opt0 :: "int option \<Rightarrow> int" where
  "opt0 v = (case v of None \<Rightarrow> 0 | Some x \<Rightarrow> x)"

lemma opt0_simps [simp]: "opt0 None = 0" "opt0 (Some x) = x"
  by (simp_all add: opt0_def)

definition nullif0 :: "int \<Rightarrow> int option" where
  "nullif0 x = (if x = 0 then None else Some x)"

lemma nullif0_simps [simp]: "nullif0 0 = None" "x \<noteq> 0 \<Longrightarrow> nullif0 x = Some x"
  by (simp_all add: nullif0_def)

lemma opt0_nullif0 [simp]: "opt0 (nullif0 x) = x"
  by (simp add: nullif0_def)

subsection \<open>Lists of rows\<close>

text \<open>
  A table is a list of rows in the order of their primary keys; a SQL update is a map that
  changes the rows its WHERE clause selects.
\<close>

definition upd_where :: "('a \<Rightarrow> bool) \<Rightarrow> ('a \<Rightarrow> 'a) \<Rightarrow> 'a list \<Rightarrow> 'a list" where
  "upd_where p f rs = map (\<lambda>r. if p r then f r else r) rs"

definition first_where :: "('a \<Rightarrow> bool) \<Rightarrow> 'a list \<Rightarrow> 'a option" where
  "first_where p rs = List.find p rs"

definition n_where :: "('a \<Rightarrow> bool) \<Rightarrow> 'a list \<Rightarrow> nat" where
  "n_where p rs = length (filter p rs)"

lemma upd_where_Nil [simp]: "upd_where p f [] = []"
  by (simp add: upd_where_def)

lemma upd_where_Cons [simp]: "upd_where p f (r # rs) = (if p r then f r else r) # upd_where p f rs"
  by (simp add: upd_where_def)

lemma upd_where_append [simp]: "upd_where p f (rs @ qs) = upd_where p f rs @ upd_where p f qs"
  by (simp add: upd_where_def)

lemma length_upd_where [simp]: "length (upd_where p f rs) = length rs"
  by (simp add: upd_where_def)

lemma upd_where_none: "(\<And>r. r \<in> set rs \<Longrightarrow> \<not> p r) \<Longrightarrow> upd_where p f rs = rs"
  by (induction rs) auto

lemma map_upd_where:
  "(\<And>r. p r \<Longrightarrow> g (f r) = g r) \<Longrightarrow> map g (upd_where p f rs) = map g rs"
  by (induction rs) auto

lemma set_upd_where: "set (upd_where p f rs) = (\<lambda>r. if p r then f r else r) ` set rs"
  by (simp add: upd_where_def)

lemma first_where_Nil [simp]: "first_where p [] = None"
  by (simp add: first_where_def)

lemma first_where_Cons [simp]:
  "first_where p (r # rs) = (if p r then Some r else first_where p rs)"
  by (simp add: first_where_def)

lemma first_where_Some: "first_where p rs = Some r \<Longrightarrow> r \<in> set rs \<and> p r"
  by (induction rs) (auto split: if_splits)

lemma first_where_None: "first_where p rs = None \<longleftrightarrow> (\<forall>r \<in> set rs. \<not> p r)"
  by (induction rs) auto

lemma first_where_append:
  "first_where p (rs @ qs) = (case first_where p rs of None \<Rightarrow> first_where p qs | Some r \<Rightarrow> Some r)"
  by (induction rs) auto

lemma first_where_upd_same:
  "(\<And>r. p r \<Longrightarrow> p' (f r) = p' r) \<Longrightarrow>
   first_where p' (upd_where p f rs) = map_option (\<lambda>r. if p r then f r else r) (first_where p' rs)"
  by (induction rs) auto

lemma first_where_key:
  assumes "distinct (map k rs)" and "r \<in> set rs"
  shows "first_where (\<lambda>q. k q = k r) rs = Some r"
  using assms by (induction rs) auto

lemma n_where_Nil [simp]: "n_where p [] = 0"
  by (simp add: n_where_def)

lemma n_where_Cons [simp]: "n_where p (r # rs) = (if p r then Suc (n_where p rs) else n_where p rs)"
  by (simp add: n_where_def)

lemma n_where_0: "n_where p rs = 0 \<longleftrightarrow> (\<forall>r \<in> set rs. \<not> p r)"
  by (simp add: n_where_def filter_empty_conv)

lemma n_where_key_le:
  assumes "distinct (map k rs)" and "\<And>r. p r \<Longrightarrow> k r = x"
  shows "n_where p rs \<le> 1"
  using assms
proof (induction rs)
  case (Cons r rs)
  show ?case
  proof (cases "p r")
    case True
    then have "k r = x" by (rule Cons.prems(2))
    with Cons.prems(1) have "x \<notin> k ` set rs" by auto
    then have "\<forall>q \<in> set rs. \<not> p q" using Cons.prems(2) by blast
    with True show ?thesis by (simp add: n_where_0)
  next
    case False
    with Cons show ?thesis by simp
  qed
qed simp

lemma distinct_map_filter_key: "distinct (map k rs) \<Longrightarrow> distinct (map k (filter p rs))"
  by (induction rs) auto

subsection \<open>Integer division by the units of the calendar and the clock\<close>

lemma le_div_iff_int:
  assumes "(0::int) < k"
  shows "n \<le> x div k \<longleftrightarrow> n * k \<le> x"
proof
  assume "n \<le> x div k"
  then have "n * k \<le> (x div k) * k" using assms by (simp add: mult_right_mono)
  also have "\<dots> \<le> x" using assms by (simp add: div_mult_mod_eq [symmetric] minus_mod_eq_div_mult [symmetric])
  finally show "n * k \<le> x" .
next
  assume "n * k \<le> x"
  then have "(n * k) div k \<le> x div k" using assms by (rule zdiv_mono1)
  then show "n \<le> x div k" using assms by simp
qed

lemma div_less_iff_int: "(0::int) < k \<Longrightarrow> x div k < n \<longleftrightarrow> x < n * k"
  using le_div_iff_int [of k n x] by linarith

lemma div_unique_bounds:
  "(0::int) < k \<Longrightarrow> n * k \<le> x \<Longrightarrow> x < (n + 1) * k \<Longrightarrow> x div k = n"
  using le_div_iff_int [of k n x] div_less_iff_int [of k x "n + 1"] by linarith

lemma div_pred_step:
  assumes "(0::int) < k"
  shows "y div k - (y - 1) div k = (if y mod k = 0 then 1 else 0)"
proof (cases "y mod k = 0")
  case True
  then obtain q where y: "y = q * k" by (metis mod_0_imp_dvd dvdE mult.commute)
  have "(y - 1) div k = q - 1"
    using assms y by (intro div_unique_bounds) (auto simp: algebra_simps)
  with y assms True show ?thesis by simp
next
  case False
  define q m where "q = y div k" and "m = y mod k"
  have "0 \<le> m" and m: "m < k" "m \<noteq> 0" using assms False by (auto simp: m_def)
  then have "0 < m" by simp
  have y: "y = q * k + m" by (simp add: q_def m_def)
  have "(y - 1) div k = q"
    using assms m \<open>0 < m\<close> y by (intro div_unique_bounds) (auto simp: algebra_simps)
  then have "(y - 1) div k = y div k" by (simp add: q_def)
  with False show ?thesis by simp
qed

end
