(* ===== verification/GoStrings.thy ===== *)
theory GoStrings imports Prelude "HOL-Library.Word" "HOL-Library.Sublist" begin

text \<open>
  The part of Go's \<open>strings\<close>, \<open>strconv\<close> and \<open>hash/fnv\<close> packages that the program uses, on
  byte strings: splitting, trimming of Unicode white space in UTF-8, prefixes, decimal
  integers with their 64-bit range, and the 32-bit FNV-1a hash. Errors of \<open>strconv\<close> are the
  left side of a sum. The locale \<open>codec\<close> is the contract of a printer and its parser.
\<close>

section \<open>Printing and parsing contracts\<close>

locale codec =
  fixes enc :: "'a \<Rightarrow> bytes"
    and dec :: "bytes \<Rightarrow> 'e + 'a"
    and ok :: "'a \<Rightarrow> bool"
  assumes dec_enc: "ok x \<Longrightarrow> dec (enc x) = Inr x"
begin

lemma enc_inj: "ok x \<Longrightarrow> ok y \<Longrightarrow> enc x = enc y \<Longrightarrow> x = y"
  using dec_enc [of x] dec_enc [of y] by (metis sum.inject(2))

lemma enc_inj_on: "inj_on enc (Collect ok)"
  by (rule inj_onI) (simp add: enc_inj)

lemma enc_accepted: "ok x \<Longrightarrow> \<not> isl (dec (enc x))"
  by (simp add: dec_enc)

end

section \<open>Splitting and joining\<close>

fun split_on :: "char \<Rightarrow> bytes \<Rightarrow> bytes list" where
  "split_on c [] = [[]]"
| "split_on c (x # xs) = (if x = c then [] # split_on c xs
     else (case split_on c xs of [] \<Rightarrow> [[x]] | p # ps \<Rightarrow> (x # p) # ps))"

fun join_with :: "bytes \<Rightarrow> bytes list \<Rightarrow> bytes" where
  "join_with sep [] = []"
| "join_with sep [p] = p"
| "join_with sep (p # q # ps) = p @ sep @ join_with sep (q # ps)"

lemma split_on_not_Nil [simp]: "split_on c s \<noteq> []"
  by (cases s) (auto split: list.splits)

lemma split_on_none: "c \<notin> set p \<Longrightarrow> split_on c p = [p]"
  by (induction p) auto

lemma split_on_append_sep: "c \<notin> set p \<Longrightarrow> split_on c (p @ c # s) = p # split_on c s"
  by (induction p) auto

lemma split_on_join:
  "ps \<noteq> [] \<Longrightarrow> (\<And>p. p \<in> set ps \<Longrightarrow> c \<notin> set p) \<Longrightarrow> split_on c (join_with [c] ps) = ps"
  by (induction "[c]" ps rule: join_with.induct) (auto simp: split_on_none split_on_append_sep)

lemma join_split_on: "join_with [c] (split_on c s) = s"
proof (induction s)
  case (Cons x s)
  obtain p ps where sp: "split_on c s = p # ps" by (cases "split_on c s") auto
  with Cons show ?case by (cases ps) auto
qed simp

lemma split_on_parts: "p \<in> set (split_on c s) \<Longrightarrow> c \<notin> set p"
proof (induction s arbitrary: p)
  case (Cons x s)
  obtain q qs where sp: "split_on c s = q # qs" by (cases "split_on c s") auto
  with Cons show ?case by (auto split: if_splits)
qed simp

section \<open>Prefixes and white space\<close>

definition has_prefix :: "bytes \<Rightarrow> bytes \<Rightarrow> bool" where "has_prefix s p \<longleftrightarrow> take (length p) s = p"

definition trim_prefix :: "bytes \<Rightarrow> bytes \<Rightarrow> bytes" where
  "trim_prefix s p = (if has_prefix s p then drop (length p) s else s)"

fun contains_str :: "bytes \<Rightarrow> bytes \<Rightarrow> bool" where
  "contains_str [] p \<longleftrightarrow> p = []"
| "contains_str (c # s) p \<longleftrightarrow> has_prefix (c # s) p \<or> contains_str s p"

text \<open>The UTF-8 encodings of the runes for which \<open>unicode.IsSpace\<close> holds.\<close>

definition byte :: "nat \<Rightarrow> char" where "byte n = char_of n"

definition space_runes :: "bytes list" where
  "space_runes = map (\<lambda>n. [byte n]) [9, 10, 11, 12, 13, 32]
     @ map (\<lambda>n. [byte 0xC2, byte n]) [0x85, 0xA0]
     @ map (map byte) [[0xE1, 0x9A, 0x80], [0xE2, 0x81, 0x9F], [0xE3, 0x80, 0x80]]
     @ map (\<lambda>n. [byte 0xE2, byte 0x80, byte n])
         [0x80, 0x81, 0x82, 0x83, 0x84, 0x85, 0x86, 0x87, 0x88, 0x89, 0x8A, 0xA8, 0xA9, 0xAF]"

text \<open>
  \<open>trim_fuel\<close> removes leading runes of a list. Its fuel is the length of the string: each
  round removes at least one byte.
\<close>

fun trim_fuel :: "nat \<Rightarrow> bytes list \<Rightarrow> bytes \<Rightarrow> bytes" where
  "trim_fuel 0 pats s = s"
| "trim_fuel (Suc n) pats s = (case List.find (has_prefix s) pats of
      None \<Rightarrow> s | Some p \<Rightarrow> trim_fuel n pats (drop (length p) s))"

definition trim_left :: "bytes \<Rightarrow> bytes" where
  "trim_left s = trim_fuel (length s) space_runes s"

definition trim_right :: "bytes \<Rightarrow> bytes" where
  "trim_right s = rev (trim_fuel (length s) (map rev space_runes) (rev s))"

definition trim_space :: "bytes \<Rightarrow> bytes" where
  "trim_space s = trim_right (trim_left s)"

lemma trim_fuel_done:
  assumes "\<And>p. p \<in> set pats \<Longrightarrow> p \<noteq> []" and "length s \<le> n"
  shows "List.find (has_prefix (trim_fuel n pats s)) pats = None"
  using assms(2)
proof (induction n arbitrary: s)
  case 0
  have "\<not> has_prefix [] p" if "p \<in> set pats" for p
    using assms(1) [OF that] by (simp add: has_prefix_def)
  then show ?case using 0 by (simp add: find_None_iff)
next
  case (Suc n)
  show ?case
  proof (cases "List.find (has_prefix s) pats")
    case (Some p)
    then have "p \<in> set pats" by (metis find_Some_iff nth_mem)
    then have "length (drop (length p) s) \<le> n" using assms(1) [of p] Suc.prems by (auto simp: le_diff_conv neq_Nil_conv)
    with Some Suc.IH show ?thesis by simp
  qed simp
qed

lemma trim_fuel_suffix: "suffix (trim_fuel n pats s) s"
proof (induction n arbitrary: s)
  case (Suc n)
  show ?case
    using Suc suffix_order.trans [OF Suc suffix_drop] by (auto split: option.split)
qed simp

lemma space_runes_not_Nil: "p \<in> set space_runes \<Longrightarrow> p \<noteq> []"
  by (auto simp: space_runes_def)

lemma trim_left_suffix: "suffix (trim_left s) s"
  by (simp add: trim_left_def trim_fuel_suffix)

lemma trim_right_prefix: "prefix (trim_right s) s"
  using trim_fuel_suffix [of "length s" "map rev space_runes" "rev s"]
  by (simp add: trim_right_def suffix_to_prefix)

lemma length_trim_space: "length (trim_space s) \<le> length s"
  using trim_left_suffix [of s] trim_right_prefix [of "trim_left s"]
  by (auto simp: trim_space_def dest!: suffix_length_le prefix_length_le)

lemma set_trim_space: "set (trim_space s) \<subseteq> set s"
  using trim_left_suffix [of s] trim_right_prefix [of "trim_left s"]
  by (auto simp: trim_space_def dest!: set_mono_suffix set_mono_prefix)

text \<open>A trimmed string does not end with white space.\<close>

lemma trim_space_right_done:
  "p \<in> set space_runes \<Longrightarrow> \<not> suffix p (trim_space s)"
proof
  assume p: "p \<in> set space_runes" and suf: "suffix p (trim_space s)"
  define r where "r = trim_fuel (length (trim_left s)) (map rev space_runes) (rev (trim_left s))"
  have "List.find (has_prefix r) (map rev space_runes) = None"
    unfolding r_def by (rule trim_fuel_done) (auto dest: space_runes_not_Nil)
  then have "\<not> has_prefix r (rev p)" using p by (auto simp: find_None_iff)
  moreover have "prefix (rev p) r" using suf by (simp add: trim_space_def trim_right_def r_def suffix_to_prefix)
  ultimately show False by (auto simp: has_prefix_def prefix_def)
qed

lemma trim_space_Nil [simp]: "trim_space [] = []"
  by (simp add: trim_space_def trim_left_def trim_right_def)

text \<open>Printable ASCII at both ends is not trimmed.\<close>

lemma space_rune_ends:
  "p \<in> set space_runes \<Longrightarrow> \<not> (33 \<le> (of_char (hd p) :: nat) \<and> (of_char (hd p) :: nat) < 128)
     \<and> \<not> (33 \<le> (of_char (last p) :: nat) \<and> (of_char (last p) :: nat) < 128)"
  by (auto simp: space_runes_def byte_def)

lemma trim_fuel_stuck:
  assumes "\<And>p. p \<in> set pats \<Longrightarrow> p \<noteq> [] \<and> hd p \<noteq> hd s" and "s \<noteq> []"
  shows "trim_fuel n pats s = s"
proof -
  have "List.find (has_prefix s) pats = None"
    unfolding find_None_iff has_prefix_def using assms by (metis hd_append2 append_take_drop_id)
  then show ?thesis by (cases n) auto
qed

lemma trim_space_printable:
  assumes "s \<noteq> []" and "33 \<le> (of_char (hd s) :: nat)" "(of_char (hd s) :: nat) < 128"
    and "33 \<le> (of_char (last s) :: nat)" "(of_char (last s) :: nat) < 128"
  shows "trim_space s = s"
proof -
  have "trim_left s = s"
    unfolding trim_left_def by (rule trim_fuel_stuck) (use assms space_rune_ends space_runes_not_Nil in fastforce)+
  moreover have "trim_right s = s"
    unfolding trim_right_def
    by (subst trim_fuel_stuck) (use assms space_rune_ends space_runes_not_Nil in \<open>fastforce simp: hd_rev\<close>)+
  ultimately show ?thesis by (simp add: trim_space_def)
qed

section \<open>Lower case\<close>

definition is_ascii :: "bytes \<Rightarrow> bool" where
  "is_ascii s \<longleftrightarrow> list_all (\<lambda>c. of_char c < (128::nat)) s"

definition lower_byte :: "char \<Rightarrow> char" where
  "lower_byte c = (let n = of_char c :: nat in if 65 \<le> n \<and> n \<le> 90 then char_of (n + 32) else c)"

text \<open>
  \<open>strings.ToLower\<close>: the ASCII case is written out, the Unicode case tables of the runtime
  are the argument \<open>uni\<close>.
\<close>

definition to_lower :: "(bytes \<Rightarrow> bytes) \<Rightarrow> bytes \<Rightarrow> bytes" where
  "to_lower uni s = (if is_ascii s then map lower_byte s else uni s)"

section \<open>Decimal integers\<close>

datatype num_error = SyntaxError | RangeError

definition digit_char :: "nat \<Rightarrow> char" where "digit_char n = char_of (48 + n)"

definition digit_val :: "char \<Rightarrow> nat option" where
  "digit_val c = (let n = of_char c :: nat in if 48 \<le> n \<and> n \<le> 57 then Some (n - 48) else None)"

fun show_nat :: "nat \<Rightarrow> bytes" where
  "show_nat n = (if n < 10 then [digit_char n] else show_nat (n div 10) @ [digit_char (n mod 10)])"

declare show_nat.simps [simp del]

definition show_int :: "int \<Rightarrow> bytes" where
  "show_int i = (if i < 0 then CHR ''-'' # show_nat (nat (- i)) else show_nat (nat i))"

fun parse_uint :: "nat \<Rightarrow> bytes \<Rightarrow> num_error + nat" where
  "parse_uint acc [] = Inr acc"
| "parse_uint acc (c # cs) = (case digit_val c of None \<Rightarrow> Inl SyntaxError
     | Some d \<Rightarrow> if 18446744073709551615 < acc * 10 + d then Inl RangeError else parse_uint (acc * 10 + d) cs)"

definition parse_int :: "bytes \<Rightarrow> num_error + int" where
  "parse_int s = (let neg = (take 1 s = ''-''); rest = (if neg \<or> take 1 s = ''+'' then drop 1 s else s)
     in if rest = [] then Inl SyntaxError
        else (case parse_uint 0 rest of Inl e \<Rightarrow> Inl e
          | Inr n \<Rightarrow> if neg then (if 9223372036854775808 < n then Inl RangeError else Inr (- int n))
                     else (if 9223372036854775808 \<le> n then Inl RangeError else Inr (int n))))"

definition int64_range :: "int \<Rightarrow> bool" where
  "int64_range i \<longleftrightarrow> - 9223372036854775808 \<le> i \<and> i < 9223372036854775808"

lemma digit_val_char [simp]: "n < 10 \<Longrightarrow> digit_val (digit_char n) = Some n"
  by (simp add: digit_val_def digit_char_def Let_def)

lemma digit_val_other:
  "digit_val CHR ''-'' = None" "digit_val CHR ''+'' = None" "digit_val CHR '':'' = None"
  by (simp_all add: digit_val_def)

lemma show_nat_not_Nil [simp]: "show_nat n \<noteq> []"
  by (subst show_nat.simps) auto

lemma show_nat_digits: "c \<in> set (show_nat n) \<Longrightarrow> digit_val c \<noteq> None"
proof (induction n rule: show_nat.induct)
  case (1 n)
  then show ?case by (cases "n < 10") (auto simp: show_nat.simps [of n])
qed

lemma show_nat_hd: "show_nat n = c # cs \<Longrightarrow> digit_val c \<noteq> None"
  using show_nat_digits [of c n] by simp

lemma parse_uint_append:
  "parse_uint acc (xs @ ys) = (case parse_uint acc xs of Inl e \<Rightarrow> Inl e | Inr v \<Rightarrow> parse_uint v ys)"
  by (induction xs arbitrary: acc) (auto split: option.splits)

lemma parse_uint_show_nat: "n \<le> 18446744073709551615 \<Longrightarrow> parse_uint 0 (show_nat n) = Inr n"
proof (induction n rule: show_nat.induct)
  case (1 n)
  show ?case
  proof (cases "n < 10")
    case False
    then have "parse_uint 0 (show_nat (n div 10)) = Inr (n div 10)" using 1 by simp
    moreover have "n div 10 * 10 + n mod 10 = n" by simp
    ultimately show ?thesis using False 1(2) by (simp add: show_nat.simps [of n] parse_uint_append)
  qed (simp add: show_nat.simps [of n])
qed

lemma parse_uint_le: "parse_uint acc s = Inr n \<Longrightarrow> acc \<le> n"
proof (induction s arbitrary: acc)
  case (Cons c s)
  then obtain d where "digit_val c = Some d" "parse_uint (acc * 10 + d) s = Inr n"
    by (auto split: option.splits if_splits)
  with Cons.IH [of "acc * 10 + d"] show ?case by simp
qed simp

lemma parse_int_show_int:
  assumes "int64_range i"
  shows "parse_int (show_int i) = Inr i"
proof (cases "i < 0")
  case True
  with assms have "parse_uint 0 (show_nat (nat (- i))) = Inr (nat (- i))"
    by (intro parse_uint_show_nat) (simp add: int64_range_def nat_le_iff)
  with True assms show ?thesis
    by (simp add: show_int_def parse_int_def Let_def int64_range_def nat_less_iff)
next
  case False
  obtain c cs where s: "show_nat (nat i) = c # cs" by (cases "show_nat (nat i)") auto
  then have "c \<noteq> CHR ''-''" "c \<noteq> CHR ''+''" using show_nat_hd [OF s] by (auto simp: digit_val_other)
  moreover have "parse_uint 0 (show_nat (nat i)) = Inr (nat i)"
    using assms by (intro parse_uint_show_nat) (simp add: int64_range_def nat_le_iff)
  ultimately show ?thesis
    using False assms s by (simp add: show_int_def parse_int_def Let_def int64_range_def le_nat_iff)
qed

lemma parse_int_range: "parse_int s = Inr i \<Longrightarrow> int64_range i"
  by (auto simp: parse_int_def int64_range_def Let_def split: if_splits sum.splits)

interpretation dec_int: codec show_int parse_int int64_range
  by unfold_locales (rule parse_int_show_int)

lemma show_int_no_colon: "CHR '':'' \<notin> set (show_int i)"
  using show_nat_digits [of "CHR '':''"] by (auto simp: show_int_def digit_val_other)

lemma digit_char_inj: "m < 10 \<Longrightarrow> n < 10 \<Longrightarrow> digit_char m = digit_char n \<longleftrightarrow> m = n"
  using digit_val_char [of m] digit_val_char [of n] by (metis option.inject)

lemma show_nat_inj: "show_nat m = show_nat n \<longleftrightarrow> m = n"
proof
  show "show_nat m = show_nat n \<Longrightarrow> m = n"
  proof (induction m arbitrary: n rule: show_nat.induct)
    case (1 m)
    show ?case
    proof (cases "m < 10")
      case True
      with 1(2) show ?thesis
        by (auto simp: show_nat.simps [of m] show_nat.simps [of n] digit_char_inj
              eq_commute [of "[]"] split: if_splits)
    next
      case False
      then have s: "show_nat n = show_nat (m div 10) @ [digit_char (m mod 10)]"
        using 1(2) by (simp add: show_nat.simps [of m])
      then have n: "\<not> n < 10" by (auto simp: show_nat.simps [of n] eq_commute [of "[]"])
      with s have "show_nat (m div 10) = show_nat (n div 10)" "m mod 10 = n mod 10"
        by (simp_all add: show_nat.simps [of n] digit_char_inj)
      with 1(1) [OF False] have "m div 10 = n div 10" "m mod 10 = n mod 10" by auto
      then show ?thesis by (metis div_mult_mod_eq)
    qed
  qed
qed simp

lemma show_int_inj: "show_int i = show_int j \<longleftrightarrow> i = j"
proof -
  have "show_nat k \<noteq> CHR ''-'' # cs" for k cs using show_nat_hd [of k] by (auto simp: digit_val_other)
  then show ?thesis by (auto simp: show_int_def show_nat_inj eq_nat_nat_iff split: if_splits) metis+
qed

lemma length_show_nat: "n < 10 ^ k \<Longrightarrow> 0 < k \<Longrightarrow> length (show_nat n) \<le> k"
proof (induction n arbitrary: k rule: show_nat.induct)
  case (1 n)
  show ?case
  proof (cases "n < 10")
    case False
    with 1(2) obtain j where k: "k = Suc j" "0 < j" by (cases k; cases "k - 1") auto
    then have "n div 10 < 10 ^ j" using 1(2) by (simp add: less_mult_imp_div_less mult.commute)
    with 1(1) [OF False, of j] k show ?thesis using False by (simp add: show_nat.simps [of n])
  qed (use 1 in \<open>simp add: show_nat.simps [of n]\<close>)
qed

lemma length_show_int: "int64_range i \<Longrightarrow> length (show_int i) \<le> 20"
  using length_show_nat [of "nat (- i)" 19] length_show_nat [of "nat i" 19]
  by (auto simp: show_int_def int64_range_def nat_less_iff)

section \<open>FNV-1a\<close>

definition fnv32a :: "bytes \<Rightarrow> 32 word" where
  "fnv32a s = fold (\<lambda>c h. (xor h (of_nat (of_char c))) * 16777619) s 2166136261"

end
