(* ===== verification/Domain_Types.thy ===== *)
theory Domain_Types imports GoStrings begin

text \<open>
  \<open>internal/domain/types.go\<close>: the enumerations of the program. Each is a string type in Go
  whose values are listed as constants; here it is a datatype with the function that prints a
  value as the code's string and, where a string from outside is turned into a value, the
  partial function that reads it. \<open>messages.Format\<close> calls are kept as data (\<open>msg\<close>: the key
  of the catalogue and its substitutions).
\<close>

datatype group_setup_status = GroupSetupPending | GroupSetupRequirementsFailed | GroupSetupReady

datatype topic_key = TopicToday | TopicProgress | TopicRoutine | TopicGoals

datatype daily_task_status =
  DailyTaskActive | DailyTaskAwaitingReport | DailyTaskDone | DailyTaskPartial | DailyTaskFailed

fun is_open :: "daily_task_status \<Rightarrow> bool" where
  "is_open s \<longleftrightarrow> s = DailyTaskActive \<or> s = DailyTaskAwaitingReport"

fun is_final_report :: "daily_task_status \<Rightarrow> bool" where
  "is_final_report s \<longleftrightarrow> s = DailyTaskDone \<or> s = DailyTaskPartial \<or> s = DailyTaskFailed"

datatype daily_entry_kind = DailyEntryTask | DailyEntrySummary

fun is_summary :: "daily_entry_kind \<Rightarrow> bool" where
  "is_summary k \<longleftrightarrow> k = DailyEntrySummary"

datatype alert_kind = AlertDayClosedPendingReport | AlertOverdueTaskFailed

datatype alert_dispatch_status = AlertDispatchPending | AlertDispatchDispatching | AlertDispatchSent

datatype progress_event_type =
  ProgressDailyTaskClosed | ProgressDailyTaskAutoFail | ProgressDailySummaryClosed
  | ProgressDailySummaryAutoFail | ProgressSystemAlert | ProgressCustomUpdate

datatype progress_publish_status =
  ProgressPublishPending | ProgressPublishPublishing | ProgressPublishPublished | ProgressPublishFailed

datatype pending_input_kind =
  PendingDailyTaskText | PendingDailyTaskReport | PendingDailySummaryReport | PendingRoutinePlan
  | PendingRoutineReason | PendingSeasonalGoals | PendingGoalWeeklyReview | PendingGoalFinalReflection

datatype routine_item_status = RoutineItemDone | RoutineItemPartial | RoutineItemFailed

datatype goal_final_status = GoalFinalDone | GoalFinalPartial | GoalFinalFailed

fun task_status_str :: "daily_task_status \<Rightarrow> bytes" where
  "task_status_str DailyTaskActive = ''active''"
| "task_status_str DailyTaskAwaitingReport = ''awaiting_report''"
| "task_status_str DailyTaskDone = ''done''"
| "task_status_str DailyTaskPartial = ''partial''"
| "task_status_str DailyTaskFailed = ''failed''"

definition task_status_of :: "bytes \<Rightarrow> daily_task_status option" where
  "task_status_of s = List.find (\<lambda>v. task_status_str v = s)
     [DailyTaskActive, DailyTaskAwaitingReport, DailyTaskDone, DailyTaskPartial, DailyTaskFailed]"

fun routine_status_str :: "routine_item_status \<Rightarrow> bytes" where
  "routine_status_str RoutineItemDone = ''done''"
| "routine_status_str RoutineItemPartial = ''partial''"
| "routine_status_str RoutineItemFailed = ''failed''"

text \<open>\<open>IsValid\<close> on a string read from outside: the value when it is one of the constants.\<close>

definition routine_status_of :: "bytes \<Rightarrow> routine_item_status option" where
  "routine_status_of s = List.find (\<lambda>v. routine_status_str v = s)
     [RoutineItemDone, RoutineItemPartial, RoutineItemFailed]"

fun goal_status_str :: "goal_final_status \<Rightarrow> bytes" where
  "goal_status_str GoalFinalDone = ''done''"
| "goal_status_str GoalFinalPartial = ''partial''"
| "goal_status_str GoalFinalFailed = ''failed''"

definition goal_status_of :: "bytes \<Rightarrow> goal_final_status option" where
  "goal_status_of s = List.find (\<lambda>v. goal_status_str v = s)
     [GoalFinalDone, GoalFinalPartial, GoalFinalFailed]"

lemma task_status_of_str [simp]: "task_status_of (task_status_str v) = Some v"
  by (cases v) (simp_all add: task_status_of_def)

lemma routine_status_of_str [simp]: "routine_status_of (routine_status_str v) = Some v"
  by (cases v) (simp_all add: routine_status_of_def)

lemma goal_status_of_str [simp]: "goal_status_of (goal_status_str v) = Some v"
  by (cases v) (simp_all add: goal_status_of_def)

lemma is_open_iff_not_final: "is_open s \<longleftrightarrow> \<not> is_final_report s"
  by (cases s) auto

lemma task_status_str_chars: "CHR '':'' \<notin> set (task_status_str s)" by (cases s) simp_all
lemma routine_status_str_chars: "CHR '':'' \<notin> set (routine_status_str s)" by (cases s) simp_all
lemma goal_status_str_chars: "CHR '':'' \<notin> set (goal_status_str s)" by (cases s) simp_all

lemmas status_str_chars = task_status_str_chars routine_status_str_chars goal_status_str_chars

lemma length_task_status_str: "is_final_report s \<Longrightarrow> length (task_status_str s) \<le> 7" by (cases s) simp_all
lemma length_routine_status_str: "length (routine_status_str s) \<le> 7" by (cases s) simp_all
lemma length_goal_status_str: "length (goal_status_str s) \<le> 7" by (cases s) simp_all

lemmas length_status_str = length_task_status_str length_routine_status_str length_goal_status_str

datatype msg = Msg (msg_key: bytes) (msg_args: "(bytes \<times> bytes) list")

end
