(* ===== verification/GoTime.thy ===== *)
theory GoTime imports Prelude begin

text \<open>
  The part of Go's \<open>time\<close> package that the program uses: the proleptic Gregorian calendar
  (\<open>Time.Date\<close>, \<open>Time.Weekday\<close>), instants with a location (\<open>Time.In\<close>, \<open>Time.Add\<close>,
  \<open>Time.Sub\<close>, \<open>Time.Before\<close>), and \<open>time.Date\<close> with its normalisation of out-of-range months
  and days and its two-step search for the zone offset. A location is the lookup function of
  its zone transitions (offset, start and end of the span that holds an instant); the zone
  database itself is a parameter of the model. The locale \<open>civil_zone\<close> states when a
  zone's clock shows a boundary of the day exactly; fixed-offset zones interpret it.
\<close>

section \<open>The calendar\<close>

datatype civil = Civil (cy: int) (cm: int) (cd: int)

definition leap :: "int \<Rightarrow> bool" where
  "leap y \<longleftrightarrow> y mod 4 = 0 \<and> (y mod 100 \<noteq> 0 \<or> y mod 400 = 0)"

text \<open>Days from 1 January of year 1 to 1 January of year \<open>y\<close>.\<close>

definition year_start :: "int \<Rightarrow> int" where
  "year_start y = 365 * (y - 1) + (y - 1) div 4 - (y - 1) div 100 + (y - 1) div 400"

definition month_start :: "bool \<Rightarrow> int \<Rightarrow> int" where
  "month_start l m = [0, 31, 59, 90, 120, 151, 181, 212, 243, 273, 304, 334, 365] ! nat (m - 1)
     + (if l \<and> 2 < m then 1 else 0)"

definition month_len :: "bool \<Rightarrow> int \<Rightarrow> int" where
  "month_len l m = month_start l (m + 1) - month_start l m"

text \<open>Unix day number: 1 January 1970 is day 0.\<close>

definition days_of_civil :: "civil \<Rightarrow> int" where
  "days_of_civil c = year_start (cy c) + month_start (leap (cy c)) (cm c) + cd c - 1 - 719162"

definition valid_civil :: "civil \<Rightarrow> bool" where
  "valid_civil c \<longleftrightarrow> 1 \<le> cm c \<and> cm c \<le> 12 \<and> 1 \<le> cd c \<and> cd c \<le> month_len (leap (cy c)) (cm c)"

text \<open>The year that holds a day, by 400, 100, 4 and 1 year cycles as in the Go runtime.\<close>

definition year_of :: "int \<Rightarrow> int" where
  "year_of z = (let a = z div 146097; r = z mod 146097;
       b = min 3 (r div 36524); r2 = r - 36524 * b;
       c = r2 div 1461; r3 = r2 mod 1461;
       e = min 3 (r3 div 365)
     in 400 * a + 100 * b + 4 * c + e + 1)"

definition month_of :: "bool \<Rightarrow> int \<Rightarrow> int" where
  "month_of l yd = int (length (filter (\<lambda>m. month_start l m \<le> yd) [1, 2, 3, 4, 5, 6, 7, 8, 9, 10, 11, 12]))"

definition civil_of_days :: "int \<Rightarrow> civil" where
  "civil_of_days n = (let z = n + 719162; y = year_of z; yd = z - year_start y; m = month_of (leap y) yd
     in Civil y m (yd - month_start (leap y) m + 1))"

definition weekday_of_days :: "int \<Rightarrow> int" where
  "weekday_of_days n = (n + 4) mod 7"

lemma month_start_simps [simp]:
  "month_start l 1 = 0" "month_start l 2 = 31"
  "month_start l 3 = 59 + (if l then 1 else 0)" "month_start l 4 = 90 + (if l then 1 else 0)"
  "month_start l 5 = 120 + (if l then 1 else 0)" "month_start l 6 = 151 + (if l then 1 else 0)"
  "month_start l 7 = 181 + (if l then 1 else 0)" "month_start l 8 = 212 + (if l then 1 else 0)"
  "month_start l 9 = 243 + (if l then 1 else 0)" "month_start l 10 = 273 + (if l then 1 else 0)"
  "month_start l 11 = 304 + (if l then 1 else 0)" "month_start l 12 = 334 + (if l then 1 else 0)"
  "month_start l 13 = 365 + (if l then 1 else 0)"
  by (simp_all add: month_start_def)

lemma month_cases:
  assumes "1 \<le> (m::int)" and "m \<le> 12"
  obtains "m = 1" | "m = 2" | "m = 3" | "m = 4" | "m = 5" | "m = 6"
    | "m = 7" | "m = 8" | "m = 9" | "m = 10" | "m = 11" | "m = 12"
proof -
  have "m = 1 \<or> m = 2 \<or> m = 3 \<or> m = 4 \<or> m = 5 \<or> m = 6 \<or> m = 7 \<or> m = 8 \<or> m = 9
      \<or> m = 10 \<or> m = 11 \<or> m = 12"
    using assms by arith
  then show ?thesis using that by blast
qed

lemma leap_count:
  "(Q \<Longrightarrow> P) \<Longrightarrow> (R \<Longrightarrow> Q) \<Longrightarrow> (if P \<and> (\<not> Q \<or> R) then 1 else 0) =
    (if P then 1 else 0) - (if Q then 1 else 0) + (if R then 1 else 0 :: int)"
  by auto

lemma year_start_step: "year_start (y + 1) - year_start y = 365 + (if leap y then 1 else 0)"
proof -
  have 4: "y div 4 - (y - 1) div 4 = (if y mod 4 = 0 then 1 else 0)" by (rule div_pred_step) simp
  have 100: "y div 100 - (y - 1) div 100 = (if y mod 100 = 0 then 1 else 0)" by (rule div_pred_step) simp
  have 400: "y div 400 - (y - 1) div 400 = (if y mod 400 = 0 then 1 else 0)" by (rule div_pred_step) simp
  have "y mod 100 = 0 \<Longrightarrow> y mod 4 = 0"
    using mod_mod_cancel [of 4 100 y] by simp
  moreover have "y mod 400 = 0 \<Longrightarrow> y mod 100 = 0"
    using mod_mod_cancel [of 100 400 y] by simp
  ultimately have leap: "(if leap y then 1 else 0) = (if y mod 4 = 0 then 1 else 0) - (if y mod 100 = 0 then 1 else 0)
      + (if y mod 400 = 0 then 1 else 0 :: int)"
    unfolding leap_def by (rule leap_count)
  have "year_start (y + 1) - year_start y = 365 + (y div 4 - (y - 1) div 4)
      - (y div 100 - (y - 1) div 100) + (y div 400 - (y - 1) div 400)"
    unfolding year_start_def add_diff_cancel_right' by (simp only: algebra_simps)
  then show ?thesis unfolding 4 100 400 leap by linarith
qed

lemma year_start_less_step: "year_start y + 365 \<le> year_start (y + 1)"
  using year_start_step [of y] by (auto split: if_splits)

lemma year_start_mono_nat: "year_start y + 365 * int k \<le> year_start (y + int k)"
proof (induction k)
  case (Suc k)
  have "year_start (y + int k) + 365 \<le> year_start (y + int k + 1)" by (rule year_start_less_step)
  with Suc show ?case by (simp add: algebra_simps)
qed simp

lemma year_start_mono: "y \<le> y' \<Longrightarrow> year_start y \<le> year_start y'"
  using year_start_mono_nat [of y "nat (y' - y)"] by simp

lemma year_unique:
  assumes "year_start y \<le> z" "z < year_start (y + 1)" "year_start y' \<le> z" "z < year_start (y' + 1)"
  shows "y = y'"
proof (rule ccontr)
  assume "y \<noteq> y'"
  then consider "y + 1 \<le> y'" | "y' + 1 \<le> y" by linarith
  then show False
    using assms year_start_mono [of "y + 1" y'] year_start_mono [of "y' + 1" y] by cases auto
qed

lemma div_mod_bounds:
  "(0::int) < k \<Longrightarrow> k * (x div k) \<le> x \<and> x < k * (x div k) + k \<and> 0 \<le> x mod k \<and> x mod k < k \<and> x = k * (x div k) + x mod k"
  using pos_mod_bound [of k x] pos_mod_sign [of k x] mult_div_mod_eq [of k x] by linarith

lemma year_of_bounds: "year_start (year_of z) \<le> z \<and> z < year_start (year_of z + 1)"
proof -
  define a r where "a = z div 146097" and "r = z mod 146097"
  define b where "b = min 3 (r div 36524)"
  define r2 where "r2 = r - 36524 * b"
  define c r3 where "c = r2 div 1461" and "r3 = r2 mod 1461"
  define e where "e = min 3 (r3 div 365)"
  have y: "year_of z = 400 * a + 100 * b + 4 * c + e + 1"
    by (simp add: year_of_def Let_def a_def r_def b_def r2_def c_def r3_def e_def)
  have z: "z = 146097 * a + 36524 * b + 1461 * c + r3"
    by (simp add: a_def r_def r2_def c_def r3_def)
  have r: "0 \<le> r" "r < 146097" by (simp_all add: r_def)
  have b: "0 \<le> b" "b \<le> 3" "0 \<le> r2" "r2 < 36525" "b \<le> 2 \<longrightarrow> r2 < 36524"
    using div_mod_bounds [of 36524 r] r le_div_iff_int [of 36524 "1" r] le_div_iff_int [of 36524 0 r]
    unfolding b_def r2_def min_def by (auto split: if_splits)
  have c: "0 \<le> c" "c \<le> 24" "0 \<le> r3" "r3 < 1461" "c = 24 \<longrightarrow> b \<le> 2 \<longrightarrow> r3 < 1460"
    using b minus_mult_div_eq_mod [of r2 1461] div_mod_bounds [of 1461 r2] le_div_iff_int [of 1461 0 r2] div_less_iff_int [of 1461 r2 25]
    unfolding c_def r3_def by auto
  have e: "0 \<le> e" "e \<le> 3" "365 * e \<le> r3" "e \<le> 2 \<longrightarrow> r3 < 365 * e + 365" "e = 3 \<longrightarrow> r3 < 1461"
    using c div_mod_bounds [of 365 r3] le_div_iff_int [of 365 0 r3]
    unfolding e_def min_def by (auto split: if_splits)
  have d4: "(400 * a + 100 * b + 4 * c + e) div 4 = 100 * a + 25 * b + c"
    using e by (intro div_unique_bounds) auto
  have d100: "(400 * a + 100 * b + 4 * c + e) div 100 = 4 * a + b"
    using c e by (intro div_unique_bounds) auto
  have d400: "(400 * a + 100 * b + 4 * c + e) div 400 = a"
    using b c e by (intro div_unique_bounds) auto
  have s: "year_start (year_of z) = z - r3 + 365 * e"
    unfolding year_start_def y add_diff_cancel_right' d4 d100 d400 by (subst z) (simp add: algebra_simps)
  have "e = 3 \<Longrightarrow> r3 \<ge> 1460 \<Longrightarrow> leap (year_of z)"
  proof -
    assume e3: "e = 3" and r3: "r3 \<ge> 1460"
    have m4: "year_of z mod 4 = 0" using y e3 by presburger
    show "leap (year_of z)"
    proof (cases "c = 24")
      case True
      with c b r3 have "b = 3" by auto
      then have "year_of z mod 400 = 0" using y e3 True by presburger
      with m4 show ?thesis by (simp add: leap_def)
    next
      case False
      with c have c4: "0 \<le> 4 * c + 4" "4 * c + 4 < 100" by auto
      have "year_of z = (4 * c + 4) + 100 * (4 * a + b)" using y e3 by simp
      then have "year_of z mod 100 = (4 * c + 4) mod 100" by (simp only: mod_mult_self2)
      then have "year_of z mod 100 \<noteq> 0" using c c4 mod_pos_pos_trivial [OF c4] by simp
      with m4 show ?thesis by (simp add: leap_def)
    qed
  qed
  moreover have "e = 3 \<or> e \<le> 2" using e by linarith
  ultimately have "r3 < 365 * e + 365 + (if leap (year_of z) then 1 else 0)"
    using e by (cases "1460 \<le> r3") auto
  with s e year_start_step [of "year_of z"] show ?thesis by auto
qed

lemma month_of_bounds:
  assumes "0 \<le> yd" and "yd < 365 + (if l then 1 else 0)"
  shows "1 \<le> month_of l yd \<and> month_of l yd \<le> 12 \<and>
    month_start l (month_of l yd) \<le> yd \<and> yd < month_start l (month_of l yd + 1)"
  using assms by (cases l) (auto simp: month_of_def)

lemma month_of_unique:
  assumes "1 \<le> m" "m \<le> 12" "month_start l m \<le> yd" "yd < month_start l (m + 1)"
  shows "month_of l yd = m"
  using assms by (cases l; cases m rule: month_cases) (auto simp: month_of_def)

text \<open>The calendar conversion is a bijection between day numbers and valid dates.\<close>

lemma days_of_civil_of_days [simp]: "days_of_civil (civil_of_days n) = n"
  by (simp add: days_of_civil_def civil_of_days_def Let_def)

lemma valid_civil_of_days [simp]: "valid_civil (civil_of_days n)"
proof -
  define z y where "z = n + 719162" and "y = year_of z"
  have "0 \<le> z - year_start y \<and> z - year_start y < 365 + (if leap y then 1 else 0)"
    using year_of_bounds [of z] year_start_step [of y] by (auto simp: y_def)
  then show ?thesis
    using month_of_bounds [of "z - year_start y" "leap y"]
    by (auto simp: valid_civil_def civil_of_days_def Let_def month_len_def z_def y_def)
qed

lemma month_start_bounds:
  "1 \<le> m \<Longrightarrow> m \<le> 12 \<Longrightarrow> 0 \<le> month_start l m \<and> month_start l (m + 1) \<le> 365 + (if l then 1 else 0)"
  by (cases m rule: month_cases) auto

lemma civil_of_days_of_civil:
  assumes "valid_civil c"
  shows "civil_of_days (days_of_civil c) = c"
proof -
  obtain y m d where c: "c = Civil y m d" by (cases c)
  have v: "1 \<le> m" "m \<le> 12" "1 \<le> d" "d \<le> month_start (leap y) (m + 1) - month_start (leap y) m"
    using assms by (simp_all add: c valid_civil_def month_len_def)
  define z where "z = year_start y + month_start (leap y) m + d - 1"
  have y: "year_of z = y"
    using v month_start_bounds [OF v(1,2), of "leap y"] year_start_step [of y] year_of_bounds [of z]
    by (intro year_unique [of _ z]) (auto simp: z_def)
  have "month_of (leap y) (z - year_start y) = m"
    using v by (intro month_of_unique) (auto simp: z_def)
  moreover have "days_of_civil c + 719162 = z" by (simp add: c days_of_civil_def z_def)
  ultimately have "civil_of_days (days_of_civil c) = Civil y m (z - year_start y - month_start (leap y) m + 1)"
    using y by (simp add: civil_of_days_def Let_def)
  then show ?thesis by (simp add: c z_def)
qed

text \<open>Dates are ordered as year, month and day; the day number respects that order.\<close>

instantiation civil :: linorder
begin

definition less_eq_civil :: "civil \<Rightarrow> civil \<Rightarrow> bool" where
  "less_eq_civil a b \<longleftrightarrow> cy a < cy b \<or> cy a = cy b \<and> (cm a < cm b \<or> cm a = cm b \<and> cd a \<le> cd b)"

definition less_civil :: "civil \<Rightarrow> civil \<Rightarrow> bool" where
  "less_civil a b \<longleftrightarrow> cy a < cy b \<or> cy a = cy b \<and> (cm a < cm b \<or> cm a = cm b \<and> cd a < cd b)"

instance
  by standard (auto simp: less_eq_civil_def less_civil_def intro: civil.expand)

end

lemma month_start_mono:
  "1 \<le> m \<Longrightarrow> m < m' \<Longrightarrow> m' \<le> 12 \<Longrightarrow> month_start l (m + 1) \<le> month_start l m'"
  by (cases m rule: month_cases; cases m' rule: month_cases) auto

lemma valid_civil_year_bounds:
  "valid_civil c \<Longrightarrow> year_start (cy c) \<le> days_of_civil c + 719162 \<and>
    days_of_civil c + 719162 < year_start (cy c + 1)"
  using month_start_bounds [of "cm c" "leap (cy c)"] year_start_step [of "cy c"]
  by (auto simp: valid_civil_def month_len_def days_of_civil_def)

lemma days_of_civil_strict_mono:
  assumes "valid_civil a" and "valid_civil b" and "a < b"
  shows "days_of_civil a < days_of_civil b"
proof -
  consider "cy a < cy b" | "cy a = cy b" "cm a < cm b" | "cy a = cy b" "cm a = cm b" "cd a < cd b"
    using assms(3) by (auto simp: less_civil_def)
  then show ?thesis
  proof cases
    case 1
    then have "year_start (cy a + 1) \<le> year_start (cy b)" by (intro year_start_mono) simp
    with valid_civil_year_bounds [OF assms(1)] valid_civil_year_bounds [OF assms(2)] show ?thesis by linarith
  next
    case 2
    with assms month_start_mono [of "cm a" "cm b" "leap (cy b)"] show ?thesis
      by (auto simp: days_of_civil_def valid_civil_def month_len_def)
  qed (simp add: days_of_civil_def)
qed

lemma days_of_civil_le_iff:
  "valid_civil a \<Longrightarrow> valid_civil b \<Longrightarrow> days_of_civil a \<le> days_of_civil b \<longleftrightarrow> a \<le> b"
  using days_of_civil_strict_mono [of a b] days_of_civil_strict_mono [of b a]
  by (metis le_less linorder_not_less)

lemma civil_of_days_le_iff: "civil_of_days m \<le> civil_of_days n \<longleftrightarrow> m \<le> n"
  using days_of_civil_le_iff [of "civil_of_days m" "civil_of_days n"] by simp

section \<open>Locations and instants\<close>

text \<open>
  \<open>Location.lookup\<close> of a unix second: the offset in force and the span of unix seconds in
  which it is in force.
\<close>

record zone_span =
  zs_off :: int
  zs_start :: int
  zs_end :: int

type_synonym location = "int \<Rightarrow> zone_span"

record gotime =
  gt_ns :: int
  gt_loc :: location

definition ns_per_sec :: int where "ns_per_sec = 1000000000"
definition ns_per_hour :: int where "ns_per_hour = 3600000000000"
definition ns_per_day :: int where "ns_per_day = 86400000000000"

definition fixed_zone :: "int \<Rightarrow> location" where
  "fixed_zone k = (\<lambda>_. \<lparr>zs_off = k, zs_start = - (2 ^ 63), zs_end = 2 ^ 63 - 1\<rparr>)"

definition utc :: location where "utc = fixed_zone 0"

definition local_sec :: "location \<Rightarrow> int \<Rightarrow> int" where
  "local_sec z ns = ns div ns_per_sec + zs_off (z (ns div ns_per_sec))"

definition t_day :: "gotime \<Rightarrow> int" where
  "t_day t = local_sec (gt_loc t) (gt_ns t) div 86400"

definition t_sec_of_day :: "gotime \<Rightarrow> int" where
  "t_sec_of_day t = local_sec (gt_loc t) (gt_ns t) mod 86400"

definition t_civil :: "gotime \<Rightarrow> civil" where
  "t_civil t = civil_of_days (t_day t)"

definition t_hour :: "gotime \<Rightarrow> int" where
  "t_hour t = t_sec_of_day t div 3600"

definition t_weekday :: "gotime \<Rightarrow> int" where
  "t_weekday t = weekday_of_days (t_day t)"

definition t_in :: "gotime \<Rightarrow> location \<Rightarrow> gotime" where
  "t_in t z = t\<lparr>gt_loc := z\<rparr>"

definition t_before :: "gotime \<Rightarrow> gotime \<Rightarrow> bool" where
  "t_before a b \<longleftrightarrow> gt_ns a < gt_ns b"

definition t_add :: "gotime \<Rightarrow> int \<Rightarrow> gotime" where
  "t_add t d = t\<lparr>gt_ns := gt_ns t + d\<rparr>"

text \<open>\<open>Time.Sub\<close> saturates at the ends of the 64-bit duration.\<close>

definition t_sub :: "gotime \<Rightarrow> gotime \<Rightarrow> int" where
  "t_sub a b = max (- (2 ^ 63)) (min (2 ^ 63 - 1) (gt_ns a - gt_ns b))"

definition zero_ns :: int where "zero_ns = - 62135596800 * 1000000000"

definition t_is_zero :: "gotime \<Rightarrow> bool" where "t_is_zero t \<longleftrightarrow> gt_ns t = zero_ns"

definition zero_time :: gotime where "zero_time = \<lparr>gt_ns = zero_ns, gt_loc = utc\<rparr>"

text \<open>
  \<open>time.Date\<close> for day number \<open>n\<close> and second \<open>s\<close> of the day: the offset of the span
  found by reading the wall clock as UTC is used unless the resulting instant lies outside
  that span, then the offset at that instant is used.
\<close>

definition go_date :: "location \<Rightarrow> int \<Rightarrow> int \<Rightarrow> gotime" where
  "go_date z n s = (let unix = n * 86400 + s; sp = z unix in
     if zs_off sp = 0 then \<lparr>gt_ns = unix * ns_per_sec, gt_loc = z\<rparr>
     else (let u = unix - zs_off sp;
               off = (if u < zs_start sp \<or> zs_end sp \<le> u then zs_off (z u) else zs_off sp)
           in \<lparr>gt_ns = (unix - off) * ns_per_sec, gt_loc = z\<rparr>))"

definition mk_date :: "int \<Rightarrow> int \<Rightarrow> int \<Rightarrow> int \<Rightarrow> location \<Rightarrow> gotime" where
  "mk_date y m d s z =
     go_date z (days_of_civil (Civil (y + (m - 1) div 12) ((m - 1) mod 12 + 1) 1) + (d - 1)) s"

definition add_days :: "gotime \<Rightarrow> int \<Rightarrow> gotime" where
  "add_days t k = (let c = t_civil t;
      t' = mk_date (cy c) (cm c) (cd c + k) (t_sec_of_day t) (gt_loc t)
    in t'\<lparr>gt_ns := gt_ns t' + gt_ns t mod ns_per_sec\<rparr>)"

definition trunc_div :: "int \<Rightarrow> int \<Rightarrow> int" where
  "trunc_div a b = (if 0 \<le> a then a div b else - ((- a) div b))"

lemma civil_first_of_month: "days_of_civil (Civil y m 1) + (d - 1) = days_of_civil (Civil y m d)"
  by (simp add: days_of_civil_def)

lemma mk_date_civil:
  assumes "valid_civil c"
  shows "mk_date (cy c) (cm c) (cd c + k) s z = go_date z (days_of_civil c + k) s"
proof -
  have m: "(cm c - 1) div 12 = 0" "(cm c - 1) mod 12 = cm c - 1"
    using assms by (auto simp: valid_civil_def intro: div_pos_pos_trivial mod_pos_pos_trivial)
  show ?thesis
    using civil_first_of_month [of "cy c" "cm c" "cd c"]
    by (simp add: mk_date_def m civil_first_of_month) (simp add: days_of_civil_def algebra_simps)
qed

lemma mk_date_t_civil:
  "mk_date (cy (t_civil t)) (cm (t_civil t)) (cd (t_civil t) + k) s z = go_date z (t_day t + k) s"
  using mk_date_civil [of "t_civil t"] by (simp add: t_civil_def)

lemma mk_date_t_civil0 [simp]:
  "mk_date (cy (t_civil t)) (cm (t_civil t)) (cd (t_civil t)) s z = go_date z (t_day t) s"
  using mk_date_t_civil [of t 0] by simp

lemma gt_loc_go_date [simp]: "gt_loc (go_date z n s) = z"
  by (simp add: go_date_def Let_def)

lemma gt_ns_go_date_mod [simp]: "gt_ns (go_date z n s) mod ns_per_sec = 0"
  by (simp add: go_date_def Let_def)

lemma t_in_simps [simp]: "gt_ns (t_in t z) = gt_ns t" "gt_loc (t_in t z) = z"
  by (simp_all add: t_in_def)

lemma t_in_self [simp]: "t_in t (gt_loc t) = t"
  by (simp add: t_in_def)

lemma t_in_go_date [simp]: "t_in (go_date z n s) z = go_date z n s"
  by (simp add: t_in_def go_date_def Let_def)

lemma gt_loc_add_days [simp]: "gt_loc (add_days t k) = gt_loc t"
  by (simp add: add_days_def Let_def mk_date_def)

section \<open>Zones whose clock shows a boundary of the day exactly\<close>

text \<open>
  The rules compare an instant with the start of a day, 8:00, 12:00 and 20:00 of the
  workspace's clock. \<open>civil_zone\<close> is what they rely on: such a boundary, as \<open>time.Date\<close>
  computes it, is passed exactly when the wall clock has reached it, and the wall clock then
  reads it. It holds in every zone whose clock changes fall between midnight and 8:00.
\<close>

definition day_marks :: "int list" where "day_marks = [0, 28800, 43200, 72000]"

locale civil_zone =
  fixes z :: location
  assumes mark_reached:
      "s \<in> set day_marks \<Longrightarrow> gt_ns (go_date z n s) \<le> t \<longleftrightarrow> n * 86400 + s \<le> local_sec z t"
    and mark_shown:
      "s \<in> set day_marks \<Longrightarrow> local_sec z (gt_ns (go_date z n s)) = n * 86400 + s"
begin

lemma midnight_reached: "gt_ns (go_date z n 0) \<le> gt_ns t \<longleftrightarrow> n \<le> t_day (t_in t z)"
  using mark_reached [of 0 n "gt_ns t"]
  by (simp add: day_marks_def t_day_def le_div_iff_int)

lemma before_midnight: "t_before (t_in t z) (go_date z n 0) \<longleftrightarrow> t_day (t_in t z) < n"
  using midnight_reached [of n t] by (auto simp: t_before_def)

lemma midnight_day [simp]: "t_day (go_date z n 0) = n"
  using mark_shown [of 0 n] by (simp add: day_marks_def t_day_def)

lemma midnight_sec [simp]: "t_sec_of_day (go_date z n 0) = 0"
  using mark_shown [of 0 n] by (simp add: day_marks_def t_sec_of_day_def)

lemma midnight_add_days [simp]: "add_days (go_date z n 0) k = go_date z (n + k) 0"
  by (simp add: add_days_def Let_def mk_date_t_civil)

lemma midnight_less [simp]: "t_before (go_date z m 0) (go_date z n 0) \<longleftrightarrow> m < n"
  using midnight_reached [of n "go_date z m 0"] by (auto simp: t_before_def t_in_go_date)

lemma hour_mark_reached:
  assumes "s \<in> set day_marks"
  shows "t_before (t_in t z) (go_date z n s) \<longleftrightarrow> t_day (t_in t z) * 86400 + t_sec_of_day (t_in t z) < n * 86400 + s"
  using mark_reached [OF assms, of n "gt_ns t"]
  by (auto simp: t_before_def t_day_def t_sec_of_day_def)

end

lemma fixed_zone_go_date: "gt_ns (go_date (fixed_zone k) n s) = (n * 86400 + s - k) * ns_per_sec"
  by (simp add: go_date_def fixed_zone_def Let_def)

lemma civil_zone_fixed: "civil_zone (fixed_zone k)"
proof
  fix s n t :: int
  have "gt_ns (go_date (fixed_zone k) n s) \<le> t \<longleftrightarrow> n * 86400 + s - k \<le> t div ns_per_sec"
    by (simp add: fixed_zone_go_date le_div_iff_int ns_per_sec_def)
  then show "gt_ns (go_date (fixed_zone k) n s) \<le> t \<longleftrightarrow> n * 86400 + s \<le> local_sec (fixed_zone k) t"
    by (auto simp: local_sec_def fixed_zone_def)
  show "local_sec (fixed_zone k) (gt_ns (go_date (fixed_zone k) n s)) = n * 86400 + s"
    unfolding fixed_zone_go_date by (simp add: local_sec_def fixed_zone_def ns_per_sec_def)
qed

text \<open>Fixed-offset zones read back every wall clock time, not only the marks.\<close>

lemma fixed_zone_reads:
  "0 \<le> s \<Longrightarrow> s < 86400 \<Longrightarrow> t_day (go_date (fixed_zone k) n s) = n"
  "0 \<le> s \<Longrightarrow> s < 86400 \<Longrightarrow> t_sec_of_day (go_date (fixed_zone k) n s) = s"
  by (simp_all add: t_day_def t_sec_of_day_def local_sec_def fixed_zone_go_date)
    (simp_all add: fixed_zone_def ns_per_sec_def mod_pos_pos_trivial div_pos_pos_trivial)

lemma utc_reads [simp]:
  "0 \<le> s \<Longrightarrow> s < 86400 \<Longrightarrow> t_day (go_date utc n s) = n"
  "0 \<le> s \<Longrightarrow> s < 86400 \<Longrightarrow> t_sec_of_day (go_date utc n s) = s"
  "0 \<le> s \<Longrightarrow> s < 86400 \<Longrightarrow> t_hour (go_date utc n s) = s div 3600"
  by (simp_all add: utc_def fixed_zone_reads t_hour_def)

interpretation fixed: civil_zone "fixed_zone k" for k
  by (rule civil_zone_fixed)

interpretation utc_zone: civil_zone utc
  unfolding utc_def by (rule civil_zone_fixed)

text \<open>
  A zone with one clock change, from offset \<open>a\<close> to offset \<open>b\<close> at instant \<open>T\<close>; the change
  of the wall clock stays within the night of one day.
\<close>

definition dst_zone :: "int \<Rightarrow> int \<Rightarrow> int \<Rightarrow> location" where
  "dst_zone a b T = (\<lambda>u. if u < T then \<lparr>zs_off = a, zs_start = - (2 ^ 63), zs_end = T\<rparr>
     else \<lparr>zs_off = b, zs_start = T, zs_end = 2 ^ 63 - 1\<rparr>)"

definition night_change :: "int \<Rightarrow> int \<Rightarrow> int \<Rightarrow> bool" where
  "night_change a b T \<longleftrightarrow> (T + a) div 86400 = (T + b) div 86400 \<and>
     0 < (T + a) mod 86400 \<and> (T + a) mod 86400 \<le> 28800 \<and>
     0 < (T + b) mod 86400 \<and> (T + b) mod 86400 \<le> 28800"

lemma night_change_mark:
  assumes "night_change a b T" and "s \<in> set day_marks"
  shows "n * 86400 + s < T + a \<and> n * 86400 + s < T + b \<or> T + a \<le> n * 86400 + s \<and> T + b \<le> n * 86400 + s"
proof -
  define D x y where "D = (T + a) div 86400" and "x = (T + a) mod 86400" and "y = (T + b) mod 86400"
  have a: "T + a = D * 86400 + x" by (simp add: D_def x_def)
  have b: "T + b = D * 86400 + y" using assms(1) by (simp add: D_def y_def night_change_def)
  have xy: "0 < x" "x \<le> 28800" "0 < y" "y \<le> 28800"
    using assms(1) by (auto simp: night_change_def x_def y_def)
  have s: "s = 0 \<or> 28800 \<le> s" "s < 86400" "0 \<le> s" using assms(2) by (auto simp: day_marks_def)
  consider "n < D" | "n = D" | "D < n" by linarith
  then show ?thesis unfolding a b using xy s by cases auto
qed

lemma dst_zone_go_date:
  assumes "night_change a b T" and "s \<in> set day_marks"
  shows "gt_ns (go_date (dst_zone a b T) n s) =
    (n * 86400 + s - (if n * 86400 + s < T + a then a else b)) * ns_per_sec"
  using night_change_mark [OF assms, of n] by (auto simp: go_date_def dst_zone_def Let_def)

lemma civil_zone_dst:
  assumes "night_change a b T"
  shows "civil_zone (dst_zone a b T)"
proof
  fix s n t :: int
  assume s: "s \<in> set day_marks"
  note m = night_change_mark [OF assms s, of n]
  have "gt_ns (go_date (dst_zone a b T) n s) \<le> t \<longleftrightarrow>
      n * 86400 + s - (if n * 86400 + s < T + a then a else b) \<le> t div ns_per_sec"
    by (simp add: dst_zone_go_date [OF assms s] le_div_iff_int ns_per_sec_def)
  then show "gt_ns (go_date (dst_zone a b T) n s) \<le> t \<longleftrightarrow> n * 86400 + s \<le> local_sec (dst_zone a b T) t"
    using m by (auto simp: local_sec_def dst_zone_def)
  show "local_sec (dst_zone a b T) (gt_ns (go_date (dst_zone a b T) n s)) = n * 86400 + s"
    unfolding dst_zone_go_date [OF assms s] using m by (auto simp: local_sec_def dst_zone_def ns_per_sec_def)
qed

text \<open>Central European time around the change of 29 March 2026, 2:00 to 3:00.\<close>

definition cet_2026 :: location where "cet_2026 = dst_zone 3600 7200 1774746000"

interpretation cet: civil_zone cet_2026
  unfolding cet_2026_def by (rule civil_zone_dst) (simp add: night_change_def)

end
