(* ===== verification/Domain_Rules.thy ===== *)
theory Domain_Rules imports Domain_Types GoTime Complex_Main begin

text \<open>
  \<open>internal/domain/rules.go\<close>: the time rules of daily tasks, routines and goals, the parser of
  the routine list, the message-deletion limit and the hash-based choices. \<open>tzdb\<close> stands
  for \<open>time.LoadLocation\<close>. A \<open>(value, bool, error)\<close> result is a sum whose right side is an
  option; a \<open>(value, bool)\<close> result is an option. DATE columns reach these rules as the UTC
  midnight of the day, all other instants as UTC times.
\<close>

type_synonym tz_database = "bytes \<Rightarrow> location option"

datatype rule_error =
  UnknownZone bytes | RoutineNeedsPrefix | RoutineItemEmpty | RoutineListEmpty | RoutineTooMany nat

definition load_location :: "tz_database \<Rightarrow> bytes \<Rightarrow> rule_error + location" where
  "load_location tzdb name = (case tzdb name of None \<Rightarrow> Inl (UnknownZone name) | Some z \<Rightarrow> Inr z)"

lemma load_location_simps [simp]:
  "tzdb name = Some z \<Longrightarrow> load_location tzdb name = Inr z"
  "tzdb name = None \<Longrightarrow> load_location tzdb name = Inl (UnknownZone name)"
  by (simp_all add: load_location_def)

definition MaxRoutineItems :: nat where "MaxRoutineItems = 9"
definition RoutineCheckinHour :: int where "RoutineCheckinHour = 8"
definition RoutineReminderHour :: int where "RoutineReminderHour = 20"
definition RoutineAutoFailHour :: int where "RoutineAutoFailHour = 0"
definition RoutineNoticeMaxAge :: int where "RoutineNoticeMaxAge = 24 * ns_per_hour"
definition TelegramDeleteLimit :: int where "TelegramDeleteLimit = 48 * ns_per_hour"
definition TelegramDeleteMargin :: int where "TelegramDeleteMargin = ns_per_hour"
definition TelegramDeleteTargetAge :: int where
  "TelegramDeleteTargetAge = TelegramDeleteLimit - TelegramDeleteMargin"
definition DailySummaryStartHour :: int where "DailySummaryStartHour = 20"
definition GoalWeeklyReviewWeekday :: int where "GoalWeeklyReviewWeekday = 0"
definition GoalWeeklyReviewHour :: int where "GoalWeeklyReviewHour = 20"
definition GoalReviewIntervalDays :: int where "GoalReviewIntervalDays = 14"
definition GoalReviewReminderDelay :: int where "GoalReviewReminderDelay = 24 * ns_per_hour"
definition GoalReviewSkipAfter :: int where
  "GoalReviewSkipAfter = GoalReviewReminderDelay + TelegramDeleteTargetAge"
definition GoalNudgePercent :: int where "GoalNudgePercent = 10"
definition GoalNudgeCooldown :: int where "GoalNudgeCooldown = 72 * ns_per_hour"
definition PersonalAlertPercent :: int where "PersonalAlertPercent = 30"
definition PendingInputMaxAge :: int where "PendingInputMaxAge = 24 * ns_per_hour"

lemmas rule_consts = MaxRoutineItems_def RoutineCheckinHour_def RoutineReminderHour_def
  RoutineAutoFailHour_def RoutineNoticeMaxAge_def TelegramDeleteLimit_def TelegramDeleteMargin_def
  TelegramDeleteTargetAge_def DailySummaryStartHour_def GoalWeeklyReviewWeekday_def
  GoalWeeklyReviewHour_def GoalReviewIntervalDays_def GoalReviewReminderDelay_def
  GoalReviewSkipAfter_def GoalNudgePercent_def GoalNudgeCooldown_def PersonalAlertPercent_def
  PendingInputMaxAge_def ns_per_hour_def

definition TelegramMessageDeleteAllowed :: "gotime \<Rightarrow> gotime \<Rightarrow> bool" where
  "TelegramMessageDeleteAllowed sentAt nowUTC =
     (if t_is_zero sentAt \<or> t_before nowUTC sentAt then False
      else t_sub nowUTC sentAt < TelegramDeleteLimit)"

datatype goal_weekly_review_action =
  GoalWeeklyReviewNoAction | GoalWeeklyReviewRemind | GoalWeeklyReviewSkip

text \<open>The empty status of the zero transition is \<open>None\<close>.\<close>

record daily_task_transition =
  NewStatus :: "daily_task_status option"
  ShouldEmitAutoFail :: bool
  ShouldEmitAwaitingReport :: bool

definition no_transition :: daily_task_transition where
  "no_transition = \<lparr>NewStatus = None, ShouldEmitAutoFail = False, ShouldEmitAwaitingReport = False\<rparr>"

record goal_period =
  gp_key :: bytes
  gp_title :: msg
  gp_starts :: gotime
  gp_ends :: gotime

section \<open>The routine list\<close>

definition em_dash :: bytes where "em_dash = [byte 0xE2, byte 0x80, byte 0x94]"

text \<open>The numbered prefix: digits, then a dot or a parenthesis that is not the first rune.\<close>

fun parse_number_prefix :: "nat \<Rightarrow> bytes \<Rightarrow> bytes option" where
  "parse_number_prefix i [] = None"
| "parse_number_prefix i (c # cs) = (if digit_val c \<noteq> None then parse_number_prefix (Suc i) cs
     else if 0 < i \<and> (c = CHR ''.'' \<or> c = CHR '')'') then Some (trim_space cs) else None)"

definition parse_routine_item_line :: "bytes \<Rightarrow> bytes option" where
  "parse_routine_item_line trimmed =
     (if has_prefix trimmed ''-'' then Some (trim_space (trim_prefix trimmed ''-''))
      else if has_prefix trimmed em_dash then Some (trim_space (trim_prefix trimmed em_dash))
      else parse_number_prefix 0 trimmed)"

fun collect_items :: "bytes list \<Rightarrow> bytes list \<Rightarrow> rule_error + bytes list" where
  "collect_items items [] = Inr items"
| "collect_items items (line # ls) = (let trimmed = trim_space line in
     if trimmed = [] then collect_items items ls
     else (case parse_routine_item_line trimmed of
         None \<Rightarrow> Inl RoutineNeedsPrefix
       | Some item \<Rightarrow> if item = [] then Inl RoutineItemEmpty else collect_items (items @ [item]) ls))"

definition ParseRoutineItems :: "bytes \<Rightarrow> rule_error + bytes list" where
  "ParseRoutineItems raw = (case collect_items [] (split_on (CHR 0x0A) raw) of
      Inl e \<Rightarrow> Inl e
    | Inr items \<Rightarrow> if items = [] then Inl RoutineListEmpty
        else if MaxRoutineItems < length items then Inl (RoutineTooMany (length items))
        else Inr items)"

definition RoutineScore :: "routine_item_status \<Rightarrow> rat" where
  "RoutineScore status = (case status of RoutineItemDone \<Rightarrow> 1 | RoutineItemPartial \<Rightarrow> 1 / 2
     | RoutineItemFailed \<Rightarrow> 0)"

section \<open>Routine check-ins\<close>

definition local_midnight :: "gotime \<Rightarrow> location \<Rightarrow> gotime" where
  "local_midnight t z = (let c = t_civil (t_in t z) in mk_date (cy c) (cm c) (cd c) 0 z)"

definition RoutinePreviousCheckinDate :: "tz_database \<Rightarrow> gotime \<Rightarrow> bytes \<Rightarrow> gotime \<Rightarrow> gotime option" where
  "RoutinePreviousCheckinDate tzdb planCreatedAt tz nowUTC = (case load_location tzdb tz of
      Inl e \<Rightarrow> None
    | Inr location \<Rightarrow>
        (let today = local_midnight nowUTC location;
             checkinDate = add_days today (- 1);
             createdDate = local_midnight planCreatedAt location
         in if t_before checkinDate createdDate then None else Some checkinDate))"

definition RoutineCheckinDue :: "tz_database \<Rightarrow> gotime \<Rightarrow> bytes \<Rightarrow> gotime \<Rightarrow> rule_error + gotime option" where
  "RoutineCheckinDue tzdb planCreatedAt tz nowUTC = (case load_location tzdb tz of
      Inl e \<Rightarrow> Inl e
    | Inr location \<Rightarrow>
        if t_hour (t_in nowUTC location) < RoutineCheckinHour then Inr None
        else Inr (RoutinePreviousCheckinDate tzdb planCreatedAt tz nowUTC))"

definition RoutinePlanChangeSnapshotDate :: "tz_database \<Rightarrow> gotime \<Rightarrow> bytes \<Rightarrow> gotime \<Rightarrow> gotime option" where
  "RoutinePlanChangeSnapshotDate tzdb planCreatedAt tz nowUTC = (case load_location tzdb tz of
      Inl e \<Rightarrow> None
    | Inr location \<Rightarrow>
        (let today = local_midnight nowUTC location;
             activeDate = (if t_hour (t_in nowUTC location) < RoutineCheckinHour
                           then add_days today (- 1) else today);
             createdDate = local_midnight planCreatedAt location
         in if t_before activeDate createdDate then None else Some activeDate))"

definition routineCheckinLocalDate :: "gotime \<Rightarrow> location \<Rightarrow> gotime" where
  "routineCheckinLocalDate checkinDate location =
     (let c = t_civil checkinDate in mk_date (cy c) (cm c) (cd c) 0 location)"

definition at_hour :: "gotime \<Rightarrow> int \<Rightarrow> location \<Rightarrow> gotime" where
  "at_hour t h z = (let c = t_civil t in mk_date (cy c) (cm c) (cd c) (h * 3600) z)"

definition RoutineReminderDue ::
    "tz_database \<Rightarrow> gotime \<Rightarrow> bytes \<Rightarrow> int option \<Rightarrow> int option \<Rightarrow> gotime \<Rightarrow> rule_error + bool" where
  "RoutineReminderDue tzdb checkinDate tz reminderSentAt completedAt nowUTC =
     (if reminderSentAt \<noteq> None \<or> completedAt \<noteq> None then Inr False
      else (case load_location tzdb tz of
          Inl e \<Rightarrow> Inl e
        | Inr location \<Rightarrow>
            (let localNow = t_in nowUTC location;
                 nextDay = add_days (routineCheckinLocalDate checkinDate location) 1;
                 reminderAt = at_hour nextDay RoutineReminderHour location;
                 deadlineDay = add_days nextDay 1;
                 deadline = at_hour deadlineDay RoutineAutoFailHour location
             in Inr (\<not> t_before localNow reminderAt \<and> t_before localNow deadline))))"

definition RoutineAutoFailDue ::
    "tz_database \<Rightarrow> gotime \<Rightarrow> bytes \<Rightarrow> int option \<Rightarrow> gotime \<Rightarrow> rule_error + bool" where
  "RoutineAutoFailDue tzdb checkinDate tz completedAt nowUTC =
     (if completedAt \<noteq> None then Inr False
      else (case load_location tzdb tz of
          Inl e \<Rightarrow> Inl e
        | Inr location \<Rightarrow>
            (let localNow = t_in nowUTC location;
                 nextDay = add_days (routineCheckinLocalDate checkinDate location) 2;
                 deadline = at_hour nextDay RoutineAutoFailHour location
             in Inr (\<not> t_before localNow deadline))))"

section \<open>Goal periods and reviews\<close>

text \<open>
  The four seasons: key prefix, title key, season year, start and end month for a year and a
  month. The winter of \<open>seasonYear\<close> ends in the next year.
\<close>

definition season_of :: "int \<Rightarrow> int \<Rightarrow> bytes \<times> msg \<times> int \<times> int \<times> int \<times> bool" where
  "season_of year month =
     (if 3 \<le> month \<and> month \<le> 5 then
        (''spring-'' @ show_int year, Msg ''season.spring'' [(''year'', show_int year)], year, 3, 6, False)
      else if 6 \<le> month \<and> month \<le> 8 then
        (''summer-'' @ show_int year, Msg ''season.summer'' [(''year'', show_int year)], year, 6, 9, False)
      else if 9 \<le> month \<and> month \<le> 11 then
        (''autumn-'' @ show_int year, Msg ''season.autumn'' [(''year'', show_int year)], year, 9, 12, False)
      else (let seasonYear = (if month \<le> 2 then year - 1 else year) in
        (''winter-'' @ show_int seasonYear,
         Msg ''season.winter'' [(''start_year'', show_int seasonYear), (''end_year'', show_int (seasonYear + 1))],
         seasonYear, 12, 3, True)))"

definition CurrentGoalPeriod :: "tz_database \<Rightarrow> bytes \<Rightarrow> gotime \<Rightarrow> rule_error + goal_period" where
  "CurrentGoalPeriod tzdb tz nowUTC = (case load_location tzdb tz of
      Inl e \<Rightarrow> Inl e
    | Inr location \<Rightarrow>
        (let c = t_civil (t_in nowUTC location);
             (key, title, seasonYear, startMonth, endMonth, isWinter) = season_of (cy c) (cm c);
             startYear = seasonYear;
             endYear = (if isWinter then seasonYear + 1 else seasonYear)
         in Inr \<lparr>gp_key = key, gp_title = title,
                 gp_starts = mk_date startYear startMonth 1 0 location,
                 gp_ends = mk_date endYear endMonth 1 0 location\<rparr>))"

definition calendarDate :: "gotime \<Rightarrow> location \<Rightarrow> gotime" where
  "calendarDate value location = (let c = t_civil value in mk_date (cy c) (cm c) (cd c) 0 location)"

text \<open>
  The duration between two UTC midnights in hours is a whole number that a \<open>float64\<close> holds
  exactly, so \<open>int(Hours() / 24)\<close> is the truncated division of the (saturating) duration.
\<close>

definition calendarDaysBetween :: "gotime \<Rightarrow> gotime \<Rightarrow> int" where
  "calendarDaysBetween start end =
     (let a = t_civil start; b = t_civil end;
          startUTC = mk_date (cy a) (cm a) (cd a) 0 utc;
          endUTC = mk_date (cy b) (cm b) (cd b) 0 utc
      in trunc_div (t_sub endUTC startUTC) ns_per_day)"

definition goalReviewDateDue :: "gotime \<Rightarrow> gotime \<Rightarrow> location \<Rightarrow> bool" where
  "goalReviewDateDue periodStartsOn localDate location =
     (let startDate = calendarDate periodStartsOn location;
          daysSinceStart = calendarDaysBetween startDate localDate
      in if daysSinceStart < GoalReviewIntervalDays - 1 then False
         else (let reviewWeekIndex = (daysSinceStart - (GoalReviewIntervalDays - 1)) div 7
               in reviewWeekIndex mod 2 = 0))"

definition GoalWeeklyReviewDue :: "tz_database \<Rightarrow> gotime \<Rightarrow> bytes \<Rightarrow> gotime \<Rightarrow> rule_error + gotime option" where
  "GoalWeeklyReviewDue tzdb periodStartsOn tz nowUTC = (case load_location tzdb tz of
      Inl e \<Rightarrow> Inl e
    | Inr location \<Rightarrow>
        (let localNow = t_in nowUTC location in
         if t_weekday localNow \<noteq> GoalWeeklyReviewWeekday \<or> t_hour localNow < GoalWeeklyReviewHour then Inr None
         else (let localDate = local_midnight nowUTC location in
           if \<not> goalReviewDateDue periodStartsOn localDate location then Inr None
           else Inr (Some (add_days localDate (- ((t_weekday localNow + 6) mod 7)))))))"

definition GoalWeeklyReviewLifecycleAction ::
    "gotime \<Rightarrow> int option \<Rightarrow> int option \<Rightarrow> int option \<Rightarrow> gotime \<Rightarrow> goal_weekly_review_action" where
  "GoalWeeklyReviewLifecycleAction requestedAt reminderSentAt respondedAt skippedAt nowUTC =
     (if respondedAt \<noteq> None \<or> skippedAt \<noteq> None
          \<or> t_before nowUTC (t_add requestedAt GoalReviewReminderDelay) then GoalWeeklyReviewNoAction
      else if \<not> t_before nowUTC (t_add requestedAt GoalReviewSkipAfter) then GoalWeeklyReviewSkip
      else if reminderSentAt = None then GoalWeeklyReviewRemind
      else GoalWeeklyReviewNoAction)"

partial_function (option) review_count_loop ::
    "gotime \<Rightarrow> location \<Rightarrow> gotime \<Rightarrow> gotime \<Rightarrow> int \<Rightarrow> int option" where
  "review_count_loop periodStartsOn location endDate date reviewsLeft =
     (if t_before date endDate then
        review_count_loop periodStartsOn location endDate (add_days date 1)
          (if t_weekday date = GoalWeeklyReviewWeekday \<and> goalReviewDateDue periodStartsOn date location
           then reviewsLeft + 1 else reviewsLeft)
      else Some reviewsLeft)"

definition GoalReviewCountdown ::
    "tz_database \<Rightarrow> gotime \<Rightarrow> gotime \<Rightarrow> bytes \<Rightarrow> gotime \<Rightarrow> (rule_error + int \<times> int) option" where
  "GoalReviewCountdown tzdb periodStartsOn periodEndsOn tz nowUTC = (case load_location tzdb tz of
      Inl e \<Rightarrow> Some (Inl e)
    | Inr location \<Rightarrow>
        (let localDate = local_midnight nowUTC location;
             endDate = calendarDate periodEndsOn location
         in if \<not> t_before localDate endDate then Some (Inr (0, 0))
            else (case review_count_loop periodStartsOn location endDate (add_days localDate 1) 0 of
                None \<Rightarrow> None
              | Some reviewsLeft \<Rightarrow> Some (Inr (calendarDaysBetween localDate endDate, reviewsLeft)))))"

definition GoalFinalReviewDue :: "tz_database \<Rightarrow> gotime \<Rightarrow> bytes \<Rightarrow> gotime \<Rightarrow> rule_error + bool" where
  "GoalFinalReviewDue tzdb periodEndsOn tz nowUTC = (case load_location tzdb tz of
      Inl e \<Rightarrow> Inl e
    | Inr location \<Rightarrow>
        Inr (\<not> t_before (local_midnight nowUTC location) (calendarDate periodEndsOn location)))"

section \<open>Choices by hash\<close>

definition shouldShowPercent :: "bytes \<Rightarrow> int \<Rightarrow> bool" where
  "shouldShowPercent seed percent \<longleftrightarrow> fnv32a seed mod 100 < word_of_int percent"

definition ShouldShowGoalNudge :: "bytes \<Rightarrow> bool" where
  "ShouldShowGoalNudge seed = shouldShowPercent seed GoalNudgePercent"

definition normalizeUsername :: "(bytes \<Rightarrow> bytes) \<Rightarrow> bytes \<Rightarrow> bytes" where
  "normalizeUsername uni username = trim_prefix (to_lower uni (trim_space username)) ''@''"

definition isPersonalAlertTarget :: "(bytes \<Rightarrow> bytes) \<Rightarrow> bytes \<Rightarrow> bool" where
  "isPersonalAlertTarget uni username \<longleftrightarrow> normalizeUsername uni username = ''whysoxxx''"

definition ShouldShowPersonalAlert :: "(bytes \<Rightarrow> bytes) \<Rightarrow> bytes \<Rightarrow> bytes \<Rightarrow> bool" where
  "ShouldShowPersonalAlert uni username seed =
     (if \<not> isPersonalAlertTarget uni username then False
      else shouldShowPercent (normalizeUsername uni username @ '':'' @ seed) PersonalAlertPercent)"

definition GoalNudgeAllowed :: "int option \<Rightarrow> gotime \<Rightarrow> bool" where
  "GoalNudgeAllowed lastShownAt nowUTC = (case lastShownAt of None \<Rightarrow> True
     | Some shown \<Rightarrow> \<not> gt_ns nowUTC < shown + GoalNudgeCooldown)"

section \<open>Daily tasks\<close>

definition NextDailyTaskTransition ::
    "tz_database \<Rightarrow> gotime \<Rightarrow> bytes \<Rightarrow> daily_task_status \<Rightarrow> gotime \<Rightarrow> rule_error + daily_task_transition" where
  "NextDailyTaskTransition tzdb taskDate tz currentStatus nowUTC = (case load_location tzdb tz of
      Inl e \<Rightarrow> Inl e
    | Inr location \<Rightarrow>
        (let localNow = t_in nowUTC location;
             c = t_civil (t_in taskDate location);
             nextDay = mk_date (cy c) (cm c) (cd c + 1) 0 location;
             noon = mk_date (cy c) (cm c) (cd c + 1) (12 * 3600) location
         in if currentStatus = DailyTaskActive \<and> \<not> t_before localNow noon then
              Inr (no_transition\<lparr>NewStatus := Some DailyTaskFailed, ShouldEmitAutoFail := True\<rparr>)
            else if currentStatus = DailyTaskActive \<and> \<not> t_before localNow nextDay then
              Inr (no_transition\<lparr>NewStatus := Some DailyTaskAwaitingReport, ShouldEmitAwaitingReport := True\<rparr>)
            else if currentStatus = DailyTaskAwaitingReport \<and> \<not> t_before localNow noon then
              Inr (no_transition\<lparr>NewStatus := Some DailyTaskFailed, ShouldEmitAutoFail := True\<rparr>)
            else Inr no_transition))"

definition IsDailySummaryTime :: "tz_database \<Rightarrow> bytes \<Rightarrow> gotime \<Rightarrow> rule_error + bool" where
  "IsDailySummaryTime tzdb tz nowUTC = (case load_location tzdb tz of
      Inl e \<Rightarrow> Inl e
    | Inr location \<Rightarrow>
        (let localNow = t_in nowUTC location;
             cutoff = at_hour localNow DailySummaryStartHour location
         in Inr (\<not> t_before localNow cutoff)))"

definition LocalTaskDate :: "tz_database \<Rightarrow> bytes \<Rightarrow> gotime \<Rightarrow> rule_error + gotime" where
  "LocalTaskDate tzdb tz nowUTC = (case load_location tzdb tz of
      Inl e \<Rightarrow> Inl e
    | Inr location \<Rightarrow> Inr (local_midnight nowUTC location))"

section \<open>Lemmas: days of the workspace's clock\<close>

lemma local_midnight_eq: "local_midnight t z = go_date z (t_day (t_in t z)) 0"
  by (simp add: local_midnight_def Let_def)

lemma calendarDate_eq: "calendarDate t z = go_date z (t_day t) 0"
  by (simp add: calendarDate_def Let_def)

lemma routineCheckinLocalDate_eq: "routineCheckinLocalDate t z = go_date z (t_day t) 0"
  by (simp add: routineCheckinLocalDate_def Let_def)

lemma at_hour_eq: "at_hour t h z = go_date z (t_day t) (h * 3600)"
  by (simp add: at_hour_def Let_def)

lemmas day_eqs = local_midnight_eq calendarDate_eq routineCheckinLocalDate_eq at_hour_eq

lemma t_sec_of_day_bounds: "0 \<le> t_sec_of_day t \<and> t_sec_of_day t < 86400"
  by (simp add: t_sec_of_day_def)

lemma t_hour_le_iff: "h \<le> t_hour t \<longleftrightarrow> h * 3600 \<le> t_sec_of_day t"
  by (simp add: t_hour_def le_div_iff_int)

lemma t_hour_less_iff: "t_hour t < h \<longleftrightarrow> t_sec_of_day t < h * 3600"
  by (simp add: t_hour_def div_less_iff_int)

lemma trunc_div_mult: "0 < k \<Longrightarrow> trunc_div (d * k) k = d"
  by (simp add: trunc_div_def zdiv_zminus1_eq_if)

lemma gt_ns_utc_date: "gt_ns (go_date utc n s) = (n * 86400 + s) * ns_per_sec"
  by (simp add: utc_def fixed_zone_go_date)

lemma calendarDaysBetween_exact:
  assumes "\<bar>t_day b - t_day a\<bar> \<le> 106751"
  shows "calendarDaysBetween a b = t_day b - t_day a"
proof -
  have "gt_ns (go_date utc (t_day b) 0) - gt_ns (go_date utc (t_day a) 0) = (t_day b - t_day a) * ns_per_day"
    by (simp add: gt_ns_utc_date ns_per_sec_def ns_per_day_def)
  moreover have "- (2 ^ 63) \<le> (t_day b - t_day a) * ns_per_day" "(t_day b - t_day a) * ns_per_day \<le> 2 ^ 63 - 1"
    using assms by (auto simp: ns_per_day_def abs_le_iff)
  ultimately have "t_sub (go_date utc (t_day b) 0) (go_date utc (t_day a) 0) = (t_day b - t_day a) * ns_per_day"
    by (simp add: t_sub_def)
  then show ?thesis
    using trunc_div_mult [of ns_per_day "t_day b - t_day a"]
    by (simp add: calendarDaysBetween_def Let_def) (simp add: ns_per_day_def)
qed

text \<open>The Sundays on which a review is due, by day number.\<close>

definition review_day :: "int \<Rightarrow> int \<Rightarrow> bool" where
  "review_day s d \<longleftrightarrow> weekday_of_days d = 0 \<and> 13 \<le> d - s \<and> (d - s - 13) div 7 mod 2 = 0"

lemma review_day_alternates:
  assumes "weekday_of_days d = 0" and "13 \<le> d - s"
  shows "review_day s (d + 7) \<longleftrightarrow> \<not> review_day s d"
proof -
  have "(d + 7 - s - 13) div 7 = (d - s - 13) div 7 + 1"
    using div_add_self1 [of 7 "d - s - 13"] by (simp add: algebra_simps)
  moreover have "weekday_of_days (d + 7) = 0" 
    using assms(1) mod_add_self2 [of "d + 4" 7] by (simp add: weekday_of_days_def algebra_simps)
  ultimately show ?thesis using assms by (auto simp: review_day_def) presburger+
qed

context civil_zone
begin

lemma localDate_day: "t_day (local_midnight t z) = t_day (t_in t z)"
  by (simp add: day_eqs)

lemma day_mark_less:
  "h * 3600 \<in> set day_marks \<Longrightarrow> t_before (t_in t z) (go_date z n (h * 3600)) \<longleftrightarrow>
     t_day (t_in t z) < n \<or> t_day (t_in t z) = n \<and> t_hour (t_in t z) < h"
  unfolding hour_mark_reached t_hour_less_iff
  using t_sec_of_day_bounds [of "t_in t z"] by (auto simp: day_marks_def)

lemma previous_checkin:
  assumes "tzdb tz = Some z"
  shows "RoutinePreviousCheckinDate tzdb created tz now =
    (if t_day (t_in created z) < t_day (t_in now z) then Some (go_date z (t_day (t_in now z) - 1) 0) else None)"
  using assms by (auto simp: RoutinePreviousCheckinDate_def day_eqs Let_def)

lemma checkin_due:
  assumes "tzdb tz = Some z"
  shows "RoutineCheckinDue tzdb created tz now = Inr
    (if 8 \<le> t_hour (t_in now z) \<and> t_day (t_in created z) < t_day (t_in now z)
     then Some (go_date z (t_day (t_in now z) - 1) 0) else None)"
  using assms by (auto simp: RoutineCheckinDue_def previous_checkin RoutineCheckinHour_def)

lemma snapshot_date:
  assumes "tzdb tz = Some z"
  shows "RoutinePlanChangeSnapshotDate tzdb created tz now =
    (let d = (if t_hour (t_in now z) < 8 then t_day (t_in now z) - 1 else t_day (t_in now z))
     in if d < t_day (t_in created z) then None else Some (go_date z d 0))"
  using assms by (auto simp: RoutinePlanChangeSnapshotDate_def day_eqs Let_def RoutineCheckinHour_def)

lemma reminder_due:
  assumes "tzdb tz = Some z"
  shows "RoutineReminderDue tzdb checkin tz None None now =
    Inr (t_day (t_in now z) = t_day checkin + 1 \<and> 20 \<le> t_hour (t_in now z))"
proof -
  have m: "20 * 3600 \<in> set day_marks" by (simp add: day_marks_def)
  show ?thesis
    using assms day_mark_less [OF m, of now "t_day checkin + 1"]
    by (auto simp: RoutineReminderDue_def Let_def day_eqs RoutineReminderHour_def RoutineAutoFailHour_def
        before_midnight)
qed

lemma autofail_due:
  assumes "tzdb tz = Some z"
  shows "RoutineAutoFailDue tzdb checkin tz None now = Inr (t_day checkin + 2 \<le> t_day (t_in now z))"
  using assms by (auto simp: RoutineAutoFailDue_def Let_def day_eqs RoutineAutoFailHour_def before_midnight)

lemma final_review_due:
  assumes "tzdb tz = Some z"
  shows "GoalFinalReviewDue tzdb ends tz now = Inr (t_day ends \<le> t_day (t_in now z))"
  using assms by (auto simp: GoalFinalReviewDue_def day_eqs)

lemma review_date_due:
  assumes "\<bar>t_day d - t_day starts\<bar> \<le> 106751" and "t_weekday d = 0"
  shows "goalReviewDateDue starts d z \<longleftrightarrow> review_day (t_day starts) (t_day d)"
  using assms calendarDaysBetween_exact [of d "calendarDate starts z"]
  by (auto simp: goalReviewDateDue_def Let_def review_day_def GoalReviewIntervalDays_def
      t_weekday_def calendarDate_eq)

lemma weekly_review_due:
  assumes "tzdb tz = Some z" and "\<bar>t_day (t_in now z) - t_day starts\<bar> \<le> 106751"
  shows "GoalWeeklyReviewDue tzdb starts tz now = Inr
    (if review_day (t_day starts) (t_day (t_in now z)) \<and> 20 \<le> t_hour (t_in now z)
     then Some (go_date z (t_day (t_in now z) - 6) 0) else None)"
proof -
  define d where "d = t_day (t_in now z)"
  have due: "goalReviewDateDue starts (go_date z d 0) z \<longleftrightarrow> review_day (t_day starts) d"
    if "weekday_of_days d = 0"
    using review_date_due [of "go_date z d 0" starts] assms(2) that by (simp add: t_weekday_def d_def)
  have "review_day (t_day starts) d \<Longrightarrow> weekday_of_days d = 0" by (simp add: review_day_def)
  with assms(1) due show ?thesis
    by (auto simp: GoalWeeklyReviewDue_def Let_def day_eqs GoalWeeklyReviewWeekday_def
        GoalWeeklyReviewHour_def t_weekday_def simp flip: d_def)
qed

lemma count_loop:
  assumes "t_day starts \<le> d" and "e \<le> t_day starts + 106751"
  shows "review_count_loop starts z (go_date z e 0) (go_date z d 0) n =
    Some (n + int (length (filter (review_day (t_day starts)) [d..e - 1])))"
  using assms(1)
proof (induction "nat (e - d)" arbitrary: d n)
  case 0
  then show ?case by (subst review_count_loop.simps) simp
next
  case (Suc k)
  then have "d < e" by simp
  have up: "[d..e - 1] = d # [d + 1..e - 1]" using \<open>d < e\<close> by (subst upto_rec1) simp_all
  have rd: "t_weekday (go_date z d 0) = 0 \<and> goalReviewDateDue starts (go_date z d 0) z \<longleftrightarrow>
      review_day (t_day starts) d"
    using review_date_due [of "go_date z d 0" starts] Suc.prems assms(2) \<open>d < e\<close>
    by (auto simp: t_weekday_def review_day_def)
  show ?case
    using \<open>d < e\<close> Suc.hyps(2) Suc.prems
    by (subst review_count_loop.simps) (simp add: rd up Suc.hyps(1) GoalWeeklyReviewWeekday_def)
qed

lemma countdown:
  assumes "tzdb tz = Some z" and "t_day starts \<le> t_day (t_in now z)" and "t_day ends \<le> t_day starts + 106751"
  shows "GoalReviewCountdown tzdb starts ends tz now = Some (Inr
    (if t_day (t_in now z) < t_day ends
     then (t_day ends - t_day (t_in now z),
           int (length (filter (review_day (t_day starts)) [t_day (t_in now z) + 1..t_day ends - 1])))
     else (0, 0)))"
proof -
  define d where "d = t_day (t_in now z)"
  have "calendarDaysBetween (go_date z d 0) (go_date z (t_day ends) 0) = t_day ends - d" if "d < t_day ends"
    using calendarDaysBetween_exact [of "go_date z (t_day ends) 0" "go_date z d 0"] assms(2,3) that
    by (simp add: d_def)
  then show ?thesis
    using assms by (auto simp: GoalReviewCountdown_def Let_def day_eqs count_loop simp flip: d_def)
qed

lemma task_transition:
  fixes now :: gotime
  assumes "tzdb tz = Some z"
  defines "d \<equiv> t_day (t_in now z)" and "h \<equiv> t_hour (t_in now z)"
  shows "NextDailyTaskTransition tzdb taskDate tz st now = Inr
    (let D = t_day (t_in taskDate z) in
     if is_open st \<and> (D + 1 < d \<or> D + 1 = d \<and> 12 \<le> h) then
       no_transition\<lparr>NewStatus := Some DailyTaskFailed, ShouldEmitAutoFail := True\<rparr>
     else if st = DailyTaskActive \<and> D + 1 = d then
       no_transition\<lparr>NewStatus := Some DailyTaskAwaitingReport, ShouldEmitAwaitingReport := True\<rparr>
     else no_transition)"
proof -
  have m: "12 * 3600 \<in> set day_marks" by (simp add: day_marks_def)
  have noon: "t_before (t_in now z) (go_date z n 43200) \<longleftrightarrow> d < n \<or> d = n \<and> h < 12" for n
    using day_mark_less [OF m, of now n] by (simp add: d_def h_def)
  show ?thesis
    unfolding NextDailyTaskTransition_def load_location_simps(1) [where tzdb = tzdb, OF assms(1)]
      sum.case Let_def mk_date_t_civil
    by (cases st) (auto simp: noon before_midnight simp flip: d_def)
qed

lemma summary_time:
  assumes "tzdb tz = Some z"
  shows "IsDailySummaryTime tzdb tz now = Inr (20 \<le> t_hour (t_in now z))"
proof -
  have m: "20 * 3600 \<in> set day_marks" by (simp add: day_marks_def)
  show ?thesis
    using assms day_mark_less [OF m, of now "t_day (t_in now z)"]
    by (auto simp: IsDailySummaryTime_def Let_def day_eqs DailySummaryStartHour_def)
qed

end

section \<open>Lemmas: seasons\<close>

lemma mk_date_first: "1 \<le> m \<Longrightarrow> m \<le> 12 \<Longrightarrow> mk_date y m 1 0 z = go_date z (days_of_civil (Civil y m 1)) 0"
  by (simp add: mk_date_def div_pos_pos_trivial mod_pos_pos_trivial)

lemma valid_first: "1 \<le> m \<Longrightarrow> m \<le> 12 \<Longrightarrow> valid_civil (Civil y m 1)"
  by (cases m rule: month_cases) (auto simp: valid_civil_def month_len_def)

text \<open>Year and first month of the season of a date.\<close>

definition season_start :: "civil \<Rightarrow> int \<times> int" where
  "season_start c = (if cm c \<le> 2 then (cy c - 1, 12) else (cy c, 3 * (cm c div 3)))"

definition season_end :: "civil \<Rightarrow> int \<times> int" where
  "season_end c = (let (y, m) = season_start c in if m = 12 then (y + 1, 3) else (y, m + 3))"

lemma season_start_month: "1 \<le> cm c \<Longrightarrow> cm c \<le> 12 \<Longrightarrow> snd (season_start c) \<in> {3, 6, 9, 12}"
  by (cases "cm c" rule: month_cases) (auto simp: season_start_def)

definition season_key :: "int \<times> int \<Rightarrow> bytes" where
  "season_key p = (if snd p = 3 then ''spring-'' else if snd p = 6 then ''summer-''
     else if snd p = 9 then ''autumn-'' else ''winter-'') @ show_int (fst p)"

lemma season_key_inj:
  "snd p \<in> {3, 6, 9, 12} \<Longrightarrow> snd q \<in> {3, 6, 9, 12} \<Longrightarrow> season_key p = season_key q \<longleftrightarrow> p = q"
  by (cases p; cases q) (auto simp: season_key_def show_int_inj)

lemma season_of_eq:
  fixes y m d :: int
  assumes "1 \<le> m" and "m \<le> 12"
  defines "p \<equiv> season_start (Civil y m d)"
  shows "\<exists>title. season_of y m = (season_key p, title, fst p, snd p, snd (season_end (Civil y m d)), snd p = 12)"
  using assms(1,2) by (cases m rule: month_cases)
    (auto simp: p_def season_of_def season_start_def season_end_def season_key_def Let_def)

lemma season_contains:
  assumes "valid_civil c"
  shows "Civil (fst (season_start c)) (snd (season_start c)) 1 \<le> c \<and>
    c < Civil (fst (season_end c)) (snd (season_end c)) 1"
proof -
  have "1 \<le> cm c" "cm c \<le> 12" "1 \<le> cd c" using assms by (auto simp: valid_civil_def)
  then show ?thesis
    by (cases "cm c" rule: month_cases)
      (auto simp: season_start_def season_end_def less_eq_civil_def less_civil_def Let_def)
qed

lemma current_period:
  fixes now :: gotime
  assumes "tzdb tz = Some z"
  defines "c \<equiv> t_civil (t_in now z)"
  shows "\<exists>p. CurrentGoalPeriod tzdb tz now = Inr p \<and> gp_key p = season_key (season_start c) \<and>
    gp_starts p = go_date z (days_of_civil (Civil (fst (season_start c)) (snd (season_start c)) 1)) 0 \<and>
    gp_ends p = go_date z (days_of_civil (Civil (fst (season_end c)) (snd (season_end c)) 1)) 0"
proof -
  have v: "valid_civil c" by (simp add: c_def t_civil_def)
  then have m: "1 \<le> cm c" "cm c \<le> 12" by (simp_all add: valid_civil_def)
  have cc: "Civil (cy c) (cm c) (cd c) = c" by (cases c) simp
  obtain title where so: "season_of (cy c) (cm c) = (season_key (season_start c), title, fst (season_start c),
      snd (season_start c), snd (season_end c), snd (season_start c) = 12)"
    using season_of_eq [OF m, of "cy c" "cd c"] unfolding cc by blast
  have e: "fst (season_end c) = (if snd (season_start c) = 12 then fst (season_start c) + 1 else fst (season_start c))"
      "1 \<le> snd (season_end c)" "snd (season_end c) \<le> 12" "1 \<le> snd (season_start c)" "snd (season_start c) \<le> 12"
    using season_start_month [OF m] by (auto simp: season_end_def split: prod.split)
  show ?thesis
    unfolding CurrentGoalPeriod_def load_location_simps(1) [where tzdb = tzdb, OF assms(1)] sum.case Let_def
      c_def [symmetric] so prod.case
    using e by (auto simp: mk_date_first)
qed

lemma season_end_month: "1 \<le> cm c \<Longrightarrow> cm c \<le> 12 \<Longrightarrow> 1 \<le> snd (season_end c) \<and> snd (season_end c) \<le> 12"
  by (cases "cm c" rule: month_cases) (auto simp: season_start_def season_end_def Let_def)

lemma season_days:
  fixes t :: gotime
  defines "c \<equiv> t_civil t"
  shows "days_of_civil (Civil (fst (season_start c)) (snd (season_start c)) 1) \<le> t_day t \<and>
    t_day t < days_of_civil (Civil (fst (season_end c)) (snd (season_end c)) 1)"
proof -
  have v: "valid_civil c" by (simp add: c_def t_civil_def)
  then have m: "1 \<le> cm c" "cm c \<le> 12" by (simp_all add: valid_civil_def)
  have "valid_civil (Civil (fst (season_start c)) (snd (season_start c)) 1)"
    using season_start_month [OF m] by (intro valid_first) auto
  moreover have "valid_civil (Civil (fst (season_end c)) (snd (season_end c)) 1)"
    using season_end_month [OF m] by (intro valid_first) auto
  moreover have "days_of_civil c = t_day t" by (simp add: c_def t_civil_def)
  ultimately show ?thesis
    using season_contains [OF v] v days_of_civil_le_iff days_of_civil_strict_mono by metis
qed

lemma season_start_days:
  assumes "valid_civil c" and "valid_civil c'"
  shows "days_of_civil (Civil (fst (season_start c)) (snd (season_start c)) 1) =
      days_of_civil (Civil (fst (season_start c')) (snd (season_start c')) 1) \<longleftrightarrow> season_start c = season_start c'"
proof -
  have "valid_civil (Civil (fst (season_start c)) (snd (season_start c)) 1)"
    "valid_civil (Civil (fst (season_start c')) (snd (season_start c')) 1)"
    using season_start_month [of c] season_start_month [of c'] assms
    by (intro valid_first; auto simp: valid_civil_def)+
  from civil_of_days_of_civil [OF this(1)] civil_of_days_of_civil [OF this(2)]
  show ?thesis by (metis civil.inject prod_eqI)
qed

lemma season_key_of_civil:
  assumes "valid_civil c" and "valid_civil c'"
  shows "season_key (season_start c) = season_key (season_start c') \<longleftrightarrow> season_start c = season_start c'"
  using assms by (intro season_key_inj season_start_month) (auto simp: valid_civil_def)

section \<open>Lemmas: the routine list\<close>

definition routine_lines :: "bytes \<Rightarrow> bytes list" where
  "routine_lines raw = filter (\<lambda>l. l \<noteq> []) (map trim_space (split_on (CHR 0x0A) raw))"

lemma collect_items_Inr:
  "collect_items acc ls = Inr items \<longleftrightarrow>
    (\<exists>new. items = acc @ new \<and> map parse_routine_item_line (filter (\<lambda>l. l \<noteq> []) (map trim_space ls)) = map Some new
      \<and> [] \<notin> set new)"
proof (induction ls arbitrary: acc)
  case (Cons line ls)
  show ?case
  proof (cases "trim_space line = []")
    case True
    then show ?thesis using Cons by simp
  next
    case False
    show ?thesis
    proof (cases "parse_routine_item_line (trim_space line)")
      case None
      then show ?thesis using False by (auto simp: Cons_eq_map_conv)
    next
      case (Some item)
      then show ?thesis using False Cons [of "acc @ [item]"]
        by (auto simp: Let_def Cons_eq_map_conv)
    qed
  qed
qed auto

section \<open>Properties\<close>


text \<open>RoutineCheckinDue offers the check-in of yesterday, exactly from 8:00 on the workspace's
  clock and only when the plan was created before today; its date is yesterday's local midnight.\<close>

theorem routine_checkin_due:
  assumes "civil_zone z" and "tzdb tz = Some z"
  shows "RoutineCheckinDue tzdb created tz now = Inr
    (if 8 \<le> t_hour (t_in now z) \<and> t_day (t_in created z) < t_day (t_in now z)
     then Some (go_date z (t_day (t_in now z) - 1) 0) else None)"
  using assms by (rule civil_zone.checkin_due)

theorem routine_checkin_due_witness:
  "RoutineCheckinDue (\<lambda>_. Some cet_2026) \<lparr>gt_ns = 0, gt_loc = utc\<rparr> ''Europe/Berlin''
     \<lparr>gt_ns = 1774767600000000000, gt_loc = utc\<rparr> = Inr (Some (go_date cet_2026 20540 0))"
  using routine_checkin_due [OF cet.civil_zone_axioms, of "\<lambda>_. Some cet_2026" "''Europe/Berlin''"
    "\<lparr>gt_ns = 0, gt_loc = utc\<rparr>" "\<lparr>gt_ns = 1774767600000000000, gt_loc = utc\<rparr>"]
  by (simp add: t_hour_def t_sec_of_day_def t_day_def local_sec_def cet_2026_def dst_zone_def ns_per_sec_def)





text \<open>The key names the period: two instants on the same clock get the same key exactly when they
  get periods with the same first and last days.\<close>

theorem goal_period_key_unique:
  assumes "civil_zone z" and "tzdb tz = Some z"
    and "CurrentGoalPeriod tzdb tz now = Inr p" and "CurrentGoalPeriod tzdb tz now' = Inr p'"
  shows "gp_key p = gp_key p' \<longleftrightarrow>
    t_day (gp_starts p) = t_day (gp_starts p') \<and> t_day (gp_ends p) = t_day (gp_ends p')"
proof -
  let ?c = "t_civil (t_in now z)" and ?c' = "t_civil (t_in now' z)"
  have v: "valid_civil ?c" "valid_civil ?c'" by (simp_all add: t_civil_def)
  have "t_day (gp_starts p) = t_day (gp_starts p') \<longleftrightarrow> season_start ?c = season_start ?c'"
    using current_period [where tzdb = tzdb, OF assms(2), of now]
      current_period [where tzdb = tzdb, OF assms(2), of now'] season_start_days [OF v] assms(3,4)
      civil_zone.midnight_day [OF assms(1)] by auto
  then show ?thesis
    using current_period [where tzdb = tzdb, OF assms(2), of now]
      current_period [where tzdb = tzdb, OF assms(2), of now'] season_key_of_civil [OF v] assms(3,4)
    by (auto simp: season_end_def)
qed

theorem goal_period_key_unique_witness:
  "\<exists>p. CurrentGoalPeriod (\<lambda>_. Some utc) ''UTC'' zero_time = Inr p \<and>
    (gp_key p = gp_key p \<longleftrightarrow> t_day (gp_starts p) = t_day (gp_starts p) \<and> t_day (gp_ends p) = t_day (gp_ends p))"
proof -
  obtain p where p: "CurrentGoalPeriod (\<lambda>_. Some utc) ''UTC'' zero_time = Inr p"
    using current_period [of "\<lambda>_. Some utc" "''UTC''" utc zero_time] by auto
  show ?thesis
    using goal_period_key_unique [OF utc_zone.civil_zone_axioms _ p p] p by auto
qed





text \<open>An unanswered review request asks for nothing in its first 24 hours, is reminded once
  between 24 and 71 hours, and is skipped from 71 hours on whether or not the reminder was sent.\<close>

theorem goal_review_lifecycle:
  "GoalWeeklyReviewLifecycleAction requestedAt reminderSentAt respondedAt skippedAt now =
    (let age = gt_ns now - gt_ns requestedAt in
     if respondedAt = None \<and> skippedAt = None \<and> 71 * ns_per_hour \<le> age then GoalWeeklyReviewSkip
     else if respondedAt = None \<and> skippedAt = None \<and> 24 * ns_per_hour \<le> age \<and> reminderSentAt = None
       then GoalWeeklyReviewRemind
     else GoalWeeklyReviewNoAction)"
  by (auto simp: GoalWeeklyReviewLifecycleAction_def Let_def t_before_def t_add_def rule_consts)



text \<open>C6. In a zone west of UTC the stored date is read as the day before, so a task is failed at
  noon of its own day, twelve hours before that day ends.\<close>

theorem west_task_failed_at_own_noon:
  assumes "-86400 \<le> k" and "k < 0" and "tzdb tz = Some (fixed_zone k)"
    and "t_day (t_in now (fixed_zone k)) = D" and "12 \<le> t_hour (t_in now (fixed_zone k))"
  shows "NextDailyTaskTransition tzdb (go_date utc D 0) tz DailyTaskActive now = Inr
    \<lparr>NewStatus = Some DailyTaskFailed, ShouldEmitAutoFail = True, ShouldEmitAwaitingReport = False\<rparr>"
proof -
  have "(D * 86400 + k) div 86400 = D - 1"
    using assms(1,2) by (intro div_unique_bounds) auto
  then have "t_day (t_in (go_date utc D 0) (fixed_zone k)) = D - 1"
    by (simp add: t_day_def local_sec_def gt_ns_utc_date ns_per_sec_def) (simp add: fixed_zone_def)
  then show ?thesis
    using assms(4,5) fixed.task_transition [where tzdb = tzdb, OF assms(3), of "go_date utc D 0" DailyTaskActive now]
    by (simp add: no_transition_def Let_def)
qed

theorem west_task_failed_at_own_noon_witness:
  "NextDailyTaskTransition (\<lambda>_. Some (fixed_zone (-18000))) (go_date utc 10 0) ''America/Bogota'' DailyTaskActive
     (go_date (fixed_zone (-18000)) 10 43200) = Inr
     \<lparr>NewStatus = Some DailyTaskFailed, ShouldEmitAutoFail = True, ShouldEmitAwaitingReport = False\<rparr>"
  using west_task_failed_at_own_noon [of "-18000" "\<lambda>_. Some (fixed_zone (-18000))" "''America/Bogota''"
    "go_date (fixed_zone (-18000)) 10 43200" 10]
  by (simp add: fixed_zone_reads t_hour_def)

end
