(* ===== verification/Callback.thy ===== *)
theory Callback imports Domain_Types begin

text \<open>
  \<open>internal/domain/callback.go\<close> and \<open>internal/ui/keyboards.go\<close>: the parser of callback data
  and the inline keyboards whose buttons carry that data. A keyboard is the list of its rows; a
  button has its caption (the catalogue message) and its callback data. Where the code returns
  \<open>Callback{Kind: CallbackUnknown}\<close> with an error, the model returns the error.
\<close>

datatype callback_kind =
  CallbackUnknown | CallbackSetupCheck | CallbackSetupStart | CallbackTodayAdd | CallbackTaskReport
  | CallbackTaskStatus | CallbackAlertAck | CallbackRoutineConfigure | CallbackRoutineItem
  | CallbackGoalsConfigure | CallbackGoalFinalStatus | CallbackGoalFinalComplete | CallbackNoticeDismiss

record callback =
  cb_Kind :: callback_kind
  cb_TaskID :: int
  cb_AlertID :: int
  cb_TaskStatus :: "daily_task_status option"
  cb_RoutineCheckinID :: int
  cb_RoutineItemIndex :: int
  cb_RoutineItemStatus :: "routine_item_status option"
  cb_GoalSetID :: int
  cb_GoalFinalStatus :: "goal_final_status option"
  cb_NoticeOwnerUserID :: int
  cb_Raw :: bytes

definition callback0 :: "callback_kind \<Rightarrow> bytes \<Rightarrow> callback" where
  "callback0 k raw = \<lparr>cb_Kind = k, cb_TaskID = 0, cb_AlertID = 0, cb_TaskStatus = None,
     cb_RoutineCheckinID = 0, cb_RoutineItemIndex = 0, cb_RoutineItemStatus = None, cb_GoalSetID = 0,
     cb_GoalFinalStatus = None, cb_NoticeOwnerUserID = 0, cb_Raw = raw\<rparr>"

datatype callback_error =
  CallbackTooLong | BadNumber num_error | IdNotPositive | IndexNegative | UnknownTaskStatus bytes
  | UnknownRoutineStatus bytes | UnknownGoalStatus bytes | UnknownCallback

definition parsePositiveID :: "bytes \<Rightarrow> callback_error + int" where
  "parsePositiveID raw = (case parse_int raw of Inl e \<Rightarrow> Inl (BadNumber e)
     | Inr n \<Rightarrow> if n \<le> 0 then Inl IdNotPositive else Inr n)"

definition with_id :: "bytes \<Rightarrow> (int \<Rightarrow> callback_error + callback) \<Rightarrow> callback_error + callback" where
  "with_id raw f = (case parsePositiveID raw of Inl e \<Rightarrow> Inl e | Inr n \<Rightarrow> f n)"

definition parse_task_status :: "bytes \<Rightarrow> int \<Rightarrow> bytes \<Rightarrow> callback_error + callback" where
  "parse_task_status raw n s = (case task_status_of s of
      Some status \<Rightarrow> if is_final_report status
        then Inr ((callback0 CallbackTaskStatus raw)\<lparr>cb_TaskID := n, cb_TaskStatus := Some status\<rparr>)
        else Inl (UnknownTaskStatus s)
    | None \<Rightarrow> Inl (UnknownTaskStatus s))"

definition parse_routine_item :: "bytes \<Rightarrow> int \<Rightarrow> bytes \<Rightarrow> bytes \<Rightarrow> callback_error + callback" where
  "parse_routine_item raw n idx s = (case parse_int idx of
      Inl e \<Rightarrow> Inl (BadNumber e)
    | Inr index \<Rightarrow> if index < 0 then Inl IndexNegative
        else (case routine_status_of s of
            None \<Rightarrow> Inl (UnknownRoutineStatus s)
          | Some status \<Rightarrow> Inr ((callback0 CallbackRoutineItem raw)\<lparr>cb_RoutineCheckinID := n,
              cb_RoutineItemIndex := index, cb_RoutineItemStatus := Some status\<rparr>)))"

definition parse_goal_final :: "bytes \<Rightarrow> int \<Rightarrow> bytes \<Rightarrow> callback_error + callback" where
  "parse_goal_final raw n s =
     (if s = ''complete'' then Inr ((callback0 CallbackGoalFinalComplete raw)\<lparr>cb_GoalSetID := n\<rparr>)
      else (case goal_status_of s of
          None \<Rightarrow> Inl (UnknownGoalStatus s)
        | Some status \<Rightarrow> Inr ((callback0 CallbackGoalFinalStatus raw)\<lparr>cb_GoalSetID := n,
            cb_GoalFinalStatus := Some status\<rparr>)))"

definition ParseCallback :: "bytes \<Rightarrow> callback_error + callback" where
  "ParseCallback raw =
     (if 64 < length raw then Inl CallbackTooLong
      else if raw = ''setup:check'' then Inr (callback0 CallbackSetupCheck raw)
      else if raw = ''setup:start'' then Inr (callback0 CallbackSetupStart raw)
      else if raw = ''today:add'' then Inr (callback0 CallbackTodayAdd raw)
      else if raw = ''routine:configure'' then Inr (callback0 CallbackRoutineConfigure raw)
      else if raw = ''goals:configure'' then Inr (callback0 CallbackGoalsConfigure raw)
      else (let parts = split_on (CHR '':'') raw; n = length parts in
        if n = 3 \<and> parts ! 0 = ''task'' \<and> parts ! 1 = ''report'' then
          with_id (parts ! 2) (\<lambda>i. Inr ((callback0 CallbackTaskReport raw)\<lparr>cb_TaskID := i\<rparr>))
        else if n = 4 \<and> parts ! 0 = ''task'' \<and> parts ! 1 = ''status'' then
          with_id (parts ! 2) (\<lambda>i. parse_task_status raw i (parts ! 3))
        else if n = 3 \<and> parts ! 0 = ''alert'' \<and> parts ! 1 = ''ack'' then
          with_id (parts ! 2) (\<lambda>i. Inr ((callback0 CallbackAlertAck raw)\<lparr>cb_AlertID := i\<rparr>))
        else if n = 5 \<and> parts ! 0 = ''routine'' \<and> parts ! 1 = ''item'' then
          with_id (parts ! 2) (\<lambda>i. parse_routine_item raw i (parts ! 3) (parts ! 4))
        else if n = 4 \<and> parts ! 0 = ''goals'' \<and> parts ! 1 = ''final'' then
          with_id (parts ! 2) (\<lambda>i. parse_goal_final raw i (parts ! 3))
        else if n = 3 \<and> parts ! 0 = ''notice'' \<and> parts ! 1 = ''dismiss'' then
          with_id (parts ! 2) (\<lambda>i. Inr ((callback0 CallbackNoticeDismiss raw)\<lparr>cb_NoticeOwnerUserID := i\<rparr>))
        else Inl UnknownCallback))"

section \<open>Keyboards\<close>

record button =
  bt_text :: msg
  bt_data :: bytes

type_synonym keyboard = "button list list"

definition btn :: "bytes \<Rightarrow> bytes \<Rightarrow> button" where
  "btn key data = \<lparr>bt_text = Msg key [], bt_data = data\<rparr>"

definition SetupKeyboard :: keyboard where
  "SetupKeyboard = [[btn ''button.setup.check'' ''setup:check''], [btn ''button.setup.start'' ''setup:start'']]"

definition TodayControlKeyboard :: keyboard where
  "TodayControlKeyboard = [[btn ''button.today.add'' ''today:add'']]"

definition RoutineControlKeyboard :: keyboard where
  "RoutineControlKeyboard = [[btn ''button.routine.configure'' ''routine:configure'']]"

definition GoalsControlKeyboard :: keyboard where
  "GoalsControlKeyboard = [[btn ''button.goals.configure'' ''goals:configure'']]"

definition EmptyKeyboard :: keyboard where "EmptyKeyboard = []"

definition RoutineItemKeyboard :: "int \<Rightarrow> int \<Rightarrow> keyboard" where
  "RoutineItemKeyboard checkinID itemIndex =
     (let d = (\<lambda>s. ''routine:item:'' @ show_int checkinID @ '':'' @ show_int itemIndex @ '':'' @ s) in
      [[btn ''button.routine.done'' (d ''done''), btn ''button.routine.partial'' (d ''partial''),
        btn ''button.routine.failed'' (d ''failed'')]])"

definition GoalFinalStatusKeyboard :: "int \<Rightarrow> keyboard" where
  "GoalFinalStatusKeyboard goalSetID =
     (let d = (\<lambda>s. ''goals:final:'' @ show_int goalSetID @ '':'' @ s) in
      [[btn ''button.goal.done'' (d ''done''), btn ''button.goal.partial'' (d ''partial''),
        btn ''button.goal.failed'' (d ''failed'')]])"

definition GoalFinalCompleteKeyboard :: "int \<Rightarrow> keyboard" where
  "GoalFinalCompleteKeyboard goalSetID =
     [[btn ''button.goal.complete'' (''goals:final:'' @ show_int goalSetID @ '':complete'')]]"

definition DailyTaskKeyboard :: "int \<Rightarrow> keyboard" where
  "DailyTaskKeyboard taskID = [[btn ''button.task.report'' (''task:report:'' @ show_int taskID)]]"

definition DailyTaskStatusKeyboard :: "int \<Rightarrow> keyboard" where
  "DailyTaskStatusKeyboard taskID =
     (let d = (\<lambda>s. ''task:status:'' @ show_int taskID @ '':'' @ s) in
      [[btn ''button.task.done'' (d ''done''), btn ''button.task.partial'' (d ''partial''),
        btn ''button.task.failed'' (d ''failed'')]])"

definition DailySummaryStatusKeyboard :: "int \<Rightarrow> keyboard" where
  "DailySummaryStatusKeyboard taskID =
     (let d = (\<lambda>s. ''task:status:'' @ show_int taskID @ '':'' @ s) in
      [[btn ''button.summary.done'' (d ''done''), btn ''button.summary.partial'' (d ''partial''),
        btn ''button.summary.failed'' (d ''failed'')]])"

definition AlertKeyboard :: "int \<Rightarrow> int \<Rightarrow> keyboard" where
  "AlertKeyboard taskID alertID =
     [[btn ''button.task.report'' (''task:report:'' @ show_int taskID)],
      [btn ''button.dismiss'' (''alert:ack:'' @ show_int alertID)]]"

definition DismissKeyboard :: "int \<Rightarrow> keyboard" where
  "DismissKeyboard ownerUserID = [[btn ''button.dismiss'' (''notice:dismiss:'' @ show_int ownerUserID)]]"

section \<open>Lemmas\<close>

definition pos_id :: "int \<Rightarrow> bool" where "pos_id i \<longleftrightarrow> 0 < i \<and> i < 9223372036854775808"

lemma parsePositiveID_show: "pos_id i \<Longrightarrow> parsePositiveID (show_int i) = Inr i"
  by (simp add: parsePositiveID_def pos_id_def parse_int_show_int int64_range_def)

lemma parsePositiveID_pos: "parsePositiveID s = Inr i \<Longrightarrow> pos_id i"
  by (auto simp: parsePositiveID_def pos_id_def int64_range_def dest: parse_int_range
      split: sum.splits if_splits)

interpretation id_codec: codec show_int parsePositiveID pos_id
  by unfold_locales (rule parsePositiveID_show)

lemma split_prefixed:
  "CHR '':'' \<notin> set p \<Longrightarrow> split_on (CHR '':'') (p @ CHR '':'' # s) = p # split_on (CHR '':'') s"
  by (rule split_on_append_sep)

lemma split_show_int:
  "split_on (CHR '':'') (show_int i) = [show_int i]"
  "split_on (CHR '':'') (show_int i @ CHR '':'' # s) = show_int i # split_on (CHR '':'') s"
  by (simp_all add: split_on_none split_on_append_sep show_int_no_colon)

lemma length_show_int_pos: "pos_id i \<Longrightarrow> length (show_int i) \<le> 20"
  by (rule length_show_int) (simp add: pos_id_def int64_range_def)

lemma parse_task_report:
  "pos_id i \<Longrightarrow> ParseCallback (''task:report:'' @ show_int i) =
    Inr ((callback0 CallbackTaskReport (''task:report:'' @ show_int i))\<lparr>cb_TaskID := i\<rparr>)"
  using length_show_int_pos [of i]
  by (simp add: ParseCallback_def split_show_int with_id_def parsePositiveID_show)

lemma parse_task_status_data:
  fixes i :: int and s :: daily_task_status
  assumes "pos_id i" and "is_final_report s"
  defines "raw \<equiv> ''task:status:'' @ show_int i @ '':'' @ task_status_str s"
  shows "ParseCallback raw = Inr ((callback0 CallbackTaskStatus raw)\<lparr>cb_TaskID := i, cb_TaskStatus := Some s\<rparr>)"
proof -
  have "length raw \<le> 64"
    using length_show_int_pos [OF assms(1)] length_task_status_str [OF assms(2)] by (simp add: raw_def)
  moreover have "split_on (CHR '':'') raw = [''task'', ''status'', show_int i, task_status_str s]"
    by (simp add: raw_def split_show_int split_on_none status_str_chars)
  ultimately show ?thesis
    using assms(1,2) by (simp add: ParseCallback_def with_id_def parsePositiveID_show parse_task_status_def raw_def)
qed

lemma parse_alert_ack:
  "pos_id i \<Longrightarrow> ParseCallback (''alert:ack:'' @ show_int i) =
    Inr ((callback0 CallbackAlertAck (''alert:ack:'' @ show_int i))\<lparr>cb_AlertID := i\<rparr>)"
  using length_show_int_pos [of i]
  by (simp add: ParseCallback_def split_show_int with_id_def parsePositiveID_show)

lemma parse_notice_dismiss:
  "pos_id i \<Longrightarrow> ParseCallback (''notice:dismiss:'' @ show_int i) =
    Inr ((callback0 CallbackNoticeDismiss (''notice:dismiss:'' @ show_int i))\<lparr>cb_NoticeOwnerUserID := i\<rparr>)"
  using length_show_int_pos [of i]
  by (simp add: ParseCallback_def split_show_int with_id_def parsePositiveID_show)

lemma parse_routine_item_data:
  fixes i k :: int and s :: routine_item_status
  assumes "pos_id i" and "0 \<le> k" and "int64_range k"
  defines "raw \<equiv> ''routine:item:'' @ show_int i @ '':'' @ show_int k @ '':'' @ routine_status_str s"
  shows "ParseCallback raw = Inr ((callback0 CallbackRoutineItem raw)\<lparr>cb_RoutineCheckinID := i,
    cb_RoutineItemIndex := k, cb_RoutineItemStatus := Some s\<rparr>)"
proof -
  have "length raw \<le> 64"
    using length_show_int_pos [OF assms(1)] length_show_int [OF assms(3)] length_routine_status_str [of s]
    by (simp add: raw_def)
  moreover have "split_on (CHR '':'') raw = [''routine'', ''item'', show_int i, show_int k, routine_status_str s]"
    by (simp add: raw_def split_show_int split_on_none status_str_chars)
  ultimately show ?thesis
    using assms(1-3) by (simp add: ParseCallback_def with_id_def parsePositiveID_show parse_routine_item_def
      parse_int_show_int raw_def)
qed

lemma parse_goal_final_data:
  fixes i :: int and s :: goal_final_status
  assumes "pos_id i"
  defines "raw \<equiv> ''goals:final:'' @ show_int i @ '':'' @ goal_status_str s"
  shows "ParseCallback raw =
    Inr ((callback0 CallbackGoalFinalStatus raw)\<lparr>cb_GoalSetID := i, cb_GoalFinalStatus := Some s\<rparr>)"
proof -
  have "length raw \<le> 64"
    using length_show_int_pos [OF assms(1)] length_goal_status_str [of s] by (simp add: raw_def)
  moreover have "split_on (CHR '':'') raw = [''goals'', ''final'', show_int i, goal_status_str s]"
    by (simp add: raw_def split_show_int split_on_none status_str_chars)
  moreover have "goal_status_str s \<noteq> ''complete''" by (cases s) simp_all
  ultimately show ?thesis
    using assms(1) by (simp add: ParseCallback_def with_id_def parsePositiveID_show parse_goal_final_def raw_def)
qed

lemma parse_goal_complete:
  "pos_id i \<Longrightarrow> ParseCallback (''goals:final:'' @ show_int i @ '':complete'') =
    Inr ((callback0 CallbackGoalFinalComplete (''goals:final:'' @ show_int i @ '':complete''))\<lparr>cb_GoalSetID := i\<rparr>)"
  using length_show_int_pos [of i]
  by (simp add: ParseCallback_def split_show_int with_id_def parsePositiveID_show parse_goal_final_def)

lemmas parse_status_data =
  parse_task_status_data [of _ DailyTaskDone, simplified] parse_task_status_data [of _ DailyTaskPartial, simplified]
  parse_task_status_data [of _ DailyTaskFailed, simplified]
  parse_goal_final_data [of _ GoalFinalDone, simplified] parse_goal_final_data [of _ GoalFinalPartial, simplified]
  parse_goal_final_data [of _ GoalFinalFailed, simplified]
  parse_routine_item_data [of _ _ RoutineItemDone, simplified]
  parse_routine_item_data [of _ _ RoutineItemPartial, simplified]
  parse_routine_item_data [of _ _ RoutineItemFailed, simplified]

lemma parse_fixed:
  "ParseCallback ''setup:check'' = Inr (callback0 CallbackSetupCheck ''setup:check'')"
  "ParseCallback ''setup:start'' = Inr (callback0 CallbackSetupStart ''setup:start'')"
  "ParseCallback ''today:add'' = Inr (callback0 CallbackTodayAdd ''today:add'')"
  "ParseCallback ''routine:configure'' = Inr (callback0 CallbackRoutineConfigure ''routine:configure'')"
  "ParseCallback ''goals:configure'' = Inr (callback0 CallbackGoalsConfigure ''goals:configure'')"
  by (simp_all add: ParseCallback_def)

lemmas parse_data = parse_task_report [unfolded append_Cons append_Nil] parse_alert_ack [unfolded append_Cons append_Nil]
  parse_notice_dismiss [unfolded append_Cons append_Nil] parse_goal_complete [unfolded append_Cons append_Nil]
  parse_status_data parse_fixed

lemma callback0_raw [simp]: "(callback0 k raw)\<lparr>cb_Raw := r\<rparr> = callback0 k r"
  by (simp add: callback0_def)

definition keyboard_data :: "keyboard \<Rightarrow> bytes list" where
  "keyboard_data k = map bt_data (concat k)"

text \<open>The callbacks that the buttons of a keyboard give, in order.\<close>

definition presses :: "keyboard \<Rightarrow> (callback_error + callback) list" where
  "presses k = map (\<lambda>d. map_sum id (\<lambda>c. c\<lparr>cb_Raw := []\<rparr>) (ParseCallback d)) (keyboard_data k)"

lemma parse_error_or_raw: "with_id s f = Inr c \<Longrightarrow> \<exists>i. pos_id i \<and> f i = Inr c"
  by (auto simp: with_id_def dest: parsePositiveID_pos split: sum.splits)

section \<open>Properties\<close>

text \<open>C8. Every button of every keyboard carries data that ParseCallback reads back as exactly the
  action, the identifiers, the index and the status the keyboard was built for.\<close>

theorem keyboards_roundtrip:
  assumes "pos_id i" and "pos_id j" and "0 \<le> k" and "int64_range k"
  shows "presses SetupKeyboard = [Inr (callback0 CallbackSetupCheck []), Inr (callback0 CallbackSetupStart [])]
    \<and> presses TodayControlKeyboard = [Inr (callback0 CallbackTodayAdd [])]
    \<and> presses RoutineControlKeyboard = [Inr (callback0 CallbackRoutineConfigure [])]
    \<and> presses GoalsControlKeyboard = [Inr (callback0 CallbackGoalsConfigure [])]
    \<and> presses (RoutineItemKeyboard i k) =
        map (\<lambda>s. Inr ((callback0 CallbackRoutineItem [])\<lparr>cb_RoutineCheckinID := i, cb_RoutineItemIndex := k,
          cb_RoutineItemStatus := Some s\<rparr>)) [RoutineItemDone, RoutineItemPartial, RoutineItemFailed]
    \<and> presses (GoalFinalStatusKeyboard i) =
        map (\<lambda>s. Inr ((callback0 CallbackGoalFinalStatus [])\<lparr>cb_GoalSetID := i, cb_GoalFinalStatus := Some s\<rparr>))
          [GoalFinalDone, GoalFinalPartial, GoalFinalFailed]
    \<and> presses (GoalFinalCompleteKeyboard i) = [Inr ((callback0 CallbackGoalFinalComplete [])\<lparr>cb_GoalSetID := i\<rparr>)]
    \<and> presses (DailyTaskKeyboard i) = [Inr ((callback0 CallbackTaskReport [])\<lparr>cb_TaskID := i\<rparr>)]
    \<and> presses (DailyTaskStatusKeyboard i) =
        map (\<lambda>s. Inr ((callback0 CallbackTaskStatus [])\<lparr>cb_TaskID := i, cb_TaskStatus := Some s\<rparr>))
          [DailyTaskDone, DailyTaskPartial, DailyTaskFailed]
    \<and> presses (DailySummaryStatusKeyboard i) = presses (DailyTaskStatusKeyboard i)
    \<and> presses (AlertKeyboard i j) = [Inr ((callback0 CallbackTaskReport [])\<lparr>cb_TaskID := i\<rparr>),
        Inr ((callback0 CallbackAlertAck [])\<lparr>cb_AlertID := j\<rparr>)]
    \<and> presses (DismissKeyboard i) = [Inr ((callback0 CallbackNoticeDismiss [])\<lparr>cb_NoticeOwnerUserID := i\<rparr>)]"
  using assms
  by (simp add: presses_def keyboard_data_def SetupKeyboard_def TodayControlKeyboard_def
      RoutineControlKeyboard_def GoalsControlKeyboard_def RoutineItemKeyboard_def GoalFinalStatusKeyboard_def
      GoalFinalCompleteKeyboard_def DailyTaskKeyboard_def DailyTaskStatusKeyboard_def
      DailySummaryStatusKeyboard_def AlertKeyboard_def DismissKeyboard_def btn_def Let_def parse_data)
    (simp add: callback0_def)

theorem keyboards_roundtrip_witness:
  "presses (RoutineItemKeyboard 7 2) =
     map (\<lambda>s. Inr ((callback0 CallbackRoutineItem [])\<lparr>cb_RoutineCheckinID := 7, cb_RoutineItemIndex := 2,
       cb_RoutineItemStatus := Some s\<rparr>)) [RoutineItemDone, RoutineItemPartial, RoutineItemFailed]"
  using keyboards_roundtrip [of 7 9 2] by (simp add: pos_id_def int64_range_def)

text \<open>C9. A callback that ParseCallback accepts came from at most 64 bytes, is not of unknown kind and
  keeps its text; the identifier its kind needs is a positive 64-bit number, its item index is not
  negative, and a task status it carries is a final one.\<close>

theorem parse_callback_sound:
  assumes "ParseCallback raw = Inr c"
  shows "length raw \<le> 64 \<and> cb_Kind c \<noteq> CallbackUnknown \<and> cb_Raw c = raw
    \<and> (cb_Kind c \<in> {CallbackTaskReport, CallbackTaskStatus} \<longrightarrow> pos_id (cb_TaskID c))
    \<and> (cb_Kind c = CallbackTaskStatus \<longrightarrow> (\<exists>s. cb_TaskStatus c = Some s \<and> is_final_report s))
    \<and> (cb_Kind c = CallbackAlertAck \<longrightarrow> pos_id (cb_AlertID c))
    \<and> (cb_Kind c = CallbackRoutineItem \<longrightarrow> pos_id (cb_RoutineCheckinID c) \<and> 0 \<le> cb_RoutineItemIndex c
        \<and> cb_RoutineItemStatus c \<noteq> None)
    \<and> (cb_Kind c \<in> {CallbackGoalFinalStatus, CallbackGoalFinalComplete} \<longrightarrow> pos_id (cb_GoalSetID c))
    \<and> (cb_Kind c = CallbackGoalFinalStatus \<longrightarrow> cb_GoalFinalStatus c \<noteq> None)
    \<and> (cb_Kind c = CallbackNoticeDismiss \<longrightarrow> pos_id (cb_NoticeOwnerUserID c))"
  using assms unfolding ParseCallback_def Let_def
  by (auto simp: callback0_def parse_task_status_def parse_routine_item_def parse_goal_final_def
      dest!: parse_error_or_raw split: if_splits option.splits sum.splits)

theorem parse_callback_sound_witness:
  "ParseCallback ''task:status:12:done'' = Inr ((callback0 CallbackTaskStatus ''task:status:12:done'')
     \<lparr>cb_TaskID := 12, cb_TaskStatus := Some DailyTaskDone\<rparr>) \<and> length ''task:status:12:done'' \<le> 64"
proof -
  have "show_int 12 = ''12''" by code_simp
  then have c: "ParseCallback ''task:status:12:done'' = Inr ((callback0 CallbackTaskStatus ''task:status:12:done'')
     \<lparr>cb_TaskID := 12, cb_TaskStatus := Some DailyTaskDone\<rparr>)"
    using parse_task_status_data [of 12 DailyTaskDone] by (simp add: pos_id_def)
  from parse_callback_sound [OF this] c show ?thesis by blast
qed

end
