(* ===== verification/Models.thy ===== *)
theory Models imports Domain_Rules Callback begin

text \<open>
  \<open>internal/storage/postgres/models.go\<close> and the schema of \<open>migrations/\<close>: the rows of the
  tables as records with the fields of the Go structs (and the two lease columns
  \<open>dispatch_started_at\<close> and \<open>publish_started_at\<close>, which no struct carries), JSON payloads,
  and the database as one record of tables. Rows are kept in the order of their keys. A DATE
  column is its day number and reaches Go as the UTC midnight of that day; a TIMESTAMPTZ is its
  unix time in nanoseconds. Every SERIAL column has its own sequence.
\<close>

section \<open>JSON payloads\<close>

text \<open>
  A number of a decoded payload is a \<open>float64\<close>; \<open>JInt\<close> is an integer the program put in
  itself, \<open>JFloat\<close> one that came back from the database.
\<close>

datatype json = JNull | JStr bytes | JInt int | JFloat int | JInts "int list" | JList "json list"

type_synonym payload = "bytes \<Rightarrow> json option"

text \<open>The nearest \<open>float64\<close> of an integer (53 significant bits, ties to even).\<close>

fun bit_len :: "nat \<Rightarrow> nat" where
  "bit_len n = (if n = 0 then 0 else Suc (bit_len (n div 2)))"

declare bit_len.simps [simp del]

definition f64_of_int :: "int \<Rightarrow> int" where
  "f64_of_int n = (if \<bar>n\<bar> < 9007199254740992 then n
     else (let k = bit_len (nat \<bar>n\<bar>) - 53; q = \<bar>n\<bar> div 2 ^ k; r = \<bar>n\<bar> mod 2 ^ k; h = 2 ^ k div 2;
               q' = (if r > h \<or> r = h \<and> q mod 2 = 1 then q + 1 else q)
           in (if k = 0 then n else sgn n * q' * 2 ^ k)))"

fun decode_json :: "json \<Rightarrow> json" where
  "decode_json (JInt n) = JFloat (f64_of_int n)"
| "decode_json (JFloat n) = JFloat n"
| "decode_json (JInts ns) = JList (map (\<lambda>n. JFloat (f64_of_int n)) ns)"
| "decode_json (JList js) = JList (map decode_json js)"
| "decode_json (JStr s) = JStr s"
| "decode_json JNull = JNull"

definition decodePayload :: "payload \<Rightarrow> payload" where
  "decodePayload p = (\<lambda>k. map_option decode_json (p k))"

definition payloadInt64 :: "payload \<Rightarrow> bytes \<Rightarrow> int" where
  "payloadInt64 p key = (case p key of Some (JFloat n) \<Rightarrow> n | Some (JInt n) \<Rightarrow> n | _ \<Rightarrow> 0)"

definition payloadString :: "payload \<Rightarrow> bytes \<Rightarrow> bytes" where
  "payloadString p key = (case p key of Some (JStr s) \<Rightarrow> s | _ \<Rightarrow> [])"

fun json_ints :: "json list \<Rightarrow> int list" where
  "json_ints [] = []"
| "json_ints (JFloat n # js) = n # json_ints js"
| "json_ints (JInt n # js) = n # json_ints js"
| "json_ints (_ # js) = json_ints js"

definition payloadInt64Slice :: "payload \<Rightarrow> bytes \<Rightarrow> int list" where
  "payloadInt64Slice p key = (case p key of Some (JInts ns) \<Rightarrow> ns | Some (JList js) \<Rightarrow> json_ints js | _ \<Rightarrow> [])"

text \<open>The text of a payload field in SQL (\<open>payload->>'key'\<close>).\<close>

definition json_text :: "json option \<Rightarrow> bytes option" where
  "json_text j = (case j of Some (JStr s) \<Rightarrow> Some s | Some (JInt n) \<Rightarrow> Some (show_int n)
     | Some (JFloat n) \<Rightarrow> Some (show_int n) | _ \<Rightarrow> None)"

lemma f64_small [simp]: "\<bar>n\<bar> < 9007199254740992 \<Longrightarrow> f64_of_int n = n"
  by (simp add: f64_of_int_def)

lemma payloadInt64_decode [simp]:
  "p key = Some (JInt n) \<Longrightarrow> payloadInt64 (decodePayload p) key = f64_of_int n"
  by (simp add: payloadInt64_def decodePayload_def)

section \<open>Rows\<close>

record workspace =
  ws_ID :: int
  ws_ChatID :: int
  ws_Title :: "bytes option"
  ws_Timezone :: bytes
  ws_SetupStatus :: group_setup_status
  ws_SetupMessageID :: "int option"
  ws_CreatedAt :: int
  ws_UpdatedAt :: int

record topic_binding =
  tb_ID :: int
  tb_WorkspaceGroupID :: int
  tb_TopicKey :: topic_key
  tb_ThreadID :: int
  tb_TopicTitle :: bytes
  tb_IntroMessageID :: "int option"
  tb_ControlMessageID :: "int option"
  tb_CreatedAt :: int

record participant =
  pt_ID :: int
  pt_WorkspaceGroupID :: int
  pt_UserID :: int
  pt_Username :: "bytes option"
  pt_DisplayName :: bytes
  pt_IsActive :: bool
  pt_CreatedAt :: int
  pt_UpdatedAt :: int

record daily_task =
  tk_ID :: int
  tk_WorkspaceGroupID :: int
  tk_ParticipantID :: int
  tk_OwnerUserID :: int
  tk_TaskDate :: int
  tk_Kind :: daily_entry_kind
  tk_Text :: bytes
  tk_Status :: daily_task_status
  tk_ReportText :: "bytes option"
  tk_ReportStatus :: "daily_task_status option"
  tk_TodayCardMessageID :: "int option"
  tk_TaskMessageID :: "int option"
  tk_TaskMessageThreadID :: "int option"
  tk_ReportMessageID :: "int option"
  tk_ReportMessageThreadID :: "int option"
  tk_CreatedAt :: int
  tk_ReportedAt :: "int option"
  tk_AwaitingReportAt :: "int option"
  tk_FailedAt :: "int option"

definition AcceptsReport :: "daily_task \<Rightarrow> bool" where
  "AcceptsReport task = (if is_open (tk_Status task) then True
     else tk_Kind task = DailyEntryTask \<and> tk_Status task = DailyTaskFailed
       \<and> tk_FailedAt task \<noteq> None \<and> tk_ReportedAt task = None)"

record daily_task_alert =
  al_ID :: int
  al_DailyTaskID :: int
  al_AlertKind :: alert_kind
  al_DispatchStatus :: alert_dispatch_status
  al_TelegramMessageID :: "int option"
  al_AcknowledgedAt :: "int option"
  al_CreatedAt :: int
  al_DispatchStartedAt :: "int option"

record pending_input =
  pi_ID :: int
  pi_WorkspaceGroupID :: int
  pi_UserID :: int
  pi_MessageThreadID :: int
  pi_Kind :: pending_input_kind
  pi_Payload :: payload
  pi_CreatedAt :: int

record progress_event =
  pe_ID :: int
  pe_WorkspaceGroupID :: int
  pe_ParticipantID :: "int option"
  pe_DailyTaskID :: "int option"
  pe_EventType :: progress_event_type
  pe_PublishStatus :: progress_publish_status
  pe_Payload :: payload
  pe_PublishedMessageID :: "int option"
  pe_CreatedAt :: int
  pe_PublishedAt :: "int option"
  pe_PublishStartedAt :: "int option"

record routine_plan =
  rp_ID :: int
  rp_WorkspaceGroupID :: int
  rp_ParticipantID :: int
  rp_OwnerUserID :: int
  rp_Items :: "bytes list"
  rp_SourceMessageID :: "int option"
  rp_SourceMessageThreadID :: "int option"
  rp_CreatedAt :: int
  rp_UpdatedAt :: int

record routine_checkin_item =
  ri_ID :: int
  ri_RoutineCheckinID :: int
  ri_ItemIndex :: int
  ri_Text :: bytes
  ri_Status :: "routine_item_status option"
  ri_ReasonText :: "bytes option"
  ri_CreatedAt :: int
  ri_UpdatedAt :: int

record routine_checkin =
  rc_ID :: int
  rc_WorkspaceGroupID :: int
  rc_ParticipantID :: int
  rc_OwnerUserID :: int
  rc_CheckinDate :: int
  rc_SourceMessageID :: "int option"
  rc_SourceMessageThreadID :: "int option"
  rc_CardMessageID :: "int option"
  rc_CardMessageThreadID :: "int option"
  rc_ReminderMessageID :: "int option"
  rc_AutoCloseNoticeMessageID :: "int option"
  rc_ReflectionText :: "bytes option"
  rc_CreatedAt :: int
  rc_UpdatedAt :: int
  rc_ReminderSentAt :: "int option"
  rc_AutoCloseNoticeSentAt :: "int option"
  rc_CompletedAt :: "int option"
  rc_AutoFailedAt :: "int option"
  rc_Items :: "routine_checkin_item list"

record leaderboard_entry =
  le_Participant :: participant
  le_CurrentStreak :: int
  le_MaxStreak :: int
  le_CompletionRate :: rat
  le_RoutineItemCount :: int

record seasonal_goal_set =
  gs_ID :: int
  gs_WorkspaceGroupID :: int
  gs_ParticipantID :: int
  gs_OwnerUserID :: int
  gs_PeriodKey :: bytes
  gs_PeriodTitle :: msg
  gs_PeriodStartsOn :: int
  gs_PeriodEndsOn :: int
  gs_GoalsText :: bytes
  gs_CardMessageID :: "int option"
  gs_CardMessageThreadID :: "int option"
  gs_SourceMessageID :: "int option"
  gs_SourceMessageThreadID :: "int option"
  gs_CreatedAt :: int
  gs_UpdatedAt :: int

record goal_weekly_review =
  wr_ID :: int
  wr_GoalSetID :: int
  wr_ReviewWeekStart :: int
  wr_PromptMessageID :: "int option"
  wr_PromptMessageThreadID :: "int option"
  wr_ResponseText :: "bytes option"
  wr_ResponseMessageID :: "int option"
  wr_ResponseMessageThreadID :: "int option"
  wr_RequestedAt :: int
  wr_ReminderSentAt :: "int option"
  wr_RespondedAt :: "int option"
  wr_SkippedAt :: "int option"

record goal_final_review =
  fr_ID :: int
  fr_GoalSetID :: int
  fr_Status :: "goal_final_status option"
  fr_PromptMessageID :: "int option"
  fr_PromptMessageThreadID :: "int option"
  fr_SummaryText :: "bytes option"
  fr_SummaryMessageIDs :: "int list"
  fr_RequestedAt :: int
  fr_CompletedAt :: "int option"

record goal_nudge_cooldown =
  gn_WorkspaceGroupID :: int
  gn_ParticipantID :: int
  gn_LastShownAt :: int
  gn_CreatedAt :: int
  gn_UpdatedAt :: int

record delivery_retry =
  dr_Operation :: bytes
  dr_EntityID :: int
  dr_Attempts :: int
  dr_NextAttemptAt :: int
  dr_Exhausted :: bool
  dr_LastError :: bytes
  dr_UpdatedAt :: int

section \<open>The database\<close>

datatype tbl = TWorkspaces | TBindings | TParticipants | TTasks | TAlerts | TPendings | TEvents
  | TPlans | TCheckins | TItems | TGoals | TWeekly | TFinals

datatype report_status = ReportPublishing | ReportPublished | ReportUncertain

record monthly_report =
  mr_WorkspaceGroupID :: int
  mr_Month :: int
  mr_Status :: report_status
  mr_ContentHash :: bytes
  mr_Text :: bytes
  mr_ChatID :: int
  mr_ThreadID :: int
  mr_MessageID :: "int option"
  mr_ClaimedAt :: int
  mr_PublishedAt :: "int option"
  mr_LastError :: "bytes option"

record db =
  db_seq :: "tbl \<Rightarrow> int"
  db_workspaces :: "workspace list"
  db_bindings :: "topic_binding list"
  db_participants :: "participant list"
  db_tasks :: "daily_task list"
  db_alerts :: "daily_task_alert list"
  db_pendings :: "pending_input list"
  db_events :: "progress_event list"
  db_plans :: "routine_plan list"
  db_checkins :: "routine_checkin list"
  db_goals :: "seasonal_goal_set list"
  db_weekly :: "goal_weekly_review list"
  db_finals :: "goal_final_review list"
  db_nudges :: "goal_nudge_cooldown list"
  db_retries :: "delivery_retry list"
  db_clock :: "int option"
  db_reports :: "monthly_report list"

text \<open>The value a SERIAL column gets next; taking it is never undone.\<close>

definition next_id :: "tbl \<Rightarrow> db \<Rightarrow> int" where "next_id t d = db_seq d t + 1"

definition take_id :: "tbl \<Rightarrow> db \<Rightarrow> db" where "take_id t d = d\<lparr>db_seq := (db_seq d)(t := next_id t d)\<rparr>"

text \<open>A DATE as Go reads it.\<close>

definition date_time :: "int \<Rightarrow> gotime" where "date_time d = go_date utc d 0"

definition utc_time :: "int \<Rightarrow> gotime" where "utc_time ns = \<lparr>gt_ns = ns, gt_loc = utc\<rparr>"

lemma t_day_date_time [simp]: "t_day (date_time d) = d"
  by (simp add: date_time_def)

section \<open>Texts shown to users\<close>

text \<open>
  A text is the call of a formatter of \<open>internal/ui\<close> (or of \<open>messages.Text\<close>) with its
  arguments; the model keeps which text is shown, not its characters.
\<close>

datatype varg =
  VStr bytes | VInt int | VBool bool | VMsg msg | VTask daily_task | VEvent progress_event | VPeriod goal_period
  | VCheckin routine_checkin | VGoals seasonal_goal_set | VWeekly goal_weekly_review | VFinal goal_final_review
  | VAlert alert_kind | VKind daily_entry_kind | VGoalStatus goal_final_status | VItems "bytes list" | VEntries "leaderboard_entry list"

datatype view = View (view_name: bytes) (view_args: "varg list")

definition TextView :: "bytes \<Rightarrow> view" where "TextView key = View key []"

end
