(* ===== verification/Telegram.thy ===== *)
theory Telegram imports Models begin

text \<open>
  \<open>internal/telegram/types.go\<close> and the error predicates of \<open>internal/telegram/client.go\<close>:
  the objects of the Bot API the program reads, the requests it sends, and how it classifies a
  failed call by the text of its error. The HTTP exchange itself is the parameter of the world
  in \<open>IO_Monad\<close>.
\<close>

record tg_user =
  us_ID :: int
  us_IsBot :: bool
  us_FirstName :: bytes
  us_LastName :: bytes
  us_Username :: bytes

record tg_chat =
  ch_ID :: int
  ch_Type :: bytes
  ch_Title :: bytes
  ch_IsForum :: bool

record chat_member =
  cm_Status :: bytes
  cm_User :: tg_user
  cm_CanManageTopics :: bool

record message_entity =
  me_Type :: bytes
  me_Offset :: int
  me_Length :: int
  me_URL :: bytes

text \<open>
  The attachments of a message in the order \<open>MessageInputText\<close> looks for them. A location's
  coordinates are kept as the text that \<open>%v\<close> prints for them.
\<close>

record message =
  mg_MessageID :: int
  mg_MessageThreadID :: int
  mg_DateUnix :: int
  mg_From :: "tg_user option"
  mg_Chat :: tg_chat
  mg_Text :: bytes
  mg_Entities :: "message_entity list"
  mg_Caption :: bytes
  mg_CaptionEntities :: "message_entity list"
  mg_MediaGroupID :: bytes
  mg_Voice :: bool
  mg_VideoNote :: bool
  mg_Video :: bool
  mg_Photos :: nat
  mg_Audio :: "(bytes \<times> bytes) option"
  mg_Document :: "bytes option"
  mg_Animation :: bool
  mg_Sticker :: "bytes option"
  mg_Contact :: "(bytes \<times> bytes) option"
  mg_Location :: "(bytes \<times> bytes) option"
  mg_Venue :: "(bytes \<times> bytes) option"
  mg_Poll :: "bytes option"
  mg_Dice :: "(bytes \<times> int) option"
  mg_Game :: "bytes option"
  mg_Invoice :: "bytes option"

record callback_query =
  cq_ID :: bytes
  cq_From :: tg_user
  cq_Message :: "message option"
  cq_Data :: bytes

record chat_member_updated =
  mu_Chat :: tg_chat
  mu_From :: tg_user
  mu_OldStatus :: bytes
  mu_NewStatus :: bytes

record tg_update =
  up_UpdateID :: int
  up_Message :: "message option"
  up_EditedMessage :: "message option"
  up_Callback :: "callback_query option"
  up_MyChatMember :: "chat_member_updated option"

definition message_date :: "int \<Rightarrow> message \<Rightarrow> int" where
  "message_date now m = (if mg_DateUnix m = 0 then now else mg_DateUnix m * ns_per_sec)"

section \<open>Requests\<close>

record send_message_request =
  sm_ChatID :: int
  sm_MessageThreadID :: int
  sm_Text :: view
  sm_ParseMode :: bytes
  sm_ReplyMarkup :: "keyboard option"
  sm_ReplyToMessageID :: int
  sm_DisableNotification :: bool
  sm_DisableWebPagePreview :: "bool option"

record edit_message_request =
  em_ChatID :: int
  em_MessageID :: int
  em_Text :: view
  em_ParseMode :: bytes
  em_ReplyMarkup :: "keyboard option"

definition send_req :: "int \<Rightarrow> int \<Rightarrow> view \<Rightarrow> keyboard option \<Rightarrow> send_message_request" where
  "send_req chat thread text kb = \<lparr>sm_ChatID = chat, sm_MessageThreadID = thread, sm_Text = text,
     sm_ParseMode = [], sm_ReplyMarkup = kb, sm_ReplyToMessageID = 0, sm_DisableNotification = False,
     sm_DisableWebPagePreview = None\<rparr>"

definition edit_req :: "int \<Rightarrow> int \<Rightarrow> view \<Rightarrow> keyboard option \<Rightarrow> edit_message_request" where
  "edit_req chat mid text kb = \<lparr>em_ChatID = chat, em_MessageID = mid, em_Text = text,
     em_ParseMode = [], em_ReplyMarkup = kb\<rparr>"

definition SilentMessage :: "send_message_request \<Rightarrow> send_message_request" where
  "SilentMessage request = request\<lparr>sm_DisableNotification := True\<rparr>"

definition RegularMessage :: "send_message_request \<Rightarrow> send_message_request" where
  "RegularMessage request = request\<lparr>sm_DisableNotification := False\<rparr>"

definition ReplyMessage :: "send_message_request \<Rightarrow> int \<Rightarrow> send_message_request" where
  "ReplyMessage request replyTo = request\<lparr>sm_ReplyToMessageID := replyTo, sm_DisableNotification := False\<rparr>"

definition PingMessage :: "send_message_request \<Rightarrow> send_message_request" where
  "PingMessage request = request\<lparr>sm_DisableNotification := False\<rparr>"

datatype tg_request =
  GetUpdates int int
| AnswerCallbackQuery bytes bytes
| SendMessage send_message_request
| EditMessageText edit_message_request
| EditMessageReplyMarkup int int "keyboard option"
| DeleteMessage int int
| PinChatMessage int int
| GetMe
| GetChat int
| GetChatMember int int
| CreateForumTopic int bytes
| EditForumTopic int int bytes

fun method_of :: "tg_request \<Rightarrow> bytes" where
  "method_of (GetUpdates _ _) = ''getUpdates''"
| "method_of (AnswerCallbackQuery _ _) = ''answerCallbackQuery''"
| "method_of (SendMessage _) = ''sendMessage''"
| "method_of (EditMessageText _) = ''editMessageText''"
| "method_of (EditMessageReplyMarkup _ _ _) = ''editMessageReplyMarkup''"
| "method_of (DeleteMessage _ _) = ''deleteMessage''"
| "method_of (PinChatMessage _ _) = ''pinChatMessage''"
| "method_of GetMe = ''getMe''"
| "method_of (GetChat _) = ''getChat''"
| "method_of (GetChatMember _ _) = ''getChatMember''"
| "method_of (CreateForumTopic _ _) = ''createForumTopic''"
| "method_of (EditForumTopic _ _ _) = ''editForumTopic''"

datatype tg_result = ResNone | ResMessage message | ResUser tg_user | ResChat tg_chat
  | ResMember chat_member | ResTopic int | ResUpdates "tg_update list"

section \<open>Errors\<close>

record tg_error =
  te_Method :: bytes
  te_StatusCode :: int
  te_Description :: bytes
  te_Ambiguous :: bool
  te_RetryAfter :: int

text \<open>
  The errors of the program. \<open>DbError\<close> is any failure of the database driver;
  \<open>JoinedError\<close> and \<open>WrappedError\<close> are \<open>errors.Join\<close> and \<open>fmt.Errorf\<close> with \<open>%w\<close>.
  \<open>FuelExhausted\<close> is no error of the program: it is the outcome of a loop of the model that was
  given too little fuel.
\<close>

datatype goerr = TgError tg_error | DbError bytes | RuleError rule_error | ClaimLost bytes int
  | JoinedError "goerr list" | WrappedError bytes goerr | PlainError bytes | FuelExhausted

definition errors_join :: "goerr option list \<Rightarrow> goerr option" where
  "errors_join es = (let xs = List.map_filter id es in if xs = [] then None else Some (JoinedError xs))"

fun rule_error_text :: "rule_error \<Rightarrow> bytes" where
  "rule_error_text (UnknownZone z) = ''unknown time zone '' @ z"
| "rule_error_text RoutineNeedsPrefix = ''routine list must use list prefixes''"
| "rule_error_text RoutineItemEmpty = ''routine item is empty''"
| "rule_error_text RoutineListEmpty = ''routine list is empty''"
| "rule_error_text (RoutineTooMany n) = ''routine list has '' @ show_nat n @ '' items, max 9''"

definition tg_error_text :: "tg_error \<Rightarrow> bytes" where
  "tg_error_text e = (if 0 < te_StatusCode e
     then ''telegram '' @ te_Method e @ '' failed: '' @ show_int (te_StatusCode e) @ '' '' @ te_Description e
     else ''telegram '' @ te_Method e @ '' failed: '' @ te_Description e)"

fun err_text :: "goerr \<Rightarrow> bytes" where
  "err_text (TgError e) = tg_error_text e"
| "err_text (DbError s) = s"
| "err_text (RuleError r) = rule_error_text r"
| "err_text (ClaimLost kind n) = ''delivery claim lost: '' @ kind @ '' '' @ show_int n"
| "err_text (JoinedError es) = join_with [CHR 0x0A] (map err_text es)"
| "err_text (WrappedError p e) = p @ '': '' @ err_text e"
| "err_text (PlainError s) = s"
| "err_text FuelExhausted = []"

text \<open>\<open>errors.As(err, *telegram.Error)\<close>: the first Telegram error of the tree.\<close>

fun as_tg_error :: "goerr \<Rightarrow> tg_error option"
and as_tg_errors :: "goerr list \<Rightarrow> tg_error option" where
  "as_tg_error (TgError e) = Some e"
| "as_tg_error (JoinedError es) = as_tg_errors es"
| "as_tg_error (WrappedError p e) = as_tg_error e"
| "as_tg_error (DbError s) = None"
| "as_tg_error (RuleError r) = None"
| "as_tg_error (ClaimLost k n) = None"
| "as_tg_error (PlainError s) = None"
| "as_tg_error FuelExhausted = None"
| "as_tg_errors [] = None"
| "as_tg_errors (e # es) = (case as_tg_error e of None \<Rightarrow> as_tg_errors es | Some t \<Rightarrow> Some t)"

text \<open>Lower-casing here only matters for the ASCII letters the predicates look for.\<close>

definition err_contains :: "goerr \<Rightarrow> bytes \<Rightarrow> bool" where
  "err_contains e p = contains_str (to_lower (map lower_byte) (err_text e)) p"

definition IsNotModifiedError :: "goerr \<Rightarrow> bool" where
  "IsNotModifiedError e \<longleftrightarrow> err_contains e ''not modified'' \<or> err_contains e ''topic_not_modified''"

definition IsMissingThreadError :: "goerr \<Rightarrow> bool" where
  "IsMissingThreadError e \<longleftrightarrow> err_contains e ''message thread not found'' \<or> err_contains e ''topic_id_invalid''"

definition IsMissingDeleteTarget :: "goerr \<Rightarrow> bool" where
  "IsMissingDeleteTarget e \<longleftrightarrow> err_contains e ''message to delete not found'' \<or> err_contains e ''message_id_invalid''"

definition IsMissingEditTarget :: "goerr \<Rightarrow> bool" where
  "IsMissingEditTarget e \<longleftrightarrow> err_contains e ''message to edit not found'' \<or> err_contains e ''message_id_invalid''"

definition IsMissingReplyTarget :: "goerr \<Rightarrow> bool" where
  "IsMissingReplyTarget e \<longleftrightarrow> err_contains e ''reply message not found''
     \<or> err_contains e ''message to be replied not found'' \<or> err_contains e ''reply_to_message_id_invalid''"

definition IsTransientRequestError :: "goerr \<Rightarrow> bool" where
  "IsTransientRequestError e =
     (if (case as_tg_error e of Some t \<Rightarrow> te_StatusCode t = 429 | None \<Rightarrow> False) then True
      else err_contains e ''timeout'' \<or> err_contains e ''connection reset'' \<or> err_contains e ''connection refused''
        \<or> err_contains e ''bad gateway'' \<or> err_contains e ''too many requests'' \<or> err_contains e ''gateway timeout''
        \<or> err_contains e ''temporarily unavailable'' \<or> err_contains e ''eof'')"

section \<open>Senders\<close>

definition DisplayName :: "tg_user \<Rightarrow> bytes" where
  "DisplayName user =
     (let name = trim_space (trim_space (us_FirstName user) @ '' '' @ trim_space (us_LastName user)) in
      if name \<noteq> [] then name
      else if us_Username user \<noteq> [] then us_Username user
      else show_int (us_ID user))"

lemma DisplayName_not_Nil: "DisplayName user \<noteq> []"
  by (auto simp: DisplayName_def Let_def show_int_def)

end
