(* ===== verification/IO_Monad.thy ===== *)
theory IO_Monad imports Telegram begin

text \<open>
  Programs of the bot as functions of a world: the database, the clock, the HTTP endpoint of the
  Bot API and the log of the requests sent to it. What the outside does is given by two oracles
  of the world: \<open>w_sql k\<close> is the failure, if any, of the k-th exchange with the database and
  \<open>w_http k\<close> answers the k-th HTTP request. A program returns a Go error or a value.

  \<open>internal/storage/postgres/db.go\<close>: \<open>InTx\<close> runs a function in a transaction; an error (and
  a failed commit) restores the database, except for the SERIAL sequences. A failed statement
  inside a transaction aborts it: every later statement fails and the commit rolls back.
  \<open>now()\<close> is the start of the transaction.

  The locale \<open>db_rel\<close> is the contract of a property of database changes that every program
  built from these operations keeps when its statements keep it.
\<close>

record env =
  e_tzdb :: tz_database
  e_text :: "bytes \<Rightarrow> bytes"
  e_DefaultTimezone :: bytes
  e_BotID :: int
  e_Token :: bytes

datatype tx_state = NoTx | InTx int | TxAborted int

text \<open>
  The outcome of an HTTP request: a transport failure with its text and whether the request had
  been written, or a response with its status, its body and \<open>retry_after\<close>, and what decoding
  the body as JSON gives.
\<close>

datatype decoded = Undecodable bytes | Decoded bool bytes tg_result

datatype http_outcome = HttpFailed bytes bool | HttpResponse int bytes int decoded

record world =
  w_env :: env
  w_db :: db
  w_now :: int
  w_tx :: tx_state
  w_sql :: "nat \<Rightarrow> bytes option"
  w_nsql :: nat
  w_http :: "nat \<Rightarrow> tg_request \<Rightarrow> http_outcome"
  w_sent :: "tg_request list"
  w_RateLimitUntil :: int

type_synonym 'a io = "world \<Rightarrow> (goerr + 'a) \<times> world"

section \<open>Programs\<close>

definition ret :: "'a \<Rightarrow> 'a io" where "ret x = (\<lambda>w. (Inr x, w))"

definition failM :: "goerr \<Rightarrow> 'a io" where "failM e = (\<lambda>w. (Inl e, w))"

definition bindM :: "'a io \<Rightarrow> ('a \<Rightarrow> 'b io) \<Rightarrow> 'b io" where
  "bindM m f = (\<lambda>w. case m w of (Inl e, w') \<Rightarrow> (Inl e, w') | (Inr x, w') \<Rightarrow> f x w')"

definition thenM :: "'a io \<Rightarrow> 'b io \<Rightarrow> 'b io" where "thenM m n = bindM m (\<lambda>_. n)"

text \<open>The error as a value, for code that looks at it or drops it.\<close>

definition attempt :: "'a io \<Rightarrow> (goerr + 'a) io" where
  "attempt m = (\<lambda>w. case m w of (r, w') \<Rightarrow> (Inr r, w'))"

definition ignore :: "'a io \<Rightarrow> unit io" where "ignore m = bindM (attempt m) (\<lambda>_. ret ())"

definition err_of :: "'a io \<Rightarrow> goerr option io" where
  "err_of m = bindM (attempt m) (\<lambda>r. ret (case r of Inl e \<Rightarrow> Some e | Inr _ \<Rightarrow> None))"

definition raise_opt :: "goerr option \<Rightarrow> unit io" where
  "raise_opt e = (case e of None \<Rightarrow> ret () | Some e \<Rightarrow> failM e)"

definition getW :: "(world \<Rightarrow> 'a) \<Rightarrow> 'a io" where "getW f = (\<lambda>w. (Inr (f w), w))"

definition time_now :: "gotime io" where "time_now = getW (\<lambda>w. utc_time (w_now w))"

definition rule :: "(tz_database \<Rightarrow> rule_error + 'a) \<Rightarrow> 'a io" where
  "rule f = (\<lambda>w. (case f (e_tzdb (w_env w)) of Inl e \<Rightarrow> Inl (RuleError e) | Inr x \<Rightarrow> Inr x, w))"

definition whenM :: "bool \<Rightarrow> unit io \<Rightarrow> unit io" where "whenM b m = (if b then m else ret ())"

fun for_each :: "'a list \<Rightarrow> ('a \<Rightarrow> unit io) \<Rightarrow> unit io" where
  "for_each [] f = ret ()"
| "for_each (x # xs) f = thenM (f x) (for_each xs f)"

fun mapM :: "('a \<Rightarrow> 'b io) \<Rightarrow> 'a list \<Rightarrow> 'b list io" where
  "mapM f [] = ret []"
| "mapM f (x # xs) = bindM (f x) (\<lambda>y. bindM (mapM f xs) (\<lambda>ys. ret (y # ys)))"

text \<open>A loop whose body tells whether to go on, run at most \<open>n\<close> times.\<close>

fun loopM :: "nat \<Rightarrow> bool io \<Rightarrow> unit io" where
  "loopM 0 body = failM FuelExhausted"
| "loopM (Suc n) body = bindM body (\<lambda>more. if more then loopM n body else ret ())"

section \<open>Statements and transactions\<close>

text \<open>A statement is a function of \<open>now()\<close> and the database; \<open>None\<close> is a violated constraint.\<close>

type_synonym 'a sql = "int \<Rightarrow> db \<Rightarrow> ('a \<times> db) option"

definition bump :: "world \<Rightarrow> world" where "bump w = w\<lparr>w_nsql := Suc (w_nsql w)\<rparr>"

definition abort_tx :: "world \<Rightarrow> world" where
  "abort_tx w = w\<lparr>w_tx := (case w_tx w of NoTx \<Rightarrow> NoTx | InTx t \<Rightarrow> TxAborted t | TxAborted t \<Rightarrow> TxAborted t)\<rparr>"

definition stmt :: "'a sql \<Rightarrow> 'a io" where
  "stmt f = (\<lambda>w. case w_tx w of
       TxAborted t \<Rightarrow> (Inl (DbError ''current transaction is aborted''), bump w)
     | tx \<Rightarrow> (case w_sql w (w_nsql w) of
           Some text \<Rightarrow> (Inl (DbError text), abort_tx (bump w))
         | None \<Rightarrow> (case f (case tx of InTx t \<Rightarrow> t | _ \<Rightarrow> w_now w) (w_db w) of
             None \<Rightarrow> (Inl (DbError ''constraint violation''), abort_tx (bump w))
           | Some (x, d) \<Rightarrow> (Inr x, (bump w)\<lparr>w_db := d\<rparr>))))"

definition query :: "(db \<Rightarrow> 'a) \<Rightarrow> 'a io" where
  "query f = stmt (\<lambda>now d. Some (f d, d))"

definition exec :: "(int \<Rightarrow> db \<Rightarrow> db) \<Rightarrow> unit io" where
  "exec f = stmt (\<lambda>now d. Some ((), f now d))"

definition rollback :: "db \<Rightarrow> world \<Rightarrow> world" where
  "rollback d w = w\<lparr>w_db := d\<lparr>db_seq := db_seq (w_db w)\<rparr>, w_tx := NoTx\<rparr>"

definition inTx :: "'a io \<Rightarrow> 'a io" where
  "inTx fn = (\<lambda>w. case w_sql w (w_nsql w) of
       Some text \<Rightarrow> (Inl (DbError text), bump w)
     | None \<Rightarrow> (case fn ((bump w)\<lparr>w_tx := InTx (w_now w)\<rparr>) of
         (Inl e, w') \<Rightarrow> (Inl e, rollback (w_db w) w')
       | (Inr x, w') \<Rightarrow> (case (w_tx w', w_sql w' (w_nsql w')) of
           (InTx t, None) \<Rightarrow> (Inr x, (bump w')\<lparr>w_tx := NoTx\<rparr>)
         | (_, Some text) \<Rightarrow> (Inl (DbError text), rollback (w_db w) (bump w'))
         | (_, None) \<Rightarrow> (Inl (DbError ''commit unexpectedly resulted in rollback''),
               rollback (w_db w) (bump w')))))"

text \<open>
  A transaction whose function also assigns a variable of its caller: the variable keeps its value
  when the transaction is rolled back. The function gives the value and its error.
\<close>

definition inTxVar :: "'v \<Rightarrow> ('v \<times> goerr option) io \<Rightarrow> ('v \<times> goerr option) io" where
  "inTxVar v0 fn = (\<lambda>w. case w_sql w (w_nsql w) of
       Some text \<Rightarrow> (Inr (v0, Some (DbError text)), bump w)
     | None \<Rightarrow> (case fn ((bump w)\<lparr>w_tx := InTx (w_now w)\<rparr>) of
         (Inl e, w') \<Rightarrow> (Inr (v0, Some e), rollback (w_db w) w')
       | (Inr (v, Some e), w') \<Rightarrow> (Inr (v, Some e), rollback (w_db w) w')
       | (Inr (v, None), w') \<Rightarrow> (case (w_tx w', w_sql w' (w_nsql w')) of
           (InTx t, None) \<Rightarrow> (Inr (v, None), (bump w')\<lparr>w_tx := NoTx\<rparr>)
         | (_, Some text) \<Rightarrow> (Inr (v, Some (DbError text)), rollback (w_db w) (bump w'))
         | (_, None) \<Rightarrow> (Inr (v, Some (DbError ''commit unexpectedly resulted in rollback'')),
               rollback (w_db w) (bump w')))))"

section \<open>Database relations kept by programs\<close>

definition keeps :: "(db \<Rightarrow> db \<Rightarrow> bool) \<Rightarrow> 'a io \<Rightarrow> bool" where
  "keeps R m \<longleftrightarrow> (\<forall>w. R (w_db w) (w_db (snd (m w))))"

lemma keepsD: "keeps R m \<Longrightarrow> m w = (r, w') \<Longrightarrow> R (w_db w) (w_db w')"
  by (metis keeps_def snd_conv)

lemma w_db_bump [simp]: "w_db (bump w) = w_db w"
  by (simp add: bump_def)

lemma w_db_abort_tx [simp]: "w_db (abort_tx w) = w_db w"
  by (simp add: abort_tx_def)

lemma keeps_cases:
  "keeps R m \<Longrightarrow> keeps R n \<Longrightarrow> keeps R (if b then m else n)"
  "keeps R m \<Longrightarrow> (\<And>x. keeps R (f x)) \<Longrightarrow> keeps R (case b2 of None \<Rightarrow> m | Some x \<Rightarrow> f x)"
  "(\<And>e. keeps R (g e)) \<Longrightarrow> (\<And>x. keeps R (f x)) \<Longrightarrow> keeps R (case s of Inl e \<Rightarrow> g e | Inr x \<Rightarrow> f x)"
  "(\<And>x y. keeps R (h x y)) \<Longrightarrow> keeps R (case p of (x, y) \<Rightarrow> h x y)"
  by (simp_all split: option.split sum.split prod.split)

locale db_rel =
  fixes R :: "db \<Rightarrow> db \<Rightarrow> bool"
  assumes same: "R d d"
    and step: "R d d' \<Longrightarrow> R d' d'' \<Longrightarrow> R d d''"
    and sequences_kept: "R d d' \<Longrightarrow> R d (d\<lparr>db_seq := db_seq d'\<rparr>)"
begin

lemma keeps_pure: "(\<And>w. w_db (snd (m w)) = w_db w) \<Longrightarrow> keeps R m"
  by (simp add: keeps_def same)

lemma keeps_ret: "keeps R (ret x)"
  by (rule keeps_pure) (simp add: ret_def)

lemma keeps_failM: "keeps R (failM e)"
  by (rule keeps_pure) (simp add: failM_def)

lemma keeps_getW: "keeps R (getW f)"
  by (rule keeps_pure) (simp add: getW_def)

lemma keeps_time_now: "keeps R time_now"
  by (simp add: time_now_def keeps_getW)

lemma keeps_rule: "keeps R (rule f)"
  by (rule keeps_pure) (simp add: rule_def)

lemma keeps_bindM:
  assumes "keeps R m" and "\<And>x. keeps R (f x)"
  shows "keeps R (bindM m f)"
proof (unfold keeps_def, intro allI)
  fix w
  obtain r w' where m: "m w = (r, w')" by (cases "m w")
  with assms(1) have 1: "R (w_db w) (w_db w')" by (rule keepsD)
  show "R (w_db w) (w_db (snd (bindM m f w)))"
  proof (cases r)
    case (Inl e)
    with m 1 show ?thesis by (simp add: bindM_def)
  next
    case (Inr x)
    with m assms(2) [of x] 1 show ?thesis by (auto simp: bindM_def keeps_def intro: step)
  qed
qed

lemma keeps_thenM: "keeps R m \<Longrightarrow> keeps R n \<Longrightarrow> keeps R (thenM m n)"
  by (simp add: thenM_def keeps_bindM)

lemma keeps_attempt: "keeps R m \<Longrightarrow> keeps R (attempt m)"
  by (simp add: keeps_def attempt_def case_prod_beta)

lemma keeps_ignore: "keeps R m \<Longrightarrow> keeps R (ignore m)"
  by (simp add: ignore_def keeps_bindM keeps_attempt keeps_ret)

lemma keeps_err_of: "keeps R m \<Longrightarrow> keeps R (err_of m)"
  by (simp add: err_of_def keeps_bindM keeps_attempt keeps_ret)

lemma keeps_raise_opt: "keeps R (raise_opt e)"
  by (simp add: raise_opt_def keeps_ret keeps_failM split: option.split)

lemma keeps_whenM: "keeps R m \<Longrightarrow> keeps R (whenM b m)"
  by (simp add: whenM_def keeps_ret)

lemma keeps_for_each: "(\<And>x. keeps R (f x)) \<Longrightarrow> keeps R (for_each xs f)"
  by (induction xs) (simp_all add: keeps_ret keeps_thenM)

lemma keeps_mapM: "(\<And>x. keeps R (f x)) \<Longrightarrow> keeps R (mapM f xs)"
  by (induction xs) (simp_all add: keeps_ret keeps_bindM)

lemma keeps_loopM: "keeps R body \<Longrightarrow> keeps R (loopM n body)"
  by (induction n) (simp_all add: keeps_failM keeps_bindM keeps_ret)

lemma keeps_stmt:
  "(\<And>now d x d'. f now d = Some (x, d') \<Longrightarrow> R d d') \<Longrightarrow> keeps R (stmt f)"
  by (auto simp: keeps_def stmt_def same split: tx_state.split option.split prod.split)

lemma keeps_query: "keeps R (query f)"
  unfolding query_def by (rule keeps_stmt) (simp add: same)

lemma keeps_exec: "(\<And>now d. R d (f now d)) \<Longrightarrow> keeps R (exec f)"
  unfolding exec_def by (rule keeps_stmt) auto

lemma keeps_inTx:
  assumes "keeps R m"
  shows "keeps R (inTx m)"
proof (unfold keeps_def, intro allI)
  fix w
  obtain r w' where m: "m ((bump w)\<lparr>w_tx := InTx (w_now w)\<rparr>) = (r, w')"
    by (cases "m ((bump w)\<lparr>w_tx := InTx (w_now w)\<rparr>)")
  from keepsD [OF assms m] have "R (w_db w) (w_db w')" by simp
  then show "R (w_db w) (w_db (snd (inTx m w)))"
    using m sequences_kept same
    by (auto simp: inTx_def rollback_def split: option.split sum.split tx_state.split)
qed

lemma keeps_inTxVar:
  assumes "keeps R m"
  shows "keeps R (inTxVar v0 m)"
proof (unfold keeps_def, intro allI)
  fix w
  obtain r w' where m: "m ((bump w)\<lparr>w_tx := InTx (w_now w)\<rparr>) = (r, w')"
    by (cases "m ((bump w)\<lparr>w_tx := InTx (w_now w)\<rparr>)")
  from keepsD [OF assms m] have "R (w_db w) (w_db w')" by simp
  then show "R (w_db w) (w_db (snd (inTxVar v0 m w)))"
    using m sequences_kept same
    by (auto simp: inTxVar_def rollback_def split: option.split sum.split tx_state.split prod.split)
qed

lemmas keeps_program = keeps_ret keeps_failM keeps_getW keeps_time_now keeps_rule keeps_bindM
  keeps_thenM keeps_attempt keeps_ignore keeps_err_of keeps_raise_opt keeps_whenM keeps_for_each
  keeps_mapM keeps_loopM keeps_query keeps_inTx keeps_inTxVar keeps_cases

end

text \<open>No change at all, and changes of the sequences only.\<close>

interpretation unchanged: db_rel "(=) :: db \<Rightarrow> db \<Rightarrow> bool"
  by unfold_locales auto

section \<open>Reasoning about single runs\<close>

lemma ret_run: "ret x w = (Inr x, w)"
  by (simp add: ret_def)

lemma failM_run: "failM e w = (Inl e, w)"
  by (simp add: failM_def)

lemmas io_run = ret_run failM_run

lemma bindM_Inl [simp]: "m w = (Inl e, w') \<Longrightarrow> bindM m f w = (Inl e, w')"
  by (simp add: bindM_def)

lemma bindM_Inr [simp]: "m w = (Inr x, w') \<Longrightarrow> bindM m f w = f x w'"
  by (simp add: bindM_def)

lemma bindM_Inr_D: "bindM m f w = (Inr y, w'') \<Longrightarrow> \<exists>x w'. m w = (Inr x, w') \<and> f x w' = (Inr y, w'')"
  by (auto simp: bindM_def split: prod.splits sum.splits)

lemma query_run:
  "w_tx w \<noteq> TxAborted t \<Longrightarrow> query f w = (r, w') \<Longrightarrow> r = Inr x \<Longrightarrow> x = f (w_db w) \<and> w' = bump w"
  by (auto simp: query_def stmt_def bump_def split: tx_state.splits option.splits)

end
