(* ===== verification/Telegram_Client.thy ===== *)
theory Telegram_Client imports IO_Monad begin

text \<open>
  \<open>internal/telegram/client.go\<close>: the calls of the Bot API with their retries. A call is sent at
  most three times; a send whose outcome is unknown is never repeated; a 429 answer makes every
  later call wait. Waiting advances the clock of the world; calls are not cancelled. The errors
  a call returns have the bot token replaced.
\<close>

section \<open>Redaction\<close>

text \<open>\<open>strings.ReplaceAll\<close> for a non-empty \<open>old\<close>; the fuel is the length of the string.\<close>

fun replace_fuel :: "nat \<Rightarrow> bytes \<Rightarrow> bytes \<Rightarrow> bytes \<Rightarrow> bytes" where
  "replace_fuel 0 old new s = s"
| "replace_fuel (Suc n) old new [] = []"
| "replace_fuel (Suc n) old new (c # cs) = (if has_prefix (c # cs) old
     then new @ replace_fuel n old new (drop (length old) (c # cs))
     else c # replace_fuel n old new cs)"

definition replace_all :: "bytes \<Rightarrow> bytes \<Rightarrow> bytes \<Rightarrow> bytes" where
  "replace_all s old new = replace_fuel (length s) old new s"

definition redactError :: "bytes \<Rightarrow> tg_error \<Rightarrow> tg_error" where
  "redactError token e = (if token = [] then e
     else e\<lparr>te_Description := replace_all (te_Description e) token ''<redacted-token>''\<rparr>)"

section \<open>One exchange\<close>

definition tg_err :: "bytes \<Rightarrow> int \<Rightarrow> bytes \<Rightarrow> bool \<Rightarrow> int \<Rightarrow> tg_error" where
  "tg_err m code d amb ra = \<lparr>te_Method = m, te_StatusCode = code, te_Description = d,
     te_Ambiguous = amb, te_RetryAfter = ra\<rparr>"

definition retry_after_ns :: "int \<Rightarrow> int \<Rightarrow> int" where
  "retry_after_ns code seconds = (if code = 429 \<and> 0 < seconds then min seconds 9223372036 * ns_per_sec else 0)"

definition responseDescription :: "tg_request \<Rightarrow> bool \<Rightarrow> bytes \<Rightarrow> bytes" where
  "responseDescription req ok d = (if ok then []
     else (case req of GetUpdates _ _ \<Rightarrow> ''getUpdates not ok'' | _ \<Rightarrow> d))"

text \<open>The result of an HTTP outcome: an error of the client or the decoded result.\<close>

definition http_result :: "bytes \<Rightarrow> tg_request \<Rightarrow> http_outcome \<Rightarrow> tg_error + tg_result" where
  "http_result token req out = (let m = method_of req; send = (m = ''sendMessage'') in case out of
      HttpFailed text wrote \<Rightarrow> Inl (redactError token (tg_err m 0 text (send \<and> wrote) 0))
    | HttpResponse code body seconds dec \<Rightarrow>
        if 300 \<le> code then Inl (redactError token (tg_err m code (take 4096 body) False (retry_after_ns code seconds)))
        else (case dec of
            Undecodable text \<Rightarrow> Inl (redactError token (tg_err m 0 text send 0))
          | Decoded ok d res \<Rightarrow>
              (let desc = responseDescription req ok d in
               if desc \<noteq> [] then Inl (tg_err m 0 desc False 0) else Inr res)))"

definition callJSONOnce :: "tg_request \<Rightarrow> tg_result io" where
  "callJSONOnce req = (\<lambda>w.
     (map_sum TgError id (http_result (e_Token (w_env w)) req (w_http w (length (w_sent w)) req)),
      w\<lparr>w_sent := w_sent w @ [req]\<rparr>))"

section \<open>Retries\<close>

definition retryAttempts :: "bytes \<Rightarrow> nat" where
  "retryAttempts m = (if m \<in> {''getUpdates'', ''answerCallbackQuery'', ''sendMessage'', ''editMessageText'',
      ''editMessageReplyMarkup'', ''deleteMessage'', ''pinChatMessage'', ''getChat'', ''getChatMember'',
      ''createForumTopic'', ''editForumTopic''} then 3 else 1)"

definition retryDelay :: "nat \<Rightarrow> int" where
  "retryDelay n = (if n = 2 then 250000000 else if n = 3 then 750000000 else 0)"

definition sleepContext :: "int \<Rightarrow> unit io" where
  "sleepContext delay = (\<lambda>w. (Inr (), w\<lparr>w_now := w_now w + delay\<rparr>))"

definition waitRateLimit :: "unit io" where
  "waitRateLimit = (\<lambda>w. (Inr (), w\<lparr>w_now := max (w_now w) (w_RateLimitUntil w)\<rparr>))"

definition recordRateLimit :: "goerr \<Rightarrow> unit io" where
  "recordRateLimit e = (\<lambda>w. case as_tg_error e of
      None \<Rightarrow> (Inr (), w)
    | Some t \<Rightarrow> if te_RetryAfter t \<le> 0 then (Inr (), w)
        else (Inr (), w\<lparr>w_RateLimitUntil := max (w_RateLimitUntil w) (w_now w + te_RetryAfter t)\<rparr>))"

definition ambiguous_send :: "tg_request \<Rightarrow> goerr \<Rightarrow> bool" where
  "ambiguous_send req e \<longleftrightarrow> method_of req = ''sendMessage''
     \<and> (case as_tg_error e of Some t \<Rightarrow> te_Ambiguous t | None \<Rightarrow> False)"

text \<open>\<open>k\<close> attempts are left, the next one is number \<open>n\<close>.\<close>

fun call_attempts :: "nat \<Rightarrow> nat \<Rightarrow> goerr \<Rightarrow> tg_request \<Rightarrow> tg_result io" where
  "call_attempts 0 n lastErr req = failM lastErr"
| "call_attempts (Suc k) n lastErr req =
     thenM (whenM (1 < n) (sleepContext (retryDelay n)))
       (thenM waitRateLimit
         (bindM (attempt (callJSONOnce req)) (\<lambda>r. case r of
             Inr res \<Rightarrow> ret res
           | Inl e \<Rightarrow> thenM (recordRateLimit e)
               (if k = 0 \<or> ambiguous_send req e \<or> \<not> IsTransientRequestError e then failM e
                else call_attempts k (Suc n) e req))))"

definition callJSON :: "tg_request \<Rightarrow> tg_result io" where
  "callJSON req = call_attempts (retryAttempts (method_of req)) 1 (PlainError []) req"

section \<open>The methods\<close>

definition message0 :: message where
  "message0 = \<lparr>mg_MessageID = 0, mg_MessageThreadID = 0, mg_DateUnix = 0, mg_From = None,
     mg_Chat = \<lparr>ch_ID = 0, ch_Type = [], ch_Title = [], ch_IsForum = False\<rparr>, mg_Text = [], mg_Entities = [],
     mg_Caption = [], mg_CaptionEntities = [], mg_MediaGroupID = [], mg_Voice = False, mg_VideoNote = False,
     mg_Video = False, mg_Photos = 0, mg_Audio = None, mg_Document = None, mg_Animation = False,
     mg_Sticker = None, mg_Contact = None, mg_Location = None, mg_Venue = None, mg_Poll = None,
     mg_Dice = None, mg_Game = None, mg_Invoice = None\<rparr>"

definition tgSendMessage :: "send_message_request \<Rightarrow> message io" where
  "tgSendMessage request =
     (let request = (if sm_ParseMode request = [] then request\<lparr>sm_ParseMode := ''HTML''\<rparr> else request) in
      bindM (callJSON (SendMessage request))
        (\<lambda>res. ret (case res of ResMessage m \<Rightarrow> m | _ \<Rightarrow> message0)))"

definition tgSendMessageOnce :: "send_message_request \<Rightarrow> message io" where
  "tgSendMessageOnce request =
     (let request = (if sm_ParseMode request = [] then request\<lparr>sm_ParseMode := ''HTML''\<rparr> else request) in
      thenM waitRateLimit
        (bindM (attempt (callJSONOnce (SendMessage request))) (\<lambda>r. case r of
            Inl e \<Rightarrow> thenM (recordRateLimit e) (failM e)
          | Inr res \<Rightarrow> ret (case res of ResMessage m \<Rightarrow> m | _ \<Rightarrow> message0))))"

text \<open>Edits treat "not modified" as success, a deletion a missing message.\<close>

definition call_unless :: "(goerr \<Rightarrow> bool) \<Rightarrow> tg_request \<Rightarrow> unit io" where
  "call_unless harmless req = bindM (err_of (callJSON req))
     (\<lambda>r. case r of None \<Rightarrow> ret () | Some e \<Rightarrow> if harmless e then ret () else failM e)"

definition tgEditMessageText :: "edit_message_request \<Rightarrow> unit io" where
  "tgEditMessageText request =
     (let request = (if em_ParseMode request = [] then request\<lparr>em_ParseMode := ''HTML''\<rparr> else request) in
      call_unless IsNotModifiedError (EditMessageText request))"

definition tgEditMessageReplyMarkup :: "int \<Rightarrow> int \<Rightarrow> keyboard option \<Rightarrow> unit io" where
  "tgEditMessageReplyMarkup chat mid kb = call_unless IsNotModifiedError (EditMessageReplyMarkup chat mid kb)"

definition tgDeleteMessage :: "int \<Rightarrow> int \<Rightarrow> unit io" where
  "tgDeleteMessage chat mid = (if mid = 0 then ret ()
     else call_unless IsMissingDeleteTarget (DeleteMessage chat mid))"

definition tgPinChatMessage :: "int \<Rightarrow> int \<Rightarrow> unit io" where
  "tgPinChatMessage chat mid = call_unless (\<lambda>_. False) (PinChatMessage chat mid)"

definition tgAnswerCallbackQuery :: "bytes \<Rightarrow> bytes \<Rightarrow> unit io" where
  "tgAnswerCallbackQuery qid text = call_unless (\<lambda>_. False) (AnswerCallbackQuery qid text)"

definition tgGetChat :: "int \<Rightarrow> tg_chat io" where
  "tgGetChat chat = bindM (callJSON (GetChat chat))
     (\<lambda>res. ret (case res of ResChat c \<Rightarrow> c | _ \<Rightarrow> mg_Chat message0))"

definition user0 :: tg_user where
  "user0 = \<lparr>us_ID = 0, us_IsBot = False, us_FirstName = [], us_LastName = [], us_Username = []\<rparr>"

definition tgGetMe :: "tg_user io" where
  "tgGetMe = bindM (callJSON GetMe) (\<lambda>res. ret (case res of ResUser u \<Rightarrow> u | _ \<Rightarrow> user0))"

definition tgGetChatMember :: "int \<Rightarrow> int \<Rightarrow> chat_member io" where
  "tgGetChatMember chat user = bindM (callJSON (GetChatMember chat user))
     (\<lambda>res. ret (case res of ResMember m \<Rightarrow> m
        | _ \<Rightarrow> \<lparr>cm_Status = [], cm_User = user0, cm_CanManageTopics = False\<rparr>))"

definition tgCreateForumTopic :: "int \<Rightarrow> bytes \<Rightarrow> int io" where
  "tgCreateForumTopic chat name = bindM (callJSON (CreateForumTopic chat name))
     (\<lambda>res. ret (case res of ResTopic t \<Rightarrow> t | _ \<Rightarrow> 0))"

definition tgEditForumTopic :: "int \<Rightarrow> int \<Rightarrow> bytes \<Rightarrow> unit io" where
  "tgEditForumTopic chat thread name = call_unless IsNotModifiedError (EditForumTopic chat thread name)"

definition tgPollUpdates :: "int \<Rightarrow> int \<Rightarrow> tg_update list io" where
  "tgPollUpdates offset timeout = bindM (callJSON (GetUpdates offset timeout))
     (\<lambda>res. ret (case res of ResUpdates us \<Rightarrow> us | _ \<Rightarrow> []))"

section \<open>Lemmas\<close>

text \<open>A call leaves the database alone.\<close>

lemma unchanged_callJSON: "keeps (=) (callJSON req)"
proof -
  have once: "keeps (=) (callJSONOnce req)" for req
    by (rule unchanged.keeps_pure) (simp add: callJSONOnce_def)
  have time: "keeps (=) (sleepContext k)" "keeps (=) waitRateLimit" "keeps (=) (recordRateLimit e)" for k e
    by (rule unchanged.keeps_pure; simp add: sleepContext_def waitRateLimit_def recordRateLimit_def
        split: option.split)+
  have "keeps (=) (call_attempts k n e req)" for k n e
    by (induction k arbitrary: n e)
      (auto intro!: unchanged.keeps_program once time)
  then show ?thesis by (simp add: callJSON_def)
qed

lemma unchanged_call_unless: "keeps (=) (call_unless h req)"
  unfolding call_unless_def by (intro unchanged.keeps_program unchanged_callJSON)

lemma unchanged_telegram:
  "keeps (=) (tgSendMessage sr)" "keeps (=) (tgEditMessageText er)" "keeps (=) (tgEditMessageReplyMarkup c m kb)"
  "keeps (=) (tgDeleteMessage c m)" "keeps (=) (tgPinChatMessage c m)" "keeps (=) (tgAnswerCallbackQuery q t)"
  "keeps (=) (tgGetChat c)" "keeps (=) tgGetMe" "keeps (=) (tgGetChatMember c u)"
  "keeps (=) (tgCreateForumTopic c t)" "keeps (=) (tgEditForumTopic c m t)" "keeps (=) (tgPollUpdates i j)"
  unfolding tgSendMessage_def tgEditMessageText_def tgEditMessageReplyMarkup_def tgDeleteMessage_def
    tgPinChatMessage_def tgAnswerCallbackQuery_def tgGetChat_def tgGetMe_def tgGetChatMember_def
    tgCreateForumTopic_def tgEditForumTopic_def tgPollUpdates_def Let_def
  by (intro unchanged.keeps_program unchanged_callJSON unchanged_call_unless)+

context db_rel
begin

lemma keeps_unchanged: "keeps (=) m \<Longrightarrow> keeps R m"
  by (metis keeps_def same)

lemmas keeps_telegram = unchanged_telegram [THEN keeps_unchanged]

end

text \<open>The outcome of the j-th attempt of a call that starts in \<open>w\<close>.\<close>

definition attempt_result :: "tg_request \<Rightarrow> world \<Rightarrow> nat \<Rightarrow> goerr + tg_result" where
  "attempt_result req w j = map_sum TgError id
     (http_result (e_Token (w_env w)) req (w_http w (length (w_sent w) + j) req))"

definition same_oracle :: "world \<Rightarrow> world \<Rightarrow> bool" where
  "same_oracle w w' \<longleftrightarrow> w_env w' = w_env w \<and> w_http w' = w_http w \<and> w_sent w' = w_sent w"

definition may_repeat :: "tg_request \<Rightarrow> goerr + tg_result \<Rightarrow> bool" where
  "may_repeat req r \<longleftrightarrow> (\<exists>e. r = Inl e \<and> \<not> ambiguous_send req e \<and> IsTransientRequestError e)"

lemma call_attempts_sent:
  "\<exists>m \<le> k. w_sent (snd (call_attempts k n e req w)) = w_sent w @ replicate m req
    \<and> (0 < k \<longrightarrow> 0 < m \<and> fst (call_attempts k n e req w) = attempt_result req w (m - 1)
       \<and> (\<forall>j < m - 1. may_repeat req (attempt_result req w j)))"
  supply io_run [simp]
proof (induction k arbitrary: n e w)
  case 0
  then show ?case by (intro exI [of _ 0]) simp
next
  case (Suc k)
  define w1 where "w1 = snd (thenM (whenM (1 < n) (sleepContext (retryDelay n))) waitRateLimit w)"
  have w1: "same_oracle w w1"
    by (simp add: w1_def thenM_def bindM_def whenM_def sleepContext_def waitRateLimit_def same_oracle_def)
  define w2 where "w2 = w1\<lparr>w_sent := w_sent w1 @ [req]\<rparr>"
  have once: "callJSONOnce req w1 = (attempt_result req w 0, w2)"
    using w1 by (simp add: callJSONOnce_def attempt_result_def w2_def same_oracle_def)
  have run: "call_attempts (Suc k) n e req w = (case attempt_result req w 0 of
      Inr res \<Rightarrow> (Inr res, w2)
    | Inl e' \<Rightarrow> (thenM (recordRateLimit e')
        (if k = 0 \<or> ambiguous_send req e' \<or> \<not> IsTransientRequestError e' then failM e'
         else call_attempts k (Suc n) e' req)) w2)"
  proof -
    have pre: "thenM (whenM (1 < n) (sleepContext (retryDelay n))) (thenM waitRateLimit M) w = M w1" for M :: "tg_result io"
      by (simp add: w1_def thenM_def bindM_def whenM_def sleepContext_def waitRateLimit_def)
    have att: "attempt (callJSONOnce req) w1 = (Inr (attempt_result req w 0), w2)"
      using once by (simp add: attempt_def)
    show ?thesis unfolding call_attempts.simps pre by (simp add: att split: sum.split)
  qed
  show ?case
  proof (cases "attempt_result req w 0")
    case (Inr res)
    then show ?thesis using w1 run by (intro exI [of _ 1]) (simp add: w2_def same_oracle_def)
  next
    case (Inl e')
    define w3 where "w3 = snd (recordRateLimit e' w2)"
    have rec: "recordRateLimit e' w2 = (Inr (), w3)" and w3: "same_oracle w2 w3"
      by (auto simp: w3_def recordRateLimit_def same_oracle_def split: option.split)
    have sent3: "w_sent w3 = w_sent w @ [req]" using w1 w3 by (simp add: w2_def same_oracle_def)
    show ?thesis
    proof (cases "k = 0 \<or> ambiguous_send req e' \<or> \<not> IsTransientRequestError e'")
      case True
      then show ?thesis
        using Inl run rec sent3 by (intro exI [of _ 1]) (auto simp: thenM_def)
    next
      case False
      then have run': "call_attempts (Suc k) n e req w = call_attempts k (Suc n) e' req w3"
        using Inl run rec by (simp add: thenM_def)
      have res: "attempt_result req w3 j = attempt_result req w (Suc j)" for j
        using w1 w3 sent3 by (simp add: attempt_result_def w2_def same_oracle_def)
      obtain m where m: "m \<le> k" "0 < m"
          "w_sent (snd (call_attempts k (Suc n) e' req w3)) = w_sent w3 @ replicate m req"
          "fst (call_attempts k (Suc n) e' req w3) = attempt_result req w3 (m - 1)"
          "\<forall>j < m - 1. may_repeat req (attempt_result req w3 j)"
        using Suc.IH [of "Suc n" e' w3] False by auto
      have "may_repeat req (attempt_result req w j)" if "j < m" for j
        using that m(5) Inl False res by (cases j) (auto simp: may_repeat_def)
      then show ?thesis
        using m sent3 run' res [of "m - 1"] by (intro exI [of _ "Suc m"]) simp
    qed
  qed
qed

section \<open>A fresh deployment\<close>

text \<open>
  The database after the migrations, and a world in which no statement fails and every call to
  Telegram succeeds with message 1000 plus the number of requests sent before. The example of
  every witness.
\<close>

definition db0 :: db where
  "db0 = \<lparr>db_seq = (\<lambda>_. 0), db_workspaces = [], db_bindings = [], db_participants = [], db_tasks = [],
     db_alerts = [], db_pendings = [], db_events = [], db_plans = [], db_checkins = [], db_goals = [],
     db_weekly = [], db_finals = [], db_nudges = [], db_retries = [], db_clock = None, db_reports = []\<rparr>"

definition env0 :: env where
  "env0 = \<lparr>e_tzdb = (\<lambda>name. if name = ''UTC'' then Some utc else None), e_text = (\<lambda>k. k),
     e_DefaultTimezone = ''UTC'', e_BotID = 1, e_Token = ''1:token''\<rparr>"

definition world0 :: world where
  "world0 = \<lparr>w_env = env0, w_db = db0, w_now = 1774746000000000000, w_tx = NoTx, w_sql = (\<lambda>_. None), w_nsql = 0,
     w_http = (\<lambda>k req. HttpResponse 200 [] 0 (Decoded True [] (ResMessage (message0\<lparr>mg_MessageID := 1000 + int k\<rparr>)))),
     w_sent = [], w_RateLimitUntil = 0\<rparr>"

section \<open>Properties\<close>

text \<open>C1. A call sends its request between one and three times and returns what the last attempt
  gave; every attempt before it failed with an error that is transient and, for sendMessage, did
  not leave it unknown whether the message was sent. So an ambiguous send is never repeated.\<close>

theorem call_retries_only_safe_failures:
  "\<exists>m. 1 \<le> m \<and> m \<le> 3 \<and> w_sent (snd (callJSON req w)) = w_sent w @ replicate m req
    \<and> fst (callJSON req w) = attempt_result req w (m - 1)
    \<and> (\<forall>j < m - 1. may_repeat req (attempt_result req w j))"
proof -
  have "0 < retryAttempts (method_of req)" "retryAttempts (method_of req) \<le> 3"
    by (simp_all add: retryAttempts_def)
  then show ?thesis
    using call_attempts_sent [of "retryAttempts (method_of req)" 1 "PlainError []" req w]
    unfolding callJSON_def by (auto simp: Suc_le_eq intro: order.trans)
qed

theorem call_retries_only_safe_failures_witness:
  "\<exists>m. 1 \<le> m \<and> m \<le> 3
    \<and> w_sent (snd (callJSON (GetChat 5) (world0\<lparr>w_http := \<lambda>k req. HttpResponse 500 [] 0 (Undecodable [])\<rparr>)))
        = replicate m (GetChat 5)
    \<and> fst (callJSON (GetChat 5) (world0\<lparr>w_http := \<lambda>k req. HttpResponse 500 [] 0 (Undecodable [])\<rparr>))
        = Inl (TgError (tg_err ''getChat'' 500 [] False 0))"
  using call_retries_only_safe_failures [of "GetChat 5"
      "world0\<lparr>w_http := \<lambda>k req. HttpResponse 500 [] 0 (Undecodable [])\<rparr>"]
  by (auto simp: attempt_result_def http_result_def world0_def env0_def redactError_def replace_all_def tg_err_def
      retry_after_ns_def)

text \<open>Deleting a message succeeds when Telegram says that the message is already gone, and a
  deletion of message 0 sends nothing.\<close>

theorem delete_missing_message_succeeds:
  "fst (tgDeleteMessage chat mid w) =
     (if mid = 0 then Inr () else (case fst (callJSON (DeleteMessage chat mid) w) of
        Inr _ \<Rightarrow> Inr () | Inl e \<Rightarrow> if IsMissingDeleteTarget e then Inr () else Inl e))
   \<and> w_sent (snd (tgDeleteMessage chat 0 w)) = w_sent w"
  by (auto simp: tgDeleteMessage_def call_unless_def err_of_def bindM_def attempt_def case_prod_beta io_run
      split: sum.split)

end
