(* ===== verification/Schema.thy ===== *)
theory Schema imports Telegram_Client begin

text \<open>
  What the tables of the database promise and how they may change. \<open>schema\<close> collects the
  primary keys, UNIQUE constraints and foreign keys of the migrations; \<open>history\<close> is the
  promise about the past: a daily task keeps its identity, only moves forward through its
  statuses and keeps its result, a published progress event stays published, an acknowledged
  alert stays acknowledged. \<open>db_step\<close> puts the two together and interprets \<open>db_rel\<close>, so every program
  built from statements that keep them keeps them too, rollbacks and failures included.
\<close>

section \<open>Keys\<close>

definition ids_ok :: "('a \<Rightarrow> int) \<Rightarrow> int \<Rightarrow> 'a list \<Rightarrow> bool" where
  "ids_ok f n rs \<longleftrightarrow> distinct (map f rs) \<and> (\<forall>r \<in> set rs. 1 \<le> f r \<and> f r \<le> n)"

definition uniq :: "('a \<Rightarrow> 'k) \<Rightarrow> 'a list \<Rightarrow> bool" where
  "uniq k rs \<longleftrightarrow> distinct (map k rs)"

lemma ids_ok_Nil [simp]: "ids_ok f n []"
  by (simp add: ids_ok_def)

lemma uniq_Nil [simp]: "uniq k []"
  by (simp add: uniq_def)

lemma ids_ok_mono: "ids_ok f n rs \<Longrightarrow> n \<le> m \<Longrightarrow> ids_ok f m rs"
  by (fastforce simp: ids_ok_def)

lemma ids_ok_append:
  "ids_ok f n rs \<Longrightarrow> f r = n + 1 \<Longrightarrow> 0 \<le> n \<Longrightarrow> ids_ok f (n + 1) (rs @ [r])"
  by (fastforce simp: ids_ok_def)

lemma ids_ok_upd: "ids_ok f n rs \<Longrightarrow> (\<And>r. p r \<Longrightarrow> f (g r) = f r) \<Longrightarrow> ids_ok f n (upd_where p g rs)"
  by (auto simp: ids_ok_def map_upd_where set_upd_where)

lemma ids_ok_filter: "ids_ok f n rs \<Longrightarrow> ids_ok f n (filter p rs)"
  by (auto simp: ids_ok_def distinct_map_filter_key)

lemma uniq_append: "uniq k rs \<Longrightarrow> (\<And>q. q \<in> set rs \<Longrightarrow> k q \<noteq> k r) \<Longrightarrow> uniq k (rs @ [r])"
  by (simp add: uniq_def image_iff) metis

lemma uniq_upd: "uniq k rs \<Longrightarrow> (\<And>r. p r \<Longrightarrow> k (g r) = k r) \<Longrightarrow> uniq k (upd_where p g rs)"
  by (simp add: uniq_def map_upd_where)

lemma uniq_filter: "uniq k rs \<Longrightarrow> uniq k (filter p rs)"
  by (simp add: uniq_def distinct_map_filter_key)

lemma uniq_same: "uniq k rs \<Longrightarrow> a \<in> set rs \<Longrightarrow> b \<in> set rs \<Longrightarrow> k a = k b \<Longrightarrow> a = b"
  unfolding uniq_def by (meson distinct_map inj_on_def)

lemma ids_ok_uniq: "ids_ok f n rs \<Longrightarrow> uniq f rs"
  by (simp add: ids_ok_def uniq_def)

text \<open>The row with a key, when keys are unique.\<close>

lemma first_where_uniq:
  "uniq k rs \<Longrightarrow> r \<in> set rs \<Longrightarrow> k r = x \<Longrightarrow> first_where (\<lambda>q. k q = x) rs = Some r"
  using first_where_key [of k rs r] by (simp add: uniq_def)

section \<open>The schema\<close>

definition ws_ref :: "db \<Rightarrow> int \<Rightarrow> bool" where
  "ws_ref d i \<longleftrightarrow> (\<exists>w \<in> set (db_workspaces d). ws_ID w = i)"

definition pt_ref :: "db \<Rightarrow> int \<Rightarrow> bool" where
  "pt_ref d i \<longleftrightarrow> (\<exists>p \<in> set (db_participants d). pt_ID p = i)"

definition tk_ref :: "db \<Rightarrow> int \<Rightarrow> bool" where
  "tk_ref d i \<longleftrightarrow> (\<exists>t \<in> set (db_tasks d). tk_ID t = i)"

definition source_taken :: "('a \<Rightarrow> int) \<Rightarrow> ('a \<Rightarrow> int option) \<Rightarrow> int \<Rightarrow> int option \<Rightarrow> 'a list \<Rightarrow> bool" where
  "source_taken ws src w m rs \<longleftrightarrow> m \<noteq> None \<and> (\<exists>r \<in> set rs. ws r = w \<and> src r = m)"

definition sources :: "(daily_task \<Rightarrow> int option) \<Rightarrow> db \<Rightarrow> (int \<times> int option) list" where
  "sources f d = map (\<lambda>t. (tk_WorkspaceGroupID t, f t)) (filter (\<lambda>t. f t \<noteq> None) (db_tasks d))"

definition schema_keys :: "db \<Rightarrow> bool" where
  "schema_keys d \<longleftrightarrow> (\<forall>t. 0 \<le> db_seq d t)
     \<and> ids_ok ws_ID (db_seq d TWorkspaces) (db_workspaces d) \<and> uniq ws_ChatID (db_workspaces d)
     \<and> ids_ok tb_ID (db_seq d TBindings) (db_bindings d)
     \<and> uniq (\<lambda>b. (tb_WorkspaceGroupID b, tb_TopicKey b)) (db_bindings d)
     \<and> ids_ok pt_ID (db_seq d TParticipants) (db_participants d)
     \<and> uniq (\<lambda>p. (pt_WorkspaceGroupID p, pt_UserID p)) (db_participants d)
     \<and> ids_ok tk_ID (db_seq d TTasks) (db_tasks d)
     \<and> uniq (\<lambda>t. (tk_WorkspaceGroupID t, tk_ParticipantID t, tk_TaskDate t)) (db_tasks d)
     \<and> ids_ok al_ID (db_seq d TAlerts) (db_alerts d)
     \<and> uniq (\<lambda>a. (al_DailyTaskID a, al_AlertKind a)) (db_alerts d)
     \<and> ids_ok pi_ID (db_seq d TPendings) (db_pendings d)
     \<and> uniq (\<lambda>p. (pi_WorkspaceGroupID p, pi_UserID p, pi_MessageThreadID p)) (db_pendings d)
     \<and> ids_ok pe_ID (db_seq d TEvents) (db_events d)
     \<and> uniq (\<lambda>r. (dr_Operation r, dr_EntityID r)) (db_retries d)"

definition schema_refs :: "db \<Rightarrow> bool" where
  "schema_refs d \<longleftrightarrow>
     (\<forall>b \<in> set (db_bindings d). ws_ref d (tb_WorkspaceGroupID b))
     \<and> (\<forall>p \<in> set (db_participants d). ws_ref d (pt_WorkspaceGroupID p))
     \<and> (\<forall>t \<in> set (db_tasks d). ws_ref d (tk_WorkspaceGroupID t) \<and> pt_ref d (tk_ParticipantID t))
     \<and> (\<forall>a \<in> set (db_alerts d). tk_ref d (al_DailyTaskID a))
     \<and> (\<forall>p \<in> set (db_pendings d). ws_ref d (pi_WorkspaceGroupID p))
     \<and> (\<forall>e \<in> set (db_events d). ws_ref d (pe_WorkspaceGroupID e))
     \<and> (\<forall>r \<in> set (db_retries d). 1 \<le> dr_Attempts r \<and> dr_Attempts r \<le> 8)"

text \<open>
  The tables of routines and goals, and what their rows keep: an automatic failure also completes a
  check-in, the items of a check-in have distinct indexes, a skipped review has no answer, a final
  review has every part of its summary once and is completed with a status and a summary only.
\<close>

definition gs_ref :: "db \<Rightarrow> int \<Rightarrow> bool" where
  "gs_ref d i \<longleftrightarrow> (\<exists>g \<in> set (db_goals d). gs_ID g = i)"

definition checkin_ok :: "routine_checkin \<Rightarrow> bool" where
  "checkin_ok c \<longleftrightarrow> uniq ri_ItemIndex (rc_Items c)
     \<and> (rc_AutoFailedAt c \<noteq> None \<longrightarrow> rc_CompletedAt c \<noteq> None)"

definition weekly_ok :: "goal_weekly_review \<Rightarrow> bool" where
  "weekly_ok r \<longleftrightarrow> wr_SkippedAt r = None \<or> wr_ResponseText r = None"

definition has_summary :: "goal_final_review \<Rightarrow> bool" where
  "has_summary r \<longleftrightarrow> (case fr_SummaryText r of None \<Rightarrow> False | Some s \<Rightarrow> \<not> list_all (\<lambda>c. c = CHR '' '') s)"

definition final_ok :: "goal_final_review \<Rightarrow> bool" where
  "final_ok r \<longleftrightarrow> distinct (fr_SummaryMessageIDs r)
     \<and> (fr_CompletedAt r \<noteq> None \<longrightarrow> fr_Status r \<noteq> None \<and> has_summary r)"

definition report_key :: "monthly_report \<Rightarrow> int \<times> int" where
  "report_key r = (mr_WorkspaceGroupID r, mr_Month r)"

definition plans_keys :: "db \<Rightarrow> bool" where
  "plans_keys d \<longleftrightarrow> ids_ok rp_ID (db_seq d TPlans) (db_plans d)
     \<and> uniq (\<lambda>p. (rp_WorkspaceGroupID p, rp_ParticipantID p)) (db_plans d)
     \<and> ids_ok rc_ID (db_seq d TCheckins) (db_checkins d)
     \<and> uniq (\<lambda>c. (rc_WorkspaceGroupID c, rc_ParticipantID c, rc_CheckinDate c)) (db_checkins d)
     \<and> ids_ok gs_ID (db_seq d TGoals) (db_goals d)
     \<and> uniq (\<lambda>g. (gs_WorkspaceGroupID g, gs_ParticipantID g, gs_PeriodKey g)) (db_goals d)
     \<and> ids_ok wr_ID (db_seq d TWeekly) (db_weekly d) \<and> uniq (\<lambda>r. (wr_GoalSetID r, wr_ReviewWeekStart r)) (db_weekly d)
     \<and> ids_ok fr_ID (db_seq d TFinals) (db_finals d) \<and> uniq fr_GoalSetID (db_finals d)
     \<and> uniq (\<lambda>g. (gn_WorkspaceGroupID g, gn_ParticipantID g)) (db_nudges d)
     \<and> uniq report_key (db_reports d)"

definition plans_refs :: "db \<Rightarrow> bool" where
  "plans_refs d \<longleftrightarrow>
     (\<forall>p \<in> set (db_plans d). ws_ref d (rp_WorkspaceGroupID p) \<and> pt_ref d (rp_ParticipantID p))
     \<and> (\<forall>c \<in> set (db_checkins d). ws_ref d (rc_WorkspaceGroupID c) \<and> pt_ref d (rc_ParticipantID c) \<and> checkin_ok c)
     \<and> (\<forall>g \<in> set (db_goals d). ws_ref d (gs_WorkspaceGroupID g) \<and> pt_ref d (gs_ParticipantID g))
     \<and> (\<forall>r \<in> set (db_weekly d). gs_ref d (wr_GoalSetID r) \<and> weekly_ok r)
     \<and> (\<forall>r \<in> set (db_finals d). gs_ref d (fr_GoalSetID r) \<and> final_ok r)
     \<and> (\<forall>g \<in> set (db_nudges d). ws_ref d (gn_WorkspaceGroupID g) \<and> pt_ref d (gn_ParticipantID g))
     \<and> (\<forall>r \<in> set (db_reports d). ws_ref d (mr_WorkspaceGroupID r))"

definition schema_plans :: "db \<Rightarrow> bool" where "schema_plans d \<longleftrightarrow> plans_keys d \<and> plans_refs d"

definition schema :: "db \<Rightarrow> bool" where "schema d \<longleftrightarrow> schema_keys d \<and> schema_refs d \<and> schema_plans d"

lemmas schema_defs = schema_def schema_keys_def schema_refs_def ws_ref_def pt_ref_def tk_ref_def

lemmas plans_defs = schema_plans_def plans_keys_def plans_refs_def

lemma schema_plans_other_tables [simp]:
  "schema_plans (d\<lparr>db_bindings := bs\<rparr>) = schema_plans d" "schema_plans (d\<lparr>db_tasks := ts\<rparr>) = schema_plans d"
  "schema_plans (d\<lparr>db_alerts := as\<rparr>) = schema_plans d" "schema_plans (d\<lparr>db_pendings := ps\<rparr>) = schema_plans d"
  "schema_plans (d\<lparr>db_events := es\<rparr>) = schema_plans d" "schema_plans (d\<lparr>db_retries := rs\<rparr>) = schema_plans d"
  "schema_plans (d\<lparr>db_clock := ov\<rparr>) = schema_plans d"
  by (simp_all add: plans_defs ws_ref_def pt_ref_def gs_ref_def)

lemma schema_plans_seq [simp]:
  "schema_plans d \<Longrightarrow> \<forall>t. db_seq d t \<le> s t \<Longrightarrow> schema_plans (d\<lparr>db_seq := s\<rparr>)"
  unfolding plans_defs ws_ref_def pt_ref_def gs_ref_def by (auto intro: ids_ok_mono)

lemma schema_plans_workspaces:
  "schema_plans d \<Longrightarrow> ws_ID ` set (db_workspaces d) \<subseteq> ws_ID ` set ws \<Longrightarrow> schema_plans (d\<lparr>db_workspaces := ws\<rparr>)"
  unfolding plans_defs ws_ref_def by (auto simp: pt_ref_def gs_ref_def image_subset_iff image_iff) metis+

lemma schema_plans_participants:
  "schema_plans d \<Longrightarrow> pt_ID ` set (db_participants d) \<subseteq> pt_ID ` set ps \<Longrightarrow> schema_plans (d\<lparr>db_participants := ps\<rparr>)"
  unfolding plans_defs pt_ref_def by (auto simp: ws_ref_def gs_ref_def image_subset_iff image_iff) metis+

lemma image_upd_where: "(\<And>r. p r \<Longrightarrow> k (f r) = k r) \<Longrightarrow> k ` set (upd_where p f rs) = k ` set rs"
  by (metis list.set_map map_upd_where)

lemma schema_seq:
  assumes "schema d" and "\<forall>t. db_seq d t \<le> s t"
  shows "schema (d\<lparr>db_seq := s\<rparr>)"
proof -
  have "0 \<le> db_seq d t \<Longrightarrow> 0 \<le> s t" for t using assms(2) by (metis order.trans)
  then show ?thesis
    using assms schema_plans_seq [of d s]
    unfolding schema_def schema_keys_def schema_refs_def ws_ref_def pt_ref_def tk_ref_def
    by (auto intro: ids_ok_mono)
qed

section \<open>The past is kept\<close>

definition rows_step :: "('a \<Rightarrow> 'a \<Rightarrow> bool) \<Rightarrow> 'a list \<Rightarrow> 'a list \<Rightarrow> bool" where
  "rows_step rel rs qs \<longleftrightarrow> (\<forall>r \<in> set rs. \<exists>q \<in> set qs. rel r q)"

lemma rows_step_refl: "(\<And>r. rel r r) \<Longrightarrow> rows_step rel rs rs"
  by (auto simp: rows_step_def)

lemma rows_step_trans:
  "(\<And>a b c. rel a b \<Longrightarrow> rel b c \<Longrightarrow> rel a c) \<Longrightarrow> rows_step rel rs qs \<Longrightarrow> rows_step rel qs ss \<Longrightarrow> rows_step rel rs ss"
  unfolding rows_step_def by meson

lemma rows_step_append: "(\<And>r. rel r r) \<Longrightarrow> rows_step rel rs (rs @ qs)"
  by (auto simp: rows_step_def)

lemma rows_step_upd: "(\<And>r. rel r r) \<Longrightarrow> (\<And>r. p r \<Longrightarrow> rel r (f r)) \<Longrightarrow> rows_step rel rs (upd_where p f rs)"
  unfolding rows_step_def set_upd_where
  by (intro ballI, rule_tac x = "if p r then f r else r" in bexI) auto

text \<open>The order of a task's statuses: active, awaiting its report, one of the three results.\<close>

fun status_rank :: "daily_task_status \<Rightarrow> nat" where
  "status_rank DailyTaskActive = 0"
| "status_rank DailyTaskAwaitingReport = 1"
| "status_rank DailyTaskDone = 2"
| "status_rank DailyTaskPartial = 2"
| "status_rank DailyTaskFailed = 2"

definition status_le :: "daily_task_status \<Rightarrow> daily_task_status \<Rightarrow> bool" where
  "status_le s s' \<longleftrightarrow> s = s' \<or> status_rank s < status_rank s'"

lemma status_le_final: "status_le s s' \<Longrightarrow> is_final_report s \<Longrightarrow> s' = s"
  by (cases s; cases s') (auto simp: status_le_def)

definition same_task :: "daily_task \<Rightarrow> daily_task \<Rightarrow> bool" where
  "same_task t t' \<longleftrightarrow> tk_ID t' = tk_ID t \<and> tk_WorkspaceGroupID t' = tk_WorkspaceGroupID t
     \<and> tk_ParticipantID t' = tk_ParticipantID t \<and> tk_OwnerUserID t' = tk_OwnerUserID t
     \<and> tk_TaskDate t' = tk_TaskDate t \<and> tk_Kind t' = tk_Kind t"

definition task_rel :: "daily_task \<Rightarrow> daily_task \<Rightarrow> bool" where
  "task_rel t t' \<longleftrightarrow> same_task t t' \<and> status_le (tk_Status t) (tk_Status t')
     \<and> (is_final_report (tk_Status t) \<and> tk_ReportedAt t \<noteq> None \<longrightarrow>
          tk_ReportedAt t' = tk_ReportedAt t \<and> tk_ReportStatus t' = tk_ReportStatus t)"

definition event_rel :: "progress_event \<Rightarrow> progress_event \<Rightarrow> bool" where
  "event_rel e e' \<longleftrightarrow> pe_ID e' = pe_ID e \<and> pe_WorkspaceGroupID e' = pe_WorkspaceGroupID e
     \<and> pe_EventType e' = pe_EventType e \<and> pe_DailyTaskID e' = pe_DailyTaskID e
     \<and> (pe_PublishStatus e = ProgressPublishPublished \<longrightarrow> pe_PublishStatus e' = ProgressPublishPublished
          \<and> pe_PublishedMessageID e' = pe_PublishedMessageID e \<and> pe_PublishedAt e' = pe_PublishedAt e)
     \<and> (pe_PublishStatus e = ProgressPublishFailed \<longrightarrow> pe_PublishStatus e' = ProgressPublishFailed)"

definition alert_rel :: "daily_task_alert \<Rightarrow> daily_task_alert \<Rightarrow> bool" where
  "alert_rel a a' \<longleftrightarrow> al_ID a' = al_ID a \<and> al_DailyTaskID a' = al_DailyTaskID a \<and> al_AlertKind a' = al_AlertKind a
     \<and> (al_DispatchStatus a = AlertDispatchSent \<longrightarrow> al_DispatchStatus a' = AlertDispatchSent)
     \<and> (al_AcknowledgedAt a \<noteq> None \<longrightarrow> al_AcknowledgedAt a' = al_AcknowledgedAt a)"

text \<open>
  A check-in keeps its identity and its items; once completed it stays so, and the items that were
  answered keep their answers. A skipped review and a completed final review never change.
\<close>

definition item_rel :: "bool \<Rightarrow> routine_checkin_item \<Rightarrow> routine_checkin_item \<Rightarrow> bool" where
  "item_rel fin i i' \<longleftrightarrow> ri_ID i' = ri_ID i \<and> ri_ItemIndex i' = ri_ItemIndex i \<and> ri_Text i' = ri_Text i
     \<and> (fin \<and> ri_Status i \<noteq> None \<longrightarrow> ri_Status i' = ri_Status i \<and> ri_ReasonText i' = ri_ReasonText i)"

definition checkin_rel :: "routine_checkin \<Rightarrow> routine_checkin \<Rightarrow> bool" where
  "checkin_rel c c' \<longleftrightarrow> rc_ID c' = rc_ID c \<and> rc_WorkspaceGroupID c' = rc_WorkspaceGroupID c
     \<and> rc_ParticipantID c' = rc_ParticipantID c \<and> rc_OwnerUserID c' = rc_OwnerUserID c
     \<and> rc_CheckinDate c' = rc_CheckinDate c
     \<and> (rc_CompletedAt c \<noteq> None \<longrightarrow> rc_CompletedAt c' = rc_CompletedAt c \<and> rc_AutoFailedAt c' = rc_AutoFailedAt c)
     \<and> rows_step (item_rel (rc_CompletedAt c \<noteq> None)) (rc_Items c) (rc_Items c')"

definition weekly_rel :: "goal_weekly_review \<Rightarrow> goal_weekly_review \<Rightarrow> bool" where
  "weekly_rel r r' \<longleftrightarrow> wr_ID r' = wr_ID r \<and> wr_GoalSetID r' = wr_GoalSetID r \<and> wr_ReviewWeekStart r' = wr_ReviewWeekStart r
     \<and> (wr_SkippedAt r \<noteq> None \<longrightarrow> r' = r)
     \<and> (wr_ResponseText r \<noteq> None \<longrightarrow> wr_ResponseText r' \<noteq> None)"

definition final_rel :: "goal_final_review \<Rightarrow> goal_final_review \<Rightarrow> bool" where
  "final_rel r r' \<longleftrightarrow> fr_ID r' = fr_ID r \<and> fr_GoalSetID r' = fr_GoalSetID r
     \<and> (fr_CompletedAt r \<noteq> None \<longrightarrow> fr_CompletedAt r' = fr_CompletedAt r \<and> fr_Status r' = fr_Status r
          \<and> fr_SummaryText r' = fr_SummaryText r \<and> fr_SummaryMessageIDs r' = fr_SummaryMessageIDs r)"

definition goal_rel :: "seasonal_goal_set \<Rightarrow> seasonal_goal_set \<Rightarrow> bool" where
  "goal_rel g g' \<longleftrightarrow> gs_ID g' = gs_ID g \<and> gs_WorkspaceGroupID g' = gs_WorkspaceGroupID g
     \<and> gs_ParticipantID g' = gs_ParticipantID g \<and> gs_PeriodKey g' = gs_PeriodKey g"

text \<open>A report that has been sent, or may have been sent, is never touched again.\<close>

definition report_rel :: "monthly_report \<Rightarrow> monthly_report \<Rightarrow> bool" where
  "report_rel r r' \<longleftrightarrow> report_key r' = report_key r \<and> mr_ContentHash r' = mr_ContentHash r \<and> mr_Text r' = mr_Text r
     \<and> mr_ChatID r' = mr_ChatID r \<and> mr_ThreadID r' = mr_ThreadID r \<and> (mr_Status r \<noteq> ReportPublishing \<longrightarrow> r' = r)"

lemma task_rel_refl: "task_rel t t"
  by (simp add: task_rel_def same_task_def status_le_def)

lemma same_task_trans: "same_task a b \<Longrightarrow> same_task b c \<Longrightarrow> same_task a c"
  by (simp add: same_task_def)

lemma status_le_trans: "status_le a b \<Longrightarrow> status_le b c \<Longrightarrow> status_le a c"
  by (auto simp: status_le_def)

lemma task_rel_trans:
  assumes "task_rel a b" and "task_rel b c"
  shows "task_rel a c"
proof -
  have "tk_ReportedAt c = tk_ReportedAt a \<and> tk_ReportStatus c = tk_ReportStatus a"
    if "is_final_report (tk_Status a)" "tk_ReportedAt a \<noteq> None"
    using assms that status_le_final [of "tk_Status a" "tk_Status b"] unfolding task_rel_def by metis
  then show ?thesis
    using assms unfolding task_rel_def by (blast intro: same_task_trans status_le_trans)
qed

lemma event_rel_refl: "event_rel e e" by (simp add: event_rel_def)
lemma event_rel_trans: "event_rel a b \<Longrightarrow> event_rel b c \<Longrightarrow> event_rel a c" by (auto simp: event_rel_def)
lemma alert_rel_refl: "alert_rel a a" by (simp add: alert_rel_def)
lemma alert_rel_trans: "alert_rel a b \<Longrightarrow> alert_rel b c \<Longrightarrow> alert_rel a c" by (auto simp: alert_rel_def)


lemma item_rel_refl: "item_rel b i i" by (simp add: item_rel_def)
lemma item_rel_trans: "item_rel b i j \<Longrightarrow> item_rel b' j k \<Longrightarrow> (b \<Longrightarrow> b') \<Longrightarrow> item_rel b i k"
  by (auto simp: item_rel_def)

lemma rows_step_items:
  "(b \<Longrightarrow> b') \<Longrightarrow> rows_step (item_rel b) xs ys \<Longrightarrow> rows_step (item_rel b') ys zs \<Longrightarrow> rows_step (item_rel b) xs zs"
  unfolding rows_step_def by (meson item_rel_trans)

lemma checkin_rel_refl: "checkin_rel c c"
  by (simp add: checkin_rel_def rows_step_refl item_rel_refl)

lemma checkin_rel_trans:
  assumes "checkin_rel a b" and "checkin_rel b c"
  shows "checkin_rel a c"
proof -
  have "rc_CompletedAt a \<noteq> None \<Longrightarrow> rc_CompletedAt b \<noteq> None" using assms(1) by (auto simp: checkin_rel_def)
  moreover have "rows_step (item_rel (rc_CompletedAt a \<noteq> None)) (rc_Items a) (rc_Items b)"
    and "rows_step (item_rel (rc_CompletedAt b \<noteq> None)) (rc_Items b) (rc_Items c)"
    using assms by (simp_all add: checkin_rel_def)
  ultimately have "rows_step (item_rel (rc_CompletedAt a \<noteq> None)) (rc_Items a) (rc_Items c)"
    by (rule rows_step_items)
  moreover have "rc_CompletedAt c = rc_CompletedAt a \<and> rc_AutoFailedAt c = rc_AutoFailedAt a"
    if "rc_CompletedAt a \<noteq> None"
    using assms that unfolding checkin_rel_def by (elim conjE) simp
  ultimately show ?thesis using assms unfolding checkin_rel_def by (elim conjE, intro conjI) simp_all
qed

lemma weekly_rel_refl: "weekly_rel r r" by (simp add: weekly_rel_def)
lemma weekly_rel_trans: "weekly_rel a b \<Longrightarrow> weekly_rel b c \<Longrightarrow> weekly_rel a c" by (auto simp: weekly_rel_def)
lemma final_rel_refl: "final_rel r r" by (simp add: final_rel_def)
lemma final_rel_trans: "final_rel a b \<Longrightarrow> final_rel b c \<Longrightarrow> final_rel a c" by (auto simp: final_rel_def)
lemma goal_rel_refl: "goal_rel r r" by (simp add: goal_rel_def)
lemma goal_rel_trans: "goal_rel a b \<Longrightarrow> goal_rel b c \<Longrightarrow> goal_rel a c" by (auto simp: goal_rel_def)

lemma report_rel_refl: "report_rel r r" by (simp add: report_rel_def)
lemma report_rel_trans: "report_rel a b \<Longrightarrow> report_rel b c \<Longrightarrow> report_rel a c" by (auto simp: report_rel_def)

lemmas row_rel_refl = report_rel_refl task_rel_refl event_rel_refl alert_rel_refl checkin_rel_refl weekly_rel_refl final_rel_refl
  goal_rel_refl

definition plans_history :: "db \<Rightarrow> db \<Rightarrow> bool" where
  "plans_history d d' \<longleftrightarrow> rows_step checkin_rel (db_checkins d) (db_checkins d')
     \<and> rows_step goal_rel (db_goals d) (db_goals d') \<and> rows_step weekly_rel (db_weekly d) (db_weekly d')
     \<and> rows_step final_rel (db_finals d) (db_finals d') \<and> rows_step report_rel (db_reports d) (db_reports d')"

lemma plans_history_same [simp]:
  "db_checkins d' = db_checkins d \<Longrightarrow> db_goals d' = db_goals d \<Longrightarrow> db_weekly d' = db_weekly d \<Longrightarrow>
   db_finals d' = db_finals d \<Longrightarrow> db_reports d' = db_reports d \<Longrightarrow> plans_history d d'"
  by (simp add: plans_history_def rows_step_refl row_rel_refl)

definition history :: "db \<Rightarrow> db \<Rightarrow> bool" where
  "history d d' \<longleftrightarrow> rows_step task_rel (db_tasks d) (db_tasks d')
     \<and> rows_step event_rel (db_events d) (db_events d') \<and> rows_step alert_rel (db_alerts d) (db_alerts d')
     \<and> plans_history d d'"

lemma history_refl: "history d d"
  by (auto simp: history_def intro!: rows_step_refl row_rel_refl plans_history_same)

lemma history_trans: "history a b \<Longrightarrow> history b c \<Longrightarrow> history a c"
  unfolding history_def plans_history_def
  by (elim conjE, intro conjI)
    (rule rows_step_trans [OF task_rel_trans] rows_step_trans [OF event_rel_trans] rows_step_trans [OF alert_rel_trans]
      rows_step_trans [OF checkin_rel_trans] rows_step_trans [OF goal_rel_trans] rows_step_trans [OF weekly_rel_trans]
      rows_step_trans [OF final_rel_trans] rows_step_trans [OF report_rel_trans]; assumption)+

text \<open>
  Sequences never go back, and from a database that meets the schema the next one meets it and
  keeps the past.
\<close>

definition db_step :: "db \<Rightarrow> db \<Rightarrow> bool" where
  "db_step d d' \<longleftrightarrow> (\<forall>t. db_seq d t \<le> db_seq d' t) \<and> (schema d \<longrightarrow> schema d' \<and> history d d')"

interpretation stp: db_rel db_step
proof
  fix d d' d'' assume "db_step d d'" "db_step d' d''"
  then show "db_step d d''"
    by (auto simp: db_step_def intro: order.trans history_trans)
next
  fix d d' assume "db_step d d'"
  then show "db_step d (d\<lparr>db_seq := db_seq d'\<rparr>)"
    by (auto simp: db_step_def history_def intro!: schema_seq rows_step_refl row_rel_refl plans_history_same)
qed (auto simp: db_step_def intro: history_refl)

lemma db_step_I:
  "(\<And>t. db_seq d t \<le> db_seq d' t) \<Longrightarrow> (schema d \<Longrightarrow> schema d') \<Longrightarrow> (schema d \<Longrightarrow> history d d') \<Longrightarrow> db_step d d'"
  by (simp add: db_step_def)

lemma db_step_same_seq:
  "db_seq d' = db_seq d \<Longrightarrow> (schema d \<Longrightarrow> schema d' \<and> history d d') \<Longrightarrow> db_step d d'"
  by (simp add: db_step_def)

text \<open>What the programs of the bot are shown to keep.\<close>

definition sound :: "'a io \<Rightarrow> bool" where "sound m \<longleftrightarrow> keeps db_step m"

lemma sound_same: "keeps (=) m \<Longrightarrow> sound m"
  by (simp add: sound_def stp.keeps_unchanged)

lemma sound_stmt: "(\<And>now d x d'. f now d = Some (x, d') \<Longrightarrow> db_step d d') \<Longrightarrow> sound (stmt f)"
  by (simp add: sound_def stp.keeps_stmt)

lemma sound_exec: "(\<And>now d. db_step d (f now d)) \<Longrightarrow> sound (exec f)"
  by (simp add: sound_def stp.keeps_exec)

lemma sound_simple:
  "sound (ret x)" "sound (failM e)" "sound (getW g)" "sound time_now" "sound (rule r)" "sound (query q)"
  "sound (raise_opt oe)"
  by (simp_all add: sound_def stp.keeps_program)

lemma sound_bindM: "sound m \<Longrightarrow> (\<And>x. sound (f x)) \<Longrightarrow> sound (bindM m f)"
  by (simp add: sound_def stp.keeps_bindM)

lemma sound_thenM: "sound m \<Longrightarrow> sound n \<Longrightarrow> sound (thenM m n)"
  by (simp add: sound_def stp.keeps_thenM)

lemma sound_wrap:
  "sound m \<Longrightarrow> sound (attempt m)" "sound m \<Longrightarrow> sound (ignore m)" "sound m \<Longrightarrow> sound (err_of m)"
  "sound u \<Longrightarrow> sound (whenM b u)" "sound m \<Longrightarrow> sound (inTx m)" "sound mv \<Longrightarrow> sound (inTxVar v0 mv)"
  by (simp_all add: sound_def stp.keeps_program)

lemma sound_loops:
  "(\<And>x. sound (f x)) \<Longrightarrow> sound (for_each xs f)" "(\<And>x. sound (g x)) \<Longrightarrow> sound (mapM g xs)" "sound body \<Longrightarrow> sound (loopM n body)"
  by (simp_all add: sound_def stp.keeps_program)

lemma sound_cases:
  "sound m \<Longrightarrow> sound n \<Longrightarrow> sound (if b then m else n)"
  "sound m \<Longrightarrow> (\<And>x. sound (f x)) \<Longrightarrow> sound (case oo of None \<Rightarrow> m | Some x \<Rightarrow> f x)"
  "(\<And>e. sound (g e)) \<Longrightarrow> (\<And>y. sound (h y)) \<Longrightarrow> sound (case s of Inl e \<Rightarrow> g e | Inr y \<Rightarrow> h y)"
  "(\<And>x y. sound (k x y)) \<Longrightarrow> sound (case p of (x, y) \<Rightarrow> k x y)"
  by (simp_all split: option.split sum.split prod.split)

lemmas sound_telegram = unchanged_telegram [THEN sound_same]

named_theorems sound_ops \<open>operations shown to keep the schema and the past\<close>

lemmas sound_rules = sound_simple sound_bindM sound_thenM sound_wrap sound_loops sound_cases sound_telegram

text \<open>From a run of a sound program.\<close>

lemma soundD: "sound m \<Longrightarrow> m w = (r, w') \<Longrightarrow> schema (w_db w) \<Longrightarrow> schema (w_db w') \<and> history (w_db w) (w_db w')"
  by (auto simp: sound_def db_step_def dest: keepsD)

lemma schema_db0: "schema db0"
  by (simp add: db0_def schema_defs plans_defs)

end
