(* ===== verification/Store_Workspace.thy ===== *)
theory Store_Workspace imports Schema begin

text \<open>
  \<open>internal/storage/postgres/workspace.go\<close>, the clock of \<open>worker.go\<close> and the reset of
  \<open>control.go\<close>. A \<open>(value, bool, error)\<close> result is an option: the zero struct of Go stands for
  a missing row. Each SQL text is the function of the database next to it.
\<close>

section \<open>Workspaces\<close>

definition sql_GetOrCreateWorkspace :: "int \<Rightarrow> bytes \<Rightarrow> bytes \<Rightarrow> workspace sql" where
  "sql_GetOrCreateWorkspace chatID title timezone now d =
     (let d1 = take_id TWorkspaces d in
      case first_where (\<lambda>w. ws_ChatID w = chatID) (db_workspaces d) of
        None \<Rightarrow>
          (let w = \<lparr>ws_ID = next_id TWorkspaces d, ws_ChatID = chatID,
                 ws_Title = (if title = [] then None else Some title), ws_Timezone = timezone,
                 ws_SetupStatus = GroupSetupPending, ws_SetupMessageID = None, ws_CreatedAt = now, ws_UpdatedAt = now\<rparr>
           in Some (w, d1\<lparr>db_workspaces := db_workspaces d @ [w]\<rparr>))
      | Some w0 \<Rightarrow>
          (let upd = (\<lambda>w. w\<lparr>ws_Title := (if title = [] then ws_Title w else Some title),
                 ws_Timezone := (if ws_Timezone w \<in> {''UTC'', ''Etc/UTC''} then timezone else ws_Timezone w),
                 ws_UpdatedAt := now\<rparr>)
           in Some (upd w0, d1\<lparr>db_workspaces := upd_where (\<lambda>w. ws_ChatID w = chatID) upd (db_workspaces d)\<rparr>)))"

definition GetOrCreateWorkspace :: "int \<Rightarrow> bytes \<Rightarrow> bytes \<Rightarrow> workspace io" where
  "GetOrCreateWorkspace chatID title timezone = stmt (sql_GetOrCreateWorkspace chatID title timezone)"

definition GetWorkspaceByChatID :: "int \<Rightarrow> workspace option io" where
  "GetWorkspaceByChatID chatID = query (\<lambda>d. first_where (\<lambda>w. ws_ChatID w = chatID) (db_workspaces d))"

definition GetWorkspaceByID :: "int \<Rightarrow> workspace option io" where
  "GetWorkspaceByID wid = query (\<lambda>d. first_where (\<lambda>w. ws_ID w = wid) (db_workspaces d))"

definition MarkWorkspaceReady :: "int \<Rightarrow> unit io" where
  "MarkWorkspaceReady wid = exec (\<lambda>now d. d\<lparr>db_workspaces := upd_where (\<lambda>w. ws_ID w = wid)
     (\<lambda>w. w\<lparr>ws_SetupStatus := GroupSetupReady, ws_UpdatedAt := now\<rparr>) (db_workspaces d)\<rparr>)"

definition SetSetupMessageID :: "int \<Rightarrow> int \<Rightarrow> unit io" where
  "SetSetupMessageID wid messageID = exec (\<lambda>now d. d\<lparr>db_workspaces := upd_where (\<lambda>w. ws_ID w = wid)
     (\<lambda>w. w\<lparr>ws_SetupMessageID := Some messageID, ws_UpdatedAt := now\<rparr>) (db_workspaces d)\<rparr>)"

section \<open>Topic bindings\<close>

definition sql_UpsertTopicBinding :: "int \<Rightarrow> topic_key \<Rightarrow> int \<Rightarrow> bytes \<Rightarrow> topic_binding sql" where
  "sql_UpsertTopicBinding wid topic threadID title now d =
     (let d1 = take_id TBindings d; sel = (\<lambda>b. tb_WorkspaceGroupID b = wid \<and> tb_TopicKey b = topic) in
      case first_where sel (db_bindings d) of
        None \<Rightarrow>
          if \<not> list_ex (\<lambda>w. ws_ID w = wid) (db_workspaces d) then None
          else (let b = \<lparr>tb_ID = next_id TBindings d, tb_WorkspaceGroupID = wid, tb_TopicKey = topic,
                  tb_ThreadID = threadID, tb_TopicTitle = title, tb_IntroMessageID = None,
                  tb_ControlMessageID = None, tb_CreatedAt = now\<rparr>
            in Some (b, d1\<lparr>db_bindings := db_bindings d @ [b]\<rparr>))
      | Some b0 \<Rightarrow>
          (let upd = (\<lambda>b. b\<lparr>tb_ThreadID := threadID, tb_TopicTitle := title\<rparr>)
           in Some (upd b0, d1\<lparr>db_bindings := upd_where sel upd (db_bindings d)\<rparr>)))"

definition UpsertTopicBinding :: "int \<Rightarrow> topic_key \<Rightarrow> int \<Rightarrow> bytes \<Rightarrow> topic_binding io" where
  "UpsertTopicBinding wid topic threadID title = stmt (sql_UpsertTopicBinding wid topic threadID title)"

text \<open>The bindings of a workspace by their key.\<close>

definition ListTopicBindings :: "int \<Rightarrow> (topic_key \<Rightarrow> topic_binding option) io" where
  "ListTopicBindings wid = query (\<lambda>d topic. first_where (\<lambda>b. tb_TopicKey b = topic)
     (rev (filter (\<lambda>b. tb_WorkspaceGroupID b = wid) (db_bindings d))))"

definition GetTopicBinding :: "int \<Rightarrow> topic_key \<Rightarrow> topic_binding option io" where
  "GetTopicBinding wid topic = query (\<lambda>d. first_where
     (\<lambda>b. tb_WorkspaceGroupID b = wid \<and> tb_TopicKey b = topic) (db_bindings d))"

definition SetTopicMessages :: "int \<Rightarrow> topic_key \<Rightarrow> int option \<Rightarrow> int option \<Rightarrow> bool \<Rightarrow> bool \<Rightarrow> unit io" where
  "SetTopicMessages wid topic intro control resetIntro resetControl = exec (\<lambda>now d. d\<lparr>db_bindings :=
     upd_where (\<lambda>b. tb_WorkspaceGroupID b = wid \<and> tb_TopicKey b = topic)
       (\<lambda>b. b\<lparr>tb_IntroMessageID := (if resetIntro then None
                else case intro of None \<Rightarrow> tb_IntroMessageID b | Some m \<Rightarrow> Some m),
              tb_ControlMessageID := (if resetControl then None
                else case control of None \<Rightarrow> tb_ControlMessageID b | Some m \<Rightarrow> Some m)\<rparr>)
       (db_bindings d)\<rparr>)"

section \<open>Participants\<close>

definition sql_RegisterParticipant :: "int \<Rightarrow> int \<Rightarrow> bytes \<Rightarrow> bytes \<Rightarrow> participant sql" where
  "sql_RegisterParticipant wid userID username displayName now d =
     (let d1 = take_id TParticipants d; sel = (\<lambda>p. pt_WorkspaceGroupID p = wid \<and> pt_UserID p = userID);
          name = (if username = [] then None else Some username) in
      case first_where sel (db_participants d) of
        None \<Rightarrow>
          if \<not> list_ex (\<lambda>w. ws_ID w = wid) (db_workspaces d) then None
          else (let p = \<lparr>pt_ID = next_id TParticipants d, pt_WorkspaceGroupID = wid, pt_UserID = userID,
                  pt_Username = name, pt_DisplayName = displayName, pt_IsActive = True,
                  pt_CreatedAt = now, pt_UpdatedAt = now\<rparr>
            in Some (p, d1\<lparr>db_participants := db_participants d @ [p]\<rparr>))
      | Some p0 \<Rightarrow>
          (let upd = (\<lambda>p. p\<lparr>pt_Username := name, pt_DisplayName := displayName, pt_UpdatedAt := now\<rparr>)
           in Some (upd p0, d1\<lparr>db_participants := upd_where sel upd (db_participants d)\<rparr>)))"

definition RegisterParticipant :: "int \<Rightarrow> int \<Rightarrow> bytes \<Rightarrow> bytes \<Rightarrow> participant io" where
  "RegisterParticipant wid userID username displayName = stmt (sql_RegisterParticipant wid userID username displayName)"

definition GetParticipantByID :: "int \<Rightarrow> participant option io" where
  "GetParticipantByID pid = query (\<lambda>d. first_where (\<lambda>p. pt_ID p = pid) (db_participants d))"

definition BeginningOfDay :: "gotime \<Rightarrow> gotime" where
  "BeginningOfDay t = (let c = t_civil t in mk_date (cy c) (cm c) (cd c) 0 (gt_loc t))"

section \<open>The clock\<close>

definition CurrentNow :: "gotime \<Rightarrow> gotime io" where
  "CurrentNow fallback = bindM (query db_clock)
     (\<lambda>ov. ret (case ov of Some t \<Rightarrow> utc_time t | None \<Rightarrow> utc_time (gt_ns fallback)))"

definition SetClockOverride :: "int option \<Rightarrow> unit io" where
  "SetClockOverride value = exec (\<lambda>now d. d\<lparr>db_clock := value\<rparr>)"

definition current_now :: "gotime io" where "current_now = bindM time_now CurrentNow"

section \<open>The reset of the control server\<close>

record reset_result =
  rr_WorkspaceID :: int
  rr_ChatID :: int
  rr_DeletedTasks :: int
  rr_DeletedAlerts :: int
  rr_DeletedPending :: int
  rr_DeletedProgress :: int
  rr_DeletedRoutines :: int
  rr_DeletedCheckins :: int
  rr_DeletedGoals :: int
  rr_DeletedNudges :: int
  rr_ResetSetup :: int

definition reset_result0 :: "int \<Rightarrow> int \<Rightarrow> reset_result" where
  "reset_result0 wid chatID = \<lparr>rr_WorkspaceID = wid, rr_ChatID = chatID, rr_DeletedTasks = 0, rr_DeletedAlerts = 0,
     rr_DeletedPending = 0, rr_DeletedProgress = 0, rr_DeletedRoutines = 0, rr_DeletedCheckins = 0,
     rr_DeletedGoals = 0, rr_DeletedNudges = 0, rr_ResetSetup = 0\<rparr>"

text \<open>A DELETE returns the number of its rows; the tables it cascades to are part of it.\<close>

definition delete_where :: "(db \<Rightarrow> 'a \<Rightarrow> bool) \<Rightarrow> (db \<Rightarrow> 'a list) \<Rightarrow> (db \<Rightarrow> 'a list \<Rightarrow> db) \<Rightarrow> int io" where
  "delete_where p rows set_rows = stmt (\<lambda>now d. Some (int (n_where (p d) (rows d)),
     set_rows d (filter (\<lambda>r. \<not> p d r) (rows d))))"

text \<open>
  Deleting the tasks of a workspace deletes their alerts and clears the \<open>daily_task_id\<close> of
  their events; deleting its goal sets deletes their reviews.
\<close>

definition set_tasks_cascade :: "db \<Rightarrow> daily_task list \<Rightarrow> db" where
  "set_tasks_cascade d ts = (let gone = (\<lambda>i. list_ex (\<lambda>t. tk_ID t = i) (db_tasks d) \<and> \<not> list_ex (\<lambda>t. tk_ID t = i) ts) in
     d\<lparr>db_tasks := ts, db_alerts := filter (\<lambda>a. \<not> gone (al_DailyTaskID a)) (db_alerts d),
       db_events := map (\<lambda>e. if \<exists>i. pe_DailyTaskID e = Some i \<and> gone i then e\<lparr>pe_DailyTaskID := None\<rparr> else e) (db_events d)\<rparr>)"

definition set_goals_cascade :: "db \<Rightarrow> seasonal_goal_set list \<Rightarrow> db" where
  "set_goals_cascade d gs = (let gone = (\<lambda>i. list_ex (\<lambda>g. gs_ID g = i) (db_goals d) \<and> \<not> list_ex (\<lambda>g. gs_ID g = i) gs) in
     d\<lparr>db_goals := gs, db_weekly := filter (\<lambda>r. \<not> gone (wr_GoalSetID r)) (db_weekly d),
       db_finals := filter (\<lambda>r. \<not> gone (fr_GoalSetID r)) (db_finals d)\<rparr>)"

definition ResetWorkspaceForE2E :: "int \<Rightarrow> reset_result io" where
  "ResetWorkspaceForE2E chatID = bindM (GetWorkspaceByChatID chatID) (\<lambda>found. case found of
      None \<Rightarrow> ret (reset_result0 0 chatID)
    | Some w \<Rightarrow> (let wid = ws_ID w in
        bindM (delete_where (\<lambda>d p. pi_WorkspaceGroupID p = wid) db_pendings (\<lambda>d rs. d\<lparr>db_pendings := rs\<rparr>)) (\<lambda>n1.
        bindM (delete_where (\<lambda>d a. list_ex (\<lambda>t. tk_ID t = al_DailyTaskID a \<and> tk_WorkspaceGroupID t = wid) (db_tasks d))
            db_alerts (\<lambda>d rs. d\<lparr>db_alerts := rs\<rparr>)) (\<lambda>n2.
        bindM (delete_where (\<lambda>d e. pe_WorkspaceGroupID e = wid) db_events (\<lambda>d rs. d\<lparr>db_events := rs\<rparr>)) (\<lambda>n3.
        bindM (delete_where (\<lambda>d t. tk_WorkspaceGroupID t = wid) db_tasks set_tasks_cascade) (\<lambda>n4.
        bindM (delete_where (\<lambda>d c. rc_WorkspaceGroupID c = wid) db_checkins (\<lambda>d rs. d\<lparr>db_checkins := rs\<rparr>)) (\<lambda>n5.
        bindM (delete_where (\<lambda>d p. rp_WorkspaceGroupID p = wid) db_plans (\<lambda>d rs. d\<lparr>db_plans := rs\<rparr>)) (\<lambda>n6.
        bindM (delete_where (\<lambda>d g. gs_WorkspaceGroupID g = wid) db_goals set_goals_cascade) (\<lambda>n7.
        bindM (delete_where (\<lambda>d g. gn_WorkspaceGroupID g = wid) db_nudges (\<lambda>d rs. d\<lparr>db_nudges := rs\<rparr>)) (\<lambda>n8.
        bindM (stmt (\<lambda>now d. Some (int (n_where (\<lambda>q. ws_ID q = wid) (db_workspaces d)),
            d\<lparr>db_workspaces := upd_where (\<lambda>q. ws_ID q = wid)
              (\<lambda>q. q\<lparr>ws_SetupStatus := GroupSetupPending, ws_SetupMessageID := None, ws_UpdatedAt := now\<rparr>)
              (db_workspaces d)\<rparr>))) (\<lambda>n9.
        ret \<lparr>rr_WorkspaceID = wid, rr_ChatID = chatID, rr_DeletedTasks = n4, rr_DeletedAlerts = n2,
             rr_DeletedPending = n1, rr_DeletedProgress = n3, rr_DeletedRoutines = n6, rr_DeletedCheckins = n5,
             rr_DeletedGoals = n7, rr_DeletedNudges = n8, rr_ResetSetup = n9\<rparr>)))))))))))"

definition ActiveTopicBindings :: "int \<Rightarrow> (topic_key \<Rightarrow> topic_binding option) io" where
  "ActiveTopicBindings chatID = bindM (GetWorkspaceByChatID chatID) (\<lambda>found. case found of
      None \<Rightarrow> ret (\<lambda>_. None) | Some w \<Rightarrow> ListTopicBindings (ws_ID w))"

section \<open>Lemmas\<close>

lemma db_seq_take_id [simp]: "db_seq d t \<le> db_seq (take_id u d) t"
  by (simp add: take_id_def next_id_def)

lemma take_id_fields [simp]:
  "db_workspaces (take_id u d) = db_workspaces d" "db_bindings (take_id u d) = db_bindings d"
  "db_participants (take_id u d) = db_participants d" "db_tasks (take_id u d) = db_tasks d"
  "db_alerts (take_id u d) = db_alerts d" "db_pendings (take_id u d) = db_pendings d"
  "db_events (take_id u d) = db_events d" "db_retries (take_id u d) = db_retries d"
  "db_plans (take_id u d) = db_plans d" "db_checkins (take_id u d) = db_checkins d" "db_goals (take_id u d) = db_goals d"
  "db_weekly (take_id u d) = db_weekly d" "db_finals (take_id u d) = db_finals d" "db_nudges (take_id u d) = db_nudges d"
  "db_reports (take_id u d) = db_reports d"
  by (simp_all add: take_id_def)

lemma history_same_tables:
  "db_tasks d' = db_tasks d \<Longrightarrow> db_events d' = db_events d \<Longrightarrow> db_alerts d' = db_alerts d \<Longrightarrow>
   db_checkins d' = db_checkins d \<Longrightarrow> db_goals d' = db_goals d \<Longrightarrow> db_weekly d' = db_weekly d \<Longrightarrow>
   db_finals d' = db_finals d \<Longrightarrow> db_reports d' = db_reports d \<Longrightarrow> history d d'"
  by (simp add: history_def rows_step_refl row_rel_refl plans_history_same)

lemma list_ex_ws_ref: "list_ex (\<lambda>w. ws_ID w = i) (db_workspaces d) \<longleftrightarrow> ws_ref d i"
  by (auto simp: list_ex_iff ws_ref_def)

lemma Ball_upd_where:
  "(\<And>r. p r \<Longrightarrow> P r \<Longrightarrow> P (f r)) \<Longrightarrow> \<forall>r \<in> set rs. P r \<Longrightarrow> \<forall>r \<in> set (upd_where p f rs). P r"
  by (auto simp: set_upd_where)

lemma Bex_upd_where:
  "(\<And>r. p r \<Longrightarrow> k (f r) = k r) \<Longrightarrow> (\<exists>r \<in> set (upd_where p f rs). k r = i) \<longleftrightarrow> (\<exists>r \<in> set rs. k r = i)"
  by (induction rs) auto

lemma upd_workspaces_schema:
  assumes "schema d" and "\<And>w. p w \<Longrightarrow> ws_ID (f w) = ws_ID w \<and> ws_ChatID (f w) = ws_ChatID w"
  shows "schema (d\<lparr>db_workspaces := upd_where p f (db_workspaces d)\<rparr>)"
  using assms unfolding schema_defs
  by (auto intro!: ids_ok_upd uniq_upd schema_plans_workspaces simp: Bex_upd_where image_upd_where)

lemma upd_bindings_schema:
  assumes "schema d" and "\<And>b. p b \<Longrightarrow> tb_ID (f b) = tb_ID b \<and> tb_WorkspaceGroupID (f b) = tb_WorkspaceGroupID b
    \<and> tb_TopicKey (f b) = tb_TopicKey b"
  shows "schema (d\<lparr>db_bindings := upd_where p f (db_bindings d)\<rparr>)"
  using assms unfolding schema_defs
  by (auto intro!: ids_ok_upd uniq_upd simp: set_upd_where)

lemma upd_participants_schema:
  assumes "schema d" and "\<And>q. p q \<Longrightarrow> pt_ID (f q) = pt_ID q \<and> pt_WorkspaceGroupID (f q) = pt_WorkspaceGroupID q
    \<and> pt_UserID (f q) = pt_UserID q"
  shows "schema (d\<lparr>db_participants := upd_where p f (db_participants d)\<rparr>)"
proof -
  have "(\<exists>r\<in>set (upd_where p f (db_participants d)). pt_ID r = i) \<longleftrightarrow> (\<exists>r\<in>set (db_participants d). pt_ID r = i)" for i
    using assms(2) by (intro Bex_upd_where) simp
  then show ?thesis
    using assms image_upd_where [of p pt_ID f "db_participants d"] unfolding schema_defs
    by (auto intro!: ids_ok_upd uniq_upd schema_plans_participants simp: set_upd_where)
qed

lemma schema_take_id: "schema d \<Longrightarrow> schema (take_id u d)"
  unfolding take_id_def by (rule schema_seq) (simp_all add: next_id_def)

lemma schema_new_workspace:
  assumes "schema d" and "ws_ID w = next_id TWorkspaces d"
    and "\<And>q. q \<in> set (db_workspaces d) \<Longrightarrow> ws_ChatID q \<noteq> ws_ChatID w"
  shows "schema ((take_id TWorkspaces d)\<lparr>db_workspaces := db_workspaces d @ [w]\<rparr>)"
  using assms unfolding schema_defs
  by (auto simp: take_id_def next_id_def intro!: uniq_append ids_ok_append schema_plans_workspaces)

lemma schema_new_binding:
  assumes "schema d" and "tb_ID b = next_id TBindings d" and "ws_ref d (tb_WorkspaceGroupID b)"
    and "\<And>q. q \<in> set (db_bindings d) \<Longrightarrow> (tb_WorkspaceGroupID q, tb_TopicKey q) \<noteq> (tb_WorkspaceGroupID b, tb_TopicKey b)"
  shows "schema ((take_id TBindings d)\<lparr>db_bindings := db_bindings d @ [b]\<rparr>)"
  using assms unfolding schema_defs
  by (auto simp: take_id_def next_id_def intro!: uniq_append ids_ok_append)

lemma schema_new_participant:
  assumes "schema d" and "pt_ID p = next_id TParticipants d" and "ws_ref d (pt_WorkspaceGroupID p)"
    and "\<And>q. q \<in> set (db_participants d) \<Longrightarrow> (pt_WorkspaceGroupID q, pt_UserID q) \<noteq> (pt_WorkspaceGroupID p, pt_UserID p)"
  shows "schema ((take_id TParticipants d)\<lparr>db_participants := db_participants d @ [p]\<rparr>)"
  using assms unfolding schema_defs
  by (auto simp: take_id_def next_id_def intro!: uniq_append ids_ok_append schema_plans_participants)

lemma sound_GetOrCreateWorkspace [sound_ops]: "sound (GetOrCreateWorkspace c t z)"
  unfolding GetOrCreateWorkspace_def
proof (rule sound_stmt)
  fix now d w d'
  assume run: "sql_GetOrCreateWorkspace c t z now d = Some (w, d')"
  show "db_step d d'"
  proof (cases "first_where (\<lambda>w. ws_ChatID w = c) (db_workspaces d)")
    case None
    with run show ?thesis
      by (auto simp: sql_GetOrCreateWorkspace_def Let_def first_where_None
          intro!: db_step_I history_same_tables schema_new_workspace)
  next
    case (Some w0)
    with run show ?thesis
      using upd_workspaces_schema [OF schema_take_id]
      by (auto simp: sql_GetOrCreateWorkspace_def Let_def intro!: db_step_I history_same_tables)
  qed
qed

lemma sound_RegisterParticipant [sound_ops]: "sound (RegisterParticipant wid u n dn)"
  unfolding RegisterParticipant_def
proof (rule sound_stmt)
  fix now d p d'
  assume run: "sql_RegisterParticipant wid u n dn now d = Some (p, d')"
  show "db_step d d'"
  proof (cases "first_where (\<lambda>p. pt_WorkspaceGroupID p = wid \<and> pt_UserID p = u) (db_participants d)")
    case None
    with run show ?thesis
      by (auto simp: sql_RegisterParticipant_def Let_def first_where_None list_ex_ws_ref
          intro!: db_step_I history_same_tables schema_new_participant split: if_splits)
  next
    case (Some w0)
    with run show ?thesis
      using upd_participants_schema [OF schema_take_id]
      by (auto simp: sql_RegisterParticipant_def Let_def intro!: db_step_I history_same_tables)
  qed
qed

lemma sound_UpsertTopicBinding [sound_ops]: "sound (UpsertTopicBinding wid k t n)"
  unfolding UpsertTopicBinding_def
proof (rule sound_stmt)
  fix now d p d'
  assume run: "sql_UpsertTopicBinding wid k t n now d = Some (p, d')"
  show "db_step d d'"
  proof (cases "first_where (\<lambda>b. tb_WorkspaceGroupID b = wid \<and> tb_TopicKey b = k) (db_bindings d)")
    case None
    with run show ?thesis
      by (auto simp: sql_UpsertTopicBinding_def Let_def first_where_None list_ex_ws_ref
          intro!: db_step_I history_same_tables schema_new_binding split: if_splits)
  next
    case (Some w0)
    with run show ?thesis
      using upd_bindings_schema [OF schema_take_id]
      by (auto simp: sql_UpsertTopicBinding_def Let_def intro!: db_step_I history_same_tables)
  qed
qed

lemma sound_workspace_updates [sound_ops]:
  "sound (MarkWorkspaceReady wid)" "sound (SetSetupMessageID wid m)" "sound (SetTopicMessages wid k i c ri rc)"
  "sound (SetClockOverride v)"
  unfolding MarkWorkspaceReady_def SetSetupMessageID_def SetTopicMessages_def SetClockOverride_def
  by (rule sound_exec, rule db_step_same_seq, simp, rule conjI,
      (rule upd_workspaces_schema | rule upd_bindings_schema | simp add: schema_defs), simp_all add: history_same_tables)+

lemma sound_workspace_reads [sound_ops]:
  "sound (GetWorkspaceByChatID c)" "sound (GetWorkspaceByID i)" "sound (ListTopicBindings i)"
  "sound (GetTopicBinding i k)" "sound (GetParticipantByID i)" "sound (CurrentNow t)" "sound current_now"
  unfolding GetWorkspaceByChatID_def GetWorkspaceByID_def ListTopicBindings_def GetTopicBinding_def
    GetParticipantByID_def CurrentNow_def current_now_def
  by (intro sound_rules)+

end
