(* ===== verification/Store_Progress.thy ===== *)
theory Store_Progress imports Store_Workspace begin

text \<open>
  \<open>internal/storage/postgres/progress.go\<close>, the claims of \<open>worker.go\<close> and \<open>retries.go\<close>: the
  outbox of progress events and of alerts with their leases, and the retry schedule of failed
  deliveries. A claim takes the first event that is pending or whose lease of five minutes has
  run out, unless its retry is exhausted or not yet due.
\<close>

definition deliveryClaimTimeoutSeconds :: int where "deliveryClaimTimeoutSeconds = 5 * 60"

definition ns_per_minute :: int where "ns_per_minute = 60000000000"

section \<open>Progress events\<close>

definition scan_event :: "progress_event \<Rightarrow> progress_event" where
  "scan_event e = e\<lparr>pe_Payload := decodePayload (pe_Payload e)\<rparr>"

definition sql_CreateProgressEvent ::
    "int \<Rightarrow> progress_event_type \<Rightarrow> payload \<Rightarrow> int option \<Rightarrow> int option \<Rightarrow> progress_event sql" where
  "sql_CreateProgressEvent wid etype payload pid tid now d =
     (if \<not> list_ex (\<lambda>w. ws_ID w = wid) (db_workspaces d)
        \<or> (case pid of None \<Rightarrow> False | Some i \<Rightarrow> \<not> list_ex (\<lambda>p. pt_ID p = i) (db_participants d))
        \<or> (case tid of None \<Rightarrow> False | Some i \<Rightarrow> \<not> list_ex (\<lambda>t. tk_ID t = i) (db_tasks d)) then None
      else (let e = \<lparr>pe_ID = next_id TEvents d, pe_WorkspaceGroupID = wid, pe_ParticipantID = pid,
              pe_DailyTaskID = tid, pe_EventType = etype, pe_PublishStatus = ProgressPublishPending,
              pe_Payload = payload, pe_PublishedMessageID = None, pe_CreatedAt = now,
              pe_PublishedAt = None, pe_PublishStartedAt = None\<rparr>
        in Some (scan_event e, (take_id TEvents d)\<lparr>db_events := db_events d @ [e]\<rparr>)))"

definition CreateProgressEvent ::
    "int \<Rightarrow> progress_event_type \<Rightarrow> payload \<Rightarrow> int option \<Rightarrow> int option \<Rightarrow> progress_event io" where
  "CreateProgressEvent wid etype payload pid tid = stmt (sql_CreateProgressEvent wid etype payload pid tid)"

text \<open>
  The guard on \<open>worker_delivery_retries\<close> inside the claims compares with the overridden clock
  when there is one.
\<close>

definition retry_blocked :: "bytes \<Rightarrow> int \<Rightarrow> int \<Rightarrow> db \<Rightarrow> bool" where
  "retry_blocked operation i now d = list_ex (\<lambda>r. dr_Operation r = operation \<and> dr_EntityID r = i
     \<and> (dr_Exhausted r \<or> (case db_clock d of Some t \<Rightarrow> t | None \<Rightarrow> now) < dr_NextAttemptAt r)) (db_retries d)"

definition lease_free :: "int \<Rightarrow> int option \<Rightarrow> bool" where
  "lease_free now started = (case started of None \<Rightarrow> True
     | Some t \<Rightarrow> t \<le> now - deliveryClaimTimeoutSeconds * ns_per_sec)"

definition event_claimable :: "int \<Rightarrow> db \<Rightarrow> progress_event \<Rightarrow> bool" where
  "event_claimable now d e \<longleftrightarrow> (pe_PublishStatus e = ProgressPublishPending
       \<or> pe_PublishStatus e = ProgressPublishPublishing \<and> lease_free now (pe_PublishStartedAt e))
     \<and> \<not> retry_blocked ''progress'' (pe_ID e) now d"

definition sql_ClaimProgressEvent :: "progress_event option sql" where
  "sql_ClaimProgressEvent now d = (case first_where (event_claimable now d) (db_events d) of
      None \<Rightarrow> Some (None, d)
    | Some e \<Rightarrow>
        (let upd = (\<lambda>e. e\<lparr>pe_PublishStatus := ProgressPublishPublishing, pe_PublishStartedAt := Some now\<rparr>)
         in Some (Some (scan_event (upd e)), d\<lparr>db_events := upd_where (\<lambda>q. pe_ID q = pe_ID e) upd (db_events d)\<rparr>)))"

definition ClaimProgressEvent :: "progress_event option io" where
  "ClaimProgressEvent = stmt sql_ClaimProgressEvent"

text \<open>An update that must hit its one claimed row; otherwise the claim was lost.\<close>

definition requireDeliveryClaim :: "bytes \<Rightarrow> int \<Rightarrow> int io \<Rightarrow> unit io" where
  "requireDeliveryClaim kind i m = bindM m (\<lambda>n. if n \<noteq> 1 then failM (ClaimLost kind i) else ret ())"

definition update_count ::
    "(db \<Rightarrow> 'a list) \<Rightarrow> (db \<Rightarrow> 'a list \<Rightarrow> db) \<Rightarrow> ('a \<Rightarrow> bool) \<Rightarrow> ('a \<Rightarrow> 'a) \<Rightarrow> int io" where
  "update_count rows set_rows p f = stmt (\<lambda>now d. Some (int (n_where p (rows d)), set_rows d (upd_where p f (rows d))))"

definition set_events :: "db \<Rightarrow> progress_event list \<Rightarrow> db" where "set_events d es = d\<lparr>db_events := es\<rparr>"

definition set_alerts :: "db \<Rightarrow> daily_task_alert list \<Rightarrow> db" where "set_alerts d rs = d\<lparr>db_alerts := rs\<rparr>"

definition claimed_event :: "int \<Rightarrow> progress_event \<Rightarrow> bool" where
  "claimed_event i e \<longleftrightarrow> pe_ID e = i \<and> pe_PublishStatus e = ProgressPublishPublishing"

definition RequeueProgressEvent :: "int \<Rightarrow> unit io" where
  "RequeueProgressEvent i = requireDeliveryClaim ''progress event'' i (update_count db_events set_events (claimed_event i)
     (\<lambda>e. e\<lparr>pe_PublishStatus := ProgressPublishPending, pe_PublishStartedAt := None\<rparr>))"

definition MarkProgressEventFailed :: "int \<Rightarrow> unit io" where
  "MarkProgressEventFailed i = requireDeliveryClaim ''progress event'' i (update_count db_events set_events (claimed_event i)
     (\<lambda>e. e\<lparr>pe_PublishStatus := ProgressPublishFailed, pe_PublishStartedAt := None\<rparr>))"

definition MarkProgressEventPublished :: "int \<Rightarrow> int \<Rightarrow> int \<Rightarrow> unit io" where
  "MarkProgressEventPublished i messageID publishedAt =
     requireDeliveryClaim ''progress event'' i (update_count db_events set_events (claimed_event i)
       (\<lambda>e. e\<lparr>pe_PublishStatus := ProgressPublishPublished, pe_PublishedMessageID := Some messageID,
          pe_PublishedAt := Some publishedAt, pe_PublishStartedAt := None\<rparr>))"

definition ListPendingProgressEvents :: "progress_event list io" where
  "ListPendingProgressEvents = query (\<lambda>d. map scan_event
     (filter (\<lambda>e. pe_PublishStatus e = ProgressPublishPending) (db_events d)))"

section \<open>Alerts\<close>

definition alert_claimable :: "int \<Rightarrow> db \<Rightarrow> daily_task_alert \<Rightarrow> bool" where
  "alert_claimable now d a \<longleftrightarrow> (al_DispatchStatus a = AlertDispatchPending
       \<or> al_DispatchStatus a = AlertDispatchDispatching \<and> lease_free now (al_DispatchStartedAt a))
     \<and> al_AcknowledgedAt a = None \<and> \<not> retry_blocked ''alert'' (al_ID a) now d"

definition sql_ClaimPendingAlert :: "daily_task_alert option sql" where
  "sql_ClaimPendingAlert now d = (case first_where (alert_claimable now d) (db_alerts d) of
      None \<Rightarrow> Some (None, d)
    | Some a \<Rightarrow>
        (let upd = (\<lambda>a. a\<lparr>al_DispatchStatus := AlertDispatchDispatching, al_DispatchStartedAt := Some now\<rparr>)
         in Some (Some (upd a), d\<lparr>db_alerts := upd_where (\<lambda>q. al_ID q = al_ID a) upd (db_alerts d)\<rparr>)))"

definition ClaimPendingAlert :: "daily_task_alert option io" where
  "ClaimPendingAlert = stmt sql_ClaimPendingAlert"

definition claimed_alert :: "int \<Rightarrow> daily_task_alert \<Rightarrow> bool" where
  "claimed_alert i a \<longleftrightarrow> al_ID a = i \<and> al_DispatchStatus a = AlertDispatchDispatching"

definition MarkAlertSent :: "int \<Rightarrow> int \<Rightarrow> unit io" where
  "MarkAlertSent i messageID = requireDeliveryClaim ''alert'' i (update_count db_alerts set_alerts (claimed_alert i)
     (\<lambda>a. a\<lparr>al_DispatchStatus := AlertDispatchSent, al_TelegramMessageID := Some messageID,
        al_DispatchStartedAt := None\<rparr>))"

definition RequeueAlert :: "int \<Rightarrow> unit io" where
  "RequeueAlert i = requireDeliveryClaim ''alert'' i (update_count db_alerts set_alerts (claimed_alert i)
     (\<lambda>a. a\<lparr>al_DispatchStatus := AlertDispatchPending, al_DispatchStartedAt := None\<rparr>))"

section \<open>Delivery retries\<close>

definition DeliveryReady :: "bytes \<Rightarrow> int \<Rightarrow> gotime \<Rightarrow> bool io" where
  "DeliveryReady operation i now = query (\<lambda>d. \<not> list_ex (\<lambda>r. dr_Operation r = operation \<and> dr_EntityID r = i
     \<and> (dr_Exhausted r \<or> gt_ns now < dr_NextAttemptAt r)) (db_retries d))"

definition retry_after_failure :: "int \<Rightarrow> bytes \<Rightarrow> bool \<Rightarrow> delivery_retry \<Rightarrow> delivery_retry" where
  "retry_after_failure now cause suspend r = r\<lparr>dr_Attempts := min (dr_Attempts r + 1) 8,
     dr_NextAttemptAt := now + ns_per_minute * 2 ^ nat (min (dr_Attempts r) 6),
     dr_Exhausted := (suspend \<or> 8 \<le> dr_Attempts r + 1),
     dr_LastError := cause, dr_UpdatedAt := now\<rparr>"

definition first_failure :: "bytes \<Rightarrow> int \<Rightarrow> int \<Rightarrow> bytes \<Rightarrow> bool \<Rightarrow> delivery_retry" where
  "first_failure operation i now cause suspend = \<lparr>dr_Operation = operation, dr_EntityID = i, dr_Attempts = 1,
     dr_NextAttemptAt = now + ns_per_minute, dr_Exhausted = suspend, dr_LastError = cause, dr_UpdatedAt = now\<rparr>"

definition RecordDeliveryFailure :: "bytes \<Rightarrow> int \<Rightarrow> gotime \<Rightarrow> bytes \<Rightarrow> bool \<Rightarrow> unit io" where
  "RecordDeliveryFailure operation i now cause suspend = exec (\<lambda>_ d.
     (let sel = (\<lambda>r. dr_Operation r = operation \<and> dr_EntityID r = i) in
      if list_ex sel (db_retries d)
      then d\<lparr>db_retries := upd_where sel (retry_after_failure (gt_ns now) cause suspend) (db_retries d)\<rparr>
      else d\<lparr>db_retries := db_retries d @ [first_failure operation i (gt_ns now) cause suspend]\<rparr>))"

definition ClearDeliveryRetry :: "bytes \<Rightarrow> int \<Rightarrow> unit io" where
  "ClearDeliveryRetry operation i = exec (\<lambda>_ d. d\<lparr>db_retries :=
     filter (\<lambda>r. \<not> (dr_Operation r = operation \<and> dr_EntityID r = i)) (db_retries d)\<rparr>)"

definition DeliveryRetryIDs :: "bytes \<Rightarrow> gotime \<Rightarrow> int list io" where
  "DeliveryRetryIDs operation now = query (\<lambda>d. sort (map dr_EntityID
     (filter (\<lambda>r. dr_Operation r = operation \<and> \<not> dr_Exhausted r \<and> dr_NextAttemptAt r \<le> gt_ns now) (db_retries d))))"

section \<open>Lemmas\<close>

lemma schema_take_events:
  assumes "schema d" and "pe_ID e = next_id TEvents d" and "ws_ref d (pe_WorkspaceGroupID e)"
  shows "schema ((take_id TEvents d)\<lparr>db_events := db_events d @ [e]\<rparr>)"
  using assms unfolding schema_defs
  by (auto simp: take_id_def next_id_def intro!: uniq_append ids_ok_append)

lemma upd_events_schema:
  assumes "schema d" and "\<And>e. p e \<Longrightarrow> pe_ID (f e) = pe_ID e \<and> pe_WorkspaceGroupID (f e) = pe_WorkspaceGroupID e"
  shows "schema (d\<lparr>db_events := upd_where p f (db_events d)\<rparr>)"
  using assms unfolding schema_defs by (auto intro!: ids_ok_upd simp: set_upd_where)

lemma upd_alerts_schema:
  assumes "schema d" and "\<And>a. p a \<Longrightarrow> al_ID (f a) = al_ID a \<and> al_DailyTaskID (f a) = al_DailyTaskID a
    \<and> al_AlertKind (f a) = al_AlertKind a"
  shows "schema (d\<lparr>db_alerts := upd_where p f (db_alerts d)\<rparr>)"
  using assms unfolding schema_defs by (auto intro!: ids_ok_upd uniq_upd simp: set_upd_where)

lemma upd_events_step:
  assumes "\<And>e. p e \<Longrightarrow> event_rel e (f e)"
  shows "db_step d (d\<lparr>db_events := upd_where p f (db_events d)\<rparr>)"
proof -
  have "\<And>e. p e \<Longrightarrow> pe_ID (f e) = pe_ID e \<and> pe_WorkspaceGroupID (f e) = pe_WorkspaceGroupID e"
    using assms by (simp add: event_rel_def)
  then show ?thesis
    using assms by (auto simp: history_def intro!: db_step_same_seq conjI upd_events_schema rows_step_upd
        rows_step_refl row_rel_refl)
qed

lemma upd_alerts_step:
  assumes "\<And>a. p a \<Longrightarrow> alert_rel a (f a)"
  shows "db_step d (d\<lparr>db_alerts := upd_where p f (db_alerts d)\<rparr>)"
proof -
  have "\<And>a. p a \<Longrightarrow> al_ID (f a) = al_ID a \<and> al_DailyTaskID (f a) = al_DailyTaskID a
    \<and> al_AlertKind (f a) = al_AlertKind a"
    using assms by (simp add: alert_rel_def)
  then show ?thesis
    using assms by (auto simp: history_def intro!: db_step_same_seq conjI upd_alerts_schema rows_step_upd
        rows_step_refl row_rel_refl)
qed

lemma sound_CreateProgressEvent [sound_ops]: "sound (CreateProgressEvent w t p i j)"
  unfolding CreateProgressEvent_def
proof (rule sound_stmt)
  fix now d e d'
  assume "sql_CreateProgressEvent w t p i j now d = Some (e, d')"
  then show "db_step d d'"
    by (auto simp: sql_CreateProgressEvent_def Let_def list_ex_ws_ref history_def
        intro!: db_step_I schema_take_events rows_step_refl rows_step_append row_rel_refl split: if_splits)
qed

text \<open>
  A claim updates the rows with the id of the row it found; with unique ids that is the
  claimable row, whose status was not final.
\<close>

lemma claim_event_rel:
  assumes "schema d" and "e \<in> set (db_events d)" and "event_claimable now d e"
    and "q \<in> set (db_events d)" and "pe_ID q = pe_ID e"
  shows "event_rel q (q\<lparr>pe_PublishStatus := ProgressPublishPublishing, pe_PublishStartedAt := Some now\<rparr>)"
proof -
  have "uniq pe_ID (db_events d)" using assms(1) by (auto simp: schema_def schema_keys_def intro: ids_ok_uniq)
  then have "q = e" using assms by (meson uniq_same)
  with assms(3) show ?thesis by (auto simp: event_rel_def event_claimable_def)
qed

lemma claim_alert_rel:
  assumes "schema d" and "e \<in> set (db_alerts d)" and "alert_claimable now d e"
    and "q \<in> set (db_alerts d)" and "al_ID q = al_ID e"
  shows "alert_rel q (q\<lparr>al_DispatchStatus := AlertDispatchDispatching, al_DispatchStartedAt := Some now\<rparr>)"
proof -
  have "uniq al_ID (db_alerts d)" using assms(1) by (auto simp: schema_def schema_keys_def intro: ids_ok_uniq)
  then have "q = e" using assms by (meson uniq_same)
  with assms(3) show ?thesis by (auto simp: alert_rel_def alert_claimable_def)
qed

lemma rows_step_upd_in:
  "(\<And>r. rel r r) \<Longrightarrow> (\<And>r. r \<in> set rs \<Longrightarrow> p r \<Longrightarrow> rel r (f r)) \<Longrightarrow> rows_step rel rs (upd_where p f rs)"
  unfolding rows_step_def set_upd_where
  by (intro ballI, rule_tac x = "if p r then f r else r" in bexI) auto

lemma sound_ClaimProgressEvent [sound_ops]: "sound ClaimProgressEvent"
  unfolding ClaimProgressEvent_def
proof (rule sound_stmt)
  fix now d x d'
  assume run: "sql_ClaimProgressEvent now d = Some (x, d')"
  show "db_step d d'"
  proof (cases "first_where (event_claimable now d) (db_events d)")
    case None
    with run show ?thesis by (simp add: sql_ClaimProgressEvent_def stp.same)
  next
    case (Some e)
    with run show ?thesis
      using first_where_Some [OF Some] claim_event_rel [of d e now]
      by (auto simp: sql_ClaimProgressEvent_def Let_def history_def
          intro!: db_step_same_seq upd_events_schema rows_step_upd_in rows_step_refl row_rel_refl)
  qed
qed

lemma sound_ClaimPendingAlert [sound_ops]: "sound ClaimPendingAlert"
  unfolding ClaimPendingAlert_def
proof (rule sound_stmt)
  fix now d x d'
  assume run: "sql_ClaimPendingAlert now d = Some (x, d')"
  show "db_step d d'"
  proof (cases "first_where (alert_claimable now d) (db_alerts d)")
    case None
    with run show ?thesis by (simp add: sql_ClaimPendingAlert_def stp.same)
  next
    case (Some e)
    with run show ?thesis
      using first_where_Some [OF Some] claim_alert_rel [of d e now]
      by (auto simp: sql_ClaimPendingAlert_def Let_def history_def
          intro!: db_step_same_seq upd_alerts_schema rows_step_upd_in rows_step_refl row_rel_refl)
  qed
qed

lemma sound_reads_progress [sound_ops]:
  "sound ListPendingProgressEvents" "sound (DeliveryReady op i n)" "sound (DeliveryRetryIDs op n)"
  unfolding ListPendingProgressEvents_def DeliveryReady_def DeliveryRetryIDs_def by (intro sound_rules)+

lemma sound_update_count_events:
  "(\<And>e. p e \<Longrightarrow> event_rel e (f e)) \<Longrightarrow> sound (update_count db_events set_events p f)"
  unfolding update_count_def set_events_def by (rule sound_stmt) (use upd_events_step in auto)

lemma sound_update_count_alerts:
  "(\<And>a. p a \<Longrightarrow> alert_rel a (f a)) \<Longrightarrow> sound (update_count db_alerts set_alerts p f)"
  unfolding update_count_def set_alerts_def by (rule sound_stmt) (use upd_alerts_step in auto)

lemma sound_claim_ends [sound_ops]:
  "sound (RequeueProgressEvent i)" "sound (MarkProgressEventFailed i)" "sound (MarkProgressEventPublished i m t)"
  "sound (MarkAlertSent i m)" "sound (RequeueAlert i)"
  unfolding RequeueProgressEvent_def MarkProgressEventFailed_def MarkProgressEventPublished_def
    MarkAlertSent_def RequeueAlert_def requireDeliveryClaim_def
  by (intro sound_rules sound_update_count_events sound_update_count_alerts;
      simp add: claimed_event_def claimed_alert_def event_rel_def alert_rel_def)+

lemma retries_schema:
  "schema d \<Longrightarrow> schema (d\<lparr>db_retries := rs\<rparr>) \<longleftrightarrow> uniq (\<lambda>r. (dr_Operation r, dr_EntityID r)) rs
    \<and> (\<forall>r \<in> set rs. 1 \<le> dr_Attempts r \<and> dr_Attempts r \<le> 8)"
  unfolding schema_defs by auto

lemma retries_schemaD:
  "schema d \<Longrightarrow> uniq (\<lambda>r. (dr_Operation r, dr_EntityID r)) (db_retries d)
    \<and> (\<forall>r \<in> set (db_retries d). 1 \<le> dr_Attempts r \<and> dr_Attempts r \<le> 8)"
  by (simp add: schema_def schema_keys_def schema_refs_def)

lemma record_failure_schema:
  assumes "schema d"
  shows "schema (if list_ex (\<lambda>r. dr_Operation r = op \<and> dr_EntityID r = i) (db_retries d)
      then d\<lparr>db_retries := upd_where (\<lambda>r. dr_Operation r = op \<and> dr_EntityID r = i)
        (retry_after_failure now c s) (db_retries d)\<rparr>
      else d\<lparr>db_retries := db_retries d @ [first_failure op i now c s]\<rparr>)"
proof -
  note d = retries_schemaD [OF assms]
  have k: "dr_Operation (retry_after_failure now c s r) = dr_Operation r"
    "dr_EntityID (retry_after_failure now c s r) = dr_EntityID r"
    "dr_Attempts (retry_after_failure now c s r) = min (dr_Attempts r + 1) 8" for r
    by (simp_all add: retry_after_failure_def)
  have f: "dr_Operation (first_failure op i now c s) = op" "dr_EntityID (first_failure op i now c s) = i"
    "dr_Attempts (first_failure op i now c s) = 1"
    by (simp_all add: first_failure_def)
  show ?thesis
  proof (cases "list_ex (\<lambda>r. dr_Operation r = op \<and> dr_EntityID r = i) (db_retries d)")
    case True
    have "uniq (\<lambda>r. (dr_Operation r, dr_EntityID r))
        (upd_where (\<lambda>r. dr_Operation r = op \<and> dr_EntityID r = i) (retry_after_failure now c s) (db_retries d))"
      using d k by (intro uniq_upd) auto
    moreover have "\<forall>r \<in> set (upd_where (\<lambda>r. dr_Operation r = op \<and> dr_EntityID r = i)
        (retry_after_failure now c s) (db_retries d)). 1 \<le> dr_Attempts r \<and> dr_Attempts r \<le> 8"
      using d k by (auto simp: set_upd_where)
    ultimately show ?thesis using True by (simp add: retries_schema [OF assms])
  next
    case False
    have "uniq (\<lambda>r. (dr_Operation r, dr_EntityID r)) (db_retries d @ [first_failure op i now c s])"
      using d f False by (intro uniq_append) (auto simp: list_ex_iff)
    with False d f show ?thesis by (auto simp: retries_schema [OF assms])
  qed
qed

lemma sound_RecordDeliveryFailure [sound_ops]: "sound (RecordDeliveryFailure op i now c s)"
  unfolding RecordDeliveryFailure_def Let_def
proof (rule sound_exec)
  fix d :: db
  let ?d' = "if list_ex (\<lambda>r. dr_Operation r = op \<and> dr_EntityID r = i) (db_retries d)
      then d\<lparr>db_retries := upd_where (\<lambda>r. dr_Operation r = op \<and> dr_EntityID r = i)
        (retry_after_failure (gt_ns now) c s) (db_retries d)\<rparr>
      else d\<lparr>db_retries := db_retries d @ [first_failure op i (gt_ns now) c s]\<rparr>"
  have "history d ?d'" by (rule history_same_tables) simp_all
  then show "db_step d ?d'" using record_failure_schema by (intro db_step_same_seq) simp_all
qed

lemma sound_ClearDeliveryRetry [sound_ops]: "sound (ClearDeliveryRetry op i)"
proof -
  have "schema (d\<lparr>db_retries := filter p (db_retries d)\<rparr>)" if "schema d" for d p
    using retries_schemaD [OF that] by (auto simp: retries_schema [OF that] uniq_filter)
  then show ?thesis
    unfolding ClearDeliveryRetry_def
    by (intro sound_exec db_step_same_seq) (simp_all add: history_same_tables)
qed

end
