(* ===== verification/Store_Today.thy ===== *)
theory Store_Today imports Store_Progress begin

text \<open>
  \<open>internal/storage/postgres/today.go\<close> and the automatic failure event of \<open>worker.go\<close>: daily
  tasks and summaries, their alerts and the pending inputs. The unique index on the source
  message of a task and the one on its report message are constraints of the statements that
  set them. Rows read from \<open>pending_inputs\<close> carry their decoded payload.
\<close>

section \<open>Daily entries\<close>

definition GetOpenTask :: "int \<Rightarrow> int \<Rightarrow> daily_task option io" where
  "GetOpenTask wid pid = query (\<lambda>d. first_where (\<lambda>t. tk_WorkspaceGroupID t = wid \<and> tk_ParticipantID t = pid
     \<and> tk_Kind t = DailyEntryTask \<and> is_open (tk_Status t)) (rev (db_tasks d)))"

definition find_task_for_date :: "int \<Rightarrow> int \<Rightarrow> int \<Rightarrow> db \<Rightarrow> daily_task option" where
  "find_task_for_date wid pid day d = first_where (\<lambda>t. tk_WorkspaceGroupID t = wid \<and> tk_ParticipantID t = pid
     \<and> tk_TaskDate t = day) (db_tasks d)"

definition GetTaskForDate :: "int \<Rightarrow> int \<Rightarrow> gotime \<Rightarrow> daily_task option io" where
  "GetTaskForDate wid pid taskDate = query (find_task_for_date wid pid (t_day taskDate))"

definition new_entry :: "int \<Rightarrow> int \<Rightarrow> int \<Rightarrow> int \<Rightarrow> int \<Rightarrow> daily_entry_kind \<Rightarrow> bytes \<Rightarrow> int \<Rightarrow> int \<Rightarrow> int \<Rightarrow> daily_task" where
  "new_entry i wid pid owner day kind text messageID threadID now = \<lparr>tk_ID = i, tk_WorkspaceGroupID = wid,
     tk_ParticipantID = pid, tk_OwnerUserID = owner, tk_TaskDate = day, tk_Kind = kind, tk_Text = text,
     tk_Status = DailyTaskActive, tk_ReportText = None, tk_ReportStatus = None, tk_TodayCardMessageID = None,
     tk_TaskMessageID = nullif0 messageID, tk_TaskMessageThreadID = nullif0 threadID, tk_ReportMessageID = None,
     tk_ReportMessageThreadID = None, tk_CreatedAt = now, tk_ReportedAt = None, tk_AwaitingReportAt = None,
     tk_FailedAt = None\<rparr>"

text \<open>\<open>INSERT ... ON CONFLICT DO NOTHING\<close>: no row comes back when the day already has an entry.\<close>

definition sql_insert_entry ::
    "int \<Rightarrow> int \<Rightarrow> int \<Rightarrow> int \<Rightarrow> daily_entry_kind \<Rightarrow> bytes \<Rightarrow> int \<Rightarrow> int \<Rightarrow> daily_task option sql" where
  "sql_insert_entry wid pid owner day kind text messageID threadID now d =
     (let d1 = take_id TTasks d in
      if find_task_for_date wid pid day d \<noteq> None then Some (None, d1)
      else if \<not> list_ex (\<lambda>w. ws_ID w = wid) (db_workspaces d) \<or> \<not> list_ex (\<lambda>p. pt_ID p = pid) (db_participants d)
        \<or> messageID \<noteq> 0 \<and> list_ex (\<lambda>t. tk_WorkspaceGroupID t = wid \<and> tk_TaskMessageID t = Some messageID) (db_tasks d)
      then None
      else (let t = new_entry (next_id TTasks d) wid pid owner day kind text messageID threadID now
        in Some (Some t, d1\<lparr>db_tasks := db_tasks d @ [t]\<rparr>)))"

definition createDailyEntry ::
    "int \<Rightarrow> int \<Rightarrow> int \<Rightarrow> gotime \<Rightarrow> daily_entry_kind \<Rightarrow> bytes \<Rightarrow> int \<Rightarrow> int \<Rightarrow> (daily_task option \<times> bool) io" where
  "createDailyEntry wid pid owner taskDate kind text messageID threadID =
     bindM (stmt (sql_insert_entry wid pid owner (t_day taskDate) kind text messageID threadID)) (\<lambda>row. case row of
         Some task \<Rightarrow> ret (Some task, True)
       | None \<Rightarrow> bindM (GetTaskForDate wid pid taskDate) (\<lambda>existing. ret (existing, existing = None)))"

definition CreateDailyTask :: "int \<Rightarrow> int \<Rightarrow> int \<Rightarrow> gotime \<Rightarrow> bytes \<Rightarrow> int \<Rightarrow> int \<Rightarrow> (daily_task option \<times> bool) io" where
  "CreateDailyTask wid pid owner taskDate text messageID threadID =
     createDailyEntry wid pid owner taskDate DailyEntryTask text messageID threadID"

definition CreateDailySummary :: "int \<Rightarrow> int \<Rightarrow> int \<Rightarrow> gotime \<Rightarrow> (daily_task option \<times> bool) io" where
  "CreateDailySummary wid pid owner taskDate = createDailyEntry wid pid owner taskDate DailyEntrySummary [] 0 0"

definition upd_tasks :: "(daily_task \<Rightarrow> bool) \<Rightarrow> (daily_task \<Rightarrow> daily_task) \<Rightarrow> db \<Rightarrow> db" where
  "upd_tasks p f d = d\<lparr>db_tasks := upd_where p f (db_tasks d)\<rparr>"

definition SetDailyTaskCardMessageID :: "int \<Rightarrow> int \<Rightarrow> unit io" where
  "SetDailyTaskCardMessageID taskID messageID = exec (\<lambda>now. upd_tasks (\<lambda>t. tk_ID t = taskID)
     (\<lambda>t. t\<lparr>tk_TodayCardMessageID := Some messageID\<rparr>))"

definition find_task :: "int \<Rightarrow> db \<Rightarrow> daily_task option" where
  "find_task taskID d = first_where (\<lambda>t. tk_ID t = taskID) (db_tasks d)"

definition GetTask :: "int \<Rightarrow> daily_task option io" where "GetTask taskID = query (find_task taskID)"

definition ListTasksForTransition :: "daily_task list io" where
  "ListTasksForTransition = query (\<lambda>d. filter (\<lambda>t. is_open (tk_Status t)) (db_tasks d))"

definition UpdateTaskAwaitingReport :: "int \<Rightarrow> gotime \<Rightarrow> unit io" where
  "UpdateTaskAwaitingReport taskID now = exec (\<lambda>_. upd_tasks
     (\<lambda>t. tk_ID t = taskID \<and> tk_Status t = DailyTaskActive)
     (\<lambda>t. t\<lparr>tk_Status := DailyTaskAwaitingReport, tk_AwaitingReportAt := Some (gt_ns now)\<rparr>))"

definition UpdateTaskFailed :: "int \<Rightarrow> gotime \<Rightarrow> unit io" where
  "UpdateTaskFailed taskID now = exec (\<lambda>_. upd_tasks
     (\<lambda>t. tk_ID t = taskID \<and> is_open (tk_Status t))
     (\<lambda>t. t\<lparr>tk_Status := DailyTaskFailed, tk_FailedAt := Some (gt_ns now)\<rparr>))"

section \<open>Links\<close>

definition MessageLink :: "int \<Rightarrow> int \<Rightarrow> int \<Rightarrow> bytes" where
  "MessageLink chatID messageID threadID =
     (if messageID = 0 then []
      else (let chatText = show_int chatID in
        if \<not> has_prefix chatText ''-100'' then []
        else ''https://t.me/c/'' @ drop 4 chatText @ ''/'' @ show_int messageID
          @ (if threadID \<noteq> 0 then ''?thread='' @ show_int threadID else [])))"

section \<open>Reports\<close>

text \<open>The retrospective report of a task that failed by itself.\<close>

definition retrospective :: "int \<Rightarrow> int \<Rightarrow> daily_task \<Rightarrow> bool" where
  "retrospective taskID owner t \<longleftrightarrow> tk_ID t = taskID \<and> tk_OwnerUserID t = owner \<and> tk_Kind t = DailyEntryTask
     \<and> tk_Status t = DailyTaskFailed \<and> tk_FailedAt t \<noteq> None \<and> tk_ReportedAt t = None"

definition open_owned :: "int \<Rightarrow> int \<Rightarrow> daily_task \<Rightarrow> bool" where
  "open_owned taskID owner t \<longleftrightarrow> tk_ID t = taskID \<and> tk_OwnerUserID t = owner \<and> is_open (tk_Status t)"

definition put_report :: "daily_task_status \<Rightarrow> bytes \<Rightarrow> int \<Rightarrow> int \<Rightarrow> int \<Rightarrow> daily_task \<Rightarrow> daily_task" where
  "put_report status html messageID threadID now t = t\<lparr>tk_ReportStatus := Some status, tk_ReportText := Some html,
     tk_ReportMessageID := Some messageID, tk_ReportMessageThreadID := Some threadID, tk_ReportedAt := Some now\<rparr>"

text \<open>An update that sets the report message of the rows it selects, under the unique index.\<close>

definition sql_report :: "(daily_task \<Rightarrow> bool) \<Rightarrow> (int \<Rightarrow> daily_task \<Rightarrow> daily_task) \<Rightarrow> int \<Rightarrow> int sql" where
  "sql_report p f messageID now d =
     (if list_ex (\<lambda>t. p t \<and> list_ex (\<lambda>q. \<not> p q \<and> tk_WorkspaceGroupID q = tk_WorkspaceGroupID t
            \<and> tk_ReportMessageID q = Some messageID) (db_tasks d)) (db_tasks d) then None
      else Some (int (n_where p (db_tasks d)), upd_tasks p (f now) d))"

definition username_json :: "participant option \<Rightarrow> json" where
  "username_json participant = (case participant of None \<Rightarrow> JNull
     | Some p \<Rightarrow> (case pt_Username p of Some n \<Rightarrow> JStr n | None \<Rightarrow> JNull))"

text \<open>The payload of the event that announces a closed entry.\<close>

definition closed_payload ::
    "daily_task \<Rightarrow> int \<Rightarrow> daily_task_status \<Rightarrow> bytes \<Rightarrow> bytes \<Rightarrow> int \<Rightarrow> participant option \<Rightarrow> workspace option
     \<Rightarrow> int \<Rightarrow> payload" where
  "closed_payload task owner status reportHTML displayName messageID participant w threadID =
     (let userID = (case participant of Some p \<Rightarrow> pt_UserID p | None \<Rightarrow> owner);
          base = [''status'' \<mapsto> JStr (task_status_str status), ''report_html'' \<mapsto> JStr reportHTML,
            ''user_id'' \<mapsto> JInt userID, ''display_name'' \<mapsto> JStr displayName, ''username'' \<mapsto> username_json participant];
          summary = is_summary (tk_Kind task);
          p1 = (if summary then base else base(''task_html'' \<mapsto> JStr (tk_Text task)))
      in (case w of None \<Rightarrow> p1 | Some w \<Rightarrow>
           p1((if summary then ''summary_link'' else ''task_link'') \<mapsto>
                JStr (MessageLink (ws_ChatID w) (opt0 (tk_TodayCardMessageID task)) threadID),
              ''report_link'' \<mapsto> JStr (MessageLink (ws_ChatID w) messageID threadID))))"

definition ok_value :: "goerr + 'a option \<Rightarrow> 'a option" where
  "ok_value r = (case r of Inl _ \<Rightarrow> None | Inr v \<Rightarrow> v)"

definition close_open_entry ::
    "daily_task \<Rightarrow> int \<Rightarrow> daily_task_status \<Rightarrow> bytes \<Rightarrow> bytes \<Rightarrow> int \<Rightarrow> int \<Rightarrow> bool io" where
  "close_open_entry task owner status reportHTML displayName messageID threadID =
     thenM (stmt (sql_report (open_owned (tk_ID task) owner)
         (\<lambda>now t. (put_report status reportHTML messageID threadID now t)\<lparr>tk_Status := status\<rparr>) messageID))
     (bindM (attempt (GetParticipantByID (tk_ParticipantID task))) (\<lambda>rp.
      bindM (attempt (GetWorkspaceByID (tk_WorkspaceGroupID task))) (\<lambda>rw.
      bindM (attempt (GetTopicBinding (tk_WorkspaceGroupID task) TopicToday)) (\<lambda>rb.
      thenM (CreateProgressEvent (tk_WorkspaceGroupID task)
          (if is_summary (tk_Kind task) then ProgressDailySummaryClosed else ProgressDailyTaskClosed)
          (closed_payload task owner status reportHTML displayName messageID (ok_value rp) (ok_value rw)
             (case ok_value rb of Some b \<Rightarrow> tb_ThreadID b | None \<Rightarrow> 0))
          (Some (tk_ParticipantID task)) (Some (tk_ID task)))
        (ret True)))))"

definition SubmitTaskReport ::
    "int \<Rightarrow> int \<Rightarrow> daily_task_status \<Rightarrow> bytes \<Rightarrow> bytes \<Rightarrow> int \<Rightarrow> int \<Rightarrow> bool io" where
  "SubmitTaskReport taskID owner status reportHTML displayName messageID threadID =
     bindM (GetTask taskID) (\<lambda>found. case found of
         None \<Rightarrow> ret False
       | Some task \<Rightarrow>
           if tk_OwnerUserID task \<noteq> owner \<or> \<not> AcceptsReport task \<or> \<not> is_final_report status then ret False
           else if \<not> is_open (tk_Status task) then
             bindM (stmt (sql_report (retrospective taskID owner) (put_report status reportHTML messageID threadID) messageID))
               (\<lambda>n. ret (n = 1))
           else close_open_entry task owner status reportHTML displayName messageID threadID)"

text \<open>\<open>payload || jsonb_build_object(...)\<close> on the events of a task.\<close>

definition sync_payload :: "daily_task \<Rightarrow> bytes \<Rightarrow> bytes \<Rightarrow> bytes \<Rightarrow> progress_event \<Rightarrow> progress_event" where
  "sync_payload task reportHTML cardLink reportLink e = e\<lparr>pe_Payload := (case pe_EventType e of
       ProgressDailySummaryClosed \<Rightarrow> (pe_Payload e)(''report_html'' \<mapsto> JStr reportHTML,
         ''summary_link'' \<mapsto> JStr cardLink, ''report_link'' \<mapsto> JStr reportLink)
     | ProgressDailySummaryAutoFail \<Rightarrow> (pe_Payload e)(''summary_link'' \<mapsto> JStr cardLink)
     | _ \<Rightarrow> (pe_Payload e)(''task_html'' \<mapsto> JStr (tk_Text task), ''report_html'' \<mapsto> JStr reportHTML,
         ''task_link'' \<mapsto> JStr cardLink, ''report_link'' \<mapsto> JStr reportLink))\<rparr>"

definition task_event :: "int \<Rightarrow> progress_event \<Rightarrow> bool" where
  "task_event taskID e \<longleftrightarrow> pe_DailyTaskID e = Some taskID \<and> pe_EventType e \<in> {ProgressDailyTaskClosed,
     ProgressDailyTaskAutoFail, ProgressDailySummaryClosed, ProgressDailySummaryAutoFail}"

definition SyncDailyTaskProgressPayloads :: "daily_task \<Rightarrow> progress_event list io" where
  "SyncDailyTaskProgressPayloads task =
     bindM (GetWorkspaceByID (tk_WorkspaceGroupID task)) (\<lambda>found.
     bindM (case found of
         None \<Rightarrow> ret ([], [])
       | Some w \<Rightarrow> bindM (GetTopicBinding (tk_WorkspaceGroupID task) TopicToday) (\<lambda>b.
           (let threadID = (case b of Some b \<Rightarrow> tb_ThreadID b | None \<Rightarrow> 0) in
            ret (MessageLink (ws_ChatID w) (opt0 (tk_TodayCardMessageID task)) threadID,
                 MessageLink (ws_ChatID w) (opt0 (tk_ReportMessageID task)) threadID)))) (\<lambda>(cardLink, reportLink).
     (let upd = sync_payload task (case tk_ReportText task of Some h \<Rightarrow> h | None \<Rightarrow> []) cardLink reportLink in
      stmt (\<lambda>now d. Some (map (\<lambda>e. scan_event (upd e)) (filter (task_event (tk_ID task)) (db_events d)),
        d\<lparr>db_events := upd_where (task_event (tk_ID task)) upd (db_events d)\<rparr>)))))"

definition update_task_row :: "(daily_task \<Rightarrow> bool) \<Rightarrow> (daily_task \<Rightarrow> daily_task) \<Rightarrow> daily_task option io" where
  "update_task_row p f = stmt (\<lambda>now d. Some (map_option f (first_where p (db_tasks d)), upd_tasks p f d))"

definition with_synced_events :: "daily_task option \<Rightarrow> (daily_task \<times> progress_event list) option io" where
  "with_synced_events row = (case row of None \<Rightarrow> ret None
     | Some task \<Rightarrow> bindM (SyncDailyTaskProgressPayloads task) (\<lambda>events. ret (Some (task, events))))"

definition UpdateTaskTextFromSourceMessage ::
    "int \<Rightarrow> int \<Rightarrow> int \<Rightarrow> int \<Rightarrow> bytes \<Rightarrow> (daily_task \<times> progress_event list) option io" where
  "UpdateTaskTextFromSourceMessage wid owner messageID threadID text =
     bindM (update_task_row (\<lambda>t. tk_WorkspaceGroupID t = wid \<and> tk_OwnerUserID t = owner
         \<and> tk_TaskMessageID t = Some messageID \<and> tk_TaskMessageThreadID t = Some threadID \<and> tk_Kind t = DailyEntryTask)
       (\<lambda>t. t\<lparr>tk_Text := text\<rparr>)) with_synced_events"

definition UpdateTaskReportFromSourceMessage ::
    "int \<Rightarrow> int \<Rightarrow> int \<Rightarrow> int \<Rightarrow> bytes \<Rightarrow> (daily_task \<times> progress_event list) option io" where
  "UpdateTaskReportFromSourceMessage wid owner messageID threadID reportHTML =
     bindM (update_task_row (\<lambda>t. tk_WorkspaceGroupID t = wid \<and> tk_OwnerUserID t = owner
         \<and> tk_ReportMessageID t = Some messageID \<and> tk_ReportMessageThreadID t = Some threadID \<and> tk_ReportText t \<noteq> None)
       (\<lambda>t. t\<lparr>tk_ReportText := Some reportHTML\<rparr>)) with_synced_events"

definition CreateAutoFailProgressEvent ::
    "daily_task \<Rightarrow> workspace \<Rightarrow> participant option \<Rightarrow> int \<Rightarrow> unit io" where
  "CreateAutoFailProgressEvent task w participant todayThreadID =
     (let userID = (case participant of Some p \<Rightarrow> pt_UserID p | None \<Rightarrow> tk_OwnerUserID task);
          displayName = (case participant of Some p \<Rightarrow> pt_DisplayName p | None \<Rightarrow> show_int (tk_OwnerUserID task));
          base = [''user_id'' \<mapsto> JInt userID, ''display_name'' \<mapsto> JStr displayName,
            ''username'' \<mapsto> username_json participant];
          link = JStr (MessageLink (ws_ChatID w) (opt0 (tk_TodayCardMessageID task)) todayThreadID);
          summary = is_summary (tk_Kind task);
          payload = (if summary then base(''summary_link'' \<mapsto> link)
                     else base(''task_html'' \<mapsto> JStr (tk_Text task), ''task_link'' \<mapsto> link))
      in thenM (CreateProgressEvent (tk_WorkspaceGroupID task)
            (if summary then ProgressDailySummaryAutoFail else ProgressDailyTaskAutoFail) payload
            (Some (tk_ParticipantID task)) (Some (tk_ID task)))
          (ret ()))"

section \<open>Alerts\<close>

definition sql_GetOrCreateAlert :: "int \<Rightarrow> alert_kind \<Rightarrow> daily_task_alert sql" where
  "sql_GetOrCreateAlert taskID kind now d =
     (let d1 = take_id TAlerts d in
      case first_where (\<lambda>a. al_DailyTaskID a = taskID \<and> al_AlertKind a = kind) (db_alerts d) of
        Some a \<Rightarrow> Some (a, d1)
      | None \<Rightarrow>
          if \<not> list_ex (\<lambda>t. tk_ID t = taskID) (db_tasks d) then None
          else (let a = \<lparr>al_ID = next_id TAlerts d, al_DailyTaskID = taskID, al_AlertKind = kind,
                  al_DispatchStatus = AlertDispatchPending, al_TelegramMessageID = None, al_AcknowledgedAt = None,
                  al_CreatedAt = now, al_DispatchStartedAt = None\<rparr>
            in Some (a, d1\<lparr>db_alerts := db_alerts d @ [a]\<rparr>)))"

definition GetOrCreateAlert :: "int \<Rightarrow> alert_kind \<Rightarrow> daily_task_alert io" where
  "GetOrCreateAlert taskID kind = stmt (sql_GetOrCreateAlert taskID kind)"

definition ListAlertsForTask :: "int \<Rightarrow> daily_task_alert list io" where
  "ListAlertsForTask taskID = query (\<lambda>d. filter (\<lambda>a. al_DailyTaskID a = taskID) (db_alerts d))"

definition AcknowledgeAlert :: "int \<Rightarrow> gotime \<Rightarrow> unit io" where
  "AcknowledgeAlert alertID now = exec (\<lambda>_ d. set_alerts d (upd_where (\<lambda>a. al_ID a = alertID)
     (\<lambda>a. a\<lparr>al_AcknowledgedAt := (case al_AcknowledgedAt a of Some t \<Rightarrow> Some t | None \<Rightarrow> Some (gt_ns now)),
        al_TelegramMessageID := None\<rparr>) (db_alerts d)))"

definition ClearAlertMessage :: "int \<Rightarrow> unit io" where
  "ClearAlertMessage alertID = exec (\<lambda>_ d. set_alerts d (upd_where (\<lambda>a. al_ID a = alertID)
     (\<lambda>a. a\<lparr>al_TelegramMessageID := None\<rparr>) (db_alerts d)))"

definition GetAlert :: "int \<Rightarrow> daily_task_alert option io" where
  "GetAlert alertID = query (\<lambda>d. first_where (\<lambda>a. al_ID a = alertID) (db_alerts d))"

section \<open>Pending inputs\<close>

definition scan_pending :: "pending_input \<Rightarrow> pending_input" where
  "scan_pending p = p\<lparr>pi_Payload := decodePayload (pi_Payload p)\<rparr>"

definition pending_of :: "int \<Rightarrow> int \<Rightarrow> int \<Rightarrow> pending_input \<Rightarrow> bool" where
  "pending_of wid userID threadID p \<longleftrightarrow> pi_WorkspaceGroupID p = wid \<and> pi_UserID p = userID
     \<and> pi_MessageThreadID p = threadID"

definition GetPendingInput :: "int \<Rightarrow> int \<Rightarrow> int \<Rightarrow> pending_input option io" where
  "GetPendingInput wid userID threadID = query (\<lambda>d.
     map_option scan_pending (first_where (pending_of wid userID threadID) (db_pendings d)))"

definition sql_upsert_pending ::
    "int \<Rightarrow> int \<Rightarrow> int \<Rightarrow> pending_input_kind \<Rightarrow> payload \<Rightarrow> int \<Rightarrow> pending_input sql" where
  "sql_upsert_pending wid userID threadID kind payload current now d =
     (let d1 = take_id TPendings d in
      case first_where (pending_of wid userID threadID) (db_pendings d) of
        Some p0 \<Rightarrow>
          (let upd = (\<lambda>p. p\<lparr>pi_Kind := kind, pi_Payload := payload, pi_CreatedAt := current\<rparr>)
           in Some (scan_pending (upd p0), d1\<lparr>db_pendings := upd_where (pending_of wid userID threadID) upd (db_pendings d)\<rparr>))
      | None \<Rightarrow>
          if \<not> list_ex (\<lambda>w. ws_ID w = wid) (db_workspaces d) then None
          else (let p = \<lparr>pi_ID = next_id TPendings d, pi_WorkspaceGroupID = wid, pi_UserID = userID,
                  pi_MessageThreadID = threadID, pi_Kind = kind, pi_Payload = payload, pi_CreatedAt = current\<rparr>
            in Some (scan_pending p, d1\<lparr>db_pendings := db_pendings d @ [p]\<rparr>)))"

definition UpsertPendingInput ::
    "int \<Rightarrow> int \<Rightarrow> int \<Rightarrow> pending_input_kind \<Rightarrow> payload \<Rightarrow> pending_input io" where
  "UpsertPendingInput wid userID threadID kind payload =
     (let payloadWithThread = payload(''thread_id'' \<mapsto> JInt threadID) in
      bindM current_now (\<lambda>current.
        stmt (sql_upsert_pending wid userID threadID kind payloadWithThread (gt_ns current))))"

text \<open>\<open>DELETE ... RETURNING\<close> of the rows selected; the row read is the first.\<close>

definition take_pending :: "(pending_input \<Rightarrow> bool) \<Rightarrow> pending_input option io" where
  "take_pending p = stmt (\<lambda>now d. Some (map_option scan_pending (first_where p (db_pendings d)),
     d\<lparr>db_pendings := filter (\<lambda>q. \<not> p q) (db_pendings d)\<rparr>))"

definition delete_pending :: "(pending_input \<Rightarrow> bool) \<Rightarrow> unit io" where
  "delete_pending p = exec (\<lambda>now d. d\<lparr>db_pendings := filter (\<lambda>q. \<not> p q) (db_pendings d)\<rparr>)"

definition ClaimPendingInput :: "int \<Rightarrow> int \<Rightarrow> int \<Rightarrow> pending_input_kind \<Rightarrow> pending_input option io" where
  "ClaimPendingInput wid userID threadID kind =
     take_pending (\<lambda>p. pending_of wid userID threadID p \<and> pi_Kind p = kind)"

definition ClearPendingInput :: "int \<Rightarrow> int \<Rightarrow> int \<Rightarrow> unit io" where
  "ClearPendingInput wid userID threadID = delete_pending (pending_of wid userID threadID)"

definition payload_is :: "bytes \<Rightarrow> int \<Rightarrow> pending_input \<Rightarrow> bool" where
  "payload_is key n p \<longleftrightarrow> json_text (pi_Payload p key) = Some (show_int n)"

definition ClearRoutineCheckinPendingInput :: "int \<Rightarrow> int \<Rightarrow> int \<Rightarrow> int \<Rightarrow> unit io" where
  "ClearRoutineCheckinPendingInput wid userID threadID checkinID =
     delete_pending (\<lambda>p. pending_of wid userID threadID p \<and> payload_is ''checkin_id'' checkinID p)"

definition ClearGoalWeeklyReviewPendingInput :: "int \<Rightarrow> int \<Rightarrow> int \<Rightarrow> int \<Rightarrow> unit io" where
  "ClearGoalWeeklyReviewPendingInput wid userID threadID reviewID =
     delete_pending (\<lambda>p. pending_of wid userID threadID p \<and> pi_Kind p = PendingGoalWeeklyReview
       \<and> payload_is ''review_id'' reviewID p)"

definition ClearGoalFinalReviewPendingInput :: "int \<Rightarrow> int \<Rightarrow> int \<Rightarrow> int \<Rightarrow> unit io" where
  "ClearGoalFinalReviewPendingInput wid userID threadID goalSetID =
     delete_pending (\<lambda>p. pending_of wid userID threadID p \<and> pi_Kind p = PendingGoalFinalReflection
       \<and> payload_is ''goal_set_id'' goalSetID p)"

definition stale_listed :: "int \<Rightarrow> pending_input \<Rightarrow> bool" where
  "stale_listed cutoff p \<longleftrightarrow> pi_CreatedAt p \<le> cutoff
     \<and> pi_Kind p \<notin> {PendingGoalWeeklyReview, PendingGoalFinalReflection}"

definition stale_contexts :: "int \<Rightarrow> nat \<Rightarrow> db \<Rightarrow> (pending_input \<times> workspace) list" where
  "stale_contexts cutoff limit d = take limit (concat (map
     (\<lambda>p. case first_where (\<lambda>w. ws_ID w = pi_WorkspaceGroupID p) (db_workspaces d) of
         None \<Rightarrow> [] | Some w \<Rightarrow> [(scan_pending p, w)])
     (sort_key pi_CreatedAt (filter (stale_listed cutoff) (db_pendings d)))))"

definition ListStalePendingInputContexts :: "gotime \<Rightarrow> nat \<Rightarrow> (pending_input \<times> workspace) list io" where
  "ListStalePendingInputContexts cutoff limit = query (stale_contexts (gt_ns cutoff) limit)"

definition ClaimStalePendingInput :: "int \<Rightarrow> gotime \<Rightarrow> pending_input option io" where
  "ClaimStalePendingInput pendingID cutoff = take_pending (\<lambda>p. pi_ID p = pendingID
     \<and> pi_CreatedAt p \<le> gt_ns cutoff \<and> pi_Kind p \<noteq> PendingGoalWeeklyReview)"

section \<open>Lemmas: the schema and the past are kept\<close>

lemma upd_tasks_step:
  assumes "\<And>t. p t \<Longrightarrow> task_rel t (f t)"
  shows "db_step d (upd_tasks p f d)"
proof -
  have k: "tk_ID (f t) = tk_ID t" "tk_WorkspaceGroupID (f t) = tk_WorkspaceGroupID t"
    "tk_ParticipantID (f t) = tk_ParticipantID t" "tk_TaskDate (f t) = tk_TaskDate t" if "p t" for t
    using assms [OF that] by (simp_all add: task_rel_def same_task_def)
  have refs: "(\<exists>r\<in>set (upd_where p f (db_tasks d)). tk_ID r = i) \<longleftrightarrow> (\<exists>r\<in>set (db_tasks d). tk_ID r = i)" for i
    by (rule Bex_upd_where) (rule k)
  have "schema (upd_tasks p f d)" if "schema d"
    using that k refs unfolding schema_defs upd_tasks_def
    by (auto intro!: ids_ok_upd uniq_upd simp: set_upd_where)
  moreover have "history d (upd_tasks p f d)"
    using assms by (auto simp: history_def upd_tasks_def intro!: rows_step_upd rows_step_refl row_rel_refl)
  ultimately show ?thesis by (intro db_step_same_seq) (simp_all add: upd_tasks_def)
qed

lemma put_report_fields [simp]:
  "tk_Status (put_report s h m th now t) = tk_Status t" "same_task t (put_report s h m th now t)"
  by (simp_all add: put_report_def same_task_def)

lemma same_task_status [simp]: "same_task t (q\<lparr>tk_Status := s\<rparr>) \<longleftrightarrow> same_task t q"
  by (simp add: same_task_def)

lemma retrospective_rel: "retrospective i o' t \<Longrightarrow> task_rel t (put_report s h m th now t)"
  by (simp add: task_rel_def status_le_def retrospective_def)

lemma open_report_rel:
  "open_owned i o' t \<Longrightarrow> is_final_report s \<Longrightarrow> task_rel t ((put_report s h m th now t)\<lparr>tk_Status := s\<rparr>)"
  by (cases "tk_Status t"; cases s) (auto simp: task_rel_def status_le_def open_owned_def)

lemma sound_sql_report:
  "(\<And>now t. p t \<Longrightarrow> task_rel t (f now t)) \<Longrightarrow> sound (stmt (sql_report p f m))"
  by (rule sound_stmt) (auto simp: sql_report_def intro!: upd_tasks_step split: if_splits)

lemma sound_task_reads [sound_ops]:
  "sound (GetOpenTask w p)" "sound (GetTaskForDate w p dt)" "sound (GetTask i)" "sound ListTasksForTransition"
  "sound (ListAlertsForTask i)" "sound (GetAlert i)" "sound (GetPendingInput w u t)"
  "sound (ListStalePendingInputContexts c n)"
  unfolding GetOpenTask_def GetTaskForDate_def GetTask_def ListTasksForTransition_def ListAlertsForTask_def
    GetAlert_def GetPendingInput_def ListStalePendingInputContexts_def
  by (intro sound_rules)+

lemma sound_task_updates [sound_ops]:
  "sound (SetDailyTaskCardMessageID i m)" "sound (UpdateTaskAwaitingReport i now)" "sound (UpdateTaskFailed i now)"
  unfolding SetDailyTaskCardMessageID_def UpdateTaskAwaitingReport_def UpdateTaskFailed_def
  by (rule sound_exec, rule upd_tasks_step,
      auto simp: task_rel_def same_task_def status_le_def)+

lemma sound_close_open_entry:
  "is_final_report st \<Longrightarrow> sound (close_open_entry task u st h n m th)"
  unfolding close_open_entry_def
  by (intro sound_rules sound_ops sound_sql_report open_report_rel)

lemma sound_SubmitTaskReport [sound_ops]: "sound (SubmitTaskReport i u st h n m th)"
proof (cases "is_final_report st")
  case True
  then show ?thesis
    unfolding SubmitTaskReport_def
    by (intro sound_rules sound_ops sound_sql_report retrospective_rel sound_close_open_entry)
next
  case False
  have "SubmitTaskReport i u st h n m th = bindM (GetTask i) (\<lambda>_. ret False)"
    unfolding SubmitTaskReport_def
    by (rule arg_cong [where f = "bindM (GetTask i)"]) (use False in \<open>auto split: option.split\<close>)
  then show ?thesis by (auto intro!: sound_rules sound_ops)
qed

lemma sync_event_rel: "event_rel e (sync_payload t h c r e)"
  by (simp add: event_rel_def sync_payload_def)

lemma sound_Sync [sound_ops]: "sound (SyncDailyTaskProgressPayloads task)"
  unfolding SyncDailyTaskProgressPayloads_def Let_def
  by (intro sound_rules sound_ops sound_stmt) (use upd_events_step sync_event_rel in auto)

lemma sound_update_task_row: "(\<And>t. p t \<Longrightarrow> task_rel t (f t)) \<Longrightarrow> sound (update_task_row p f)"
  unfolding update_task_row_def by (rule sound_stmt) (use upd_tasks_step in auto)

lemma sound_edits [sound_ops]:
  "sound (UpdateTaskTextFromSourceMessage w u m t x)" "sound (UpdateTaskReportFromSourceMessage w u m t x)"
  unfolding UpdateTaskTextFromSourceMessage_def UpdateTaskReportFromSourceMessage_def with_synced_events_def
  by (intro sound_rules sound_ops sound_update_task_row; simp add: task_rel_def same_task_def status_le_def)+

lemma sound_AutoFailEvent [sound_ops]: "sound (CreateAutoFailProgressEvent t w p th)"
  unfolding CreateAutoFailProgressEvent_def Let_def by (intro sound_rules sound_ops)

lemma schema_new_alert:
  assumes "schema d" and "al_ID a = next_id TAlerts d" and "tk_ref d (al_DailyTaskID a)"
    and "\<And>q. q \<in> set (db_alerts d) \<Longrightarrow> (al_DailyTaskID q, al_AlertKind q) \<noteq> (al_DailyTaskID a, al_AlertKind a)"
  shows "schema ((take_id TAlerts d)\<lparr>db_alerts := db_alerts d @ [a]\<rparr>)"
  using assms unfolding schema_defs
  by (auto simp: take_id_def next_id_def intro!: uniq_append ids_ok_append)

lemma sound_GetOrCreateAlert [sound_ops]: "sound (GetOrCreateAlert i k)"
  unfolding GetOrCreateAlert_def
proof (rule sound_stmt)
  fix now d a d'
  assume run: "sql_GetOrCreateAlert i k now d = Some (a, d')"
  show "db_step d d'"
  proof (cases "first_where (\<lambda>a. al_DailyTaskID a = i \<and> al_AlertKind a = k) (db_alerts d)")
    case None
    with run show ?thesis
      by (auto simp: sql_GetOrCreateAlert_def Let_def first_where_None list_ex_iff tk_ref_def history_def
          intro!: db_step_I schema_new_alert rows_step_append rows_step_refl row_rel_refl split: if_splits)
  next
    case (Some a0)
    with run show ?thesis
      by (auto simp: sql_GetOrCreateAlert_def Let_def intro!: db_step_I schema_take_id history_same_tables)
  qed
qed

lemma sound_alert_updates [sound_ops]: "sound (AcknowledgeAlert i now)" "sound (ClearAlertMessage i)"
  unfolding AcknowledgeAlert_def ClearAlertMessage_def set_alerts_def
  by (rule sound_exec, rule upd_alerts_step, simp add: alert_rel_def split: option.split)+

lemma schema_new_task:
  assumes "schema d" and "tk_ID t = next_id TTasks d" and "ws_ref d (tk_WorkspaceGroupID t)"
    and "pt_ref d (tk_ParticipantID t)"
    and "find_task_for_date (tk_WorkspaceGroupID t) (tk_ParticipantID t) (tk_TaskDate t) d = None"
  shows "schema ((take_id TTasks d)\<lparr>db_tasks := db_tasks d @ [t]\<rparr>)"
  using assms unfolding schema_defs find_task_for_date_def first_where_None
  by (auto simp: take_id_def next_id_def intro!: uniq_append ids_ok_append)

lemma list_ex_pt_ref: "list_ex (\<lambda>p. pt_ID p = i) (db_participants d) \<longleftrightarrow> pt_ref d i"
  by (auto simp: list_ex_iff pt_ref_def)

lemma sound_createDailyEntry: "sound (createDailyEntry w p o' dt k x m th)"
proof -
  have "db_step d d'" if "sql_insert_entry w p o' (t_day dt) k x m th now d = Some (r, d')" for now d r d'
  proof (cases "find_task_for_date w p (t_day dt) d")
    case None
    with that show ?thesis
      by (auto simp: sql_insert_entry_def Let_def list_ex_ws_ref list_ex_pt_ref new_entry_def history_def
          intro!: db_step_I schema_new_task rows_step_append rows_step_refl row_rel_refl split: if_splits)
  next
    case (Some t)
    with that show ?thesis
      by (auto simp: sql_insert_entry_def Let_def intro!: db_step_I schema_take_id history_same_tables)
  qed
  then show ?thesis
    unfolding createDailyEntry_def by (intro sound_rules sound_ops sound_stmt)
qed

lemma sound_create [sound_ops]: "sound (CreateDailyTask w p o' dt x m th)" "sound (CreateDailySummary w p o' dt)"
  by (simp_all add: CreateDailyTask_def CreateDailySummary_def sound_createDailyEntry)

lemma pendings_schema:
  "schema d \<Longrightarrow> schema (d\<lparr>db_pendings := filter p (db_pendings d)\<rparr>)"
  unfolding schema_defs by (auto intro!: ids_ok_filter uniq_filter)

lemma sound_pending_deletes: "sound (take_pending p)" "sound (delete_pending p)"
  unfolding take_pending_def delete_pending_def
  by (auto intro!: sound_stmt sound_exec db_step_same_seq pendings_schema history_same_tables)

lemma sound_pending_ops [sound_ops]:
  "sound (ClaimPendingInput w u t k)" "sound (ClearPendingInput w u t)"
  "sound (ClearRoutineCheckinPendingInput w u t i)" "sound (ClearGoalWeeklyReviewPendingInput w u t i)"
  "sound (ClearGoalFinalReviewPendingInput w u t i)" "sound (ClaimStalePendingInput i c)"
  by (simp_all add: ClaimPendingInput_def ClearPendingInput_def ClearRoutineCheckinPendingInput_def
      ClearGoalWeeklyReviewPendingInput_def ClearGoalFinalReviewPendingInput_def ClaimStalePendingInput_def
      sound_pending_deletes)

lemma sound_UpsertPendingInput [sound_ops]: "sound (UpsertPendingInput w u t k pl)"
proof -
  have "db_step d d'" if run: "sql_upsert_pending w u t k pl' c now d = Some (p, d')" for now d p d' pl' c
  proof (cases "first_where (pending_of w u t) (db_pendings d)")
    case None
    have "schema ((take_id TPendings d)\<lparr>db_pendings := db_pendings d @ [q]\<rparr>)"
      if "schema d" "pi_ID q = next_id TPendings d" "ws_ref d w" "pending_of w u t q" for q
      using that None unfolding schema_defs first_where_None pending_of_def
      by (auto simp: take_id_def next_id_def intro!: uniq_append ids_ok_append)
    with None run show ?thesis
      by (auto simp: sql_upsert_pending_def Let_def list_ex_ws_ref pending_of_def
          intro!: db_step_I history_same_tables split: if_splits)
  next
    case (Some p0)
    have "schema (d\<lparr>db_pendings := upd_where (pending_of w u t)
        (\<lambda>p. p\<lparr>pi_Kind := k, pi_Payload := pl', pi_CreatedAt := c\<rparr>) (db_pendings d)\<rparr>)" if "schema d" for d
      using that unfolding schema_defs by (auto intro!: ids_ok_upd uniq_upd simp: set_upd_where)
    from this [OF schema_take_id] Some run show ?thesis
      by (auto simp: sql_upsert_pending_def Let_def intro!: db_step_I history_same_tables)
  qed
  then show ?thesis
    unfolding UpsertPendingInput_def Let_def by (intro sound_rules sound_ops sound_stmt)
qed

end
