(* ===== verification/App_Delivery.thy ===== *)
theory App_Delivery imports Store_Today begin

text \<open>
  \<open>internal/app/delivery\<close> and \<open>internal/app/messagecleanup\<close>: one delivery with its retry
  schedule, the compensation of a sent message whose confirmation could not be stored, and the
  clean-up of messages within Telegram's deletion window. The context of a call is never
  cancelled in the model.
\<close>

fun onlyTelegramErrors :: "goerr \<Rightarrow> bool" where
  "onlyTelegramErrors (JoinedError es) = list_all onlyTelegramErrors es"
| "onlyTelegramErrors (WrappedError p e) = onlyTelegramErrors e"
| "onlyTelegramErrors (TgError t) = True"
| "onlyTelegramErrors (DbError s) = False"
| "onlyTelegramErrors (RuleError r) = False"
| "onlyTelegramErrors (ClaimLost k i) = False"
| "onlyTelegramErrors (PlainError s) = False"
| "onlyTelegramErrors FuelExhausted = False"

definition service_wide :: "tg_error \<Rightarrow> bool" where
  "service_wide t \<longleftrightarrow> te_StatusCode t = 401 \<or> te_StatusCode t = 429 \<or> 500 \<le> te_StatusCode t \<or> te_StatusCode t = 0"

definition Defer :: "bytes \<Rightarrow> int \<Rightarrow> gotime \<Rightarrow> goerr \<Rightarrow> unit io" where
  "Defer operation i now cause =
     (if \<not> onlyTelegramErrors cause then failM cause
      else (case as_tg_error cause of
          None \<Rightarrow> failM cause
        | Some apiErr \<Rightarrow>
            bindM (err_of (RecordDeliveryFailure operation i now (tg_error_text apiErr) (te_Ambiguous apiErr)))
              (\<lambda>r. case r of
                 Some err \<Rightarrow> failM (JoinedError [cause, err])
               | None \<Rightarrow>
                   if te_Ambiguous apiErr then
                     failM (WrappedError (''delivery outcome unknown; reconcile '' @ operation @ '' '' @ show_int i
                       @ '' before retry'') cause)
                   else if service_wide apiErr then
                     failM (WrappedError (''Telegram unavailable during '' @ operation) cause)
                   else ret ())))"

definition Run :: "bytes \<Rightarrow> int \<Rightarrow> gotime \<Rightarrow> unit io \<Rightarrow> unit io" where
  "Run operation i now fn = bindM (DeliveryReady operation i now) (\<lambda>ready.
     if \<not> ready then ret ()
     else bindM (err_of fn) (\<lambda>r. case r of
         Some cause \<Rightarrow> Defer operation i now cause
       | None \<Rightarrow> ClearDeliveryRetry operation i))"

text \<open>
  A delivery whose function also tells its caller whether it ran and succeeded (a captured \<open>sent\<close>).
\<close>

definition RunSent :: "bytes \<Rightarrow> int \<Rightarrow> gotime \<Rightarrow> unit io \<Rightarrow> bool io" where
  "RunSent operation i now fn = bindM (DeliveryReady operation i now) (\<lambda>ready.
     if \<not> ready then ret False
     else bindM (err_of fn) (\<lambda>r. case r of
         Some cause \<Rightarrow> thenM (Defer operation i now cause) (ret False)
       | None \<Rightarrow> thenM (ClearDeliveryRetry operation i) (ret True)))"

text \<open>\<open>errors.Is\<close>.\<close>

fun errors_is :: "goerr \<Rightarrow> goerr \<Rightarrow> bool" where
  "errors_is (JoinedError es) t = (JoinedError es = t \<or> list_ex (\<lambda>e. errors_is e t) es)"
| "errors_is (WrappedError p e) t = (WrappedError p e = t \<or> errors_is e t)"
| "errors_is e t = (e = t)"

definition CompensateSentMessage :: "int \<Rightarrow> int \<Rightarrow> unit io option \<Rightarrow> unit io" where
  "CompensateSentMessage chatID messageID afterDelete = thenM (tgDeleteMessage chatID messageID)
     (case afterDelete of Some m \<Rightarrow> m | None \<Rightarrow> ret ())"

definition DeleteBestEffort :: "int \<Rightarrow> int \<Rightarrow> gotime \<Rightarrow> gotime \<Rightarrow> unit io" where
  "DeleteBestEffort chatID messageID sentAt nowUTC =
     (if messageID = 0 \<or> \<not> TelegramMessageDeleteAllowed sentAt nowUTC then ret ()
      else ignore (tgDeleteMessage chatID messageID))"

definition CloseBestEffort :: "int \<Rightarrow> int \<Rightarrow> gotime \<Rightarrow> gotime \<Rightarrow> edit_message_request \<Rightarrow> unit io" where
  "CloseBestEffort chatID messageID sentAt nowUTC fallback =
     (let edit = ignore (tgEditMessageText (fallback\<lparr>em_ChatID := chatID, em_MessageID := messageID\<rparr>)) in
      if messageID = 0 then ret ()
      else if TelegramMessageDeleteAllowed sentAt nowUTC then
        bindM (err_of (tgDeleteMessage chatID messageID)) (\<lambda>r. case r of None \<Rightarrow> ret () | Some e \<Rightarrow> edit)
      else edit)"

section \<open>Lemmas\<close>

lemma sound_Defer [sound_ops]: "sound (Defer op i now c)"
  unfolding Defer_def by (intro sound_rules sound_ops)

lemma sound_Run [sound_ops]: "sound fn \<Longrightarrow> sound (Run op i now fn)"
  unfolding Run_def by (intro sound_rules sound_ops)

lemma sound_RunSent [sound_ops]: "sound fn \<Longrightarrow> sound (RunSent op i now fn)"
  unfolding RunSent_def by (intro sound_rules sound_ops)

lemma sound_Compensate [sound_ops]:
  "sound (CompensateSentMessage c m None)" "sound k \<Longrightarrow> sound (CompensateSentMessage c m (Some k))"
  unfolding CompensateSentMessage_def by (auto intro!: sound_rules sound_ops)

lemma sound_cleanup [sound_ops]: "sound (DeleteBestEffort c m s n)" "sound (CloseBestEffort c m s n f)"
  unfolding DeleteBestEffort_def CloseBestEffort_def Let_def by (intro sound_rules)+

lemma run_err_of: "err_of m w = (Inr (case fst (m w) of Inl e \<Rightarrow> Some e | Inr _ \<Rightarrow> None), snd (m w))"
  by (simp add: err_of_def bindM_def attempt_def case_prod_beta io_run)

section \<open>Properties\<close>

text \<open>Deferring a failure that is not made of Telegram errors alone changes nothing and passes the
  failure on, so storage errors are never hidden by the retry schedule.\<close>

theorem defer_passes_on_other_errors:
  assumes "\<not> onlyTelegramErrors cause"
  shows "Defer op i now cause w = (Inl cause, w)"
  using assms by (simp add: Defer_def io_run)

theorem defer_passes_on_other_errors_witness:
  "Defer ''alert'' 1 zero_time (JoinedError [DbError ''down'', TgError (tg_err ''sendMessage'' 400 [] False 0)]) world0
    = (Inl (JoinedError [DbError ''down'', TgError (tg_err ''sendMessage'' 400 [] False 0)]), world0)"
  by (rule defer_passes_on_other_errors) simp



end
