(* ===== verification/App_Today.thy ===== *)
theory App_Today imports App_Delivery begin

text \<open>
  \<open>internal/app/today\<close>: the transitions of the open daily entries that a worker tick runs in one
  transaction. A task whose workspace is missing ends the loop without an error, as in the code.
\<close>

definition apply_transition :: "daily_task \<Rightarrow> workspace \<Rightarrow> daily_task_transition \<Rightarrow> gotime \<Rightarrow> unit io" where
  "apply_transition task w transition nowUTC = (case NewStatus transition of
      Some DailyTaskAwaitingReport \<Rightarrow>
        thenM (UpdateTaskAwaitingReport (tk_ID task) nowUTC)
          (thenM (GetOrCreateAlert (tk_ID task) AlertDayClosedPendingReport) (ret ()))
    | Some DailyTaskFailed \<Rightarrow>
        thenM (UpdateTaskFailed (tk_ID task) nowUTC)
          (thenM (GetOrCreateAlert (tk_ID task) AlertOverdueTaskFailed)
            (bindM (GetParticipantByID (tk_ParticipantID task)) (\<lambda>participant.
             bindM (GetTopicBinding (tk_WorkspaceGroupID task) TopicToday) (\<lambda>binding.
             CreateAutoFailProgressEvent task w participant
               (case binding of Some b \<Rightarrow> tb_ThreadID b | None \<Rightarrow> 0)))))
    | _ \<Rightarrow> ret ())"

fun transition_loop :: "gotime \<Rightarrow> daily_task list \<Rightarrow> unit io" where
  "transition_loop nowUTC [] = ret ()"
| "transition_loop nowUTC (task # tasks) =
     bindM (GetWorkspaceByID (tk_WorkspaceGroupID task)) (\<lambda>found. case found of
         None \<Rightarrow> ret ()
       | Some w \<Rightarrow>
           bindM (rule (\<lambda>tzdb. NextDailyTaskTransition tzdb (date_time (tk_TaskDate task)) (ws_Timezone w)
               (tk_Status task) nowUTC)) (\<lambda>transition.
           thenM (apply_transition task w transition nowUTC) (transition_loop nowUTC tasks)))"

definition RunDailyTaskTransitions :: "gotime \<Rightarrow> unit io" where
  "RunDailyTaskTransitions nowUTC = bindM ListTasksForTransition (transition_loop nowUTC)"

lemma sound_apply_transition: "sound (apply_transition task w tr now)"
  unfolding apply_transition_def
  by (auto intro!: sound_rules sound_ops split: option.split daily_task_status.split)

lemma sound_transition_loop: "sound (transition_loop now tasks)"
  by (induction tasks) (unfold transition_loop.simps, (intro sound_rules sound_ops sound_apply_transition | assumption)+)

lemma sound_RunDailyTaskTransitions [sound_ops]: "sound (RunDailyTaskTransitions now)"
  unfolding RunDailyTaskTransitions_def by (intro sound_rules sound_ops sound_transition_loop)

end
