(* ===== verification/App_Outbox.thy ===== *)
theory App_Outbox imports App_Today begin

text \<open>
  The loops of the worker that empty a queue: \<open>internal/app/progress\<close> (progress events),
  \<open>internal/app/pending\<close> (stale inputs) and \<open>DispatchAlerts\<close> of \<open>internal/worker\<close>. Each loop
  has a fuel that bounds its rounds; running out of it is the outcome \<open>FuelExhausted\<close>, never a
  result. A round tells whether the code goes on.
\<close>

section \<open>Progress events\<close>

definition progress_view :: "progress_event \<Rightarrow> view" where
  "progress_view event = View ''FormatProgressEvent'' [VEvent event]"

definition join_and_fail :: "goerr option list \<Rightarrow> bool io \<Rightarrow> bool io" where
  "join_and_fail es k = (case errors_join es of None \<Rightarrow> k | Some e \<Rightarrow> failM e)"

definition publish_round :: "gotime \<Rightarrow> bool io" where
  "publish_round now = bindM ClaimProgressEvent (\<lambda>claimed. case claimed of
      None \<Rightarrow> ret False
    | Some event \<Rightarrow>
        bindM (attempt (GetWorkspaceByID (pe_WorkspaceGroupID event))) (\<lambda>rw. case rw of
            Inl err \<Rightarrow> thenM (ignore (RequeueProgressEvent (pe_ID event))) (failM err)
          | Inr None \<Rightarrow> thenM (ignore (MarkProgressEventFailed (pe_ID event))) (ret True)
          | Inr (Some w) \<Rightarrow>
              bindM (attempt (GetTopicBinding (ws_ID w) TopicProgress)) (\<lambda>rb. case rb of
                  Inl err \<Rightarrow> thenM (ignore (RequeueProgressEvent (pe_ID event))) (failM err)
                | Inr None \<Rightarrow> thenM (ignore (MarkProgressEventFailed (pe_ID event))) (ret True)
                | Inr (Some topic) \<Rightarrow>
                    bindM (attempt (tgSendMessage (SilentMessage
                        ((send_req (ws_ChatID w) (tb_ThreadID topic) (progress_view event) None)
                           \<lparr>sm_DisableWebPagePreview := Some True\<rparr>)))) (\<lambda>rm. case rm of
                        Inl err \<Rightarrow>
                          bindM (err_of (Defer ''progress'' (pe_ID event) now err)) (\<lambda>retryErr.
                          bindM (err_of (RequeueProgressEvent (pe_ID event))) (\<lambda>requeueErr.
                          join_and_fail [retryErr, requeueErr] (ret True)))
                      | Inr message \<Rightarrow>
                          bindM time_now (\<lambda>t.
                          bindM (err_of (MarkProgressEventPublished (pe_ID event) (mg_MessageID message)
                              (message_date (gt_ns t) message))) (\<lambda>r. case r of
                              Some err \<Rightarrow>
                                bindM (err_of (CompensateSentMessage (ws_ChatID w) (mg_MessageID message)
                                    (Some (RequeueProgressEvent (pe_ID event))))) (\<lambda>compensateErr.
                                join_and_fail [Some err, compensateErr] (ret True))
                            | None \<Rightarrow> thenM (ClearDeliveryRetry ''progress'' (pe_ID event)) (ret True))))))) "

definition PublishPending :: "nat \<Rightarrow> unit io" where
  "PublishPending fuel = bindM current_now (\<lambda>now. loopM fuel (publish_round now))"

section \<open>Stale pending inputs\<close>

definition staleBatchSize :: nat where "staleBatchSize = 50"

fun delete_unseen :: "int \<Rightarrow> gotime \<Rightarrow> gotime \<Rightarrow> int list \<Rightarrow> int list \<Rightarrow> unit io" where
  "delete_unseen chatID sentAt nowUTC seen [] = ret ()"
| "delete_unseen chatID sentAt nowUTC seen (m # ms) =
     (if m = 0 \<or> m \<in> set seen then delete_unseen chatID sentAt nowUTC seen ms
      else thenM (DeleteBestEffort chatID m sentAt nowUTC)
        (delete_unseen chatID sentAt nowUTC (m # seen) ms))"

definition deletePendingMessages :: "int \<Rightarrow> payload \<Rightarrow> gotime \<Rightarrow> gotime \<Rightarrow> unit io" where
  "deletePendingMessages chatID payload sentAt nowUTC = delete_unseen chatID sentAt nowUTC []
     (payloadInt64 payload ''prompt_message_id'' # payloadInt64Slice payload ''user_message_ids'')"

definition cleanup_round :: "gotime \<Rightarrow> gotime \<Rightarrow> bool io" where
  "cleanup_round cutoff nowUTC = bindM (ListStalePendingInputContexts cutoff staleBatchSize) (\<lambda>items.
     if items = [] then ret False
     else thenM (for_each items (\<lambda>(p, w).
         bindM (ClaimStalePendingInput (pi_ID p) cutoff) (\<lambda>claimed. case claimed of
             None \<Rightarrow> ret ()
           | Some c \<Rightarrow> deletePendingMessages (ws_ChatID w) (pi_Payload c) (utc_time (pi_CreatedAt c)) nowUTC)))
       (ret (staleBatchSize \<le> length items)))"

definition CleanupStaleInputs :: "nat \<Rightarrow> gotime \<Rightarrow> unit io" where
  "CleanupStaleInputs fuel nowUTC =
     loopM fuel (cleanup_round (utc_time (gt_ns nowUTC - PendingInputMaxAge)) nowUTC)"

section \<open>Alerts\<close>

definition deferUnavailableAlert :: "int \<Rightarrow> gotime \<Rightarrow> bytes \<Rightarrow> unit io" where
  "deferUnavailableAlert i now reason =
     thenM (RecordDeliveryFailure ''alert'' i now reason False) (RequeueAlert i)"

definition participantUsername :: "participant \<Rightarrow> bytes" where
  "participantUsername p = (case pt_Username p of None \<Rightarrow> [] | Some n \<Rightarrow> n)"

fun alert_kind_str :: "alert_kind \<Rightarrow> bytes" where
  "alert_kind_str AlertDayClosedPendingReport = ''day_closed_pending_report''"
| "alert_kind_str AlertOverdueTaskFailed = ''overdue_task_failed''"

definition card_view :: "daily_task \<Rightarrow> bytes \<Rightarrow> bytes \<Rightarrow> bytes \<Rightarrow> view" where
  "card_view task displayName username extra =
     View ''FormatDailyTaskCard'' [VTask task, VStr displayName, VStr username, VStr extra]"

definition alert_view :: "daily_task_alert \<Rightarrow> daily_task \<Rightarrow> bytes \<Rightarrow> bytes \<Rightarrow> int \<Rightarrow> view" where
  "alert_view alert task displayName username userID = View ''DailyEntryAlertText''
     [VAlert (al_AlertKind alert), VKind (tk_Kind task), VStr displayName, VStr username, VInt userID,
      VStr (''daily-alert:'' @ show_int (al_ID alert) @ '':'' @ alert_kind_str (al_AlertKind alert))]"

text \<open>The rest of a round once the task, its participant and its workspace are known.\<close>

definition send_alert ::
    "gotime \<Rightarrow> daily_task_alert \<Rightarrow> daily_task \<Rightarrow> participant option \<Rightarrow> workspace \<Rightarrow> bool io" where
  "send_alert now alert task participant w =
     (let displayName = (case participant of Some p \<Rightarrow> pt_DisplayName p | None \<Rightarrow> []);
          username = (case participant of Some p \<Rightarrow> participantUsername p | None \<Rightarrow> []);
          userID = (case participant of Some p \<Rightarrow> pt_UserID p | None \<Rightarrow> tk_OwnerUserID task)
      in thenM (case tk_TodayCardMessageID task of
            Some cardID \<Rightarrow> whenM (al_AlertKind alert = AlertOverdueTaskFailed)
              (ignore (tgEditMessageText (edit_req (ws_ChatID w) cardID (card_view task displayName username [])
                (Some EmptyKeyboard))))
          | None \<Rightarrow> ret ())
         (bindM (attempt (GetTopicBinding (ws_ID w) TopicToday)) (\<lambda>rb. case rb of
             Inl err \<Rightarrow> thenM (ignore (RequeueAlert (al_ID alert))) (failM err)
           | Inr None \<Rightarrow> thenM (deferUnavailableAlert (al_ID alert) now ''Today topic missing'') (ret True)
           | Inr (Some topic) \<Rightarrow>
               bindM (attempt (tgSendMessage (PingMessage
                   ((send_req (ws_ChatID w) (tb_ThreadID topic) (alert_view alert task displayName username userID)
                       (Some (AlertKeyboard (tk_ID task) (al_ID alert))))
                     \<lparr>sm_ReplyToMessageID := opt0 (tk_TodayCardMessageID task)\<rparr>)))) (\<lambda>rm. case rm of
                   Inl err \<Rightarrow>
                     bindM (err_of (Defer ''alert'' (al_ID alert) now err)) (\<lambda>retryErr.
                     bindM (err_of (RequeueAlert (al_ID alert))) (\<lambda>requeueErr.
                     join_and_fail [retryErr, requeueErr] (ret True)))
                 | Inr message \<Rightarrow>
                     bindM (err_of (MarkAlertSent (al_ID alert) (mg_MessageID message))) (\<lambda>r. case r of
                         Some err \<Rightarrow>
                           bindM (err_of (CompensateSentMessage (ws_ChatID w) (mg_MessageID message)
                               (Some (RequeueAlert (al_ID alert))))) (\<lambda>compensateErr.
                           join_and_fail [Some err, compensateErr] (ret True))
                       | None \<Rightarrow> thenM (ClearDeliveryRetry ''alert'' (al_ID alert)) (ret True))))))"

definition alert_round :: "gotime \<Rightarrow> bool io" where
  "alert_round now = bindM ClaimPendingAlert (\<lambda>claimed. case claimed of
      None \<Rightarrow> ret False
    | Some alert \<Rightarrow>
        bindM (attempt (GetTask (al_DailyTaskID alert))) (\<lambda>rt. case rt of
            Inl err \<Rightarrow> thenM (ignore (RequeueAlert (al_ID alert))) (failM err)
          | Inr None \<Rightarrow> thenM (deferUnavailableAlert (al_ID alert) now ''daily task missing'') (ret True)
          | Inr (Some task) \<Rightarrow>
              bindM (attempt (GetParticipantByID (tk_ParticipantID task))) (\<lambda>rp. case rp of
                  Inl err \<Rightarrow> thenM (ignore (RequeueAlert (al_ID alert))) (failM err)
                | Inr participant \<Rightarrow>
                    bindM (attempt (GetWorkspaceByID (tk_WorkspaceGroupID task))) (\<lambda>rw. case rw of
                        Inl err \<Rightarrow> thenM (ignore (RequeueAlert (al_ID alert))) (failM err)
                      | Inr None \<Rightarrow> thenM (deferUnavailableAlert (al_ID alert) now ''workspace missing'') (ret True)
                      | Inr (Some w) \<Rightarrow> send_alert now alert task participant w))))"

definition DispatchAlerts :: "nat \<Rightarrow> unit io" where
  "DispatchAlerts fuel = bindM current_now (\<lambda>now. loopM fuel (alert_round now))"

section \<open>Lemmas\<close>

lemma sound_nested_case:
  "(\<And>e. sound (g e)) \<Longrightarrow> sound m \<Longrightarrow> (\<And>x. sound (f x)) \<Longrightarrow>
    sound (case s of Inl e \<Rightarrow> g e | Inr None \<Rightarrow> m | Inr (Some x) \<Rightarrow> f x)"
  by (simp split: sum.split option.split)

lemma sound_join_and_fail: "sound k \<Longrightarrow> sound (join_and_fail es k)"
  unfolding join_and_fail_def by (intro sound_rules)

lemma sound_publish_round: "sound (publish_round now)"
  unfolding publish_round_def
  by (intro sound_rules sound_nested_case sound_ops sound_join_and_fail)

lemma sound_PublishPending [sound_ops]: "sound (PublishPending n)"
  unfolding PublishPending_def by (intro sound_rules sound_ops sound_publish_round)

lemma sound_delete_unseen: "sound (delete_unseen c s n seen ms)"
  by (induction ms arbitrary: seen) (auto intro!: sound_rules sound_ops)

lemma sound_CleanupStaleInputs [sound_ops]: "sound (CleanupStaleInputs n now)"
  unfolding CleanupStaleInputs_def cleanup_round_def deletePendingMessages_def
  by (intro sound_rules sound_ops sound_delete_unseen)

lemma sound_deferUnavailableAlert [sound_ops]: "sound (deferUnavailableAlert i now r)"
  unfolding deferUnavailableAlert_def by (intro sound_rules sound_ops)

lemma sound_send_alert: "sound (send_alert now alert task p w)"
  unfolding send_alert_def Let_def
  by (intro sound_rules sound_nested_case sound_ops sound_join_and_fail)

lemma sound_DispatchAlerts [sound_ops]: "sound (DispatchAlerts n)"
  unfolding DispatchAlerts_def alert_round_def
  by (intro sound_rules sound_nested_case sound_ops sound_send_alert)

end
