(* ===== verification/GoFloat.thy ===== *)
theory GoFloat imports Models begin

text \<open>
  \<open>float64\<close> arithmetic on numbers that are not too large or too small for it: the exact result
  is rounded to 53 significant bits, a tie to the even neighbour. The leaderboard of the routines
  is ordered by such numbers.
\<close>

definition round_even :: "rat \<Rightarrow> int" where
  "round_even q = (let f = \<lfloor>q\<rfloor>; r = q - of_int f in if r < 1 / 2 \<or> r = 1 / 2 \<and> even f then f else f + 1)"

text \<open>The exponent \<open>e\<close> with \<open>2 ^ e \<le> q < 2 ^ (e + 1)\<close> of a positive number.\<close>

definition f64_exp :: "rat \<Rightarrow> int" where
  "f64_exp q = (case quotient_of q of (n, d) \<Rightarrow>
     (let k = int (bit_len (nat n)) - int (bit_len (nat d)) in if 2 powi k \<le> q then k else k - 1))"

definition f64_round :: "rat \<Rightarrow> rat" where
  "f64_round q = (if q = 0 then 0 else (let u = 2 powi (f64_exp \<bar>q\<bar> - 52) in of_int (round_even (q / u)) * u))"

definition f64_add :: "rat \<Rightarrow> rat \<Rightarrow> rat" where "f64_add x y = f64_round (x + y)"

definition f64_mul :: "rat \<Rightarrow> rat \<Rightarrow> rat" where "f64_mul x y = f64_round (x * y)"

definition f64_div :: "rat \<Rightarrow> rat \<Rightarrow> rat" where "f64_div x y = f64_round (x / y)"

end
