(* ===== verification/Store_Routines.thy ===== *)
theory Store_Routines imports Store_Today GoFloat begin

text \<open>
  \<open>internal/storage/postgres/routines.go\<close>: the routine plans of participants, the check-in made
  of a plan for each day, and the leaderboard. A check-in row holds its items; the reads of Go
  fetch the row and then its items with a second statement, and so do the definitions. A
  status is one of the three valid ones, so the \<open>IsValid\<close> guards are the type.
\<close>

record routine_plan_context =
  pc_Plan :: routine_plan
  pc_Workspace :: workspace
  pc_Participant :: participant

record routine_checkin_context =
  cc_Checkin :: routine_checkin
  cc_Workspace :: workspace
  cc_Participant :: participant

record routine_notice_context =
  nc_Checkin :: routine_checkin
  nc_Workspace :: workspace

text \<open>The rows a join by primary key adds to a row.\<close>

definition ws_by_id :: "db \<Rightarrow> int \<Rightarrow> workspace option" where
  "ws_by_id d i = first_where (\<lambda>w. ws_ID w = i) (db_workspaces d)"

definition pt_by_id :: "db \<Rightarrow> int \<Rightarrow> participant option" where
  "pt_by_id d i = first_where (\<lambda>p. pt_ID p = i) (db_participants d)"

section \<open>Plans\<close>

definition plan_of :: "int \<Rightarrow> int \<Rightarrow> routine_plan \<Rightarrow> bool" where
  "plan_of wid pid p \<longleftrightarrow> rp_WorkspaceGroupID p = wid \<and> rp_ParticipantID p = pid"

definition sql_UpsertRoutinePlan ::
    "int \<Rightarrow> int \<Rightarrow> int \<Rightarrow> bytes list \<Rightarrow> int \<Rightarrow> int \<Rightarrow> routine_plan sql" where
  "sql_UpsertRoutinePlan wid pid owner items source thread now d =
     (let d1 = take_id TPlans d in
      case first_where (plan_of wid pid) (db_plans d) of
        None \<Rightarrow>
          if ws_by_id d wid = None \<or> pt_by_id d pid = None then None
          else (let p = \<lparr>rp_ID = next_id TPlans d, rp_WorkspaceGroupID = wid, rp_ParticipantID = pid,
                  rp_OwnerUserID = owner, rp_Items = items, rp_SourceMessageID = nullif0 source,
                  rp_SourceMessageThreadID = nullif0 thread, rp_CreatedAt = now, rp_UpdatedAt = now\<rparr>
            in Some (p, d1\<lparr>db_plans := db_plans d @ [p]\<rparr>))
      | Some p0 \<Rightarrow>
          (let upd = (\<lambda>p. p\<lparr>rp_OwnerUserID := owner, rp_Items := items, rp_SourceMessageID := nullif0 source,
                 rp_SourceMessageThreadID := nullif0 thread, rp_UpdatedAt := now\<rparr>)
           in Some (upd p0, d1\<lparr>db_plans := upd_where (plan_of wid pid) upd (db_plans d)\<rparr>)))"

definition UpsertRoutinePlan :: "int \<Rightarrow> int \<Rightarrow> int \<Rightarrow> bytes list \<Rightarrow> int \<Rightarrow> int \<Rightarrow> routine_plan io" where
  "UpsertRoutinePlan wid pid owner items source thread = stmt (sql_UpsertRoutinePlan wid pid owner items source thread)"

definition GetRoutinePlan :: "int \<Rightarrow> int \<Rightarrow> routine_plan option io" where
  "GetRoutinePlan wid pid = query (\<lambda>d. first_where (plan_of wid pid) (db_plans d))"

definition plan_context :: "db \<Rightarrow> routine_plan \<Rightarrow> routine_plan_context option" where
  "plan_context d p = (case (ws_by_id d (rp_WorkspaceGroupID p), pt_by_id d (rp_ParticipantID p)) of
      (Some w, Some q) \<Rightarrow> if pt_IsActive q then Some \<lparr>pc_Plan = p, pc_Workspace = w, pc_Participant = q\<rparr> else None
    | _ \<Rightarrow> None)"

definition ListRoutinePlanContexts :: "routine_plan_context list io" where
  "ListRoutinePlanContexts = query (\<lambda>d. List.map_filter (plan_context d) (sort_key rp_ID (db_plans d)))"

section \<open>Check-ins\<close>

definition ListRoutineCheckinItems :: "int \<Rightarrow> routine_checkin_item list io" where
  "ListRoutineCheckinItems i = query (\<lambda>d. case first_where (\<lambda>c. rc_ID c = i) (db_checkins d) of
      None \<Rightarrow> [] | Some c \<Rightarrow> sort_key ri_ItemIndex (rc_Items c))"

definition scan_checkin :: "routine_checkin \<Rightarrow> routine_checkin" where "scan_checkin c = c\<lparr>rc_Items := []\<rparr>"

definition with_items :: "routine_checkin option \<Rightarrow> routine_checkin option io" where
  "with_items found = (case found of None \<Rightarrow> ret None
     | Some c \<Rightarrow> bindM (ListRoutineCheckinItems (rc_ID c)) (\<lambda>items. ret (Some (c\<lparr>rc_Items := items\<rparr>))))"

definition GetRoutineCheckin :: "int \<Rightarrow> routine_checkin option io" where
  "GetRoutineCheckin i = bindM (query (\<lambda>d. map_option scan_checkin (first_where (\<lambda>c. rc_ID c = i) (db_checkins d))))
     with_items"

definition checkin_on :: "int \<Rightarrow> int \<Rightarrow> int \<Rightarrow> routine_checkin \<Rightarrow> bool" where
  "checkin_on wid pid day c \<longleftrightarrow> rc_WorkspaceGroupID c = wid \<and> rc_ParticipantID c = pid \<and> rc_CheckinDate c = day"

definition GetRoutineCheckinForDate :: "int \<Rightarrow> int \<Rightarrow> gotime \<Rightarrow> routine_checkin option io" where
  "GetRoutineCheckinForDate wid pid checkinDate =
     bindM (query (\<lambda>d. map_option scan_checkin (first_where (checkin_on wid pid (t_day checkinDate)) (db_checkins d))))
       with_items"

definition checkin_context :: "db \<Rightarrow> routine_checkin \<Rightarrow> routine_checkin_context option" where
  "checkin_context d c = (case (ws_by_id d (rc_WorkspaceGroupID c), pt_by_id d (rc_ParticipantID c)) of
      (Some w, Some q) \<Rightarrow> Some \<lparr>cc_Checkin = scan_checkin c, cc_Workspace = w, cc_Participant = q\<rparr>
    | _ \<Rightarrow> None)"

text \<open>The items are fetched one check-in after the other.\<close>

definition scanRoutineCheckinContexts :: "routine_checkin_context list \<Rightarrow> routine_checkin_context list io" where
  "scanRoutineCheckinContexts = mapM (\<lambda>x. bindM (ListRoutineCheckinItems (rc_ID (cc_Checkin x)))
     (\<lambda>items. ret (x\<lparr>cc_Checkin := (cc_Checkin x)\<lparr>rc_Items := items\<rparr>\<rparr>)))"

definition by_date_id :: "routine_checkin list \<Rightarrow> routine_checkin list" where
  "by_date_id cs = sort_key rc_CheckinDate (sort_key rc_ID cs)"

definition ListOpenRoutineCheckinContexts :: "routine_checkin_context list io" where
  "ListOpenRoutineCheckinContexts =
     bindM (query (\<lambda>d. filter (\<lambda>x. pt_IsActive (cc_Participant x)) (List.map_filter (checkin_context d)
         (by_date_id (filter (\<lambda>c. rc_CompletedAt c = None) (db_checkins d))))))
       scanRoutineCheckinContexts"

definition notice_pending :: "int \<Rightarrow> db \<Rightarrow> routine_checkin \<Rightarrow> bool" where
  "notice_pending now d c \<longleftrightarrow> rc_AutoFailedAt c \<noteq> None \<and> rc_AutoCloseNoticeMessageID c = None
     \<and> rc_AutoCloseNoticeSentAt c = None \<and> rc_CardMessageThreadID c \<noteq> None
     \<and> \<not> retry_blocked ''routine_close'' (rc_ID c) now d"

definition ClaimPendingRoutineAutoCloseNoticeContext :: "routine_checkin_context option io" where
  "ClaimPendingRoutineAutoCloseNoticeContext =
     bindM (stmt (\<lambda>now d. Some (List.map_filter (checkin_context d)
         (take 1 (by_date_id (filter (notice_pending now d) (db_checkins d)))), d)))
       (\<lambda>rows. bindM (scanRoutineCheckinContexts rows)
         (\<lambda>items. ret (case items of [] \<Rightarrow> None | x # _ \<Rightarrow> Some x)))"

definition new_checkin :: "int \<Rightarrow> routine_plan \<Rightarrow> int \<Rightarrow> int \<Rightarrow> routine_checkin" where
  "new_checkin i plan day now = \<lparr>rc_ID = i, rc_WorkspaceGroupID = rp_WorkspaceGroupID plan,
     rc_ParticipantID = rp_ParticipantID plan, rc_OwnerUserID = rp_OwnerUserID plan, rc_CheckinDate = day,
     rc_SourceMessageID = nullif0 (opt0 (rp_SourceMessageID plan)),
     rc_SourceMessageThreadID = nullif0 (opt0 (rp_SourceMessageThreadID plan)), rc_CardMessageID = None,
     rc_CardMessageThreadID = None, rc_ReminderMessageID = None, rc_AutoCloseNoticeMessageID = None,
     rc_ReflectionText = None, rc_CreatedAt = now, rc_UpdatedAt = now, rc_ReminderSentAt = None,
     rc_AutoCloseNoticeSentAt = None, rc_CompletedAt = None, rc_AutoFailedAt = None, rc_Items = []\<rparr>"

definition sql_insert_checkin :: "routine_plan \<Rightarrow> int \<Rightarrow> routine_checkin option sql" where
  "sql_insert_checkin plan day now d =
     (let d1 = take_id TCheckins d in
      if list_ex (checkin_on (rp_WorkspaceGroupID plan) (rp_ParticipantID plan) day) (db_checkins d)
      then Some (None, d1)
      else if ws_by_id d (rp_WorkspaceGroupID plan) = None \<or> pt_by_id d (rp_ParticipantID plan) = None then None
      else (let c = new_checkin (next_id TCheckins d) plan day now
        in Some (Some c, d1\<lparr>db_checkins := db_checkins d @ [c]\<rparr>)))"

definition new_item :: "int \<Rightarrow> int \<Rightarrow> int \<Rightarrow> bytes \<Rightarrow> int \<Rightarrow> routine_checkin_item" where
  "new_item i cid index text now = \<lparr>ri_ID = i, ri_RoutineCheckinID = cid, ri_ItemIndex = index, ri_Text = text,
     ri_Status = None, ri_ReasonText = None, ri_CreatedAt = now, ri_UpdatedAt = now\<rparr>"

definition insert_item :: "routine_checkin_item \<Rightarrow> routine_checkin \<Rightarrow> routine_checkin" where
  "insert_item it c = (if list_ex (\<lambda>i. ri_ItemIndex i = ri_ItemIndex it) (rc_Items c) then c
     else c\<lparr>rc_Items := rc_Items c @ [it]\<rparr>)"

definition sql_insert_item :: "int \<Rightarrow> int \<Rightarrow> bytes \<Rightarrow> unit sql" where
  "sql_insert_item cid index text now d =
     (if \<not> list_ex (\<lambda>c. rc_ID c = cid) (db_checkins d) then None
      else Some ((), (take_id TItems d)\<lparr>db_checkins := upd_where (\<lambda>c. rc_ID c = cid)
        (insert_item (new_item (next_id TItems d) cid index text now)) (db_checkins d)\<rparr>))"

text \<open>The zero struct.\<close>

definition checkin0 :: routine_checkin where
  "checkin0 = \<lparr>rc_ID = 0, rc_WorkspaceGroupID = 0, rc_ParticipantID = 0, rc_OwnerUserID = 0,
     rc_CheckinDate = t_day zero_time, rc_SourceMessageID = None, rc_SourceMessageThreadID = None,
     rc_CardMessageID = None, rc_CardMessageThreadID = None, rc_ReminderMessageID = None,
     rc_AutoCloseNoticeMessageID = None, rc_ReflectionText = None, rc_CreatedAt = zero_ns, rc_UpdatedAt = zero_ns,
     rc_ReminderSentAt = None, rc_AutoCloseNoticeSentAt = None, rc_CompletedAt = None, rc_AutoFailedAt = None,
     rc_Items = []\<rparr>"

definition GetOrCreateRoutineCheckin :: "routine_plan \<Rightarrow> gotime \<Rightarrow> routine_checkin io" where
  "GetOrCreateRoutineCheckin plan checkinDate =
     bindM (stmt (sql_insert_checkin plan (t_day checkinDate))) (\<lambda>row. case row of
        None \<Rightarrow> bindM (GetRoutineCheckinForDate (rp_WorkspaceGroupID plan) (rp_ParticipantID plan) checkinDate)
          (\<lambda>existing. case existing of None \<Rightarrow> failM (DbError ''no rows in result set'') | Some c \<Rightarrow> ret c)
      | Some c \<Rightarrow>
          thenM (for_each (zip [0..int (length (rp_Items plan)) - 1] (rp_Items plan))
              (\<lambda>(index, text). stmt (sql_insert_item (rc_ID c) index text)))
            (bindM (GetRoutineCheckin (rc_ID c)) (\<lambda>r. ret (case r of None \<Rightarrow> checkin0 | Some c' \<Rightarrow> c'))))"

text \<open>Updates of one check-in.\<close>

definition upd_checkins :: "(routine_checkin \<Rightarrow> bool) \<Rightarrow> (int \<Rightarrow> routine_checkin \<Rightarrow> routine_checkin) \<Rightarrow> int io" where
  "upd_checkins p f = stmt (\<lambda>now d. Some (int (n_where p (db_checkins d)),
     d\<lparr>db_checkins := upd_where p (f now) (db_checkins d)\<rparr>))"

definition set_checkin :: "int \<Rightarrow> (routine_checkin \<Rightarrow> routine_checkin) \<Rightarrow> unit io" where
  "set_checkin i f = thenM (upd_checkins (\<lambda>c. rc_ID c = i) (\<lambda>now c. (f c)\<lparr>rc_UpdatedAt := now\<rparr>)) (ret ())"

definition SetRoutineCheckinCardMessageID :: "int \<Rightarrow> int \<Rightarrow> int \<Rightarrow> unit io" where
  "SetRoutineCheckinCardMessageID i messageID threadID =
     set_checkin i (\<lambda>c. c\<lparr>rc_CardMessageID := Some messageID, rc_CardMessageThreadID := Some threadID\<rparr>)"

definition SetRoutineCheckinReminderMessageID :: "int \<Rightarrow> int \<Rightarrow> gotime \<Rightarrow> unit io" where
  "SetRoutineCheckinReminderMessageID i messageID now =
     set_checkin i (\<lambda>c. c\<lparr>rc_ReminderMessageID := Some messageID, rc_ReminderSentAt := Some (gt_ns now)\<rparr>)"

definition ClearRoutineCheckinReminderMessageID :: "int \<Rightarrow> unit io" where
  "ClearRoutineCheckinReminderMessageID i = set_checkin i (\<lambda>c. c\<lparr>rc_ReminderMessageID := None\<rparr>)"

definition SetRoutineCheckinAutoCloseNoticeMessageID :: "int \<Rightarrow> int \<Rightarrow> gotime \<Rightarrow> unit io" where
  "SetRoutineCheckinAutoCloseNoticeMessageID i messageID now =
     set_checkin i (\<lambda>c. c\<lparr>rc_AutoCloseNoticeMessageID := Some messageID, rc_AutoCloseNoticeSentAt := Some (gt_ns now)\<rparr>)"

definition ClearRoutineCheckinAutoCloseNoticeMessageID :: "int \<Rightarrow> unit io" where
  "ClearRoutineCheckinAutoCloseNoticeMessageID i = set_checkin i (\<lambda>c. c\<lparr>rc_AutoCloseNoticeMessageID := None\<rparr>)"

definition notice_expired :: "int \<Rightarrow> routine_checkin \<Rightarrow> bool" where
  "notice_expired cutoff c \<longleftrightarrow>
     rc_ReminderMessageID c \<noteq> None \<and> (case rc_ReminderSentAt c of None \<Rightarrow> False | Some t \<Rightarrow> t \<le> cutoff)
     \<or> rc_AutoCloseNoticeMessageID c \<noteq> None \<and> (case rc_AutoCloseNoticeSentAt c of None \<Rightarrow> False | Some t \<Rightarrow> t \<le> cutoff)"

definition notice_context :: "db \<Rightarrow> routine_checkin \<Rightarrow> routine_notice_context option" where
  "notice_context d c = map_option (\<lambda>w. \<lparr>nc_Checkin = scan_checkin c, nc_Workspace = w\<rparr>) (ws_by_id d (rc_WorkspaceGroupID c))"

definition ListExpiredRoutineNoticeContexts :: "gotime \<Rightarrow> routine_notice_context list io" where
  "ListExpiredRoutineNoticeContexts cutoff = query (\<lambda>d. List.map_filter (notice_context d)
     (sort_key rc_ID (filter (notice_expired (gt_ns cutoff)) (db_checkins d))))"

definition fail_open_items :: "int \<Rightarrow> routine_checkin \<Rightarrow> routine_checkin" where
  "fail_open_items now c = c\<lparr>rc_Items := upd_where (\<lambda>i. ri_Status i = None)
     (\<lambda>i. i\<lparr>ri_Status := Some RoutineItemFailed, ri_UpdatedAt := now\<rparr>) (rc_Items c)\<rparr>"

definition coalesce :: "'a option \<Rightarrow> 'a \<Rightarrow> 'a option" where
  "coalesce v x = (case v of None \<Rightarrow> Some x | Some y \<Rightarrow> Some y)"

definition AutoFailRoutineCheckin :: "int \<Rightarrow> gotime \<Rightarrow> routine_checkin option io" where
  "AutoFailRoutineCheckin i now =
     thenM (upd_checkins (\<lambda>c. rc_ID c = i) fail_open_items)
       (bindM (upd_checkins (\<lambda>c. rc_ID c = i \<and> rc_CompletedAt c = None)
            (\<lambda>n c. c\<lparr>rc_CompletedAt := coalesce (rc_CompletedAt c) (gt_ns now),
               rc_AutoFailedAt := coalesce (rc_AutoFailedAt c) (gt_ns now), rc_UpdatedAt := n\<rparr>))
         (\<lambda>n. if n = 0 then ret None else GetRoutineCheckin i))"

definition open_item :: "int \<Rightarrow> int \<Rightarrow> int \<Rightarrow> routine_checkin \<Rightarrow> routine_checkin_item \<Rightarrow> bool" where
  "open_item i owner index c it \<longleftrightarrow> rc_ID c = i \<and> rc_OwnerUserID c = owner \<and> ri_ItemIndex it = index
     \<and> rc_CompletedAt c = None"

definition SetRoutineCheckinItemStatus ::
    "int \<Rightarrow> int \<Rightarrow> int \<Rightarrow> routine_item_status \<Rightarrow> bytes option \<Rightarrow> routine_checkin option io" where
  "SetRoutineCheckinItemStatus i owner index status reason =
     bindM (stmt (\<lambda>now d. Some (sum_list (map (\<lambda>c. n_where (open_item i owner index c) (rc_Items c)) (db_checkins d)),
         d\<lparr>db_checkins := map (\<lambda>c. c\<lparr>rc_Items := upd_where (open_item i owner index c)
           (\<lambda>it. it\<lparr>ri_Status := Some status, ri_ReasonText := reason, ri_UpdatedAt := now\<rparr>) (rc_Items c)\<rparr>)
           (db_checkins d)\<rparr>)))
       (\<lambda>n. if n = 0 then ret None else GetRoutineCheckin i)"

definition missing_statuses :: "int \<Rightarrow> int \<Rightarrow> db \<Rightarrow> nat" where
  "missing_statuses i owner d = sum_list (map (\<lambda>c. n_where (\<lambda>it. ri_Status it = None) (rc_Items c))
     (filter (\<lambda>c. rc_ID c = i \<and> rc_OwnerUserID c = owner) (db_checkins d)))"

definition CompleteRoutineCheckinWithoutReflection :: "int \<Rightarrow> int \<Rightarrow> routine_checkin option io" where
  "CompleteRoutineCheckinWithoutReflection i owner =
     bindM (query (missing_statuses i owner)) (\<lambda>missing. if 0 < missing then ret None
       else bindM (upd_checkins (\<lambda>c. rc_ID c = i \<and> rc_OwnerUserID c = owner)
           (\<lambda>now c. c\<lparr>rc_CompletedAt := coalesce (rc_CompletedAt c) now, rc_UpdatedAt := now\<rparr>))
         (\<lambda>n. if n = 0 then ret None else GetRoutineCheckin i))"

section \<open>The leaderboard\<close>

text \<open>Whether every item has its status, and whether the day continues a streak.\<close>

fun items_streak_state :: "routine_checkin_item list \<Rightarrow> bool \<times> bool" where
  "items_streak_state [] = (True, True)"
| "items_streak_state (it # its) = (case ri_Status it of
      None \<Rightarrow> (False, False)
    | Some RoutineItemFailed \<Rightarrow> (True, False)
    | Some _ \<Rightarrow> items_streak_state its)"

definition routineCheckinStreakState :: "routine_checkin \<Rightarrow> bool \<times> bool" where
  "routineCheckinStreakState c = (if rc_Items c = [] then (False, False) else items_streak_state (rc_Items c))"

text \<open>The loop over the check-ins with \<open>currentRun\<close>, \<open>maxStreak\<close> and \<open>previousResolved\<close>.\<close>

fun streak_loop :: "routine_checkin list \<Rightarrow> int \<Rightarrow> int \<Rightarrow> gotime \<Rightarrow> int \<times> int" where
  "streak_loop [] run best prev = (run, best)"
| "streak_loop (c # cs) run best prev = (let (resolved, goes_on) = routineCheckinStreakState c in
     if \<not> resolved then streak_loop cs run best prev
     else (let day = date_time (rc_CheckinDate c);
               run = (if \<not> t_is_zero prev \<and> 24 * ns_per_hour < t_sub day prev then 0 else run);
               run = (if goes_on then run + 1 else 0)
           in streak_loop cs run (if best < run then run else best) day))"

definition routineStreaks :: "routine_checkin list \<Rightarrow> int \<times> int" where
  "routineStreaks cs = streak_loop (sort_key rc_CheckinDate cs) 0 0 zero_time"

definition routineCheckinScore :: "routine_checkin \<Rightarrow> rat" where
  "routineCheckinScore c = (if rc_Items c = [] then 0
     else f64_div (fold (\<lambda>it total. case ri_Status it of None \<Rightarrow> total | Some s \<Rightarrow> f64_add total (RoutineScore s))
         (rc_Items c) 0) (of_nat (length (rc_Items c))))"

definition routineCompletionRate :: "routine_checkin list \<Rightarrow> gotime \<Rightarrow> rat" where
  "routineCompletionRate cs now =
     (let t = t_civil now; from_day = add_days (mk_date (cy t) (cm t) (cd t) 0 utc) (-6);
          recent = filter (\<lambda>c. \<not> t_before (date_time (rc_CheckinDate c)) from_day) cs;
          total = fold (\<lambda>c total. f64_add total (routineCheckinScore c)) recent 0
      in if recent = [] then 0 else f64_mul (f64_div total (of_nat (length recent))) 100)"

definition latestRoutineItemCount :: "routine_checkin list \<Rightarrow> int" where
  "latestRoutineItemCount cs = (if cs = [] then 0 else int (length (rc_Items (last (sort_key rc_CheckinDate cs)))))"

definition leaderboard_entry :: "gotime \<Rightarrow> participant \<Rightarrow> routine_checkin list \<Rightarrow> leaderboard_entry" where
  "leaderboard_entry now p cs = (let (current, best) = routineStreaks cs in
     \<lparr>le_Participant = p, le_CurrentStreak = current, le_MaxStreak = best,
      le_CompletionRate = routineCompletionRate cs now, le_RoutineItemCount = latestRoutineItemCount cs\<rparr>)"

text \<open>Strings are compared by their bytes.\<close>

fun bytes_less :: "bytes \<Rightarrow> bytes \<Rightarrow> bool" where
  "bytes_less [] ys = (ys \<noteq> [])"
| "bytes_less (x # xs) [] = False"
| "bytes_less (x # xs) (y # ys) = ((of_char x :: nat) < of_char y \<or> x = y \<and> bytes_less xs ys)"

definition entry_before :: "leaderboard_entry \<Rightarrow> leaderboard_entry \<Rightarrow> bool" where
  "entry_before a b =
     (if le_CompletionRate a \<noteq> le_CompletionRate b then le_CompletionRate b < le_CompletionRate a
      else if le_CurrentStreak a \<noteq> le_CurrentStreak b then le_CurrentStreak b < le_CurrentStreak a
      else if le_MaxStreak a \<noteq> le_MaxStreak b then le_MaxStreak b < le_MaxStreak a
      else if le_RoutineItemCount a \<noteq> le_RoutineItemCount b then le_RoutineItemCount b < le_RoutineItemCount a
      else bytes_less (pt_DisplayName (le_Participant a)) (pt_DisplayName (le_Participant b)))"

text \<open>
  \<open>sort.Slice\<close> over the entries of a Go map: entries the comparison does not separate come in no
  fixed order; here the participant with the smaller id comes first.
\<close>

fun insert_entry :: "leaderboard_entry \<Rightarrow> leaderboard_entry list \<Rightarrow> leaderboard_entry list" where
  "insert_entry e [] = [e]"
| "insert_entry e (x # xs) = (if entry_before x e then x # insert_entry e xs else e # x # xs)"

definition GetRoutineLeaderboard :: "int \<Rightarrow> gotime \<Rightarrow> leaderboard_entry list io" where
  "GetRoutineLeaderboard wid now =
     bindM (query (\<lambda>d. sort_key (\<lambda>(c, p). pt_ID p) (sort_key (\<lambda>(c, p). rc_CheckinDate c)
         (List.map_filter (\<lambda>c. map_option (\<lambda>p. (scan_checkin c, p)) (pt_by_id d (rc_ParticipantID c)))
           (filter (\<lambda>c. rc_WorkspaceGroupID c = wid) (db_checkins d))))))
       (\<lambda>rows. bindM (mapM (\<lambda>(c, p). bindM (ListRoutineCheckinItems (rc_ID c))
           (\<lambda>items. ret (c\<lparr>rc_Items := items\<rparr>, p))) rows)
         (\<lambda>records. ret (foldr insert_entry
            (map (\<lambda>p. leaderboard_entry now p (map fst (filter (\<lambda>(c, q). pt_ID q = pt_ID p) records)))
              (remdups (map snd records))) [])))"

section \<open>Lemmas\<close>

lemma ws_by_id_Some: "ws_by_id d i \<noteq> None \<longleftrightarrow> ws_ref d i"
  unfolding ws_by_id_def ws_ref_def using first_where_None [of "\<lambda>w. ws_ID w = i" "db_workspaces d"] by (simp del: not_None_eq)

lemma pt_by_id_Some: "pt_by_id d i \<noteq> None \<longleftrightarrow> pt_ref d i"
  unfolding pt_by_id_def pt_ref_def using first_where_None [of "\<lambda>w. pt_ID w = i" "db_participants d"] by (simp del: not_None_eq)

lemma take_id_refs:
  "ws_ref (take_id t d) = ws_ref d" "pt_ref (take_id t d) = pt_ref d" "gs_ref (take_id t d) = gs_ref d"
  "db_seq (take_id t d) t = db_seq d t + 1"
  by (simp_all add: take_id_def next_id_def ws_ref_def pt_ref_def gs_ref_def fun_eq_iff)

lemma schema_seq_nonneg: "schema d \<Longrightarrow> 0 \<le> db_seq d t"
  by (simp add: schema_def schema_keys_def)

lemma rows_step_map: "(\<And>r. rel r (f r)) \<Longrightarrow> rows_step rel rs (map f rs)"
  by (auto simp: rows_step_def)

lemma checkins_schema:
  assumes "schema d" and "ids_ok rc_ID (db_seq d TCheckins) cs"
    and "uniq (\<lambda>c. (rc_WorkspaceGroupID c, rc_ParticipantID c, rc_CheckinDate c)) cs"
    and "\<And>c. c \<in> set cs \<Longrightarrow> ws_ref d (rc_WorkspaceGroupID c) \<and> pt_ref d (rc_ParticipantID c) \<and> checkin_ok c"
  shows "schema (d\<lparr>db_checkins := cs\<rparr>)"
  using assms unfolding schema_defs plans_defs gs_ref_def by simp

lemma checkins_schemaD:
  assumes "schema d"
  shows "ids_ok rc_ID (db_seq d TCheckins) (db_checkins d)"
    and "uniq (\<lambda>c. (rc_WorkspaceGroupID c, rc_ParticipantID c, rc_CheckinDate c)) (db_checkins d)"
    and "c \<in> set (db_checkins d) \<Longrightarrow> ws_ref d (rc_WorkspaceGroupID c) \<and> pt_ref d (rc_ParticipantID c) \<and> checkin_ok c"
  using assms unfolding schema_def plans_defs by simp_all

lemma map_checkins_step:
  assumes "\<And>c. checkin_rel c (f c)" and "\<And>c. checkin_ok c \<Longrightarrow> checkin_ok (f c)"
  shows "db_step d (d\<lparr>db_checkins := map f (db_checkins d)\<rparr>)"
proof (rule db_step_same_seq)
  assume d: "schema d"
  have key: "rc_ID (f c) = rc_ID c" "rc_WorkspaceGroupID (f c) = rc_WorkspaceGroupID c"
    "rc_ParticipantID (f c) = rc_ParticipantID c" "rc_CheckinDate (f c) = rc_CheckinDate c" for c
    using assms(1) [of c] by (simp_all add: checkin_rel_def)
  have "schema (d\<lparr>db_checkins := map f (db_checkins d)\<rparr>)"
    using checkins_schemaD [OF d] assms(2)
    by (intro checkins_schema d) (auto simp: ids_ok_def uniq_def comp_def key)
  then show "schema (d\<lparr>db_checkins := map f (db_checkins d)\<rparr>) \<and> history d (d\<lparr>db_checkins := map f (db_checkins d)\<rparr>)"
    using assms(1) by (simp add: history_def plans_history_def rows_step_refl row_rel_refl rows_step_map)
qed simp

lemma upd_checkins_step:
  assumes "\<And>c. p c \<Longrightarrow> checkin_rel c (f c)" and "\<And>c. p c \<Longrightarrow> checkin_ok c \<Longrightarrow> checkin_ok (f c)"
  shows "db_step d (d\<lparr>db_checkins := upd_where p f (db_checkins d)\<rparr>)"
  unfolding upd_where_def using assms by (intro map_checkins_step) (simp_all add: checkin_rel_refl)

lemma sound_upd_checkins:
  "(\<And>now c. p c \<Longrightarrow> checkin_rel c (f now c)) \<Longrightarrow> (\<And>now c. p c \<Longrightarrow> checkin_ok c \<Longrightarrow> checkin_ok (f now c)) \<Longrightarrow>
   sound (upd_checkins p f)"
  unfolding upd_checkins_def by (rule sound_stmt) (use upd_checkins_step in auto)

lemma sound_routine_reads [sound_ops]:
  "sound (GetRoutinePlan wid pid)" "sound ListRoutinePlanContexts" "sound (ListRoutineCheckinItems i)"
  "sound (ListExpiredRoutineNoticeContexts t)"
  unfolding GetRoutinePlan_def ListRoutinePlanContexts_def ListRoutineCheckinItems_def
    ListExpiredRoutineNoticeContexts_def
  by (intro sound_rules)+

lemma sound_with_items [sound_ops]: "sound (with_items x)"
  unfolding with_items_def by (intro sound_rules sound_ops)

lemma sound_scan_contexts [sound_ops]: "sound (scanRoutineCheckinContexts xs)"
  unfolding scanRoutineCheckinContexts_def by (intro sound_rules sound_ops)

lemma sound_checkin_reads [sound_ops]:
  "sound (GetRoutineCheckin i)" "sound (GetRoutineCheckinForDate wid pid t)" "sound ListOpenRoutineCheckinContexts"
  "sound ClaimPendingRoutineAutoCloseNoticeContext" "sound (GetRoutineLeaderboard wid t)"
  unfolding GetRoutineCheckin_def GetRoutineCheckinForDate_def ListOpenRoutineCheckinContexts_def
    ClaimPendingRoutineAutoCloseNoticeContext_def GetRoutineLeaderboard_def
  by (intro sound_rules sound_ops | (rule sound_stmt, simp add: stp.same))+

lemma sound_set_checkin:
  assumes "\<And>c. checkin_rel c (f c)" and "\<And>c. rc_Items (f c) = rc_Items c"
    and "\<And>c. rc_AutoFailedAt (f c) = rc_AutoFailedAt c" and "\<And>c. rc_CompletedAt (f c) = rc_CompletedAt c"
  shows "sound (set_checkin i f)"
  unfolding set_checkin_def
  by (intro sound_rules sound_upd_checkins) (use assms in \<open>auto simp: checkin_rel_def checkin_ok_def\<close>)

lemma sound_checkin_sets [sound_ops]:
  "sound (SetRoutineCheckinCardMessageID i m t)" "sound (SetRoutineCheckinReminderMessageID i m n)"
  "sound (ClearRoutineCheckinReminderMessageID i)" "sound (SetRoutineCheckinAutoCloseNoticeMessageID i m n)"
  "sound (ClearRoutineCheckinAutoCloseNoticeMessageID i)"
  unfolding SetRoutineCheckinCardMessageID_def SetRoutineCheckinReminderMessageID_def
    ClearRoutineCheckinReminderMessageID_def SetRoutineCheckinAutoCloseNoticeMessageID_def
    ClearRoutineCheckinAutoCloseNoticeMessageID_def
  by (rule sound_set_checkin; simp add: checkin_rel_def rows_step_refl item_rel_refl)+

lemma uniq_upd_items: "uniq ri_ItemIndex its \<Longrightarrow> (\<And>i. p i \<Longrightarrow> ri_ItemIndex (f i) = ri_ItemIndex i) \<Longrightarrow>
    uniq ri_ItemIndex (upd_where p f its)"
  by (rule uniq_upd)

lemma sound_AutoFail [sound_ops]: "sound (AutoFailRoutineCheckin i now)"
  unfolding AutoFailRoutineCheckin_def
  by (intro sound_rules sound_ops sound_upd_checkins)
    (auto simp: checkin_rel_def checkin_ok_def fail_open_items_def item_rel_def coalesce_def
      intro!: rows_step_upd rows_step_refl uniq_upd split: option.split)

lemma sound_SetItemStatus [sound_ops]: "sound (SetRoutineCheckinItemStatus i o' k st r)"
  unfolding SetRoutineCheckinItemStatus_def
proof (intro sound_rules sound_ops sound_stmt)
  fix now n and d d' :: db
  assume "Some (sum_list (map (\<lambda>c. n_where (open_item i o' k c) (rc_Items c)) (db_checkins d)),
      d\<lparr>db_checkins := map (\<lambda>c. c\<lparr>rc_Items := upd_where (open_item i o' k c)
        (\<lambda>it. it\<lparr>ri_Status := Some st, ri_ReasonText := r, ri_UpdatedAt := now\<rparr>) (rc_Items c)\<rparr>) (db_checkins d)\<rparr>) = Some (n, d')"
  then have d': "d' = d\<lparr>db_checkins := map (\<lambda>c. c\<lparr>rc_Items := upd_where (open_item i o' k c)
        (\<lambda>it. it\<lparr>ri_Status := Some st, ri_ReasonText := r, ri_UpdatedAt := now\<rparr>) (rc_Items c)\<rparr>) (db_checkins d)\<rparr>"
    by simp
  show "db_step d d'"
    unfolding d'
    by (rule map_checkins_step)
      (auto simp: checkin_rel_def checkin_ok_def item_rel_def open_item_def intro!: rows_step_upd uniq_upd)
qed

lemma sound_Complete [sound_ops]: "sound (CompleteRoutineCheckinWithoutReflection i o')"
  unfolding CompleteRoutineCheckinWithoutReflection_def
  by (intro sound_rules sound_ops sound_upd_checkins)
    (auto simp: checkin_rel_def checkin_ok_def coalesce_def item_rel_refl intro!: rows_step_refl split: option.split)

lemma sound_insert_item: "sound (stmt (sql_insert_item cid k x))"
proof (rule sound_stmt)
  fix now d u d'
  assume run: "sql_insert_item cid k x now d = Some (u, d')"
  let ?it = "new_item (next_id TItems d) cid k x now"
  have d': "d' = (take_id TItems d)\<lparr>db_checkins := upd_where (\<lambda>c. rc_ID c = cid) (insert_item ?it) (db_checkins (take_id TItems d))\<rparr>"
    using run by (auto simp: sql_insert_item_def split: if_splits)
  have "db_step (take_id TItems d) d'"
    unfolding d'
    by (rule upd_checkins_step)
      (auto simp: insert_item_def checkin_rel_def checkin_ok_def list_ex_iff
        intro!: rows_step_refl item_rel_refl rows_step_append uniq_append)
  moreover have "db_step d (take_id TItems d)"
    by (intro db_step_I schema_take_id) (simp_all add: history_same_tables)
  ultimately show "db_step d d'" by (rule stp.step [rotated])
qed

lemma sound_insert_checkin: "sound (stmt (sql_insert_checkin plan day))"
proof (rule sound_stmt)
  fix now d x d'
  assume run: "sql_insert_checkin plan day now d = Some (x, d')"
  let ?c = "new_checkin (next_id TCheckins d) plan day now"
  show "db_step d d'"
  proof (cases "list_ex (checkin_on (rp_WorkspaceGroupID plan) (rp_ParticipantID plan) day) (db_checkins d)")
    case True
    with run show ?thesis
      by (auto simp: sql_insert_checkin_def Let_def intro!: db_step_I schema_take_id history_same_tables)
  next
    case False
    with run have d': "d' = (take_id TCheckins d)\<lparr>db_checkins := db_checkins d @ [?c]\<rparr>"
      and refs: "ws_ref d (rp_WorkspaceGroupID plan)" "pt_ref d (rp_ParticipantID plan)"
      by (auto simp: sql_insert_checkin_def Let_def ws_by_id_Some [symmetric] pt_by_id_Some [symmetric] split: if_splits)
    have "schema d'" if d: "schema d"
      unfolding d' using False refs checkins_schemaD [OF d] schema_seq_nonneg [OF d]
      by (intro checkins_schema schema_take_id d)
        (auto simp: take_id_refs next_id_def new_checkin_def checkin_ok_def checkin_on_def list_ex_iff
          intro!: ids_ok_append uniq_append)
    moreover have "history d d'"
      unfolding d' by (simp add: history_def plans_history_def rows_step_refl rows_step_append row_rel_refl)
    ultimately show ?thesis by (intro db_step_I) (simp_all add: d')
  qed
qed

lemma sound_GetOrCreateRoutineCheckin [sound_ops]: "sound (GetOrCreateRoutineCheckin plan t)"
  unfolding GetOrCreateRoutineCheckin_def
  by (intro sound_rules sound_ops sound_insert_item sound_insert_checkin)

lemma plans_schema:
  assumes "schema d" and "ids_ok rp_ID (db_seq d TPlans) ps"
    and "uniq (\<lambda>p. (rp_WorkspaceGroupID p, rp_ParticipantID p)) ps"
    and "\<And>p. p \<in> set ps \<Longrightarrow> ws_ref d (rp_WorkspaceGroupID p) \<and> pt_ref d (rp_ParticipantID p)"
  shows "schema (d\<lparr>db_plans := ps\<rparr>)"
  using assms unfolding schema_defs plans_defs gs_ref_def by simp

lemma plans_schemaD:
  assumes "schema d"
  shows "ids_ok rp_ID (db_seq d TPlans) (db_plans d)"
    and "uniq (\<lambda>p. (rp_WorkspaceGroupID p, rp_ParticipantID p)) (db_plans d)"
    and "p \<in> set (db_plans d) \<Longrightarrow> ws_ref d (rp_WorkspaceGroupID p) \<and> pt_ref d (rp_ParticipantID p)"
  using assms unfolding schema_def plans_defs by simp_all

lemma schema_new_plan:
  assumes d: "schema d" and "rp_ID p = next_id TPlans d"
    and "ws_ref d (rp_WorkspaceGroupID p)" and "pt_ref d (rp_ParticipantID p)"
    and "\<And>q. q \<in> set (db_plans d) \<Longrightarrow> \<not> plan_of (rp_WorkspaceGroupID p) (rp_ParticipantID p) q"
  shows "schema ((take_id TPlans d)\<lparr>db_plans := db_plans d @ [p]\<rparr>)"
  using assms(2-) plans_schemaD [OF d] schema_seq_nonneg [OF d]
  by (intro plans_schema schema_take_id d)
    (auto simp: take_id_refs next_id_def plan_of_def intro!: ids_ok_append uniq_append)

lemma sound_UpsertRoutinePlan [sound_ops]: "sound (UpsertRoutinePlan wid pid o' its m th)"
  unfolding UpsertRoutinePlan_def
proof (rule sound_stmt)
  fix now d p d'
  assume run: "sql_UpsertRoutinePlan wid pid o' its m th now d = Some (p, d')"
  have d0: "schema d \<Longrightarrow> schema (take_id TPlans d)" by (rule schema_take_id)
  have "schema d'" if d: "schema d"
  proof (cases "first_where (plan_of wid pid) (db_plans d)")
    case None
    then have free: "plan_of wid pid q \<Longrightarrow> q \<notin> set (db_plans d)" for q by (auto simp: first_where_None)
    from None run have "d' = (take_id TPlans d)\<lparr>db_plans := db_plans d @ [p]\<rparr>" "rp_ID p = next_id TPlans d"
      "plan_of wid pid p" "ws_by_id d wid \<noteq> None" "pt_by_id d pid \<noteq> None"
      by (auto simp: sql_UpsertRoutinePlan_def Let_def plan_of_def split: if_splits)
    then show ?thesis
      using free by (auto simp: plan_of_def ws_by_id_Some pt_by_id_Some simp del: not_None_eq intro!: schema_new_plan d)
  next
    case (Some p0)
    with run plans_schemaD [OF d0 [OF d]] show ?thesis
      by (auto simp: sql_UpsertRoutinePlan_def Let_def set_upd_where plan_of_def
          intro!: plans_schema [OF d0 [OF d]] ids_ok_upd uniq_upd)
  qed
  moreover have "history d d'" and "\<And>t. db_seq d t \<le> db_seq d' t"
    using run by (auto simp: sql_UpsertRoutinePlan_def Let_def intro!: history_same_tables split: option.splits if_splits)
  ultimately show "db_step d d'" by (intro db_step_I)
qed

end
