(* ===== verification/Store_Goals.thy ===== *)
theory Store_Goals imports Store_Routines begin

text \<open>
  \<open>internal/storage/postgres/goals.go\<close>: the goal sets of the seasons, their biweekly and final
  reviews and the cooldown of the nudge. Every operation is one statement; an UPDATE with
  RETURNING gives the row it changed. Statuses are the three valid ones, so the \<open>IsValid\<close>
  guard is the type.
\<close>

record seasonal_goal_set_context =
  sc_GoalSet :: seasonal_goal_set
  sc_Workspace :: workspace
  sc_Participant :: participant

section \<open>Goal sets\<close>

definition goal_set_of :: "int \<Rightarrow> int \<Rightarrow> bytes \<Rightarrow> seasonal_goal_set \<Rightarrow> bool" where
  "goal_set_of wid pid key g \<longleftrightarrow> gs_WorkspaceGroupID g = wid \<and> gs_ParticipantID g = pid \<and> gs_PeriodKey g = key"

definition sql_UpsertSeasonalGoalSet ::
    "int \<Rightarrow> int \<Rightarrow> int \<Rightarrow> goal_period \<Rightarrow> bytes \<Rightarrow> int option \<Rightarrow> int option \<Rightarrow> seasonal_goal_set sql" where
  "sql_UpsertSeasonalGoalSet wid pid owner period goals source thread now d =
     (let d1 = take_id TGoals d; sel = goal_set_of wid pid (gp_key period) in
      case first_where sel (db_goals d) of
        None \<Rightarrow>
          if ws_by_id d wid = None \<or> pt_by_id d pid = None then None
          else (let g = \<lparr>gs_ID = next_id TGoals d, gs_WorkspaceGroupID = wid, gs_ParticipantID = pid,
                  gs_OwnerUserID = owner, gs_PeriodKey = gp_key period, gs_PeriodTitle = gp_title period,
                  gs_PeriodStartsOn = t_day (gp_starts period), gs_PeriodEndsOn = t_day (gp_ends period),
                  gs_GoalsText = goals, gs_CardMessageID = None, gs_CardMessageThreadID = None,
                  gs_SourceMessageID = source, gs_SourceMessageThreadID = thread, gs_CreatedAt = now, gs_UpdatedAt = now\<rparr>
            in Some (g, d1\<lparr>db_goals := db_goals d @ [g]\<rparr>))
      | Some g0 \<Rightarrow>
          (let upd = (\<lambda>g. g\<lparr>gs_OwnerUserID := owner, gs_PeriodTitle := gp_title period,
                 gs_PeriodStartsOn := t_day (gp_starts period), gs_PeriodEndsOn := t_day (gp_ends period),
                 gs_GoalsText := goals, gs_SourceMessageID := source, gs_SourceMessageThreadID := thread,
                 gs_UpdatedAt := now\<rparr>)
           in Some (upd g0, d1\<lparr>db_goals := upd_where sel upd (db_goals d)\<rparr>)))"

definition UpsertSeasonalGoalSet ::
    "int \<Rightarrow> int \<Rightarrow> int \<Rightarrow> goal_period \<Rightarrow> bytes \<Rightarrow> int option \<Rightarrow> int option \<Rightarrow> seasonal_goal_set io" where
  "UpsertSeasonalGoalSet wid pid owner period goals source thread =
     stmt (sql_UpsertSeasonalGoalSet wid pid owner period goals source thread)"

definition GetSeasonalGoalSet :: "int \<Rightarrow> seasonal_goal_set option io" where
  "GetSeasonalGoalSet i = query (\<lambda>d. first_where (\<lambda>g. gs_ID g = i) (db_goals d))"

definition HasSeasonalGoalSetForParticipant :: "int \<Rightarrow> int \<Rightarrow> bytes \<Rightarrow> bool io" where
  "HasSeasonalGoalSetForParticipant wid pid key = query (\<lambda>d. list_ex (goal_set_of wid pid key) (db_goals d))"

definition upd_goals :: "(seasonal_goal_set \<Rightarrow> bool) \<Rightarrow> (int \<Rightarrow> seasonal_goal_set \<Rightarrow> seasonal_goal_set) \<Rightarrow> unit io" where
  "upd_goals p f = exec (\<lambda>now d. d\<lparr>db_goals := upd_where p (f now) (db_goals d)\<rparr>)"

definition SetSeasonalGoalCardMessageID :: "int \<Rightarrow> int \<Rightarrow> int \<Rightarrow> unit io" where
  "SetSeasonalGoalCardMessageID i messageID threadID = upd_goals (\<lambda>g. gs_ID g = i)
     (\<lambda>now g. g\<lparr>gs_CardMessageID := Some messageID, gs_CardMessageThreadID := Some threadID, gs_UpdatedAt := now\<rparr>)"

definition ClearSeasonalGoalCardMessageID :: "int \<Rightarrow> unit io" where
  "ClearSeasonalGoalCardMessageID i = upd_goals (\<lambda>g. gs_ID g = i)
     (\<lambda>now g. g\<lparr>gs_CardMessageID := None, gs_CardMessageThreadID := None, gs_UpdatedAt := now\<rparr>)"

definition goal_context :: "db \<Rightarrow> seasonal_goal_set \<Rightarrow> seasonal_goal_set_context option" where
  "goal_context d g = (case (ws_by_id d (gs_WorkspaceGroupID g), pt_by_id d (gs_ParticipantID g)) of
      (Some w, Some q) \<Rightarrow> if pt_IsActive q then Some \<lparr>sc_GoalSet = g, sc_Workspace = w, sc_Participant = q\<rparr> else None
    | _ \<Rightarrow> None)"

definition ListSeasonalGoalSetContexts :: "seasonal_goal_set_context list io" where
  "ListSeasonalGoalSetContexts = query (\<lambda>d. List.map_filter (goal_context d) (sort_key gs_ID (db_goals d)))"

section \<open>The nudge\<close>

definition cooldown_of :: "int \<Rightarrow> int \<Rightarrow> goal_nudge_cooldown \<Rightarrow> bool" where
  "cooldown_of wid pid g \<longleftrightarrow> gn_WorkspaceGroupID g = wid \<and> gn_ParticipantID g = pid"

definition GetGoalNudgeCooldown :: "int \<Rightarrow> int \<Rightarrow> goal_nudge_cooldown option io" where
  "GetGoalNudgeCooldown wid pid = query (\<lambda>d. first_where (cooldown_of wid pid) (db_nudges d))"

definition sql_MarkGoalNudgeShown :: "int \<Rightarrow> int \<Rightarrow> int \<Rightarrow> unit sql" where
  "sql_MarkGoalNudgeShown wid pid shownAt now d =
     (if list_ex (cooldown_of wid pid) (db_nudges d)
      then Some ((), d\<lparr>db_nudges := upd_where (cooldown_of wid pid)
        (\<lambda>g. g\<lparr>gn_LastShownAt := shownAt, gn_UpdatedAt := now\<rparr>) (db_nudges d)\<rparr>)
      else if ws_by_id d wid = None \<or> pt_by_id d pid = None then None
      else Some ((), d\<lparr>db_nudges := db_nudges d @ [\<lparr>gn_WorkspaceGroupID = wid, gn_ParticipantID = pid,
        gn_LastShownAt = shownAt, gn_CreatedAt = now, gn_UpdatedAt = now\<rparr>]\<rparr>))"

definition MarkGoalNudgeShown :: "int \<Rightarrow> int \<Rightarrow> gotime \<Rightarrow> unit io" where
  "MarkGoalNudgeShown wid pid shownAt = stmt (sql_MarkGoalNudgeShown wid pid (gt_ns shownAt))"

section \<open>Biweekly reviews\<close>

definition sql_GetOrCreateGoalWeeklyReview :: "int \<Rightarrow> int \<Rightarrow> int \<Rightarrow> goal_weekly_review sql" where
  "sql_GetOrCreateGoalWeeklyReview gid week requestedAt now d =
     (let d1 = take_id TWeekly d in
      case first_where (\<lambda>r. wr_GoalSetID r = gid \<and> wr_ReviewWeekStart r = week) (db_weekly d) of
        Some r \<Rightarrow> Some (r, d1)
      | None \<Rightarrow>
          if \<not> list_ex (\<lambda>g. gs_ID g = gid) (db_goals d) then None
          else (let r = \<lparr>wr_ID = next_id TWeekly d, wr_GoalSetID = gid, wr_ReviewWeekStart = week,
                  wr_PromptMessageID = None, wr_PromptMessageThreadID = None, wr_ResponseText = None,
                  wr_ResponseMessageID = None, wr_ResponseMessageThreadID = None, wr_RequestedAt = requestedAt,
                  wr_ReminderSentAt = None, wr_RespondedAt = None, wr_SkippedAt = None\<rparr>
            in Some (r, d1\<lparr>db_weekly := db_weekly d @ [r]\<rparr>)))"

definition GetOrCreateGoalWeeklyReview :: "int \<Rightarrow> gotime \<Rightarrow> gotime \<Rightarrow> goal_weekly_review io" where
  "GetOrCreateGoalWeeklyReview gid weekStart requestedAt =
     stmt (sql_GetOrCreateGoalWeeklyReview gid (t_day weekStart) (gt_ns requestedAt))"

definition review_open :: "goal_weekly_review \<Rightarrow> bool" where
  "review_open r \<longleftrightarrow> wr_ResponseText r = None \<and> wr_SkippedAt r = None"

definition GetOpenGoalWeeklyReview :: "int \<Rightarrow> goal_weekly_review option io" where
  "GetOpenGoalWeeklyReview gid = query (\<lambda>d. first_where (\<lambda>_. True)
     (sort_key wr_RequestedAt (filter (\<lambda>r. wr_GoalSetID r = gid \<and> review_open r) (db_weekly d))))"

text \<open>An update of the reviews; the answer is whether it changed exactly one row.\<close>

definition upd_weekly :: "(goal_weekly_review \<Rightarrow> bool) \<Rightarrow> (goal_weekly_review \<Rightarrow> goal_weekly_review) \<Rightarrow> bool io" where
  "upd_weekly p f = stmt (\<lambda>now d. Some (n_where p (db_weekly d) = 1, d\<lparr>db_weekly := upd_where p f (db_weekly d)\<rparr>))"

definition SetGoalWeeklyReviewPrompt :: "int \<Rightarrow> int \<Rightarrow> int \<Rightarrow> gotime \<Rightarrow> bool io" where
  "SetGoalWeeklyReviewPrompt i messageID threadID requestedAt =
     upd_weekly (\<lambda>r. wr_ID r = i \<and> review_open r \<and> wr_PromptMessageID r = None)
       (\<lambda>r. r\<lparr>wr_PromptMessageID := Some messageID, wr_PromptMessageThreadID := Some threadID,
          wr_RequestedAt := gt_ns requestedAt\<rparr>)"

definition SetGoalWeeklyReviewReminderPrompt :: "int \<Rightarrow> int \<Rightarrow> int \<Rightarrow> gotime \<Rightarrow> bool io" where
  "SetGoalWeeklyReviewReminderPrompt i messageID threadID remindedAt =
     upd_weekly (\<lambda>r. wr_ID r = i \<and> review_open r \<and> wr_ReminderSentAt r = None)
       (\<lambda>r. r\<lparr>wr_PromptMessageID := Some messageID, wr_PromptMessageThreadID := Some threadID,
          wr_ReminderSentAt := Some (gt_ns remindedAt)\<rparr>)"

definition MarkGoalWeeklyReviewSkipped :: "int \<Rightarrow> gotime \<Rightarrow> bool io" where
  "MarkGoalWeeklyReviewSkipped i skippedAt =
     upd_weekly (\<lambda>r. wr_ID r = i \<and> review_open r) (\<lambda>r. r\<lparr>wr_SkippedAt := Some (gt_ns skippedAt)\<rparr>)"

text \<open>The owner of the goal set of a review is who may change it.\<close>

definition goal_owned :: "db \<Rightarrow> int \<Rightarrow> int \<Rightarrow> bool" where
  "goal_owned d gid owner \<longleftrightarrow> list_ex (\<lambda>g. gs_ID g = gid \<and> gs_OwnerUserID g = owner) (db_goals d)"

definition sql_SubmitGoalWeeklyReview ::
    "int \<Rightarrow> int \<Rightarrow> bytes \<Rightarrow> int \<Rightarrow> int \<Rightarrow> goal_weekly_review option sql" where
  "sql_SubmitGoalWeeklyReview i owner response messageID threadID now d =
     (let sel = (\<lambda>r. wr_ID r = i \<and> wr_SkippedAt r = None \<and> goal_owned d (wr_GoalSetID r) owner);
          upd = (\<lambda>r. r\<lparr>wr_ResponseText := Some response, wr_ResponseMessageID := Some messageID,
            wr_ResponseMessageThreadID := Some threadID, wr_RespondedAt := Some now\<rparr>)
      in Some (map_option upd (first_where sel (db_weekly d)), d\<lparr>db_weekly := upd_where sel upd (db_weekly d)\<rparr>))"

definition SubmitGoalWeeklyReview :: "int \<Rightarrow> int \<Rightarrow> bytes \<Rightarrow> int \<Rightarrow> int \<Rightarrow> goal_weekly_review option io" where
  "SubmitGoalWeeklyReview i owner response messageID threadID =
     stmt (sql_SubmitGoalWeeklyReview i owner response messageID threadID)"

section \<open>Final reviews\<close>

definition sql_GetOrCreateGoalFinalReview :: "int \<Rightarrow> goal_final_review sql" where
  "sql_GetOrCreateGoalFinalReview gid now d =
     (let d1 = take_id TFinals d in
      case first_where (\<lambda>r. fr_GoalSetID r = gid) (db_finals d) of
        Some r \<Rightarrow> Some (r, d1)
      | None \<Rightarrow>
          if \<not> list_ex (\<lambda>g. gs_ID g = gid) (db_goals d) then None
          else (let r = \<lparr>fr_ID = next_id TFinals d, fr_GoalSetID = gid, fr_Status = None, fr_PromptMessageID = None,
                  fr_PromptMessageThreadID = None, fr_SummaryText = None, fr_SummaryMessageIDs = [],
                  fr_RequestedAt = now, fr_CompletedAt = None\<rparr>
            in Some (r, d1\<lparr>db_finals := db_finals d @ [r]\<rparr>)))"

definition GetOrCreateGoalFinalReview :: "int \<Rightarrow> goal_final_review io" where
  "GetOrCreateGoalFinalReview gid = stmt (sql_GetOrCreateGoalFinalReview gid)"

definition SetGoalFinalReviewPrompt :: "int \<Rightarrow> int \<Rightarrow> int \<Rightarrow> unit io" where
  "SetGoalFinalReviewPrompt i messageID threadID = exec (\<lambda>now d. d\<lparr>db_finals := upd_where (\<lambda>r. fr_ID r = i)
     (\<lambda>r. r\<lparr>fr_PromptMessageID := Some messageID, fr_PromptMessageThreadID := Some threadID\<rparr>) (db_finals d)\<rparr>)"

text \<open>An update of the review of a goal set by its owner, which gives the changed row.\<close>

definition upd_final ::
    "int \<Rightarrow> int \<Rightarrow> (goal_final_review \<Rightarrow> bool) \<Rightarrow> (int \<Rightarrow> goal_final_review \<Rightarrow> goal_final_review) \<Rightarrow> goal_final_review option io" where
  "upd_final gid owner p f = stmt (\<lambda>now d.
     (let sel = (\<lambda>r. fr_GoalSetID r = gid \<and> goal_owned d gid owner \<and> fr_CompletedAt r = None \<and> p r)
      in Some (map_option (f now) (first_where sel (db_finals d)),
           d\<lparr>db_finals := upd_where sel (f now) (db_finals d)\<rparr>)))"

definition SetGoalFinalReviewStatus :: "int \<Rightarrow> int \<Rightarrow> goal_final_status \<Rightarrow> goal_final_review option io" where
  "SetGoalFinalReviewStatus gid owner status =
     upd_final gid owner (\<lambda>_. True) (\<lambda>_ r. r\<lparr>fr_Status := Some status\<rparr>)"

text \<open>\<open>concat_ws\<close> skips a missing first part; an empty summary counts as missing.\<close>

definition add_summary_part :: "int \<Rightarrow> bytes \<Rightarrow> goal_final_review \<Rightarrow> goal_final_review" where
  "add_summary_part messageID part r = (if messageID \<in> set (fr_SummaryMessageIDs r) then r
     else r\<lparr>fr_SummaryText := Some (case fr_SummaryText r of None \<Rightarrow> part
              | Some s \<Rightarrow> if s = [] then part else s @ [CHR 0x0A, CHR 0x0A] @ part),
            fr_SummaryMessageIDs := fr_SummaryMessageIDs r @ [messageID]\<rparr>)"

definition AppendGoalFinalReviewSummaryPart :: "int \<Rightarrow> int \<Rightarrow> int \<Rightarrow> bytes \<Rightarrow> goal_final_review option io" where
  "AppendGoalFinalReviewSummaryPart gid owner messageID part =
     upd_final gid owner (\<lambda>r. fr_Status r \<noteq> None) (\<lambda>_. add_summary_part messageID part)"

definition FinalizeGoalFinalReview :: "int \<Rightarrow> int \<Rightarrow> goal_final_review option io" where
  "FinalizeGoalFinalReview gid owner =
     upd_final gid owner (\<lambda>r. fr_Status r \<noteq> None \<and> has_summary r) (\<lambda>now r. r\<lparr>fr_CompletedAt := Some now\<rparr>)"

section \<open>Lemmas\<close>

lemma gs_ref_list_ex: "list_ex (\<lambda>g. gs_ID g = i) (db_goals d) \<longleftrightarrow> gs_ref d i"
  by (auto simp: list_ex_iff gs_ref_def)

lemma goals_schema:
  assumes "schema d" and "ids_ok gs_ID (db_seq d TGoals) gs"
    and "uniq (\<lambda>g. (gs_WorkspaceGroupID g, gs_ParticipantID g, gs_PeriodKey g)) gs"
    and "\<And>g. g \<in> set gs \<Longrightarrow> ws_ref d (gs_WorkspaceGroupID g) \<and> pt_ref d (gs_ParticipantID g)"
    and "gs_ID ` set (db_goals d) \<subseteq> gs_ID ` set gs"
  shows "schema (d\<lparr>db_goals := gs\<rparr>)"
proof -
  have "gs_ref d i \<Longrightarrow> gs_ref (d\<lparr>db_goals := gs\<rparr>) i" for i
    using assms(5) by (auto simp: gs_ref_def image_subset_iff image_iff) metis
  then show ?thesis using assms(1-4) unfolding schema_defs plans_defs by simp
qed

lemma weekly_schema:
  assumes "schema d" and "ids_ok wr_ID (db_seq d TWeekly) rs" and "uniq (\<lambda>r. (wr_GoalSetID r, wr_ReviewWeekStart r)) rs"
    and "\<And>r. r \<in> set rs \<Longrightarrow> gs_ref d (wr_GoalSetID r) \<and> weekly_ok r"
  shows "schema (d\<lparr>db_weekly := rs\<rparr>)"
  using assms unfolding schema_defs plans_defs gs_ref_def by simp

lemma finals_schema:
  assumes "schema d" and "ids_ok fr_ID (db_seq d TFinals) rs" and "uniq fr_GoalSetID rs"
    and "\<And>r. r \<in> set rs \<Longrightarrow> gs_ref d (fr_GoalSetID r) \<and> final_ok r"
  shows "schema (d\<lparr>db_finals := rs\<rparr>)"
  using assms unfolding schema_defs plans_defs gs_ref_def by simp

lemma nudges_schema:
  assumes "schema d" and "uniq (\<lambda>g. (gn_WorkspaceGroupID g, gn_ParticipantID g)) gs"
    and "\<And>g. g \<in> set gs \<Longrightarrow> ws_ref d (gn_WorkspaceGroupID g) \<and> pt_ref d (gn_ParticipantID g)"
  shows "schema (d\<lparr>db_nudges := gs\<rparr>)"
  using assms unfolding schema_defs plans_defs gs_ref_def by simp

lemma goals_schemaD:
  assumes "schema d"
  shows "ids_ok gs_ID (db_seq d TGoals) (db_goals d)"
    and "uniq (\<lambda>g. (gs_WorkspaceGroupID g, gs_ParticipantID g, gs_PeriodKey g)) (db_goals d)"
    and "g \<in> set (db_goals d) \<Longrightarrow> ws_ref d (gs_WorkspaceGroupID g) \<and> pt_ref d (gs_ParticipantID g)"
    and "ids_ok wr_ID (db_seq d TWeekly) (db_weekly d)"
    and "uniq (\<lambda>r. (wr_GoalSetID r, wr_ReviewWeekStart r)) (db_weekly d)"
    and "r \<in> set (db_weekly d) \<Longrightarrow> gs_ref d (wr_GoalSetID r) \<and> weekly_ok r"
    and "ids_ok fr_ID (db_seq d TFinals) (db_finals d)" and "uniq fr_GoalSetID (db_finals d)"
    and "f \<in> set (db_finals d) \<Longrightarrow> gs_ref d (fr_GoalSetID f) \<and> final_ok f"
    and "uniq (\<lambda>g. (gn_WorkspaceGroupID g, gn_ParticipantID g)) (db_nudges d)"
    and "n \<in> set (db_nudges d) \<Longrightarrow> ws_ref d (gn_WorkspaceGroupID n) \<and> pt_ref d (gn_ParticipantID n)"
  using assms unfolding schema_def plans_defs by simp_all

lemmas plans_history_simps = history_def plans_history_def rows_step_refl row_rel_refl

lemma sound_goal_reads [sound_ops]:
  "sound (GetSeasonalGoalSet i)" "sound (HasSeasonalGoalSetForParticipant wid pid key)" "sound ListSeasonalGoalSetContexts"
  "sound (GetGoalNudgeCooldown wid pid)" "sound (GetOpenGoalWeeklyReview i)"
  unfolding GetSeasonalGoalSet_def HasSeasonalGoalSetForParticipant_def ListSeasonalGoalSetContexts_def
    GetGoalNudgeCooldown_def GetOpenGoalWeeklyReview_def
  by (intro sound_rules)+

text \<open>Updates that keep the keys of the rows and their promises.\<close>

lemma upd_goals_step:
  assumes "\<And>g. p g \<Longrightarrow> goal_rel g (f g)"
  shows "db_step d (d\<lparr>db_goals := upd_where p f (db_goals d)\<rparr>)"
proof (rule db_step_same_seq)
  assume d: "schema d"
  have key: "p g \<Longrightarrow> gs_ID (f g) = gs_ID g" "p g \<Longrightarrow> gs_WorkspaceGroupID (f g) = gs_WorkspaceGroupID g"
    "p g \<Longrightarrow> gs_ParticipantID (f g) = gs_ParticipantID g" "p g \<Longrightarrow> gs_PeriodKey (f g) = gs_PeriodKey g" for g
    using assms [of g] by (simp_all add: goal_rel_def)
  have "schema (d\<lparr>db_goals := upd_where p f (db_goals d)\<rparr>)"
    using goals_schemaD(1-3) [OF d] image_upd_where [of p gs_ID f "db_goals d", OF key(1)]
    by (intro goals_schema d ids_ok_upd uniq_upd) (simp_all add: key set_upd_where [of p f] image_iff, (force simp: key)+)
  then show "schema (d\<lparr>db_goals := upd_where p f (db_goals d)\<rparr>)
      \<and> history d (d\<lparr>db_goals := upd_where p f (db_goals d)\<rparr>)"
    using assms by (simp add: plans_history_simps rows_step_upd)
qed simp

lemma upd_weekly_step:
  assumes "\<And>r. p r \<Longrightarrow> weekly_rel r (f r)" and "\<And>r. p r \<Longrightarrow> weekly_ok r \<Longrightarrow> weekly_ok (f r)"
  shows "db_step d (d\<lparr>db_weekly := upd_where p f (db_weekly d)\<rparr>)"
proof (rule db_step_same_seq)
  assume d: "schema d"
  have key: "p r \<Longrightarrow> wr_ID (f r) = wr_ID r" "p r \<Longrightarrow> wr_GoalSetID (f r) = wr_GoalSetID r"
    "p r \<Longrightarrow> wr_ReviewWeekStart (f r) = wr_ReviewWeekStart r" for r
    using assms(1) [of r] by (simp_all add: weekly_rel_def)
  have "schema (d\<lparr>db_weekly := upd_where p f (db_weekly d)\<rparr>)"
    using goals_schemaD(4-6) [OF d] assms(2)
    by (intro weekly_schema d ids_ok_upd uniq_upd) (auto simp: key set_upd_where)
  then show "schema (d\<lparr>db_weekly := upd_where p f (db_weekly d)\<rparr>)
      \<and> history d (d\<lparr>db_weekly := upd_where p f (db_weekly d)\<rparr>)"
    using assms(1) by (simp add: plans_history_simps rows_step_upd)
qed simp

lemma upd_finals_step:
  assumes "\<And>r. p r \<Longrightarrow> final_rel r (f r)" and "\<And>r. p r \<Longrightarrow> final_ok r \<Longrightarrow> final_ok (f r)"
  shows "db_step d (d\<lparr>db_finals := upd_where p f (db_finals d)\<rparr>)"
proof (rule db_step_same_seq)
  assume d: "schema d"
  have key: "p r \<Longrightarrow> fr_ID (f r) = fr_ID r" "p r \<Longrightarrow> fr_GoalSetID (f r) = fr_GoalSetID r" for r
    using assms(1) [of r] by (simp_all add: final_rel_def)
  have "schema (d\<lparr>db_finals := upd_where p f (db_finals d)\<rparr>)"
    using goals_schemaD(7-9) [OF d] assms(2)
    by (intro finals_schema d ids_ok_upd uniq_upd) (auto simp: key set_upd_where)
  then show "schema (d\<lparr>db_finals := upd_where p f (db_finals d)\<rparr>)
      \<and> history d (d\<lparr>db_finals := upd_where p f (db_finals d)\<rparr>)"
    using assms(1) by (simp add: plans_history_simps rows_step_upd)
qed simp

lemma take_id_step: "db_step d (take_id t d)"
  by (intro db_step_I schema_take_id) (simp_all add: history_same_tables)

lemma sound_goal_sets [sound_ops]:
  "sound (SetSeasonalGoalCardMessageID i m t)" "sound (ClearSeasonalGoalCardMessageID i)"
  unfolding SetSeasonalGoalCardMessageID_def ClearSeasonalGoalCardMessageID_def upd_goals_def
  by (rule sound_exec, rule upd_goals_step, simp add: goal_rel_def)+

lemma sound_upd_weekly:
  "(\<And>r. p r \<Longrightarrow> weekly_rel r (f r)) \<Longrightarrow> (\<And>r. p r \<Longrightarrow> weekly_ok r \<Longrightarrow> weekly_ok (f r)) \<Longrightarrow> sound (upd_weekly p f)"
  unfolding upd_weekly_def by (rule sound_stmt) (use upd_weekly_step in auto)

lemma sound_weekly_updates [sound_ops]:
  "sound (SetGoalWeeklyReviewPrompt i m t n)" "sound (SetGoalWeeklyReviewReminderPrompt i m t n)"
  "sound (MarkGoalWeeklyReviewSkipped i n)" "sound (SubmitGoalWeeklyReview i o' x m t)"
  unfolding SetGoalWeeklyReviewPrompt_def SetGoalWeeklyReviewReminderPrompt_def MarkGoalWeeklyReviewSkipped_def
     apply (rule sound_upd_weekly; simp add: weekly_rel_def weekly_ok_def review_open_def)+
  unfolding SubmitGoalWeeklyReview_def
  by (rule sound_stmt, unfold sql_SubmitGoalWeeklyReview_def Let_def)
    (auto simp: weekly_rel_def weekly_ok_def intro!: upd_weekly_step)

lemma sound_upd_final:
  "(\<And>now r. p r \<Longrightarrow> fr_CompletedAt r = None \<Longrightarrow> final_rel r (f now r)) \<Longrightarrow>
   (\<And>now r. p r \<Longrightarrow> fr_CompletedAt r = None \<Longrightarrow> final_ok r \<Longrightarrow> final_ok (f now r)) \<Longrightarrow> sound (upd_final gid o' p f)"
  unfolding upd_final_def Let_def by (rule sound_stmt) (auto intro!: upd_finals_step)

lemma sound_final_updates [sound_ops]:
  "sound (SetGoalFinalReviewPrompt i m t)" "sound (SetGoalFinalReviewStatus i o' st)"
  "sound (AppendGoalFinalReviewSummaryPart i o' m x)" "sound (FinalizeGoalFinalReview i o')"
  unfolding SetGoalFinalReviewPrompt_def SetGoalFinalReviewStatus_def AppendGoalFinalReviewSummaryPart_def
    FinalizeGoalFinalReview_def
     apply (rule sound_exec, rule upd_finals_step; simp add: final_rel_def final_ok_def has_summary_def)
  by (rule sound_upd_final; simp add: final_rel_def final_ok_def has_summary_def add_summary_part_def)+

lemma sound_UpsertSeasonalGoalSet [sound_ops]: "sound (UpsertSeasonalGoalSet wid pid o' per x m th)"
  unfolding UpsertSeasonalGoalSet_def
proof (rule sound_stmt)
  fix now d g d'
  assume run: "sql_UpsertSeasonalGoalSet wid pid o' per x m th now d = Some (g, d')"
  show "db_step d d'"
  proof (cases "first_where (goal_set_of wid pid (gp_key per)) (db_goals d)")
    case None
    then have free: "goal_set_of wid pid (gp_key per) q \<Longrightarrow> q \<notin> set (db_goals d)" for q by (auto simp: first_where_None)
    from None run have d': "d' = (take_id TGoals d)\<lparr>db_goals := db_goals d @ [g]\<rparr>"
      and g: "gs_ID g = next_id TGoals d" "goal_set_of wid pid (gp_key per) g" "ws_by_id d wid \<noteq> None" "pt_by_id d pid \<noteq> None"
      by (auto simp: sql_UpsertSeasonalGoalSet_def Let_def goal_set_of_def split: if_splits)
    have "schema d'" if d: "schema d"
      unfolding d' using free g goals_schemaD(1-3) [OF d] schema_seq_nonneg [OF d]
      by (intro goals_schema schema_take_id d)
        (auto simp: take_id_refs next_id_def goal_set_of_def ws_by_id_Some pt_by_id_Some simp del: not_None_eq
          intro!: ids_ok_append uniq_append)
    then show ?thesis
      by (intro db_step_I) (simp_all add: d' plans_history_simps rows_step_append)
  next
    case (Some g0)
    with run obtain f where "d' = (take_id TGoals d)\<lparr>db_goals := upd_where (goal_set_of wid pid (gp_key per)) f (db_goals (take_id TGoals d))\<rparr>"
      and "\<And>g. goal_rel g (f g)"
      by (force simp: sql_UpsertSeasonalGoalSet_def Let_def goal_rel_def)
    then show ?thesis using upd_goals_step [of "goal_set_of wid pid (gp_key per)" f "take_id TGoals d"] take_id_step stp.step by metis
  qed
qed

lemma sound_GetOrCreateGoalWeeklyReview [sound_ops]: "sound (GetOrCreateGoalWeeklyReview gid wk n)"
  unfolding GetOrCreateGoalWeeklyReview_def
proof (rule sound_stmt)
  fix now d r d'
  assume run: "sql_GetOrCreateGoalWeeklyReview gid (t_day wk) (gt_ns n) now d = Some (r, d')"
  show "db_step d d'"
  proof (cases "first_where (\<lambda>r. wr_GoalSetID r = gid \<and> wr_ReviewWeekStart r = t_day wk) (db_weekly d)")
    case None
    from None run have d': "d' = (take_id TWeekly d)\<lparr>db_weekly := db_weekly d @ [r]\<rparr>"
      and r: "wr_ID r = next_id TWeekly d" "wr_GoalSetID r = gid" "wr_ReviewWeekStart r = t_day wk" "weekly_ok r"
      and ref: "gs_ref d gid"
      by (auto simp: sql_GetOrCreateGoalWeeklyReview_def Let_def gs_ref_list_ex weekly_ok_def split: if_splits)
    have "schema d'" if d: "schema d"
      unfolding d' using None r ref goals_schemaD(4-6) [OF d] schema_seq_nonneg [OF d]
      by (intro weekly_schema schema_take_id d)
        (auto simp: take_id_refs next_id_def first_where_None
          intro!: ids_ok_append uniq_append)
    then show ?thesis
      by (intro db_step_I) (simp_all add: d' plans_history_simps rows_step_append)
  next
    case (Some r0)
    with run show ?thesis by (auto simp: sql_GetOrCreateGoalWeeklyReview_def Let_def take_id_step)
  qed
qed

lemma sound_GetOrCreateGoalFinalReview [sound_ops]: "sound (GetOrCreateGoalFinalReview gid)"
  unfolding GetOrCreateGoalFinalReview_def
proof (rule sound_stmt)
  fix now d r d'
  assume run: "sql_GetOrCreateGoalFinalReview gid now d = Some (r, d')"
  show "db_step d d'"
  proof (cases "first_where (\<lambda>r. fr_GoalSetID r = gid) (db_finals d)")
    case None
    from None run have d': "d' = (take_id TFinals d)\<lparr>db_finals := db_finals d @ [r]\<rparr>"
      and r: "fr_ID r = next_id TFinals d" "fr_GoalSetID r = gid" "final_ok r" and ref: "gs_ref d gid"
      by (auto simp: sql_GetOrCreateGoalFinalReview_def Let_def gs_ref_list_ex final_ok_def split: if_splits)
    have "schema d'" if d: "schema d"
      unfolding d' using None r ref goals_schemaD(7-9) [OF d] schema_seq_nonneg [OF d]
      by (intro finals_schema schema_take_id d)
        (auto simp: take_id_refs next_id_def first_where_None intro!: ids_ok_append uniq_append)
    then show ?thesis
      by (intro db_step_I) (simp_all add: d' plans_history_simps rows_step_append)
  next
    case (Some r0)
    with run show ?thesis by (auto simp: sql_GetOrCreateGoalFinalReview_def Let_def take_id_step)
  qed
qed

lemma sound_MarkGoalNudgeShown [sound_ops]: "sound (MarkGoalNudgeShown wid pid t)"
  unfolding MarkGoalNudgeShown_def
proof (rule sound_stmt)
  fix now d u d'
  assume run: "sql_MarkGoalNudgeShown wid pid (gt_ns t) now d = Some (u, d')"
  have "schema d'" if d: "schema d"
    using run goals_schemaD(10,11) [OF d]
    by (auto simp: sql_MarkGoalNudgeShown_def list_ex_iff cooldown_of_def set_upd_where ws_by_id_Some [symmetric]
        pt_by_id_Some [symmetric] intro!: nudges_schema d uniq_upd uniq_append split: if_splits)
  moreover have "history d d'" and "db_seq d' = db_seq d"
    using run by (auto simp: sql_MarkGoalNudgeShown_def intro!: history_same_tables split: if_splits)
  ultimately show "db_step d d'" by (intro db_step_same_seq) simp_all
qed

end
