(* ===== verification/App_Routine.thy ===== *)
theory App_Routine imports App_Outbox Store_Goals begin

text \<open>
  \<open>internal/app/routine\<close>: the worker's part in the routines. Check-ins that are due get a card
  in the routine topic; open check-ins are reminded once and failed automatically; the notices of
  automatic failures are sent one transaction each; the leaderboard is refreshed; old notices are
  removed. The Go map of workspaces to refresh is a list in the order they were added (Go visits
  a map in any order).
\<close>

definition NextRoutineItemIndex :: "routine_checkin \<Rightarrow> int" where
  "NextRoutineItemIndex c =
     (let k = length (takeWhile (\<lambda>it. ri_Status it \<noteq> None) (rc_Items c)) in if k < length (rc_Items c) then int k else -1)"

definition routineSourceLink :: "int \<Rightarrow> routine_checkin \<Rightarrow> bytes" where
  "routineSourceLink chatID c = MessageLink chatID (opt0 (rc_SourceMessageID c)) (opt0 (rc_SourceMessageThreadID c))"

definition checkin_view :: "bytes \<Rightarrow> routine_checkin \<Rightarrow> participant \<Rightarrow> bytes \<Rightarrow> bytes \<Rightarrow> view" where
  "checkin_view name c p link notice =
     View name [VCheckin c, VStr (pt_DisplayName p), VStr (participantUsername p), VStr link, VStr notice]"

section \<open>Cards of due check-ins\<close>

definition send_checkin_card ::
    "routine_plan_context \<Rightarrow> topic_binding \<Rightarrow> routine_checkin \<Rightarrow> int \<Rightarrow> unit io" where
  "send_checkin_card item topic c nextIndex =
     (let chat = ws_ChatID (pc_Workspace item) in
      bindM (tgSendMessage (SilentMessage (send_req chat (tb_ThreadID topic)
          (checkin_view ''FormatRoutineCheckinCard'' c (pc_Participant item) (routineSourceLink chat c) [])
          (Some (RoutineItemKeyboard (rc_ID c) nextIndex)))))
        (\<lambda>message. bindM (err_of (SetRoutineCheckinCardMessageID (rc_ID c) (mg_MessageID message) (tb_ThreadID topic)))
          (\<lambda>r. case r of None \<Rightarrow> ret ()
             | Some err \<Rightarrow> bindM (err_of (CompensateSentMessage chat (mg_MessageID message) None))
                 (\<lambda>c. raise_opt (errors_join [Some err, c])))))"

definition dispatch_checkin :: "gotime \<Rightarrow> routine_plan_context \<Rightarrow> unit io" where
  "dispatch_checkin now item =
     bindM (rule (\<lambda>tzdb. RoutineCheckinDue tzdb (utc_time (rp_CreatedAt (pc_Plan item))) (ws_Timezone (pc_Workspace item)) now))
       (\<lambda>due. case due of
          None \<Rightarrow> ret ()
        | Some checkinDate \<Rightarrow>
            if rp_Items (pc_Plan item) = [] then ret ()
            else bindM (GetTopicBinding (ws_ID (pc_Workspace item)) TopicRoutine) (\<lambda>binding. case binding of
                None \<Rightarrow> ret ()
              | Some topic \<Rightarrow>
                  bindM (GetOrCreateRoutineCheckin (pc_Plan item) checkinDate) (\<lambda>c.
                    if rc_CompletedAt c \<noteq> None \<or> rc_CardMessageID c \<noteq> None then ret ()
                    else (let nextIndex = NextRoutineItemIndex c in
                      if nextIndex < 0 then ret ()
                      else Run ''routine_card'' (rc_ID c) now (send_checkin_card item topic c nextIndex)))))"

definition DispatchDueCheckins :: "gotime \<Rightarrow> unit io" where
  "DispatchDueCheckins now = bindM ListRoutinePlanContexts (\<lambda>plans. for_each plans (dispatch_checkin now))"

section \<open>Reminders and automatic failures\<close>

definition routine_deletePendingMessages :: "int \<Rightarrow> payload \<Rightarrow> gotime \<Rightarrow> gotime \<Rightarrow> unit io" where
  "routine_deletePendingMessages chatID payload sentAt nowUTC = delete_unseen chatID sentAt nowUTC []
     (payloadInt64 payload ''prompt_message_id'' # payloadInt64Slice payload ''user_message_ids'')"

definition closeRoutineNotice :: "int \<Rightarrow> int \<Rightarrow> int option \<Rightarrow> gotime \<Rightarrow> unit io" where
  "closeRoutineNotice chatID messageID sentAt nowUTC = CloseBestEffort chatID messageID
     (case sentAt of None \<Rightarrow> zero_time | Some t \<Rightarrow> utc_time t) nowUTC
     (edit_req 0 0 (TextView ''notice.dismissed'') (Some EmptyKeyboard))"

text \<open>Fails a check-in; the answer is whether it did.\<close>

definition auto_fail_checkin :: "gotime \<Rightarrow> routine_checkin_context \<Rightarrow> int \<Rightarrow> bool io" where
  "auto_fail_checkin now item threadID =
     (let c = cc_Checkin item; w = cc_Workspace item; user = pt_UserID (cc_Participant item) in
      bindM (GetPendingInput (ws_ID w) user threadID) (\<lambda>pending.
      thenM (case pending of None \<Rightarrow> ret ()
          | Some p \<Rightarrow> whenM (pi_Kind p = PendingRoutineReason \<and> payloadInt64 (pi_Payload p) ''checkin_id'' = rc_ID c)
              (routine_deletePendingMessages (ws_ChatID w) (pi_Payload p) (utc_time (pi_CreatedAt p)) now))
      (thenM (ClearRoutineCheckinPendingInput (ws_ID w) user threadID (rc_ID c))
      (bindM (AutoFailRoutineCheckin (rc_ID c) now) (\<lambda>completed. case completed of
          None \<Rightarrow> ret False
        | Some _ \<Rightarrow>
            thenM (case rc_ReminderMessageID c of None \<Rightarrow> ret ()
                | Some m \<Rightarrow> thenM (closeRoutineNotice (ws_ChatID w) m (rc_ReminderSentAt c) now)
                    (ClearRoutineCheckinReminderMessageID (rc_ID c)))
              (ret True))))))"

definition send_reminder :: "gotime \<Rightarrow> routine_checkin_context \<Rightarrow> int \<Rightarrow> int \<Rightarrow> unit io" where
  "send_reminder now item cardID threadID =
     (let c = cc_Checkin item; p = cc_Participant item; chat = ws_ChatID (cc_Workspace item) in
      bindM (tgSendMessage (PingMessage ((send_req chat threadID
          (View ''RoutineReminderText'' [VCheckin c, VStr (pt_DisplayName p), VStr (participantUsername p), VInt (pt_UserID p)])
          (Some (DismissKeyboard (rc_OwnerUserID c))))\<lparr>sm_ReplyToMessageID := cardID\<rparr>)))
        (\<lambda>message. bindM (err_of (SetRoutineCheckinReminderMessageID (rc_ID c) (mg_MessageID message) now))
          (\<lambda>r. case r of None \<Rightarrow> ret ()
             | Some err \<Rightarrow> bindM (err_of (CompensateSentMessage chat (mg_MessageID message) None))
                 (\<lambda>c. raise_opt (errors_join [Some err, c])))))"

text \<open>One open check-in: the answer is whether its leaderboard must be refreshed.\<close>

definition checkin_transition :: "gotime \<Rightarrow> routine_checkin_context \<Rightarrow> bool io" where
  "checkin_transition now item =
     (let c = cc_Checkin item; w = cc_Workspace item; date = date_time (rc_CheckinDate c) in
      case (rc_CardMessageID c, rc_CardMessageThreadID c) of
        (Some cardID, Some threadID) \<Rightarrow>
          bindM (rule (\<lambda>tzdb. RoutineAutoFailDue tzdb date (ws_Timezone w) (rc_CompletedAt c) now))
            (\<lambda>autoFailDue. if autoFailDue then auto_fail_checkin now item threadID
             else bindM (rule (\<lambda>tzdb. RoutineReminderDue tzdb date (ws_Timezone w)
                 (rc_ReminderSentAt c) (rc_CompletedAt c) now))
               (\<lambda>reminderDue. if \<not> reminderDue then ret False
                else thenM (Run ''routine_reminder'' (rc_ID c) now (send_reminder now item cardID threadID)) (ret False)))
      | _ \<Rightarrow> ret False)"

definition put_workspace :: "workspace \<Rightarrow> workspace list \<Rightarrow> workspace list" where
  "put_workspace w ws = (if list_ex (\<lambda>q. ws_ID q = ws_ID w) ws then upd_where (\<lambda>q. ws_ID q = ws_ID w) (\<lambda>_. w) ws
     else ws @ [w])"

fun checkin_transitions :: "gotime \<Rightarrow> routine_checkin_context list \<Rightarrow> workspace list \<Rightarrow> workspace list io" where
  "checkin_transitions now [] refreshed = ret refreshed"
| "checkin_transitions now (item # items) refreshed = bindM (checkin_transition now item) (\<lambda>changed.
     checkin_transitions now items (if changed then put_workspace (cc_Workspace item) refreshed else refreshed))"

section \<open>Notices of automatic failures\<close>

text \<open>The reply target: the card, or the message of the plan when the card is gone.\<close>

definition update_closed_card :: "routine_checkin_context \<Rightarrow> bytes \<Rightarrow> int io" where
  "update_closed_card item link =
     (let c = cc_Checkin item; card = opt0 (rc_CardMessageID c); source = opt0 (rc_SourceMessageID c) in
      if card = 0 then ret source
      else bindM (err_of (tgEditMessageText (edit_req (ws_ChatID (cc_Workspace item)) card
          (checkin_view ''FormatRoutineCheckinFinishedCard'' c (cc_Participant item) link []) (Some EmptyKeyboard))))
        (\<lambda>r. case r of
           None \<Rightarrow> ret card
         | Some err \<Rightarrow> if IsNotModifiedError err then ret card
             else if \<not> IsMissingEditTarget err then
               failM (WrappedError (''update auto-closed routine card '' @ show_int (rc_ID c)) err)
             else ret source))"

definition deliverRoutineAutoCloseNotice :: "routine_checkin_context \<Rightarrow> gotime \<Rightarrow> unit io" where
  "deliverRoutineAutoCloseNotice item now =
     (let c = cc_Checkin item; p = cc_Participant item; chat = ws_ChatID (cc_Workspace item);
          link = routineSourceLink chat c in
      bindM (update_closed_card item link) (\<lambda>target.
      let request = ReplyMessage (send_req chat (opt0 (rc_CardMessageThreadID c))
            (View ''RoutineAutoClosedText'' [VCheckin c, VStr (pt_DisplayName p), VStr (participantUsername p),
               VInt (pt_UserID p), VStr link])
            (Some (DismissKeyboard (rc_OwnerUserID c)))) target in
      bindM (attempt (tgSendMessage request)) (\<lambda>first.
      bindM (case first of
          Inl err \<Rightarrow> if sm_ReplyToMessageID request \<noteq> 0 \<and> IsMissingReplyTarget err
            then attempt (tgSendMessage (request\<lparr>sm_ReplyToMessageID := 0\<rparr>)) else ret first
        | Inr m \<Rightarrow> ret first) (\<lambda>sent. case sent of
          Inl err \<Rightarrow> failM (WrappedError (''send auto-close notice for routine '' @ show_int (rc_ID c)) err)
        | Inr notice \<Rightarrow>
            bindM (err_of (SetRoutineCheckinAutoCloseNoticeMessageID (rc_ID c) (mg_MessageID notice) now)) (\<lambda>r. case r of
                None \<Rightarrow> ret ()
              | Some err \<Rightarrow> bindM (err_of (CompensateSentMessage chat (mg_MessageID notice) None)) (\<lambda>comp.
                  raise_opt (errors_join [Some (WrappedError (''store auto-close notice for routine '' @ show_int (rc_ID c)) err), comp])))))))"

definition close_tx :: "gotime \<Rightarrow> (routine_checkin_context option \<times> goerr option) io" where
  "close_tx now = inTxVar None (bindM (attempt ClaimPendingRoutineAutoCloseNoticeContext) (\<lambda>r. case r of
      Inl err \<Rightarrow> ret (None, Some err)
    | Inr None \<Rightarrow> ret (None, None)
    | Inr (Some item) \<Rightarrow> bindM (err_of (deliverRoutineAutoCloseNotice item now)) (\<lambda>e. ret (Some item, e))))"

fun close_loop :: "nat \<Rightarrow> gotime \<Rightarrow> workspace list \<Rightarrow> workspace list io" where
  "close_loop 0 now refreshed = failM FuelExhausted"
| "close_loop (Suc n) now refreshed = bindM (close_tx now) (\<lambda>(item, e). case e of
      Some err \<Rightarrow> thenM (Defer ''routine_close'' (case item of None \<Rightarrow> 0 | Some x \<Rightarrow> rc_ID (cc_Checkin x)) now err)
        (close_loop n now refreshed)
    | None \<Rightarrow> (case item of
        None \<Rightarrow> ret refreshed
      | Some x \<Rightarrow> thenM (ClearDeliveryRetry ''routine_close'' (rc_ID (cc_Checkin x)))
          (close_loop n now (put_workspace (cc_Workspace x) refreshed))))"

section \<open>The leaderboard message\<close>

definition post_leaderboard :: "int \<Rightarrow> int \<Rightarrow> int \<Rightarrow> view \<Rightarrow> unit io" where
  "post_leaderboard wid chatID threadID text =
     bindM (tgSendMessage (SilentMessage (send_req chatID threadID text None))) (\<lambda>message.
     bindM (err_of (SetTopicMessages wid TopicRoutine (Some (mg_MessageID message)) None False False)) (\<lambda>r. case r of
         None \<Rightarrow> ret ()
       | Some err \<Rightarrow> bindM (err_of (CompensateSentMessage chatID (mg_MessageID message) None))
           (\<lambda>c. raise_opt (errors_join [Some err, c]))))"

definition RefreshLeaderboard :: "workspace \<Rightarrow> int \<Rightarrow> gotime \<Rightarrow> unit io" where
  "RefreshLeaderboard w chatID now = bindM (GetTopicBinding (ws_ID w) TopicRoutine) (\<lambda>found. case found of
      None \<Rightarrow> ret ()
    | Some binding \<Rightarrow> bindM (GetRoutineLeaderboard (ws_ID w) now) (\<lambda>entries.
        let text = View ''FormatRoutineLeaderboard'' [VEntries entries];
            post = post_leaderboard (ws_ID w) chatID (tb_ThreadID binding) text in
        case tb_IntroMessageID binding of
          None \<Rightarrow> post
        | Some intro \<Rightarrow> bindM (err_of (tgEditMessageText (edit_req chatID intro text None))) (\<lambda>r. case r of
            None \<Rightarrow> ret ()
          | Some err \<Rightarrow> if IsNotModifiedError err then ret ()
              else if \<not> IsMissingEditTarget err then failM err else post)))"

fun retry_workspaces :: "int list \<Rightarrow> workspace list \<Rightarrow> workspace list io" where
  "retry_workspaces [] refreshed = ret refreshed"
| "retry_workspaces (i # ids) refreshed = bindM (GetWorkspaceByID i) (\<lambda>found.
     retry_workspaces ids (case found of None \<Rightarrow> refreshed | Some w \<Rightarrow> put_workspace w refreshed))"

definition RunCheckinTransitions :: "nat \<Rightarrow> gotime \<Rightarrow> unit io" where
  "RunCheckinTransitions fuel now =
     bindM ListOpenRoutineCheckinContexts (\<lambda>checkins.
     bindM (checkin_transitions now checkins []) (\<lambda>r1.
     bindM (close_loop fuel now r1) (\<lambda>r2.
     bindM (DeliveryRetryIDs ''routine_leaderboard'' now) (\<lambda>ids.
     bindM (retry_workspaces ids r2) (\<lambda>refreshed.
     for_each refreshed (\<lambda>w. Run ''routine_leaderboard'' (ws_ID w) now (RefreshLeaderboard w (ws_ChatID w) now)))))))"

section \<open>Old notices\<close>

definition cleanup_notice :: "gotime \<Rightarrow> gotime \<Rightarrow> routine_notice_context \<Rightarrow> unit io" where
  "cleanup_notice cutoff now notice =
     (let c = nc_Checkin notice; chat = ws_ChatID (nc_Workspace notice) in
      thenM (case (rc_ReminderMessageID c, rc_ReminderSentAt c) of
          (Some m, Some t) \<Rightarrow> whenM (t \<le> gt_ns cutoff) (thenM (closeRoutineNotice chat m (Some t) now)
            (ClearRoutineCheckinReminderMessageID (rc_ID c)))
        | _ \<Rightarrow> ret ())
       (case (rc_AutoCloseNoticeMessageID c, rc_AutoCloseNoticeSentAt c) of
          (Some m, Some t) \<Rightarrow> whenM (t \<le> gt_ns cutoff) (thenM (closeRoutineNotice chat m (Some t) now)
            (ClearRoutineCheckinAutoCloseNoticeMessageID (rc_ID c)))
        | _ \<Rightarrow> ret ()))"

definition CleanupExpiredNotices :: "gotime \<Rightarrow> unit io" where
  "CleanupExpiredNotices now = (let cutoff = t_add (t_in now utc) (- RoutineNoticeMaxAge) in
     bindM (ListExpiredRoutineNoticeContexts cutoff) (\<lambda>notices. for_each notices (cleanup_notice cutoff now)))"

section \<open>Lemmas\<close>

lemma sound_closeRoutineNotice [sound_ops]: "sound (closeRoutineNotice c m s n)"
  unfolding closeRoutineNotice_def by (intro sound_ops)

lemma sound_routine_deletePendingMessages [sound_ops]: "sound (routine_deletePendingMessages c p s n)"
  unfolding routine_deletePendingMessages_def by (rule sound_delete_unseen)

lemma sound_DispatchDueCheckins [sound_ops]: "sound (DispatchDueCheckins now)"
  unfolding DispatchDueCheckins_def dispatch_checkin_def send_checkin_card_def Let_def
  by (intro sound_rules sound_ops)

lemma sound_checkin_transition: "sound (checkin_transition now item)"
  unfolding checkin_transition_def auto_fail_checkin_def send_reminder_def Let_def
  by (intro sound_rules sound_ops)

lemma sound_checkin_transitions: "sound (checkin_transitions now items r)"
  by (induction items arbitrary: r)
    (unfold checkin_transitions.simps, (intro sound_rules sound_checkin_transition | assumption)+)

lemma sound_deliver: "sound (deliverRoutineAutoCloseNotice item now)"
  unfolding deliverRoutineAutoCloseNotice_def update_closed_card_def Let_def
  by (intro sound_rules sound_ops)

lemma sound_close_tx: "sound (close_tx now)"
  unfolding close_tx_def by (intro sound_rules sound_nested_case sound_ops sound_deliver)

lemma sound_close_loop: "sound (close_loop n now r)"
  by (induction n arbitrary: r)
    (unfold close_loop.simps, (intro sound_rules sound_close_tx sound_ops | assumption)+)

lemma sound_RefreshLeaderboard [sound_ops]: "sound (RefreshLeaderboard w c now)"
  unfolding RefreshLeaderboard_def post_leaderboard_def Let_def by (intro sound_rules sound_ops)

lemma sound_retry_workspaces: "sound (retry_workspaces ids r)"
  by (induction ids arbitrary: r) (unfold retry_workspaces.simps, (intro sound_rules sound_ops | assumption)+)

lemma sound_RunCheckinTransitions [sound_ops]: "sound (RunCheckinTransitions n now)"
  unfolding RunCheckinTransitions_def
  by (intro sound_rules sound_ops sound_checkin_transitions sound_close_loop sound_retry_workspaces)

lemma sound_CleanupExpiredNotices [sound_ops]: "sound (CleanupExpiredNotices now)"
  unfolding CleanupExpiredNotices_def cleanup_notice_def Let_def
  by (intro sound_rules sound_ops)

end
