(* ===== verification/App_Goals.thy ===== *)
theory App_Goals imports App_Outbox Store_Goals begin

text \<open>
  \<open>internal/app/goals\<close>: the nudge about the goals of the season, and the worker's part in the
  biweekly and final reviews: prompts, the one reminder of an unanswered review, the skip of one
  that stayed unanswered, and the prompt for the final status.
\<close>

text \<open>A rule whose loop may not end.\<close>

definition rule_loop :: "(tz_database \<Rightarrow> (rule_error + 'a) option) \<Rightarrow> 'a io" where
  "rule_loop f = (\<lambda>w. (case f (e_tzdb (w_env w)) of None \<Rightarrow> Inl FuelExhausted
     | Some (Inl e) \<Rightarrow> Inl (RuleError e) | Some (Inr x) \<Rightarrow> Inr x, w))"

section \<open>The nudge\<close>

text \<open>The empty string is \<open>None\<close>.\<close>

definition MaybeNudge ::
    "workspace \<Rightarrow> participant \<Rightarrow> bytes \<Rightarrow> daily_task_status option \<Rightarrow> gotime \<Rightarrow> msg option io" where
  "MaybeNudge w p seed status nowFallback =
     (if pt_ID p = 0 then ret None
      else bindM (CurrentNow (t_in nowFallback utc)) (\<lambda>now.
      bindM (rule (\<lambda>tzdb. CurrentGoalPeriod tzdb (ws_Timezone w) now)) (\<lambda>period.
      bindM (HasSeasonalGoalSetForParticipant (ws_ID w) (pt_ID p) (gp_key period)) (\<lambda>hasGoals.
      if \<not> hasGoals then ret None
      else bindM (GetGoalNudgeCooldown (ws_ID w) (pt_ID p)) (\<lambda>cooldown.
      if (case cooldown of None \<Rightarrow> False | Some c \<Rightarrow> \<not> GoalNudgeAllowed (Some (gn_LastShownAt c)) now) then ret None
      else if \<not> ShouldShowGoalNudge (seed @ '':'' @ show_int (pt_ID p) @ '':'' @ gp_key period) then ret None
      else thenM (MarkGoalNudgeShown (ws_ID w) (pt_ID p) now)
        (ret (Some (Msg (case status of
            Some DailyTaskFailed \<Rightarrow> ''goal.nudge.failed''
          | Some DailyTaskDone \<Rightarrow> ''goal.nudge.done''
          | Some DailyTaskPartial \<Rightarrow> ''goal.nudge.done''
          | _ \<Rightarrow> ''goal.nudge.task'') []))))))))"

section \<open>Biweekly reviews\<close>

definition errWeeklyReviewDeferred :: goerr where
  "errWeeklyReviewDeferred = PlainError ''weekly review delivery deferred''"

definition errWeeklyReviewNoLongerOpen :: goerr where
  "errWeeklyReviewNoLongerOpen = PlainError ''weekly goal review is no longer open''"

definition goalSourceLink :: "int \<Rightarrow> seasonal_goal_set \<Rightarrow> bytes" where
  "goalSourceLink chatID g = MessageLink chatID (opt0 (gs_SourceMessageID g)) (opt0 (gs_SourceMessageThreadID g))"

definition goalSourceReplyID :: "seasonal_goal_set \<Rightarrow> int \<Rightarrow> int" where
  "goalSourceReplyID g goalsThreadID = (case gs_SourceMessageID g of None \<Rightarrow> 0
     | Some m \<Rightarrow> (case gs_SourceMessageThreadID g of
          Some t \<Rightarrow> if t \<noteq> 0 \<and> t \<noteq> goalsThreadID then 0 else m
        | None \<Rightarrow> m))"

definition nowBeforeLocalDate :: "tz_database \<Rightarrow> gotime \<Rightarrow> bytes \<Rightarrow> gotime \<Rightarrow> bool" where
  "nowBeforeLocalDate tzdb nowUTC tz date = (case load_location tzdb tz of
      Inl e \<Rightarrow> False
    | Inr location \<Rightarrow>
        (let c = t_civil (t_in nowUTC location); d = t_civil date
         in t_before (mk_date (cy c) (cm c) (cd c) 0 location) (mk_date (cy d) (cm d) (cd d) 0 location)))"

definition pendingBelongsToWeeklyReview :: "pending_input \<Rightarrow> int \<Rightarrow> bool" where
  "pendingBelongsToWeeklyReview p reviewID \<longleftrightarrow> pi_Kind p = PendingGoalWeeklyReview
     \<and> (case pi_Payload p ''review_id'' of Some (JFloat n) \<Rightarrow> n = reviewID | Some (JInt n) \<Rightarrow> n = reviewID | _ \<Rightarrow> False)"

definition closeWeeklyReviewPrompt :: "int \<Rightarrow> int \<Rightarrow> int \<Rightarrow> gotime \<Rightarrow> unit io" where
  "closeWeeklyReviewPrompt chatID messageID sentAt nowUTC = CloseBestEffort chatID messageID (utc_time sentAt) nowUTC
     (edit_req 0 0 (TextView ''goals.weekly.closed'') (Some EmptyKeyboard))"

text \<open>The transaction that stores a sent prompt and asks for the answer.\<close>

definition persist_weekly_prompt ::
    "seasonal_goal_set_context \<Rightarrow> topic_binding \<Rightarrow> goal_weekly_review \<Rightarrow> gotime \<Rightarrow> bool \<Rightarrow> int \<Rightarrow> unit io" where
  "persist_weekly_prompt item topic review now reminder messageID = inTx
     (bindM (if reminder then SetGoalWeeklyReviewReminderPrompt (wr_ID review) messageID (tb_ThreadID topic) now
             else SetGoalWeeklyReviewPrompt (wr_ID review) messageID (tb_ThreadID topic) now)
       (\<lambda>updated. if \<not> updated then failM errWeeklyReviewNoLongerOpen
         else thenM (UpsertPendingInput (ws_ID (sc_Workspace item)) (pt_UserID (sc_Participant item)) (tb_ThreadID topic)
             PendingGoalWeeklyReview
             [''review_id'' \<mapsto> JInt (wr_ID review), ''goal_set_id'' \<mapsto> JInt (gs_ID (sc_GoalSet item)),
              ''prompt_message_id'' \<mapsto> JInt messageID, ''thread_id'' \<mapsto> JInt (tb_ThreadID topic)])
           (ret ())))"

definition deliverWeeklyReviewPrompt ::
    "seasonal_goal_set_context \<Rightarrow> topic_binding \<Rightarrow> goal_weekly_review \<Rightarrow> gotime \<Rightarrow> bool \<Rightarrow> unit io" where
  "deliverWeeklyReviewPrompt item topic review now reminder =
     (let g = sc_GoalSet item; p = sc_Participant item; chat = ws_ChatID (sc_Workspace item) in
      bindM (rule_loop (\<lambda>tzdb. GoalReviewCountdown tzdb (date_time (gs_PeriodStartsOn g)) (date_time (gs_PeriodEndsOn g))
          (ws_Timezone (sc_Workspace item)) now)) (\<lambda>(daysLeft, reviewsLeft).
      bindM (tgSendMessage ((send_req chat (tb_ThreadID topic)
          (View ''FormatGoalWeeklyReviewPrompt'' [VGoals g, VStr (pt_DisplayName p), VStr (participantUsername p),
             VStr (goalSourceLink chat g), VInt daysLeft, VInt reviewsLeft]) None)\<lparr>sm_DisableNotification := True\<rparr>))
        (\<lambda>message.
      bindM (err_of (persist_weekly_prompt item topic review now reminder (mg_MessageID message))) (\<lambda>r. case r of
          None \<Rightarrow> ret ()
        | Some persistErr \<Rightarrow>
            bindM (err_of (CompensateSentMessage chat (mg_MessageID message) None)) (\<lambda>cleanupErr.
            if errors_is persistErr errWeeklyReviewNoLongerOpen then raise_opt cleanupErr
            else raise_opt (errors_join [Some persistErr, cleanupErr]))))))"

definition sendWeeklyReviewPrompt ::
    "seasonal_goal_set_context \<Rightarrow> topic_binding \<Rightarrow> goal_weekly_review \<Rightarrow> gotime \<Rightarrow> bool \<Rightarrow> unit io" where
  "sendWeeklyReviewPrompt item topic review now reminder =
     bindM (RunSent (if reminder then ''goal_reminder'' else ''goal_weekly'') (wr_ID review) now
         (deliverWeeklyReviewPrompt item topic review now reminder))
       (\<lambda>sent. if \<not> sent then failM errWeeklyReviewDeferred else ret ())"

definition advanceWeeklyReview ::
    "seasonal_goal_set_context \<Rightarrow> topic_binding \<Rightarrow> goal_weekly_review \<Rightarrow> gotime \<Rightarrow> unit io" where
  "advanceWeeklyReview item topic review now =
     (let w = sc_Workspace item; user = pt_UserID (sc_Participant item); thread = tb_ThreadID topic;
          action = GoalWeeklyReviewLifecycleAction (utc_time (wr_RequestedAt review)) (wr_ReminderSentAt review)
            (wr_RespondedAt review) (wr_SkippedAt review) now in
      if wr_PromptMessageID review = None \<and> wr_ReminderSentAt review = None \<and> action \<noteq> GoalWeeklyReviewSkip then
        bindM (GetPendingInput (ws_ID w) user thread) (\<lambda>pending. case pending of
            Some _ \<Rightarrow> ret ()
          | None \<Rightarrow> sendWeeklyReviewPrompt item topic review now False)
      else (case action of
          GoalWeeklyReviewRemind \<Rightarrow>
            bindM (GetPendingInput (ws_ID w) user thread) (\<lambda>pending.
              if (case pending of None \<Rightarrow> False | Some p \<Rightarrow> \<not> pendingBelongsToWeeklyReview p (wr_ID review)) then ret ()
              else thenM (sendWeeklyReviewPrompt item topic review now True)
                (case wr_PromptMessageID review of None \<Rightarrow> ret ()
                 | Some previous \<Rightarrow> closeWeeklyReviewPrompt (ws_ChatID w) previous (wr_RequestedAt review) now))
        | GoalWeeklyReviewSkip \<Rightarrow>
            thenM (inTx (bindM (MarkGoalWeeklyReviewSkipped (wr_ID review) now) (\<lambda>skipped.
                if \<not> skipped then ret ()
                else ClearGoalWeeklyReviewPendingInput (ws_ID w) user thread (wr_ID review))))
              (case wr_PromptMessageID review of None \<Rightarrow> ret ()
               | Some prompt \<Rightarrow> closeWeeklyReviewPrompt (ws_ChatID w) prompt
                   (case wr_ReminderSentAt review of None \<Rightarrow> wr_RequestedAt review | Some t \<Rightarrow> t) now)
        | GoalWeeklyReviewNoAction \<Rightarrow> ret ()))"

text \<open>A failure other than a deferral ends the loop.\<close>

definition unless_deferred :: "unit io \<Rightarrow> unit io" where
  "unless_deferred m = bindM (err_of m) (\<lambda>r. case r of None \<Rightarrow> ret ()
     | Some err \<Rightarrow> if errors_is err errWeeklyReviewDeferred then ret () else failM err)"

definition weekly_round :: "gotime \<Rightarrow> seasonal_goal_set_context \<Rightarrow> unit io" where
  "weekly_round now item =
     (let g = sc_GoalSet item; w = sc_Workspace item in
      bindM (GetTopicBinding (ws_ID w) TopicGoals) (\<lambda>binding. case binding of
          None \<Rightarrow> ret ()
        | Some topic \<Rightarrow> bindM (GetOpenGoalWeeklyReview (gs_ID g)) (\<lambda>openReview. case openReview of
            Some review \<Rightarrow> unless_deferred (advanceWeeklyReview item topic review now)
          | None \<Rightarrow>
              bindM (getW (\<lambda>w'. nowBeforeLocalDate (e_tzdb (w_env w')) now (ws_Timezone w) (date_time (gs_PeriodEndsOn g))))
                (\<lambda>running. if \<not> running then ret ()
               else bindM (rule (\<lambda>tzdb. GoalWeeklyReviewDue tzdb (date_time (gs_PeriodStartsOn g)) (ws_Timezone w) now))
                (\<lambda>due. case due of
                    None \<Rightarrow> ret ()
                  | Some weekStart \<Rightarrow>
                      bindM (GetPendingInput (ws_ID w) (pt_UserID (sc_Participant item)) (tb_ThreadID topic)) (\<lambda>pending.
                      case pending of
                        Some _ \<Rightarrow> ret ()
                      | None \<Rightarrow> bindM (GetOrCreateGoalWeeklyReview (gs_ID g) weekStart now) (\<lambda>review.
                          if wr_ResponseText review \<noteq> None \<or> wr_SkippedAt review \<noteq> None
                             \<or> wr_PromptMessageID review \<noteq> None then ret ()
                          else unless_deferred (sendWeeklyReviewPrompt item topic review now False))))))))"

definition DispatchWeeklyReviews :: "gotime \<Rightarrow> unit io" where
  "DispatchWeeklyReviews now = bindM ListSeasonalGoalSetContexts (\<lambda>goalSets. for_each goalSets (weekly_round now))"

section \<open>Final reviews\<close>

definition send_final_prompt ::
    "seasonal_goal_set_context \<Rightarrow> topic_binding \<Rightarrow> goal_final_review \<Rightarrow> unit io" where
  "send_final_prompt item topic review =
     (let g = sc_GoalSet item; p = sc_Participant item; chat = ws_ChatID (sc_Workspace item);
          request = (send_req chat (tb_ThreadID topic)
             (View ''FormatGoalFinalReviewPrompt'' [VGoals g, VStr (pt_DisplayName p), VStr (participantUsername p),
                VStr (goalSourceLink chat g)]) (Some (GoalFinalStatusKeyboard (gs_ID g))))
             \<lparr>sm_ReplyToMessageID := goalSourceReplyID g (tb_ThreadID topic), sm_DisableNotification := True\<rparr> in
      bindM (attempt (tgSendMessage request)) (\<lambda>first.
      bindM (case first of
          Inl err \<Rightarrow> if sm_ReplyToMessageID request \<noteq> 0 \<and> IsMissingReplyTarget err
            then tgSendMessage (request\<lparr>sm_ReplyToMessageID := 0\<rparr>) else failM err
        | Inr m \<Rightarrow> ret m) (\<lambda>message.
      bindM (err_of (SetGoalFinalReviewPrompt (fr_ID review) (mg_MessageID message) (tb_ThreadID topic))) (\<lambda>r. case r of
          None \<Rightarrow> ret ()
        | Some err \<Rightarrow> bindM (err_of (CompensateSentMessage chat (mg_MessageID message) None))
            (\<lambda>c. raise_opt (errors_join [Some err, c]))))))"

definition final_round :: "gotime \<Rightarrow> seasonal_goal_set_context \<Rightarrow> unit io" where
  "final_round now item =
     (let g = sc_GoalSet item; w = sc_Workspace item in
      bindM (rule (\<lambda>tzdb. GoalFinalReviewDue tzdb (date_time (gs_PeriodEndsOn g)) (ws_Timezone w) now)) (\<lambda>due.
      if \<not> due then ret ()
      else bindM (GetTopicBinding (ws_ID w) TopicGoals) (\<lambda>binding. case binding of
          None \<Rightarrow> ret ()
        | Some topic \<Rightarrow> bindM (GetOpenGoalWeeklyReview (gs_ID g)) (\<lambda>openReview. case openReview of
            Some _ \<Rightarrow> ret ()
          | None \<Rightarrow> bindM (GetPendingInput (ws_ID w) (pt_UserID (sc_Participant item)) (tb_ThreadID topic)) (\<lambda>pending.
              case pending of
                Some _ \<Rightarrow> ret ()
              | None \<Rightarrow> bindM (GetOrCreateGoalFinalReview (gs_ID g)) (\<lambda>review.
                  if fr_CompletedAt review \<noteq> None \<or> fr_PromptMessageID review \<noteq> None then ret ()
                  else Run ''goal_final'' (fr_ID review) now (send_final_prompt item topic review)))))))"

definition DispatchFinalReviews :: "gotime \<Rightarrow> unit io" where
  "DispatchFinalReviews now = bindM ListSeasonalGoalSetContexts (\<lambda>goalSets. for_each goalSets (final_round now))"

section \<open>Lemmas\<close>

lemma sound_rule_loop [sound_ops]: "sound (rule_loop f)"
  unfolding sound_def by (rule stp.keeps_pure) (simp add: rule_loop_def)

lemma sound_MaybeNudge [sound_ops]: "sound (MaybeNudge w p s st n)"
  unfolding MaybeNudge_def by (intro sound_rules sound_ops)

lemma sound_closeWeekly [sound_ops]: "sound (closeWeeklyReviewPrompt c m s n)"
  unfolding closeWeeklyReviewPrompt_def by (intro sound_ops)

lemma sound_sendWeekly [sound_ops]: "sound (sendWeeklyReviewPrompt item topic review now b)"
  unfolding sendWeeklyReviewPrompt_def deliverWeeklyReviewPrompt_def persist_weekly_prompt_def Let_def
  by (intro sound_rules sound_ops)

lemma sound_weekly_action:
  "sound a \<Longrightarrow> sound b \<Longrightarrow> sound c \<Longrightarrow> sound (case act of GoalWeeklyReviewNoAction \<Rightarrow> a
     | GoalWeeklyReviewRemind \<Rightarrow> b | GoalWeeklyReviewSkip \<Rightarrow> c)"
  by (cases act) simp_all

lemma sound_advance [sound_ops]: "sound (advanceWeeklyReview item topic review now)"
  unfolding advanceWeeklyReview_def Let_def by (intro sound_rules sound_weekly_action sound_ops)

lemma sound_unless_deferred: "sound m \<Longrightarrow> sound (unless_deferred m)"
  unfolding unless_deferred_def by (intro sound_rules)

lemma sound_DispatchWeeklyReviews [sound_ops]: "sound (DispatchWeeklyReviews now)"
  unfolding DispatchWeeklyReviews_def weekly_round_def Let_def
  by (intro sound_rules sound_ops sound_unless_deferred)

lemma sound_DispatchFinalReviews [sound_ops]: "sound (DispatchFinalReviews now)"
  unfolding DispatchFinalReviews_def final_round_def send_final_prompt_def Let_def
  by (intro sound_rules sound_ops)

end
