(* ===== verification/App_Setup.thy ===== *)
theory App_Setup imports Store_Workspace begin

text \<open>
  \<open>internal/app/setup\<close>: what the chat must offer before the bot can be set up, who may set it
  up, and the four forum topics with their bindings. The titles of the topics are the catalogue
  texts of the environment.
\<close>

section \<open>Prerequisites\<close>

record prerequisites =
  pq_IsSupergroup :: bool
  pq_IsForum :: bool
  pq_BotIsAdmin :: bool
  pq_CanManageTopics :: bool
  pq_CanReadMessages :: bool

definition IsReady :: "prerequisites \<Rightarrow> bool" where
  "IsReady p \<longleftrightarrow> pq_IsSupergroup p \<and> pq_IsForum p \<and> pq_BotIsAdmin p \<and> pq_CanManageTopics p \<and> pq_CanReadMessages p"

definition is_owner_status :: "bytes \<Rightarrow> bool" where
  "is_owner_status s \<longleftrightarrow> s = ''creator'' \<or> s = ''owner''"

definition CheckPrerequisites :: "int \<Rightarrow> prerequisites io" where
  "CheckPrerequisites chatID = bindM (tgGetChat chatID) (\<lambda>chat.
     bindM (getW (\<lambda>w. e_BotID (w_env w))) (\<lambda>botID.
     bindM (tgGetChatMember chatID botID) (\<lambda>member.
       let isOwner = is_owner_status (cm_Status member);
           isAdmin = (isOwner \<or> cm_Status member = ''administrator'') in
       ret \<lparr>pq_IsSupergroup = (ch_Type chat = ''supergroup''), pq_IsForum = ch_IsForum chat, pq_BotIsAdmin = isAdmin,
         pq_CanManageTopics = (isOwner \<or> cm_CanManageTopics member), pq_CanReadMessages = isAdmin\<rparr>)))"

definition IsGroupAdmin :: "int \<Rightarrow> int \<Rightarrow> bool io" where
  "IsGroupAdmin chatID userID = bindM (tgGetChatMember chatID userID) (\<lambda>member.
     ret (is_owner_status (cm_Status member) \<or> cm_Status member = ''administrator''))"

section \<open>Topics\<close>

fun topic_title_key :: "topic_key \<Rightarrow> bytes" where
  "topic_title_key TopicToday = ''topic.today.title''"
| "topic_title_key TopicRoutine = ''topic.routine.title''"
| "topic_title_key TopicGoals = ''topic.goals.title''"
| "topic_title_key TopicProgress = ''topic.progress.title''"

definition TopicTitles :: "topic_key \<Rightarrow> bytes io" where
  "TopicTitles key = getW (\<lambda>w. e_text (w_env w) (topic_title_key key))"

definition create_topic :: "int \<Rightarrow> int \<Rightarrow> topic_key \<Rightarrow> bytes \<Rightarrow> int io" where
  "create_topic wid chatID key title = bindM (tgCreateForumTopic chatID title) (\<lambda>thread.
     thenM (UpsertTopicBinding wid key thread title) (ret thread))"

definition ensureTopicBinding ::
    "int \<Rightarrow> (topic_key \<Rightarrow> topic_binding option) \<Rightarrow> int \<Rightarrow> topic_key \<Rightarrow> (int \<times> bool) io" where
  "ensureTopicBinding wid existing chatID key = bindM (TopicTitles key) (\<lambda>title. case existing key of
      None \<Rightarrow> bindM (create_topic wid chatID key title) (\<lambda>thread. ret (thread, True))
    | Some binding \<Rightarrow>
        bindM (err_of (tgEditForumTopic chatID (tb_ThreadID binding) title)) (\<lambda>r. case r of
            Some err \<Rightarrow>
              if \<not> IsMissingThreadError err then failM err
              else bindM (create_topic wid chatID key title) (\<lambda>thread.
                thenM (SetTopicMessages wid key None None True True) (ret (thread, True)))
          | None \<Rightarrow>
              if tb_TopicTitle binding \<noteq> title then
                thenM (UpsertTopicBinding wid key (tb_ThreadID binding) title) (ret (tb_ThreadID binding, True))
              else ret (tb_ThreadID binding, False)))"

fun ensure_topics ::
    "int \<Rightarrow> (topic_key \<Rightarrow> topic_binding option) \<Rightarrow> int \<Rightarrow> topic_key list \<Rightarrow> (topic_key \<Rightarrow> int) \<Rightarrow> bool
     \<Rightarrow> ((topic_key \<Rightarrow> int) \<times> bool) io" where
  "ensure_topics wid existing chatID [] threadIDs changed = ret (threadIDs, changed)"
| "ensure_topics wid existing chatID (key # keys) threadIDs changed =
     bindM (ensureTopicBinding wid existing chatID key) (\<lambda>(thread, topicChanged).
       ensure_topics wid existing chatID keys (threadIDs(key := thread)) (changed \<or> topicChanged))"

definition EnsureWorkspaceTopics :: "int \<Rightarrow> bytes \<Rightarrow> bytes \<Rightarrow> ((topic_key \<Rightarrow> int) \<times> bool) io" where
  "EnsureWorkspaceTopics chatID title timezone = inTx (
     bindM (GetOrCreateWorkspace chatID title timezone) (\<lambda>w.
     bindM (ListTopicBindings (ws_ID w)) (\<lambda>existing.
     bindM (ensure_topics (ws_ID w) existing chatID [TopicToday, TopicRoutine, TopicGoals, TopicProgress] (\<lambda>_. 0) False)
       (\<lambda>res. thenM (MarkWorkspaceReady (ws_ID w)) (ret res)))))"

section \<open>Lemmas\<close>

lemma sound_CheckPrerequisites [sound_ops]: "sound (CheckPrerequisites c)"
  unfolding CheckPrerequisites_def Let_def by (intro sound_rules)

lemma sound_IsGroupAdmin [sound_ops]: "sound (IsGroupAdmin c u)"
  unfolding IsGroupAdmin_def by (intro sound_rules)

lemma sound_ensureTopicBinding: "sound (ensureTopicBinding wid ex c key)"
  unfolding ensureTopicBinding_def create_topic_def TopicTitles_def
  by (intro sound_rules sound_ops)

lemma sound_ensure_topics: "sound (ensure_topics wid ex c keys th ch)"
  by (induction keys arbitrary: th ch)
    (unfold ensure_topics.simps, (intro sound_rules sound_ensureTopicBinding | assumption)+)

lemma sound_EnsureWorkspaceTopics [sound_ops]: "sound (EnsureWorkspaceTopics c t z)"
  unfolding EnsureWorkspaceTopics_def by (intro sound_rules sound_ops sound_ensure_topics)

end
