(* ===== verification/Input.thy ===== *)
theory Input imports Telegram begin

text \<open>
  \<open>internal/telegram/input.go\<close>: what the bot takes from a message. A text is kept as HTML: its
  characters are escaped and the tags of its entities are inserted at their positions, which
  Telegram counts in UTF-16 units. \<open>txt\<close> is \<open>messages.Text\<close>, the catalog of texts.
\<close>

section \<open>Runes\<close>

text \<open>\<open>[]rune(text)\<close> decodes UTF-8 as \<open>utf8.DecodeRune\<close> does: a byte that starts no valid sequence is U+FFFD.\<close>

definition cont_byte :: "nat \<Rightarrow> nat \<Rightarrow> bytes \<Rightarrow> nat option" where
  "cont_byte lo hi s = (case s of [] \<Rightarrow> None
     | c # _ \<Rightarrow> if lo \<le> of_char c \<and> of_char c \<le> (hi :: nat) then Some (of_char c mod 64) else None)"

definition decode_rune :: "char \<Rightarrow> bytes \<Rightarrow> nat \<times> nat" where
  "decode_rune c s = (let b = (of_char c :: nat);
       lo2 = (if b = 0xE0 then 0xA0 else if b = 0xF0 then 0x90 else 0x80);
       hi2 = (if b = 0xED then 0x9F else if b = 0xF4 then 0x8F else 0xBF);
       c2 = cont_byte lo2 hi2 s; c3 = cont_byte 0x80 0xBF (drop 1 s); c4 = cont_byte 0x80 0xBF (drop 2 s);
       bad = (0xFFFD, 1) in
     if b < 0x80 then (b, 1)
     else if 0xC2 \<le> b \<and> b \<le> 0xDF then (case c2 of Some x \<Rightarrow> (b mod 32 * 64 + x, 2) | None \<Rightarrow> bad)
     else if 0xE0 \<le> b \<and> b \<le> 0xEF then
       (case (c2, c3) of (Some x, Some y) \<Rightarrow> (b mod 16 * 4096 + x * 64 + y, 3) | _ \<Rightarrow> bad)
     else if 0xF0 \<le> b \<and> b \<le> 0xF4 then
       (case (c2, c3, c4) of (Some x, Some y, Some z) \<Rightarrow> (b mod 8 * 262144 + x * 4096 + y * 64 + z, 4) | _ \<Rightarrow> bad)
     else bad)"

fun runes_of :: "bytes \<Rightarrow> nat list" where
  "runes_of [] = []"
| "runes_of (c # cs) = (let (r, n) = decode_rune c cs in r # runes_of (drop (n - 1) cs))"

definition encode_rune :: "nat \<Rightarrow> bytes" where
  "encode_rune r =
     (if r < 0x80 then [byte r]
      else if r < 0x800 then [byte (0xC0 + r div 64), byte (0x80 + r mod 64)]
      else if r < 0x10000 then [byte (0xE0 + r div 4096), byte (0x80 + r div 64 mod 64), byte (0x80 + r mod 64)]
      else [byte (0xF0 + r div 262144), byte (0x80 + r div 4096 mod 64), byte (0x80 + r div 64 mod 64), byte (0x80 + r mod 64)])"

definition utf8 :: "nat list \<Rightarrow> bytes" where "utf8 rs = concat (map encode_rune rs)"

section \<open>HTML\<close>

definition escape_char :: "char \<Rightarrow> bytes" where
  "escape_char c = (if c = CHR ''&'' then ''&amp;'' else if c = CHR 0x27 then ''&#39;''
     else if c = CHR ''<'' then ''&lt;'' else if c = CHR ''>'' then ''&gt;'' else if c = CHR 0x22 then ''&#34;'' else [c])"

definition EscapeString :: "bytes \<Rightarrow> bytes" where "EscapeString s = concat (map escape_char s)"

definition quote :: bytes where "quote = [CHR 0x22]"

definition entityTags :: "message_entity \<Rightarrow> bytes \<times> bytes" where
  "entityTags e = (let t = me_Type e in
     if t = ''bold'' then (''<b>'', ''</b>'') else if t = ''italic'' then (''<i>'', ''</i>'')
     else if t = ''underline'' then (''<u>'', ''</u>'') else if t = ''strikethrough'' then (''<s>'', ''</s>'')
     else if t = ''spoiler'' then (''<tg-spoiler>'', ''</tg-spoiler>'') else if t = ''code'' then (''<code>'', ''</code>'')
     else if t = ''pre'' then (''<pre>'', ''</pre>'')
     else if t = ''blockquote'' then (''<blockquote>'', ''</blockquote>'')
     else if t = ''text_link'' then (''<a href='' @ quote @ EscapeString (me_URL e) @ quote @ ''>'', ''</a>'')
     else ([], []))"

text \<open>The map from UTF-16 positions to rune positions: \<open>units\<close> have been counted before rune \<open>i\<close>.\<close>

fun unit_index :: "nat list \<Rightarrow> nat \<Rightarrow> int \<Rightarrow> int \<Rightarrow> nat option" where
  "unit_index [] i units u = (if u = units then Some i else None)"
| "unit_index (r # rs) i units u = (if u = units then Some i
     else unit_index rs (Suc i) (units + (if r \<le> 0xFFFF then 1 else 2)) u)"

definition utf16UnitToRuneIndex :: "nat list \<Rightarrow> int \<Rightarrow> nat option" where
  "utf16UnitToRuneIndex runes u = unit_index runes 0 0 u"

record tag =
  tag_pos :: nat
  tag_text :: bytes
  tag_closer :: bool

definition tags_of :: "nat list \<Rightarrow> message_entity \<Rightarrow> tag list" where
  "tags_of runes e = (case (utf16UnitToRuneIndex runes (me_Offset e), utf16UnitToRuneIndex runes (me_Offset e + me_Length e)) of
      (Some start, Some end') \<Rightarrow> (let (opening, closing) = entityTags e in
         if opening = [] \<and> closing = [] then []
         else [\<lparr>tag_pos = start, tag_text = opening, tag_closer = False\<rparr>,
               \<lparr>tag_pos = end', tag_text = closing, tag_closer = True\<rparr>])
    | _ \<Rightarrow> [])"

text \<open>The stable order of the tags: by position, closers first.\<close>

definition sort_tags :: "tag list \<Rightarrow> tag list" where
  "sort_tags = sort_key (\<lambda>t. 2 * tag_pos t + (if tag_closer t then 0 else 1))"

fun write_runes :: "nat \<Rightarrow> nat list \<Rightarrow> tag list \<Rightarrow> bytes" where
  "write_runes i [] tags = concat (map tag_text tags)"
| "write_runes i (r # rs) tags = concat (map tag_text (takeWhile (\<lambda>t. tag_pos t = i) tags))
     @ EscapeString (encode_rune r) @ write_runes (Suc i) rs (dropWhile (\<lambda>t. tag_pos t = i) tags)"

definition renderEntitiesHTML :: "bytes \<Rightarrow> message_entity list \<Rightarrow> bytes" where
  "renderEntitiesHTML text entities =
     (if text = [] then [] else if entities = [] then EscapeString text
      else (let runes = runes_of text in write_runes 0 runes (sort_tags (concat (map (tags_of runes) entities)))))"

section \<open>The input\<close>

definition MessageInputKind :: "message \<Rightarrow> bytes" where
  "MessageInputKind m = (if mg_Text m \<noteq> [] \<or> mg_Caption m \<noteq> [] then ''text'' else ''non_text'')"

definition attachment_pair :: "(bytes \<Rightarrow> bytes) \<Rightarrow> bytes \<Rightarrow> (bytes \<Rightarrow> bytes \<Rightarrow> bytes) \<Rightarrow> bytes \<times> bytes \<Rightarrow> bytes" where
  "attachment_pair txt key both p = (case p of (a, b) \<Rightarrow>
     if a \<noteq> [] \<and> b \<noteq> [] then txt key @ '': '' @ both a b else if a \<noteq> [] then txt key @ '': '' @ a else txt key)"

definition attachment_name :: "(bytes \<Rightarrow> bytes) \<Rightarrow> bytes \<Rightarrow> bytes \<Rightarrow> bytes" where
  "attachment_name txt key name = (if name \<noteq> [] then txt key @ '': '' @ name else txt key)"

definition MessageInputText :: "(bytes \<Rightarrow> bytes) \<Rightarrow> message \<Rightarrow> bytes" where
  "MessageInputText txt m =
     (if mg_Text m \<noteq> [] then mg_Text m
      else if mg_Caption m \<noteq> [] then mg_Caption m
      else if mg_Voice m then txt ''input.voice''
      else if mg_VideoNote m then txt ''input.video_note''
      else if mg_Video m then txt ''input.video''
      else if 0 < mg_Photos m then txt ''input.photo''
      else if mg_Audio m \<noteq> None then
        attachment_pair txt ''input.audio'' (\<lambda>title performer. performer @ '' - '' @ title) (the (mg_Audio m))
      else if mg_Document m \<noteq> None then attachment_name txt ''input.document'' (the (mg_Document m))
      else if mg_Animation m then txt ''input.animation''
      else if mg_Sticker m \<noteq> None then
        (if the (mg_Sticker m) \<noteq> [] then txt ''input.sticker'' @ '' '' @ the (mg_Sticker m) else txt ''input.sticker'')
      else if mg_Contact m \<noteq> None then
        attachment_pair txt ''input.contact'' (\<lambda>name phone. name @ '' ('' @ phone @ '')'') (the (mg_Contact m))
      else if mg_Location m \<noteq> None then
        txt ''input.location'' @ '': '' @ fst (the (mg_Location m)) @ '', '' @ snd (the (mg_Location m))
      else if mg_Venue m \<noteq> None then
        attachment_pair txt ''input.venue'' (\<lambda>title address. title @ '', '' @ address) (the (mg_Venue m))
      else if mg_Poll m \<noteq> None then attachment_name txt ''input.poll'' (the (mg_Poll m))
      else if mg_Dice m \<noteq> None then
        (case the (mg_Dice m) of (emoji, value) \<Rightarrow>
           if emoji \<noteq> [] \<and> value \<noteq> 0 then txt ''input.dice'' @ '' '' @ emoji @ '': '' @ show_int value else txt ''input.dice'')
      else if mg_Game m \<noteq> None then attachment_name txt ''input.game'' (the (mg_Game m))
      else if mg_Invoice m \<noteq> None then attachment_name txt ''input.invoice'' (the (mg_Invoice m))
      else txt ''input.message'')"

definition MessageInputHTML :: "(bytes \<Rightarrow> bytes) \<Rightarrow> message \<Rightarrow> bytes" where
  "MessageInputHTML txt m =
     (if mg_Text m \<noteq> [] then renderEntitiesHTML (mg_Text m) (mg_Entities m)
      else if mg_Caption m \<noteq> [] then renderEntitiesHTML (mg_Caption m) (mg_CaptionEntities m)
      else EscapeString (MessageInputText txt m))"

record message_input =
  in_Kind :: bytes
  in_TextHTML :: bytes
  in_ThreadID :: int
  in_MessageID :: int
  in_UserID :: int

definition NewMessageInput :: "(bytes \<Rightarrow> bytes) \<Rightarrow> message \<Rightarrow> message_input" where
  "NewMessageInput txt m = \<lparr>in_Kind = MessageInputKind m, in_TextHTML = MessageInputHTML txt m,
     in_ThreadID = mg_MessageThreadID m, in_MessageID = mg_MessageID m,
     in_UserID = (case mg_From m of None \<Rightarrow> 0 | Some u \<Rightarrow> us_ID u)\<rparr>"

end
