(* ===== verification/Bot_Messages.thy ===== *)
theory Bot_Messages imports App_Routine App_Goals App_Setup Input begin

text \<open>
  The parts of \<open>internal/bot\<close> that its handlers share: \<open>message_lifecycle.go\<close>,
  \<open>setup_prompt_lifecycle.go\<close>, \<open>callback_authorization.go\<close> and the helpers at the end of
  \<open>service.go\<close>. The text of a callback answer is its key in the catalogue, empty for none. A
  handler gives its answer and its error; where it fails before it has an answer the model fails.
  Log lines are left out.
\<close>

type_synonym handler = "(bytes \<times> goerr option) io"

definition answer_text :: "bytes \<Rightarrow> handler" where "answer_text key = ret (key, None)"

definition no_answer :: handler where "no_answer = ret ([], None)"

text \<open>A step of a handler that sets no answer.\<close>

definition step :: "unit io \<Rightarrow> handler" where "step m = thenM m no_answer"

definition unless_unmodified :: "unit io \<Rightarrow> unit io" where
  "unless_unmodified m = bindM (err_of m) (\<lambda>r. case r of None \<Rightarrow> ret ()
     | Some e \<Rightarrow> if IsNotModifiedError e then ret () else failM e)"

section \<open>Messages\<close>

definition dailyEntryStatusKeyboard :: "daily_task \<Rightarrow> keyboard" where
  "dailyEntryStatusKeyboard task = (if is_summary (tk_Kind task) then DailySummaryStatusKeyboard (tk_ID task)
     else DailyTaskStatusKeyboard (tk_ID task))"

definition dailyTaskCardKeyboard :: "daily_task \<Rightarrow> keyboard option" where
  "dailyTaskCardKeyboard task = (if is_open (tk_Status task)
     then Some (if is_summary (tk_Kind task) then DailySummaryStatusKeyboard (tk_ID task) else DailyTaskKeyboard (tk_ID task))
     else None)"

definition showDailyEntryStatus :: "int \<Rightarrow> int \<Rightarrow> daily_task \<Rightarrow> unit io" where
  "showDailyEntryStatus chatID messageID task = unless_unmodified (tgEditMessageText
     (edit_req chatID messageID (TextView ''task.status.prompt'') (Some (dailyEntryStatusKeyboard task))))"

definition dismissTelegramMessage :: "int \<Rightarrow> int \<Rightarrow> unit io" where
  "dismissTelegramMessage chatID messageID =
     (if messageID = 0 then ret ()
      else bindM (err_of (tgDeleteMessage chatID messageID)) (\<lambda>deleteErr. case deleteErr of
          None \<Rightarrow> ret ()
        | Some de \<Rightarrow>
            bindM (err_of (tgEditMessageText
                (edit_req chatID messageID (TextView ''notice.dismissed'') (Some EmptyKeyboard)))) (\<lambda>editErr. case editErr of
                None \<Rightarrow> ret ()
              | Some ee \<Rightarrow>
                  if IsNotModifiedError ee then ret ()
                  else bindM (err_of (tgEditMessageReplyMarkup chatID messageID None)) (\<lambda>markupErr. case markupErr of
                      None \<Rightarrow> ret ()
                    | Some me \<Rightarrow> failM (JoinedError [de, ee, me])))))"

definition editMessageSafe :: "int \<Rightarrow> int \<Rightarrow> view \<Rightarrow> keyboard option \<Rightarrow> bool io" where
  "editMessageSafe chatID messageID text keyboard =
     (if messageID = 0 then ret False
      else bindM (err_of (tgEditMessageText (edit_req chatID messageID text keyboard))) (\<lambda>r. ret (r = None)))"

definition silent_req :: "int \<Rightarrow> int \<Rightarrow> view \<Rightarrow> keyboard option \<Rightarrow> send_message_request" where
  "silent_req chatID threadID text keyboard = SilentMessage (send_req chatID threadID text keyboard)"

definition truncateProgressAlertError :: "bytes \<Rightarrow> bytes" where
  "truncateProgressAlertError text = (if length text \<le> 300 then text else take 300 text @ ''...'')"

definition editMessageOrQueueProgressAlert :: "workspace \<Rightarrow> edit_message_request \<Rightarrow> bytes \<Rightarrow> int \<Rightarrow> unit io" where
  "editMessageOrQueueProgressAlert w request targetKey threadID =
     bindM (err_of (tgEditMessageText request)) (\<lambda>r. case r of
        None \<Rightarrow> ret ()
      | Some err \<Rightarrow>
          if IsNotModifiedError err then ret ()
          else bindM (getW (\<lambda>v. e_text (w_env v) targetKey)) (\<lambda>target.
            thenM (CreateProgressEvent (ws_ID w) ProgressSystemAlert
              [''kind'' \<mapsto> JStr ''edit_failed'', ''target'' \<mapsto> JStr target, ''message_id'' \<mapsto> JInt (em_MessageID request),
               ''message'' \<mapsto> JStr (MessageLink (em_ChatID request) (em_MessageID request) threadID),
               ''error'' \<mapsto> JStr (truncateProgressAlertError (err_text err))] None None) (ret ())))"

text \<open>The published events of an entry follow its new text.\<close>

definition refresh_events :: "workspace \<Rightarrow> int \<Rightarrow> progress_event list \<Rightarrow> unit io" where
  "refresh_events w chatID events = for_each events (\<lambda>event. case pe_PublishedMessageID event of
      None \<Rightarrow> ret ()
    | Some m \<Rightarrow> editMessageOrQueueProgressAlert w (edit_req chatID m (progress_view event) None)
        ''progress.edit_failed.target_progress_message'' 0)"

definition dismissAlertMessage :: "int \<Rightarrow> daily_task_alert \<Rightarrow> int \<Rightarrow> unit io" where
  "dismissAlertMessage chatID alert fallbackMessageID =
     (let messageID = (if opt0 (al_TelegramMessageID alert) = 0 then fallbackMessageID else opt0 (al_TelegramMessageID alert)) in
      thenM (dismissTelegramMessage chatID messageID)
        (bindM time_now (\<lambda>now. AcknowledgeAlert (al_ID alert) now)))"

definition dismissTaskAlerts :: "int \<Rightarrow> int \<Rightarrow> unit io" where
  "dismissTaskAlerts chatID taskID = bindM (ListAlertsForTask taskID)
     (\<lambda>alerts. for_each alerts (\<lambda>alert. dismissAlertMessage chatID alert 0))"

section \<open>Inputs\<close>

fun pending_kind_str :: "pending_input_kind \<Rightarrow> bytes" where
  "pending_kind_str PendingDailyTaskText = ''daily_task_text''"
| "pending_kind_str PendingDailyTaskReport = ''daily_task_report''"
| "pending_kind_str PendingDailySummaryReport = ''daily_summary_report''"
| "pending_kind_str PendingRoutinePlan = ''routine_plan''"
| "pending_kind_str PendingRoutineReason = ''routine_reason''"
| "pending_kind_str PendingSeasonalGoals = ''seasonal_goals''"
| "pending_kind_str PendingGoalWeeklyReview = ''goal_weekly_review''"
| "pending_kind_str PendingGoalFinalReflection = ''goal_final_reflection''"

definition pendingBusyText :: "pending_input_kind \<Rightarrow> bytes" where
  "pendingBusyText kind = ''pending.'' @ pending_kind_str kind"

definition messagePlainText :: "message \<Rightarrow> bytes" where
  "messagePlainText m = (if mg_Text m \<noteq> [] then mg_Text m else mg_Caption m)"

definition message_input_of :: "message \<Rightarrow> message_input io" where
  "message_input_of m = getW (\<lambda>w. NewMessageInput (e_text (w_env w)) m)"

text \<open>The first field of a string that starts with no white space.\<close>

fun first_field :: "bytes \<Rightarrow> bytes" where
  "first_field [] = []"
| "first_field (c # s) = (if list_ex (has_prefix (c # s)) space_runes then [] else c # first_field s)"

definition isCommand :: "bytes \<Rightarrow> bytes \<Rightarrow> bool" where
  "isCommand text command \<longleftrightarrow> trim_space text \<noteq> []
     \<and> takeWhile (\<lambda>c. c \<noteq> CHR 0x40) (first_field (trim_space text)) = command"

definition appendPayloadInt64 :: "payload \<Rightarrow> bytes \<Rightarrow> int \<Rightarrow> payload" where
  "appendPayloadInt64 payload key value = (let values = payloadInt64Slice payload key in
     payload(key \<mapsto> JInts (if value \<in> set values then values else values @ [value])))"

definition refreshPendingInputActivity :: "int \<Rightarrow> int \<Rightarrow> int \<Rightarrow> pending_input \<Rightarrow> int \<Rightarrow> unit io" where
  "refreshPendingInputActivity wid userID threadID pending userMessageID =
     thenM (UpsertPendingInput wid userID threadID (pi_Kind pending)
       (appendPayloadInt64 (pi_Payload pending) ''user_message_ids'' userMessageID)) (ret ())"

definition deletePendingUserMessages :: "int \<Rightarrow> payload \<Rightarrow> unit io" where
  "deletePendingUserMessages chatID payload = for_each (payloadInt64Slice payload ''user_message_ids'')
     (\<lambda>m. ignore (tgDeleteMessage chatID m))"

definition ensureWorkspaceLoaded :: "int \<Rightarrow> workspace option io" where
  "ensureWorkspaceLoaded chatID = GetWorkspaceByChatID chatID"

text \<open>
  The callers of \<open>ensureWorkspaceLoaded\<close>: an unknown chat or a failed read ends the handler, with
  the answer it gives then.
\<close>

definition with_workspace :: "int \<Rightarrow> bytes \<Rightarrow> (workspace \<Rightarrow> handler) \<Rightarrow> handler" where
  "with_workspace chatID missing f = bindM (attempt (ensureWorkspaceLoaded chatID)) (\<lambda>r. case r of
      Inl err \<Rightarrow> ret (missing, Some err)
    | Inr found \<Rightarrow> (case found of
          None \<Rightarrow> ret (missing, None)
        | Some w \<Rightarrow> if ws_ID w = 0 then ret (missing, None) else f w))"

section \<open>The setup prompt of routines and goals\<close>

definition register_user :: "int \<Rightarrow> tg_user \<Rightarrow> participant io" where
  "register_user wid user = RegisterParticipant wid (us_ID user) (us_Username user) (DisplayName user)"

definition send_setup_prompt :: "workspace \<Rightarrow> tg_user \<Rightarrow> message \<Rightarrow> pending_input_kind \<Rightarrow> view \<Rightarrow> handler" where
  "send_setup_prompt w user msg kind text =
     (let chatID = ch_ID (mg_Chat msg); threadID = mg_MessageThreadID msg in
      bindM (tgSendMessage (silent_req chatID threadID text None)) (\<lambda>prompt.
      bindM (err_of (UpsertPendingInput (ws_ID w) (us_ID user) threadID kind
          [''thread_id'' \<mapsto> JInt threadID, ''prompt_message_id'' \<mapsto> JInt (mg_MessageID prompt)])) (\<lambda>r. case r of
          Some err \<Rightarrow> thenM (ignore (tgDeleteMessage chatID (mg_MessageID prompt))) (failM err)
        | None \<Rightarrow> no_answer)))"

definition openSetupPrompt :: "workspace \<Rightarrow> tg_user \<Rightarrow> message \<Rightarrow> pending_input_kind \<Rightarrow> view \<Rightarrow> handler" where
  "openSetupPrompt w user msg kind text = inTxVar [] (
     thenM (register_user (ws_ID w) user)
     (bindM (GetPendingInput (ws_ID w) (us_ID user) (mg_MessageThreadID msg)) (\<lambda>found. case found of
         None \<Rightarrow> send_setup_prompt w user msg kind text
       | Some pending \<Rightarrow>
           if pi_Kind pending \<noteq> kind then answer_text (pendingBusyText (pi_Kind pending))
           else (let messageID = payloadInt64 (pi_Payload pending) ''prompt_message_id'' in
             if messageID = 0 then send_setup_prompt w user msg kind text
             else bindM (err_of (tgEditMessageText (edit_req (ch_ID (mg_Chat msg)) messageID text None))) (\<lambda>r. case r of
                 None \<Rightarrow> answer_text (pendingBusyText kind)
               | Some err \<Rightarrow>
                   if IsNotModifiedError err then answer_text (pendingBusyText kind)
                   else if \<not> IsMissingEditTarget err then
                     failM (WrappedError (''verify '' @ pending_kind_str kind @ '' setup prompt'') err)
                   else send_setup_prompt w user msg kind text)))))"

section \<open>Authorization\<close>

text \<open>
  \<open>None\<close> allows the callback, \<open>Some key\<close> denies it with that answer; an error denies it too.
\<close>

definition stale :: "bytes" where "stale = ''callback.stale_button''"

definition owner_only :: "bytes" where "owner_only = ''callback.owner_only''"

definition authorizeOwnedCallback :: "tg_user \<Rightarrow> message \<Rightarrow> int \<Rightarrow> int \<Rightarrow> bytes option io" where
  "authorizeOwnedCallback user msg wid owner = bindM (GetWorkspaceByChatID (ch_ID (mg_Chat msg))) (\<lambda>found. case found of
      None \<Rightarrow> ret (Some stale)
    | Some w \<Rightarrow> if ws_ID w \<noteq> wid then ret (Some stale)
        else if us_ID user \<noteq> owner then ret (Some owner_only)
        else ret None)"

definition is_group :: "tg_chat \<Rightarrow> bool" where
  "is_group c \<longleftrightarrow> ch_Type c = ''group'' \<or> ch_Type c = ''supergroup''"

definition or_stale :: "('a \<Rightarrow> bytes option io) \<Rightarrow> 'a option \<Rightarrow> bytes option io" where
  "or_stale f found = (case found of None \<Rightarrow> ret (Some stale) | Some x \<Rightarrow> f x)"

definition authorize_task :: "tg_user \<Rightarrow> message \<Rightarrow> int \<Rightarrow> bytes option io" where
  "authorize_task user msg taskID = bindM (GetTask taskID)
     (or_stale (\<lambda>task. authorizeOwnedCallback user msg (tk_WorkspaceGroupID task) (tk_OwnerUserID task)))"

definition authorizeCallback :: "tg_user \<Rightarrow> message \<Rightarrow> callback \<Rightarrow> bytes option io" where
  "authorizeCallback user msg parsed =
     (if \<not> is_group (mg_Chat msg) then ret (Some stale)
      else (case cb_Kind parsed of
          CallbackSetupCheck \<Rightarrow> ret None
        | CallbackTodayAdd \<Rightarrow> ret None
        | CallbackRoutineConfigure \<Rightarrow> ret None
        | CallbackGoalsConfigure \<Rightarrow> ret None
        | CallbackSetupStart \<Rightarrow> bindM (IsGroupAdmin (ch_ID (mg_Chat msg)) (us_ID user))
            (\<lambda>isAdmin. ret (if isAdmin then None else Some ''callback.setup.admin_only''))
        | CallbackTaskReport \<Rightarrow> authorize_task user msg (cb_TaskID parsed)
        | CallbackTaskStatus \<Rightarrow> authorize_task user msg (cb_TaskID parsed)
        | CallbackAlertAck \<Rightarrow> bindM (GetAlert (cb_AlertID parsed))
            (or_stale (\<lambda>alert. authorize_task user msg (al_DailyTaskID alert)))
        | CallbackRoutineItem \<Rightarrow> bindM (GetRoutineCheckin (cb_RoutineCheckinID parsed))
            (or_stale (\<lambda>c. authorizeOwnedCallback user msg (rc_WorkspaceGroupID c) (rc_OwnerUserID c)))
        | CallbackGoalFinalStatus \<Rightarrow> bindM (GetSeasonalGoalSet (cb_GoalSetID parsed))
            (or_stale (\<lambda>g. authorizeOwnedCallback user msg (gs_WorkspaceGroupID g) (gs_OwnerUserID g)))
        | CallbackGoalFinalComplete \<Rightarrow> bindM (GetSeasonalGoalSet (cb_GoalSetID parsed))
            (or_stale (\<lambda>g. authorizeOwnedCallback user msg (gs_WorkspaceGroupID g) (gs_OwnerUserID g)))
        | CallbackNoticeDismiss \<Rightarrow> ret (if us_ID user \<noteq> cb_NoticeOwnerUserID parsed then Some owner_only else None)
        | CallbackUnknown \<Rightarrow> ret (Some stale)))"

section \<open>Lemmas\<close>

lemma sound_handler_ends: "sound (answer_text k)" "sound no_answer" "sound m \<Longrightarrow> sound (step m)"
  unfolding step_def answer_text_def no_answer_def by (intro sound_rules | assumption)+

lemma sound_message_ops [sound_ops]:
  "sound (showDailyEntryStatus c m t)" "sound (dismissTelegramMessage c m)" "sound (editMessageSafe c m v kb)"
  unfolding showDailyEntryStatus_def unless_unmodified_def dismissTelegramMessage_def editMessageSafe_def
  by (intro sound_rules)+

lemma sound_editOrQueue [sound_ops]: "sound (editMessageOrQueueProgressAlert w r t th)"
  unfolding editMessageOrQueueProgressAlert_def by (intro sound_rules sound_ops)

lemma sound_refresh_events [sound_ops]: "sound (refresh_events w c es)"
  unfolding refresh_events_def by (intro sound_rules sound_ops)

lemma sound_alert_messages [sound_ops]: "sound (dismissAlertMessage c a m)" "sound (dismissTaskAlerts c i)"
  unfolding dismissTaskAlerts_def dismissAlertMessage_def Let_def by (intro sound_rules sound_ops)+

lemma sound_input_ops [sound_ops]:
  "sound (message_input_of m)" "sound (refreshPendingInputActivity w u t p m')" "sound (deletePendingUserMessages c pl)"
  "sound (ensureWorkspaceLoaded c)" "sound (register_user w us)"
  unfolding message_input_of_def refreshPendingInputActivity_def deletePendingUserMessages_def ensureWorkspaceLoaded_def
    register_user_def by (intro sound_rules sound_ops)+

lemma sound_with_workspace: "(\<And>w. sound (f w)) \<Longrightarrow> sound (with_workspace c k f)"
  unfolding with_workspace_def by (intro sound_rules sound_ops sound_nested_case | assumption)+

lemma sound_openSetupPrompt [sound_ops]: "sound (openSetupPrompt w u m k t)"
  unfolding openSetupPrompt_def send_setup_prompt_def Let_def
  by (intro sound_rules sound_ops sound_handler_ends)

text \<open>The gate itself changes no data.\<close>

lemma unchanged_reads:
  "keeps (=) (GetTask i)" "keeps (=) (GetAlert i)" "keeps (=) (GetRoutineCheckin i)" "keeps (=) (GetSeasonalGoalSet i)"
  "keeps (=) (GetWorkspaceByChatID c)" "keeps (=) (IsGroupAdmin c u)"
  unfolding GetTask_def GetAlert_def GetRoutineCheckin_def with_items_def ListRoutineCheckinItems_def
    GetSeasonalGoalSet_def GetWorkspaceByChatID_def
    IsGroupAdmin_def
  by (intro unchanged.keeps_program unchanged_telegram)+

lemma unchanged_authorizeOwned: "keeps (=) (authorizeOwnedCallback u m w o')"
  unfolding authorizeOwnedCallback_def by (intro unchanged.keeps_program unchanged_reads)

lemma unchanged_authorizeCallback: "keeps (=) (authorizeCallback u m p)"
  unfolding authorizeCallback_def authorize_task_def or_stale_def
  by (cases "cb_Kind p"; simp only: callback_kind.case)
    (intro unchanged.keeps_program unchanged_reads unchanged_authorizeOwned)+

end
