(* ===== verification/Bot_Routines.thy ===== *)
theory Bot_Routines imports Bot_Messages begin

text \<open>
  \<open>internal/bot/routines.go\<close>: the set-up of a routine from a list, the answers to the items of a
  check-in one after the other, the reasons of items that were not done, and the end of a check-in.
\<close>

definition missing_workspace :: bytes where "missing_workspace = ''callback.workspace_missing''"

definition errRoutineInputNotAccepted :: goerr where
  "errRoutineInputNotAccepted = PlainError ''routine input was not accepted''"

definition handleRoutineConfigure :: "tg_user \<Rightarrow> message \<Rightarrow> handler" where
  "handleRoutineConfigure user msg = with_workspace (ch_ID (mg_Chat msg)) missing_workspace (\<lambda>w.
     openSetupPrompt w user msg PendingRoutinePlan (TextView ''routine.plan.prompt''))"

text \<open>Text, blank line, prompt.\<close>

definition above_prompt :: "bytes \<Rightarrow> view \<Rightarrow> view" where
  "above_prompt key prompt = View (''above:'' @ view_name prompt) (VMsg (Msg key []) # view_args prompt)"

text \<open>A change of the plan after the check-in hour first stores the check-in of the old plan.\<close>

definition snapshot_plan :: "workspace \<Rightarrow> participant \<Rightarrow> unit io" where
  "snapshot_plan w p = bindM (GetRoutinePlan (ws_ID w) (pt_ID p)) (\<lambda>existing. case existing of
      None \<Rightarrow> ret ()
    | Some plan \<Rightarrow> bindM current_now (\<lambda>now.
        bindM (getW (\<lambda>v. RoutinePlanChangeSnapshotDate (e_tzdb (w_env v)) (utc_time (rp_CreatedAt plan)) (ws_Timezone w) now))
          (\<lambda>date. case date of None \<Rightarrow> ret () | Some d \<Rightarrow> thenM (GetOrCreateRoutineCheckin plan d) (ret ()))))"

text \<open>The prompt of a claimed input and the messages the user sent for it are deleted.\<close>

definition delete_inputs :: "int \<Rightarrow> pending_input \<Rightarrow> unit io" where
  "delete_inputs chatID claimed = thenM (deletePendingUserMessages chatID (pi_Payload claimed))
     (let m = payloadInt64 (pi_Payload claimed) ''prompt_message_id'' in
      whenM (m \<noteq> 0) (ignore (tgDeleteMessage chatID m)))"

definition consumeRoutinePlan :: "workspace \<Rightarrow> tg_user \<Rightarrow> message \<Rightarrow> pending_input \<Rightarrow> unit io" where
  "consumeRoutinePlan w user msg pending =
     (let chatID = ch_ID (mg_Chat msg); threadID = mg_MessageThreadID msg; raw = messagePlainText msg;
          invalid = (\<lambda>key. thenM (ignore (refreshPendingInputActivity (ws_ID w) (us_ID user) threadID pending (mg_MessageID msg)))
            (ignore (editMessageSafe chatID (payloadInt64 (pi_Payload pending) ''prompt_message_id'')
               (above_prompt key (TextView ''routine.plan.prompt'')) None)))
      in case ParseRoutineItems raw of
        Inl parseErr \<Rightarrow> invalid (if contains_str (rule_error_text parseErr) ''max''
          then ''routine.plan.too_many'' else ''routine.plan.invalid'')
      | Inr items \<Rightarrow>
          if raw = [] then invalid ''routine.plan.invalid''
          else inTx (bindM (ClaimPendingInput (ws_ID w) (us_ID user) threadID PendingRoutinePlan) (\<lambda>c. case c of
              None \<Rightarrow> ret ()
            | Some claimed \<Rightarrow>
                bindM (register_user (ws_ID w) user) (\<lambda>p.
                thenM (snapshot_plan w p)
                (thenM (UpsertRoutinePlan (ws_ID w) (pt_ID p) (us_ID user) items (mg_MessageID msg) threadID)
                (thenM (delete_inputs chatID claimed)
                (thenM (tgSendMessage (silent_req chatID threadID
                    (View ''FormatRoutinePlanSaved'' [VStr (MessageLink chatID (mg_MessageID msg) threadID)])
                    (Some (DismissKeyboard (us_ID user))))) (ret ()))))))))"

section \<open>Check-ins\<close>

definition user_checkin_view :: "bytes \<Rightarrow> int \<Rightarrow> routine_checkin \<Rightarrow> tg_user \<Rightarrow> view" where
  "user_checkin_view name chatID c user =
     View name [VCheckin c, VStr (DisplayName user), VStr (us_Username user), VStr (routineSourceLink chatID c), VStr []]"

definition advanceRoutineCheckin :: "workspace \<Rightarrow> int \<Rightarrow> int \<Rightarrow> tg_user \<Rightarrow> routine_checkin \<Rightarrow> unit io" where
  "advanceRoutineCheckin w chatID messageID user c =
     (let nextIndex = NextRoutineItemIndex c in
      if 0 \<le> nextIndex then
        tgEditMessageText (edit_req chatID messageID (user_checkin_view ''FormatRoutineCheckinCard'' chatID c user)
          (Some (RoutineItemKeyboard (rc_ID c) nextIndex)))
      else bindM (CompleteRoutineCheckinWithoutReflection (rc_ID c) (us_ID user)) (\<lambda>done. case done of
          None \<Rightarrow> ret ()
        | Some completed \<Rightarrow>
            thenM (case rc_ReminderMessageID completed of None \<Rightarrow> ret ()
              | Some m \<Rightarrow> thenM (ignore (tgDeleteMessage chatID m)) (ClearRoutineCheckinReminderMessageID (rc_ID completed)))
            (thenM (ignore (tgEditMessageText (edit_req chatID messageID
                (user_checkin_view ''FormatRoutineCheckinFinishedCard'' chatID completed user) (Some EmptyKeyboard))))
            (bindM current_now (\<lambda>now. RefreshLeaderboard w chatID now)))))"

definition ask_reason ::
    "workspace \<Rightarrow> tg_user \<Rightarrow> message \<Rightarrow> int \<Rightarrow> int \<Rightarrow> routine_item_status \<Rightarrow> bytes \<Rightarrow> routine_checkin \<Rightarrow> unit io" where
  "ask_reason w user msg checkinID itemIndex status itemText updated =
     (let chatID = ch_ID (mg_Chat msg); threadID = mg_MessageThreadID msg in
      thenM (ignore (tgEditMessageText (edit_req chatID (mg_MessageID msg)
          (user_checkin_view ''FormatRoutineCheckinStatusCard'' chatID updated user) (Some EmptyKeyboard))))
      (bindM (tgSendMessage (silent_req chatID threadID (View ''FormatRoutineReasonPrompt'' [VStr itemText]) None)) (\<lambda>prompt.
       thenM (UpsertPendingInput (ws_ID w) (us_ID user) threadID PendingRoutineReason
         [''checkin_id'' \<mapsto> JInt checkinID, ''item_index'' \<mapsto> JInt itemIndex,
          ''status'' \<mapsto> JStr (routine_status_str status), ''card_message_id'' \<mapsto> JInt (mg_MessageID msg),
          ''prompt_message_id'' \<mapsto> JInt (mg_MessageID prompt), ''thread_id'' \<mapsto> JInt threadID]) (ret ()))))"

text \<open>
  The item is the first one without a status, so its position exists; the model takes the item at
  that position where the code indexes the slice.
\<close>

definition handleRoutineItem :: "tg_user \<Rightarrow> message \<Rightarrow> int \<Rightarrow> int \<Rightarrow> routine_item_status \<Rightarrow> handler" where
  "handleRoutineItem user msg checkinID itemIndex status =
     with_workspace (ch_ID (mg_Chat msg)) missing_workspace (\<lambda>w. inTxVar [] (
       bindM (GetRoutineCheckin checkinID) (\<lambda>found. case found of
           None \<Rightarrow> answer_text ''routine.checkin.not_found''
         | Some c \<Rightarrow>
             if rc_OwnerUserID c \<noteq> us_ID user then answer_text ''routine.checkin.author_only''
             else if rc_CompletedAt c \<noteq> None then answer_text ''routine.checkin.completed''
             else if NextRoutineItemIndex c \<noteq> itemIndex then answer_text ''routine.checkin.stale_item''
             else bindM (GetPendingInput (ws_ID w) (us_ID user) (mg_MessageThreadID msg)) (\<lambda>busy. case busy of
                 Some pending \<Rightarrow> answer_text (pendingBusyText (pi_Kind pending))
               | None \<Rightarrow>
                   bindM (SetRoutineCheckinItemStatus checkinID (us_ID user) itemIndex status None) (\<lambda>saved. case saved of
                       None \<Rightarrow> no_answer
                     | Some updated \<Rightarrow>
                         step (if status = RoutineItemPartial \<or> status = RoutineItemFailed
                           then ask_reason w user msg checkinID itemIndex status
                             (ri_Text (rc_Items c ! nat itemIndex)) updated
                           else advanceRoutineCheckin w (ch_ID (mg_Chat msg)) (mg_MessageID msg) user updated))))))"

definition save_reason :: "int \<Rightarrow> int \<Rightarrow> int \<Rightarrow> bytes \<Rightarrow> bytes \<Rightarrow> routine_checkin option io" where
  "save_reason checkinID owner itemIndex status reason = (case routine_status_of status of
      None \<Rightarrow> ret None
    | Some st \<Rightarrow> SetRoutineCheckinItemStatus checkinID owner itemIndex st (Some reason))"

definition consumeRoutineReason :: "workspace \<Rightarrow> tg_user \<Rightarrow> message \<Rightarrow> unit io" where
  "consumeRoutineReason w user msg =
     (let chatID = ch_ID (mg_Chat msg) in
      inTx (bindM (ClaimPendingInput (ws_ID w) (us_ID user) (mg_MessageThreadID msg) PendingRoutineReason) (\<lambda>c. case c of
          None \<Rightarrow> ret ()
        | Some pending \<Rightarrow>
            (let p = pi_Payload pending; promptID = payloadInt64 p ''prompt_message_id'';
                 cardID = payloadInt64 p ''card_message_id'' in
             bindM (message_input_of msg) (\<lambda>input.
             bindM (save_reason (payloadInt64 p ''checkin_id'') (us_ID user) (payloadInt64 p ''item_index'')
                 (payloadString p ''status'') (in_TextHTML input)) (\<lambda>saved. case saved of
                 None \<Rightarrow> failM errRoutineInputNotAccepted
               | Some updated \<Rightarrow>
                   thenM (ignore (tgDeleteMessage chatID promptID))
                   (thenM (ignore (tgDeleteMessage chatID (mg_MessageID msg)))
                   (advanceRoutineCheckin w chatID (if cardID = 0 then promptID else cardID) user updated))))))))"

section \<open>Lemmas\<close>

lemma sound_handleRoutineConfigure [sound_ops]: "sound (handleRoutineConfigure u m)"
  unfolding handleRoutineConfigure_def by (intro sound_with_workspace sound_ops)

lemma sound_delete_inputs [sound_ops]: "sound (delete_inputs c p)"
  unfolding delete_inputs_def Let_def by (intro sound_rules sound_ops)

lemma sound_consumeRoutinePlan [sound_ops]: "sound (consumeRoutinePlan w u m p)"
  unfolding consumeRoutinePlan_def snapshot_plan_def Let_def by (intro sound_rules sound_ops)

lemma sound_advanceRoutineCheckin [sound_ops]: "sound (advanceRoutineCheckin w c m u ci)"
  unfolding advanceRoutineCheckin_def Let_def by (intro sound_rules sound_ops)

lemma sound_handleRoutineItem [sound_ops]: "sound (handleRoutineItem u m i k st)"
  unfolding handleRoutineItem_def ask_reason_def Let_def
  by (intro sound_with_workspace sound_rules sound_ops sound_handler_ends)

lemma sound_consumeRoutineReason [sound_ops]: "sound (consumeRoutineReason w u m)"
  unfolding consumeRoutineReason_def save_reason_def Let_def by (intro sound_rules sound_ops)

end
