(* ===== verification/Bot_Goals.thy ===== *)
theory Bot_Goals imports Bot_Routines begin

text \<open>
  \<open>internal/bot/goals.go\<close>: the goals of a season, the answer to a biweekly review, and the final
  review with its status, the parts of its summary and its completion.
\<close>

definition errGoalInputNotAccepted :: goerr where
  "errGoalInputNotAccepted = PlainError ''goal input was not accepted''"

definition goalNudge :: "workspace \<Rightarrow> participant \<Rightarrow> bytes \<Rightarrow> daily_task_status option \<Rightarrow> msg option io" where
  "goalNudge w p seed status = bindM time_now (MaybeNudge w p seed status)"

section \<open>The goals\<close>

definition seasonalGoalsPrompt :: "workspace \<Rightarrow> view io" where
  "seasonalGoalsPrompt w = bindM current_now (\<lambda>now.
     bindM (rule (\<lambda>tzdb. CurrentGoalPeriod tzdb (ws_Timezone w) now)) (\<lambda>period.
       ret (View ''SeasonalGoalsPrompt'' [VPeriod period])))"

definition handleGoalsConfigure :: "tg_user \<Rightarrow> message \<Rightarrow> handler" where
  "handleGoalsConfigure user msg = with_workspace (ch_ID (mg_Chat msg)) missing_workspace (\<lambda>w.
     bindM (seasonalGoalsPrompt w) (\<lambda>prompt. openSetupPrompt w user msg PendingSeasonalGoals prompt))"

definition drop_goal_card :: "int \<Rightarrow> seasonal_goal_set \<Rightarrow> unit io" where
  "drop_goal_card chatID goalSet = (case gs_CardMessageID goalSet of None \<Rightarrow> ret ()
     | Some m \<Rightarrow> thenM (ignore (tgDeleteMessage chatID m)) (ClearSeasonalGoalCardMessageID (gs_ID goalSet)))"

definition consumeSeasonalGoals :: "workspace \<Rightarrow> tg_user \<Rightarrow> message \<Rightarrow> pending_input \<Rightarrow> unit io" where
  "consumeSeasonalGoals w user msg pending =
     (let chatID = ch_ID (mg_Chat msg); threadID = mg_MessageThreadID msg; source = mg_MessageID msg in
      if trim_space (messagePlainText msg) = [] then
        bindM (seasonalGoalsPrompt w) (\<lambda>prompt.
        thenM (ignore (refreshPendingInputActivity (ws_ID w) (us_ID user) threadID pending source))
        (ignore (editMessageSafe chatID (payloadInt64 (pi_Payload pending) ''prompt_message_id'')
           (above_prompt ''goals.invalid'' prompt) None)))
      else inTx (bindM (ClaimPendingInput (ws_ID w) (us_ID user) threadID PendingSeasonalGoals) (\<lambda>c. case c of
          None \<Rightarrow> ret ()
        | Some claimed \<Rightarrow>
            bindM (register_user (ws_ID w) user) (\<lambda>p.
            bindM current_now (\<lambda>now.
            bindM (rule (\<lambda>tzdb. CurrentGoalPeriod tzdb (ws_Timezone w) now)) (\<lambda>period.
            bindM (message_input_of msg) (\<lambda>input.
            bindM (UpsertSeasonalGoalSet (ws_ID w) (pt_ID p) (us_ID user) period (in_TextHTML input) (Some source) (Some threadID))
              (\<lambda>goalSet.
            thenM (drop_goal_card chatID goalSet)
            (thenM (delete_inputs chatID claimed)
            (thenM (tgSendMessage (silent_req chatID threadID
                (View ''FormatGoalsSaved'' [VStr (MessageLink chatID source threadID)])
                (Some (DismissKeyboard (us_ID user))))) (ret ()))))))))))) "

definition consumeGoalWeeklyReview :: "workspace \<Rightarrow> tg_user \<Rightarrow> message \<Rightarrow> unit io" where
  "consumeGoalWeeklyReview w user msg =
     (let chatID = ch_ID (mg_Chat msg); threadID = mg_MessageThreadID msg in
      inTx (bindM (ClaimPendingInput (ws_ID w) (us_ID user) threadID PendingGoalWeeklyReview) (\<lambda>c. case c of
          None \<Rightarrow> ret ()
        | Some pending \<Rightarrow>
            bindM (message_input_of msg) (\<lambda>input.
            bindM (SubmitGoalWeeklyReview (payloadInt64 (pi_Payload pending) ''review_id'') (us_ID user) (in_TextHTML input)
                (mg_MessageID msg) threadID) (\<lambda>saved. case saved of
                None \<Rightarrow> failM errGoalInputNotAccepted
              | Some review \<Rightarrow>
                  (let text = View ''FormatGoalWeeklyReviewSaved'' [VWeekly review, VInt chatID] in
                   bindM (editMessageSafe chatID (payloadInt64 (pi_Payload pending) ''prompt_message_id'') text None) (\<lambda>ok.
                   whenM (\<not> ok) (ignore (tgSendMessage (silent_req chatID threadID text None))))))))))"

section \<open>The final review\<close>

type_synonym started = "(seasonal_goal_set \<times> goal_final_review) option"

definition final_status_tx ::
    "workspace \<Rightarrow> tg_user \<Rightarrow> message \<Rightarrow> int \<Rightarrow> goal_final_status \<Rightarrow> ((bytes \<times> started) \<times> goerr option) io" where
  "final_status_tx w user msg goalSetID status =
     (let stop = (\<lambda>key. ret ((key, None), None)); threadID = mg_MessageThreadID msg in
      inTxVar ([], None) (bindM (GetSeasonalGoalSet goalSetID) (\<lambda>found. case found of
          None \<Rightarrow> stop ''goals.not_found''
        | Some goalSet \<Rightarrow>
            if gs_OwnerUserID goalSet \<noteq> us_ID user then stop ''goals.final.author_only''
            else bindM (GetPendingInput (ws_ID w) (us_ID user) threadID) (\<lambda>busy. case busy of
                Some pending \<Rightarrow> stop (pendingBusyText (pi_Kind pending))
              | None \<Rightarrow>
                  thenM (GetOrCreateGoalFinalReview goalSetID)
                  (bindM (SetGoalFinalReviewStatus goalSetID (us_ID user) status) (\<lambda>saved. case saved of
                      None \<Rightarrow> stop []
                    | Some review \<Rightarrow>
                        thenM (UpsertPendingInput (ws_ID w) (us_ID user) threadID PendingGoalFinalReflection
                          [''goal_set_id'' \<mapsto> JInt goalSetID, ''prompt_message_id'' \<mapsto> JInt (mg_MessageID msg),
                           ''thread_id'' \<mapsto> JInt threadID])
                        (ret (([], Some (goalSet, review)), None))))))))"

definition show_final_prompt ::
    "workspace \<Rightarrow> tg_user \<Rightarrow> message \<Rightarrow> int \<Rightarrow> goal_final_status \<Rightarrow> seasonal_goal_set \<Rightarrow> goal_final_review \<Rightarrow> unit io" where
  "show_final_prompt w user msg goalSetID status goalSet review =
     (let chatID = ch_ID (mg_Chat msg); threadID = mg_MessageThreadID msg;
          selected = (case fr_Status review of None \<Rightarrow> status | Some s \<Rightarrow> s);
          text = View ''FormatGoalFinalReflectionPrompt'' [VGoals goalSet, VGoalStatus selected];
          keyboard = Some (GoalFinalCompleteKeyboard (gs_ID goalSet)) in
      bindM (err_of (tgEditMessageText (edit_req chatID (mg_MessageID msg) text keyboard))) (\<lambda>editErr. case editErr of
          None \<Rightarrow> ret ()
        | Some ee \<Rightarrow>
            if IsNotModifiedError ee then ret ()
            else bindM (attempt (tgSendMessage (silent_req chatID threadID text keyboard))) (\<lambda>sent. case sent of
                Inl sendErr \<Rightarrow> failM (JoinedError [ee, sendErr])
              | Inr fallback \<Rightarrow>
                  bindM (err_of (inTx (thenM (SetGoalFinalReviewPrompt (fr_ID review) (mg_MessageID fallback) threadID)
                      (thenM (UpsertPendingInput (ws_ID w) (us_ID user) threadID PendingGoalFinalReflection
                        [''goal_set_id'' \<mapsto> JInt goalSetID, ''prompt_message_id'' \<mapsto> JInt (mg_MessageID fallback),
                         ''thread_id'' \<mapsto> JInt threadID]) (ret ()))))) (\<lambda>persistErr. case persistErr of
                      Some pe \<Rightarrow> thenM (ignore (tgDeleteMessage chatID (mg_MessageID fallback))) (failM pe)
                    | None \<Rightarrow> ignore (tgEditMessageReplyMarkup chatID (mg_MessageID msg) None)))))"

definition handleGoalFinalStatus :: "tg_user \<Rightarrow> message \<Rightarrow> int \<Rightarrow> goal_final_status \<Rightarrow> handler" where
  "handleGoalFinalStatus user msg goalSetID status = with_workspace (ch_ID (mg_Chat msg)) missing_workspace (\<lambda>w.
     bindM (final_status_tx w user msg goalSetID status) (\<lambda>((answer, started), err). case err of
         Some e \<Rightarrow> ret (answer, Some e)
       | None \<Rightarrow> (case started of
             None \<Rightarrow> ret (answer, None)
           | Some (goalSet, review) \<Rightarrow>
               bindM (err_of (show_final_prompt w user msg goalSetID status goalSet review)) (\<lambda>e. ret (answer, e)))))"

definition goal_set0 :: seasonal_goal_set where
  "goal_set0 = \<lparr>gs_ID = 0, gs_WorkspaceGroupID = 0, gs_ParticipantID = 0, gs_OwnerUserID = 0, gs_PeriodKey = [],
     gs_PeriodTitle = Msg [] [], gs_PeriodStartsOn = t_day zero_time, gs_PeriodEndsOn = t_day zero_time, gs_GoalsText = [],
     gs_CardMessageID = None, gs_CardMessageThreadID = None, gs_SourceMessageID = None, gs_SourceMessageThreadID = None,
     gs_CreatedAt = zero_ns, gs_UpdatedAt = zero_ns\<rparr>"

definition reflection_tx ::
    "workspace \<Rightarrow> tg_user \<Rightarrow> message \<Rightarrow> (pending_input \<times> seasonal_goal_set \<times> goal_final_review option) io" where
  "reflection_tx w user msg = inTx (
     bindM (GetPendingInput (ws_ID w) (us_ID user) (mg_MessageThreadID msg)) (\<lambda>found. case found of
         None \<Rightarrow> failM errGoalInputNotAccepted
       | Some pending \<Rightarrow>
           if pi_Kind pending \<noteq> PendingGoalFinalReflection then failM errGoalInputNotAccepted
           else (let goalSetID = payloadInt64 (pi_Payload pending) ''goal_set_id'' in
             bindM (GetSeasonalGoalSet goalSetID) (\<lambda>fg. case fg of
                 None \<Rightarrow> ret (pending, goal_set0, None)
               | Some goalSet \<Rightarrow>
                   bindM (message_input_of msg) (\<lambda>input.
                   bindM (AppendGoalFinalReviewSummaryPart goalSetID (us_ID user) (mg_MessageID msg) (in_TextHTML input))
                     (\<lambda>saved. case saved of None \<Rightarrow> failM errGoalInputNotAccepted
                       | Some review \<Rightarrow> ret (pending, goalSet, Some review)))))))"

definition consumeGoalFinalReflection :: "workspace \<Rightarrow> tg_user \<Rightarrow> message \<Rightarrow> unit io" where
  "consumeGoalFinalReflection w user msg =
     (if trim_space (messagePlainText msg) = [] then ret ()
      else bindM (reflection_tx w user msg) (\<lambda>(pending, goalSet, review).
        let status = (case review of None \<Rightarrow> GoalFinalPartial
              | Some r \<Rightarrow> (case fr_Status r of None \<Rightarrow> GoalFinalPartial | Some s \<Rightarrow> s));
            parts = (case review of None \<Rightarrow> 0 | Some r \<Rightarrow> int (length (fr_SummaryMessageIDs r))) in
        ignore (tgEditMessageText (edit_req (ch_ID (mg_Chat msg)) (payloadInt64 (pi_Payload pending) ''prompt_message_id'')
          (View ''FormatGoalFinalReflectionDraft'' [VGoals goalSet, VGoalStatus status, VInt parts])
          (Some (GoalFinalCompleteKeyboard (gs_ID goalSet)))))))"

type_synonym completed = "(seasonal_goal_set \<times> goal_final_review \<times> participant) option"

definition final_complete_tx ::
    "workspace \<Rightarrow> tg_user \<Rightarrow> message \<Rightarrow> int \<Rightarrow> ((bytes \<times> completed) \<times> goerr option) io" where
  "final_complete_tx w user msg goalSetID =
     (let stop = (\<lambda>key err. ret ((key, None), err)); threadID = mg_MessageThreadID msg in
      inTxVar ([], None) (bindM (attempt (GetSeasonalGoalSet goalSetID)) (\<lambda>rg. case rg of
          Inl err \<Rightarrow> stop ''goals.not_found'' (Some err)
        | Inr None \<Rightarrow> stop ''goals.not_found'' None
        | Inr (Some goalSet) \<Rightarrow>
            bindM (attempt (GetParticipantByID (gs_ParticipantID goalSet))) (\<lambda>rp. case rp of
                Inl err \<Rightarrow> stop ''goals.not_found'' (Some err)
              | Inr None \<Rightarrow> stop ''goals.not_found'' None
              | Inr (Some p) \<Rightarrow>
                  bindM (GetPendingInput (ws_ID w) (us_ID user) threadID) (\<lambda>found.
                  if (case found of None \<Rightarrow> True | Some pending \<Rightarrow> pi_Kind pending \<noteq> PendingGoalFinalReflection
                        \<or> payloadInt64 (pi_Payload pending) ''goal_set_id'' \<noteq> goalSetID)
                  then stop ''goals.final.need_part'' None
                  else bindM (FinalizeGoalFinalReview goalSetID (us_ID user)) (\<lambda>saved. case saved of
                      None \<Rightarrow> stop ''goals.final.need_part'' None
                    | Some review \<Rightarrow>
                        thenM (ClearGoalFinalReviewPendingInput (ws_ID w) (us_ID user) threadID goalSetID)
                          (ret (([], Some (goalSet, review, p)), None))))))))"

definition show_final_saved :: "message \<Rightarrow> seasonal_goal_set \<Rightarrow> goal_final_review \<Rightarrow> participant \<Rightarrow> unit io" where
  "show_final_saved msg goalSet review p =
     (let chatID = ch_ID (mg_Chat msg);
          text = View ''FormatGoalFinalReviewSaved''
            [VGoals goalSet, VFinal review, VStr (pt_DisplayName p), VStr (participantUsername p), VInt chatID] in
      bindM (editMessageSafe chatID (mg_MessageID msg) text (Some EmptyKeyboard)) (\<lambda>ok.
      whenM (\<not> ok) (ignore (tgSendMessage (silent_req chatID (mg_MessageThreadID msg) text None)))))"

definition handleGoalFinalComplete :: "tg_user \<Rightarrow> message \<Rightarrow> int \<Rightarrow> handler" where
  "handleGoalFinalComplete user msg goalSetID = with_workspace (ch_ID (mg_Chat msg)) missing_workspace (\<lambda>w.
     bindM (final_complete_tx w user msg goalSetID) (\<lambda>((answer, completed), err). case err of
         Some e \<Rightarrow> ret (answer, Some e)
       | None \<Rightarrow> (case completed of
             None \<Rightarrow> ret (answer, None)
           | Some (goalSet, review, p) \<Rightarrow> thenM (show_final_saved msg goalSet review p) (ret (answer, None)))))"

section \<open>Lemmas\<close>

lemma sound_goal_prompts [sound_ops]: "sound (goalNudge w p s st)" "sound (seasonalGoalsPrompt w)"
  unfolding goalNudge_def seasonalGoalsPrompt_def by (intro sound_rules sound_ops)+

lemma sound_handleGoalsConfigure [sound_ops]: "sound (handleGoalsConfigure u m)"
  unfolding handleGoalsConfigure_def by (intro sound_with_workspace sound_rules sound_ops)

lemma sound_consume_goals [sound_ops]:
  "sound (consumeSeasonalGoals w u m p)" "sound (consumeGoalWeeklyReview w u m)"
  unfolding consumeSeasonalGoals_def drop_goal_card_def consumeGoalWeeklyReview_def Let_def
  by (intro sound_rules sound_ops)+

lemma sound_final_txs [sound_ops]:
  "sound (final_status_tx w u m g st)" "sound (final_complete_tx w u m g)" "sound (reflection_tx w u m)"
  unfolding final_status_tx_def final_complete_tx_def reflection_tx_def Let_def
  by (intro sound_rules sound_nested_case sound_ops)+

lemma sound_final_shows [sound_ops]: "sound (show_final_prompt w u m i st g r)" "sound (show_final_saved m g r p)"
  unfolding show_final_prompt_def show_final_saved_def Let_def by (intro sound_rules sound_ops)+

lemma sound_handleGoalFinalStatus [sound_ops]: "sound (handleGoalFinalStatus u m g st)"
  unfolding handleGoalFinalStatus_def
  by (intro sound_with_workspace sound_bindM sound_ops)
    (auto split: prod.split option.split intro!: sound_rules sound_ops)

lemma sound_consumeGoalFinalReflection [sound_ops]: "sound (consumeGoalFinalReflection w u m)"
  unfolding consumeGoalFinalReflection_def Let_def by (intro sound_rules sound_ops)

lemma sound_handleGoalFinalComplete [sound_ops]: "sound (handleGoalFinalComplete u m g)"
  unfolding handleGoalFinalComplete_def
  by (intro sound_with_workspace sound_bindM sound_ops)
    (auto split: prod.split option.split intro!: sound_rules sound_ops)

end
