(* ===== verification/Bot_Service.thy ===== *)
theory Bot_Service imports Bot_Goals begin

text \<open>
  \<open>internal/bot/service.go\<close>: one update of the Bot API. Membership changes and \<open>/setup\<close>
  refresh the set-up message, messages are consumed by the input their author has open in that
  topic, edited messages change the entry they were the source of, and callbacks are parsed,
  authorized and dispatched.
\<close>

section \<open>The set-up message\<close>

definition checklist_view :: "prerequisites \<Rightarrow> bytes \<Rightarrow> view" where
  "checklist_view p notice = View ''FormatSetupChecklist'' [VBool (IsReady p), VBool (pq_IsSupergroup p),
     VBool (pq_IsForum p), VBool (pq_BotIsAdmin p), VBool (pq_CanManageTopics p), VBool (pq_CanReadMessages p), VStr notice]"

definition default_timezone :: "bytes io" where "default_timezone = getW (\<lambda>w. e_DefaultTimezone (w_env w))"

definition ensureWorkspace :: "int \<Rightarrow> bytes \<Rightarrow> workspace io" where
  "ensureWorkspace chatID title = inTx (bindM default_timezone (GetOrCreateWorkspace chatID title))"

text \<open>A new set-up message, when neither the stored one nor the pressed one can be edited.\<close>

definition send_setup_message :: "workspace \<Rightarrow> int \<Rightarrow> view \<Rightarrow> unit io" where
  "send_setup_message w chatID text = bindM (tgSendMessage (silent_req chatID 0 text (Some SetupKeyboard)))
     (\<lambda>m. inTx (SetSetupMessageID (ws_ID w) (mg_MessageID m)))"

definition reuse_fallback :: "workspace \<Rightarrow> int \<Rightarrow> view \<Rightarrow> message option \<Rightarrow> unit io" where
  "reuse_fallback w chatID text fallback = (case fallback of
      None \<Rightarrow> send_setup_message w chatID text
    | Some fb \<Rightarrow> bindM (editMessageSafe chatID (mg_MessageID fb) text (Some SetupKeyboard)) (\<lambda>ok.
        if ok then inTx (SetSetupMessageID (ws_ID w) (mg_MessageID fb)) else send_setup_message w chatID text))"

definition upsertSetupMessage :: "int \<Rightarrow> bytes \<Rightarrow> message option \<Rightarrow> bytes \<Rightarrow> unit io" where
  "upsertSetupMessage chatID chatTitle fallback notice =
     bindM (inTx (bindM default_timezone (\<lambda>tz. bindM (GetOrCreateWorkspace chatID chatTitle tz) (\<lambda>w.
        bindM (CheckPrerequisites chatID) (\<lambda>p. ret (w, p)))))) (\<lambda>(w, p).
     let text = checklist_view p notice in
     (case ws_SetupMessageID w of
        None \<Rightarrow> reuse_fallback w chatID text fallback
      | Some stored \<Rightarrow> bindM (editMessageSafe chatID stored text (Some SetupKeyboard)) (\<lambda>ok.
          if ok then (case fallback of None \<Rightarrow> ret ()
             | Some fb \<Rightarrow> whenM (mg_MessageID fb \<noteq> stored) (ignore (tgDeleteMessage chatID (mg_MessageID fb))))
          else reuse_fallback w chatID text fallback)))"

definition handleMyChatMember :: "chat_member_updated \<Rightarrow> unit io" where
  "handleMyChatMember event =
     (if \<not> is_group (mu_Chat event) then ret ()
      else if mu_NewStatus event \<noteq> ''member'' \<and> mu_NewStatus event \<noteq> ''administrator'' then ret ()
      else upsertSetupMessage (ch_ID (mu_Chat event)) (ch_Title (mu_Chat event)) None [])"

definition ensureTopicMessage ::
    "int \<Rightarrow> int \<Rightarrow> int \<Rightarrow> topic_key \<Rightarrow> int option \<Rightarrow> view \<Rightarrow> keyboard option \<Rightarrow> bool \<Rightarrow> bool \<Rightarrow> bool io" where
  "ensureTopicMessage wid chatID threadID key current text keyboard isControl pin =
     bindM (case current of None \<Rightarrow> ret False | Some m \<Rightarrow> editMessageSafe chatID m text keyboard) (\<lambda>ok.
     if ok then ret False
     else bindM (attempt (tgSendMessage (silent_req chatID threadID text keyboard))) (\<lambda>r. case r of
         Inl err \<Rightarrow> ret False
       | Inr m \<Rightarrow>
           thenM (ignore (inTx (if isControl then SetTopicMessages wid key None (Some (mg_MessageID m)) False False
             else SetTopicMessages wid key (Some (mg_MessageID m)) None False False)))
           (thenM (whenM pin (ignore (tgPinChatMessage chatID (mg_MessageID m)))) (ret True))))"

text \<open>The standing messages of the topics in the order the code creates them.\<close>

fun topic_messages :: "topic_key \<Rightarrow> (bool \<times> view \<times> keyboard option) list" where
  "topic_messages TopicToday = [(True, TextView ''today.control'', Some TodayControlKeyboard)]"
| "topic_messages TopicRoutine = [(True, TextView ''routine.control'', Some RoutineControlKeyboard),
     (False, View ''FormatRoutineLeaderboard'' [VEntries []], None)]"
| "topic_messages TopicGoals = [(True, TextView ''goals.control'', Some GoalsControlKeyboard)]"
| "topic_messages TopicProgress = [(False, TextView ''progress.intro'', None)]"

fun ensure_messages ::
    "int \<Rightarrow> int \<Rightarrow> int \<Rightarrow> topic_key \<Rightarrow> topic_binding \<Rightarrow> (bool \<times> view \<times> keyboard option) list \<Rightarrow> bool \<Rightarrow> bool io" where
  "ensure_messages wid chatID threadID key b [] changed = ret changed"
| "ensure_messages wid chatID threadID key b ((isControl, text, keyboard) # ms) changed =
     bindM (ensureTopicMessage wid chatID threadID key (if isControl then tb_ControlMessageID b else tb_IntroMessageID b)
         text keyboard isControl isControl)
       (\<lambda>sent. ensure_messages wid chatID threadID key b ms (sent \<or> changed))"

fun ensure_all_messages ::
    "int \<Rightarrow> int \<Rightarrow> (topic_key \<Rightarrow> int) \<Rightarrow> (topic_key \<Rightarrow> topic_binding option) \<Rightarrow> topic_key list \<Rightarrow> bool \<Rightarrow> bool io" where
  "ensure_all_messages wid chatID threads bindings [] changed = ret changed"
| "ensure_all_messages wid chatID threads bindings (key # keys) changed =
     bindM (case bindings key of None \<Rightarrow> ret changed
       | Some b \<Rightarrow> ensure_messages wid chatID (threads key) key b (topic_messages key) changed)
       (ensure_all_messages wid chatID threads bindings keys)"

definition handleSetupStart :: "message \<Rightarrow> handler" where
  "handleSetupStart msg =
     (let chatID = ch_ID (mg_Chat msg); title = ch_Title (mg_Chat msg) in
      bindM (CheckPrerequisites chatID) (\<lambda>p.
      if \<not> IsReady p then answer_text ''callback.setup.not_ready''
      else bindM (ensureWorkspace chatID title) (\<lambda>w.
      bindM (EnsureWorkspaceTopics chatID title (ws_Timezone w)) (\<lambda>(threads, topicsChanged).
      bindM (ListTopicBindings (ws_ID w)) (\<lambda>bindings.
      bindM (ensure_all_messages (ws_ID w) chatID threads bindings [TopicToday, TopicRoutine, TopicGoals, TopicProgress]
          topicsChanged) (\<lambda>changed.
      thenM (ignore (tgEditMessageText (edit_req chatID (mg_MessageID msg)
          (TextView (if changed then ''setup.repaired'' else ''setup.ready'')) None)))
      (thenM (ignore (inTx (SetSetupMessageID (ws_ID w) (mg_MessageID msg)))) no_answer)))))))"

section \<open>Daily entries\<close>

definition pad2 :: "int \<Rightarrow> bytes" where "pad2 n = (if n < 10 then ''0'' @ show_int n else show_int n)"

text \<open>\<open>Format("2006-01-02")\<close> for the years 0 to 9999.\<close>

definition iso_date :: "gotime \<Rightarrow> bytes" where
  "iso_date t = (let c = t_civil t; y = show_int (cy c) in
     replicate (4 - length y) (CHR ''0'') @ y @ ''-'' @ pad2 (cm c) @ ''-'' @ pad2 (cd c))"

text \<open>
  The zero entry of the code, for a conflict whose row is gone. Its kind and status are empty
  strings in the code.
\<close>

definition entry0 :: daily_task where "entry0 = new_entry 0 0 0 0 0 DailyEntryTask [] 0 0 0"

definition user_card_view :: "daily_task \<Rightarrow> tg_user \<Rightarrow> view" where
  "user_card_view task user = card_view task (DisplayName user) (us_Username user) []"

definition add_summary :: "workspace \<Rightarrow> tg_user \<Rightarrow> message \<Rightarrow> participant \<Rightarrow> gotime \<Rightarrow> handler" where
  "add_summary w user msg p taskDate =
     bindM (CreateDailySummary (ws_ID w) (pt_ID p) (us_ID user) taskDate) (\<lambda>(entry, created).
     if \<not> created then answer_text ''callback.today.summary_exists''
     else (let summary = (case entry of None \<Rightarrow> entry0 | Some e \<Rightarrow> e) in
       bindM (tgSendMessage (silent_req (ch_ID (mg_Chat msg)) (mg_MessageThreadID msg) (user_card_view summary user)
           (Some (DailySummaryStatusKeyboard (tk_ID summary))))) (\<lambda>card.
       step (SetDailyTaskCardMessageID (tk_ID summary) (mg_MessageID card)))))"

definition ask_task :: "workspace \<Rightarrow> tg_user \<Rightarrow> message \<Rightarrow> participant \<Rightarrow> gotime \<Rightarrow> handler" where
  "ask_task w user msg p taskDate =
     bindM (goalNudge w p (''task_text:'' @ iso_date taskDate) None) (\<lambda>nudge.
     bindM (tgSendMessage (silent_req (ch_ID (mg_Chat msg)) (mg_MessageThreadID msg)
         (View ''DailyTaskTextPrompt'' (case nudge of None \<Rightarrow> [] | Some n \<Rightarrow> [VMsg n])) None)) (\<lambda>prompt.
     step (thenM (UpsertPendingInput (ws_ID w) (us_ID user) (mg_MessageThreadID msg) PendingDailyTaskText
       [''thread_id'' \<mapsto> JInt (mg_MessageThreadID msg), ''prompt_message_id'' \<mapsto> JInt (mg_MessageID prompt)]) (ret ()))))"

text \<open>The checks of \<open>handleTodayAdd\<close>: the first answer that applies.\<close>

definition today_busy :: "workspace \<Rightarrow> tg_user \<Rightarrow> message \<Rightarrow> participant \<Rightarrow> gotime \<Rightarrow> bytes option io" where
  "today_busy w user msg p taskDate =
     bindM (GetTaskForDate (ws_ID w) (pt_ID p) taskDate) (\<lambda>existing. case existing of
        Some e \<Rightarrow> ret (Some (if is_summary (tk_Kind e) then ''callback.today.summary_exists'' else ''callback.today.exists''))
      | None \<Rightarrow> bindM (GetOpenTask (ws_ID w) (pt_ID p)) (\<lambda>open. case open of
          Some t \<Rightarrow> ret (Some ''callback.today.close_previous'')
        | None \<Rightarrow> bindM (GetPendingInput (ws_ID w) (us_ID user) (mg_MessageThreadID msg)) (\<lambda>pending. case pending of
            Some q \<Rightarrow> ret (Some (pendingBusyText (pi_Kind q)))
          | None \<Rightarrow> ret None)))"

definition handleTodayAdd :: "tg_user \<Rightarrow> message \<Rightarrow> handler" where
  "handleTodayAdd user msg = with_workspace (ch_ID (mg_Chat msg)) [] (\<lambda>w. inTxVar [] (
     bindM (register_user (ws_ID w) user) (\<lambda>p.
     bindM current_now (\<lambda>now.
     bindM (rule (\<lambda>tzdb. LocalTaskDate tzdb (ws_Timezone w) now)) (\<lambda>taskDate.
     bindM (today_busy w user msg p taskDate) (\<lambda>busy. case busy of
         Some key \<Rightarrow> answer_text key
       | None \<Rightarrow> bindM (rule (\<lambda>tzdb. IsDailySummaryTime tzdb (ws_Timezone w) now)) (\<lambda>isSummary.
           if isSummary then add_summary w user msg p taskDate else ask_task w user msg p taskDate)))))))"

definition consumeDailyTaskText :: "workspace \<Rightarrow> tg_user \<Rightarrow> message \<Rightarrow> unit io" where
  "consumeDailyTaskText w user msg =
     (let chatID = ch_ID (mg_Chat msg); threadID = mg_MessageThreadID msg in
      inTx (bindM (ClaimPendingInput (ws_ID w) (us_ID user) threadID PendingDailyTaskText) (\<lambda>c. case c of
          None \<Rightarrow> ret ()
        | Some pending \<Rightarrow>
            thenM (ignore (tgDeleteMessage chatID (payloadInt64 (pi_Payload pending) ''prompt_message_id'')))
            (bindM (register_user (ws_ID w) user) (\<lambda>p.
            bindM current_now (\<lambda>now.
            bindM (rule (\<lambda>tzdb. LocalTaskDate tzdb (ws_Timezone w) now)) (\<lambda>taskDate.
            bindM (message_input_of msg) (\<lambda>input.
            bindM (CreateDailyTask (ws_ID w) (pt_ID p) (us_ID user) taskDate (in_TextHTML input) (in_MessageID input)
                (in_ThreadID input)) (\<lambda>(entry, created).
            let task = (case entry of None \<Rightarrow> entry0 | Some e \<Rightarrow> e) in
            if \<not> created then
              ignore (tgSendMessage (silent_req chatID threadID (View ''warning'' [VMsg (Msg
                  (if tk_ID task = 0 \<or> iso_date (date_time (tk_TaskDate task)) \<noteq> iso_date taskDate
                   then ''callback.today.close_previous'' else ''callback.today.exists'') [])])
                (Some (DismissKeyboard (us_ID user)))))
            else bindM (tgSendMessage (silent_req chatID threadID (user_card_view task user)
                (Some (DailyTaskKeyboard (tk_ID task))))) (\<lambda>card.
              SetDailyTaskCardMessageID (tk_ID task) (mg_MessageID card)))))))))))"

section \<open>Reports\<close>

definition dailyReportRejectedText :: "bool \<Rightarrow> bool \<Rightarrow> bytes" where
  "dailyReportRejectedText isSummary isClosed =
     (if isSummary then (if isClosed then ''summary.report.rejected_closed'' else ''summary.report.rejected'')
      else (if isClosed then ''task.report.rejected_closed'' else ''task.report.rejected''))"

text \<open>What the transaction of \<open>consumeDailyReport\<close> leaves in its caller's variables.\<close>

record report_outcome =
  ro_Task :: "daily_task option"
  ro_Events :: "progress_event list"
  ro_Submitted :: bool
  ro_IsSummary :: bool
  ro_PromptMessageID :: int
  ro_IsTodayCardPrompt :: bool

definition no_report :: report_outcome where
  "no_report = \<lparr>ro_Task = None, ro_Events = [], ro_Submitted = False, ro_IsSummary = False,
     ro_PromptMessageID = 0, ro_IsTodayCardPrompt = False\<rparr>"

definition submit_status :: "int \<Rightarrow> int \<Rightarrow> bytes \<Rightarrow> bytes \<Rightarrow> bytes \<Rightarrow> int \<Rightarrow> int \<Rightarrow> bool io" where
  "submit_status taskID owner status html displayName messageID threadID = (case task_status_of status of
      None \<Rightarrow> thenM (GetTask taskID) (ret False)
    | Some st \<Rightarrow> SubmitTaskReport taskID owner st html displayName messageID threadID)"

definition report_tx :: "workspace \<Rightarrow> tg_user \<Rightarrow> message \<Rightarrow> pending_input_kind \<Rightarrow> report_outcome io" where
  "report_tx w user msg kind = inTx (
     bindM (ClaimPendingInput (ws_ID w) (us_ID user) (mg_MessageThreadID msg) kind) (\<lambda>c. case c of
        None \<Rightarrow> ret no_report
      | Some pending \<Rightarrow>
          (let taskID = payloadInt64 (pi_Payload pending) ''task_id'';
               promptID = payloadInt64 (pi_Payload pending) ''prompt_message_id'' in
           bindM (message_input_of msg) (\<lambda>input.
           bindM (submit_status taskID (us_ID user) (payloadString (pi_Payload pending) ''status'') (in_TextHTML input)
               (DisplayName user) (in_MessageID input) (in_ThreadID input)) (\<lambda>submitted.
           bindM (GetTask taskID) (\<lambda>found.
           let outcome = \<lparr>ro_Task = found, ro_Events = [], ro_Submitted = submitted,
                 ro_IsSummary = (case found of None \<Rightarrow> kind = PendingDailySummaryReport | Some t \<Rightarrow> is_summary (tk_Kind t)),
                 ro_PromptMessageID = promptID,
                 ro_IsTodayCardPrompt = (case found of None \<Rightarrow> False
                    | Some t \<Rightarrow> promptID \<noteq> 0 \<and> promptID = opt0 (tk_TodayCardMessageID t))\<rparr> in
           if \<not> submitted then ret outcome
           else thenM (dismissTaskAlerts (ch_ID (mg_Chat msg)) taskID)
             (case found of None \<Rightarrow> ret outcome
              | Some task \<Rightarrow> bindM (SyncDailyTaskProgressPayloads task) (\<lambda>events. ret (outcome\<lparr>ro_Events := events\<rparr>)))))))))"

definition reject_report :: "tg_user \<Rightarrow> message \<Rightarrow> report_outcome \<Rightarrow> unit io" where
  "reject_report user msg o' =
     (let chatID = ch_ID (mg_Chat msg); keyboard = Some (DismissKeyboard (us_ID user));
          text = TextView (dailyReportRejectedText (ro_IsSummary o')
            (case ro_Task o' of None \<Rightarrow> False | Some t \<Rightarrow> \<not> AcceptsReport t));
          send = ignore (tgSendMessage (silent_req chatID (mg_MessageThreadID msg) text keyboard)) in
      if ro_IsTodayCardPrompt o' then send
      else bindM (editMessageSafe chatID (ro_PromptMessageID o') text keyboard) (\<lambda>ok. whenM (\<not> ok) send))"

definition show_report :: "workspace \<Rightarrow> tg_user \<Rightarrow> message \<Rightarrow> report_outcome \<Rightarrow> unit io" where
  "show_report w user msg o' =
     (let chatID = ch_ID (mg_Chat msg) in
      thenM (case ro_Task o' of None \<Rightarrow> ret ()
        | Some task \<Rightarrow> (case tk_TodayCardMessageID task of None \<Rightarrow> ret ()
            | Some cardID \<Rightarrow> editMessageOrQueueProgressAlert w
                (edit_req chatID cardID (user_card_view task user)
                  (if is_summary (tk_Kind task) then Some EmptyKeyboard else dailyTaskCardKeyboard task))
                ''progress.edit_failed.target_today_card'' (opt0 (tk_TaskMessageThreadID task))))
      (thenM (whenM (\<not> ro_IsTodayCardPrompt o') (ignore (tgDeleteMessage chatID (ro_PromptMessageID o'))))
        (refresh_events w chatID (ro_Events o'))))"

definition consumeDailyReport :: "workspace \<Rightarrow> tg_user \<Rightarrow> message \<Rightarrow> pending_input_kind \<Rightarrow> unit io" where
  "consumeDailyReport w user msg kind = bindM (report_tx w user msg kind) (\<lambda>o'.
     if \<not> ro_Submitted o' then reject_report user msg o' else show_report w user msg o')"

definition handleTaskReport :: "tg_user \<Rightarrow> message \<Rightarrow> int \<Rightarrow> handler" where
  "handleTaskReport user msg taskID =
     (let chatID = ch_ID (mg_Chat msg) in
      inTxVar [] (bindM (GetTask taskID) (\<lambda>found. case found of
          None \<Rightarrow> answer_text ''callback.task.not_found''
        | Some task \<Rightarrow>
            if us_ID user \<noteq> tk_OwnerUserID task then answer_text ''callback.task.author_only''
            else if \<not> AcceptsReport task then
              thenM (dismissTaskAlerts chatID taskID)
              (thenM (whenM (mg_MessageID msg \<noteq> opt0 (tk_TodayCardMessageID task))
                  (dismissTelegramMessage chatID (mg_MessageID msg)))
                (answer_text ''callback.task.closed''))
            else bindM (GetPendingInput (tk_WorkspaceGroupID task) (us_ID user) (mg_MessageThreadID msg)) (\<lambda>busy. case busy of
                Some pending \<Rightarrow> answer_text (pendingBusyText (pi_Kind pending))
              | None \<Rightarrow> step (showDailyEntryStatus chatID (mg_MessageID msg) task)))))"

definition status_prompt :: "workspace \<Rightarrow> daily_task \<Rightarrow> daily_task_status \<Rightarrow> view io" where
  "status_prompt w task status =
     (if is_summary (tk_Kind task) then ret (TextView ''daily.summary.prompt.report'')
      else bindM (GetParticipantByID (tk_ParticipantID task)) (\<lambda>p. case p of
          None \<Rightarrow> ret (View ''DailyTaskReportPrompt'' [])
        | Some p \<Rightarrow> bindM (goalNudge w p (''task_status:'' @ show_int (tk_ID task) @ '':'' @ task_status_str status) (Some status))
            (\<lambda>nudge. ret (View ''DailyTaskReportPrompt'' (case nudge of None \<Rightarrow> [] | Some n \<Rightarrow> [VMsg n])))))"

definition ask_report :: "workspace \<Rightarrow> tg_user \<Rightarrow> message \<Rightarrow> daily_task \<Rightarrow> daily_task_status \<Rightarrow> pending_input_kind \<Rightarrow> unit io" where
  "ask_report w user msg task status kind =
     bindM (status_prompt w task status) (\<lambda>prompt.
     thenM (ignore (tgEditMessageText (edit_req (ch_ID (mg_Chat msg)) (mg_MessageID msg) prompt
         (if is_summary (tk_Kind task) then Some EmptyKeyboard else None))))
     (thenM (UpsertPendingInput (ws_ID w) (us_ID user) (mg_MessageThreadID msg) kind
       [''task_id'' \<mapsto> JInt (tk_ID task), ''status'' \<mapsto> JStr (task_status_str status),
        ''prompt_message_id'' \<mapsto> JInt (mg_MessageID msg), ''thread_id'' \<mapsto> JInt (mg_MessageThreadID msg)]) (ret ())))"

definition handleTaskStatus :: "tg_user \<Rightarrow> message \<Rightarrow> int \<Rightarrow> daily_task_status \<Rightarrow> handler" where
  "handleTaskStatus user msg taskID status =
     (let chatID = ch_ID (mg_Chat msg) in
      with_workspace chatID missing_workspace (\<lambda>w. inTxVar [] (bindM (GetTask taskID) (\<lambda>found. case found of
          None \<Rightarrow> answer_text ''callback.task.not_found''
        | Some task \<Rightarrow>
            if us_ID user \<noteq> tk_OwnerUserID task then answer_text ''callback.task.author_only''
            else if \<not> AcceptsReport task then answer_text ''callback.task.closed''
            else (let summary = is_summary (tk_Kind task);
                      kind = (if summary then PendingDailySummaryReport else PendingDailyTaskReport) in
              bindM (GetPendingInput (ws_ID w) (us_ID user) (mg_MessageThreadID msg)) (\<lambda>previous. case previous of
                  None \<Rightarrow> step (ask_report w user msg task status kind)
                | Some q \<Rightarrow>
                    if pi_Kind q \<noteq> kind then answer_text (pendingBusyText (pi_Kind q))
                    else (let old = payloadInt64 (pi_Payload q) ''prompt_message_id'' in
                      thenM (whenM (\<not> summary \<or> old \<noteq> mg_MessageID msg) (ignore (tgDeleteMessage chatID old)))
                        (step (ask_report w user msg task status kind))))))))) "

section \<open>Notices\<close>

definition handleAlertAck :: "tg_user \<Rightarrow> message \<Rightarrow> int \<Rightarrow> handler" where
  "handleAlertAck user msg alertID =
     (let chatID = ch_ID (mg_Chat msg) in
      inTxVar [] (bindM (GetAlert alertID) (\<lambda>found. case found of
          None \<Rightarrow> step (dismissTelegramMessage chatID (mg_MessageID msg))
        | Some alert \<Rightarrow> bindM (GetTask (al_DailyTaskID alert)) (\<lambda>task.
            if (case task of None \<Rightarrow> False | Some t \<Rightarrow> tk_OwnerUserID t \<noteq> us_ID user) then no_answer
            else thenM (dismissAlertMessage chatID alert (mg_MessageID msg)) (answer_text ''callback.alert_hidden'')))))"

definition handleNoticeDismiss :: "message \<Rightarrow> handler" where
  "handleNoticeDismiss msg = step (dismissTelegramMessage (ch_ID (mg_Chat msg)) (mg_MessageID msg))"

section \<open>Dispatch\<close>

definition consume_input :: "workspace \<Rightarrow> tg_user \<Rightarrow> message \<Rightarrow> pending_input \<Rightarrow> unit io" where
  "consume_input w user msg pending = (case pi_Kind pending of
      PendingDailyTaskText \<Rightarrow> consumeDailyTaskText w user msg
    | PendingDailyTaskReport \<Rightarrow> consumeDailyReport w user msg PendingDailyTaskReport
    | PendingDailySummaryReport \<Rightarrow> consumeDailyReport w user msg PendingDailySummaryReport
    | PendingRoutinePlan \<Rightarrow> consumeRoutinePlan w user msg pending
    | PendingRoutineReason \<Rightarrow> consumeRoutineReason w user msg
    | PendingSeasonalGoals \<Rightarrow> consumeSeasonalGoals w user msg pending
    | PendingGoalWeeklyReview \<Rightarrow> consumeGoalWeeklyReview w user msg
    | PendingGoalFinalReflection \<Rightarrow> consumeGoalFinalReflection w user msg)"

definition handlePendingInputMessage :: "tg_user \<Rightarrow> message \<Rightarrow> unit io" where
  "handlePendingInputMessage user msg = bindM (ensureWorkspaceLoaded (ch_ID (mg_Chat msg))) (\<lambda>found. case found of
      None \<Rightarrow> ret ()
    | Some w \<Rightarrow> if ws_ID w = 0 then ret ()
        else bindM (GetPendingInput (ws_ID w) (us_ID user) (mg_MessageThreadID msg)) (\<lambda>open. case open of
            None \<Rightarrow> ret ()
          | Some pending \<Rightarrow> consume_input w user msg pending))"

definition handleMessage :: "message \<Rightarrow> unit io" where
  "handleMessage msg =
     (if \<not> is_group (mg_Chat msg) then ret ()
      else if isCommand (mg_Text msg) ''/setup'' then upsertSetupMessage (ch_ID (mg_Chat msg)) (ch_Title (mg_Chat msg)) None []
      else (case mg_From msg of None \<Rightarrow> ret () | Some user \<Rightarrow> handlePendingInputMessage user msg))"

definition edited_entry :: "workspace \<Rightarrow> message \<Rightarrow> (daily_task \<times> progress_event list) option io" where
  "edited_entry w msg = bindM (message_input_of msg) (\<lambda>input.
     inTx (bindM (UpdateTaskTextFromSourceMessage (ws_ID w) (in_UserID input) (in_MessageID input) (in_ThreadID input)
          (in_TextHTML input)) (\<lambda>r. case r of
        Some x \<Rightarrow> ret (Some x)
      | None \<Rightarrow> UpdateTaskReportFromSourceMessage (ws_ID w) (in_UserID input) (in_MessageID input) (in_ThreadID input)
          (in_TextHTML input))))"

definition handleEditedMessage :: "message \<Rightarrow> unit io" where
  "handleEditedMessage msg =
     (let chatID = ch_ID (mg_Chat msg) in
      if \<not> is_group (mg_Chat msg) then ret ()
      else (case mg_From msg of None \<Rightarrow> ret ()
        | Some user \<Rightarrow> bindM (ensureWorkspaceLoaded chatID) (\<lambda>found. case found of
            None \<Rightarrow> ret ()
          | Some w \<Rightarrow> if ws_ID w = 0 then ret ()
              else bindM (edited_entry w msg) (\<lambda>r. case r of
                  None \<Rightarrow> ret ()
                | Some (task, events) \<Rightarrow>
                    thenM (case tk_TodayCardMessageID task of None \<Rightarrow> ret ()
                      | Some cardID \<Rightarrow> editMessageOrQueueProgressAlert w
                          (edit_req chatID cardID (user_card_view task user) (dailyTaskCardKeyboard task))
                          ''progress.edit_failed.target_today_card'' (opt0 (tk_TaskMessageThreadID task)))
                    (refresh_events w chatID events)))))"

text \<open>
  \<open>ParseCallback\<close> sets the status of the kinds that carry one, so the branches without it are
  never taken.
\<close>

definition run_callback :: "tg_user \<Rightarrow> message \<Rightarrow> callback \<Rightarrow> handler" where
  "run_callback user msg parsed = (case cb_Kind parsed of
      CallbackSetupCheck \<Rightarrow> step (upsertSetupMessage (ch_ID (mg_Chat msg)) (ch_Title (mg_Chat msg)) (Some msg) [])
    | CallbackSetupStart \<Rightarrow> handleSetupStart msg
    | CallbackTodayAdd \<Rightarrow> handleTodayAdd user msg
    | CallbackTaskReport \<Rightarrow> handleTaskReport user msg (cb_TaskID parsed)
    | CallbackTaskStatus \<Rightarrow> (case cb_TaskStatus parsed of None \<Rightarrow> answer_text stale
        | Some st \<Rightarrow> handleTaskStatus user msg (cb_TaskID parsed) st)
    | CallbackAlertAck \<Rightarrow> handleAlertAck user msg (cb_AlertID parsed)
    | CallbackRoutineConfigure \<Rightarrow> handleRoutineConfigure user msg
    | CallbackRoutineItem \<Rightarrow> (case cb_RoutineItemStatus parsed of None \<Rightarrow> answer_text stale
        | Some st \<Rightarrow> handleRoutineItem user msg (cb_RoutineCheckinID parsed) (cb_RoutineItemIndex parsed) st)
    | CallbackGoalsConfigure \<Rightarrow> handleGoalsConfigure user msg
    | CallbackGoalFinalStatus \<Rightarrow> (case cb_GoalFinalStatus parsed of None \<Rightarrow> answer_text stale
        | Some st \<Rightarrow> handleGoalFinalStatus user msg (cb_GoalSetID parsed) st)
    | CallbackGoalFinalComplete \<Rightarrow> handleGoalFinalComplete user msg (cb_GoalSetID parsed)
    | CallbackNoticeDismiss \<Rightarrow> handleNoticeDismiss msg
    | CallbackUnknown \<Rightarrow> answer_text stale)"

definition handleCallback :: "callback_query \<Rightarrow> handler" where
  "handleCallback q = (case cq_Message q of
      None \<Rightarrow> answer_text stale
    | Some msg \<Rightarrow> (case ParseCallback (cq_Data q) of
          Inl err \<Rightarrow> answer_text stale
        | Inr parsed \<Rightarrow> bindM (authorizeCallback (cq_From q) msg parsed) (\<lambda>denied. case denied of
            Some key \<Rightarrow> answer_text key
          | None \<Rightarrow> run_callback (cq_From q) msg parsed)))"

definition HandleUpdate :: "tg_update \<Rightarrow> handler" where
  "HandleUpdate u = (case up_MyChatMember u of
      Some event \<Rightarrow> step (handleMyChatMember event)
    | None \<Rightarrow> (case up_Message u of
        Some msg \<Rightarrow> step (handleMessage msg)
      | None \<Rightarrow> (case up_EditedMessage u of
          Some msg \<Rightarrow> step (handleEditedMessage msg)
        | None \<Rightarrow> (case up_Callback u of
            Some q \<Rightarrow> handleCallback q
          | None \<Rightarrow> no_answer))))"

section \<open>Lemmas\<close>

lemmas sound_handler_rules = sound_with_workspace sound_rules sound_handler_ends

lemma sound_setup_messages [sound_ops]: "sound (ensureWorkspace c t)" "sound (upsertSetupMessage c t fb n)"
  unfolding ensureWorkspace_def upsertSetupMessage_def reuse_fallback_def send_setup_message_def default_timezone_def Let_def
  by (intro sound_handler_rules sound_ops)+

lemma sound_handleMyChatMember: "sound (handleMyChatMember e)"
  unfolding handleMyChatMember_def by (intro sound_handler_rules sound_ops)

lemma sound_ensureTopicMessage: "sound (ensureTopicMessage w c th k cur v kb ic pin)"
  unfolding ensureTopicMessage_def by (intro sound_handler_rules sound_ops)

lemma sound_ensure_messages: "sound (ensure_messages w c th k b ms ch)"
  by (induction ms arbitrary: ch) (auto intro!: sound_rules sound_ensureTopicMessage)

lemma sound_ensure_all_messages: "sound (ensure_all_messages w c ths bs ks ch)"
  by (induction ks arbitrary: ch)
    (unfold ensure_all_messages.simps, (intro sound_rules sound_ensure_messages | assumption)+)

lemma sound_handleSetupStart: "sound (handleSetupStart m)"
  unfolding handleSetupStart_def Let_def by (intro sound_handler_rules sound_ops sound_ensure_all_messages)

lemma sound_handleTodayAdd: "sound (handleTodayAdd u m)"
  unfolding handleTodayAdd_def today_busy_def add_summary_def ask_task_def Let_def by (intro sound_handler_rules sound_ops)

lemma sound_consumeDailyTaskText: "sound (consumeDailyTaskText w u m)"
  unfolding consumeDailyTaskText_def Let_def by (intro sound_handler_rules sound_ops)

lemma sound_consumeDailyReport: "sound (consumeDailyReport w u m k)"
  unfolding consumeDailyReport_def report_tx_def submit_status_def reject_report_def show_report_def Let_def
  by (intro sound_handler_rules sound_ops)

lemma sound_handleTaskReport: "sound (handleTaskReport u m i)"
  unfolding handleTaskReport_def Let_def by (intro sound_handler_rules sound_ops)

lemma sound_handleTaskStatus: "sound (handleTaskStatus u m i st)"
  unfolding handleTaskStatus_def ask_report_def status_prompt_def Let_def by (intro sound_handler_rules sound_ops)

lemma sound_notices: "sound (handleAlertAck u m i)" "sound (handleNoticeDismiss m)"
  unfolding handleAlertAck_def handleNoticeDismiss_def Let_def by (intro sound_handler_rules sound_ops)+

lemma sound_handleMessage: "sound (handleMessage m)"
  unfolding handleMessage_def handlePendingInputMessage_def consume_input_def
  by (intro sound_handler_rules sound_ops sound_consumeDailyTaskText sound_consumeDailyReport
      | simp add: sound_consumeDailyTaskText sound_consumeDailyReport sound_ops split: pending_input_kind.split)+

lemma sound_handleEditedMessage: "sound (handleEditedMessage m)"
  unfolding handleEditedMessage_def edited_entry_def Let_def by (intro sound_handler_rules sound_ops)

lemma sound_authorizeCallback: "sound (authorizeCallback u m p)"
  by (rule sound_same [OF unchanged_authorizeCallback])

lemma sound_run_callback: "sound (run_callback u m p)"
  unfolding run_callback_def
  by (cases "cb_Kind p"; simp only: callback_kind.case)
    (intro sound_handler_rules sound_ops sound_handleSetupStart sound_handleTodayAdd sound_handleTaskReport
      sound_handleTaskStatus sound_notices)+

lemma sound_handleCallback: "sound (handleCallback q)"
  unfolding handleCallback_def by (intro sound_handler_rules sound_ops sound_authorizeCallback sound_run_callback)

lemma sound_HandleUpdate [sound_ops]: "sound (HandleUpdate u)"
  unfolding HandleUpdate_def
  by (intro sound_handler_rules sound_ops sound_handleMyChatMember sound_handleMessage sound_handleEditedMessage sound_handleCallback)

end
