(* ===== verification/Runs.thy ===== *)
theory Runs imports IO_Monad begin

text \<open>
  Running programs of the model: equations that push a run through \<open>bindM\<close>, and what a single
  statement does. A calm world is one in which no statement fails on the way to the database and
  no transaction is aborted; there a read returns what the tables hold.
\<close>

named_theorems run \<open>equations that run programs\<close>

definition sql_now :: "world \<Rightarrow> int" where
  "sql_now w = (case w_tx w of InTx t \<Rightarrow> t | _ \<Rightarrow> w_now w)"

section \<open>Structure\<close>

lemma bindM_ret [run]: "bindM (ret x) f = f x"
  by (simp add: bindM_def ret_def)

lemma bindM_ret_right [run]: "bindM m ret = m" "bindM u (\<lambda>_. ret ()) = u"
  by (rule ext, simp add: bindM_def ret_def split: prod.split sum.split)+

lemma bindM_failM [run]: "bindM (failM e) f = failM e"
  by (simp add: bindM_def failM_def)

lemma bindM_assoc [run]: "bindM (bindM m f) g = bindM m (\<lambda>x. bindM (f x) g)"
  by (rule ext) (simp add: bindM_def split: prod.split sum.split)

lemma thenM_bind [run]: "thenM m n = bindM m (\<lambda>_. n)"
  by (simp add: thenM_def)

lemma bindM_if [run]: "bindM (if b then m else n) f = (if b then bindM m f else bindM n f)"
  by simp

lemma whenM_if [run]: "whenM b m = (if b then m else ret ())"
  by (simp add: whenM_def)

lemma bindM_getW [run]: "bindM (getW g) f w = f (g w) w"
  by (simp add: bindM_def getW_def)

lemma getW_run [run]: "getW g w = (Inr (g w), w)"
  by (simp add: getW_def)

lemma attempt_run [run]: "attempt m w = (Inr (fst (m w)), snd (m w))"
  by (simp add: attempt_def case_prod_beta)

lemma err_of_run [run]: "err_of m w = (Inr (case fst (m w) of Inl e \<Rightarrow> Some e | Inr _ \<Rightarrow> None), snd (m w))"
  by (simp add: err_of_def bindM_def attempt_def ret_def case_prod_beta)

lemma ignore_run [run]: "ignore m w = (Inr (), snd (m w))"
  by (simp add: ignore_def bindM_def attempt_def ret_def case_prod_beta)

lemma bindM_attempt [run]: "bindM (attempt m) f w = f (fst (m w)) (snd (m w))"
  by (simp add: bindM_def attempt_def case_prod_beta)

lemma bindM_err_of [run]: "bindM (err_of m) f w = f (case fst (m w) of Inl e \<Rightarrow> Some e | Inr _ \<Rightarrow> None) (snd (m w))"
  by (simp add: bindM_def err_of_run)

lemma bindM_ignore [run]: "bindM (ignore m) f w = f () (snd (m w))"
  by (simp add: bindM_def ignore_run)

lemmas [run] = ret_run failM_run

text \<open>The result of a sequence, by the result of its first program.\<close>

lemma bindM_cases:
  obtains e w' where "m w = (Inl e, w')" "bindM m f w = (Inl e, w')"
  | x w' where "m w = (Inr x, w')" "bindM m f w = f x w'"
  by (cases "m w" rule: prod.exhaust; cases "fst (m w)") auto

section \<open>One statement\<close>

lemma stmt_Inr:
  assumes "stmt f w = (Inr x, w')"
  shows "\<exists>d. f (sql_now w) (w_db w) = Some (x, d) \<and> w' = (bump w)\<lparr>w_db := d\<rparr>"
  using assms unfolding stmt_def sql_now_def
  by (auto simp del: prod.inject split: tx_state.splits option.splits prod.splits dest: Pair_inject)

lemma stmt_Inl:
  assumes "stmt f w = (Inl e, w')"
  shows "w_db w' = w_db w \<and> (\<exists>s. e = DbError s)"
  using assms unfolding stmt_def
  by (auto split: tx_state.splits option.splits prod.splits)

section \<open>Calm worlds\<close>

definition calm :: "world \<Rightarrow> bool" where
  "calm w \<longleftrightarrow> w_sql w = (\<lambda>_. None) \<and> (\<forall>t. w_tx w \<noteq> TxAborted t)"

lemma calm_bump [simp]: "calm (bump w) = calm w"
  by (simp add: calm_def bump_def)

lemma calm_fields [simp]:
  "calm (w\<lparr>w_db := d\<rparr>) = calm w" "calm (w\<lparr>w_now := n\<rparr>) = calm w" "calm (w\<lparr>w_sent := s\<rparr>) = calm w"
  "calm w \<Longrightarrow> calm (w\<lparr>w_tx := InTx n\<rparr>)" "calm w \<Longrightarrow> calm (w\<lparr>w_tx := NoTx\<rparr>)"
  by (simp_all add: calm_def)

lemma sql_now_fields [simp]: "sql_now (bump w) = sql_now w" "sql_now (w\<lparr>w_db := d\<rparr>) = sql_now w"
  by (simp_all add: sql_now_def bump_def split: tx_state.split)

lemma bump_db [simp]: "(bump w)\<lparr>w_db := w_db w\<rparr> = bump w"
  by (simp add: bump_def)

lemma stmt_calm [run]:
  "calm w \<Longrightarrow> stmt f w = (case f (sql_now w) (w_db w) of
      None \<Rightarrow> (Inl (DbError ''constraint violation''), abort_tx (bump w))
    | Some (x, d) \<Rightarrow> (Inr x, (bump w)\<lparr>w_db := d\<rparr>))"
  by (auto simp: stmt_def calm_def sql_now_def split: tx_state.split)

lemma query_calm [run]: "calm w \<Longrightarrow> query f w = (Inr (f (w_db w)), bump w)"
  by (simp add: query_def stmt_calm)

lemma exec_calm [run]: "calm w \<Longrightarrow> exec f w = (Inr (), (bump w)\<lparr>w_db := f (sql_now w) (w_db w)\<rparr>)"
  by (simp add: exec_def stmt_calm)

lemma bindM_query_calm [run]: "calm w \<Longrightarrow> bindM (query f) g w = g (f (w_db w)) (bump w)"
  by (simp add: bindM_def query_calm)

lemma bindM_exec_calm [run]: "calm w \<Longrightarrow> bindM (exec f) g w = g () ((bump w)\<lparr>w_db := f (sql_now w) (w_db w)\<rparr>)"
  by (simp add: bindM_def exec_calm)

lemma bindM_stmt_calm [run]:
  "calm w \<Longrightarrow> bindM (stmt f) g w = (case f (sql_now w) (w_db w) of
      None \<Rightarrow> (Inl (DbError ''constraint violation''), abort_tx (bump w))
    | Some (x, d) \<Rightarrow> g x ((bump w)\<lparr>w_db := d\<rparr>))"
  by (simp add: bindM_def stmt_calm split: option.split prod.split)

text \<open>A transaction in a calm world commits exactly when its function succeeds.\<close>

lemma inTx_calm:
  assumes "calm w"
  shows "inTx m w = (case m ((bump w)\<lparr>w_tx := InTx (w_now w)\<rparr>) of
      (Inl e, w') \<Rightarrow> (Inl e, rollback (w_db w) w')
    | (Inr x, w') \<Rightarrow> (case (w_tx w', w_sql w' (w_nsql w')) of
          (InTx t, None) \<Rightarrow> (Inr x, (bump w')\<lparr>w_tx := NoTx\<rparr>)
        | (_, Some text) \<Rightarrow> (Inl (DbError text), rollback (w_db w) (bump w'))
        | (_, None) \<Rightarrow> (Inl (DbError ''commit unexpectedly resulted in rollback''), rollback (w_db w) (bump w'))))"
  using assms by (simp add: inTx_def calm_def)

end
