(* ===== verification/Examples.thy ===== *)
theory Examples imports Schema Runs begin

text \<open>
  The concrete tables and worlds that the witnesses use: a group with one participant, user 7, who
  has one open task, one waiting progress event, and a message of the group's chat.
\<close>

lemma show_int_1: "show_int 1 = ''1''"
  by code_simp

text \<open>A call that Telegram answers at once is sent once.\<close>

lemma callJSON_succeeds:
  assumes "\<And>k. http_result (e_Token (w_env w)) req (w_http w k req) = Inr res"
  shows "fst (callJSON req w) = Inr res" "w_sent (snd (callJSON req w)) = w_sent w @ [req]"
proof -
  have ok: "attempt_result req w j = Inr res" for j
    using assms by (simp add: attempt_result_def)
  obtain m where m: "w_sent (snd (callJSON req w)) = w_sent w @ replicate m req" "0 < m"
      "fst (callJSON req w) = attempt_result req w (m - 1)" "\<forall>j < m - 1. may_repeat req (attempt_result req w j)"
    using call_attempts_sent [of "retryAttempts (method_of req)" 1 "PlainError []" req w]
    unfolding callJSON_def by (auto simp: retryAttempts_def split: if_splits)
  then have "m = 1" using ok by (cases "m - 1") (auto simp: may_repeat_def)
  then show "fst (callJSON req w) = Inr res" "w_sent (snd (callJSON req w)) = w_sent w @ [req]"
    using m ok by simp_all
qed

text \<open>A workspace with one progress event that waits to be published.\<close>

definition workspace1 :: workspace where
  "workspace1 = \<lparr>ws_ID = 1, ws_ChatID = - 1001, ws_Title = None, ws_Timezone = ''UTC'', ws_SetupStatus = GroupSetupReady,
     ws_SetupMessageID = None, ws_CreatedAt = 0, ws_UpdatedAt = 0\<rparr>"

definition event1 :: progress_event where
  "event1 = \<lparr>pe_ID = 1, pe_WorkspaceGroupID = 1, pe_ParticipantID = None, pe_DailyTaskID = None,
     pe_EventType = ProgressCustomUpdate, pe_PublishStatus = ProgressPublishPending, pe_Payload = Map.empty,
     pe_PublishedMessageID = None, pe_CreatedAt = 0, pe_PublishedAt = None, pe_PublishStartedAt = None\<rparr>"

definition db1 :: db where
  "db1 = db0\<lparr>db_seq := (db_seq db0)(TWorkspaces := 1, TEvents := 1), db_workspaces := [workspace1], db_events := [event1]\<rparr>"

definition world1 :: world where "world1 = world0\<lparr>w_db := db1\<rparr>"

lemma schema_db1: "schema db1"
  by (simp add: db1_def db0_def workspace1_def event1_def schema_defs plans_defs ids_ok_def uniq_def)

lemma world1_fields [simp]: "w_db world1 = db1" "calm world1" "w_now world1 = 1774746000000000000"
  by (simp_all add: world1_def world0_def calm_def)

definition user7 :: tg_user where "user7 = user0\<lparr>us_ID := 7\<rparr>"

definition user8 :: tg_user where "user8 = user0\<lparr>us_ID := 8\<rparr>"

definition group1 :: tg_chat where
  "group1 = \<lparr>ch_ID = - 1001, ch_Type = ''supergroup'', ch_Title = ''G'', ch_IsForum = True\<rparr>"

definition message1 :: message where
  "message1 = message0\<lparr>mg_MessageID := 50, mg_MessageThreadID := 3, mg_Chat := group1\<rparr>"

definition participant1 :: participant where
  "participant1 = \<lparr>pt_ID = 1, pt_WorkspaceGroupID = 1, pt_UserID = 7, pt_Username = None, pt_DisplayName = ''P'',
     pt_IsActive = True, pt_CreatedAt = 0, pt_UpdatedAt = 0\<rparr>"

text \<open>The day of \<open>world0\<close> is 20541.\<close>

definition task1 :: daily_task where
  "task1 = \<lparr>tk_ID = 1, tk_WorkspaceGroupID = 1, tk_ParticipantID = 1, tk_OwnerUserID = 7, tk_TaskDate = 20541,
     tk_Kind = DailyEntryTask, tk_Text = ''T'', tk_Status = DailyTaskActive, tk_ReportText = None, tk_ReportStatus = None,
     tk_TodayCardMessageID = Some 50, tk_TaskMessageID = None, tk_TaskMessageThreadID = None, tk_ReportMessageID = None,
     tk_ReportMessageThreadID = None, tk_CreatedAt = 0, tk_ReportedAt = None, tk_AwaitingReportAt = None, tk_FailedAt = None\<rparr>"

definition db2 :: db where
  "db2 = db1\<lparr>db_seq := (db_seq db1)(TParticipants := 1, TTasks := 1), db_participants := [participant1],
     db_tasks := [task1]\<rparr>"

definition world2 :: world where "world2 = world0\<lparr>w_db := db2\<rparr>"

lemma schema_db2: "schema db2"
  by (simp add: db2_def db1_def db0_def workspace1_def event1_def participant1_def task1_def schema_defs plans_defs
      ids_ok_def uniq_def)

lemma world2_fields [simp]: "w_db world2 = db2" "calm world2" "w_now world2 = 1774746000000000000" "w_tx world2 = NoTx"
  by (simp_all add: world2_def world0_def calm_def)

lemmas example_defs = db2_def db1_def db0_def workspace1_def event1_def participant1_def task1_def message1_def
  group1_def user7_def user8_def message0_def user0_def

end
