(* ===== verification/Polling.thy ===== *)
theory Polling imports Bot_Service Examples begin

text \<open>
  \<open>cmd/trackmate-api\<close>: the loop that polls for updates. A batch is handled in order; the offset
  that confirms updates to Telegram moves past an update only when its handler succeeded. The
  loop never ends on its own, so \<open>poll_rounds\<close> runs a given number of its rounds.
\<close>

section \<open>One batch\<close>

fun processUpdates :: "(tg_update \<Rightarrow> unit io) \<Rightarrow> int \<Rightarrow> tg_update list \<Rightarrow> (int \<times> goerr option) io" where
  "processUpdates handle nextOffset [] = ret (nextOffset, None)"
| "processUpdates handle nextOffset (u # us) =
     (if up_UpdateID u < nextOffset then processUpdates handle nextOffset us
      else bindM (err_of (handle u)) (\<lambda>r. case r of
          Some err \<Rightarrow> ret (nextOffset, Some (WrappedError (''handle update '' @ show_int (up_UpdateID u)) err))
        | None \<Rightarrow> processUpdates handle (up_UpdateID u + 1) us))"

text \<open>The handler of one update: \<open>HandleUpdate\<close>, and the answer to a callback whatever its outcome.\<close>

definition answer_callback :: "callback_query \<Rightarrow> bytes \<Rightarrow> unit io" where
  "answer_callback q key = bindM (getW (\<lambda>w. if key = [] then [] else e_text (w_env w) key))
     (\<lambda>text. ignore (tgAnswerCallbackQuery (cq_ID q) text))"

definition handle_update :: "tg_update \<Rightarrow> unit io" where
  "handle_update u = bindM (attempt (HandleUpdate u)) (\<lambda>r.
     let (key, err) = (case r of Inl e \<Rightarrow> ([], Some e) | Inr x \<Rightarrow> x) in
     thenM (case up_Callback u of None \<Rightarrow> ret () | Some q \<Rightarrow> answer_callback q key) (raise_opt err))"

section \<open>The loop\<close>

definition pollRetryDelay :: "int \<Rightarrow> int" where
  "pollRetryDelay streak = (if streak \<le> 1 then 1 else if streak \<le> 5 then 2 else if streak \<le> 15 then 5 else 15)
     * ns_per_sec"

definition pause :: "int \<Rightarrow> unit io" where
  "pause k = (\<lambda>w. (Inr (), w\<lparr>w_now := w_now w + k\<rparr>))"

record poll_state =
  ps_offset :: int
  ps_pollErrorStreak :: int
  ps_updateErrorStreak :: int

definition poll_round :: "int \<Rightarrow> poll_state \<Rightarrow> poll_state io" where
  "poll_round pollTimeout s = bindM (attempt (tgPollUpdates (ps_offset s) pollTimeout)) (\<lambda>r. case r of
      Inl err \<Rightarrow>
        (let streak = ps_pollErrorStreak s + 1 in
         thenM (pause (pollRetryDelay streak)) (ret (s\<lparr>ps_pollErrorStreak := streak\<rparr>)))
    | Inr updates \<Rightarrow>
        bindM (processUpdates handle_update (ps_offset s) updates) (\<lambda>(nextOffset, err).
          let s1 = s\<lparr>ps_pollErrorStreak := 0, ps_offset := nextOffset\<rparr> in
          (case err of
             None \<Rightarrow> ret (s1\<lparr>ps_updateErrorStreak := 0\<rparr>)
           | Some e \<Rightarrow> (let streak = ps_updateErrorStreak s + 1 in
               thenM (pause (pollRetryDelay streak)) (ret (s1\<lparr>ps_updateErrorStreak := streak\<rparr>))))))"

definition poll0 :: poll_state where
  "poll0 = \<lparr>ps_offset = 0, ps_pollErrorStreak = 0, ps_updateErrorStreak = 0\<rparr>"

fun poll_rounds :: "nat \<Rightarrow> int \<Rightarrow> poll_state \<Rightarrow> poll_state io" where
  "poll_rounds 0 pollTimeout s = ret s"
| "poll_rounds (Suc n) pollTimeout s = bindM (poll_round pollTimeout s) (poll_rounds n pollTimeout)"

section \<open>Lemmas\<close>

lemma sound_pause [sound_ops]: "sound (pause k)"
  by (rule sound_same, rule unchanged.keeps_pure) (simp add: pause_def)

lemma sound_processUpdates:
  assumes handle: "\<And>u. sound (handle u)"
  shows "sound (processUpdates handle off us)"
  by (induction us arbitrary: off) (unfold processUpdates.simps, (intro sound_rules handle | assumption)+)

lemma sound_handle_update [sound_ops]: "sound (handle_update u)"
  unfolding handle_update_def answer_callback_def Let_def case_prod_beta by (intro sound_rules sound_ops)

lemma sound_poll_round [sound_ops]: "sound (poll_round t s)"
  unfolding poll_round_def Let_def by (intro sound_rules sound_ops sound_processUpdates)

lemma sound_poll_rounds [sound_ops]: "sound (poll_rounds n t s)"
  by (induction n arbitrary: s) (unfold poll_rounds.simps, (intro sound_rules sound_ops | assumption)+)

section \<open>The loop goes on\<close>

lemma processUpdates_offset:
  "\<exists>off' err w'. processUpdates handle off us w = (Inr (off', err), w') \<and> off \<le> off'"
proof (induction us arbitrary: off w)
  case (Cons u us)
  show ?case
  proof (cases "up_UpdateID u < off \<or> fst (handle u w) \<noteq> Inr ()")
    case True
    then show ?thesis using Cons.IH [of off w] by (auto simp: run split: sum.split)
  next
    case False
    obtain off' err w' where "processUpdates handle (up_UpdateID u + 1) us (snd (handle u w)) = (Inr (off', err), w')"
      "up_UpdateID u + 1 \<le> off'" using Cons.IH by blast
    with False show ?thesis by (auto simp: run)
  qed
qed (simp add: ret_def)

lemma poll_round_goes_on: "\<exists>s' w'. poll_round t s w = (Inr s', w') \<and> ps_offset s \<le> ps_offset s'"
proof -
  obtain r w1 where r: "tgPollUpdates (ps_offset s) t w = (r, w1)" by (cases "tgPollUpdates (ps_offset s) t w")
  show ?thesis
  proof (cases r)
    case (Inl e)
    with r show ?thesis by (simp add: poll_round_def run pause_def bindM_def ret_def Let_def)
  next
    case (Inr us)
    obtain off' err w2 where p: "processUpdates handle_update (ps_offset s) us w1 = (Inr (off', err), w2)" "ps_offset s \<le> off'"
      using processUpdates_offset by blast
    then have "bindM (processUpdates handle_update (ps_offset s) us) f w1 = f (off', err) w2" for f :: "_ \<Rightarrow> poll_state io"
      by (simp add: bindM_def)
    with r Inr p(2) show ?thesis
      by (cases err) (simp_all add: poll_round_def run Let_def ret_def bindM_def pause_def)
  qed
qed

text \<open>The polling loop survives every failure: however many rounds it runs, with any failures of
  Telegram, of the database and of the handlers, it is never left with an error, and the offset it
  confirms never goes back.\<close>

theorem polling_never_stops:
  "\<exists>s' w'. poll_rounds n t s w = (Inr s', w') \<and> ps_offset s \<le> ps_offset s'"
proof (induction n arbitrary: s w)
  case (Suc n)
  obtain s1 w1 where 1: "poll_round t s w = (Inr s1, w1)" "ps_offset s \<le> ps_offset s1" using poll_round_goes_on by blast
  obtain s2 w2 where 2: "poll_rounds n t s1 w1 = (Inr s2, w2)" "ps_offset s1 \<le> ps_offset s2" using Suc.IH by blast
  from 1 2 show ?case by (auto simp: bindM_def)
qed (simp add: ret_def)

section \<open>What is confirmed\<close>

text \<open>The world after the handlers of a list of updates, and whether the i-th of them succeeds.\<close>

fun after_updates :: "(tg_update \<Rightarrow> unit io) \<Rightarrow> tg_update list \<Rightarrow> world \<Rightarrow> world" where
  "after_updates handle [] w = w"
| "after_updates handle (u # us) w = after_updates handle us (snd (handle u w))"

definition succeeds :: "(tg_update \<Rightarrow> unit io) \<Rightarrow> tg_update list \<Rightarrow> world \<Rightarrow> nat \<Rightarrow> bool" where
  "succeeds handle us w i \<longleftrightarrow> fst (handle (us ! i) (after_updates handle (take i us) w)) = Inr ()"

lemma succeeds_Cons:
  "succeeds handle (u # us) w 0 = (fst (handle u w) = Inr ())"
  "succeeds handle (u # us) w (Suc i) = succeeds handle us (snd (handle u w)) i"
  by (simp_all add: succeeds_def)

text \<open>C24. A batch of updates with ascending identifiers is handled in order up to the first failure:
  every update before it succeeded, the offset returned confirms exactly those, no later update was
  handled, and an error is returned exactly when one failed. So an update whose handler fails is
  never confirmed and is fetched again.\<close>

theorem process_updates_confirms_successes:
  assumes "sorted_wrt (<) (map up_UpdateID us)" and "\<forall>u \<in> set us. off \<le> up_UpdateID u"
  shows "\<exists>k err. k \<le> length us
    \<and> processUpdates handle off us w =
        (Inr (if k = 0 then off else up_UpdateID (us ! (k - 1)) + 1, err), after_updates handle (take (Suc k) us) w)
    \<and> (\<forall>i < k. succeeds handle us w i) \<and> (k < length us \<longrightarrow> \<not> succeeds handle us w k)
    \<and> (err = None \<longleftrightarrow> k = length us)"
  using assms
proof (induction us arbitrary: off w)
  case Nil
  then show ?case by (simp add: ret_def)
next
  case (Cons u us)
  obtain r w1 where h: "handle u w = (r, w1)" by (cases "handle u w")
  have first: "\<not> up_UpdateID u < off" using Cons.prems(2) by simp
  show ?case
  proof (cases r)
    case (Inl e)
    then show ?thesis
      using h first by (intro exI [of _ 0] exI [of _ "Some (WrappedError (''handle update '' @ show_int (up_UpdateID u)) e)"])
        (simp add: run succeeds_Cons)
  next
    case (Inr x)
    have rest: "sorted_wrt (<) (map up_UpdateID us)" "\<forall>v \<in> set us. up_UpdateID u + 1 \<le> up_UpdateID v"
      using Cons.prems(1) by auto
    obtain k err where k: "k \<le> length us"
        "processUpdates handle (up_UpdateID u + 1) us w1 =
          (Inr (if k = 0 then up_UpdateID u + 1 else up_UpdateID (us ! (k - 1)) + 1, err), after_updates handle (take (Suc k) us) w1)"
        "\<forall>i < k. succeeds handle us w1 i" "k < length us \<longrightarrow> \<not> succeeds handle us w1 k" "err = None \<longleftrightarrow> k = length us"
      using Cons.IH [OF rest, of w1] by blast
    have "\<forall>i < Suc k. succeeds handle (u # us) w i"
      using h Inr k(3) by (auto simp: less_Suc_eq_0_disj succeeds_Cons)
    then show ?thesis
      using h first Inr k by (intro exI [of _ "Suc k"] exI [of _ err]) (auto simp: run succeeds_Cons nth_Cons')
  qed
qed

definition update1 :: "int \<Rightarrow> tg_update" where
  "update1 i = \<lparr>up_UpdateID = i, up_Message = None, up_EditedMessage = None, up_Callback = None, up_MyChatMember = None\<rparr>"

theorem process_updates_confirms_successes_witness:
  "\<exists>err. processUpdates (\<lambda>u. if up_UpdateID u = 6 then failM (PlainError []) else ret ()) 5 [update1 5, update1 6, update1 7] world0
    = (Inr (6, Some err), world0)"
proof -
  define h :: "tg_update \<Rightarrow> unit io" where "h = (\<lambda>u. if up_UpdateID u = 6 then failM (PlainError []) else ret ())"
  define us where "us = [update1 5, update1 6, update1 7]"
  have us: "sorted_wrt (<) (map up_UpdateID us)" "\<forall>u \<in> set us. 5 \<le> up_UpdateID u" "length us = 3"
    by (simp_all add: us_def update1_def)
  have s: "succeeds h us world0 0" "\<not> succeeds h us world0 1"
    by (simp_all add: us_def succeeds_def update1_def h_def run)
  obtain k err where k: "k \<le> length us"
      "processUpdates h 5 us world0 =
        (Inr (if k = 0 then 5 else up_UpdateID (us ! (k - 1)) + 1, err), after_updates h (take (Suc k) us) world0)"
      "\<forall>i < k. succeeds h us world0 i" "k < length us \<longrightarrow> \<not> succeeds h us world0 k" "err = None \<longleftrightarrow> k = length us"
    using process_updates_confirms_successes [OF us(1,2), of h world0] by blast
  have "\<not> 1 < k" using k(3) s(2) by blast
  moreover have "k \<noteq> 0" using k(4) s(1) us(3) by (cases k) simp_all
  ultimately have "k = 1" by simp
  with k(2,5) us(3) show ?thesis unfolding h_def [symmetric] us_def [symmetric]
    by (auto simp: us_def update1_def h_def run)
qed

end
