(* ===== verification/Worker.thy ===== *)
theory Worker imports App_Routine App_Goals begin

text \<open>
  \<open>internal/worker\<close>: one tick of the worker. It runs under an advisory lock of the database, so
  at most one tick runs at a time; \<open>free\<close> tells whether no other session holds the lock. The fuel
  bounds each of the loops that empty a queue.
\<close>

definition ErrWorkerLockBusy :: goerr where "ErrWorkerLockBusy = PlainError ''worker lock is busy''"

definition TryAcquireWorkerLease :: "bool \<Rightarrow> bool io" where
  "TryAcquireWorkerLease free = query (\<lambda>_. free)"

text \<open>Releasing the lock held by this session; a failure closes the session, which frees the lock.\<close>

definition ReleaseLease :: "goerr option io" where
  "ReleaseLease = bindM (err_of (query (\<lambda>_. ())))
     (\<lambda>r. ret (map_option (WrappedError ''unlock worker lease'') r))"

definition tick_start :: "gotime \<Rightarrow> gotime io" where
  "tick_start now = inTx (bindM (CurrentNow (t_in now utc)) (\<lambda>current.
     thenM (RunDailyTaskTransitions current) (ret current)))"

definition tick_body :: "nat \<Rightarrow> gotime \<Rightarrow> unit io" where
  "tick_body fuel now = bindM (tick_start now) (\<lambda>current.
     thenM (DispatchDueCheckins current)
     (thenM (RunCheckinTransitions fuel current)
     (thenM (CleanupExpiredNotices current)
     (thenM (CleanupStaleInputs fuel current)
     (thenM (DispatchWeeklyReviews current)
     (thenM (DispatchFinalReviews current)
     (thenM (DispatchAlerts fuel)
     (PublishPending fuel))))))))"

definition Tick :: "nat \<Rightarrow> bool \<Rightarrow> gotime \<Rightarrow> unit io" where
  "Tick fuel free now = bindM (TryAcquireWorkerLease free) (\<lambda>acquired.
     if \<not> acquired then failM ErrWorkerLockBusy
     else bindM (err_of (tick_body fuel now)) (\<lambda>err.
       bindM ReleaseLease (\<lambda>releaseErr. raise_opt (errors_join [err, releaseErr]))))"

lemma sound_Tick [sound_ops]: "sound (Tick fuel free now)"
  unfolding Tick_def TryAcquireWorkerLease_def ReleaseLease_def tick_body_def tick_start_def
  by (intro sound_rules sound_ops)

end
