(* ===== verification/Control.thy ===== *)
theory Control imports Worker Examples begin

text \<open>
  \<open>internal/control\<close>: the control server of the end-to-end tests, which resets a workspace, lists
  its topics, sets the clock and runs the worker. A response is its status with its value or its
  error text; parsing JSON and RFC 3339 is the outcome \<open>clock_body\<close> of the request. Waiting for
  the worker lock is bounded by fuel: \<open>free k\<close> tells whether the lock is free at the k-th attempt.
\<close>

section \<open>Handlers\<close>

datatype 'a response = Ok 'a | ServerError bytes | BadRequest bytes | Conflict bytes

definition writeJSON :: "'a io \<Rightarrow> 'a response io" where
  "writeJSON m = bindM (attempt m) (\<lambda>r. ret (case r of Inl e \<Rightarrow> ServerError (err_text e) | Inr x \<Rightarrow> Ok x))"

definition int64Param :: "bytes \<Rightarrow> bytes \<Rightarrow> (int \<Rightarrow> 'a response io) \<Rightarrow> 'a response io" where
  "int64Param key raw f = (case parse_int raw of
      Inl e \<Rightarrow> ret (BadRequest (key @ '' query parameter is required'')) | Inr n \<Rightarrow> f n)"

definition handleReset :: "bytes \<Rightarrow> reset_result response io" where
  "handleReset raw = int64Param ''chat_id'' raw (\<lambda>chatID. writeJSON (inTx (ResetWorkspaceForE2E chatID)))"

definition handleTopics :: "bytes \<Rightarrow> (topic_key \<Rightarrow> topic_binding option) response io" where
  "handleTopics raw = int64Param ''chat_id'' raw (\<lambda>chatID. writeJSON (ActiveTopicBindings chatID))"

datatype clock_body = BadBody bytes | ClearClock | SetClock int

definition handleClock :: "clock_body \<Rightarrow> unit response io" where
  "handleClock body = (case body of
      BadBody e \<Rightarrow> ret (BadRequest e)
    | ClearClock \<Rightarrow> writeJSON (inTx (SetClockOverride None))
    | SetClock t \<Rightarrow> writeJSON (inTx (SetClockOverride (Some t))))"

definition tick_timeout :: int where "tick_timeout = 30 * ns_per_sec"

definition control_pause :: "unit io" where
  "control_pause = (\<lambda>w. (Inr (), w\<lparr>w_now := w_now w + 100000000\<rparr>))"

fun tick_until :: "nat \<Rightarrow> nat \<Rightarrow> (nat \<Rightarrow> bool) \<Rightarrow> nat \<Rightarrow> int \<Rightarrow> unit response io" where
  "tick_until 0 fuel free k deadline = failM FuelExhausted"
| "tick_until (Suc n) fuel free k deadline =
     bindM time_now (\<lambda>now. bindM (err_of (Tick fuel (free k) now)) (\<lambda>r.
       case r of
         None \<Rightarrow> ret (Ok ())
       | Some err \<Rightarrow>
           if \<not> errors_is err ErrWorkerLockBusy then ret (ServerError (err_text err))
           else bindM time_now (\<lambda>t.
             if deadline < gt_ns t then ret (Conflict (err_text ErrWorkerLockBusy))
             else thenM control_pause (tick_until n fuel free (Suc k) deadline))))"

definition handleTick :: "nat \<Rightarrow> nat \<Rightarrow> (nat \<Rightarrow> bool) \<Rightarrow> unit response io" where
  "handleTick n fuel free = bindM time_now (\<lambda>now. tick_until n fuel free 0 (gt_ns now + tick_timeout))"

section \<open>A reset keeps the schema\<close>

text \<open>A reset deletes rows, so it keeps the schema but not the past.\<close>

definition schema_step :: "db \<Rightarrow> db \<Rightarrow> bool" where
  "schema_step d d' \<longleftrightarrow> (\<forall>t. db_seq d t \<le> db_seq d' t) \<and> (schema d \<longrightarrow> schema d')"

interpretation scm: db_rel schema_step
proof
  fix d d' d'' assume "schema_step d d'" "schema_step d' d''"
  then show "schema_step d d''" by (auto simp: schema_step_def intro: order.trans)
next
  fix d d' assume "schema_step d d'"
  then show "schema_step d (d\<lparr>db_seq := db_seq d'\<rparr>)" by (auto simp: schema_step_def intro!: schema_seq)
qed (simp add: schema_step_def)

lemma sound_schema: "sound m \<Longrightarrow> keeps schema_step m"
  by (simp add: sound_def keeps_def db_step_def schema_step_def)

lemma keeps_delete:
  assumes "\<And>d. schema d \<Longrightarrow> schema (set_rows d (filter (\<lambda>r. \<not> p d r) (rows d)))"
    and "\<And>d rs. db_seq (set_rows d rs) = db_seq d"
  shows "keeps schema_step (delete_where p rows set_rows)"
  unfolding delete_where_def by (rule scm.keeps_stmt) (auto simp: schema_step_def assms)

lemma schema_tasks_cascade:
  assumes "schema d"
  shows "schema (set_tasks_cascade d (filter p (db_tasks d)))"
proof -
  have tasks: "\<exists>q \<in> set (filter p (db_tasks d)). tk_ID q = al_DailyTaskID a"
    if "a \<in> set (db_alerts d)" "\<not> (list_ex (\<lambda>t. tk_ID t = al_DailyTaskID a) (db_tasks d)
        \<and> \<not> list_ex (\<lambda>t. tk_ID t = al_DailyTaskID a) (filter p (db_tasks d)))" for a
    using assms that by (auto simp: schema_def schema_refs_def tk_ref_def list_ex_iff)
  have ids: "map pe_ID (map (\<lambda>e. if P e then e\<lparr>pe_DailyTaskID := None\<rparr> else e) es) = map pe_ID es" for P es
    by (induction es) auto
  have events: "ids_ok pe_ID n es \<Longrightarrow> ids_ok pe_ID n (map (\<lambda>e. if P e then e\<lparr>pe_DailyTaskID := None\<rparr> else e) es)" for P n es
    unfolding ids_ok_def ids by auto
  show ?thesis
    using assms tasks unfolding schema_defs plans_defs gs_ref_def set_tasks_cascade_def Let_def
    by (auto intro!: ids_ok_filter uniq_filter events)
qed

lemma schema_goals_cascade:
  assumes "schema d"
  shows "schema (set_goals_cascade d (filter p (db_goals d)))"
proof -
  have goals: "\<exists>q \<in> set (filter p (db_goals d)). gs_ID q = i"
    if "gs_ref d i" "\<not> (list_ex (\<lambda>g. gs_ID g = i) (db_goals d) \<and> \<not> list_ex (\<lambda>g. gs_ID g = i) (filter p (db_goals d)))" for i
    using that by (auto simp: gs_ref_def list_ex_iff)
  show ?thesis
    using assms goals unfolding schema_defs plans_defs set_goals_cascade_def Let_def
    by (auto simp: gs_ref_def intro!: ids_ok_filter uniq_filter)
qed

lemma schema_filters:
  assumes "schema d"
  shows "schema (d\<lparr>db_pendings := filter pp (db_pendings d)\<rparr>)" "schema (d\<lparr>db_alerts := filter pa (db_alerts d)\<rparr>)"
    "schema (d\<lparr>db_events := filter pe (db_events d)\<rparr>)" "schema (d\<lparr>db_checkins := filter pc (db_checkins d)\<rparr>)"
    "schema (d\<lparr>db_plans := filter pl (db_plans d)\<rparr>)" "schema (d\<lparr>db_nudges := filter pn (db_nudges d)\<rparr>)"
  using assms unfolding schema_defs plans_defs gs_ref_def by (auto intro!: ids_ok_filter uniq_filter)

lemma schema_reset_setup:
  assumes "schema d"
  shows "schema (d\<lparr>db_workspaces := upd_where (\<lambda>q. ws_ID q = i)
    (\<lambda>q. q\<lparr>ws_SetupStatus := st, ws_SetupMessageID := m, ws_UpdatedAt := now\<rparr>) (db_workspaces d)\<rparr>)"
  by (rule upd_workspaces_schema [OF assms]) simp_all

lemma cascade_seq:
  "db_seq (set_tasks_cascade d ts) = db_seq d" "db_seq (set_goals_cascade d gs) = db_seq d"
  by (simp_all add: set_tasks_cascade_def set_goals_cascade_def Let_def)

lemma keeps_ResetWorkspaceForE2E: "keeps schema_step (ResetWorkspaceForE2E c)"
  unfolding ResetWorkspaceForE2E_def Let_def
  by (intro scm.keeps_program keeps_delete sound_schema [OF sound_workspace_reads(1)] scm.keeps_stmt)
    (auto simp: schema_step_def cascade_seq intro: schema_filters schema_tasks_cascade schema_goals_cascade
      schema_reset_setup)

end
