(* ===== verification/Config.thy ===== *)
theory Config imports Telegram begin

text \<open>
  \<open>internal/config/config.go\<close>: the configuration from the environment and the file \<open>.env\<close>. The
  environment is a map; a variable that is not set reads as the empty string. The file is its
  contents, \<open>None\<close> when it cannot be opened.
\<close>

type_synonym os_env = "bytes \<rightharpoonup> bytes"

definition Getenv :: "os_env \<Rightarrow> bytes \<Rightarrow> bytes" where
  "Getenv env key = (case env key of None \<Rightarrow> [] | Some v \<Rightarrow> v)"

text \<open>\<open>os.Setenv\<close> refuses a key with \<open>=\<close> and a key or value with a NUL byte.\<close>

definition Setenv :: "os_env \<Rightarrow> bytes \<Rightarrow> bytes \<Rightarrow> os_env" where
  "Setenv env key value = (if key = [] \<or> CHR ''='' \<in> set key \<or> CHR 0x00 \<in> set key \<or> CHR 0x00 \<in> set value
     then env else env(key \<mapsto> value))"

record config =
  cf_BotToken :: bytes
  cf_DatabaseURL :: bytes
  cf_DefaultTimezone :: bytes
  cf_WorkerTickSeconds :: int
  cf_LogLevel :: bytes
  cf_Environment :: bytes
  cf_ControlHTTPAddr :: bytes
  cf_PollTimeout :: int

section \<open>The file\<close>

definition drop_cr :: "bytes \<Rightarrow> bytes" where
  "drop_cr line = (if line \<noteq> [] \<and> last line = CHR 0x0D then butlast line else line)"

text \<open>
  \<open>bufio.Scanner\<close>: the lines without their line ends, up to the first line that does not fit
  into its buffer of 64 KB.
\<close>

definition scan_lines :: "bytes \<Rightarrow> bytes list" where
  "scan_lines content = (let ls = split_on (CHR 0x0A) content;
      ls = (if last ls = [] then butlast ls else ls)
    in map drop_cr (takeWhile (\<lambda>l. length l < 65536) ls))"

text \<open>\<open>strings.Cut(line, "=")\<close> and \<open>strings.Trim(s, cutset)\<close>.\<close>

definition cut_eq :: "bytes \<Rightarrow> (bytes \<times> bytes) option" where
  "cut_eq line = (if CHR ''='' \<in> set line
     then Some (takeWhile (\<lambda>c. c \<noteq> CHR ''='') line, tl (dropWhile (\<lambda>c. c \<noteq> CHR ''='') line)) else None)"

definition trim_set :: "bytes \<Rightarrow> bytes \<Rightarrow> bytes" where
  "trim_set cutset s = rev (dropWhile (\<lambda>c. c \<in> set cutset) (rev (dropWhile (\<lambda>c. c \<in> set cutset) s)))"

definition load_line :: "bytes \<Rightarrow> os_env \<Rightarrow> os_env" where
  "load_line raw env = (let line = trim_space raw in
     if line = [] \<or> has_prefix line ''#'' then env
     else (case cut_eq line of
         None \<Rightarrow> env
       | Some (key, value) \<Rightarrow> (let key = trim_space key in
           if key = [] \<or> Getenv env key \<noteq> [] then env
           else Setenv env key (trim_set [CHR 0x22, CHR 0x27] (trim_space value)))))"

definition loadDotEnv :: "bytes option \<Rightarrow> os_env \<Rightarrow> os_env" where
  "loadDotEnv file env = (case file of None \<Rightarrow> env | Some content \<Rightarrow> fold load_line (scan_lines content) env)"

section \<open>The configuration\<close>

definition getEnvDefault :: "os_env \<Rightarrow> bytes \<Rightarrow> bytes \<Rightarrow> bytes" where
  "getEnvDefault env key fallback = (let value = trim_space (Getenv env key) in if value = [] then fallback else value)"

definition getEnvIntDefault :: "os_env \<Rightarrow> bytes \<Rightarrow> int \<Rightarrow> int" where
  "getEnvIntDefault env key fallback = (let raw = trim_space (Getenv env key) in
     if raw = [] then fallback
     else (case parse_int raw of Inl _ \<Rightarrow> fallback | Inr value \<Rightarrow> if value \<le> 0 then fallback else value))"

definition config_of :: "os_env \<Rightarrow> config" where
  "config_of env = \<lparr>cf_BotToken = Getenv env ''TRACKMATE__BOT_TOKEN'',
     cf_DatabaseURL = trim_space (Getenv env ''TRACKMATE__DATABASE_URL''),
     cf_DefaultTimezone = getEnvDefault env ''TRACKMATE__DEFAULT_TIMEZONE'' ''Europe/Moscow'',
     cf_WorkerTickSeconds = getEnvIntDefault env ''TRACKMATE__WORKER_TICK_SECONDS'' 5,
     cf_LogLevel = getEnvDefault env ''TRACKMATE__LOG_LEVEL'' ''INFO'',
     cf_Environment = getEnvDefault env ''TRACKMATE__ENVIRONMENT'' ''development'',
     cf_ControlHTTPAddr = Getenv env ''TRACKMATE__CONTROL_HTTP_ADDR'',
     cf_PollTimeout = getEnvIntDefault env ''TRACKMATE__POLL_TIMEOUT_SECONDS'' 25\<rparr>"

definition LoadConfig :: "tz_database \<Rightarrow> bytes option \<Rightarrow> os_env \<Rightarrow> goerr + config" where
  "LoadConfig tzdb file env = (let cfg = config_of (loadDotEnv file env) in
     if cf_DatabaseURL cfg = [] then Inl (PlainError ''TRACKMATE__DATABASE_URL is required'')
     else (case load_location tzdb (cf_DefaultTimezone cfg) of
         Inl e \<Rightarrow> Inl (WrappedError ''invalid TRACKMATE__DEFAULT_TIMEZONE'' (RuleError e))
       | Inr _ \<Rightarrow> Inr cfg))"

definition RequireBotToken :: "config \<Rightarrow> goerr option" where
  "RequireBotToken c = (if cf_BotToken c = [] \<or> cf_BotToken c = ''replace-me''
     then Some (PlainError ''TRACKMATE__BOT_TOKEN is required'') else None)"

text \<open>\<open>strings.EqualFold\<close> with a word none of whose letters folds to a letter outside ASCII.\<close>

definition IsProduction :: "config \<Rightarrow> bool" where
  "IsProduction c \<longleftrightarrow> map lower_byte (cf_Environment c) = ''production'' \<or> map lower_byte (cf_Environment c) = ''prod''"

definition ControlEnabled :: "config \<Rightarrow> bool" where
  "ControlEnabled c \<longleftrightarrow> cf_ControlHTTPAddr c \<noteq> [] \<and> \<not> IsProduction c"

section \<open>Lemmas\<close>

text \<open>The file never replaces a variable that has a value.\<close>

lemma load_line_keeps: "Getenv env key \<noteq> [] \<Longrightarrow> Getenv (load_line raw env) key = Getenv env key"
  by (auto simp: load_line_def Setenv_def Let_def Getenv_def split: option.split)

lemma loadDotEnv_keeps:
  assumes "Getenv env key \<noteq> []"
  shows "Getenv (loadDotEnv file env) key = Getenv env key"
proof -
  have "Getenv (fold load_line ls env) key = Getenv env key" for ls
    using assms
  proof (induction ls arbitrary: env)
    case (Cons l ls)
    then show ?case using load_line_keeps [of env key l] by simp
  qed simp
  then show ?thesis by (simp add: loadDotEnv_def split: option.split)
qed

lemma getEnvIntDefault_pos: "0 < fallback \<Longrightarrow> 0 < getEnvIntDefault env key fallback"
  by (auto simp: getEnvIntDefault_def Let_def split: sum.split)

lemma getEnvDefault_not_Nil: "fallback \<noteq> [] \<Longrightarrow> getEnvDefault env key fallback \<noteq> []"
  by (simp add: getEnvDefault_def Let_def)

lemma LoadConfig_Inr:
  "LoadConfig tzdb file env = Inr c \<Longrightarrow>
     c = config_of (loadDotEnv file env) \<and> cf_DatabaseURL c \<noteq> [] \<and> tzdb (cf_DefaultTimezone c) \<noteq> None"
  by (auto simp: LoadConfig_def Let_def load_location_def split: if_splits option.splits)

section \<open>Properties\<close>


definition env_example :: os_env where
  "env_example = [''TRACKMATE__DATABASE_URL'' \<mapsto> ''postgres://db'', ''TRACKMATE__DEFAULT_TIMEZONE'' \<mapsto> ''UTC'']"


end
