(* ===== verification/Monthly_Report.thy ===== *)
theory Monthly_Report imports Store_Today Input Config GoSha256 Examples begin

text \<open>
  \<open>internal/app/monthlyreport\<close> and \<open>cmd/trackmate-report\<close>: the prepared report of a month, which
  is sent to the progress topic at most once. The row of a month is inserted before the message is
  sent and never removed, so a second run finds it. The locale \<open>single_sender\<close> is what publishing
  relies on: the sender makes one request and leaves the database alone. The statements run
  outside a transaction, except the snapshot, which reads the month's rows in one.
\<close>

section \<open>Months\<close>

definition digits_val :: "bytes \<Rightarrow> int option" where
  "digits_val s = (if list_all (\<lambda>c. digit_val c \<noteq> None) s
     then Some (foldl (\<lambda>n c. n * 10 + (case digit_val c of Some d \<Rightarrow> int d | None \<Rightarrow> 0)) 0 s) else None)"

text \<open>\<open>time.Parse("2006-01", s)\<close>: four digits, a dash and a month of two digits.\<close>

definition parse_year_month :: "bytes \<Rightarrow> (int \<times> int) option" where
  "parse_year_month s = (if length s = 7 \<and> s ! 4 = CHR ''-'' then
       (case (digits_val (take 4 s), digits_val (drop 5 s)) of
          (Some y, Some m) \<Rightarrow> if 1 \<le> m \<and> m \<le> 12 then Some (y, m) else None
        | _ \<Rightarrow> None)
     else None)"

record period =
  pd_Month :: bytes
  pd_Timezone :: bytes
  pd_Start :: gotime
  pd_End :: gotime

definition add_month :: "gotime \<Rightarrow> gotime" where
  "add_month t = (let c = t_civil t; t' = mk_date (cy c) (cm c + 1) (cd c) (t_sec_of_day t) (gt_loc t)
     in t'\<lparr>gt_ns := gt_ns t' + gt_ns t mod ns_per_sec\<rparr>)"

definition Month :: "tz_database \<Rightarrow> bytes \<Rightarrow> bytes \<Rightarrow> gotime \<Rightarrow> goerr + period" where
  "Month tzdb month timezone now = (case load_location tzdb timezone of
      Inl e \<Rightarrow> Inl (RuleError e)
    | Inr loc \<Rightarrow> (case parse_year_month month of
        None \<Rightarrow> Inl (PlainError ''month must be YYYY-MM'')
      | Some (y, m) \<Rightarrow> (let start = mk_date y m 1 0 loc in
          if cy (t_civil start) \<noteq> y \<or> cm (t_civil start) \<noteq> m then Inl (PlainError ''month must be YYYY-MM'')
          else (let stop = add_month start in
            if t_before now stop then Inl (PlainError ''month is not complete in workspace timezone'')
            else Inr \<lparr>pd_Month = month, pd_Timezone = timezone, pd_Start = start, pd_End = stop\<rparr>))))"

text \<open>\<open>month + "-01"\<close> as a DATE; the database has no year 0.\<close>

definition month_date :: "bytes \<Rightarrow> int option" where
  "month_date month = (case parse_year_month month of
      Some (y, m) \<Rightarrow> if 1 \<le> y then Some (days_of_civil (Civil y m 1)) else None | None \<Rightarrow> None)"

section \<open>The text\<close>

text \<open>\<open>utf8.ValidString\<close> and the length of \<open>utf16.Encode\<close>.\<close>

fun valid_utf8 :: "bytes \<Rightarrow> bool" where
  "valid_utf8 [] \<longleftrightarrow> True"
| "valid_utf8 (c # cs) \<longleftrightarrow> (let (r, n) = decode_rune c cs in (r, n) \<noteq> (0xFFFD, 1) \<and> valid_utf8 (drop (n - 1) cs))"

definition utf16_units :: "nat list \<Rightarrow> nat" where
  "utf16_units rs = sum_list (map (\<lambda>r. if r < 0x10000 then 1 else 2) rs)"

record prepared_message =
  pm_text :: bytes
  pm_html :: bytes
  pm_hash :: bytes

definition prepare :: "bytes \<Rightarrow> goerr + prepared_message" where
  "prepare input =
     (if \<not> valid_utf8 input then Inl (PlainError ''report must be valid UTF-8'')
      else (let s = trim_space input in
        if s = [] then Inl (PlainError ''report is empty'')
        else if 4096 < utf16_units (runes_of s) then Inl (PlainError ''report exceeds 4096 UTF-16 units'')
        else Inr \<lparr>pm_text = s, pm_html = EscapeString s, pm_hash = sha256_hex s\<rparr>))"

section \<open>Receipts\<close>

text \<open>The status is \<open>None\<close> for \<open>not_published\<close>, the status of no row.\<close>

record receipt =
  re_Workspace :: int
  re_Month :: bytes
  re_Status :: "report_status option"
  re_ChatID :: int
  re_ThreadID :: int
  re_Text :: bytes
  re_HTML :: bytes
  re_Hash :: bytes
  re_MessageID :: "int option"
  re_ClaimedAt :: "int option"
  re_PublishedAt :: "int option"
  re_Link :: bytes
  re_LastError :: "bytes option"

definition receipt0 :: "int \<Rightarrow> bytes \<Rightarrow> receipt" where
  "receipt0 wid month = \<lparr>re_Workspace = wid, re_Month = month, re_Status = None, re_ChatID = 0, re_ThreadID = 0,
     re_Text = [], re_HTML = [], re_Hash = [], re_MessageID = None, re_ClaimedAt = None, re_PublishedAt = None,
     re_Link = [], re_LastError = None\<rparr>"

definition no_rows :: goerr where "no_rows = DbError ''no rows in result set''"

definition inM :: "goerr + 'a \<Rightarrow> 'a io" where "inM r = (case r of Inl e \<Rightarrow> failM e | Inr x \<Rightarrow> ret x)"

definition report_month :: "bytes \<Rightarrow> bytes \<Rightarrow> period io" where
  "report_month month timezone = bindM time_now (\<lambda>now. bindM (getW (\<lambda>w. e_tzdb (w_env w))) (\<lambda>tzdb.
     inM (Month tzdb month timezone now)))"

text \<open>A ready workspace with its progress topic.\<close>

definition report_place :: "int \<Rightarrow> db \<Rightarrow> (int \<times> int \<times> bytes) option" where
  "report_place wid d =
     (case first_where (\<lambda>w. ws_ID w = wid \<and> ws_SetupStatus w = GroupSetupReady) (db_workspaces d) of
        None \<Rightarrow> None
      | Some w \<Rightarrow> (case first_where (\<lambda>b. tb_WorkspaceGroupID b = wid \<and> tb_TopicKey b = TopicProgress) (db_bindings d) of
          None \<Rightarrow> None | Some b \<Rightarrow> Some (ws_ChatID w, tb_ThreadID b, ws_Timezone w)))"

definition target :: "int \<Rightarrow> bytes \<Rightarrow> receipt io" where
  "target wid month = bindM (query (report_place wid)) (\<lambda>place. case place of
      None \<Rightarrow> failM (WrappedError ''ready workspace and progress topic required'' no_rows)
    | Some (chat, thread, timezone) \<Rightarrow> bindM (report_month month timezone) (\<lambda>_.
        if thread \<le> 0 then failM (PlainError ''progress topic must have a positive thread id'')
        else ret ((receipt0 wid month)\<lparr>re_ChatID := chat, re_ThreadID := thread\<rparr>)))"

definition sql_report_row :: "int \<Rightarrow> bytes \<Rightarrow> monthly_report option sql" where
  "sql_report_row wid month now d = (case month_date month of
      None \<Rightarrow> None
    | Some day \<Rightarrow> Some (first_where (\<lambda>r. report_key r = (wid, day)) (db_reports d), d))"

definition with_row :: "monthly_report \<Rightarrow> receipt \<Rightarrow> receipt" where
  "with_row row r = r\<lparr>re_Status := Some (mr_Status row), re_ChatID := mr_ChatID row, re_ThreadID := mr_ThreadID row,
     re_Text := mr_Text row, re_Hash := mr_ContentHash row, re_MessageID := mr_MessageID row,
     re_ClaimedAt := Some (mr_ClaimedAt row), re_PublishedAt := mr_PublishedAt row, re_LastError := mr_LastError row\<rparr>"

definition with_link :: "receipt \<Rightarrow> receipt" where
  "with_link r = (case re_MessageID r of None \<Rightarrow> r
     | Some m \<Rightarrow> r\<lparr>re_Link := MessageLink (re_ChatID r) m (re_ThreadID r)\<rparr>)"

definition Status :: "int \<Rightarrow> bytes \<Rightarrow> receipt io" where
  "Status wid month = bindM (target wid month) (\<lambda>r. bindM (stmt (sql_report_row wid month)) (\<lambda>row.
     ret (with_link (case row of None \<Rightarrow> r | Some row \<Rightarrow> with_row row r))))"

definition Validate :: "int \<Rightarrow> bytes \<Rightarrow> bytes \<Rightarrow> receipt io" where
  "Validate wid month input = bindM (inM (prepare input)) (\<lambda>p. bindM (Status wid month) (\<lambda>r.
     if re_Status r \<noteq> None \<and> re_Hash r \<noteq> pm_hash p
     then failM (PlainError ''month already reserved with different content; reconciliation required'')
     else ret (r\<lparr>re_Text := pm_text p, re_HTML := pm_html p, re_Hash := pm_hash p\<rparr>)))"

section \<open>Publishing\<close>

definition new_report :: "int \<Rightarrow> int \<Rightarrow> receipt \<Rightarrow> int \<Rightarrow> monthly_report" where
  "new_report wid day r now = \<lparr>mr_WorkspaceGroupID = wid, mr_Month = day, mr_Status = ReportPublishing,
     mr_ContentHash = re_Hash r, mr_Text = re_Text r, mr_ChatID = re_ChatID r, mr_ThreadID = re_ThreadID r,
     mr_MessageID = None, mr_ClaimedAt = now, mr_PublishedAt = None, mr_LastError = None\<rparr>"

text \<open>\<open>INSERT ... ON CONFLICT DO NOTHING\<close> and the number of rows it inserted.\<close>

definition sql_reserve :: "int \<Rightarrow> bytes \<Rightarrow> receipt \<Rightarrow> nat sql" where
  "sql_reserve wid month r now d = (case month_date month of
      None \<Rightarrow> None
    | Some day \<Rightarrow>
        if list_ex (\<lambda>q. report_key q = (wid, day)) (db_reports d) then Some (0, d)
        else if \<not> list_ex (\<lambda>w. ws_ID w = wid) (db_workspaces d) then None
        else Some (1, d\<lparr>db_reports := db_reports d @ [new_report wid day r now]\<rparr>))"

definition sql_settle :: "int \<Rightarrow> bytes \<Rightarrow> report_status \<Rightarrow> int option \<Rightarrow> bytes option \<Rightarrow> nat sql" where
  "sql_settle wid month status messageID failure now d = (case month_date month of
      None \<Rightarrow> None
    | Some day \<Rightarrow> (let sel = (\<lambda>q. report_key q = (wid, day) \<and> mr_Status q = ReportPublishing) in
        Some (n_where sel (db_reports d), d\<lparr>db_reports := upd_where sel
          (\<lambda>q. q\<lparr>mr_Status := status, mr_MessageID := messageID, mr_LastError := failure,
             mr_PublishedAt := (if status = ReportPublished then Some now else None)\<rparr>) (db_reports d)\<rparr>)))"

definition send_failed :: bytes where "send_failed = ''send failed; verify Telegram and reconcile manually''"

definition bad_receipt :: bytes where
  "bad_receipt = ''Telegram receipt does not match recipient, topic, text and message id''"

definition same_place :: "receipt \<Rightarrow> message \<Rightarrow> bool" where
  "same_place r m \<longleftrightarrow> 0 < mg_MessageID m \<and> ch_ID (mg_Chat m) = re_ChatID r \<and> mg_MessageThreadID m = re_ThreadID r"

text \<open>What the row gets after the send: status, message and error.\<close>

definition settlement :: "receipt \<Rightarrow> goerr + message \<Rightarrow> report_status \<times> int option \<times> bytes option" where
  "settlement r sent = (case sent of
      Inl e \<Rightarrow> (ReportUncertain, None, Some send_failed)
    | Inr m \<Rightarrow> (let mid = (if same_place r m then Some (mg_MessageID m) else None) in
        if \<not> same_place r m \<or> mg_Text m \<noteq> re_Text r then (ReportUncertain, mid, Some bad_receipt)
        else (ReportPublished, mid, None)))"

definition report_request :: "receipt \<Rightarrow> send_message_request" where
  "report_request r = (send_req (re_ChatID r) (re_ThreadID r) (View ''PreparedReport'' [VStr (re_HTML r)]) None)
     \<lparr>sm_ParseMode := ''HTML''\<rparr>"

definition status_text :: "report_status \<Rightarrow> bytes" where
  "status_text s = (case s of ReportPublishing \<Rightarrow> ''publishing'' | ReportPublished \<Rightarrow> ''published''
     | ReportUncertain \<Rightarrow> ''uncertain'')"

definition report_uncertain :: goerr where
  "report_uncertain = PlainError ''delivery uncertain; reconciliation required''"

definition deliver :: "(send_message_request \<Rightarrow> message io) \<Rightarrow> int \<Rightarrow> bytes \<Rightarrow> receipt \<Rightarrow> receipt io" where
  "deliver send wid month r = bindM (attempt (send (report_request r))) (\<lambda>sent.
     case settlement r sent of (status, messageID, failure) \<Rightarrow>
     bindM (attempt (stmt (sql_settle wid month status messageID failure))) (\<lambda>saved.
       if saved \<noteq> Inr 1 then failM (PlainError ''delivery receipt persistence failed; reconciliation required'')
       else bindM (attempt (Status wid month)) (\<lambda>final.
         if status \<noteq> ReportPublished then failM report_uncertain else inM final)))"

text \<open>What follows the checks: other processes may have run since.\<close>

definition publish_checked :: "(send_message_request \<Rightarrow> message io) option \<Rightarrow> int \<Rightarrow> bytes \<Rightarrow> receipt \<Rightarrow> receipt io" where
  "publish_checked sender wid month r = (case re_Status r of
       Some status \<Rightarrow> if status = ReportPublished then ret r
         else failM (PlainError (''delivery '' @ status_text status @ ''; reconciliation required, do not resend''))
     | None \<Rightarrow> (case sender of
         None \<Rightarrow> failM (PlainError ''sender required'')
       | Some send \<Rightarrow> bindM (stmt (sql_reserve wid month r)) (\<lambda>n.
           if n \<noteq> 1 then bindM (Status wid month) (\<lambda>r'.
             if re_Status r' = Some ReportPublished \<and> re_Hash r' = re_Hash r then ret r'
             else failM (PlainError ''month reserved concurrently; reconciliation required''))
           else deliver send wid month r)))"

definition Publish :: "(send_message_request \<Rightarrow> message io) option \<Rightarrow> int \<Rightarrow> bytes \<Rightarrow> bytes \<Rightarrow> receipt io" where
  "Publish sender wid month input = bindM (Validate wid month input) (publish_checked sender wid month)"

section \<open>Reading\<close>

text \<open>A program that changes neither the database nor what Telegram sees.\<close>

definition reads :: "'a io \<Rightarrow> bool" where
  "reads m \<longleftrightarrow> (\<forall>w. w_db (snd (m w)) = w_db w \<and> same_oracle w (snd (m w)))"

lemma same_oracle_refl [simp]: "same_oracle w w"
  by (simp add: same_oracle_def)

lemma same_oracle_trans: "same_oracle a b \<Longrightarrow> same_oracle b c \<Longrightarrow> same_oracle a c"
  by (simp add: same_oracle_def)

lemma readsD: "reads m \<Longrightarrow> m w = (r, w') \<Longrightarrow> w_db w' = w_db w \<and> same_oracle w w'"
  unfolding reads_def by (metis snd_conv)

lemma reads_pure: "reads (ret x)" "reads (failM e)" "reads (getW g)" "reads time_now" "reads (inM s)"
  by (simp_all add: reads_def ret_def failM_def getW_def time_now_def inM_def split: sum.split)

lemma reads_bindM:
  assumes "reads m" and "\<And>x. reads (f x)"
  shows "reads (bindM m f)"
proof (unfold reads_def, intro allI)
  fix w
  obtain r w1 where m: "m w = (r, w1)" by (cases "m w")
  with assms(1) have 1: "w_db w1 = w_db w" "same_oracle w w1" by (auto dest: readsD)
  show "w_db (snd (bindM m f w)) = w_db w \<and> same_oracle w (snd (bindM m f w))"
  proof (cases r)
    case (Inr x)
    with m assms(2) [of x] 1 show ?thesis by (auto simp: reads_def intro: same_oracle_trans)
  qed (use m 1 in simp)
qed

lemma reads_stmt: "(\<And>now d x d'. f now d = Some (x, d') \<Longrightarrow> d' = d) \<Longrightarrow> reads (stmt f)"
  by (auto simp: reads_def stmt_def bump_def abort_tx_def same_oracle_def split: tx_state.split option.split prod.split)

lemma reads_query: "reads (query f)"
  unfolding query_def by (rule reads_stmt) simp

lemma reads_cases:
  "reads m \<Longrightarrow> reads n \<Longrightarrow> reads (if b then m else n)"
  "reads m \<Longrightarrow> (\<And>x. reads (f x)) \<Longrightarrow> reads (case oo of None \<Rightarrow> m | Some x \<Rightarrow> f x)"
  "(\<And>x y. reads (k x y)) \<Longrightarrow> reads (case p of (x, y) \<Rightarrow> k x y)"
  by (simp_all split: option.split prod.split)

lemmas reads_rules = reads_pure reads_bindM reads_query reads_cases

lemma reads_sql_report_row: "reads (stmt (sql_report_row wid month))"
  by (rule reads_stmt) (auto simp: sql_report_row_def split: option.splits)

lemma reads_target: "reads (target wid month)"
  unfolding target_def report_month_def by (intro reads_rules)

lemma reads_Status: "reads (Status wid month)"
  unfolding Status_def by (intro reads_rules reads_target reads_sql_report_row)

lemma reads_Validate: "reads (Validate wid month input)"
  unfolding Validate_def by (intro reads_rules reads_Status)

lemma sound_reads: "reads m \<Longrightarrow> sound m"
  by (rule sound_same) (simp add: keeps_def reads_def)

section \<open>What the checks give\<close>

lemma query_Inr: "query f w = (Inr x, w') \<Longrightarrow> x = f (w_db w) \<and> w' = bump w"
  unfolding query_def by (drule stmt_Inr) simp

lemma target_Inr:
  assumes "target wid month w = (Inr r, w')"
  shows "\<exists>chat thread timezone. report_place wid (w_db w) = Some (chat, thread, timezone) \<and> 0 < thread
    \<and> r = (receipt0 wid month)\<lparr>re_ChatID := chat, re_ThreadID := thread\<rparr>"
proof -
  obtain place w1 where "query (report_place wid) w = (Inr place, w1)"
      and rest: "(case place of None \<Rightarrow> failM (WrappedError ''ready workspace and progress topic required'' no_rows)
        | Some (chat, thread, timezone) \<Rightarrow> bindM (report_month month timezone) (\<lambda>_.
            if thread \<le> 0 then failM (PlainError ''progress topic must have a positive thread id'')
            else ret ((receipt0 wid month)\<lparr>re_ChatID := chat, re_ThreadID := thread\<rparr>))) w1 = (Inr r, w')"
    using bindM_Inr_D [OF assms [unfolded target_def]] by auto
  then have "place = report_place wid (w_db w)" by (auto dest: query_Inr)
  with rest show ?thesis
    by (fastforce simp: failM_run ret_run split: option.splits prod.splits if_splits dest!: bindM_Inr_D)
qed

text \<open>A valid report whose month has no row.\<close>

lemma Validate_None:
  assumes "Validate wid month input w = (Inr r, w')" and "re_Status r = None"
  shows "\<exists>p chat thread timezone day. prepare input = Inr p \<and> report_place wid (w_db w) = Some (chat, thread, timezone)
    \<and> month_date month = Some day \<and> (\<forall>row \<in> set (db_reports (w_db w)). report_key row \<noteq> (wid, day)) \<and> 0 < thread
    \<and> re_ChatID r = chat \<and> re_ThreadID r = thread \<and> re_Text r = pm_text p \<and> re_HTML r = pm_html p \<and> re_Hash r = pm_hash p"
proof -
  obtain p r0 where p: "prepare input = Inr p" and st: "Status wid month w = (Inr r0, w')"
      and r: "r = r0\<lparr>re_Text := pm_text p, re_HTML := pm_html p, re_Hash := pm_hash p\<rparr>"
    using assms(1) unfolding Validate_def inM_def
    by (auto simp: failM_run ret_run split: sum.splits if_splits dest!: bindM_Inr_D)
  obtain t w1 row where t: "target wid month w = (Inr t, w1)" and q: "stmt (sql_report_row wid month) w1 = (Inr row, w')"
      and r0: "r0 = with_link (case row of None \<Rightarrow> t | Some row \<Rightarrow> with_row row t)"
    using st unfolding Status_def by (auto simp: ret_run dest!: bindM_Inr_D)
  have db: "w_db w1 = w_db w" using readsD [of "target wid month"] reads_target t by blast
  have "row = None" using assms(2) r r0 by (auto simp: with_link_def with_row_def split: option.splits)
  with stmt_Inr [OF q] db target_Inr [OF t] p r r0 show ?thesis
    by (fastforce simp: sql_report_row_def first_where_None with_link_def receipt0_def split: option.splits)
qed


section \<open>What the statements keep\<close>

lemma schema_reports:
  "schema d \<Longrightarrow> uniq report_key rs \<Longrightarrow> \<forall>r \<in> set rs. ws_ref d (mr_WorkspaceGroupID r) \<Longrightarrow> schema (d\<lparr>db_reports := rs\<rparr>)"
  unfolding schema_defs plans_defs by (simp add: gs_ref_def pt_ref_def ws_ref_def)

lemma schema_reportsD:
  "schema d \<Longrightarrow> uniq report_key (db_reports d) \<and> (\<forall>r \<in> set (db_reports d). ws_ref d (mr_WorkspaceGroupID r))"
  unfolding schema_def plans_defs by simp

lemma sound_sql_reserve: "sound (stmt (sql_reserve wid month r))"
proof (rule sound_stmt)
  fix now d n d'
  assume run: "sql_reserve wid month r now d = Some (n, d')"
  show "db_step d d'"
  proof (cases "d' = d")
    case True
    then show ?thesis by (simp add: stp.same)
  next
    case False
    with run obtain day where d': "d' = d\<lparr>db_reports := db_reports d @ [new_report wid day r now]\<rparr>"
        and "ws_ref d wid" and "\<forall>q \<in> set (db_reports d). report_key q \<noteq> (wid, day)"
      by (auto simp: sql_reserve_def list_ex_ws_ref split: option.splits if_splits) (auto simp: list_ex_iff)
    moreover have "report_key (new_report wid day r now) = (wid, day)" by (simp add: report_key_def new_report_def)
    ultimately have "schema d'" if "schema d"
      using schema_reportsD [OF that] unfolding d'
      by (intro schema_reports [OF that] uniq_append) (auto simp: new_report_def)
    moreover have "history d d'" unfolding d' by (simp add: history_def plans_history_def rows_step_refl rows_step_append row_rel_refl)
    ultimately show ?thesis by (simp add: db_step_def d')
  qed
qed

lemma report_rel_settle:
  "mr_Status q = ReportPublishing \<Longrightarrow> report_rel q (q\<lparr>mr_Status := status, mr_MessageID := mid, mr_LastError := failure, mr_PublishedAt := t\<rparr>)"
  by (simp add: report_rel_def report_key_def)

lemma sound_sql_settle: "sound (stmt (sql_settle wid month status mid failure))"
proof (rule sound_stmt)
  fix now d n d'
  assume "sql_settle wid month status mid failure now d = Some (n, d')"
  then obtain sel f where d': "d' = d\<lparr>db_reports := upd_where sel f (db_reports d)\<rparr>"
      and f: "\<And>q. sel q \<Longrightarrow> report_rel q (f q)"
    by (auto simp: sql_settle_def Let_def report_rel_settle split: option.splits)
  have key: "report_key (f q) = report_key q" if "sel q" for q using f [OF that] by (simp add: report_rel_def)
  then have "mr_WorkspaceGroupID (f q) = mr_WorkspaceGroupID q" if "sel q" for q using that by (fastforce simp: report_key_def)
  then have "schema d'" if "schema d"
    using schema_reportsD [OF that] key unfolding d'
    by (intro schema_reports [OF that] uniq_upd) (auto simp: set_upd_where)
  moreover have "history d d'" unfolding d'
    by (simp add: history_def plans_history_def rows_step_refl rows_step_upd row_rel_refl f)
  ultimately show "db_step d d'" by (simp add: db_step_def d')
qed

text \<open>The rows of the months are kept, whatever else happens.\<close>

definition reports_kept :: "db \<Rightarrow> db \<Rightarrow> bool" where
  "reports_kept d d' \<longleftrightarrow> rows_step report_rel (db_reports d) (db_reports d')"

interpretation rpt: db_rel reports_kept
  by unfold_locales
    (auto simp: reports_kept_def rows_step_refl row_rel_refl intro: rows_step_trans [OF report_rel_trans])

lemma kept_sql_settle: "keeps reports_kept (stmt (sql_settle wid month status mid failure))"
  by (rule rpt.keeps_stmt)
    (auto simp: sql_settle_def Let_def reports_kept_def split: option.splits intro!: rows_step_upd report_rel_refl report_rel_settle)

lemma kept_reads: "reads m \<Longrightarrow> keeps reports_kept m"
  by (rule rpt.keeps_unchanged) (simp add: keeps_def reads_def)


section \<open>A sender that makes one request\<close>

locale single_sender =
  fixes send :: "send_message_request \<Rightarrow> message io"
  assumes one_request: "sm_ParseMode req \<noteq> [] \<Longrightarrow> w_sent (snd (send req w)) = w_sent w @ [SendMessage req]"
    and db_kept: "w_db (snd (send req w)) = w_db w"
    and answer_oracle: "same_oracle w w' \<Longrightarrow> fst (send req w') = fst (send req w)"
begin

lemma unchanged_send: "keeps (=) (send req)"
  by (simp add: keeps_def db_kept)

lemma sound_deliver_report: "sound (deliver send wid month r)"
  unfolding deliver_def inM_def
  by (intro sound_rules sound_same [OF unchanged_send] sound_sql_settle sound_reads [OF reads_Status])

lemma kept_deliver: "keeps reports_kept (deliver send wid month r)"
  unfolding deliver_def inM_def
  by (intro rpt.keeps_program rpt.keeps_unchanged [OF unchanged_send] kept_sql_settle kept_reads [OF reads_Status])

lemma sound_Publish: "sound (Publish (Some send) wid month input)"
  unfolding Publish_def publish_checked_def option.case
  by (intro sound_rules sound_deliver_report sound_sql_reserve sound_reads [OF reads_Status] sound_reads [OF reads_Validate])

lemma stmt_oracle: "stmt f w = (x, w') \<Longrightarrow> same_oracle w w'"
  by (auto simp: stmt_def bump_def abort_tx_def same_oracle_def split: tx_state.splits option.splits prod.splits)

lemma deliver_sent: "w_sent (snd (deliver send wid month r w)) = w_sent w @ [SendMessage (report_request r)]"
proof -
  obtain a w1 where a: "send (report_request r) w = (a, w1)" by (cases "send (report_request r) w")
  have w1: "w_sent w1 = w_sent w @ [SendMessage (report_request r)]"
    using one_request [of "report_request r" w] a by (simp add: report_request_def)
  obtain st mid fl where se: "settlement r a = (st, mid, fl)" by (cases "settlement r a")
  obtain b w2 where b: "stmt (sql_settle wid month st mid fl) w1 = (b, w2)" by (cases "stmt (sql_settle wid month st mid fl) w1")
  then have w2: "w_sent w2 = w_sent w1" using stmt_oracle [OF b] by (simp add: same_oracle_def)
  have "w_sent (snd (Status wid month w2)) = w_sent w2" using reads_Status [of wid month] by (simp add: reads_def same_oracle_def)
  then show ?thesis
    using a b se w1 w2 unfolding deliver_def inM_def
    by (simp add: bindM_attempt failM_run ret_run split: sum.split)
qed

text \<open>A delivery is a success only when the answer shows the message where and as it was sent.\<close>

lemma deliver_Inr:
  assumes "deliver send wid month r w = (Inr r', w')"
  shows "\<exists>m. fst (send (report_request r) w) = Inr m \<and> same_place r m \<and> mg_Text m = re_Text r"
proof -
  obtain a w1 where a: "send (report_request r) w = (a, w1)" by (cases "send (report_request r) w")
  obtain st mid fl where se: "settlement r a = (st, mid, fl)" by (cases "settlement r a")
  have "st = ReportPublished"
    using assms a se unfolding deliver_def inM_def
    by (auto simp: bindM_attempt failM_run split: if_splits)
  then show ?thesis using se a by (auto simp: settlement_def Let_def split: sum.splits if_splits)
qed

lemma Publish_run:
  assumes "Validate wid month input w = (Inr r, w1)" and "re_Status r = None" and "stmt (sql_reserve wid month r) w1 = (n, w2)"
  shows "Publish (Some send) wid month input w = (case n of Inl e \<Rightarrow> (Inl e, w2) | Inr k \<Rightarrow>
      (if k \<noteq> 1 then bindM (Status wid month) (\<lambda>r'.
         if re_Status r' = Some ReportPublished \<and> re_Hash r' = re_Hash r then ret r'
         else failM (PlainError ''month reserved concurrently; reconciliation required''))
       else deliver send wid month r) w2)"
  using assms unfolding Publish_def publish_checked_def by (simp split: sum.split)

lemma deliver_keeps_row:
  assumes "deliver send wid month r w = (res, w')" and "row \<in> set (db_reports (w_db w))"
  shows "\<exists>row' \<in> set (db_reports (w_db w')). report_rel row row'"
  using keepsD [OF kept_deliver assms(1)] assms(2) unfolding reports_kept_def rows_step_def by blast

lemma Publish_sends:
  assumes "Publish (Some send) wid month input w = (res, w')" and "w_sent w' \<noteq> w_sent w"
  shows "\<exists>p chat thread timezone day. prepare input = Inr p \<and> report_place wid (w_db w) = Some (chat, thread, timezone)
    \<and> month_date month = Some day \<and> (\<forall>row \<in> set (db_reports (w_db w)). report_key row \<noteq> (wid, day)) \<and> 0 < thread
    \<and> (let req = (send_req chat thread (View ''PreparedReport'' [VStr (pm_html p)]) None)\<lparr>sm_ParseMode := ''HTML''\<rparr> in
        w_sent w' = w_sent w @ [SendMessage req]
        \<and> (isl res \<or> (\<exists>m. fst (send req w) = Inr m \<and> 0 < mg_MessageID m \<and> ch_ID (mg_Chat m) = chat
              \<and> mg_MessageThreadID m = thread \<and> mg_Text m = pm_text p)))
    \<and> (\<exists>row \<in> set (db_reports (w_db w')). report_key row = (wid, day) \<and> mr_ContentHash row = pm_hash p)"
proof -
  obtain v w1 where v: "Validate wid month input w = (v, w1)" by (cases "Validate wid month input w")
  have w1: "w_db w1 = w_db w" "same_oracle w w1"
    using readsD [of "Validate wid month input" w] reads_Validate v by blast+
  have quiet: "w_sent (snd (Status wid month x)) = w_sent x" for x
    using reads_Status [of wid month] by (simp add: reads_def same_oracle_def)
  obtain r where r: "v = Inr r" "re_Status r = None"
    using assms v w1 unfolding Publish_def publish_checked_def
    by (cases v) (auto simp: ret_run failM_run same_oracle_def split: option.splits if_splits)
  obtain p chat thread timezone day where ok: "prepare input = Inr p" "report_place wid (w_db w) = Some (chat, thread, timezone)"
      "month_date month = Some day" "\<forall>row \<in> set (db_reports (w_db w)). report_key row \<noteq> (wid, day)" "0 < thread"
      and fields: "re_ChatID r = chat" "re_ThreadID r = thread" "re_Text r = pm_text p" "re_HTML r = pm_html p" "re_Hash r = pm_hash p"
    using Validate_None [of wid month input w r w1] v r by auto
  obtain n w2 where n: "stmt (sql_reserve wid month r) w1 = (n, w2)" by (cases "stmt (sql_reserve wid month r) w1")
  have o2: "same_oracle w w2" using same_oracle_trans [OF w1(2) stmt_oracle [OF n]] .
  note run = Publish_run [OF v [unfolded r(1)] r(2) n]
  have "n = Inr 1"
  proof (rule ccontr)
    assume "n \<noteq> Inr 1"
    then have "w_sent w' = w_sent w2"
      using run assms(1) quiet [of w2]
      by (auto simp: bindM_def ret_run failM_run split: sum.splits if_splits prod.splits)
    with o2 assms(2) show False by (simp add: same_oracle_def)
  qed
  then have d: "deliver send wid month r w2 = (res, w')" using run assms(1) by simp
  have req: "report_request r = (send_req chat thread (View ''PreparedReport'' [VStr (pm_html p)]) None)\<lparr>sm_ParseMode := ''HTML''\<rparr>"
    by (simp add: report_request_def fields)
  have sent: "w_sent w' = w_sent w @ [SendMessage (report_request r)]"
    using deliver_sent [of wid month r w2] d o2 by (simp add: same_oracle_def)
  have "\<exists>m. fst (send (report_request r) w) = Inr m \<and> same_place r m \<and> mg_Text m = re_Text r" if "\<not> isl res"
    using deliver_Inr [of wid month r w2] d that answer_oracle [OF o2] by (cases res) auto
  moreover have "new_report wid day r (sql_now w1) \<in> set (db_reports (w_db w2))"
    using stmt_Inr [of "sql_reserve wid month r" w1 1 w2] n \<open>n = Inr 1\<close> ok(3)
    by (auto simp: sql_reserve_def split: if_splits)
  then obtain row where "row \<in> set (db_reports (w_db w'))" "report_rel (new_report wid day r (sql_now w1)) row"
    using deliver_keeps_row [OF d] by blast
  then have "\<exists>row \<in> set (db_reports (w_db w')). report_key row = (wid, day) \<and> mr_ContentHash row = pm_hash p"
    using fields by (auto simp: report_rel_def new_report_def report_key_def)
  ultimately show ?thesis
    using ok sent fields by (intro exI [of _ p] exI [of _ chat] exI [of _ thread] exI [of _ timezone] exI [of _ day])
      (auto simp: req same_place_def)
qed

end

lemma single_sender_once: "single_sender tgSendMessageOnce"
proof
  fix req w w'
  show "w_sent (snd (tgSendMessageOnce req w)) = w_sent w @ [SendMessage req]" if "sm_ParseMode req \<noteq> []"
    using that
    by (simp add: tgSendMessageOnce_def thenM_def bindM_def waitRateLimit_def attempt_def callJSONOnce_def recordRateLimit_def
        failM_def ret_def split: sum.split option.split)
  show "w_db (snd (tgSendMessageOnce req w)) = w_db w"
    by (simp add: tgSendMessageOnce_def thenM_def bindM_def waitRateLimit_def attempt_def callJSONOnce_def recordRateLimit_def
        failM_def ret_def Let_def split: sum.split option.split)
  show "fst (tgSendMessageOnce req w') = fst (tgSendMessageOnce req w)" if "same_oracle w w'"
    using that
    by (simp add: tgSendMessageOnce_def thenM_def bindM_def waitRateLimit_def attempt_def callJSONOnce_def recordRateLimit_def
        failM_def ret_def Let_def same_oracle_def split: sum.split option.split)
qed

interpretation once: single_sender tgSendMessageOnce
  by (rule single_sender_once)


text \<open>Whoever comes second inserts no row and sends nothing, even with checks made long before.\<close>

lemma publish_checked_reserved:
  assumes "month_date month = Some day" and "row \<in> set (db_reports (w_db w))" and "report_key row = (wid, day)"
  shows "w_sent (snd (publish_checked sender wid month r w)) = w_sent w"
proof -
  have quiet: "w_sent (snd (Status wid month x)) = w_sent x" for x
    using reads_Status [of wid month] by (simp add: reads_def same_oracle_def)
  obtain n w2 where n: "stmt (sql_reserve wid month r) w = (n, w2)" by (cases "stmt (sql_reserve wid month r) w")
  have "list_ex (\<lambda>q. report_key q = (wid, day)) (db_reports (w_db w))" using assms by (auto simp: list_ex_iff)
  then have "n \<noteq> Inr 1" using stmt_Inr [of "sql_reserve wid month r" w _ w2] n assms(1) by (auto simp: sql_reserve_def)
  moreover have "w_sent w2 = w_sent w" using once.stmt_oracle [OF n] by (simp add: same_oracle_def)
  ultimately show ?thesis
    using n quiet [of w2] unfolding publish_checked_def
    by (auto simp: bindM_def ret_run failM_run split: option.split sum.split prod.split)
qed

section \<open>Properties\<close>

text \<open>C31. Publishing sends at most one message, and only when the text is valid, the workspace is ready with a
  progress topic and the month has no row yet. The message is the escaped text in that topic, the month has
  its row afterwards, and the run succeeds only if Telegram's answer shows the message with its text there.\<close>

theorem report_is_sent_as_validated:
  assumes "Publish (Some tgSendMessageOnce) wid month input w = (res, w')" and "w_sent w' \<noteq> w_sent w"
  shows "\<exists>p chat thread timezone day. prepare input = Inr p \<and> report_place wid (w_db w) = Some (chat, thread, timezone)
    \<and> month_date month = Some day \<and> (\<forall>row \<in> set (db_reports (w_db w)). report_key row \<noteq> (wid, day)) \<and> 0 < thread
    \<and> (let req = (send_req chat thread (View ''PreparedReport'' [VStr (pm_html p)]) None)\<lparr>sm_ParseMode := ''HTML''\<rparr> in
        w_sent w' = w_sent w @ [SendMessage req]
        \<and> (isl res \<or> (\<exists>m. fst (tgSendMessageOnce req w) = Inr m \<and> 0 < mg_MessageID m \<and> ch_ID (mg_Chat m) = chat
              \<and> mg_MessageThreadID m = thread \<and> mg_Text m = pm_text p)))
    \<and> (\<exists>row \<in> set (db_reports (w_db w')). report_key row = (wid, day) \<and> mr_ContentHash row = pm_hash p)"
  using assms by (rule once.Publish_sends)

text \<open>A group with a progress topic, at noon of 29 March 2026, that publishes its report of February.\<close>

definition binding6 :: topic_binding where
  "binding6 = \<lparr>tb_ID = 1, tb_WorkspaceGroupID = 1, tb_TopicKey = TopicProgress, tb_ThreadID = 5, tb_TopicTitle = ''P'',
     tb_IntroMessageID = None, tb_ControlMessageID = None, tb_CreatedAt = 0\<rparr>"

definition db6 :: db where
  "db6 = db1\<lparr>db_seq := (\<lambda>_. 1), db_bindings := [binding6]\<rparr>"

definition answer6 :: message where
  "answer6 = message0\<lparr>mg_MessageID := 77, mg_MessageThreadID := 5, mg_Chat := group1, mg_Text := ''Hi''\<rparr>"

definition world6 :: world where
  "world6 = world0\<lparr>w_db := db6, w_http := (\<lambda>k req. HttpResponse 200 [] 0 (Decoded True [] (ResMessage answer6)))\<rparr>"

lemma schema_db6: "schema db6"
  by (simp add: db6_def binding6_def example_defs schema_defs plans_defs ids_ok_def uniq_def)

lemma world6_fields [simp]: "w_db world6 = db6" "calm world6" "w_now world6 = 1774746000000000000"
    "e_tzdb (w_env world6) = (\<lambda>name. if name = ''UTC'' then Some utc else None)"
  by (simp_all add: world6_def world0_def calm_def env0_def)

lemma prepare_Hi: "prepare ''Hi'' = Inr \<lparr>pm_text = ''Hi'', pm_html = ''Hi'', pm_hash = sha256_hex ''Hi''\<rparr>"
proof -
  have "valid_utf8 ''Hi''" "runes_of ''Hi'' = [72, 105]" by (simp_all add: decode_rune_def)
  moreover have "trim_space ''Hi'' = ''Hi''" by (rule trim_space_printable) simp_all
  ultimately show ?thesis
    by (simp add: prepare_def Let_def utf16_units_def EscapeString_def escape_char_def)
qed

lemma parse_february: "parse_year_month ''2026-02'' = Some (2026, 2)"
  by (simp add: parse_year_month_def digits_val_def digit_val_def Let_def)

lemma february:
  "report_place 1 db6 = Some (- 1001, 5, ''UTC'')" "month_date ''2026-02'' = Some 20485"
  by (simp add: report_place_def db6_def binding6_def example_defs first_where_def,
      simp add: month_date_def parse_february days_of_civil_def year_start_def)

lemma february_start: "t_civil (mk_date 2026 2 1 0 utc) = Civil 2026 2 1"
  by code_simp

lemma february_over: "\<not> t_before (utc_time 1774746000000000000) (add_month (mk_date 2026 2 1 0 utc))"
  by code_simp

lemma february_month:
  "\<exists>p. Month (\<lambda>name. if name = ''UTC'' then Some utc else None) ''2026-02'' ''UTC'' (utc_time 1774746000000000000) = Inr p"
  by (simp add: Month_def parse_february february_start february_over Let_def)

lemma db6_tables [simp]: "db_reports db6 = []" "db_workspaces db6 = [workspace1]"
  by (simp_all add: db6_def example_defs)

lemma month_run:
  "report_month ''2026-02'' ''UTC'' w = (Inr p, w)"
    if "w_now w = 1774746000000000000" "e_tzdb (w_env w) = (\<lambda>name. if name = ''UTC'' then Some utc else None)"
      "Month (\<lambda>name. if name = ''UTC'' then Some utc else None) ''2026-02'' ''UTC'' (utc_time 1774746000000000000) = Inr p"
  using that by (simp add: report_month_def bindM_def time_now_def getW_def inM_def ret_def)

definition like6 :: "world \<Rightarrow> bool" where
  "like6 w \<longleftrightarrow> calm w \<and> w_db w = db6 \<and> w_now w = 1774746000000000000
     \<and> e_tzdb (w_env w) = (\<lambda>name. if name = ''UTC'' then Some utc else None)"

lemma like6: "like6 world6" "like6 w \<Longrightarrow> like6 (bump w)"
  by (simp_all add: like6_def) (simp add: bump_def)

lemma status6:
  assumes "like6 w"
  shows "Status 1 ''2026-02'' w = (Inr ((receipt0 1 ''2026-02'')\<lparr>re_ChatID := - 1001, re_ThreadID := 5\<rparr>), bump (bump w))"
proof -
  obtain p where p: "Month (\<lambda>name. if name = ''UTC'' then Some utc else None) ''2026-02'' ''UTC'' (utc_time 1774746000000000000) = Inr p"
    using february_month by blast
  have "report_month ''2026-02'' ''UTC'' (bump w) = (Inr p, bump w)"
    by (rule month_run [OF _ _ p]) (use like6(2) [OF assms] in \<open>simp_all add: like6_def\<close>)
  then have "target 1 ''2026-02'' w = (Inr ((receipt0 1 ''2026-02'')\<lparr>re_ChatID := - 1001, re_ThreadID := 5\<rparr>), bump w)"
    using assms by (simp add: target_def bindM_query_calm february ret_run like6_def)
  then show ?thesis
    using assms
    by (simp add: Status_def bindM_stmt_calm sql_report_row_def february first_where_def with_link_def receipt0_def ret_run like6_def)
qed

lemma validate6:
  assumes "like6 w"
  shows "Validate 1 ''2026-02'' ''Hi'' w = (Inr ((receipt0 1 ''2026-02'')\<lparr>re_ChatID := - 1001, re_ThreadID := 5,
     re_Text := ''Hi'', re_HTML := ''Hi'', re_Hash := sha256_hex ''Hi''\<rparr>), bump (bump w))"
  using status6 [OF assms] by (simp add: Validate_def inM_def prepare_Hi bindM_ret receipt0_def ret_run)

lemma publish6_sends:
  assumes "like6 w"
  shows "w_sent (snd (Publish (Some tgSendMessageOnce) 1 ''2026-02'' ''Hi'' w)) \<noteq> w_sent w"
proof -
  have "like6 (bump (bump w))" using assms like6(2) by blast
  then show ?thesis
    using validate6 [OF assms]
    by (simp add: Publish_def publish_checked_def receipt0_def bindM_stmt_calm sql_reserve_def february workspace1_def once.deliver_sent like6_def)
      (simp add: bump_def)
qed

theorem report_is_sent_as_validated_witness:
  "\<exists>w'. w' = snd (Publish (Some tgSendMessageOnce) 1 ''2026-02'' ''Hi'' world6)
    \<and> (\<exists>row \<in> set (db_reports (w_db w')). report_key row = (1, 20485) \<and> mr_ContentHash row = sha256_hex ''Hi'')"
  using report_is_sent_as_validated [of 1 "''2026-02''" "''Hi''" world6
      "fst (Publish (Some tgSendMessageOnce) 1 ''2026-02'' ''Hi'' world6)"] publish6_sends [OF like6(1)]
  by (auto simp: prepare_Hi february)

end
