(* ===== verification/Report_Command.thy ===== *)
theory Report_Command imports Monthly_Report begin

text \<open>
  The snapshot of \<open>internal/app/monthlyreport\<close>, which hands out the rows of a month with their
  counts, and the command \<open>cmd/trackmate-report\<close> after its flags are parsed. A row stands for its
  JSON; the fields that the snapshot reads back from the JSON are read from the row.
\<close>

section \<open>Snapshot\<close>

record snapshot =
  sn_Period :: period
  sn_AsOf :: int
  sn_Workspace :: workspace
  sn_Participants :: "participant list"
  sn_DailyTasks :: "daily_task list"
  sn_RoutinePlans :: "routine_plan list"
  sn_RoutineCheckins :: "routine_checkin list"
  sn_RoutineItems :: "routine_checkin_item list"
  sn_GoalSets :: "seasonal_goal_set list"
  sn_WeeklyReviews :: "goal_weekly_review list"
  sn_FinalReviews :: "goal_final_review list"
  sn_Counts :: "bytes \<rightharpoonup> nat"
  sn_Interpretation :: "bytes list"

definition interpretation_notes :: "bytes list" where
  "interpretation_notes =
     [''Plans are intentions, not achievements. Only explicit reports/reviews support achievements.'',
      ''Daily status=failed with report_status=null is automatic failure, not a participant'' @ [CHR 0x27] @ ''s reported outcome.'',
      ''Routine failed items may be auto-closed; inspect reason_text and auto_failed_at, not status alone.'',
      ''This is current database state, including late reports and edits; it is not a historical month-end reconstruction.'',
      ''Routine plans are current context only; checkin item text preserves the recorded routine.'']"

text \<open>The period of a query: its dates \<open>$2\<close>, \<open>$3\<close> and its instants \<open>$4\<close>, \<open>$5\<close>.\<close>

definition date_param :: "gotime \<Rightarrow> int option" where
  "date_param t = (if cy (t_civil t) < 1 then None else Some (t_day t))"

definition in_dates :: "int \<Rightarrow> int \<Rightarrow> int \<Rightarrow> bool" where
  "in_dates a b day \<longleftrightarrow> a \<le> day \<and> day < b"

definition in_span :: "period \<Rightarrow> int \<Rightarrow> bool" where
  "in_span p t \<longleftrightarrow> gt_ns (pd_Start p) \<le> t \<and> t < gt_ns (pd_End p)"

definition in_span_opt :: "period \<Rightarrow> int option \<Rightarrow> bool" where
  "in_span_opt p t \<longleftrightarrow> (case t of None \<Rightarrow> False | Some t \<Rightarrow> in_span p t)"

definition weekly_in :: "period \<Rightarrow> int \<Rightarrow> int \<Rightarrow> goal_weekly_review \<Rightarrow> bool" where
  "weekly_in p a b r \<longleftrightarrow> wr_ReviewWeekStart r < b \<and> a < wr_ReviewWeekStart r + 7
     \<or> in_span_opt p (wr_RespondedAt r) \<or> in_span p (wr_RequestedAt r)"

definition final_in :: "period \<Rightarrow> goal_final_review \<Rightarrow> bool" where
  "final_in p r \<longleftrightarrow> in_span_opt p (fr_CompletedAt r) \<or> in_span p (fr_RequestedAt r)"

definition goal_in :: "db \<Rightarrow> period \<Rightarrow> int \<Rightarrow> int \<Rightarrow> seasonal_goal_set \<Rightarrow> bool" where
  "goal_in d p a b g \<longleftrightarrow> gs_PeriodStartsOn g < b \<and> a \<le> gs_PeriodEndsOn g
     \<or> list_ex (\<lambda>r. wr_GoalSetID r = gs_ID g \<and> weekly_in p a b r) (db_weekly d)
     \<or> list_ex (\<lambda>r. fr_GoalSetID r = gs_ID g \<and> final_in p r) (db_finals d)"

text \<open>A goal set of the workspace by its key.\<close>

definition goal_of :: "db \<Rightarrow> int \<Rightarrow> int \<Rightarrow> seasonal_goal_set option" where
  "goal_of d wid i = first_where (\<lambda>g. gs_ID g = i \<and> gs_WorkspaceGroupID g = wid) (db_goals d)"

text \<open>A query with the dates of the period; they must be dates of the database.\<close>

definition dated :: "period \<Rightarrow> (db \<Rightarrow> int \<Rightarrow> int \<Rightarrow> 'a) \<Rightarrow> 'a io" where
  "dated p f = stmt (\<lambda>now d. case (date_param (pd_Start p), date_param (pd_End p)) of
      (Some a, Some b) \<Rightarrow> Some (f d a b, d) | _ \<Rightarrow> None)"

definition month_checkins :: "int \<Rightarrow> db \<Rightarrow> int \<Rightarrow> int \<Rightarrow> routine_checkin list" where
  "month_checkins wid d a b = sort_key rc_CheckinDate (sort_key rc_ID
     (filter (\<lambda>c. rc_WorkspaceGroupID c = wid \<and> in_dates a b (rc_CheckinDate c)) (db_checkins d)))"

text \<open>The counts in the order in which the rows are counted.\<close>

definition bump_count :: "bytes \<Rightarrow> (bytes \<rightharpoonup> nat) \<Rightarrow> (bytes \<rightharpoonup> nat)" where
  "bump_count key counts = counts(key \<mapsto> Suc (case counts key of None \<Rightarrow> 0 | Some n \<Rightarrow> n))"

definition count_rows :: "bytes \<Rightarrow> ('a \<Rightarrow> bytes list) \<Rightarrow> 'a list \<Rightarrow> (bytes \<rightharpoonup> nat) \<Rightarrow> (bytes \<rightharpoonup> nat)" where
  "count_rows name keys rows counts = fold (\<lambda>row. fold bump_count (keys row)) rows (counts(name \<mapsto> length rows))"

definition task_count_keys :: "daily_task \<Rightarrow> bytes list" where
  "task_count_keys t = (case tk_ReportStatus t of
      Some outcome \<Rightarrow> [''daily_reported_'' @ task_status_str outcome]
    | None \<Rightarrow> if tk_Status t = DailyTaskFailed then [''daily_automatically_failed_without_report'']
        else [''daily_without_report''])"

definition item_count_keys :: "routine_checkin_item \<Rightarrow> bytes list" where
  "item_count_keys i = [''routine_item_'' @ (case ri_Status i of None \<Rightarrow> ''unmarked'' | Some s \<Rightarrow> routine_status_str s)]"

definition checkin_count_keys :: "routine_checkin \<Rightarrow> bytes list" where
  "checkin_count_keys c = (if rc_AutoFailedAt c \<noteq> None then [''routine_auto_closed''] else [])
     @ (if rc_ReflectionText c \<noteq> None then [''routine_reflections''] else [])"

definition weekly_count_keys :: "goal_weekly_review \<Rightarrow> bytes list" where
  "weekly_count_keys r = (if wr_RespondedAt r \<noteq> None then [''weekly_responses''] else [])"

definition final_count_keys :: "goal_final_review \<Rightarrow> bytes list" where
  "final_count_keys r = (if fr_CompletedAt r \<noteq> None then [''final_responses''] else [])"

definition Snapshot :: "int \<Rightarrow> bytes \<Rightarrow> snapshot io" where
  "Snapshot wid month = inTx (bindM (query (\<lambda>d. first_where (\<lambda>w. ws_ID w = wid) (db_workspaces d))) (\<lambda>found.
     case found of None \<Rightarrow> failM no_rows | Some w \<Rightarrow>
     bindM (report_month month (ws_Timezone w)) (\<lambda>p.
     bindM (stmt (\<lambda>now d. Some (now, d))) (\<lambda>asof.
     bindM (query (\<lambda>d. sort_key pt_ID (filter (\<lambda>q. pt_WorkspaceGroupID q = wid) (db_participants d)))) (\<lambda>ps.
     bindM (dated p (\<lambda>d a b. sort_key tk_TaskDate (sort_key tk_ID
        (filter (\<lambda>t. tk_WorkspaceGroupID t = wid \<and> in_dates a b (tk_TaskDate t)) (db_tasks d))))) (\<lambda>ts.
     bindM (query (\<lambda>d. sort_key rp_ID (filter (\<lambda>q. rp_WorkspaceGroupID q = wid) (db_plans d)))) (\<lambda>plans.
     bindM (dated p (month_checkins wid)) (\<lambda>cs.
     bindM (dated p (\<lambda>d a b. concat (map (\<lambda>c. sort_key ri_ItemIndex (rc_Items c)) (month_checkins wid d a b)))) (\<lambda>items.
     bindM (dated p (\<lambda>d a b. sort_key gs_ID (filter (\<lambda>g. gs_WorkspaceGroupID g = wid \<and> goal_in d p a b g) (db_goals d)))) (\<lambda>gs.
     bindM (dated p (\<lambda>d a b. sort_key wr_ID (filter (\<lambda>r. goal_of d wid (wr_GoalSetID r) \<noteq> None \<and> weekly_in p a b r)
        (db_weekly d)))) (\<lambda>weekly.
     bindM (dated p (\<lambda>d a b. sort_key fr_ID (filter (\<lambda>r. case goal_of d wid (fr_GoalSetID r) of None \<Rightarrow> False
        | Some g \<Rightarrow> final_in p r \<or> in_dates a b (gs_PeriodEndsOn g)) (db_finals d)))) (\<lambda>finals.
     ret \<lparr>sn_Period = p, sn_AsOf = asof, sn_Workspace = w, sn_Participants = ps, sn_DailyTasks = ts, sn_RoutinePlans = plans,
       sn_RoutineCheckins = cs, sn_RoutineItems = items, sn_GoalSets = gs, sn_WeeklyReviews = weekly, sn_FinalReviews = finals,
       sn_Counts =
         (count_rows ''seasonal_goal_final_reviews'' final_count_keys finals
         (count_rows ''seasonal_goal_weekly_reviews'' weekly_count_keys weekly
         (count_rows ''seasonal_goal_sets'' (\<lambda>_. []) gs
         (count_rows ''routine_checkin_items'' item_count_keys items
         (count_rows ''routine_checkins'' checkin_count_keys cs
         (count_rows ''routine_plans_context'' (\<lambda>_. []) plans
         (count_rows ''daily_tasks'' task_count_keys ts
         (count_rows ''participants'' (\<lambda>_. []) ps Map.empty)))))))),
       sn_Interpretation = interpretation_notes\<rparr>))))))))))))"

section \<open>The command\<close>

text \<open>
  The parsed arguments, the bytes that the path (or the standard input) yields, and the
  configuration \<open>config.Load\<close> returned.
\<close>

record report_args =
  ra_Command :: bytes
  ra_Positional :: nat
  ra_Workspace :: int
  ra_Month :: bytes
  ra_File :: bytes
  ra_DryRun :: bool

datatype report_output = OutSnapshot snapshot | OutReceipt receipt

definition report_text :: "report_args \<Rightarrow> (bytes \<Rightarrow> goerr + bytes) \<Rightarrow> goerr + bytes" where
  "report_text a read =
     (if ra_Command a \<in> {''validate'', ''publish''} then
        (if ra_File a = [] then Inl (PlainError ''--file is required'')
         else (case read (ra_File a) of
             Inl e \<Rightarrow> Inl e
           | Inr content \<Rightarrow> (let data = take 65537 content in
               if 65536 < length data then Inl (PlainError ''report input too large'')
               else (case prepare data of Inl e \<Rightarrow> Inl e | Inr _ \<Rightarrow> Inr data))))
      else Inr [])"

text \<open>\<open>%q\<close> of a printable command puts it in quotes.\<close>

definition check_args :: "report_args \<Rightarrow> goerr option" where
  "check_args a =
     (if ra_Command a \<notin> {''snapshot'', ''status'', ''validate'', ''publish''}
      then Some (PlainError (''unknown command '' @ quote @ ra_Command a @ quote))
      else if ra_Positional a \<noteq> 0 \<or> ra_Workspace a \<le> 0 \<or> ra_Month a = []
      then Some (PlainError ''--workspace ID and --month YYYY-MM are required; no positional arguments'')
      else if ra_Command a \<in> {''snapshot'', ''status''} \<and> (ra_File a \<noteq> [] \<or> ra_DryRun a)
      then Some (PlainError ''--file and --dry-run apply only to validate/publish'')
      else None)"

text \<open>The sender exists only for a month that has no row yet, and needs the token.\<close>

definition needs_sender :: "config \<Rightarrow> report_args \<Rightarrow> bool io" where
  "needs_sender cfg a = (if ra_Command a = ''publish'' \<and> \<not> ra_DryRun a then
       bindM (Status (ra_Workspace a) (ra_Month a)) (\<lambda>state.
         if re_Status state = None then thenM (raise_opt (RequireBotToken cfg)) (ret True) else ret False)
     else ret False)"

definition report_run :: "(bytes \<Rightarrow> goerr + bytes) \<Rightarrow> goerr + config \<Rightarrow> report_args \<Rightarrow> report_output io" where
  "report_run read loaded a = thenM (raise_opt (check_args a))
     (bindM (inM (report_text a read)) (\<lambda>input. bindM (inM loaded) (\<lambda>cfg. bindM (needs_sender cfg a) (\<lambda>sender.
       if ra_Command a = ''snapshot'' then bindM (Snapshot (ra_Workspace a) (ra_Month a)) (\<lambda>s. ret (OutSnapshot s))
       else bindM
         (if ra_Command a = ''status'' then Status (ra_Workspace a) (ra_Month a)
          else if ra_Command a = ''publish'' \<and> \<not> ra_DryRun a then Publish (if sender then Some tgSendMessageOnce else None)
            (ra_Workspace a) (ra_Month a) input
          else Validate (ra_Workspace a) (ra_Month a) input)
         (\<lambda>r. ret (OutReceipt r))))))"

section \<open>What the command changes\<close>

lemma reads_thenM: "reads m \<Longrightarrow> reads n \<Longrightarrow> reads (thenM m n)"
  by (simp add: thenM_def reads_bindM)

lemma reads_raise_opt: "reads (raise_opt e)"
  by (simp add: raise_opt_def reads_pure split: option.split)

lemma reads_inTx:
  assumes "reads m"
  shows "reads (inTx m)"
proof (unfold reads_def, intro allI)
  fix w
  obtain r w' where m: "m ((bump w)\<lparr>w_tx := InTx (w_now w)\<rparr>) = (r, w')"
    by (cases "m ((bump w)\<lparr>w_tx := InTx (w_now w)\<rparr>)")
  from readsD [OF assms m] show "w_db (snd (inTx m w)) = w_db w \<and> same_oracle w (snd (inTx m w))"
    using m by (auto simp: inTx_def rollback_def same_oracle_def bump_def split: option.split sum.split tx_state.split)
qed

lemma reads_dated: "reads (dated p f)"
  unfolding dated_def by (rule reads_stmt) (auto split: option.splits)

lemma reads_now: "reads (stmt (\<lambda>now d. Some (now, d)))"
  by (rule reads_stmt) simp

lemmas reads_command = reads_rules reads_thenM reads_raise_opt reads_inTx reads_dated reads_now reads_Status reads_Validate

lemma reads_Snapshot: "reads (Snapshot wid month)"
  unfolding Snapshot_def report_month_def by (intro reads_command)

lemma reads_Publish_None: "reads (Publish None wid month input)"
  unfolding Publish_def publish_checked_def option.case by (intro reads_command)

lemma reads_needs_sender: "reads (needs_sender cfg a)"
  unfolding needs_sender_def by (intro reads_command)

lemma sound_Publish_sender: "sound (Publish (if sender then Some tgSendMessageOnce else None) wid month input)"
  using once.sound_Publish sound_reads [OF reads_Publish_None] by simp

lemma sound_report_run [sound_ops]: "sound (report_run read loaded a)"
  unfolding report_run_def
  by (intro sound_rules sound_Publish_sender sound_reads [OF reads_Snapshot] sound_reads [OF reads_Status]
      sound_reads [OF reads_Validate] sound_reads [OF reads_needs_sender] sound_reads [OF reads_pure(5)])

text \<open>A program that sends only where the tables change as \<open>P\<close> says.\<close>

definition sends_only :: "(db \<Rightarrow> db \<Rightarrow> bool) \<Rightarrow> 'a io \<Rightarrow> bool" where
  "sends_only P m \<longleftrightarrow> (\<forall>w. w_sent (snd (m w)) = w_sent w \<or> P (w_db w) (w_db (snd (m w))))"

lemma sends_only_reads: "reads m \<Longrightarrow> sends_only P m"
  by (simp add: sends_only_def reads_def same_oracle_def)

lemma sends_only_after:
  assumes "reads m" and "\<And>x. sends_only P (f x)"
  shows "sends_only P (bindM m f)"
proof (unfold sends_only_def, intro allI)
  fix w
  obtain r w1 where m: "m w = (r, w1)" by (cases "m w")
  with assms(1) have 1: "w_db w1 = w_db w" "w_sent w1 = w_sent w" by (auto dest: readsD simp: same_oracle_def)
  show "w_sent (snd (bindM m f w)) = w_sent w \<or> P (w_db w) (w_db (snd (bindM m f w)))"
  proof (cases r)
    case (Inr x)
    with m 1 assms(2) [of x] show ?thesis by (simp add: sends_only_def) metis
  qed (use m 1 in simp)
qed

lemma snd_bindM_ret: "snd (bindM m (\<lambda>r. ret (g r)) w) = snd (m w)"
  by (cases "m w"; cases "fst (m w)") (simp_all add: ret_run)

lemma sends_only_before: "sends_only P m \<Longrightarrow> sends_only P (bindM m (\<lambda>r. ret (g r)))"
  by (simp add: sends_only_def snd_bindM_ret)

lemma sends_only_if: "sends_only P m \<Longrightarrow> sends_only P n \<Longrightarrow> sends_only P (if b then m else n)"
  by simp

text \<open>The month gets its row.\<close>

definition reserves :: "int \<Rightarrow> bytes \<Rightarrow> db \<Rightarrow> db \<Rightarrow> bool" where
  "reserves wid month d d' \<longleftrightarrow> (\<exists>day. month_date month = Some day
     \<and> (\<forall>row \<in> set (db_reports d). report_key row \<noteq> (wid, day)) \<and> (\<exists>row \<in> set (db_reports d'). report_key row = (wid, day)))"

lemma sends_only_Publish:
  "sends_only (reserves wid month) (Publish (if sender then Some tgSendMessageOnce else None) wid month input)"
proof (cases sender)
  case True
  show ?thesis
  proof (unfold sends_only_def, intro allI)
    fix w
    obtain r w' where run: "Publish (Some tgSendMessageOnce) wid month input w = (r, w')"
      by (cases "Publish (Some tgSendMessageOnce) wid month input w")
    then show "w_sent (snd (Publish (if sender then Some tgSendMessageOnce else None) wid month input w)) = w_sent w
        \<or> reserves wid month (w_db w) (w_db (snd (Publish (if sender then Some tgSendMessageOnce else None) wid month input w)))"
      using once.Publish_sends [OF run] True by (auto simp: reserves_def)
  qed
qed (simp add: sends_only_reads reads_Publish_None)

lemma report_run_sends: "sends_only (reserves (ra_Workspace a) (ra_Month a)) (report_run read loaded a)"
  unfolding report_run_def thenM_def
  by (intro sends_only_after sends_only_before sends_only_if sends_only_Publish reads_raise_opt reads_pure reads_needs_sender
      sends_only_reads [OF reads_Snapshot] sends_only_reads [OF reads_Status] sends_only_reads [OF reads_Validate])

section \<open>An example\<close>

definition config6 :: config where
  "config6 = \<lparr>cf_BotToken = ''1:token'', cf_DatabaseURL = ''postgres://db'', cf_DefaultTimezone = ''UTC'',
     cf_WorkerTickSeconds = 5, cf_LogLevel = ''INFO'', cf_Environment = ''development'', cf_ControlHTTPAddr = [], cf_PollTimeout = 25\<rparr>"

definition publish6 :: report_args where
  "publish6 = \<lparr>ra_Command = ''publish'', ra_Positional = 0, ra_Workspace = 1, ra_Month = ''2026-02'', ra_File = ''-'', ra_DryRun = False\<rparr>"

lemma publish6_run:
  "w_sent (snd (report_run (\<lambda>_. Inr ''Hi'') (Inr config6) publish6 world6)) \<noteq> w_sent world6"
proof -
  define w where "w = bump (bump world6)"
  have w: "like6 w" "w_sent w = w_sent world6" unfolding w_def using like6 by blast (simp add: bump_def)
  have sender: "needs_sender config6 publish6 world6 = (Inr True, w)"
    by (simp add: needs_sender_def publish6_def config6_def status6 [OF like6(1)] w_def receipt0_def RequireBotToken_def
        raise_opt_def thenM_def bindM_ret ret_run)
  have "report_run (\<lambda>_. Inr ''Hi'') (Inr config6) publish6 world6
      = bindM (Publish (Some tgSendMessageOnce) 1 ''2026-02'' ''Hi'') (\<lambda>r. ret (OutReceipt r)) w"
    using sender
    by (simp add: report_run_def check_args_def report_text_def publish6_def raise_opt_def thenM_def bindM_ret inM_def prepare_Hi)
  then show ?thesis
    using publish6_sends [OF w(1)] w(2) by (simp add: snd_bindM_ret)
qed

end
