(* ===== verification/System.thy ===== *)
theory System imports Polling Control Report_Command begin

text \<open>
  The whole system as a state machine: the polling process, the worker, the control server and the
  command for monthly reports act on one database, one batch of updates, one tick, one request or one
  command at a time, and the outside (clock, Telegram, failures) changes everything but the tables. A process may restart at any moment
  between its actions. Every action is named, so that properties can speak of runs without a reset.
\<close>

section \<open>The machine\<close>

record system =
  sy_world :: world
  sy_poll :: poll_state

datatype sys_event = Polled | Restarted | Ticked | ClockChanged | WorkspaceReset | ReportRun | OutsideChanged

inductive sys_step :: "system \<Rightarrow> sys_event \<Rightarrow> system \<Rightarrow> bool" where
  polled: "poll_round t (sy_poll s) (sy_world s) = (Inr p, w) \<Longrightarrow> sys_step s Polled \<lparr>sy_world = w, sy_poll = p\<rparr>"
| restarted: "sys_step s Restarted (s\<lparr>sy_poll := poll0\<rparr>)"
| ticked: "Tick fuel free now (sy_world s) = (r, w) \<Longrightarrow> sys_step s Ticked (s\<lparr>sy_world := w\<rparr>)"
| clock: "handleClock body (sy_world s) = (r', w) \<Longrightarrow> sys_step s ClockChanged (s\<lparr>sy_world := w\<rparr>)"
| reset: "handleReset raw (sy_world s) = (r'', w) \<Longrightarrow> sys_step s WorkspaceReset (s\<lparr>sy_world := w\<rparr>)"
| report: "report_run read loaded args (sy_world s) = (r3, w) \<Longrightarrow> sys_step s ReportRun (s\<lparr>sy_world := w\<rparr>)"
| outside: "w_db w = w_db (sy_world s) \<Longrightarrow> sys_step s OutsideChanged (s\<lparr>sy_world := w\<rparr>)"

inductive sys_run :: "system \<Rightarrow> sys_event list \<Rightarrow> system \<Rightarrow> bool" where
  run_Nil: "sys_run s [] s"
| run_Cons: "sys_step s e s' \<Longrightarrow> sys_run s' es s'' \<Longrightarrow> sys_run s (e # es) s''"

inductive_cases sys_step_cases: "sys_step s e s'"

abbreviation sy_db :: "system \<Rightarrow> db" where "sy_db s \<equiv> w_db (sy_world s)"

definition initial :: "world \<Rightarrow> system" where "initial w = \<lparr>sy_world = w, sy_poll = poll0\<rparr>"

lemma initial_fields [simp]: "sy_world (initial w) = w" "sy_poll (initial w) = poll0"
  by (simp_all add: initial_def)

section \<open>Steps keep the schema and, resets apart, the past\<close>

lemma sound_handleClock: "sound (handleClock body)"
  unfolding handleClock_def writeJSON_def
  by (cases body) (auto intro!: sound_rules sound_ops split: sum.split)

lemma keeps_handleReset: "keeps schema_step (handleReset raw)"
  unfolding handleReset_def int64Param_def writeJSON_def
  by (intro scm.keeps_program keeps_ResetWorkspaceForE2E)

lemma step_db_step:
  assumes "sys_step s e s'" and "e \<noteq> WorkspaceReset"
  shows "db_step (sy_db s) (sy_db s')"
  using assms
proof (cases rule: sys_step.cases)
  case (polled t p w)
  with sound_poll_round [of t "sy_poll s"] show ?thesis by (auto simp: sound_def dest: keepsD)
next
  case (ticked fuel free now r w)
  with sound_Tick [of fuel free now] show ?thesis by (auto simp: sound_def dest: keepsD)
next
  case (clock body r' w)
  with sound_handleClock [of body] show ?thesis by (auto simp: sound_def dest: keepsD)
next
  case (report read loaded args r3 w)
  with sound_report_run [of read loaded args] show ?thesis by (auto simp: sound_def dest: keepsD)
qed (auto intro: stp.same)

lemma step_schema_step:
  assumes "sys_step s e s'"
  shows "schema_step (sy_db s) (sy_db s')"
proof (cases "e = WorkspaceReset")
  case True
  then obtain raw r w where "handleReset raw (sy_world s) = (r, w)" "s' = s\<lparr>sy_world := w\<rparr>"
    using assms by (auto elim: sys_step_cases)
  with keeps_handleReset [of raw] show ?thesis by (auto dest: keepsD)
next
  case False
  with step_db_step [OF assms] show ?thesis by (simp add: db_step_def schema_step_def)
qed

lemma run_db_step: "sys_run s es s' \<Longrightarrow> WorkspaceReset \<notin> set es \<Longrightarrow> db_step (sy_db s) (sy_db s')"
  by (induction rule: sys_run.induct) (auto intro: stp.same stp.step step_db_step)

lemma run_schema: "sys_run s es s' \<Longrightarrow> schema (sy_db s) \<Longrightarrow> schema (sy_db s')"
  by (induction rule: sys_run.induct) (auto dest!: step_schema_step simp: schema_step_def)

lemma run_history: "sys_run s es s' \<Longrightarrow> WorkspaceReset \<notin> set es \<Longrightarrow> schema (sy_db s) \<Longrightarrow> history (sy_db s) (sy_db s')"
  using run_db_step by (auto simp: db_step_def)

lemma run_tick: "sys_run (initial w) [Ticked] (initial (snd (Tick fuel free now w)))"
proof -
  have "sys_step (initial w) Ticked ((initial w)\<lparr>sy_world := snd (Tick fuel free now w)\<rparr>)"
    by (rule ticked [of fuel free now _ "fst (Tick fuel free now w)"]) simp
  then show ?thesis by (auto simp: initial_def intro: sys_run.intros)
qed

section \<open>Invariants of the reachable databases\<close>

lemma uniq_inj: "uniq k rs \<Longrightarrow> inj_on k (set rs)"
  by (simp add: uniq_def distinct_map)

lemma schema_uniq:
  assumes "schema d"
  shows "uniq (\<lambda>t. (tk_WorkspaceGroupID t, tk_ParticipantID t, tk_TaskDate t)) (db_tasks d)"
    and "uniq (\<lambda>c. (rc_WorkspaceGroupID c, rc_ParticipantID c, rc_CheckinDate c)) (db_checkins d)"
    and "uniq (\<lambda>g. (gs_WorkspaceGroupID g, gs_ParticipantID g, gs_PeriodKey g)) (db_goals d)"
  using assms unfolding schema_def schema_keys_def schema_plans_def plans_keys_def by blast+

lemma schema_ids:
  assumes "schema d"
  shows "uniq tk_ID (db_tasks d)"
  using assms unfolding schema_def schema_keys_def by (blast intro: ids_ok_uniq)

text \<open>C17. Whatever the polling process, the worker and the control server do, in any order and with any
  failures of the database and of Telegram, a run from empty tables ends in tables that meet the
  schema: unique keys, existing references, and the invariants of check-ins, reviews and retries.\<close>

theorem reachable_schema:
  assumes "sys_run s es s'" and "sy_db s = db0"
  shows "schema (sy_db s')"
  using run_schema assms schema_db0 by metis

theorem reachable_schema_witness: "schema (w_db (snd (Tick 5 True (utc_time 0) world0)))"
  using reachable_schema [OF run_tick [of world0 5 True "utc_time 0"]] by (simp add: world0_def)



section \<open>The past is kept\<close>

text \<open>The tables the witnesses run the worker on: everything of participant 7 is settled.\<close>

definition checkin3 :: routine_checkin where
  "checkin3 = \<lparr>rc_ID = 1, rc_WorkspaceGroupID = 1, rc_ParticipantID = 1, rc_OwnerUserID = 7, rc_CheckinDate = 20500,
     rc_SourceMessageID = None, rc_SourceMessageThreadID = None, rc_CardMessageID = None, rc_CardMessageThreadID = None,
     rc_ReminderMessageID = None, rc_AutoCloseNoticeMessageID = None, rc_ReflectionText = None, rc_CreatedAt = 0,
     rc_UpdatedAt = 0, rc_ReminderSentAt = None, rc_AutoCloseNoticeSentAt = None, rc_CompletedAt = Some 9,
     rc_AutoFailedAt = None, rc_Items = [\<lparr>ri_ID = 1, ri_RoutineCheckinID = 1, ri_ItemIndex = 1, ri_Text = ''run'',
       ri_Status = Some RoutineItemDone, ri_ReasonText = None, ri_CreatedAt = 0, ri_UpdatedAt = 0\<rparr>]\<rparr>"

definition goal3 :: seasonal_goal_set where
  "goal3 = \<lparr>gs_ID = 1, gs_WorkspaceGroupID = 1, gs_ParticipantID = 1, gs_OwnerUserID = 7, gs_PeriodKey = ''2026-spring'',
     gs_PeriodTitle = Msg ''period'' [], gs_PeriodStartsOn = 20513, gs_PeriodEndsOn = 20604, gs_GoalsText = ''g'',
     gs_CardMessageID = None, gs_CardMessageThreadID = None, gs_SourceMessageID = None, gs_SourceMessageThreadID = None,
     gs_CreatedAt = 0, gs_UpdatedAt = 0\<rparr>"

definition weekly3 :: goal_weekly_review where
  "weekly3 = \<lparr>wr_ID = 1, wr_GoalSetID = 1, wr_ReviewWeekStart = 20520, wr_PromptMessageID = None,
     wr_PromptMessageThreadID = None, wr_ResponseText = None, wr_ResponseMessageID = None, wr_ResponseMessageThreadID = None,
     wr_RequestedAt = 0, wr_ReminderSentAt = None, wr_RespondedAt = None, wr_SkippedAt = Some 9\<rparr>"

definition final3 :: goal_final_review where
  "final3 = \<lparr>fr_ID = 1, fr_GoalSetID = 1, fr_Status = Some GoalFinalDone, fr_PromptMessageID = None,
     fr_PromptMessageThreadID = None, fr_SummaryText = Some ''done'', fr_SummaryMessageIDs = [60], fr_RequestedAt = 0,
     fr_CompletedAt = Some 9\<rparr>"

definition task3 :: daily_task where
  "task3 = task1\<lparr>tk_Status := DailyTaskDone, tk_ReportStatus := Some DailyTaskDone, tk_ReportedAt := Some 9\<rparr>"

definition event3 :: progress_event where
  "event3 = event1\<lparr>pe_PublishStatus := ProgressPublishPublished, pe_PublishedMessageID := Some 61, pe_PublishedAt := Some 9\<rparr>"

definition alert3 :: daily_task_alert where
  "alert3 = \<lparr>al_ID = 1, al_DailyTaskID = 1, al_AlertKind = AlertDayClosedPendingReport, al_DispatchStatus = AlertDispatchSent,
     al_TelegramMessageID = Some 62, al_AcknowledgedAt = Some 9, al_CreatedAt = 0, al_DispatchStartedAt = None\<rparr>"

definition db3 :: db where
  "db3 = db2\<lparr>db_seq := (\<lambda>_. 1), db_tasks := [task3], db_events := [event3], db_alerts := [alert3], db_checkins := [checkin3],
     db_goals := [goal3], db_weekly := [weekly3], db_finals := [final3]\<rparr>"

definition system3 :: system where "system3 = initial (world0\<lparr>w_db := db3\<rparr>)"

lemma schema_db3: "schema db3"
  by (simp add: db3_def task3_def event3_def alert3_def checkin3_def goal3_def weekly3_def final3_def example_defs
      schema_defs plans_defs ids_ok_def uniq_def gs_ref_def checkin_ok_def weekly_ok_def final_ok_def has_summary_def)

lemma db3_tables [simp]:
  "sy_db system3 = db3" "db_tasks db3 = [task3]" "db_events db3 = [event3]" "db_alerts db3 = [alert3]"
  "db_checkins db3 = [checkin3]" "db_weekly db3 = [weekly3]" "db_finals db3 = [final3]"
  by (simp_all add: system3_def db3_def)

lemma sys_run_append: "sys_run s es s' \<Longrightarrow> sys_run s' fs s'' \<Longrightarrow> sys_run s (es @ fs) s''"
  by (induction rule: sys_run.induct) (auto intro: sys_run.intros)

definition ticked3 :: db where
  "ticked3 = sy_db (initial (snd (Tick 5 True (utc_time 9) (snd (Tick 5 True (utc_time 0) (world0\<lparr>w_db := db3\<rparr>))))))"

lemma run3: "sys_run system3 [Ticked, Ticked] (initial (snd (Tick 5 True (utc_time 9) (snd (Tick 5 True (utc_time 0) (world0\<lparr>w_db := db3\<rparr>))))))"
  unfolding system3_def by (rule sys_run_append [OF run_tick run_tick, simplified])

text \<open>C21. A reported result is final: no run without a reset changes the status, the report status or the
  time of a daily task once its result was reported, and the task is never lost.\<close>

theorem reported_result_is_final:
  assumes "sys_run s es s'" and "WorkspaceReset \<notin> set es" and "schema (sy_db s)"
    and "t \<in> set (db_tasks (sy_db s))" and "is_final_report (tk_Status t)" and "tk_ReportedAt t \<noteq> None"
  shows "\<exists>t'. find_task (tk_ID t) (sy_db s') = Some t' \<and> same_task t t' \<and> tk_Status t' = tk_Status t
    \<and> tk_ReportStatus t' = tk_ReportStatus t \<and> tk_ReportedAt t' = tk_ReportedAt t"
proof -
  obtain t' where t': "t' \<in> set (db_tasks (sy_db s'))" "task_rel t t'"
    using run_history [OF assms(1-3)] assms(4) by (auto simp: history_def rows_step_def)
  then have same: "same_task t t'" and "status_le (tk_Status t) (tk_Status t')"
    "tk_ReportedAt t' = tk_ReportedAt t" "tk_ReportStatus t' = tk_ReportStatus t"
    using assms(5,6) by (auto simp: task_rel_def)
  moreover have "tk_Status t' = tk_Status t" using calculation(2) assms(5) by (rule status_le_final)
  moreover have "find_task (tk_ID t) (sy_db s') = Some t'"
    unfolding find_task_def
    using run_schema [OF assms(1,3)] t'(1) same
    by (intro first_where_uniq) (auto simp: same_task_def intro: schema_ids)
  ultimately show ?thesis by blast
qed

theorem reported_result_is_final_witness:
  "\<exists>t'. find_task 1 ticked3 = Some t' \<and> tk_Status t' = DailyTaskDone \<and> tk_ReportedAt t' = Some 9"
  using reported_result_is_final [OF run3, of task3] schema_db3 by (auto simp: ticked3_def task3_def task1_def)

text \<open>C22. A task only moves forward: over a run without a reset it keeps its identity, date, owner and
  kind, and its status never goes back in the order active, awaiting its report, closed.\<close>

theorem tasks_move_forward:
  assumes "sys_run s es s'" and "WorkspaceReset \<notin> set es" and "schema (sy_db s)"
    and "find_task i (sy_db s) = Some t"
  shows "\<exists>t'. find_task i (sy_db s') = Some t' \<and> same_task t t' \<and> status_rank (tk_Status t) \<le> status_rank (tk_Status t')"
proof -
  have t: "t \<in> set (db_tasks (sy_db s))" "tk_ID t = i" using first_where_Some assms(4) by (fastforce simp: find_task_def)+
  obtain t' where t': "t' \<in> set (db_tasks (sy_db s'))" "task_rel t t'"
    using run_history [OF assms(1-3)] t by (auto simp: history_def rows_step_def)
  then have "same_task t t'" "status_rank (tk_Status t) \<le> status_rank (tk_Status t')"
    by (auto simp: task_rel_def status_le_def)
  moreover have "find_task i (sy_db s') = Some t'"
    unfolding find_task_def
    using run_schema [OF assms(1,3)] t'(1) calculation(1) t(2)
    by (intro first_where_uniq) (auto simp: same_task_def intro: schema_ids)
  ultimately show ?thesis by blast
qed

theorem tasks_move_forward_witness:
  "\<exists>t'. find_task 1 ticked3 = Some t' \<and> 2 \<le> status_rank (tk_Status t')"
  using tasks_move_forward [OF run3, of 1 task3] schema_db3 by (auto simp: ticked3_def task3_def task1_def find_task_def)

text \<open>Nothing is announced twice by a lapse of memory: over a run without a reset a published progress
  event stays published under the same message, a sent alert stays sent, and an acknowledged alert
  keeps its acknowledgement.\<close>

theorem deliveries_are_remembered:
  assumes "sys_run s es s'" and "WorkspaceReset \<notin> set es" and "schema (sy_db s)"
  shows "(\<forall>e \<in> set (db_events (sy_db s)). pe_PublishStatus e = ProgressPublishPublished \<longrightarrow>
      (\<exists>e' \<in> set (db_events (sy_db s')). pe_ID e' = pe_ID e \<and> pe_PublishStatus e' = ProgressPublishPublished
         \<and> pe_PublishedMessageID e' = pe_PublishedMessageID e \<and> pe_PublishedAt e' = pe_PublishedAt e))
    \<and> (\<forall>a \<in> set (db_alerts (sy_db s)). \<exists>a' \<in> set (db_alerts (sy_db s')). al_ID a' = al_ID a
         \<and> (al_DispatchStatus a = AlertDispatchSent \<longrightarrow> al_DispatchStatus a' = AlertDispatchSent)
         \<and> (al_AcknowledgedAt a \<noteq> None \<longrightarrow> al_AcknowledgedAt a' = al_AcknowledgedAt a))"
  using run_history [OF assms] unfolding history_def rows_step_def event_rel_def alert_rel_def by metis

theorem deliveries_are_remembered_witness:
  "\<exists>e' \<in> set (db_events ticked3). pe_PublishStatus e' = ProgressPublishPublished \<and> pe_PublishedMessageID e' = Some 61"
  using deliveries_are_remembered [OF run3] schema_db3 by (auto simp: ticked3_def event3_def)



section \<open>Monthly reports\<close>

lemma kept_reset: "keeps reports_kept (handleReset raw)"
proof -
  have del: "keeps reports_kept (delete_where p rows set_rows)"
    if "\<And>d rs. db_reports (set_rows d rs) = db_reports d" for p rows and set_rows :: "db \<Rightarrow> 'a list \<Rightarrow> db"
    unfolding delete_where_def using that
    by (intro rpt.keeps_stmt) (auto simp: reports_kept_def rows_step_refl report_rel_refl)
  have ready: "keeps reports_kept (stmt (\<lambda>now d. Some (f d, d\<lparr>db_workspaces := g now d\<rparr>)))" for f :: "db \<Rightarrow> int" and g
    by (rule rpt.keeps_stmt) (auto simp: reports_kept_def rows_step_refl report_rel_refl)
  show ?thesis
    unfolding handleReset_def int64Param_def writeJSON_def ResetWorkspaceForE2E_def GetWorkspaceByChatID_def Let_def
    by (intro rpt.keeps_program del ready) (simp_all add: set_tasks_cascade_def set_goals_cascade_def Let_def)
qed

lemma run_reports: "sys_run s es s' \<Longrightarrow> schema (sy_db s) \<Longrightarrow> reports_kept (sy_db s) (sy_db s')"
proof (induction rule: sys_run.induct)
  case (run_Nil s)
  show ?case by (rule rpt.same)
next
  case (run_Cons s e s' es s'')
  have "reports_kept (sy_db s) (sy_db s')"
  proof (cases "e = WorkspaceReset")
    case True
    then obtain raw r w where "handleReset raw (sy_world s) = (r, w)" "s' = s\<lparr>sy_world := w\<rparr>"
      using run_Cons.hyps(1) by (auto elim: sys_step_cases)
    with kept_reset [of raw] show ?thesis by (auto dest: keepsD)
  next
    case False
    with step_db_step [OF run_Cons.hyps(1)] run_Cons.prems show ?thesis
      by (simp add: db_step_def history_def plans_history_def reports_kept_def)
  qed
  moreover have "schema (sy_db s')"
    using step_schema_step [OF run_Cons.hyps(1)] run_Cons.prems by (simp add: schema_step_def)
  ultimately show ?case using run_Cons.IH rpt.step by blast
qed

text \<open>C30. A month is sent once: when the report command has sent the message of a month, whatever the other
  processes do afterwards (resets and restarts included), no later run of the command for that workspace
  and month sends anything, whatever its text, its arguments and the failures on the way; neither does a
  run that made all its checks earlier and goes on now.\<close>

theorem month_is_sent_once:
  assumes "schema (sy_db s)" and "report_run read loaded a (sy_world s) = (r, w)" and "w_sent w \<noteq> w_sent (sy_world s)"
    and "sys_run (s\<lparr>sy_world := w\<rparr>) es s'"
    and "ra_Workspace a' = ra_Workspace a" and "ra_Month a' = ra_Month a"
  shows "w_sent (snd (report_run read' loaded' a' (sy_world s'))) = w_sent (sy_world s')
    \<and> w_sent (snd (publish_checked sender (ra_Workspace a) (ra_Month a) checked (sy_world s'))) = w_sent (sy_world s')"
proof
  have "reserves (ra_Workspace a) (ra_Month a) (sy_db s) (w_db w)"
    using report_run_sends [of a read loaded] assms(2,3) unfolding sends_only_def by (metis snd_conv)
  then obtain day row where row: "month_date (ra_Month a) = Some day" "row \<in> set (db_reports (w_db w))"
      "report_key row = (ra_Workspace a, day)"
    unfolding reserves_def by blast
  have "schema (w_db w)" using soundD [OF sound_report_run assms(2,1)] by simp
  then have "reports_kept (w_db w) (sy_db s')" using run_reports [OF assms(4)] by simp
  with row obtain row' where row': "row' \<in> set (db_reports (sy_db s'))" "report_key row' = (ra_Workspace a, day)"
    by (fastforce simp: reports_kept_def rows_step_def report_rel_def)
  then have "\<not> reserves (ra_Workspace a) (ra_Month a) (sy_db s') d" for d using row(1) by (auto simp: reserves_def)
  then show "w_sent (snd (report_run read' loaded' a' (sy_world s'))) = w_sent (sy_world s')"
    using report_run_sends [of a' read' loaded'] assms(5,6) unfolding sends_only_def by metis
  show "w_sent (snd (publish_checked sender (ra_Workspace a) (ra_Month a) checked (sy_world s'))) = w_sent (sy_world s')"
    using row(1) row' by (rule publish_checked_reserved)
qed

theorem month_is_sent_once_witness:
  "let w = snd (report_run (\<lambda>_. Inr ''Hi'') (Inr config6) publish6 world6);
       w' = snd (handleReset ''-1001'' w)
   in w_sent (snd (report_run (\<lambda>_. Inr ''Ho'') (Inr config6) publish6 w')) = w_sent w'"
proof -
  let ?w = "snd (report_run (\<lambda>_. Inr ''Hi'') (Inr config6) publish6 world6)"
  let ?s = "(initial world6)\<lparr>sy_world := ?w\<rparr>"
  have "sys_step ?s WorkspaceReset (?s\<lparr>sy_world := snd (handleReset ''-1001'' ?w)\<rparr>)"
    by (rule reset [of "''-1001''" _ "fst (handleReset ''-1001'' ?w)"]) simp
  then have "sys_run ?s [WorkspaceReset] (?s\<lparr>sy_world := snd (handleReset ''-1001'' ?w)\<rparr>)" by (auto intro: sys_run.intros)
  from month_is_sent_once [OF _ _ _ this, of "\<lambda>_. Inr ''Hi''" "Inr config6" publish6 _ publish6] show ?thesis
    using publish6_run schema_db6 by (simp add: Let_def) (metis prod.collapse)
qed

end
