(* ===== verification/Delivery_Claims.thy ===== *)
theory Delivery_Claims imports App_Outbox Examples begin

text \<open>
  The delivery protocol of events and alerts: a worker claims a row with a lease of five minutes,
  sends, and confirms or gives the row back. \<open>outbox\<close> is the contract of such a queue: only the
  holder of a claim can confirm it, and confirming or giving back ends the claim. It is
  interpreted on the operations for progress events and for alerts. Failed deliveries wait for one
  to sixty-four minutes and end after the eighth attempt.
\<close>

section \<open>The contract of a queue\<close>

locale outbox =
  fixes state :: "db \<Rightarrow> int \<Rightarrow> 's option"
    and leased :: 's
    and settle :: "'op \<Rightarrow> int \<Rightarrow> unit io"
    and result :: "'op \<Rightarrow> 's"
  assumes settle_ok: "schema (w_db w) \<Longrightarrow> settle op i w = (Inr (), w') \<Longrightarrow>
      state (w_db w) i = Some leased \<and> state (w_db w') = (state (w_db w))(i \<mapsto> result op)"
    and settle_lost: "schema (w_db w) \<Longrightarrow> settle op i w = (Inl e, w') \<Longrightarrow> w_db w' = w_db w"
    and settle_sound: "sound (settle op i)"
    and result_not_leased: "result op \<noteq> leased"
begin

text \<open>A claim is used up by what settles it: nothing can settle it a second time.\<close>

lemma settled_once:
  assumes "schema (w_db w)" and "settle op i w = (Inr (), w1)" and "w_db w2 = w_db w1"
  shows "fst (settle op' i w2) \<noteq> Inr ()"
proof
  assume "fst (settle op' i w2) = Inr ()"
  then obtain w3 where w3: "settle op' i w2 = (Inr (), w3)" by (cases "settle op' i w2") auto
  have "schema (w_db w1)" using soundD [OF settle_sound assms(2,1)] by blast
  then have "schema (w_db w2)" using assms(3) by simp
  then have "state (w_db w2) i = Some leased" using settle_ok w3 by blast
  moreover have "state (w_db w1) i = Some (result op)" using settle_ok [OF assms(1,2)] by simp
  ultimately show False using assms(3) result_not_leased by auto
qed

lemma settle_needs_claim:
  assumes "schema (w_db w)" and "state (w_db w) i \<noteq> Some leased"
  shows "\<exists>e w'. settle op i w = (Inl e, w') \<and> w_db w' = w_db w"
proof (cases "fst (settle op i w)")
  case (Inl e)
  then have run: "settle op i w = (Inl e, snd (settle op i w))" by (simp add: prod_eq_iff)
  then have "w_db (snd (settle op i w)) = w_db w" using settle_lost assms(1) by blast
  with run show ?thesis by blast
next
  case (Inr u)
  then have "settle op i w = (Inr (), snd (settle op i w))" by (simp add: prod_eq_iff)
  then show ?thesis using settle_ok assms by blast
qed

end

section \<open>Rows with a claim\<close>

lemma n_where_claimed:
  assumes "uniq k rs" and "n_where (\<lambda>r. k r = i \<and> p r) rs = 1"
  shows "\<exists>r. first_where (\<lambda>r. k r = i) rs = Some r \<and> p r"
proof -
  obtain r where r: "r \<in> set rs" "k r = i" "p r"
    using assms(2) by (metis (mono_tags, lifting) One_nat_def n_where_0 zero_neq_one)
  then show ?thesis using first_where_uniq [OF assms(1) r(1,2)] by blast
qed

lemma first_where_key_upd:
  assumes "uniq k rs" and "\<And>r. k (f r) = k r" and "first_where (\<lambda>r. k r = i) rs = Some r" and "p r"
  shows "first_where (\<lambda>q. k q = j) (upd_where (\<lambda>q. k q = i \<and> p q) f rs) =
    (if j = i then Some (f r) else first_where (\<lambda>q. k q = j) rs)"
proof (cases "j = i")
  case True
  then show ?thesis
    using assms(3,4) first_where_upd_same [of "\<lambda>q. k q = i \<and> p q" "\<lambda>q. k q = j" f rs] assms(2)
    by (auto dest: first_where_Some)
next
  case False
  have "first_where (\<lambda>q. k q = j) (upd_where (\<lambda>q. k q = i \<and> p q) f rs) =
      map_option (\<lambda>q. if k q = i \<and> p q then f q else q) (first_where (\<lambda>q. k q = j) rs)"
    using assms(2) by (intro first_where_upd_same) simp
  also have "\<dots> = first_where (\<lambda>q. k q = j) rs"
    using False by (cases "first_where (\<lambda>q. k q = j) rs") (auto dest: first_where_Some)
  finally show ?thesis using False by simp
qed

lemma require_claim_run:
  assumes run: "requireDeliveryClaim kind i (update_count rows set_rows p f) w = (r, w')"
    and "uniq k (rows (w_db w))" and "\<And>q. p q \<Longrightarrow> k q = i"
    and same: "\<And>d. set_rows d (rows d) = d"
  shows "case r of Inr _ \<Rightarrow> n_where p (rows (w_db w)) = 1 \<and> w_db w' = set_rows (w_db w) (upd_where p f (rows (w_db w)))
    | Inl e \<Rightarrow> w_db w' = w_db w"
proof (cases "update_count rows set_rows p f w" rule: prod.exhaust)
  case (Pair n w1)
  show ?thesis
  proof (cases n)
    case (Inl e)
    then show ?thesis
      using Pair run stmt_Inl unfolding requireDeliveryClaim_def update_count_def by fastforce
  next
    case (Inr c)
    then have c: "c = int (n_where p (rows (w_db w)))"
      and db: "w_db w1 = set_rows (w_db w) (upd_where p f (rows (w_db w)))"
      using Pair stmt_Inr unfolding update_count_def by fastforce+
    have le: "n_where p (rows (w_db w)) \<le> 1"
      using n_where_key_le [of k "rows (w_db w)" p i] assms(2,3) by (simp add: uniq_def)
    have rw: "(r, w') = (if c \<noteq> 1 then (Inl (ClaimLost kind i), w1) else (Inr (), w1))"
      using Pair Inr run by (simp add: requireDeliveryClaim_def failM_run ret_run split: if_splits)
    show ?thesis
    proof (cases "c = 1")
      case True
      then show ?thesis using rw c db by simp
    next
      case False
      then have "n_where p (rows (w_db w)) = 0" using c le by linarith
      then have "upd_where p f (rows (w_db w)) = rows (w_db w)" by (intro upd_where_none) (simp add: n_where_0)
      then show ?thesis using False rw db same by simp
    qed
  qed
qed

section \<open>The two queues\<close>

text \<open>What a worker does with a claim.\<close>

datatype event_op = PublishEvent int int | RequeueEvent | FailEvent

fun settle_event :: "event_op \<Rightarrow> int \<Rightarrow> unit io" where
  "settle_event (PublishEvent m t) i = MarkProgressEventPublished i m t"
| "settle_event RequeueEvent i = RequeueProgressEvent i"
| "settle_event FailEvent i = MarkProgressEventFailed i"

fun event_result :: "event_op \<Rightarrow> progress_publish_status" where
  "event_result (PublishEvent m t) = ProgressPublishPublished"
| "event_result RequeueEvent = ProgressPublishPending"
| "event_result FailEvent = ProgressPublishFailed"

definition event_state :: "db \<Rightarrow> int \<Rightarrow> progress_publish_status option" where
  "event_state d i = map_option pe_PublishStatus (first_where (\<lambda>e. pe_ID e = i) (db_events d))"

datatype alert_op = AlertSent int | AlertRequeued

fun settle_alert :: "alert_op \<Rightarrow> int \<Rightarrow> unit io" where
  "settle_alert (AlertSent m) i = MarkAlertSent i m"
| "settle_alert AlertRequeued i = RequeueAlert i"

fun alert_result :: "alert_op \<Rightarrow> alert_dispatch_status" where
  "alert_result (AlertSent m) = AlertDispatchSent"
| "alert_result AlertRequeued = AlertDispatchPending"

definition alert_state :: "db \<Rightarrow> int \<Rightarrow> alert_dispatch_status option" where
  "alert_state d i = map_option al_DispatchStatus (first_where (\<lambda>a. al_ID a = i) (db_alerts d))"

lemma schema_uniq_queues: "schema d \<Longrightarrow> uniq pe_ID (db_events d)" "schema d \<Longrightarrow> uniq al_ID (db_alerts d)"
  by (auto simp: schema_def schema_keys_def intro: ids_ok_uniq)

lemma settle_event_form:
  "\<exists>f. settle_event op i = requireDeliveryClaim ''progress event'' i (update_count db_events set_events (claimed_event i) f)
    \<and> (\<forall>e. pe_ID (f e) = pe_ID e \<and> pe_PublishStatus (f e) = event_result op)"
  by (cases op; simp add: MarkProgressEventPublished_def RequeueProgressEvent_def MarkProgressEventFailed_def) fastforce+

lemma settle_alert_form:
  "\<exists>f. settle_alert op i = requireDeliveryClaim ''alert'' i (update_count db_alerts set_alerts (claimed_alert i) f)
    \<and> (\<forall>a. al_ID (f a) = al_ID a \<and> al_DispatchStatus (f a) = alert_result op)"
  by (cases op; simp add: MarkAlertSent_def RequeueAlert_def) fastforce+

lemma event_settled:
  assumes "schema (w_db w)" and run: "settle_event op i w = (r, w')"
  shows "case r of Inr _ \<Rightarrow> event_state (w_db w) i = Some ProgressPublishPublishing
      \<and> event_state (w_db w') = (event_state (w_db w))(i \<mapsto> event_result op)
    | Inl e \<Rightarrow> w_db w' = w_db w"
proof -
  obtain f where form: "settle_event op i = requireDeliveryClaim ''progress event'' i
      (update_count db_events set_events (claimed_event i) f)"
    and f: "\<And>e. pe_ID (f e) = pe_ID e" "\<And>e. pe_PublishStatus (f e) = event_result op"
    using settle_event_form by blast
  have uq: "uniq pe_ID (db_events (w_db w))" using assms(1) by (rule schema_uniq_queues)
  have claimed: "claimed_event i = (\<lambda>e. pe_ID e = i \<and> pe_PublishStatus e = ProgressPublishPublishing)"
    by (simp add: fun_eq_iff claimed_event_def)
  have res: "case r of Inr _ \<Rightarrow> n_where (claimed_event i) (db_events (w_db w)) = 1
      \<and> w_db w' = set_events (w_db w) (upd_where (claimed_event i) f (db_events (w_db w)))
    | Inl e \<Rightarrow> w_db w' = w_db w"
    by (rule require_claim_run [OF run [unfolded form] uq])
      (simp_all add: claimed set_events_def)
  show ?thesis
  proof (cases r)
    case (Inl e)
    then show ?thesis using res by simp
  next
    case (Inr u)
    obtain e where e: "first_where (\<lambda>e. pe_ID e = i) (db_events (w_db w)) = Some e"
        "pe_PublishStatus e = ProgressPublishPublishing"
      using res Inr n_where_claimed [OF uq] unfolding claimed by fastforce
    have "event_state (w_db w') j = ((event_state (w_db w))(i \<mapsto> event_result op)) j" for j
      using res Inr first_where_key_upd [of pe_ID "db_events (w_db w)" f i e _ j, OF uq f(1) e(1)] e(2) f(2)
      by (simp add: event_state_def set_events_def claimed)
    then show ?thesis using Inr e by (auto simp: event_state_def)
  qed
qed

lemma alert_settled:
  assumes "schema (w_db w)" and run: "settle_alert op i w = (r, w')"
  shows "case r of Inr _ \<Rightarrow> alert_state (w_db w) i = Some AlertDispatchDispatching
      \<and> alert_state (w_db w') = (alert_state (w_db w))(i \<mapsto> alert_result op)
    | Inl e \<Rightarrow> w_db w' = w_db w"
proof -
  obtain f where form: "settle_alert op i = requireDeliveryClaim ''alert'' i
      (update_count db_alerts set_alerts (claimed_alert i) f)"
    and f: "\<And>a. al_ID (f a) = al_ID a" "\<And>a. al_DispatchStatus (f a) = alert_result op"
    using settle_alert_form by blast
  have uq: "uniq al_ID (db_alerts (w_db w))" using assms(1) by (rule schema_uniq_queues)
  have claimed: "claimed_alert i = (\<lambda>a. al_ID a = i \<and> al_DispatchStatus a = AlertDispatchDispatching)"
    by (simp add: fun_eq_iff claimed_alert_def)
  have res: "case r of Inr _ \<Rightarrow> n_where (claimed_alert i) (db_alerts (w_db w)) = 1
      \<and> w_db w' = set_alerts (w_db w) (upd_where (claimed_alert i) f (db_alerts (w_db w)))
    | Inl e \<Rightarrow> w_db w' = w_db w"
    by (rule require_claim_run [OF run [unfolded form] uq])
      (simp_all add: claimed set_alerts_def)
  show ?thesis
  proof (cases r)
    case (Inl e)
    then show ?thesis using res by simp
  next
    case (Inr u)
    obtain a where a: "first_where (\<lambda>a. al_ID a = i) (db_alerts (w_db w)) = Some a"
        "al_DispatchStatus a = AlertDispatchDispatching"
      using res Inr n_where_claimed [OF uq] unfolding claimed by fastforce
    have "alert_state (w_db w') j = ((alert_state (w_db w))(i \<mapsto> alert_result op)) j" for j
      using res Inr first_where_key_upd [of al_ID "db_alerts (w_db w)" f i a _ j, OF uq f(1) a(1)] a(2) f(2)
      by (simp add: alert_state_def set_alerts_def claimed)
    then show ?thesis using Inr a by (auto simp: alert_state_def)
  qed
qed

lemma sound_settle: "sound (settle_event eop i)" "sound (settle_alert aop i)"
  by (cases eop; simp add: sound_ops) (cases aop; simp add: sound_ops)

interpretation events: outbox event_state ProgressPublishPublishing
    settle_event event_result
proof
  fix op show "event_result op \<noteq> ProgressPublishPublishing" by (cases op) simp_all
qed (use event_settled sound_settle in fastforce)+

interpretation alerts: outbox alert_state AlertDispatchDispatching settle_alert alert_result
proof
  fix op show "alert_result op \<noteq> AlertDispatchDispatching" by (cases op) simp_all
qed (use alert_settled sound_settle in fastforce)+

section \<open>Claims and leases\<close>

lemma lease_after_claim:
  assumes "ClaimProgressEvent w = (Inr (Some e), w1)"
  shows "\<exists>r. first_where (event_claimable (sql_now w) (w_db w)) (db_events (w_db w)) = Some r \<and> pe_ID e = pe_ID r
    \<and> w_db w1 = (w_db w)\<lparr>db_events := upd_where (\<lambda>q. pe_ID q = pe_ID r)
        (\<lambda>q. q\<lparr>pe_PublishStatus := ProgressPublishPublishing, pe_PublishStartedAt := Some (sql_now w)\<rparr>) (db_events (w_db w))\<rparr>"
  using stmt_Inr [OF assms [unfolded ClaimProgressEvent_def]]
  by (auto simp: sql_ClaimProgressEvent_def scan_event_def split: option.splits)

lemma not_claimable_leased:
  "pe_PublishStatus q = ProgressPublishPublishing \<Longrightarrow> pe_PublishStartedAt q = Some t \<Longrightarrow>
    now < t + deliveryClaimTimeoutSeconds * ns_per_sec \<Longrightarrow> \<not> event_claimable now d q"
  by (simp add: event_claimable_def lease_free_def)

text \<open>A claimed progress event belongs to its claimer for five minutes: it was claimable, it is
  marked as being published, and no claim made before the lease ends returns it again.\<close>

theorem claimed_event_is_leased:
  assumes "schema (w_db w)" and "ClaimProgressEvent w = (Inr (Some e), w1)"
    and "w_db w2 = w_db w1" and "sql_now w2 < sql_now w + 300 * ns_per_sec"
  shows "event_state (w_db w) (pe_ID e) \<in> {Some ProgressPublishPending, Some ProgressPublishPublishing}
    \<and> event_state (w_db w1) (pe_ID e) = Some ProgressPublishPublishing
    \<and> (case fst (ClaimProgressEvent w2) of Inr (Some e2) \<Rightarrow> pe_ID e2 \<noteq> pe_ID e | _ \<Rightarrow> True)"
proof -
  have uq: "uniq pe_ID (db_events (w_db w))" using assms(1) by (rule schema_uniq_queues)
  obtain r where r: "first_where (event_claimable (sql_now w) (w_db w)) (db_events (w_db w)) = Some r" "pe_ID e = pe_ID r"
    and db: "w_db w1 = (w_db w)\<lparr>db_events := upd_where (\<lambda>q. pe_ID q = pe_ID r)
        (\<lambda>q. q\<lparr>pe_PublishStatus := ProgressPublishPublishing, pe_PublishStartedAt := Some (sql_now w)\<rparr>) (db_events (w_db w))\<rparr>"
    using lease_after_claim [OF assms(2)] by blast
  have rin: "r \<in> set (db_events (w_db w))" "event_claimable (sql_now w) (w_db w) r"
    using first_where_Some [OF r(1)] by auto
  have "event_state (w_db w) (pe_ID e) = Some (pe_PublishStatus r)"
    using first_where_uniq [OF uq rin(1)] r(2) by (simp add: event_state_def)
  moreover have "event_state (w_db w1) (pe_ID e) = Some ProgressPublishPublishing"
    using first_where_uniq [OF uq rin(1) refl] r(2) db
    by (simp add: event_state_def first_where_upd_same)
  moreover have "pe_ID e2 \<noteq> pe_ID e" if claim2: "fst (ClaimProgressEvent w2) = Inr (Some e2)" for e2
  proof
    assume same: "pe_ID e2 = pe_ID e"
    obtain w3 where "ClaimProgressEvent w2 = (Inr (Some e2), w3)" using claim2 by (cases "ClaimProgressEvent w2") auto
    then obtain r2 where r2: "first_where (event_claimable (sql_now w2) (w_db w2)) (db_events (w_db w2)) = Some r2"
        "pe_ID e2 = pe_ID r2"
      using lease_after_claim by blast
    have "r2 \<in> set (db_events (w_db w2))" "event_claimable (sql_now w2) (w_db w2) r2"
      using first_where_Some [OF r2(1)] by auto
    moreover have "pe_ID r2 = pe_ID r" using r2(2) r(2) same by simp
    ultimately show False
      using assms(3,4) db not_claimable_leased [of r2 "sql_now w" "sql_now w2"]
      by (auto simp: set_upd_where deliveryClaimTimeoutSeconds_def)
  qed
  ultimately show ?thesis
    using rin(2) by (auto simp: event_claimable_def split: sum.split option.split)
qed


text \<open>A delivery is confirmed at most once per claim: after an event or an alert was settled,
  every other attempt to settle the same claim fails.\<close>

theorem settled_at_most_once:
  assumes "schema (w_db w)" and "w_db w2 = w_db w1"
  shows "(settle_event op i w = (Inr (), w1) \<longrightarrow> fst (settle_event op' i w2) \<noteq> Inr ())
    \<and> (settle_alert aop i w = (Inr (), w1) \<longrightarrow> fst (settle_alert aop' i w2) \<noteq> Inr ())"
  using events.settled_once [OF assms(1) _ assms(2)] alerts.settled_once [OF assms(1) _ assms(2)] by blast

section \<open>The retry schedule\<close>

definition retry_key :: "bytes \<Rightarrow> int \<Rightarrow> delivery_retry \<Rightarrow> bool" where
  "retry_key operation i r \<longleftrightarrow> dr_Operation r = operation \<and> dr_EntityID r = i"

definition failures :: "bytes \<Rightarrow> int \<Rightarrow> (gotime \<times> bytes) list \<Rightarrow> unit io" where
  "failures operation i xs = for_each xs (\<lambda>(t, cause). RecordDeliveryFailure operation i t cause False)"

lemma for_each_append: "for_each (xs @ ys) f = thenM (for_each xs f) (for_each ys f)"
  by (induction xs) (simp_all add: run)

lemma record_failure_run:
  "calm w \<Longrightarrow> RecordDeliveryFailure operation i t cause False w = (Inr (), (bump w)\<lparr>w_db :=
     (if list_ex (retry_key operation i) (db_retries (w_db w))
      then (w_db w)\<lparr>db_retries := upd_where (retry_key operation i) (retry_after_failure (gt_ns t) cause False) (db_retries (w_db w))\<rparr>
      else (w_db w)\<lparr>db_retries := db_retries (w_db w) @ [first_failure operation i (gt_ns t) cause False]\<rparr>)\<rparr>)"
  by (simp add: RecordDeliveryFailure_def run retry_key_def [abs_def] Let_def)

lemma filter_upd_where: "(\<And>r. p (f r) = p r) \<Longrightarrow> filter p (upd_where p f rs) = map f (filter p rs)"
  by (induction rs) auto

lemma failures_row:
  assumes "calm w" and "filter (retry_key operation i) (db_retries (w_db w)) = []"
  shows "\<exists>w'. failures operation i (xs @ [(t, cause)]) w = (Inr (), w') \<and> calm w'
    \<and> (\<exists>r. filter (retry_key operation i) (db_retries (w_db w')) = [r] \<and> dr_Attempts r = min (int (length xs) + 1) 8
        \<and> dr_NextAttemptAt r = gt_ns t + ns_per_minute * 2 ^ min (length xs) 6 \<and> dr_Exhausted r = (7 \<le> length xs))"
proof (induction xs arbitrary: t cause rule: rev_induct)
  case Nil
  have "\<not> list_ex (retry_key operation i) (db_retries (w_db w))"
    using assms(2) by (simp add: filter_empty_conv list_ex_iff)
  then show ?case
    using assms by (simp add: failures_def run record_failure_run) (simp add: first_failure_def retry_key_def)
next
  case (snoc y xs)
  obtain ty cy where y: "y = (ty, cy)" by (cases y)
  obtain w' r where w': "failures operation i (xs @ [y]) w = (Inr (), w')" "calm w'"
    and r: "filter (retry_key operation i) (db_retries (w_db w')) = [r]" "dr_Attempts r = min (int (length xs) + 1) 8"
    using snoc [of ty cy] y by blast
  have some: "list_ex (retry_key operation i) (db_retries (w_db w'))"
    using r(1) by (metis filter_empty_conv list.distinct(1) list_ex_iff)
  have same: "retry_key operation i (retry_after_failure k c b q) = retry_key operation i q" for k c b q
    by (simp add: retry_key_def retry_after_failure_def)
  have "failures operation i ((xs @ [y]) @ [(t, cause)]) w = RecordDeliveryFailure operation i t cause False w'"
    using w' unfolding failures_def for_each_append [of "xs @ [y]"] by (simp add: run)
  moreover have "min (min (int (length xs) + 1) 8 + 1) 8 = min (int (Suc (length xs)) + 1) 8"
    "nat (min (min (int (length xs) + 1) 8) 6) = min (Suc (length xs)) 6"
    "(8 \<le> min (int (length xs) + 1) 8 + 1) = (7 \<le> Suc (length xs))"
    by (simp_all add: min_def) linarith+
  ultimately show ?case
    using w'(2) some r same
    by (simp add: record_failure_run filter_upd_where) (simp add: retry_after_failure_def)
qed

text \<open>C29. The n-th failed attempt of a delivery makes it wait 1, 2, 4, ..., 64 minutes; it is then ready
  exactly when that time has passed, and after the eighth failure it never is again.\<close>

theorem retry_backoff:
  assumes "calm w" and "filter (retry_key operation i) (db_retries (w_db w)) = []"
    and "failures operation i (xs @ [(t, cause)]) w = (Inr (), w')"
  shows "fst (DeliveryReady operation i now w') =
    Inr (length xs < 7 \<and> gt_ns t + ns_per_minute * 2 ^ min (length xs) 6 \<le> gt_ns now)"
proof -
  obtain r where "calm w'" and r: "filter (retry_key operation i) (db_retries (w_db w')) = [r]"
      "dr_NextAttemptAt r = gt_ns t + ns_per_minute * 2 ^ min (length xs) 6" "dr_Exhausted r = (7 \<le> length xs)"
    using failures_row [OF assms(1,2), of xs t cause] assms(3) by auto
  have "list_ex (\<lambda>r. retry_key operation i r \<and> P r) (db_retries (w_db w')) = P r" for P
  proof -
    have "list_ex (\<lambda>r. retry_key operation i r \<and> P r) rs = list_ex P (filter (retry_key operation i) rs)" for rs
      by (induction rs) auto
    then show ?thesis using r(1) by simp
  qed
  from this [of "\<lambda>r. dr_Exhausted r \<or> gt_ns now < dr_NextAttemptAt r"] show ?thesis
    using \<open>calm w'\<close> r(2,3) by (auto simp: DeliveryReady_def run retry_key_def conj_assoc)
qed

section \<open>Witnesses\<close>

definition claimed1 :: "world" where
  "claimed1 = (bump world1)\<lparr>w_db := db1\<lparr>db_events := [event1\<lparr>pe_PublishStatus := ProgressPublishPublishing,
     pe_PublishStartedAt := Some 1774746000000000000\<rparr>]\<rparr>\<rparr>"

lemma claimed1_fields [simp]:
  "w_db claimed1 = db1\<lparr>db_events := [event1\<lparr>pe_PublishStatus := ProgressPublishPublishing,
     pe_PublishStartedAt := Some 1774746000000000000\<rparr>]\<rparr>"
  "calm claimed1" "sql_now world1 = 1774746000000000000" "sql_now claimed1 = 1774746000000000000"
  by (simp_all add: claimed1_def) (simp_all add: sql_now_def world1_def world0_def)

lemma claim1: "ClaimProgressEvent world1 = (Inr (Some (event1\<lparr>pe_PublishStatus := ProgressPublishPublishing,
    pe_PublishStartedAt := Some 1774746000000000000, pe_Payload := decodePayload Map.empty\<rparr>)), claimed1)"
  by (simp add: claimed1_def ClaimProgressEvent_def run sql_ClaimProgressEvent_def)
    (simp add: db1_def event1_def event_claimable_def retry_blocked_def db0_def scan_event_def)

theorem claimed_event_is_leased_witness:
  "ClaimProgressEvent world1 = (Inr (Some (event1\<lparr>pe_PublishStatus := ProgressPublishPublishing,
      pe_PublishStartedAt := Some 1774746000000000000, pe_Payload := decodePayload Map.empty\<rparr>)), claimed1)
    \<and> event_state (w_db claimed1) 1 = Some ProgressPublishPublishing"
  using claimed_event_is_leased [OF _ claim1 refl] schema_db1 claim1
  by (simp add: event1_def ns_per_sec_def)


definition published1 :: world where "published1 = snd (settle_event (PublishEvent 7 8) 1 claimed1)"

theorem settled_at_most_once_witness:
  "settle_event (PublishEvent 7 8) 1 claimed1 = (Inr (), published1)
    \<and> fst (settle_event RequeueEvent 1 published1) \<noteq> Inr ()"
proof -
  have "schema (w_db claimed1)"
    using soundD [OF sound_ClaimProgressEvent claim1] schema_db1 by simp
  moreover have "settle_event (PublishEvent 7 8) 1 claimed1 = (Inr (), published1)"
    unfolding published1_def
    by (simp add: MarkProgressEventPublished_def requireDeliveryClaim_def update_count_def run
        claimed_event_def event1_def)
  ultimately show ?thesis
    using settled_at_most_once [where w = claimed1 and ?w1.0 = published1 and ?w2.0 = published1 and i = 1
        and op = "PublishEvent 7 8" and op' = RequeueEvent]
    by simp
qed

theorem retry_backoff_witness:
  "fst (DeliveryReady ''alert'' 1 (utc_time 90000000000) (snd (failures ''alert'' 1 [(utc_time 0, ''x''), (utc_time 0, ''y'')] world1)))
    = Inr False"
proof -
  have "filter (retry_key ''alert'' 1) (db_retries (w_db world1)) = []" by (simp add: db1_def db0_def)
  moreover have "failures ''alert'' 1 ([(utc_time 0, ''x'')] @ [(utc_time 0, ''y'')]) world1
      = (Inr (), snd (failures ''alert'' 1 [(utc_time 0, ''x''), (utc_time 0, ''y'')] world1))"
    by (simp add: failures_def run record_failure_run)
  ultimately show ?thesis
    using retry_backoff [of world1 "''alert''" 1 "[(utc_time 0, ''x'')]" "utc_time 0" "''y''" _ "utc_time 90000000000"]
    by (simp add: utc_time_def ns_per_minute_def)
qed

end
