(* ===== verification/Access_Control.thy ===== *)
theory Access_Control imports Bot_Service Examples begin

text \<open>
  Who may press which button. \<open>permitted\<close> is the policy the authorization gate promises, stated
  over the tables; the gate implements it, so a callback the policy forbids reads the database and
  does nothing else.
\<close>

section \<open>The policy\<close>

text \<open>
  The row a button addresses, as its workspace and its owner; the outer \<open>None\<close> is a button that
  addresses no row.
\<close>

definition task_target :: "db \<Rightarrow> int \<Rightarrow> (int \<times> int) option" where
  "task_target d i = map_option (\<lambda>t. (tk_WorkspaceGroupID t, tk_OwnerUserID t)) (find_task i d)"

definition callback_target :: "db \<Rightarrow> callback \<Rightarrow> (int \<times> int) option option" where
  "callback_target d p = (case cb_Kind p of
      CallbackTaskReport \<Rightarrow> Some (task_target d (cb_TaskID p))
    | CallbackTaskStatus \<Rightarrow> Some (task_target d (cb_TaskID p))
    | CallbackAlertAck \<Rightarrow> Some (case first_where (\<lambda>a. al_ID a = cb_AlertID p) (db_alerts d) of
          None \<Rightarrow> None | Some a \<Rightarrow> task_target d (al_DailyTaskID a))
    | CallbackRoutineItem \<Rightarrow> Some (map_option (\<lambda>c. (rc_WorkspaceGroupID c, rc_OwnerUserID c))
          (first_where (\<lambda>c. rc_ID c = cb_RoutineCheckinID p) (db_checkins d)))
    | CallbackGoalFinalStatus \<Rightarrow> Some (map_option (\<lambda>g. (gs_WorkspaceGroupID g, gs_OwnerUserID g))
          (first_where (\<lambda>g. gs_ID g = cb_GoalSetID p) (db_goals d)))
    | CallbackGoalFinalComplete \<Rightarrow> Some (map_option (\<lambda>g. (gs_WorkspaceGroupID g, gs_OwnerUserID g))
          (first_where (\<lambda>g. gs_ID g = cb_GoalSetID p) (db_goals d)))
    | _ \<Rightarrow> None)"

definition permitted :: "db \<Rightarrow> tg_user \<Rightarrow> message \<Rightarrow> callback \<Rightarrow> bool" where
  "permitted d user msg p \<longleftrightarrow> is_group (mg_Chat msg) \<and> cb_Kind p \<noteq> CallbackUnknown
     \<and> (cb_Kind p = CallbackNoticeDismiss \<longrightarrow> cb_NoticeOwnerUserID p = us_ID user)
     \<and> (case callback_target d p of None \<Rightarrow> True | Some None \<Rightarrow> False
        | Some (Some (wid, owner)) \<Rightarrow> owner = us_ID user \<and>
            (case first_where (\<lambda>w. ws_ChatID w = ch_ID (mg_Chat msg)) (db_workspaces d) of
               None \<Rightarrow> False | Some w \<Rightarrow> ws_ID w = wid))"

section \<open>Programs that only read\<close>

definition gate :: "('a \<Rightarrow> bool) \<Rightarrow> 'a io \<Rightarrow> world \<Rightarrow> bool" where
  "gate P m w \<longleftrightarrow> w_db (snd (m w)) = w_db w \<and> w_sent (snd (m w)) = w_sent w
     \<and> (case fst (m w) of Inl e \<Rightarrow> \<exists>s. e = DbError s | Inr x \<Rightarrow> P x)"

lemma gate_query: "P (f (w_db w)) \<Longrightarrow> gate P (query f) w"
  by (auto simp: gate_def query_def stmt_def bump_def abort_tx_def split: tx_state.split option.split)

lemma gate_ret: "P x \<Longrightarrow> gate P (ret x) w"
  by (simp add: gate_def ret_def)

lemma gate_bind:
  assumes "gate Q m w"
    and "\<And>x w'. Q x \<Longrightarrow> w_db w' = w_db w \<Longrightarrow> w_sent w' = w_sent w \<Longrightarrow> gate P (f x) w'"
  shows "gate P (bindM m f) w"
proof (cases "m w")
  case (Pair r w')
  then show ?thesis using assms by (cases r) (auto simp: gate_def)
qed

lemma gate_query_bind:
  assumes "\<And>w'. w_db w' = w_db w \<Longrightarrow> gate P (f (q (w_db w))) w'"
  shows "gate P (bindM (query q) f) w"
  using assms by (auto intro!: gate_bind [OF gate_query [where P = "\<lambda>x. x = q (w_db w)"]])

section \<open>The gate implements the policy\<close>

definition denial :: "bytes option \<Rightarrow> bool" where
  "denial a \<longleftrightarrow> a = Some stale \<or> a = Some owner_only"

lemma gate_owned:
  assumes "\<not> (owner = us_ID user \<and> (case first_where (\<lambda>w. ws_ChatID w = ch_ID (mg_Chat msg)) (db_workspaces (w_db w)) of
      None \<Rightarrow> False | Some v \<Rightarrow> ws_ID v = wid))"
  shows "gate denial (authorizeOwnedCallback user msg wid owner) w"
  unfolding authorizeOwnedCallback_def GetWorkspaceByChatID_def
  using assms by (intro gate_query_bind) (auto simp: denial_def split: option.splits intro!: gate_ret)

lemma gate_task:
  assumes "\<not> (case task_target (w_db w) i of None \<Rightarrow> False | Some (wid, owner) \<Rightarrow> owner = us_ID user \<and>
      (case first_where (\<lambda>w. ws_ChatID w = ch_ID (mg_Chat msg)) (db_workspaces (w_db w)) of
        None \<Rightarrow> False | Some v \<Rightarrow> ws_ID v = wid))"
  shows "gate denial (authorize_task user msg i) w"
  unfolding authorize_task_def GetTask_def or_stale_def
  using assms by (intro gate_query_bind)
    (auto simp: task_target_def denial_def intro!: gate_ret gate_owned split: option.split)

lemma gate_checkin:
  "gate (\<lambda>found. map_option (\<lambda>c. (rc_WorkspaceGroupID c, rc_OwnerUserID c)) found =
      map_option (\<lambda>c. (rc_WorkspaceGroupID c, rc_OwnerUserID c)) (first_where (\<lambda>c. rc_ID c = i) (db_checkins (w_db w))))
    (GetRoutineCheckin i) w"
  unfolding GetRoutineCheckin_def with_items_def ListRoutineCheckinItems_def
  by (intro gate_query_bind) (auto simp: scan_checkin_def intro!: gate_ret gate_query_bind split: option.split)

lemma gate_authorize:
  assumes "\<not> permitted (w_db w) user msg p"
  shows "gate denial (authorizeCallback user msg p) w"
proof (cases "is_group (mg_Chat msg)")
  case False
  then show ?thesis by (simp add: authorizeCallback_def gate_ret denial_def)
next
  case True
  note forbidden = assms [unfolded permitted_def callback_target_def]
  show ?thesis
  proof (cases "cb_Kind p")
    case CallbackAlertAck
    with True forbidden show ?thesis
      unfolding authorizeCallback_def GetAlert_def or_stale_def
      by (simp, intro gate_query_bind) (auto simp: denial_def intro!: gate_ret gate_task split: option.splits)
  next
    case CallbackRoutineItem
    with True forbidden show ?thesis
      unfolding authorizeCallback_def or_stale_def
      by (simp, intro gate_bind [OF gate_checkin])
        (auto simp: denial_def map_option_case intro!: gate_ret gate_owned split: option.splits)
  next
    case CallbackGoalFinalStatus
    with True forbidden show ?thesis
      unfolding authorizeCallback_def GetSeasonalGoalSet_def or_stale_def
      by (simp, intro gate_query_bind) (auto simp: denial_def intro!: gate_ret gate_owned split: option.splits)
  next
    case CallbackGoalFinalComplete
    with True forbidden show ?thesis
      unfolding authorizeCallback_def GetSeasonalGoalSet_def or_stale_def
      by (simp, intro gate_query_bind) (auto simp: denial_def intro!: gate_ret gate_owned split: option.splits)
  qed (use True forbidden in \<open>auto simp: authorizeCallback_def denial_def intro!: gate_ret gate_task split: option.splits\<close>)
qed

text \<open>C33. A button pressed by somebody the policy does not permit (not the owner of the task, alert,
  check-in or goal set it addresses, or from another group) changes no data and sends nothing; the
  answer is that the button is stale or for its owner only.\<close>

theorem forbidden_callback_changes_nothing:
  assumes "cq_Message q = Some msg" and "ParseCallback (cq_Data q) = Inr p"
    and "\<not> permitted (w_db w) (cq_From q) msg p"
  shows "w_db (snd (handleCallback q w)) = w_db w \<and> w_sent (snd (handleCallback q w)) = w_sent w
    \<and> (case fst (handleCallback q w) of Inl e \<Rightarrow> \<exists>s. e = DbError s
       | Inr (key, err) \<Rightarrow> key \<in> {stale, owner_only} \<and> err = None)"
proof -
  have "gate (\<lambda>(key, err). key \<in> {stale, owner_only} \<and> err = None) (handleCallback q) w"
    unfolding handleCallback_def assms(1,2) option.case sum.case
    by (rule gate_bind [OF gate_authorize [OF assms(3)]]) (auto simp: denial_def answer_text_def intro!: gate_ret)
  then show ?thesis by (auto simp: gate_def split: sum.splits prod.splits)
qed

theorem forbidden_callback_changes_nothing_witness:
  "w_db (snd (handleCallback \<lparr>cq_ID = ''q'', cq_From = user8, cq_Message = Some message1, cq_Data = ''task:report:1''\<rparr> world2))
    = db2"
proof -
  have parsed: "ParseCallback ''task:report:1'' = Inr ((callback0 CallbackTaskReport ''task:report:1'')\<lparr>cb_TaskID := 1\<rparr>)"
    using parse_task_report [of 1] show_int_1 by (simp add: pos_id_def)
  have "\<not> permitted db2 user8 message1 ((callback0 CallbackTaskReport ''task:report:1'')\<lparr>cb_TaskID := 1\<rparr>)"
    by (simp add: permitted_def callback_target_def task_target_def find_task_def callback0_def db2_def task1_def user8_def)
  then show ?thesis
    using forbidden_callback_changes_nothing [of "\<lparr>cq_ID = ''q'', cq_From = user8, cq_Message = Some message1,
        cq_Data = ''task:report:1''\<rparr>" message1 _ world2] parsed
    by simp
qed

lemma owned_run:
  "calm w \<Longrightarrow> fst (authorizeOwnedCallback user msg wid owner w) = Inr
     (case first_where (\<lambda>w. ws_ChatID w = ch_ID (mg_Chat msg)) (db_workspaces (w_db w)) of
        None \<Rightarrow> Some stale
      | Some v \<Rightarrow> if ws_ID v \<noteq> wid then Some stale else if us_ID user \<noteq> owner then Some owner_only else None)"
  by (simp add: authorizeOwnedCallback_def GetWorkspaceByChatID_def run split: option.split)

lemma gate_opens:
  assumes "calm w" and "permitted (w_db w) user msg p" and "cb_Kind p \<noteq> CallbackSetupStart"
  shows "fst (authorizeCallback user msg p w) = Inr None"
  using assms
  by (cases "cb_Kind p")
    (auto simp: permitted_def callback_target_def task_target_def authorizeCallback_def authorize_task_def or_stale_def
      GetTask_def GetAlert_def GetRoutineCheckin_def with_items_def ListRoutineCheckinItems_def GetSeasonalGoalSet_def
      scan_checkin_def run owned_run split: option.splits)



section \<open>Setting up a group\<close>

text \<open>The topics of a group are set up only for a user whom Telegram reports as an administrator:
  otherwise the press changes no data.\<close>

theorem setup_needs_an_administrator:
  assumes "cq_Message q = Some msg" and "cq_Data q = ''setup:start''"
    and "fst (IsGroupAdmin (ch_ID (mg_Chat msg)) (us_ID (cq_From q)) w) \<noteq> Inr True"
  shows "w_db (snd (handleCallback q w)) = w_db w"
proof -
  have parsed: "ParseCallback ''setup:start'' = Inr (callback0 CallbackSetupStart ''setup:start'')"
    by (simp add: ParseCallback_def)
  let ?auth = "authorizeCallback (cq_From q) msg (callback0 CallbackSetupStart ''setup:start'')"
  have db: "w_db (snd (?auth w)) = w_db w"
    using unchanged_authorizeCallback by (metis keeps_def)
  have "fst (?auth w) \<noteq> Inr None"
  proof (cases "is_group (mg_Chat msg)")
    case True
    then show ?thesis
      using assms(3) by (auto simp: authorizeCallback_def callback0_def bindM_def ret_def split: prod.splits sum.splits)
  qed (simp add: authorizeCallback_def ret_def)
  then show ?thesis
    using db unfolding handleCallback_def assms(1,2) option.case sum.case parsed
    by (cases "?auth w") (auto simp: bindM_def answer_text_def ret_def split: sum.splits option.splits)
qed

theorem setup_needs_an_administrator_witness:
  "w_db (snd (handleCallback \<lparr>cq_ID = ''q'', cq_From = user8, cq_Message = Some message1, cq_Data = ''setup:start''\<rparr>
     (world2\<lparr>w_http := \<lambda>k req. HttpResponse 200 [] 0 (Decoded True [] (ResMember
        \<lparr>cm_Status = ''member'', cm_User = user8, cm_CanManageTopics = False\<rparr>))\<rparr>))) = db2"
proof -
  let ?w = "world2\<lparr>w_http := \<lambda>k req. HttpResponse 200 [] 0 (Decoded True [] (ResMember
        \<lparr>cm_Status = ''member'', cm_User = user8, cm_CanManageTopics = False\<rparr>))\<rparr>"
  have "fst (callJSON (GetChatMember (- 1001) 8) ?w) = Inr (ResMember
        \<lparr>cm_Status = ''member'', cm_User = user8, cm_CanManageTopics = False\<rparr>)"
    by (rule callJSON_succeeds) (simp add: http_result_def responseDescription_def)
  then have "fst (IsGroupAdmin (- 1001) 8 ?w) = Inr False"
    by (auto simp: IsGroupAdmin_def tgGetChatMember_def bindM_def ret_def is_owner_status_def split: prod.splits sum.splits)
  then show ?thesis
    using setup_needs_an_administrator [of "\<lparr>cq_ID = ''q'', cq_From = user8, cq_Message = Some message1,
        cq_Data = ''setup:start''\<rparr>" message1 ?w]
    by (simp add: message1_def group1_def user8_def)
qed

end
