(* ===== verification/Talk.thy ===== *)
theory Talk imports App_Outbox Examples begin

text \<open>
  Programs that only talk to Telegram: they may let time pass and send requests, but they leave the
  database, its failures and the transaction alone. The locale \<open>world_rel\<close> is the contract of a
  relation on worlds that sequences of programs keep.
\<close>

section \<open>Programs that cannot fail\<close>

definition total :: "'a io \<Rightarrow> bool" where "total m \<longleftrightarrow> (\<forall>w. \<exists>x. fst (m w) = Inr x)"

lemma total_simple [simp]: "total (ret x)" "total (ignore m)" "total (attempt m)" "total (err_of m)" "total (getW g)"
  by (simp_all add: total_def run)

lemma total_bindM:
  assumes "total m" and "\<And>x. total (f x)"
  shows "total (bindM m f)"
proof (unfold total_def, intro allI)
  fix w
  obtain x w' where "m w = (Inr x, w')" using assms(1) by (metis total_def prod.collapse)
  then show "\<exists>y. fst (bindM m f w) = Inr y" using assms(2) [of x] by (simp add: total_def bindM_def)
qed

lemma total_thenM: "total m \<Longrightarrow> total n \<Longrightarrow> total (thenM m n)"
  by (simp add: thenM_def total_bindM)

lemma total_whenM: "total u \<Longrightarrow> total (whenM b u)"
  by (simp add: whenM_def)

lemma total_if: "total m \<Longrightarrow> total n \<Longrightarrow> total (if b then m else n)"
  by simp

lemmas total_rules = total_simple total_bindM total_thenM total_whenM total_if

lemma totalE: "m w = (Inl e, w') \<Longrightarrow> total m \<Longrightarrow> P"
  by (metis Inl_Inr_False fst_conv total_def)

text \<open>A failure of a sequence whose end cannot fail is a failure of its start.\<close>

lemma bindM_total_failed:
  assumes "bindM m f w = (Inl e, w')" and "\<And>x. total (f x)"
  shows "m w = (Inl e, w')"
  using assms(1) by (auto simp: bindM_def split: prod.splits sum.splits elim: totalE [OF _ assms(2)])

section \<open>Relations on worlds\<close>

definition wkeeps :: "(world \<Rightarrow> world \<Rightarrow> bool) \<Rightarrow> 'a io \<Rightarrow> bool" where
  "wkeeps W m \<longleftrightarrow> (\<forall>w. W w (snd (m w)))"

locale world_rel =
  fixes W :: "world \<Rightarrow> world \<Rightarrow> bool"
  assumes same: "W w w"
    and step: "W w w' \<Longrightarrow> W w' w'' \<Longrightarrow> W w w''"
begin

lemma wkeeps_pure: "(\<And>w. W w (snd (m w))) \<Longrightarrow> wkeeps W m"
  by (simp add: wkeeps_def)

lemma wkeeps_simple: "wkeeps W (ret x)" "wkeeps W (failM e)" "wkeeps W (getW g)" "wkeeps W time_now" "wkeeps W (rule r)"
  by (simp_all add: wkeeps_def ret_def failM_def getW_def time_now_def rule_def same)

lemma wkeeps_bindM:
  assumes "wkeeps W m" and "\<And>x. wkeeps W (f x)"
  shows "wkeeps W (bindM m f)"
proof (rule wkeeps_pure)
  fix w
  have "W w (snd (m w))" using assms(1) by (simp add: wkeeps_def)
  moreover have "W w' (snd (f x w'))" for x w' using assms(2) by (simp add: wkeeps_def)
  ultimately show "W w (snd (bindM m f w))"
    by (auto simp: bindM_def split: prod.split sum.split intro: step)
qed

lemma wkeeps_wrap:
  "wkeeps W m \<Longrightarrow> wkeeps W (attempt m)" "wkeeps W m \<Longrightarrow> wkeeps W (ignore m)" "wkeeps W m \<Longrightarrow> wkeeps W (err_of m)"
  "wkeeps W u \<Longrightarrow> wkeeps W (whenM b u)"
  by (simp_all add: wkeeps_def attempt_run ignore_run err_of_run whenM_def ret_def same)

lemma wkeeps_thenM: "wkeeps W m \<Longrightarrow> wkeeps W n \<Longrightarrow> wkeeps W (thenM m n)"
  by (simp add: thenM_def wkeeps_bindM)

lemma wkeeps_for_each: "(\<And>x. wkeeps W (f x)) \<Longrightarrow> wkeeps W (for_each xs f)"
  by (induction xs) (simp_all add: wkeeps_simple wkeeps_thenM)

lemma wkeeps_cases:
  "wkeeps W m \<Longrightarrow> wkeeps W n \<Longrightarrow> wkeeps W (if b then m else n)"
  "wkeeps W m \<Longrightarrow> (\<And>x. wkeeps W (f x)) \<Longrightarrow> wkeeps W (case oo of None \<Rightarrow> m | Some x \<Rightarrow> f x)"
  "(\<And>e. wkeeps W (g e)) \<Longrightarrow> (\<And>x. wkeeps W (f x)) \<Longrightarrow> wkeeps W (case s of Inl e \<Rightarrow> g e | Inr x \<Rightarrow> f x)"
  by (simp_all split: option.split sum.split)

lemmas wkeeps_rules = wkeeps_simple wkeeps_bindM wkeeps_wrap wkeeps_thenM wkeeps_for_each wkeeps_cases

end

section \<open>Talking to Telegram\<close>

definition talk :: "world \<Rightarrow> world \<Rightarrow> bool" where
  "talk w w' \<longleftrightarrow> w_db w' = w_db w \<and> w_tx w' = w_tx w \<and> w_sql w' = w_sql w \<and> w_nsql w' = w_nsql w \<and> w_env w' = w_env w
     \<and> w_http w' = w_http w"

interpretation tlk: world_rel talk
  by unfold_locales (auto simp: talk_def)

abbreviation talks :: "'a io \<Rightarrow> bool" where "talks \<equiv> wkeeps talk"

lemma talksD: "talks m \<Longrightarrow> talk w (snd (m w))"
  by (simp add: wkeeps_def)

lemma talk_total_run:
  assumes "talks m" and "total m"
  obtains x w' where "m w = (Inr x, w')" "talk w w'"
proof -
  obtain x where "fst (m w) = Inr x" using assms(2) by (auto simp: total_def)
  then have "m w = (Inr x, snd (m w))" by (simp add: prod_eq_iff)
  then show ?thesis using that talksD [OF assms(1), of w] by blast
qed

lemma talk_calm: "talk w w' \<Longrightarrow> calm w' = calm w"
  by (simp add: talk_def calm_def)

lemma talks_callJSON: "talks (callJSON req)"
proof -
  have once: "talks (callJSONOnce req)" for req
    by (rule tlk.wkeeps_pure) (simp add: callJSONOnce_def talk_def)
  have time: "talks (sleepContext k)" "talks waitRateLimit" "talks (recordRateLimit e)" for k e
    by (rule tlk.wkeeps_pure; simp add: sleepContext_def waitRateLimit_def recordRateLimit_def talk_def split: option.split)+
  have "talks (call_attempts k n e req)" for k n e
    by (induction k arbitrary: n e) (auto intro!: tlk.wkeeps_rules once time)
  then show ?thesis by (simp add: callJSON_def)
qed

lemma talks_call_unless: "talks (call_unless h req)"
  unfolding call_unless_def by (intro tlk.wkeeps_rules talks_callJSON)

lemma talks_telegram:
  "talks (tgSendMessage sr)" "talks (tgEditMessageText er)" "talks (tgEditMessageReplyMarkup c m kb)"
  "talks (tgDeleteMessage c m)" "talks (tgPinChatMessage c m)"
  unfolding tgSendMessage_def tgEditMessageText_def tgEditMessageReplyMarkup_def tgDeleteMessage_def
    tgPinChatMessage_def Let_def
  by (intro tlk.wkeeps_rules talks_callJSON talks_call_unless)+

lemma talks_DeleteBestEffort: "talks (DeleteBestEffort c m s n)"
  unfolding DeleteBestEffort_def by (intro tlk.wkeeps_rules talks_telegram)

end
