(* ===== verification/Transactions.thy ===== *)
theory Transactions imports Bot_Service Talk begin

text \<open>
  What a failed transaction leaves behind, and what that means for the inputs of users: the texts
  that arrive for an open input are consumed in one transaction, so an error keeps the input open.
\<close>

section \<open>Rolled back transactions\<close>

text \<open>Two databases that differ in their sequences only.\<close>

definition same_tables :: "db \<Rightarrow> db \<Rightarrow> bool" where
  "same_tables d d' \<longleftrightarrow> d' = d\<lparr>db_seq := db_seq d'\<rparr>"

lemma same_tables_refl [simp]: "same_tables d d"
  by (simp add: same_tables_def)

lemma same_tables_rollback [simp]: "same_tables (w_db w) (w_db (rollback (w_db w) w'))"
  by (simp add: same_tables_def rollback_def)

lemma same_tables_pendings: "same_tables d d' \<Longrightarrow> db_pendings d' = db_pendings d"
  unfolding same_tables_def by (metis db.select_convs(7) db.surjective db.update_convs(1))

lemma inTx_failed:
  assumes "inTx m w = (Inl e, w')"
  shows "same_tables (w_db w) (w_db w')"
  using assms unfolding inTx_def
  by (auto split: option.splits prod.splits sum.splits tx_state.splits simp del: same_tables_rollback
      intro: same_tables_rollback)

lemma inTx_closed:
  assumes "w_tx w = NoTx" and "inTx m w = (r, w')"
  shows "w_tx w' = NoTx"
  using assms unfolding inTx_def
  by (auto split: option.splits prod.splits sum.splits tx_state.splits simp: bump_def rollback_def)

section \<open>Texts that could not be consumed\<close>

lemma total_editMessageSafe: "total (editMessageSafe c m t kb)"
  unfolding editMessageSafe_def by (intro total_if total_bindM total_simple)

lemma unchanged_goals_prompt: "keeps (=) (seasonalGoalsPrompt g)"
  unfolding seasonalGoalsPrompt_def current_now_def CurrentNow_def by (intro unchanged.keeps_program)

lemma total_reject_report: "total (reject_report user msg o')"
  unfolding reject_report_def Let_def by (intro total_rules total_editMessageSafe)

lemma plan_failed:
  assumes "consumeRoutinePlan g user msg pending w = (Inl e, w')"
  shows "same_tables (w_db w) (w_db w')"
proof -
  have invalid: "total (thenM (ignore (refreshPendingInputActivity a b c pending d)) (ignore (editMessageSafe x y z v)))"
    for a b c d x y z v by (intro total_rules total_editMessageSafe)
  show ?thesis
    using assms unfolding consumeRoutinePlan_def Let_def
    by (auto split: sum.splits if_splits intro: inTx_failed elim: totalE [OF _ invalid])
qed

lemma goals_failed:
  assumes "consumeSeasonalGoals g user msg pending w = (Inl e, w')"
  shows "same_tables (w_db w) (w_db w')"
proof (cases "trim_space (messagePlainText msg) = []")
  case True
  have "bindM (seasonalGoalsPrompt g) f w = (Inl e, w') \<Longrightarrow> (\<And>x. total (f x)) \<Longrightarrow> same_tables (w_db w) (w_db w')" for f :: "view \<Rightarrow> unit io"
    by (drule bindM_total_failed, assumption) (use keepsD [OF unchanged_goals_prompt, of g w] in auto)
  with assms True show ?thesis
    unfolding consumeSeasonalGoals_def Let_def by (auto intro: total_rules)
next
  case False
  with assms show ?thesis unfolding consumeSeasonalGoals_def Let_def by (auto intro: inTx_failed)
qed

lemma reflection_failed:
  assumes "consumeGoalFinalReflection g user msg w = (Inl e, w')"
  shows "same_tables (w_db w) (w_db w')"
proof (cases "trim_space (messagePlainText msg) = []")
  case True
  with assms show ?thesis by (simp add: consumeGoalFinalReflection_def ret_def)
next
  case False
  have "reflection_tx g user msg w = (Inl e, w')"
    by (rule bindM_total_failed [OF assms [unfolded consumeGoalFinalReflection_def, simplified False if_False]])
      (auto split: prod.split intro: total_rules simp: Let_def)
  then show ?thesis unfolding reflection_tx_def by (rule inTx_failed)
qed


text \<open>A world whose database fails in the middle of the transaction that consumes a task text.\<close>

definition pending4 :: pending_input where
  "pending4 = \<lparr>pi_ID = 1, pi_WorkspaceGroupID = 1, pi_UserID = 7, pi_MessageThreadID = 3, pi_Kind = PendingDailyTaskText,
     pi_Payload = Map.empty, pi_CreatedAt = 0\<rparr>"

definition world4 :: world where
  "world4 = world2\<lparr>w_db := db2\<lparr>db_pendings := [pending4]\<rparr>, w_sql := (\<lambda>k. if k = 2 then Some ''down'' else None)\<rparr>"

lemma stmt_fails:
  "w_sql w (w_nsql w) = Some text \<Longrightarrow> w_tx w = InTx t \<Longrightarrow> fst (stmt f w) = Inl (DbError text)"
  by (simp add: stmt_def)

lemma bindM_fails: "fst (m w) = Inl e \<Longrightarrow> fst (bindM m f w) = Inl e"
  by (cases "m w") (simp add: bindM_def)

lemma inTx_fails:
  "w_sql w (w_nsql w) = None \<Longrightarrow> fst (m ((bump w)\<lparr>w_tx := InTx (w_now w)\<rparr>)) = Inl e \<Longrightarrow> fst (inTx m w) = Inl e"
  by (cases "m ((bump w)\<lparr>w_tx := InTx (w_now w)\<rparr>)") (simp add: inTx_def)


end
