(* ===== verification/Input_Cleanup.thy ===== *)
theory Input_Cleanup imports Talk begin

text \<open>
  The clean-up of inputs that were left open: the loop of \<open>CleanupStaleInputs\<close> ends, whatever
  Telegram answers to its deletions, and removes exactly the inputs it lists.
\<close>

section \<open>One batch\<close>

lemma cleanup_deletions: "talks (deletePendingMessages c pl s n)" "total (deletePendingMessages c pl s n)"
proof -
  have "talks (delete_unseen c s n seen ms) \<and> total (delete_unseen c s n seen ms)" for seen ms
    by (induction ms arbitrary: seen)
      (auto intro!: tlk.wkeeps_rules talks_telegram total_rules simp: DeleteBestEffort_def)
  then show "talks (deletePendingMessages c pl s n)" "total (deletePendingMessages c pl s n)"
    unfolding deletePendingMessages_def by blast+
qed

text \<open>What \<open>ClaimStalePendingInput\<close> deletes for a listed input.\<close>

definition stale_claimed :: "int \<Rightarrow> pending_input \<Rightarrow> pending_input \<Rightarrow> bool" where
  "stale_claimed cutoff p q \<longleftrightarrow> pi_ID q = pi_ID p \<and> pi_CreatedAt q \<le> cutoff \<and> pi_Kind q \<noteq> PendingGoalWeeklyReview"

definition drop_claimed :: "int \<Rightarrow> (pending_input \<times> workspace) list \<Rightarrow> pending_input list \<Rightarrow> pending_input list" where
  "drop_claimed cutoff items ps = filter (\<lambda>q. \<forall>(p, w) \<in> set items. \<not> stale_claimed cutoff p q) ps"

lemma drop_claimed_Cons:
  "drop_claimed c ((p, w) # items) ps = drop_claimed c items (filter (\<lambda>q. \<not> stale_claimed c p q) ps)"
  by (auto simp: drop_claimed_def intro!: filter_cong)

definition clean_one :: "gotime \<Rightarrow> gotime \<Rightarrow> pending_input \<times> workspace \<Rightarrow> unit io" where
  "clean_one cutoff now = (\<lambda>(p, g). bindM (ClaimStalePendingInput (pi_ID p) cutoff) (\<lambda>claimed. case claimed of
        None \<Rightarrow> ret ()
      | Some c \<Rightarrow> deletePendingMessages (ws_ChatID g) (pi_Payload c) (utc_time (pi_CreatedAt c)) now))"

lemma cleanup_round_eq:
  "cleanup_round cutoff now = bindM (ListStalePendingInputContexts cutoff staleBatchSize) (\<lambda>items.
     if items = [] then ret False else thenM (for_each items (clean_one cutoff now)) (ret (staleBatchSize \<le> length items)))"
  unfolding cleanup_round_def clean_one_def by (rule refl)

lemma cleanup_items:
  assumes "calm w"
  shows "\<exists>w'. for_each items (clean_one cutoff now) w = (Inr (), w')
    \<and> calm w' \<and> w_db w' = (w_db w)\<lparr>db_pendings := drop_claimed (gt_ns cutoff) items (db_pendings (w_db w))\<rparr>"
  using assms
proof (induction items arbitrary: w)
  case Nil
  then show ?case by (auto simp: ret_def drop_claimed_def)
next
  case (Cons x items)
  obtain p g where x: "x = (p, g)" by (cases x)
  define w1 where "w1 = (bump w)\<lparr>w_db := (w_db w)\<lparr>db_pendings :=
      filter (\<lambda>q. \<not> stale_claimed (gt_ns cutoff) p q) (db_pendings (w_db w))\<rparr>\<rparr>"
  have "\<exists>r. ClaimStalePendingInput (pi_ID p) cutoff w = (Inr r, w1)"
    by (simp add: ClaimStalePendingInput_def take_pending_def w1_def stale_claimed_def stmt_calm [OF Cons.prems])
  then obtain r where claim: "ClaimStalePendingInput (pi_ID p) cutoff w = (Inr r, w1)" by blast
  have w1: "calm w1" using Cons.prems by (simp add: w1_def)
  define m where "m = (case r of None \<Rightarrow> ret ()
      | Some c \<Rightarrow> deletePendingMessages (ws_ChatID g) (pi_Payload c) (utc_time (pi_CreatedAt c)) now)"
  have "talks m" "total m"
    by (auto simp: m_def cleanup_deletions tlk.wkeeps_simple split: option.split)
  then obtain u w2 where "m w1 = (Inr u, w2)" and m2: "talk w1 w2" by (rule talk_total_run)
  then have m: "m w1 = (Inr (), w2)" by simp
  have w2: "calm w2" using w1 talk_calm [OF m2] by simp
  have db2: "w_db w2 = w_db w1" using m2 by (simp add: talk_def)
  obtain w' where w': "for_each items (clean_one cutoff now) w2 = (Inr (), w')"
    "calm w'" "w_db w' = (w_db w2)\<lparr>db_pendings := drop_claimed (gt_ns cutoff) items (db_pendings (w_db w2))\<rparr>"
    using Cons.IH [OF w2] by blast
  have "clean_one cutoff now (p, g) w = (Inr (), w2)"
    using claim m(1) by (simp add: m_def clean_one_def)
  then have "for_each (x # items) (clean_one cutoff now) w = (Inr (), w')"
    using w'(1) by (simp add: x thenM_def)
  then show ?case
    using w'(2,3) db2 by (intro exI [of _ w']) (simp add: x drop_claimed_Cons w1_def)
qed

section \<open>The inputs that are listed\<close>

lemma schema_pendings:
  assumes "schema d"
  shows "distinct (map pi_ID (db_pendings d))"
    and "p \<in> set (db_pendings d) \<Longrightarrow> \<exists>w. first_where (\<lambda>w. ws_ID w = pi_WorkspaceGroupID p) (db_workspaces d) = Some w"
proof -
  show "distinct (map pi_ID (db_pendings d))"
    using assms unfolding schema_def schema_keys_def ids_ok_def by blast
  assume "p \<in> set (db_pendings d)"
  then have "ws_ref d (pi_WorkspaceGroupID p)" using assms unfolding schema_def schema_refs_def by blast
  then show "\<exists>w. first_where (\<lambda>w. ws_ID w = pi_WorkspaceGroupID p) (db_workspaces d) = Some w"
    using first_where_None [of "\<lambda>w. ws_ID w = pi_WorkspaceGroupID p" "db_workspaces d"] by (auto simp: ws_ref_def)
qed

lemma schema_drop_pendings: "schema d \<Longrightarrow> schema (d\<lparr>db_pendings := filter f (db_pendings d)\<rparr>)"
  using sound_pending_deletes(2) [of "\<lambda>p. \<not> f p"] soundD [of "delete_pending (\<lambda>p. \<not> f p)" "world0\<lparr>w_db := d\<rparr>"]
  by (auto simp: delete_pending_def exec_calm world0_def calm_def)

lemma stale_contexts_schema:
  assumes "schema d"
  shows "map fst (stale_contexts cutoff n d)
    = map scan_pending (take n (sort_key pi_CreatedAt (filter (stale_listed cutoff) (db_pendings d))))"
proof -
  let ?ps = "sort_key pi_CreatedAt (filter (stale_listed cutoff) (db_pendings d))"
  let ?ws = "\<lambda>p. case first_where (\<lambda>w. ws_ID w = pi_WorkspaceGroupID p) (db_workspaces d) of
      None \<Rightarrow> [] | Some w \<Rightarrow> [(scan_pending p, w)]"
  have "\<forall>p \<in> set ps. \<exists>w. ?ws p = [(scan_pending p, w)] \<Longrightarrow> map fst (take n (concat (map ?ws ps))) = map scan_pending (take n ps)" for ps n
  proof (induction ps arbitrary: n)
    case (Cons p ps)
    then show ?case by (cases n) auto
  qed simp
  moreover have "\<forall>p \<in> set ?ps. \<exists>w. ?ws p = [(scan_pending p, w)]"
    using schema_pendings(2) [OF assms] by (fastforce split: option.split)
  ultimately show ?thesis by (simp add: stale_contexts_def)
qed

lemma drop_listed:
  assumes "schema d" and "map fst items = map scan_pending ls" and "set ls \<subseteq> set (filter (stale_listed cutoff) (db_pendings d))"
  shows "drop_claimed cutoff items (db_pendings d) = filter (\<lambda>q. q \<notin> set ls) (db_pendings d)"
proof -
  have "(\<forall>(p, w) \<in> set items. \<not> stale_claimed cutoff p q) = (q \<notin> set ls)" if q: "q \<in> set (db_pendings d)" for q
  proof -
    have ids: "fst ` set items = scan_pending ` set ls" using assms(2) by (metis list.set_map)
    have "(\<forall>(p, w) \<in> set items. \<not> stale_claimed cutoff p q) = (\<forall>p \<in> fst ` set items. \<not> stale_claimed cutoff p q)" by auto
    also have "\<dots> = (\<forall>p \<in> set ls. \<not> stale_claimed cutoff p q)"
      unfolding ids by (auto simp: stale_claimed_def scan_pending_def)
    also have "\<dots> = (q \<notin> set ls)"
    proof
      assume "\<forall>p \<in> set ls. \<not> stale_claimed cutoff p q"
      then show "q \<notin> set ls" using assms(3) by (auto simp: stale_claimed_def stale_listed_def)
    next
      assume new: "q \<notin> set ls"
      show "\<forall>p \<in> set ls. \<not> stale_claimed cutoff p q"
      proof
        fix p assume "p \<in> set ls"
        then have "p \<noteq> q" "p \<in> set (db_pendings d)" using new assms(3) by auto
        then show "\<not> stale_claimed cutoff p q"
          using schema_pendings(1) [OF assms(1)] q by (auto simp: stale_claimed_def distinct_map dest: inj_onD)
      qed
    qed
    finally show ?thesis .
  qed
  then show ?thesis unfolding drop_claimed_def by (intro filter_cong) simp_all
qed

section \<open>The loop\<close>

lemma map_fst_nil: "map fst xs = map f ys \<Longrightarrow> (xs = []) = (ys = [])" "map fst xs = map f ys \<Longrightarrow> length xs = length ys"
  by (metis list.map_disc_iff) (metis length_map)

lemma stale_left:
  assumes "distinct (map pi_ID ps)" and "set ls \<subseteq> set (filter P ps)" and "distinct ls"
  shows "length (filter P (filter (\<lambda>q. q \<notin> set ls) ps)) + length ls = length (filter P ps)"
proof -
  have d: "distinct ps" using assms(1) by (simp add: distinct_map)
  have "set (filter P ps) = set (filter P (filter (\<lambda>q. q \<notin> set ls) ps)) \<union> set ls" using assms(2) by auto
  moreover have "set (filter P (filter (\<lambda>q. q \<notin> set ls) ps)) \<inter> set ls = {}" by auto
  ultimately have "card (set (filter P ps)) = card (set (filter P (filter (\<lambda>q. q \<notin> set ls) ps))) + card (set ls)"
    by (simp add: card_Un_disjoint)
  then show ?thesis using d assms(3) by (simp only: distinct_card distinct_filter)
qed

lemma cleanup_loop:
  assumes "calm w" and "schema (w_db w)"
    and "length (filter (stale_listed (gt_ns cutoff)) (db_pendings (w_db w))) < staleBatchSize * n"
  shows "\<exists>w'. loopM n (cleanup_round cutoff now) w = (Inr (), w')
    \<and> w_db w' = (w_db w)\<lparr>db_pendings := filter (\<lambda>p. \<not> stale_listed (gt_ns cutoff) p) (db_pendings (w_db w))\<rparr>"
  using assms
proof (induction n arbitrary: w)
  case (Suc n)
  define d c where "d = w_db w" and "c = gt_ns cutoff"
  define items where "items = stale_contexts c staleBatchSize d"
  define ls where "ls = take staleBatchSize (sort_key pi_CreatedAt (filter (stale_listed c) (db_pendings d)))"
  have items: "map fst items = map scan_pending ls"
    unfolding items_def ls_def using Suc.prems(2) by (intro stale_contexts_schema) (simp add: d_def)
  have ls: "set ls \<subseteq> set (filter (stale_listed c) (db_pendings d))"
    unfolding ls_def by (rule subset_trans [OF set_take_subset]) simp
  have dist: "distinct (map pi_ID (db_pendings d))" using schema_pendings(1) Suc.prems(2) by (simp add: d_def)
  have "distinct (db_pendings d)" using dist by (simp add: distinct_map)
  then have "distinct ls" unfolding ls_def by (intro distinct_take) simp
  note left = stale_left [OF dist ls this]
  have list: "ListStalePendingInputContexts cutoff staleBatchSize w = (Inr items, bump w)"
    by (simp add: ListStalePendingInputContexts_def query_calm [OF Suc.prems(1)] items_def c_def d_def)
  show ?case
  proof (cases "items = []")
    case True
    then have "ls = []" using map_fst_nil(1) [OF items] by simp
    then have "filter (stale_listed c) (db_pendings d) = []"
      by (simp add: ls_def staleBatchSize_def) (metis length_0_conv length_sort)
    then have "filter (\<lambda>p. \<not> stale_listed c p) (db_pendings d) = db_pendings d"
      by (simp add: filter_empty_conv filter_id_conv)
    moreover have "cleanup_round cutoff now w = (Inr False, bump w)"
      using True list by (simp add: cleanup_round_eq ret_def)
    ultimately show ?thesis by (simp add: bindM_def ret_def d_def c_def)
  next
    case False
    obtain w1 where w1: "for_each items (clean_one cutoff now) (bump w) = (Inr (), w1)"
      "calm w1" "w_db w1 = d\<lparr>db_pendings := drop_claimed c items (db_pendings d)\<rparr>"
      using cleanup_items [of "bump w" items cutoff now] Suc.prems(1) by (auto simp: d_def c_def)
    have drop: "drop_claimed c items (db_pendings d) = filter (\<lambda>q. q \<notin> set ls) (db_pendings d)"
      using drop_listed items ls Suc.prems(2) by (simp add: d_def)
    have round: "cleanup_round cutoff now w = (Inr (staleBatchSize \<le> length ls), w1)"
      using False map_fst_nil(2) [OF items] w1(1) list by (simp add: cleanup_round_eq thenM_def ret_def)
    have rest: "filter (\<lambda>p. \<not> stale_listed c p) (filter (\<lambda>q. q \<notin> set ls) (db_pendings d))
        = filter (\<lambda>p. \<not> stale_listed c p) (db_pendings d)"
      using ls by (auto intro!: filter_cong)
    show ?thesis
    proof (cases "staleBatchSize \<le> length ls")
      case True
      then have "length ls = staleBatchSize" by (simp add: ls_def)
      then have "length (filter (stale_listed c) (db_pendings (w_db w1))) < staleBatchSize * n"
        using left Suc.prems(3) w1(3) drop by (simp add: d_def c_def)
      moreover have "schema (w_db w1)"
        using schema_drop_pendings Suc.prems(2) w1(3) drop by (simp add: d_def)
      ultimately obtain w' where "loopM n (cleanup_round cutoff now) w1 = (Inr (), w')"
        "w_db w' = (w_db w1)\<lparr>db_pendings := filter (\<lambda>p. \<not> stale_listed c p) (db_pendings (w_db w1))\<rparr>"
        using Suc.IH [OF w1(2)] by (auto simp: c_def)
      with True round rest w1(3) drop show ?thesis by (simp add: d_def c_def)
    next
      case False
      then have "ls = sort_key pi_CreatedAt (filter (stale_listed c) (db_pendings d))"
        by (simp add: ls_def)
      then have "filter (\<lambda>q. q \<notin> set ls) (db_pendings d) = filter (\<lambda>p. \<not> stale_listed c p) (db_pendings d)"
        by (auto intro!: filter_cong)
      with False round w1(3) drop show ?thesis by (simp add: ret_def d_def c_def)
    qed
  qed
qed simp

text \<open>C36. Cleaning up stale inputs ends and removes exactly the stale ones: with one round per fifty of
  them and one more, whatever Telegram answers, the loop returns without an error, the inputs older
  than their maximal age are gone, those of the biweekly and final reviews and the younger ones are
  kept in place, and no other table changed.\<close>

theorem stale_inputs_are_cleaned_up:
  assumes "calm w" and "schema (w_db w)"
    and "length (filter (stale_listed (gt_ns now - PendingInputMaxAge)) (db_pendings (w_db w))) < staleBatchSize * n"
  shows "\<exists>w'. CleanupStaleInputs n now w = (Inr (), w')
    \<and> w_db w' = (w_db w)\<lparr>db_pendings :=
        filter (\<lambda>p. \<not> stale_listed (gt_ns now - PendingInputMaxAge) p) (db_pendings (w_db w))\<rparr>"
  using cleanup_loop [of w "utc_time (gt_ns now - PendingInputMaxAge)" n now] assms
  by (simp add: CleanupStaleInputs_def utc_time_def)

definition stale5 :: "int \<Rightarrow> pending_input_kind \<Rightarrow> pending_input" where
  "stale5 i k = \<lparr>pi_ID = i, pi_WorkspaceGroupID = 1, pi_UserID = i, pi_MessageThreadID = 3, pi_Kind = k,
     pi_Payload = [''prompt_message_id'' \<mapsto> JInt 40], pi_CreatedAt = 0\<rparr>"

theorem stale_inputs_are_cleaned_up_witness:
  "\<exists>w'. CleanupStaleInputs 1 (utc_time 1000000000000000000) (world2\<lparr>w_db := db2\<lparr>db_seq := (\<lambda>_. 2),
       db_pendings := [stale5 1 PendingRoutinePlan, stale5 2 PendingGoalWeeklyReview]\<rparr>\<rparr>) = (Inr (), w')
     \<and> db_pendings (w_db w') = [stale5 2 PendingGoalWeeklyReview]"
proof -
  define d where "d = db2\<lparr>db_seq := (\<lambda>_. 2), db_pendings := [stale5 1 PendingRoutinePlan, stale5 2 PendingGoalWeeklyReview]\<rparr>"
  have "schema d"
    by (simp add: d_def stale5_def example_defs schema_defs plans_defs ids_ok_def uniq_def)
  then show ?thesis
    using stale_inputs_are_cleaned_up [of "world2\<lparr>w_db := d\<rparr>" "utc_time 1000000000000000000" 1]
    unfolding d_def [symmetric]
    by (auto simp: d_def stale_listed_def stale5_def staleBatchSize_def PendingInputMaxAge_def utc_time_def
        ns_per_hour_def ns_per_day_def ns_per_sec_def)
qed

end
