(* ===== verification/Routine_Facts.thy ===== *)
theory Routine_Facts imports Store_Routines Examples "HOL-Library.Sublist" begin

text \<open>
  What the routine statistics mean.  The loop of \<open>routineStreaks\<close> is compared with the definition of a
  streak: a run of check-ins that are answered well, each at most one day after the one before.
\<close>

section \<open>Streaks\<close>

definition resolved :: "routine_checkin \<Rightarrow> bool" where "resolved c = fst (routineCheckinStreakState c)"

definition goes_on :: "routine_checkin \<Rightarrow> bool" where "goes_on c = snd (routineCheckinStreakState c)"

definition next_day :: "routine_checkin \<Rightarrow> routine_checkin \<Rightarrow> bool" where
  "next_day a b \<longleftrightarrow> rc_CheckinDate b \<le> rc_CheckinDate a + 1"

definition streak :: "routine_checkin list \<Rightarrow> bool" where
  "streak cs \<longleftrightarrow> list_all goes_on cs \<and> successively next_day cs"

definition ends_in :: "routine_checkin list \<Rightarrow> nat \<Rightarrow> bool" where
  "ends_in cs n \<longleftrightarrow> (\<exists>ys. suffix ys cs \<and> length ys = n \<and> streak ys)"

definition has_streak :: "routine_checkin list \<Rightarrow> nat \<Rightarrow> bool" where
  "has_streak cs n \<longleftrightarrow> (\<exists>ys. sublist ys cs \<and> length ys = n \<and> streak ys)"

lemma streak_snoc:
  "streak (ys @ [c]) \<longleftrightarrow> goes_on c \<and> streak ys \<and> (ys = [] \<or> next_day (last ys) c)"
  by (auto simp: streak_def successively_append_iff)

lemma ends_in_0 [simp]: "ends_in cs 0"
  by (auto simp: ends_in_def streak_def)

lemma ends_in_Nil [simp]: "ends_in [] n \<longleftrightarrow> n = 0"
  by (auto simp: ends_in_def streak_def)

lemma suffix_last: "suffix ys cs \<Longrightarrow> ys \<noteq> [] \<Longrightarrow> last ys = last cs"
  by (auto simp: suffix_def)

lemma ends_in_snoc:
  "ends_in (cs @ [c]) (Suc n) \<longleftrightarrow> goes_on c \<and> (n = 0 \<or> cs \<noteq> [] \<and> next_day (last cs) c \<and> ends_in cs n)"
proof
  assume "ends_in (cs @ [c]) (Suc n)"
  then obtain ys where ys: "suffix ys (cs @ [c])" "length ys = Suc n" "streak ys"
    by (auto simp: ends_in_def)
  then obtain zs where zs: "ys = zs @ [c]" "suffix zs cs"
    by (auto simp: suffix_snoc)
  with ys have "goes_on c" "streak zs" "length zs = n" "zs = [] \<or> next_day (last zs) c"
    by (auto simp: streak_snoc)
  with zs suffix_last [of zs cs]
  show "goes_on c \<and> (n = 0 \<or> cs \<noteq> [] \<and> next_day (last cs) c \<and> ends_in cs n)"
    by (auto simp: ends_in_def)
next
  assume a: "goes_on c \<and> (n = 0 \<or> cs \<noteq> [] \<and> next_day (last cs) c \<and> ends_in cs n)"
  show "ends_in (cs @ [c]) (Suc n)"
  proof (cases "n = 0")
    case True
    with a show ?thesis unfolding ends_in_def
      by (intro exI [of _ "[c]"]) (simp add: streak_def suffix_def)
  next
    case False
    with a obtain zs where "suffix zs cs" "length zs = n" "streak zs" by (auto simp: ends_in_def)
    with a False suffix_last [of zs cs] show ?thesis unfolding ends_in_def
      by (intro exI [of _ "zs @ [c]"]) (auto simp: streak_snoc suffix_def)
  qed
qed

lemma has_streak_snoc: "has_streak (cs @ [c]) n \<longleftrightarrow> has_streak cs n \<or> ends_in (cs @ [c]) n"
  by (auto simp: has_streak_def ends_in_def sublist_snoc)

lemma has_streak_Nil [simp]: "has_streak [] n \<longleftrightarrow> n = 0"
  by (auto simp: has_streak_def streak_def)

text \<open>The test of the loop on two dates.\<close>

lemma date_gap: "24 * ns_per_hour < t_sub (date_time b) (date_time a) \<longleftrightarrow> a + 1 < b"
  by (simp add: t_sub_def date_time_def gt_ns_utc_date ns_per_hour_def ns_per_sec_def) (auto simp: max_def min_def)

lemma zero_day: "t_day zero_time = - 719162"
  by (simp add: t_day_def local_sec_def zero_time_def zero_ns_def ns_per_sec_def utc_def fixed_zone_def)

lemma date_is_zero: "t_is_zero (date_time d) \<longleftrightarrow> d = t_day zero_time"
  by (simp add: zero_day t_is_zero_def date_time_def gt_ns_utc_date zero_ns_def ns_per_sec_def)

section \<open>The loop\<close>

definition loop_inv :: "routine_checkin list \<Rightarrow> int \<Rightarrow> int \<Rightarrow> gotime \<Rightarrow> bool" where
  "loop_inv cs run best prev \<longleftrightarrow> prev = (if cs = [] then zero_time else date_time (rc_CheckinDate (last cs)))
     \<and> (\<forall>n. ends_in cs n \<longleftrightarrow> int n \<le> run) \<and> (\<forall>n. has_streak cs n \<longleftrightarrow> int n \<le> best)"

lemma loop_inv_start: "loop_inv [] 0 0 zero_time"
  by (simp add: loop_inv_def)

lemma loop_inv_step:
  assumes inv: "loop_inv cs run best prev"
    and zero: "\<forall>c \<in> set cs. rc_CheckinDate c \<noteq> t_day zero_time"
    and run': "run' = (if goes_on c then (if cs \<noteq> [] \<and> \<not> next_day (last cs) c then 0 else run) + 1 else 0)"
  shows "loop_inv (cs @ [c]) run' (if best < run' then run' else best) (date_time (rc_CheckinDate c))"
proof -
  have 0: "0 \<le> run" using inv ends_in_0 [of cs] by (auto simp: loop_inv_def dest: spec [of _ 0])
  have run0: "cs = [] \<Longrightarrow> run = 0"
    using inv 0 unfolding loop_inv_def by (metis ends_in_Nil int_nat_eq nat_eq_iff order_refl of_nat_0)
  have e: "ends_in (cs @ [c]) n \<longleftrightarrow> int n \<le> run'" for n
  proof (cases n)
    case 0
    with \<open>0 \<le> run\<close> run' show ?thesis by simp
  next
    case (Suc m)
    with inv 0 run0 run' show ?thesis by (auto simp: ends_in_snoc loop_inv_def)
  qed
  with inv show ?thesis by (auto simp: loop_inv_def has_streak_snoc)
qed

lemma streak_loop_Cons:
  "streak_loop (c # cs) run best prev = (if \<not> resolved c then streak_loop cs run best prev
     else (let day = date_time (rc_CheckinDate c);
               run = (if \<not> t_is_zero prev \<and> 24 * ns_per_hour < t_sub day prev then 0 else run);
               run = (if goes_on c then run + 1 else 0)
           in streak_loop cs run (if best < run then run else best) day))"
  by (simp add: resolved_def goes_on_def case_prod_beta)

lemma streak_loop_inv:
  assumes "loop_inv ps run best prev"
    and "\<forall>c \<in> set (ps @ cs). rc_CheckinDate c \<noteq> t_day zero_time"
    and "streak_loop cs run best prev = (current, longest)"
  shows "\<exists>last. loop_inv (ps @ filter resolved cs) current longest last"
  using assms
proof (induction cs arbitrary: ps run best prev)
  case Nil
  then show ?case by auto
next
  case (Cons c cs)
  show ?case
  proof (cases "resolved c")
    case False
    with Cons.prems have "streak_loop cs run best prev = (current, longest)"
      by (simp add: streak_loop_Cons del: streak_loop.simps)
    with Cons.IH [of ps run best prev] Cons.prems False show ?thesis by simp
  next
    case True
    define run' where "run' = (if goes_on c then (if ps \<noteq> [] \<and> \<not> next_day (last ps) c then 0 else run) + 1 else 0)"
    have prev: "(\<not> t_is_zero prev \<and> 24 * ns_per_hour < t_sub (date_time (rc_CheckinDate c)) prev)
        \<longleftrightarrow> ps \<noteq> [] \<and> \<not> next_day (last ps) c"
    proof (cases "ps = []")
      case True
      with Cons.prems(1) show ?thesis by (simp add: loop_inv_def t_is_zero_def zero_time_def)
    next
      case False
      with Cons.prems(2) have "rc_CheckinDate (last ps) \<noteq> t_day zero_time" by simp
      with False Cons.prems(1) show ?thesis by (auto simp: loop_inv_def date_gap date_is_zero next_day_def)
    qed
    have "loop_inv (ps @ [c]) run' (if best < run' then run' else best) (date_time (rc_CheckinDate c))"
      using Cons.prems(1,2) by (intro loop_inv_step [OF _ _ run'_def]) auto
    moreover have "streak_loop cs run' (if best < run' then run' else best) (date_time (rc_CheckinDate c)) = (current, longest)"
      using Cons.prems(3) True unfolding run'_def streak_loop_Cons Let_def prev by simp
    ultimately show ?thesis
      using Cons.IH [of "ps @ [c]"] Cons.prems(2) True by auto
  qed
qed

text \<open>C38. The statistics are what the leaderboard says: over the check-ins in order of their dates that are
  resolved, the current streak is the length of the longest run of good, consecutive check-ins that
  reaches up to the last one, and the best streak the length of the longest such run anywhere.\<close>

theorem routine_streaks_are_longest_runs:
  assumes "routineStreaks cs = (current, best)"
    and "\<forall>c \<in> set cs. rc_CheckinDate c \<noteq> t_day zero_time"
  shows "(\<forall>n. ends_in (filter resolved (sort_key rc_CheckinDate cs)) n \<longleftrightarrow> int n \<le> current)
    \<and> (\<forall>n. has_streak (filter resolved (sort_key rc_CheckinDate cs)) n \<longleftrightarrow> int n \<le> best)"
  using streak_loop_inv [OF loop_inv_start, of "sort_key rc_CheckinDate cs" current best] assms
  by (auto simp: routineStreaks_def loop_inv_def)

definition day_done :: "int \<Rightarrow> routine_item_status \<Rightarrow> routine_checkin" where
  "day_done d s = checkin0\<lparr>rc_CheckinDate := d,
     rc_Items := [\<lparr>ri_ID = 1, ri_RoutineCheckinID = 1, ri_ItemIndex = 0, ri_Text = ''run'', ri_Status = Some s, 
       ri_ReasonText = None, ri_CreatedAt = 0, ri_UpdatedAt = 0\<rparr>]\<rparr>"

theorem routine_streaks_are_longest_runs_witness:
  "has_streak (filter resolved (sort_key rc_CheckinDate [day_done 12 RoutineItemDone, day_done 10 RoutineItemDone,
      day_done 11 RoutineItemDone, day_done 13 RoutineItemFailed, day_done 14 RoutineItemDone])) 3"
proof -
  have "routineStreaks [day_done 12 RoutineItemDone, day_done 10 RoutineItemDone,
      day_done 11 RoutineItemDone, day_done 13 RoutineItemFailed, day_done 14 RoutineItemDone] = (1, 3)"
    by code_simp
  from routine_streaks_are_longest_runs [OF this] show ?thesis by (simp add: day_done_def zero_day)
qed

end
