(* ===== verification/Routine_Checkins.thy ===== *)
theory Routine_Checkins imports Store_Routines Examples begin

text \<open>
  Creating a check-in: the day of a routine plan gets one check-in, and it is a copy of the plan.
\<close>

definition items_for :: "int \<Rightarrow> (int \<times> bytes) list \<Rightarrow> routine_checkin_item list \<Rightarrow> bool" where
  "items_for cid its rs \<longleftrightarrow> map (\<lambda>r. (ri_ItemIndex r, ri_Text r)) rs = its
     \<and> (\<forall>r \<in> set rs. ri_RoutineCheckinID r = cid \<and> ri_Status r = None \<and> ri_ReasonText r = None)"

lemma items_for_Nil [simp]: "items_for cid [] rs \<longleftrightarrow> rs = []"
  by (auto simp: items_for_def)

lemma items_for_columns: "items_for cid its rs \<Longrightarrow> map ri_ItemIndex rs = map fst its \<and> map ri_Text rs = map snd its"
  by (auto simp: items_for_def)

lemma items_for_Cons:
  "ri_ItemIndex r = index \<Longrightarrow> ri_Text r = text \<Longrightarrow> ri_RoutineCheckinID r = cid \<Longrightarrow> ri_Status r = None \<Longrightarrow>
   ri_ReasonText r = None \<Longrightarrow> items_for cid its rs \<Longrightarrow> items_for cid ((index, text) # its) (r # rs)"
  by (simp add: items_for_def)

lemma same_checkins: "db_checkins d = cs \<Longrightarrow> d\<lparr>db_seq := db_seq d, db_checkins := cs\<rparr> = d"
  by (cases d) simp

lemma insert_items_loop:
  assumes "calm w" and "db_checkins (w_db w) = cs @ [c]" and "\<forall>q \<in> set cs. rc_ID q \<noteq> rc_ID c"
    and "distinct (map ri_ItemIndex (rc_Items c) @ map fst its)"
  shows "\<exists>w' rs. for_each its (\<lambda>(index, text). stmt (sql_insert_item (rc_ID c) index text)) w = (Inr (), w')
     \<and> calm w' \<and> db_checkins (w_db w') = cs @ [c\<lparr>rc_Items := rc_Items c @ rs\<rparr>] \<and> items_for (rc_ID c) its rs
     \<and> (\<exists>seq. w_db w' = (w_db w)\<lparr>db_seq := seq, db_checkins := cs @ [c\<lparr>rc_Items := rc_Items c @ rs\<rparr>]\<rparr>)"
  using assms
proof (induction its arbitrary: c w)
  case Nil
  then show ?case
    by (auto simp: run same_checkins intro!: exI [of _ "db_seq (w_db w)"])
next
  case (Cons it its)
  obtain index s where it: "it = (index, s)" by fastforce
  define r where "r = new_item (next_id TItems (w_db w)) (rc_ID c) index s (sql_now w)"
  define c1 where "c1 = c\<lparr>rc_Items := rc_Items c @ [r]\<rparr>"
  define w1 where "w1 = (bump w)\<lparr>w_db := (take_id TItems (w_db w))\<lparr>db_checkins := cs @ [c1]\<rparr>\<rparr>"
  have new: "\<not> list_ex (\<lambda>i. ri_ItemIndex i = ri_ItemIndex r) (rc_Items c)"
    using Cons.prems(4) it by (auto simp: list_ex_iff r_def new_item_def)
  have step: "stmt (sql_insert_item (rc_ID c) index s) w = (Inr (), w1)"
    using Cons.prems(1-3) new
    by (simp add: stmt_calm sql_insert_item_def w1_def c1_def upd_where_none insert_item_def flip: r_def)
  have "\<exists>w' rs. for_each its (\<lambda>(index, text). stmt (sql_insert_item (rc_ID c1) index text)) w1 = (Inr (), w')
     \<and> calm w' \<and> db_checkins (w_db w') = cs @ [c1\<lparr>rc_Items := rc_Items c1 @ rs\<rparr>] \<and> items_for (rc_ID c1) its rs
     \<and> (\<exists>seq. w_db w' = (w_db w1)\<lparr>db_seq := seq, db_checkins := cs @ [c1\<lparr>rc_Items := rc_Items c1 @ rs\<rparr>]\<rparr>)"
  proof (rule Cons.IH)
    show "calm w1" using Cons.prems(1) by (simp add: w1_def)
    show "db_checkins (w_db w1) = cs @ [c1]" by (simp add: w1_def)
    show "\<forall>q \<in> set cs. rc_ID q \<noteq> rc_ID c1" using Cons.prems(3) by (simp add: c1_def)
    show "distinct (map ri_ItemIndex (rc_Items c1) @ map fst its)"
      using Cons.prems(4) it by (auto simp: c1_def r_def new_item_def)
  qed
  then obtain w' rs where w': "for_each its (\<lambda>(index, text). stmt (sql_insert_item (rc_ID c) index text)) w1 = (Inr (), w')"
      "calm w'" "db_checkins (w_db w') = cs @ [c\<lparr>rc_Items := rc_Items c @ r # rs\<rparr>]" "items_for (rc_ID c) its rs"
      "\<exists>seq. w_db w' = (w_db w1)\<lparr>db_seq := seq, db_checkins := cs @ [c\<lparr>rc_Items := rc_Items c @ r # rs\<rparr>]\<rparr>"
    by (auto simp: c1_def)
  have "items_for (rc_ID c) (it # its) (r # rs)"
    unfolding it by (rule items_for_Cons) (simp_all add: r_def new_item_def w'(4))
  moreover have "\<exists>seq. w_db w' = (w_db w)\<lparr>db_seq := seq, db_checkins := cs @ [c\<lparr>rc_Items := rc_Items c @ r # rs\<rparr>]\<rparr>"
    using w'(5) by (auto simp: w1_def take_id_def)
  moreover have "for_each (it # its) (\<lambda>(index, text). stmt (sql_insert_item (rc_ID c) index text)) w = (Inr (), w')"
    using step w'(1) by (simp add: it thenM_def bindM_def)
  ultimately show ?case using w'(2,3) by blast
qed

text \<open>What \<open>GetRoutineCheckin\<close> reads back.\<close>

definition sorted_items :: "routine_checkin \<Rightarrow> routine_checkin" where
  "sorted_items c = c\<lparr>rc_Items := sort_key ri_ItemIndex (rc_Items c)\<rparr>"

lemma first_by_id:
  "distinct (map rc_ID cs) \<Longrightarrow> c \<in> set cs \<Longrightarrow> first_where (\<lambda>q. rc_ID q = rc_ID c) cs = Some c"
  by (induction cs) auto

lemma with_items_calm:
  assumes "calm w" and "distinct (map rc_ID (db_checkins (w_db w)))" and "c \<in> set (db_checkins (w_db w))"
  shows "\<exists>w'. with_items (Some (scan_checkin c)) w = (Inr (Some (sorted_items c)), w') \<and> w_db w' = w_db w \<and> calm w'"
  using assms first_by_id [OF assms(2,3)]
  by (simp add: with_items_def ListRoutineCheckinItems_def run scan_checkin_def sorted_items_def)

lemma GetRoutineCheckin_calm:
  assumes "calm w" and "distinct (map rc_ID (db_checkins (w_db w)))" and "c \<in> set (db_checkins (w_db w))"
  shows "\<exists>w'. GetRoutineCheckin (rc_ID c) w = (Inr (Some (sorted_items c)), w') \<and> w_db w' = w_db w \<and> calm w'"
  using with_items_calm [of "bump w" c] assms first_by_id [OF assms(2,3)]
  by (simp add: GetRoutineCheckin_def run)

lemma sorted_items_for:
  assumes "items_for cid its rs" and "sorted (map fst its)"
  shows "sort_key ri_ItemIndex rs = rs"
  using items_for_columns [OF assms(1)] assms(2) by (simp add: sort_key_id_if_sorted)

text \<open>The check-in a plan gives for a day.\<close>

definition plan_items :: "routine_plan \<Rightarrow> (int \<times> bytes) list" where
  "plan_items plan = zip [0..int (length (rp_Items plan)) - 1] (rp_Items plan)"

lemma plan_items_index: "map fst (plan_items plan) = [0..int (length (rp_Items plan)) - 1]"
  by (simp add: plan_items_def)

lemma create_checkin_run:
  assumes "calm w" and "schema (w_db w)"
    and "ws_by_id (w_db w) (rp_WorkspaceGroupID plan) \<noteq> None" and "pt_by_id (w_db w) (rp_ParticipantID plan) \<noteq> None"
    and "\<not> list_ex (checkin_on (rp_WorkspaceGroupID plan) (rp_ParticipantID plan) (t_day date)) (db_checkins (w_db w))"
  shows "\<exists>w' rs c. c = (new_checkin (next_id TCheckins (w_db w)) plan (t_day date) (sql_now w))\<lparr>rc_Items := rs\<rparr>
     \<and> GetOrCreateRoutineCheckin plan date w = (Inr c, w') \<and> calm w' \<and> items_for (rc_ID c) (plan_items plan) rs
     \<and> (\<exists>seq. w_db w' = (w_db w)\<lparr>db_seq := seq, db_checkins := db_checkins (w_db w) @ [c]\<rparr>)"
proof -
  define d where "d = w_db w"
  define c0 where "c0 = new_checkin (next_id TCheckins d) plan (t_day date) (sql_now w)"
  define w1 where "w1 = (bump w)\<lparr>w_db := (take_id TCheckins d)\<lparr>db_checkins := db_checkins d @ [c0]\<rparr>\<rparr>"
  have ids: "ids_ok rc_ID (db_seq d TCheckins) (db_checkins d)"
    using assms(2) unfolding d_def schema_def plans_defs by blast
  have fresh: "\<forall>q \<in> set (db_checkins d). rc_ID q \<noteq> rc_ID c0"
    using ids by (auto simp: ids_ok_def c0_def new_checkin_def next_id_def)
  have ins: "stmt (sql_insert_checkin plan (t_day date)) w = (Inr (Some c0), w1)"
    using assms by (simp add: stmt_calm sql_insert_checkin_def Let_def w1_def c0_def flip: d_def)
  have "\<exists>w' rs. for_each (plan_items plan) (\<lambda>(index, text). stmt (sql_insert_item (rc_ID c0) index text)) w1 = (Inr (), w')
     \<and> calm w' \<and> db_checkins (w_db w') = db_checkins d @ [c0\<lparr>rc_Items := rc_Items c0 @ rs\<rparr>]
     \<and> items_for (rc_ID c0) (plan_items plan) rs
     \<and> (\<exists>seq. w_db w' = (w_db w1)\<lparr>db_seq := seq, db_checkins := db_checkins d @ [c0\<lparr>rc_Items := rc_Items c0 @ rs\<rparr>]\<rparr>)"
  proof (rule insert_items_loop)
    show "distinct (map ri_ItemIndex (rc_Items c0) @ map fst (plan_items plan))"
      by (simp add: c0_def new_checkin_def plan_items_index)
  qed (use assms(1) fresh in \<open>simp_all add: w1_def\<close>)
  then obtain w2 rs where w2: "for_each (plan_items plan) (\<lambda>(index, text). stmt (sql_insert_item (rc_ID c0) index text)) w1 = (Inr (), w2)"
      "calm w2" "db_checkins (w_db w2) = db_checkins d @ [c0\<lparr>rc_Items := rs\<rparr>]" "items_for (rc_ID c0) (plan_items plan) rs"
      "\<exists>seq. w_db w2 = (w_db w1)\<lparr>db_seq := seq, db_checkins := db_checkins d @ [c0\<lparr>rc_Items := rs\<rparr>]\<rparr>"
    by (auto simp: c0_def new_checkin_def)
  define c where "c = c0\<lparr>rc_Items := rs\<rparr>"
  have "sorted_items c = c"
    using sorted_items_for [OF w2(4)] by (simp add: c_def sorted_items_def plan_items_index)
  moreover have "distinct (map rc_ID (db_checkins (w_db w2)))"
    using ids fresh by (auto simp: w2(3) ids_ok_def)
  ultimately obtain w' where w': "GetRoutineCheckin (rc_ID c) w2 = (Inr (Some c), w')" "w_db w' = w_db w2" "calm w'"
    using GetRoutineCheckin_calm [of w2 c] w2(2,3) by (auto simp: c_def)
  have "GetOrCreateRoutineCheckin plan date w = (Inr c, w')"
    using ins w2(1) w'(1) unfolding plan_items_def
    by (simp add: GetOrCreateRoutineCheckin_def bindM_def thenM_def ret_def c_def)
  moreover have "\<exists>seq. w_db w' = d\<lparr>db_seq := seq, db_checkins := db_checkins d @ [c]\<rparr>"
    using w2(5) w'(2) by (auto simp: w1_def take_id_def c_def)
  ultimately show ?thesis using w'(3) w2(4) unfolding c_def c0_def d_def by auto
qed

lemma existing_checkin_run:
  assumes "calm w" and "schema (w_db w)" and "c \<in> set (db_checkins (w_db w))"
    and "checkin_on (rp_WorkspaceGroupID plan) (rp_ParticipantID plan) (t_day date) c"
  shows "\<exists>w'. GetOrCreateRoutineCheckin plan date w = (Inr (sorted_items c), w')
    \<and> (\<exists>seq. w_db w' = (w_db w)\<lparr>db_seq := seq\<rparr>)"
proof -
  let ?on = "checkin_on (rp_WorkspaceGroupID plan) (rp_ParticipantID plan) (t_day date)"
  define w1 where "w1 = (bump w)\<lparr>w_db := take_id TCheckins (w_db w)\<rparr>"
  have rows: "db_checkins (w_db w1) = db_checkins (w_db w)" by (simp add: w1_def take_id_def)
  have calm: "calm w1" using assms(1) by (simp add: w1_def)
  have ids: "distinct (map rc_ID (db_checkins (w_db w)))"
    and one: "uniq (\<lambda>c. (rc_WorkspaceGroupID c, rc_ParticipantID c, rc_CheckinDate c)) (db_checkins (w_db w))"
    using assms(2) unfolding schema_def plans_defs ids_ok_def by blast+
  have ex: "list_ex ?on (db_checkins (w_db w))" using assms(3,4) by (auto simp: list_ex_iff)
  have first: "first_where ?on (db_checkins (w_db w)) = Some c"
  proof -
    have "first_where ?on (db_checkins (w_db w)) \<noteq> None"
      using assms(3,4) by (auto simp: first_where_None)
    then obtain q where "first_where ?on (db_checkins (w_db w)) = Some q" by blast
    moreover from this have "q \<in> set (db_checkins (w_db w))" "?on q" using first_where_Some by fastforce+
    moreover have "q = c"
      by (rule inj_onD [OF one [unfolded uniq_def distinct_map, THEN conjunct2]])
        (use assms(3,4) calculation(2,3) in \<open>simp_all add: checkin_on_def\<close>)
    ultimately show ?thesis by simp
  qed
  have "stmt (sql_insert_checkin plan (t_day date)) w = (Inr None, w1)"
    using assms(1) ex by (simp add: stmt_calm sql_insert_checkin_def w1_def Let_def)
  moreover have "\<exists>w'. GetRoutineCheckinForDate (rp_WorkspaceGroupID plan) (rp_ParticipantID plan) date w1
      = (Inr (Some (sorted_items c)), w') \<and> w_db w' = w_db w1"
    using with_items_calm [of "bump w1" c] ids calm assms(3) first
    by (auto simp: GetRoutineCheckinForDate_def run rows)
  ultimately show ?thesis
    by (auto simp: GetOrCreateRoutineCheckin_def bindM_def ret_def w1_def take_id_def)
qed

text \<open>C39. A routine day has one check-in, a copy of the plan: where there is none yet, the call creates one
  with the items of the plan in their order, all unanswered, and adds nothing else; where there is
  one, the call returns it with its items in order and changes no table, whatever the plan says now.\<close>

theorem routine_day_has_one_checkin:
  assumes "calm w" and "schema (w_db w)"
    and "ws_by_id (w_db w) (rp_WorkspaceGroupID plan) \<noteq> None" and "pt_by_id (w_db w) (rp_ParticipantID plan) \<noteq> None"
  shows "(\<exists>w' c seq. GetOrCreateRoutineCheckin plan date w = (Inr c, w')
     \<and> w_db w' = (w_db w)\<lparr>db_seq := seq, db_checkins := db_checkins (w_db w) @ [c]\<rparr>
     \<and> (\<forall>q \<in> set (db_checkins (w_db w)).
          \<not> checkin_on (rp_WorkspaceGroupID plan) (rp_ParticipantID plan) (t_day date) q)
     \<and> checkin_on (rp_WorkspaceGroupID plan) (rp_ParticipantID plan) (t_day date) c
     \<and> map ri_Text (rc_Items c) = rp_Items plan \<and> map ri_ItemIndex (rc_Items c) = [0..int (length (rp_Items plan)) - 1]
     \<and> (\<forall>r \<in> set (rc_Items c). ri_Status r = None) \<and> rc_CompletedAt c = None)
   \<or> (\<exists>w' c seq. GetOrCreateRoutineCheckin plan date w = (Inr (sorted_items c), w')
     \<and> w_db w' = (w_db w)\<lparr>db_seq := seq\<rparr> \<and> c \<in> set (db_checkins (w_db w))
     \<and> checkin_on (rp_WorkspaceGroupID plan) (rp_ParticipantID plan) (t_day date) c)"
proof (cases "list_ex (checkin_on (rp_WorkspaceGroupID plan) (rp_ParticipantID plan) (t_day date)) (db_checkins (w_db w))")
  case True
  then obtain c where "c \<in> set (db_checkins (w_db w))"
      "checkin_on (rp_WorkspaceGroupID plan) (rp_ParticipantID plan) (t_day date) c"
    by (auto simp: list_ex_iff)
  with existing_checkin_run [OF assms(1,2) this] show ?thesis by blast
next
  case False
  from create_checkin_run [OF assms False] obtain w' rs c seq where
    c: "c = (new_checkin (next_id TCheckins (w_db w)) plan (t_day date) (sql_now w))\<lparr>rc_Items := rs\<rparr>"
    and run: "GetOrCreateRoutineCheckin plan date w = (Inr c, w')" "w_db w' = (w_db w)\<lparr>db_seq := seq, db_checkins := db_checkins (w_db w) @ [c]\<rparr>"
    and its: "items_for (rc_ID c) (plan_items plan) rs"
    by blast
  from items_for_columns [OF its] its False c run show ?thesis
    by (intro disjI1 exI [of _ w'] exI [of _ c] exI [of _ seq])
      (auto simp: list_ex_iff new_checkin_def checkin_on_def plan_items_def items_for_def)
qed

definition plan1 :: routine_plan where
  "plan1 = \<lparr>rp_ID = 1, rp_WorkspaceGroupID = 1, rp_ParticipantID = 1, rp_OwnerUserID = 7,
     rp_Items = [''run'', ''read''], rp_SourceMessageID = None, rp_SourceMessageThreadID = None,
     rp_CreatedAt = 0, rp_UpdatedAt = 0\<rparr>"

theorem routine_day_has_one_checkin_witness:
  "\<exists>w' c. GetOrCreateRoutineCheckin plan1 (utc_time 0) world2 = (Inr c, w') \<and> map ri_Text (rc_Items c) = [''run'', ''read'']"
  using routine_day_has_one_checkin [of world2 plan1 "utc_time 0"] schema_db2
  by (auto simp: plan1_def example_defs ws_by_id_def pt_by_id_def)

end
