(* ===== verification/Task_Reports.thy ===== *)
theory Task_Reports imports Store_Today Examples begin

text \<open>
  Reporting a daily entry: when \<open>SubmitTaskReport\<close> accepts a report and what it writes.
\<close>

text \<open>The entry after the report: a failed task keeps its status and only gains the report.\<close>

definition reported :: "daily_task_status \<Rightarrow> bytes \<Rightarrow> int \<Rightarrow> int \<Rightarrow> int \<Rightarrow> daily_task \<Rightarrow> daily_task" where
  "reported status html messageID threadID now t = (put_report status html messageID threadID now t)\<lparr>tk_Status :=
     (if is_open (tk_Status t) then status else tk_Status t)\<rparr>"

definition report_accepted :: "int \<Rightarrow> int \<Rightarrow> daily_task_status \<Rightarrow> db \<Rightarrow> bool" where
  "report_accepted taskID owner status d \<longleftrightarrow> is_final_report status \<and>
     (\<exists>t \<in> set (db_tasks d). tk_ID t = taskID \<and> tk_OwnerUserID t = owner \<and> AcceptsReport t)"

definition announces :: "daily_task \<Rightarrow> daily_task_status \<Rightarrow> bytes \<Rightarrow> progress_event \<Rightarrow> bool" where
  "announces t status html e \<longleftrightarrow> pe_DailyTaskID e = Some (tk_ID t) \<and> pe_ParticipantID e = Some (tk_ParticipantID t)
     \<and> pe_WorkspaceGroupID e = tk_WorkspaceGroupID t \<and> pe_PublishStatus e = ProgressPublishPending
     \<and> pe_EventType e = (if is_summary (tk_Kind t) then ProgressDailySummaryClosed else ProgressDailyTaskClosed)
     \<and> pe_Payload e ''status'' = Some (JStr (task_status_str status))
     \<and> pe_Payload e ''report_html'' = Some (JStr html)"

lemma upd_where_one:
  assumes "distinct (map k rs)" and "r \<in> set rs" and "p r" and "\<And>q. p q \<Longrightarrow> k q = k r" and "f r = g r"
  shows "upd_where p f rs = upd_where (\<lambda>q. k q = k r) g rs" and "n_where p rs = 1"
proof -
  have "p q \<longleftrightarrow> q = r" if "q \<in> set rs" for q
    using assms(1-4) that by (metis distinct_map inj_onD)
  moreover have "k q = k r \<longleftrightarrow> q = r" if "q \<in> set rs" for q
    using assms(1,2) that by (metis distinct_map inj_onD)
  ultimately show "upd_where p f rs = upd_where (\<lambda>q. k q = k r) g rs"
    using assms(5) by (auto simp: upd_where_def)
  have "n_where p rs \<le> 1" using assms(1,4) by (rule n_where_key_le)
  moreover have "n_where p rs \<noteq> 0" using assms(2,3) by (auto simp: n_where_0)
  ultimately show "n_where p rs = 1" by simp
qed

lemma sql_report_run:
  assumes "distinct (map tk_ID (db_tasks d))" and "t \<in> set (db_tasks d)" and "p t"
    and "\<And>q. p q \<Longrightarrow> tk_ID q = tk_ID t" and "f now t = g t"
    and "\<forall>q \<in> set (db_tasks d). tk_ReportMessageID q = Some messageID \<longrightarrow> tk_ID q = tk_ID t"
  shows "sql_report p f messageID now d = Some (1, d\<lparr>db_tasks := upd_where (\<lambda>q. tk_ID q = tk_ID t) g (db_tasks d)\<rparr>)"
proof -
  have "q = t" if "q \<in> set (db_tasks d)" "tk_ID q = tk_ID t" for q
    using assms(1,2) that by (metis distinct_map inj_onD)
  with assms(3,6) have "p q" if "q \<in> set (db_tasks d)" "tk_ReportMessageID q = Some messageID" for q
    using that by blast
  then have "\<not> list_ex (\<lambda>t. p t \<and> list_ex (\<lambda>q. \<not> p q \<and> tk_WorkspaceGroupID q = tk_WorkspaceGroupID t
      \<and> tk_ReportMessageID q = Some messageID) (db_tasks d)) (db_tasks d)"
    unfolding list_ex_iff by blast
  with upd_where_one [of tk_ID "db_tasks d" t p "f now" g, OF assms(1-5)] show ?thesis
    by (simp add: sql_report_def upd_tasks_def)
qed

lemma tasks_only: "\<exists>seq. d\<lparr>db_tasks := ts\<rparr> = d\<lparr>db_seq := seq, db_tasks := ts\<rparr>"
  by (rule exI [of _ "db_seq d"]) simp

lemma closed_payload_fields:
  "closed_payload t owner status html name m p w th ''status'' = Some (JStr (task_status_str status))"
  "closed_payload t owner status html name m p w th ''report_html'' = Some (JStr html)"
  by (simp_all add: closed_payload_def Let_def split: option.split)

lemma create_event_run:
  assumes "calm w" and "list_ex (\<lambda>q. ws_ID q = wid) (db_workspaces (w_db w))"
    and "list_ex (\<lambda>p. pt_ID p = pid) (db_participants (w_db w))" and "list_ex (\<lambda>q. tk_ID q = tid) (db_tasks (w_db w))"
  shows "\<exists>e w' seq. CreateProgressEvent wid etype pl (Some pid) (Some tid) w = (Inr (scan_event e), w')
    \<and> pe_DailyTaskID e = Some tid \<and> pe_ParticipantID e = Some pid \<and> pe_WorkspaceGroupID e = wid
    \<and> pe_PublishStatus e = ProgressPublishPending \<and> pe_EventType e = etype \<and> pe_Payload e = pl
    \<and> w_db w' = (w_db w)\<lparr>db_seq := seq, db_events := db_events (w_db w) @ [e]\<rparr>"
  using assms
  by (simp add: CreateProgressEvent_def stmt_calm sql_CreateProgressEvent_def Let_def take_id_def)
    (rule exI, intro conjI exI, rule refl, simp_all)

lemma close_open_entry_run:
  assumes "calm w" and "schema (w_db w)" and t: "t \<in> set (db_tasks (w_db w))" "is_open (tk_Status t)"
    and fresh: "\<forall>q \<in> set (db_tasks (w_db w)). tk_ReportMessageID q = Some messageID \<longrightarrow> tk_ID q = tk_ID t"
  shows "\<exists>w' e seq. close_open_entry t (tk_OwnerUserID t) status html name messageID threadID w = (Inr True, w')
    \<and> announces t status html e
    \<and> w_db w' = (w_db w)\<lparr>db_seq := seq, db_tasks := upd_where (\<lambda>q. tk_ID q = tk_ID t)
          (reported status html messageID threadID (sql_now w)) (db_tasks (w_db w)), db_events := db_events (w_db w) @ [e]\<rparr>"
proof -
  let ?g = "reported status html messageID threadID (sql_now w)"
  define d1 where "d1 = (w_db w)\<lparr>db_tasks := upd_where (\<lambda>q. tk_ID q = tk_ID t) ?g (db_tasks (w_db w))\<rparr>"
  have d1: "sql_report (open_owned (tk_ID t) (tk_OwnerUserID t))
      (\<lambda>now t. (put_report status html messageID threadID now t)\<lparr>tk_Status := status\<rparr>) messageID (sql_now w) (w_db w) = Some (1, d1)"
    unfolding d1_def
    by (rule sql_report_run)
      (use assms in \<open>auto simp: open_owned_def reported_def put_report_def schema_defs ids_ok_def\<close>)
  have refs: "list_ex (\<lambda>w. ws_ID w = tk_WorkspaceGroupID t) (db_workspaces (w_db w))"
      "list_ex (\<lambda>p. pt_ID p = tk_ParticipantID t) (db_participants (w_db w))"
    using assms(2) t(1) unfolding schema_defs list_ex_iff by blast+
  have same: "list_ex (\<lambda>q. tk_ID q = tk_ID t) (db_tasks d1)"
  proof -
    have "map tk_ID (db_tasks d1) = map tk_ID (db_tasks (w_db w))"
      by (simp add: d1_def map_upd_where reported_def put_report_def)
    with t(1) show ?thesis unfolding list_ex_iff by (metis image_eqI image_iff set_map)
  qed
  have tabs: "db_workspaces d1 = db_workspaces (w_db w)" "db_participants d1 = db_participants (w_db w)"
    by (simp_all add: d1_def)
  define w1 where "w1 = bump (bump (bump ((bump w)\<lparr>w_db := d1\<rparr>)))"
  obtain rp rw th where start: "close_open_entry t (tk_OwnerUserID t) status html name messageID threadID w
      = bindM (CreateProgressEvent (tk_WorkspaceGroupID t)
          (if is_summary (tk_Kind t) then ProgressDailySummaryClosed else ProgressDailyTaskClosed)
          (closed_payload t (tk_OwnerUserID t) status html name messageID rp rw th)
          (Some (tk_ParticipantID t)) (Some (tk_ID t))) (\<lambda>_. ret True) w1"
    unfolding close_open_entry_def
    by (simp add: run assms(1) d1 GetParticipantByID_def GetWorkspaceByID_def GetTopicBinding_def w1_def)
  have w1: "calm w1" "w_db w1 = d1" using assms(1) by (simp_all add: w1_def)
  obtain e w' seq where e: "CreateProgressEvent (tk_WorkspaceGroupID t)
          (if is_summary (tk_Kind t) then ProgressDailySummaryClosed else ProgressDailyTaskClosed)
          (closed_payload t (tk_OwnerUserID t) status html name messageID rp rw th)
          (Some (tk_ParticipantID t)) (Some (tk_ID t)) w1 = (Inr (scan_event e), w')"
      "announces t status html e" "w_db w' = d1\<lparr>db_seq := seq, db_events := db_events d1 @ [e]\<rparr>"
    using create_event_run [OF w1(1), unfolded w1(2) tabs, OF refs same, where etype =
      "if is_summary (tk_Kind t) then ProgressDailySummaryClosed else ProgressDailyTaskClosed" and
      pl = "closed_payload t (tk_OwnerUserID t) status html name messageID rp rw th"] that
    unfolding announces_def by (elim exE conjE) (simp add: closed_payload_fields)
  then show ?thesis
    by (intro exI [of _ w'] exI [of _ e] exI [of _ seq]) (simp add: start bindM_def ret_def d1_def)
qed



end
