(* ===== verification/Day_Transitions.thy ===== *)
theory Day_Transitions imports App_Today Task_Reports begin

text \<open>
  What the transitions of a worker tick do to the day tables: every open entry whose time has come is
  moved, gets its alert and, when it failed, one progress event; nothing else changes.
\<close>

section \<open>One entry\<close>

definition after_transition :: "daily_task_transition \<Rightarrow> gotime \<Rightarrow> daily_task \<Rightarrow> daily_task" where
  "after_transition tr now t = (case NewStatus tr of
      Some DailyTaskAwaitingReport \<Rightarrow> t\<lparr>tk_Status := DailyTaskAwaitingReport, tk_AwaitingReportAt := Some (gt_ns now)\<rparr>
    | Some DailyTaskFailed \<Rightarrow> t\<lparr>tk_Status := DailyTaskFailed, tk_FailedAt := Some (gt_ns now)\<rparr>
    | _ \<Rightarrow> t)"

definition legal :: "daily_task_transition \<Rightarrow> daily_task \<Rightarrow> bool" where
  "legal tr t \<longleftrightarrow> (case NewStatus tr of
      Some DailyTaskAwaitingReport \<Rightarrow> tk_Status t = DailyTaskActive
    | Some DailyTaskFailed \<Rightarrow> is_open (tk_Status t)
    | None \<Rightarrow> True | _ \<Rightarrow> False)"

text \<open>The alert and the event that announce a transition.\<close>

definition alert_of :: "daily_task_transition \<Rightarrow> alert_kind option" where
  "alert_of tr = (case NewStatus tr of
      Some DailyTaskAwaitingReport \<Rightarrow> Some AlertDayClosedPendingReport
    | Some DailyTaskFailed \<Rightarrow> Some AlertOverdueTaskFailed | _ \<Rightarrow> None)"

definition fails :: "daily_task_transition \<Rightarrow> bool" where
  "fails tr \<longleftrightarrow> NewStatus tr = Some DailyTaskFailed"

definition auto_fail_event :: "daily_task \<Rightarrow> progress_event \<Rightarrow> bool" where
  "auto_fail_event t e \<longleftrightarrow> pe_DailyTaskID e = Some (tk_ID t) \<and> pe_WorkspaceGroupID e = tk_WorkspaceGroupID t
     \<and> pe_PublishStatus e = ProgressPublishPending
     \<and> pe_EventType e = (if is_summary (tk_Kind t) then ProgressDailySummaryAutoFail else ProgressDailyTaskAutoFail)"

definition alerted :: "daily_task_transition \<Rightarrow> daily_task \<Rightarrow> db \<Rightarrow> bool" where
  "alerted tr t d \<longleftrightarrow> (case alert_of tr of None \<Rightarrow> True
     | Some kind \<Rightarrow> \<exists>a \<in> set (db_alerts d). al_DailyTaskID a = tk_ID t \<and> al_AlertKind a = kind)"

lemma legal_next:
  "NextDailyTaskTransition tzdb date tz (tk_Status t) now = Inr tr \<Longrightarrow> legal tr t"
  by (cases "tk_Status t")
    (auto simp: NextDailyTaskTransition_def Let_def legal_def no_transition_def split: sum.splits if_splits)

text \<open>A world that differs in its tables and the number of its statements only.\<close>

definition beside :: "world \<Rightarrow> world \<Rightarrow> bool" where
  "beside w w' \<longleftrightarrow> w_env w' = w_env w \<and> (calm w \<longrightarrow> calm w')"

lemma beside_simps [simp]:
  "beside w w" "beside w (bump w') = beside w w'" "beside w (w'\<lparr>w_db := d\<rparr>) = beside w w'"
  by (simp_all add: beside_def) (simp add: bump_def)

lemma beside_trans: "beside a b \<Longrightarrow> beside b c \<Longrightarrow> beside a c"
  by (simp add: beside_def)

lemma alert_run:
  assumes "calm w" and "tk_ref (w_db w) i"
  shows "\<exists>a w' seq as. GetOrCreateAlert i kind w = (Inr a, w') \<and> beside w w'
    \<and> w_db w' = (w_db w)\<lparr>db_seq := seq, db_alerts := db_alerts (w_db w) @ as\<rparr>
    \<and> (\<exists>a \<in> set (db_alerts (w_db w) @ as). al_DailyTaskID a = i \<and> al_AlertKind a = kind)"
proof (cases "first_where (\<lambda>a. al_DailyTaskID a = i \<and> al_AlertKind a = kind) (db_alerts (w_db w))")
  case (Some a)
  with assms(1) show ?thesis
    using first_where_Some [OF Some]
    by (intro exI [of _ a] exI [of _ "(bump w)\<lparr>w_db := take_id TAlerts (w_db w)\<rparr>"]
        exI [of _ "db_seq (take_id TAlerts (w_db w))"] exI [of _ "[]"])
      (auto simp: GetOrCreateAlert_def stmt_calm sql_GetOrCreateAlert_def Let_def take_id_def)
next
  case None
  have "list_ex (\<lambda>t. tk_ID t = i) (db_tasks (w_db w))" using assms(2) by (simp add: list_ex_iff tk_ref_def)
  with None assms(1) show ?thesis
    by (simp add: GetOrCreateAlert_def stmt_calm sql_GetOrCreateAlert_def Let_def take_id_def)
      (rule exI, rule exI, rule conjI, rule refl, simp add: beside_def bump_def calm_def)
qed

text \<open>The update of one row.\<close>

definition put_task :: "daily_task_transition \<Rightarrow> gotime \<Rightarrow> daily_task \<Rightarrow> db \<Rightarrow> db" where
  "put_task tr now t d = d\<lparr>db_tasks := upd_where (\<lambda>q. tk_ID q = tk_ID t) (after_transition tr now) (db_tasks d)\<rparr>"

lemma after_transition_ID [simp]: "tk_ID (after_transition tr now t) = tk_ID t"
  by (simp add: after_transition_def split: option.split daily_task_status.split)

lemma tk_ref_put_task [simp]: "tk_ref (put_task tr now t d) i = tk_ref d i"
  unfolding tk_ref_def put_task_def by (simp add: Bex_upd_where)

lemma put_task_fields [simp]:
  "db_alerts (put_task tr now t d) = db_alerts d" "db_events (put_task tr now t d) = db_events d"
  "db_workspaces (put_task tr now t d) = db_workspaces d" "db_participants (put_task tr now t d) = db_participants d"
  by (simp_all add: put_task_def)

lemma schema_tasks_distinct: "schema d \<Longrightarrow> distinct (map tk_ID (db_tasks d))"
  by (simp add: schema_defs ids_ok_def)

lemma update_runs:
  assumes "calm w" and "distinct (map tk_ID (db_tasks (w_db w)))" and "t \<in> set (db_tasks (w_db w))" and "legal tr t"
  shows "NewStatus tr = Some DailyTaskAwaitingReport \<Longrightarrow>
      UpdateTaskAwaitingReport (tk_ID t) now w = (Inr (), (bump w)\<lparr>w_db := put_task tr now t (w_db w)\<rparr>)"
    and "NewStatus tr = Some DailyTaskFailed \<Longrightarrow>
      UpdateTaskFailed (tk_ID t) now w = (Inr (), (bump w)\<lparr>w_db := put_task tr now t (w_db w)\<rparr>)"
proof -
  let ?p = "\<lambda>q. tk_ID q = tk_ID t \<and> tk_Status q = DailyTaskActive" and ?q = "\<lambda>q. tk_ID q = tk_ID t \<and> is_open (tk_Status q)"
  let ?a = "\<lambda>t. t\<lparr>tk_Status := DailyTaskAwaitingReport, tk_AwaitingReportAt := Some (gt_ns now)\<rparr>"
    and ?f = "\<lambda>t. t\<lparr>tk_Status := DailyTaskFailed, tk_FailedAt := Some (gt_ns now)\<rparr>"
  show "UpdateTaskAwaitingReport (tk_ID t) now w = (Inr (), (bump w)\<lparr>w_db := put_task tr now t (w_db w)\<rparr>)"
    if st: "NewStatus tr = Some DailyTaskAwaitingReport"
  proof -
    have "upd_where ?p ?a (db_tasks (w_db w)) = upd_where (\<lambda>q. tk_ID q = tk_ID t) (after_transition tr now) (db_tasks (w_db w))"
      by (rule upd_where_one(1) [OF assms(2,3)]) (use assms(4) st in \<open>auto simp: legal_def after_transition_def\<close>)
    with assms(1) show ?thesis by (simp add: UpdateTaskAwaitingReport_def exec_calm upd_tasks_def put_task_def)
  qed
  show "UpdateTaskFailed (tk_ID t) now w = (Inr (), (bump w)\<lparr>w_db := put_task tr now t (w_db w)\<rparr>)"
    if st: "NewStatus tr = Some DailyTaskFailed"
  proof -
    have "upd_where ?q ?f (db_tasks (w_db w)) = upd_where (\<lambda>q. tk_ID q = tk_ID t) (after_transition tr now) (db_tasks (w_db w))"
      by (rule upd_where_one(1) [OF assms(2,3)]) (use assms(4) st in \<open>auto simp: legal_def after_transition_def\<close>)
    with assms(1) show ?thesis by (simp add: UpdateTaskFailed_def exec_calm upd_tasks_def put_task_def)
  qed
qed

text \<open>The event of an automatic failure.\<close>

lemma auto_fail_run:
  assumes "calm w" and "ws_ref (w_db w) (tk_WorkspaceGroupID t)" and "pt_ref (w_db w) (tk_ParticipantID t)"
    and "tk_ref (w_db w) (tk_ID t)"
  shows "\<exists>w' e seq. CreateAutoFailProgressEvent t ws p th w = (Inr (), w') \<and> beside w w' \<and> auto_fail_event t e
    \<and> w_db w' = (w_db w)\<lparr>db_seq := seq, db_events := db_events (w_db w) @ [e]\<rparr>"
proof -
  let ?et = "if is_summary (tk_Kind t) then ProgressDailySummaryAutoFail else ProgressDailyTaskAutoFail"
  obtain pl where start: "CreateAutoFailProgressEvent t ws p th
      = thenM (CreateProgressEvent (tk_WorkspaceGroupID t) ?et pl (Some (tk_ParticipantID t)) (Some (tk_ID t))) (ret ())"
    by (simp only: CreateAutoFailProgressEvent_def Let_def that)
  let ?e = "\<lparr>pe_ID = next_id TEvents (w_db w), pe_WorkspaceGroupID = tk_WorkspaceGroupID t,
     pe_ParticipantID = Some (tk_ParticipantID t), pe_DailyTaskID = Some (tk_ID t), pe_EventType = ?et,
     pe_PublishStatus = ProgressPublishPending, pe_Payload = pl, pe_PublishedMessageID = None, pe_CreatedAt = sql_now w,
     pe_PublishedAt = None, pe_PublishStartedAt = None\<rparr>"
  let ?d = "(take_id TEvents (w_db w))\<lparr>db_events := db_events (w_db w) @ [?e]\<rparr>"
  have "list_ex (\<lambda>w. ws_ID w = tk_WorkspaceGroupID t) (db_workspaces (w_db w))"
    "list_ex (\<lambda>p. pt_ID p = tk_ParticipantID t) (db_participants (w_db w))"
    "list_ex (\<lambda>q. tk_ID q = tk_ID t) (db_tasks (w_db w))"
    using assms(2-4) by (simp_all add: list_ex_iff ws_ref_def pt_ref_def tk_ref_def)
  then have "CreateAutoFailProgressEvent t ws p th w = (Inr (), (bump w)\<lparr>w_db := ?d\<rparr>)"
    unfolding start using assms(1) by (simp add: thenM_def CreateProgressEvent_def bindM_stmt_calm sql_CreateProgressEvent_def Let_def ret_run)
  then show ?thesis
    by (intro exI [of _ "(bump w)\<lparr>w_db := ?d\<rparr>"] exI [of _ ?e] exI [of _ "db_seq (take_id TEvents (w_db w))"])
      (simp add: auto_fail_event_def take_id_def)
qed

text \<open>A whole transition.\<close>

definition moved_by :: "daily_task_transition \<Rightarrow> gotime \<Rightarrow> daily_task \<Rightarrow> db \<Rightarrow> db \<Rightarrow> bool" where
  "moved_by tr now t d d' \<longleftrightarrow> (\<exists>seq as es.
     d' = (put_task tr now t d)\<lparr>db_seq := seq, db_alerts := db_alerts d @ as, db_events := db_events d @ es\<rparr>
     \<and> alerted tr t d' \<and> list_all2 auto_fail_event (if fails tr then [t] else []) es)"

lemma put_task_none: "NewStatus tr = None \<Longrightarrow> put_task tr now t d = d"
proof -
  assume "NewStatus tr = None"
  then have "after_transition tr now r = r" for r by (simp add: after_transition_def)
  then show ?thesis by (simp add: put_task_def upd_where_def cong: if_cong)
qed

lemma apply_transition_run:
  assumes "calm w" and "schema (w_db w)" and t: "t \<in> set (db_tasks (w_db w))" and "legal tr t"
  shows "\<exists>w'. apply_transition t ws tr now w = (Inr (), w') \<and> beside w w' \<and> moved_by tr now t (w_db w) (w_db w')"
proof -
  have refs: "ws_ref (w_db w) (tk_WorkspaceGroupID t)" "pt_ref (w_db w) (tk_ParticipantID t)" "tk_ref (w_db w) (tk_ID t)"
    using assms(2) t by (auto simp: schema_defs)
  note upd = update_runs [OF assms(1) schema_tasks_distinct [OF assms(2)] t assms(4)]
  define w1 where "w1 = (bump w)\<lparr>w_db := put_task tr now t (w_db w)\<rparr>"
  have w1: "calm w1" "beside w w1" "w_db w1 = put_task tr now t (w_db w)" using assms(1) by (simp_all add: w1_def)
  have alert: "\<exists>a w' seq as. GetOrCreateAlert (tk_ID t) kind w1 = (Inr a, w') \<and> beside w1 w'
      \<and> w_db w' = (w_db w1)\<lparr>db_seq := seq, db_alerts := db_alerts (w_db w) @ as\<rparr>
      \<and> (\<exists>a \<in> set (db_alerts (w_db w) @ as). al_DailyTaskID a = tk_ID t \<and> al_AlertKind a = kind)" for kind
    using alert_run [OF w1(1), of "tk_ID t" kind] refs(3) by (simp add: w1(3))
  consider (none) "NewStatus tr = None" | (waits) "NewStatus tr = Some DailyTaskAwaitingReport"
    | (fails) "NewStatus tr = Some DailyTaskFailed"
    using assms(4) by (auto simp: legal_def split: option.splits daily_task_status.splits)
  then show ?thesis
  proof cases
    case none
    then show ?thesis
      by (intro exI [of _ w]) (auto simp: apply_transition_def ret_run moved_by_def put_task_none alerted_def alert_of_def fails_def
          intro!: exI [of _ "db_seq (w_db w)"] exI [of _ "[]"])
  next
    case waits
    obtain a w2 seq as where w2: "GetOrCreateAlert (tk_ID t) AlertDayClosedPendingReport w1 = (Inr a, w2)" "beside w1 w2"
        "w_db w2 = (w_db w1)\<lparr>db_seq := seq, db_alerts := db_alerts (w_db w) @ as\<rparr>"
        "\<exists>a \<in> set (db_alerts (w_db w) @ as). al_DailyTaskID a = tk_ID t \<and> al_AlertKind a = AlertDayClosedPendingReport"
      using alert [of AlertDayClosedPendingReport] by blast
    have "apply_transition t ws tr now w = (Inr (), w2)"
      using waits upd(1) [OF waits] w2(1) by (simp add: apply_transition_def thenM_def ret_run flip: w1_def)
    moreover have "moved_by tr now t (w_db w) (w_db w2)"
      unfolding moved_by_def using w2(3,4) waits
      by (intro exI [of _ seq] exI [of _ as] exI [of _ "[]"]) (auto simp: w1(3) alerted_def alert_of_def fails_def put_task_def)
    ultimately show ?thesis using beside_trans [OF w1(2) w2(2)] by blast
  next
    case fails
    obtain a w2 seq as where w2: "GetOrCreateAlert (tk_ID t) AlertOverdueTaskFailed w1 = (Inr a, w2)" "beside w1 w2"
        "w_db w2 = (w_db w1)\<lparr>db_seq := seq, db_alerts := db_alerts (w_db w) @ as\<rparr>"
        "\<exists>a \<in> set (db_alerts (w_db w) @ as). al_DailyTaskID a = tk_ID t \<and> al_AlertKind a = AlertOverdueTaskFailed"
      using alert [of AlertOverdueTaskFailed] by blast
    define w3 where "w3 = bump (bump w2)"
    have w3: "calm w2" "calm w3" "beside w w3" "w_db w3 = w_db w2"
      using beside_trans [OF w1(2) w2(2)] assms(1) unfolding w3_def beside_simps by (simp_all add: beside_def)
    have "ws_ref (w_db w3) (tk_WorkspaceGroupID t)" "pt_ref (w_db w3) (tk_ParticipantID t)" "tk_ref (w_db w3) (tk_ID t)"
      using refs by (simp_all add: w3(4) w2(3) w1(3) ws_ref_def pt_ref_def) (simp add: tk_ref_def put_task_def Bex_upd_where)
    note ev = auto_fail_run [OF w3(2) this, of ws]
    obtain p th where start: "apply_transition t ws tr now w = CreateAutoFailProgressEvent t ws p th w3"
      using fails upd(2) [OF fails] w2(1) w3(1)
      by (simp add: apply_transition_def thenM_def GetParticipantByID_def GetTopicBinding_def bindM_query_calm w3_def flip: w1_def)
    obtain w' e seq' where w': "CreateAutoFailProgressEvent t ws p th w3 = (Inr (), w')" "beside w3 w'" "auto_fail_event t e"
        "w_db w' = (w_db w3)\<lparr>db_seq := seq', db_events := db_events (w_db w3) @ [e]\<rparr>"
      using ev [of p th] by blast
    have "moved_by tr now t (w_db w) (w_db w')"
      unfolding moved_by_def using w2(3,4) w'(3,4) fails
      by (intro exI [of _ seq'] exI [of _ as] exI [of _ "[e]"])
        (auto simp: w3(4) w1(3) alerted_def alert_of_def fails_def put_task_def)
    then show ?thesis using start w'(1) beside_trans [OF w3(3) w'(2)] by auto
  qed
qed

section \<open>All entries\<close>

text \<open>The transition that an entry of the tables is due for.\<close>

definition due :: "tz_database \<Rightarrow> workspace list \<Rightarrow> gotime \<Rightarrow> daily_task \<Rightarrow> daily_task_transition" where
  "due tzdb wss now t = (case first_where (\<lambda>w. ws_ID w = tk_WorkspaceGroupID t) wss of
      None \<Rightarrow> no_transition
    | Some w \<Rightarrow> (case NextDailyTaskTransition tzdb (date_time (tk_TaskDate t)) (ws_Timezone w) (tk_Status t) now of
        Inl _ \<Rightarrow> no_transition | Inr tr \<Rightarrow> tr))"

definition all_moved ::
    "(daily_task \<Rightarrow> daily_task_transition) \<Rightarrow> gotime \<Rightarrow> daily_task list \<Rightarrow> db \<Rightarrow> db \<Rightarrow> bool" where
  "all_moved f now ts d d' \<longleftrightarrow> (\<exists>seq as es. d' = d\<lparr>db_seq := seq,
       db_tasks := upd_where (\<lambda>q. tk_ID q \<in> tk_ID ` set ts) (\<lambda>q. after_transition (f q) now q) (db_tasks d),
       db_alerts := db_alerts d @ as, db_events := db_events d @ es\<rparr>
     \<and> (\<forall>t \<in> set ts. alerted (f t) t d') \<and> list_all2 auto_fail_event (filter (\<lambda>t. fails (f t)) ts) es)"

lemma next_Inr: "tzdb tz \<noteq> None \<Longrightarrow> \<exists>tr. NextDailyTaskTransition tzdb date tz st now = Inr tr"
  by (auto simp: NextDailyTaskTransition_def Let_def load_location_def split: option.split)

lemma alerted_mono: "alerted tr t d \<Longrightarrow> set (db_alerts d) \<subseteq> set (db_alerts d') \<Longrightarrow> alerted tr t d'"
  by (auto simp: alerted_def split: option.splits)

lemma all_moved_Cons:
  assumes one: "moved_by (f t) now t d d1" and rest: "all_moved f now ts d1 d2"
    and dist: "distinct (map tk_ID (db_tasks d))" "t \<in> set (db_tasks d)" "tk_ID t \<notin> tk_ID ` set ts"
  shows "all_moved f now (t # ts) d d2"
proof -
  obtain seq as es where d1: "d1 = (put_task (f t) now t d)\<lparr>db_seq := seq, db_alerts := db_alerts d @ as, db_events := db_events d @ es\<rparr>"
      "alerted (f t) t d1" "list_all2 auto_fail_event (if fails (f t) then [t] else []) es"
    using one unfolding moved_by_def by blast
  obtain seq' as' es' where d2: "d2 = d1\<lparr>db_seq := seq',
        db_tasks := upd_where (\<lambda>q. tk_ID q \<in> tk_ID ` set ts) (\<lambda>q. after_transition (f q) now q) (db_tasks d1),
        db_alerts := db_alerts d1 @ as', db_events := db_events d1 @ es'\<rparr>"
      "\<forall>t \<in> set ts. alerted (f t) t d2" "list_all2 auto_fail_event (filter (\<lambda>t. fails (f t)) ts) es'"
    using rest unfolding all_moved_def by blast
  have "q = t" if "q \<in> set (db_tasks d)" "tk_ID q = tk_ID t" for q
    using dist(1,2) that by (metis distinct_map inj_onD)
  then have "upd_where (\<lambda>q. tk_ID q \<in> tk_ID ` set ts) (\<lambda>q. after_transition (f q) now q)
        (upd_where (\<lambda>q. tk_ID q = tk_ID t) (after_transition (f t) now) (db_tasks d))
      = upd_where (\<lambda>q. tk_ID q \<in> tk_ID ` set (t # ts)) (\<lambda>q. after_transition (f q) now q) (db_tasks d)"
    using dist(3) by (auto simp: upd_where_def)
  then have "d2 = d\<lparr>db_seq := seq', db_tasks := upd_where (\<lambda>q. tk_ID q \<in> tk_ID ` set (t # ts)) (\<lambda>q. after_transition (f q) now q) (db_tasks d),
      db_alerts := db_alerts d @ (as @ as'), db_events := db_events d @ (es @ es')\<rparr>"
    by (simp add: d2(1) d1(1) put_task_def)
  moreover have "alerted (f t) t d2" by (rule alerted_mono [OF d1(2)]) (simp add: d2(1))
  moreover have "list_all2 auto_fail_event (filter (\<lambda>t. fails (f t)) (t # ts)) (es @ es')"
  proof -
    have "filter (\<lambda>t. fails (f t)) (t # ts) = (if fails (f t) then [t] else []) @ filter (\<lambda>t. fails (f t)) ts" by simp
    then show ?thesis by (metis d1(3) d2(3) list_all2_appendI)
  qed
  ultimately show ?thesis
    using d2(2) unfolding all_moved_def
    by (intro exI [of _ seq'] exI [of _ "as @ as'"] exI [of _ "es @ es'"]) auto
qed

lemma transition_loop_run:
  assumes "calm w" and "schema (w_db w)" and "set ts \<subseteq> set (db_tasks (w_db w))" and "distinct (map tk_ID ts)"
    and "\<forall>ws \<in> set (db_workspaces (w_db w)). e_tzdb (w_env w) (ws_Timezone ws) \<noteq> None"
  shows "\<exists>w'. transition_loop now ts w = (Inr (), w') \<and> beside w w'
    \<and> all_moved (due (e_tzdb (w_env w)) (db_workspaces (w_db w)) now) now ts (w_db w) (w_db w')"
  using assms
proof (induction ts arbitrary: w)
  case Nil
  show ?case
    by (intro exI [of _ w]) (auto simp: ret_run all_moved_def upd_where_def intro!: exI [of _ "db_seq (w_db w)"] exI [of _ "[]"])
next
  case (Cons t ts)
  let ?f = "due (e_tzdb (w_env w)) (db_workspaces (w_db w)) now"
  have t: "t \<in> set (db_tasks (w_db w))" using Cons.prems(3) by simp
  then have "ws_ref (w_db w) (tk_WorkspaceGroupID t)" using Cons.prems(2) by (simp add: schema_defs)
  then obtain ws where ws: "first_where (\<lambda>q. ws_ID q = tk_WorkspaceGroupID t) (db_workspaces (w_db w)) = Some ws"
    by (cases "first_where (\<lambda>q. ws_ID q = tk_WorkspaceGroupID t) (db_workspaces (w_db w))")
      (auto simp: first_where_None ws_ref_def)
  obtain tr where tr: "NextDailyTaskTransition (e_tzdb (w_env w)) (date_time (tk_TaskDate t)) (ws_Timezone ws) (tk_Status t) now = Inr tr"
    using next_Inr [of "e_tzdb (w_env w)" "ws_Timezone ws"] Cons.prems(5) first_where_Some [OF ws] by metis
  then have f: "?f t = tr" by (simp add: due_def ws)
  define w0 where "w0 = bump w"
  have w0: "calm w0" "schema (w_db w0)" "w_db w0 = w_db w" "w_env w0 = w_env w"
    using Cons.prems(1,2) by (simp_all add: w0_def) (simp add: bump_def)
  obtain w1 where w1: "apply_transition t ws tr now w0 = (Inr (), w1)" "beside w0 w1" "moved_by tr now t (w_db w) (w_db w1)"
    using apply_transition_run [OF w0(1,2), of t tr ws now] t legal_next [OF tr] by (auto simp: w0(3))
  have step: "transition_loop now (t # ts) w = transition_loop now ts w1"
    using Cons.prems(1) w1(1) tr
    by (simp add: GetWorkspaceByID_def query_calm ws thenM_def bindM_def rule_def w0(4) flip: w0_def)
  have s1: "schema (w_db w1)" using soundD [OF sound_apply_transition w1(1) w0(2)] by simp
  have same: "db_workspaces (w_db w1) = db_workspaces (w_db w)" "w_env w1 = w_env w" "calm w1"
    using w1(2,3) w0 by (auto simp: moved_by_def beside_def)
  have "q \<in> set (db_tasks (w_db w1))" if "q \<in> set ts" for q
  proof -
    have "q \<in> set (db_tasks (w_db w))" "tk_ID q \<noteq> tk_ID t" using that Cons.prems(3,4) by (auto simp: image_iff)
    moreover obtain seq as es where "w_db w1 = (put_task tr now t (w_db w))\<lparr>db_seq := seq, db_alerts := as, db_events := es\<rparr>"
      using w1(3) unfolding moved_by_def by blast
    ultimately show ?thesis by (auto simp: put_task_def set_upd_where)
  qed
  then obtain w' where w': "transition_loop now ts w1 = (Inr (), w')" "beside w1 w'" "all_moved ?f now ts (w_db w1) (w_db w')"
    using Cons.IH [of w1] s1 same Cons.prems(4,5) by (auto simp: subset_iff)
  have "all_moved ?f now (t # ts) (w_db w) (w_db w')"
    by (rule all_moved_Cons [OF _ w'(3) schema_tasks_distinct [OF Cons.prems(2)] t])
      (use w1(3) f Cons.prems(4) in \<open>auto simp: image_iff\<close>)
  moreover have "beside w w'"
    using beside_trans [OF w1(2) w'(2)] w0(1,4) by (simp add: beside_def)
  ultimately show ?case using step w'(1) by auto
qed

section \<open>The tick\<close>

lemma due_closed: "\<not> is_open (tk_Status t) \<Longrightarrow> NewStatus (due tzdb wss now t) = None"
  by (cases "tk_Status t")
    (auto simp: due_def NextDailyTaskTransition_def Let_def no_transition_def split: option.split sum.splits)


lemma world2_zones: "e_tzdb (w_env world2) = (\<lambda>name. if name = ''UTC'' then Some utc else None)"
  by (simp add: world2_def world0_def env0_def)


end
