(* ===== verification/Input_Safety.thy ===== *)
theory Input_Safety imports Input begin

text \<open>
  What a user can put into the HTML of a message.  A reader of the rendered text is described by what
  it sees outside of tags and by the tags it meets; the text outside is the escaped text of the
  message, and every tag belongs to an entity.
\<close>

section \<open>UTF-8\<close>

definition is_rune :: "nat \<Rightarrow> bool" where
  "is_rune r \<longleftrightarrow> r < 0x110000 \<and> \<not> (0xD800 \<le> r \<and> r \<le> 0xDFFF)"

lemma of_char_byte [simp]: "n < 256 \<Longrightarrow> (of_char (byte n) :: nat) = n"
  by (simp add: byte_def)

lemma cont_byte_Cons:
  "lo \<le> x \<Longrightarrow> x \<le> hi \<Longrightarrow> x < 256 \<Longrightarrow> cont_byte lo hi (byte x # s) = Some (x mod 64)"
  by (simp add: cont_byte_def)

lemma decode2:
  assumes "0xC2 \<le> b" "b \<le> 0xDF" "0x80 \<le> x" "x \<le> 0xBF"
  shows "decode_rune (byte b) (byte x # s) = (b mod 32 * 64 + x mod 64, 2)"
proof -
  have "b \<noteq> 0xE0" "b \<noteq> 0xF0" "b \<noteq> 0xED" "b \<noteq> 0xF4" "\<not> b < 0x80" using assms by simp_all
  with assms show ?thesis by (simp add: decode_rune_def Let_def cont_byte_Cons)
qed

lemma decode3:
  assumes "0xE0 \<le> b" "b \<le> 0xEF" "0x80 \<le> x" "x \<le> 0xBF" "0x80 \<le> y" "y \<le> 0xBF"
    and "b = 0xE0 \<Longrightarrow> 0xA0 \<le> x" "b = 0xED \<Longrightarrow> x \<le> 0x9F"
  shows "decode_rune (byte b) (byte x # byte y # s) = (b mod 16 * 4096 + x mod 64 * 64 + y mod 64, 3)"
proof -
  have c2: "cont_byte (if b = 0xE0 then 0xA0 else if b = 0xF0 then 0x90 else 0x80)
      (if b = 0xED then 0x9F else if b = 0xF4 then 0x8F else 0xBF) (byte x # byte y # s) = Some (x mod 64)"
    by (rule cont_byte_Cons) (use assms in \<open>simp_all split: if_split\<close>)
  have c3: "cont_byte 0x80 0xBF (drop 1 (byte x # byte y # s)) = Some (y mod 64)"
    using assms by (simp add: cont_byte_Cons)
  have b: "(of_char (byte b) :: nat) = b" "\<not> b < 0x80" "\<not> b \<le> 0xDF" using assms by simp_all
  show ?thesis
    unfolding decode_rune_def Let_def by (simp only: b c2 c3 assms if_True if_False simp_thms option.case prod.case)
qed

lemma decode4:
  assumes "0xF0 \<le> b" "b \<le> 0xF4" "0x80 \<le> x" "x \<le> 0xBF" "0x80 \<le> y" "y \<le> 0xBF" "0x80 \<le> z" "z \<le> 0xBF"
    and "b = 0xF0 \<Longrightarrow> 0x90 \<le> x" "b = 0xF4 \<Longrightarrow> x \<le> 0x8F"
  shows "decode_rune (byte b) (byte x # byte y # byte z # s)
    = (b mod 8 * 262144 + x mod 64 * 4096 + y mod 64 * 64 + z mod 64, 4)"
proof -
  have c2: "cont_byte (if b = 0xE0 then 0xA0 else if b = 0xF0 then 0x90 else 0x80)
      (if b = 0xED then 0x9F else if b = 0xF4 then 0x8F else 0xBF) (byte x # byte y # byte z # s) = Some (x mod 64)"
    by (rule cont_byte_Cons) (use assms in \<open>simp_all split: if_split\<close>)
  have c3: "cont_byte 0x80 0xBF (drop 1 (byte x # byte y # byte z # s)) = Some (y mod 64)"
      "cont_byte 0x80 0xBF (drop 2 (byte x # byte y # byte z # s)) = Some (z mod 64)"
    using assms by (simp_all add: cont_byte_Cons)
  have b: "(of_char (byte b) :: nat) = b" "\<not> b < 0x80" "\<not> b \<le> 0xDF" "\<not> b \<le> 0xEF" using assms by simp_all
  show ?thesis
    unfolding decode_rune_def Let_def by (simp only: b c2 c3 assms if_True if_False simp_thms option.case prod.case)
qed

lemma low_bits:
  "k < 64 \<Longrightarrow> (0x80 + k) mod 64 = (k :: nat)" "k < 32 \<Longrightarrow> (0xC0 + k) mod 32 = k"
  "k < 16 \<Longrightarrow> (0xE0 + k) mod 16 = k" "k < 8 \<Longrightarrow> (0xF0 + k) mod 8 = k"
  using mod_mult_self3 [of 2 64 k] mod_mult_self3 [of 6 32 k] mod_mult_self3 [of 14 16 k] mod_mult_self3 [of 30 8 k]
  by simp_all

lemma decode_encode:
  assumes "is_rune r"
  shows "\<exists>c cs. encode_rune r = c # cs \<and> (\<forall>rest. decode_rune c (cs @ rest) = (r, Suc (length cs)))"
proof -
  define a b c d where "a = r div 262144" and "b = r div 4096 mod 64" and "c = r div 64 mod 64" and "d = r mod 64"
  have "r div 4096 = r div 64 div 64" "r div 262144 = r div 4096 div 64"
    by (simp_all add: div_mult2_eq [symmetric])
  then have q: "r div 64 = r div 4096 * 64 + c" "r div 4096 = a * 64 + b"
    by (simp_all add: a_def b_def c_def)
  have r: "r = r div 64 * 64 + d" "b < 64" "c < 64" "d < 64"
    by (simp_all add: b_def c_def d_def)
  have r': "r = a * 262144 + b * 4096 + c * 64 + d" using r(1) q by linarith
  consider "r < 0x80" | "0x80 \<le> r" "r < 0x800" | "0x800 \<le> r" "r < 0x10000" | "0x10000 \<le> r" by linarith
  then show ?thesis
  proof cases
    case 1
    then show ?thesis by (simp add: encode_rune_def decode_rune_def Let_def)
  next
    case 2
    with r r' have 0: "a = 0" "b = 0" by linarith+
    with 2 r' have "2 \<le> c" "c < 32" using r by linarith+
    have "encode_rune r = [byte (0xC0 + c), byte (0x80 + d)]"
      using 2 0 by (simp add: encode_rune_def q flip: d_def)
    moreover have "decode_rune (byte (0xC0 + c)) (byte (0x80 + d) # rest) = (r, 2)" for rest
      using decode2 [of "0xC0 + c" "0x80 + d" rest] \<open>2 \<le> c\<close> \<open>c < 32\<close> r(4) r' 0 by (simp add: low_bits)
    ultimately show ?thesis by simp
  next
    case 3
    with r r' have a: "a = 0" "b < 16" by linarith+
    have bc: "b = 0 \<Longrightarrow> 32 \<le> c" "b = 13 \<Longrightarrow> c < 32"
      using a 3 r r' assms unfolding is_rune_def by linarith+
    have "encode_rune r = [byte (0xE0 + b), byte (0x80 + c), byte (0x80 + d)]"
      using 3 a r(3) by (simp add: encode_rune_def q flip: d_def)
    moreover have "decode_rune (byte (0xE0 + b)) (byte (0x80 + c) # byte (0x80 + d) # rest) = (r, 3)" for rest
      using decode3 [of "0xE0 + b" "0x80 + c" "0x80 + d" rest] a bc r(3,4) r'
      by (cases "b = 13") (simp_all add: low_bits)
    ultimately show ?thesis by simp
  next
    case 4
    have a: "a \<le> 4" "a = 0 \<Longrightarrow> 16 \<le> b" "a = 4 \<Longrightarrow> b < 16"
      using 4 assms r r' unfolding is_rune_def by linarith+
    have "encode_rune r = [byte (0xF0 + a), byte (0x80 + b), byte (0x80 + c), byte (0x80 + d)]"
      using 4 by (simp add: encode_rune_def flip: a_def b_def c_def d_def)
    moreover have "decode_rune (byte (0xF0 + a)) (byte (0x80 + b) # byte (0x80 + c) # byte (0x80 + d) # rest) = (r, 4)" for rest
      using decode4 [of "0xF0 + a" "0x80 + b" "0x80 + c" "0x80 + d" rest] a r(2-4) r'
      by (cases "a = 4") (simp_all add: low_bits)
    ultimately show ?thesis by simp
  qed
qed

lemma runes_of_utf8: "\<forall>r \<in> set rs. is_rune r \<Longrightarrow> runes_of (utf8 rs) = rs"
proof (induction rs)
  case (Cons r rs)
  then obtain c cs where c: "encode_rune r = c # cs" "\<forall>rest. decode_rune c (cs @ rest) = (r, Suc (length cs))"
    using decode_encode [of r] by auto
  with Cons show ?case by (simp add: utf8_def)
qed (simp add: utf8_def)

section \<open>Reading HTML\<close>

text \<open>The text outside of tags, and the tags; \<open>acc\<close> holds the tag that has been opened.\<close>

fun outside :: "bool \<Rightarrow> bytes \<Rightarrow> bytes" where
  "outside b [] = []"
| "outside False (c # s) = (if c = CHR ''<'' then outside True s else c # outside False s)"
| "outside True (c # s) = outside (c \<noteq> CHR ''>'') s"

fun tags_in :: "bytes option \<Rightarrow> bytes \<Rightarrow> bytes list" where
  "tags_in acc [] = []"
| "tags_in None (c # s) = (if c = CHR ''<'' then tags_in (Some [c]) s else tags_in None s)"
| "tags_in (Some acc) (c # s) = (if c = CHR ''>'' then (acc @ [c]) # tags_in None s else tags_in (Some (acc @ [c])) s)"

definition plain :: "bytes \<Rightarrow> bool" where "plain s \<longleftrightarrow> CHR ''<'' \<notin> set s \<and> CHR ''>'' \<notin> set s"

definition is_tag :: "bytes \<Rightarrow> bool" where "is_tag s \<longleftrightarrow> (\<exists>m. s = CHR ''<'' # m @ ''>'' \<and> plain m)"

lemma outside_plain: "plain s \<Longrightarrow> outside False (s @ rest) = s @ outside False rest"
  by (induction s) (auto simp: plain_def)

lemma tags_in_plain: "plain s \<Longrightarrow> tags_in None (s @ rest) = tags_in None rest"
  by (induction s) (auto simp: plain_def)

lemma outside_inner: "CHR ''>'' \<notin> set m \<Longrightarrow> outside True (m @ ''>'' @ rest) = outside False rest"
  by (induction m) auto

lemma tags_in_inner: "CHR ''>'' \<notin> set m \<Longrightarrow> tags_in (Some acc) (m @ ''>'' @ rest) = (acc @ m @ ''>'') # tags_in None rest"
  by (induction m arbitrary: acc) auto

lemma read_tag:
  "is_tag s \<Longrightarrow> outside False (s @ rest) = outside False rest"
  "is_tag s \<Longrightarrow> tags_in None (s @ rest) = s # tags_in None rest"
  using outside_inner [of _ rest] tags_in_inner [of _ "''<''" rest] by (auto simp: is_tag_def plain_def)

lemma plain_not_tag: "plain s \<Longrightarrow> \<not> is_tag s"
  by (auto simp: is_tag_def plain_def)

text \<open>A text that consists of plain pieces and tags.\<close>

definition chunky :: "bytes list \<Rightarrow> bool" where "chunky cs \<longleftrightarrow> list_all (\<lambda>c. plain c \<or> is_tag c) cs"

lemma read_chunks:
  "chunky cs \<Longrightarrow> outside False (concat cs) = concat (filter (\<lambda>c. \<not> is_tag c) cs)"
  "chunky cs \<Longrightarrow> tags_in None (concat cs) = filter is_tag cs"
  by (induction cs) (auto simp: chunky_def read_tag outside_plain tags_in_plain plain_not_tag)

lemma plain_EscapeString: "plain (EscapeString s)"
  by (induction s) (auto simp: plain_def EscapeString_def escape_char_def)

lemma is_tagI: "plain (butlast m) \<Longrightarrow> m \<noteq> [] \<Longrightarrow> last m = CHR ''>'' \<Longrightarrow> is_tag (CHR ''<'' # m)"
  using append_butlast_last_id [of m] unfolding is_tag_def by metis

lemma link_tag: "is_tag (''<a href='' @ quote @ EscapeString u @ quote @ ''>'')"
  using plain_EscapeString [of u] is_tagI [of "''a href='' @ quote @ EscapeString u @ quote @ ''>''"]
  by (simp add: butlast_append quote_def plain_def)

lemma entity_tag_ok:
  "entityTags e \<noteq> ([], []) \<Longrightarrow> is_tag (fst (entityTags e)) \<and> is_tag (snd (entityTags e))"
  unfolding entityTags_def Let_def by (simp add: is_tagI link_tag [simplified] plain_def split: if_splits)

lemma write_runes_chunks:
  assumes "list_all is_tag (map tag_text ts)"
  shows "\<exists>cs. write_runes i rs ts = concat cs \<and> chunky cs \<and> filter is_tag cs = map tag_text ts
    \<and> concat (filter (\<lambda>c. \<not> is_tag c) cs) = EscapeString (utf8 rs)"
  using assms
proof (induction rs arbitrary: i ts)
  case Nil
  then have "filter (\<lambda>c. \<not> is_tag c) (map tag_text ts) = []" "filter is_tag (map tag_text ts) = map tag_text ts"
    by (simp_all only: filter_empty_conv filter_id_conv) (auto simp: list_all_iff)
  with Nil show ?case
    by (intro exI [of _ "map tag_text ts"]) (auto simp: chunky_def list_all_iff utf8_def EscapeString_def)
next
  case (Cons r rs)
  let ?now = "takeWhile (\<lambda>t. tag_pos t = i) ts" and ?later = "dropWhile (\<lambda>t. tag_pos t = i) ts"
  have all: "list_all is_tag (map tag_text ?now)" "list_all is_tag (map tag_text ?later)"
    using Cons.prems by (auto simp: list_all_iff dest: set_takeWhileD set_dropWhileD)
  obtain cs where cs: "write_runes (Suc i) rs ?later = concat cs" "chunky cs" "filter is_tag cs = map tag_text ?later"
      "concat (filter (\<lambda>c. \<not> is_tag c) cs) = EscapeString (utf8 rs)"
    using Cons.IH [OF all(2)] by blast
  have "filter (\<lambda>c. \<not> is_tag c) (map tag_text ?now) = []" "filter is_tag (map tag_text ?now) = map tag_text ?now"
    using all(1) by (simp_all only: filter_empty_conv filter_id_conv) (auto simp: list_all_iff)
  moreover have "map tag_text ?now @ map tag_text ?later = map tag_text ts" by (simp flip: map_append)
  moreover have "plain (EscapeString (encode_rune r))" by (rule plain_EscapeString)
  ultimately show ?case
    using cs all(1)
    by (intro exI [of _ "map tag_text ?now @ EscapeString (encode_rune r) # cs"])
      (auto simp: chunky_def list_all_iff plain_not_tag utf8_def EscapeString_def)
qed

text \<open>The rendered text of a message as chunks.\<close>

lemma rendered_chunks:
  assumes "\<forall>r \<in> set rs. is_rune r"
  shows "\<exists>cs. renderEntitiesHTML (utf8 rs) entities = concat cs \<and> chunky cs
    \<and> concat (filter (\<lambda>c. \<not> is_tag c) cs) = EscapeString (utf8 rs)
    \<and> set (filter is_tag cs) \<subseteq> (\<Union>e \<in> set entities. {fst (entityTags e), snd (entityTags e)})"
proof -
  define ts where "ts = sort_tags (concat (map (tags_of rs) entities))"
  have t: "t \<in> set ts \<Longrightarrow> \<exists>e \<in> set entities. entityTags e \<noteq> ([], []) \<and> tag_text t \<in> {fst (entityTags e), snd (entityTags e)}" for t
    by (auto simp: ts_def sort_tags_def tags_of_def case_prod_beta Let_def prod_eq_iff split: option.splits if_splits)
  then have ok: "list_all is_tag (map tag_text ts)"
    using entity_tag_ok by (fastforce simp: list_all_iff)
  show ?thesis
  proof (cases "entities = [] \<or> utf8 rs = []")
    case True
    then have "renderEntitiesHTML (utf8 rs) entities = EscapeString (utf8 rs)"
      by (auto simp: renderEntitiesHTML_def EscapeString_def)
    moreover have "plain (EscapeString (utf8 rs))" by (rule plain_EscapeString)
    ultimately show ?thesis
      by (intro exI [of _ "[EscapeString (utf8 rs)]"]) (simp add: chunky_def plain_not_tag)
  next
    case False
    then have "renderEntitiesHTML (utf8 rs) entities = write_runes 0 rs ts"
      using assms by (simp add: renderEntitiesHTML_def runes_of_utf8 ts_def)
    moreover obtain cs where "write_runes 0 rs ts = concat cs" "chunky cs" "filter is_tag cs = map tag_text ts"
        "concat (filter (\<lambda>c. \<not> is_tag c) cs) = EscapeString (utf8 rs)"
      using write_runes_chunks [OF ok] by blast
    moreover have "set (map tag_text ts) \<subseteq> (\<Union>e \<in> set entities. {fst (entityTags e), snd (entityTags e)})"
      using t by fastforce
    ultimately show ?thesis by (intro exI [of _ cs]) simp
  qed
qed

text \<open>C40. No message can put markup of its own into what the bot writes: whatever a user types and marks, a
  reader of the rendered text sees outside of tags exactly the escaped characters of the message,
  and meets no tag other than the opening and closing tags of the entities it carries.\<close>

theorem rendered_input_is_safe:
  assumes "\<forall>r \<in> set rs. is_rune r"
  shows "outside False (renderEntitiesHTML (utf8 rs) entities) = EscapeString (utf8 rs)
    \<and> set (tags_in None (renderEntitiesHTML (utf8 rs) entities))
        \<subseteq> (\<Union>e \<in> set entities. {fst (entityTags e), snd (entityTags e)})"
proof -
  obtain cs where "renderEntitiesHTML (utf8 rs) entities = concat cs" "chunky cs"
      "concat (filter (\<lambda>c. \<not> is_tag c) cs) = EscapeString (utf8 rs)"
      "set (filter is_tag cs) \<subseteq> (\<Union>e \<in> set entities. {fst (entityTags e), snd (entityTags e)})"
    using rendered_chunks [OF assms] by blast
  then show ?thesis by (simp only: read_chunks)
qed

definition link_entity :: message_entity where
  "link_entity = \<lparr>me_Type = ''text_link'', me_Offset = 0, me_Length = 3, me_URL = ''x'' @ quote @ ''><b>''\<rparr>"

theorem rendered_input_is_safe_witness:
  "outside False (renderEntitiesHTML (utf8 [0x3C, 0x62]) [link_entity]) = ''&lt;b''"
proof -
  have "EscapeString (utf8 [0x3C, 0x62]) = ''&lt;b''"
    by (simp add: utf8_def encode_rune_def byte_def EscapeString_def escape_char_def char_of_def bit_0)
  with rendered_input_is_safe [of "[0x3C, 0x62]" "[link_entity]"] show ?thesis by (simp add: is_rune_def)
qed

text \<open>Entities that end together are closed in the order in which they were opened.\<close>

lemma nested_entities_are_misnested:
  "renderEntitiesHTML ''ab'' [\<lparr>me_Type = ''bold'', me_Offset = 0, me_Length = 2, me_URL = []\<rparr>,
      \<lparr>me_Type = ''italic'', me_Offset = 0, me_Length = 2, me_URL = []\<rparr>] = ''<b><i>ab</b></i>''"
  by (simp add: renderEntitiesHTML_def Let_def decode_rune_def tags_of_def utf16UnitToRuneIndex_def entityTags_def
      sort_tags_def encode_rune_def byte_def EscapeString_def escape_char_def char_of_def bit_0)

end
