(* ===== verification/Messages.thy ===== *)
theory Messages imports GoStrings begin

text \<open>
  \<open>internal/messages\<close>: the catalogue of texts. \<open>parseCatalog\<close> reads the embedded file; \<open>Format\<close>
  replaces the placeholders of a text. The parsed catalogue is the list of its entries in the order
  of the file. \<open>Text\<close> panics for a key that the catalogue lacks; the formatters take the texts of a
  catalogue that has their keys, as the embedded file does.
\<close>

section \<open>The catalogue\<close>

datatype catalog_error = DuplicateMessageKey bytes | EmptyMessageKey | EmptyCatalog

record catalog_state =
  ct_result :: "(bytes \<times> bytes) list"
  ct_key :: bytes
  ct_builder :: bytes

definition newline :: char where "newline = CHR 0x0A"

definition trim_newlines :: "bytes \<Rightarrow> bytes" where
  "trim_newlines s = rev (dropWhile (\<lambda>c. c = newline) (rev (dropWhile (\<lambda>c. c = newline) s)))"

definition has_suffix :: "bytes \<Rightarrow> bytes \<Rightarrow> bool" where "has_suffix s p = has_prefix (rev s) (rev p)"

definition isEditorialComment :: "bytes \<Rightarrow> bool" where
  "isEditorialComment line = (let trimmed = trim_space line in has_prefix trimmed ''<!--'' \<and> has_suffix trimmed ''-->'')"

definition flush :: "catalog_state \<Rightarrow> catalog_error + catalog_state" where
  "flush s = (if ct_key s = [] then Inr s
     else if map_of (ct_result s) (ct_key s) \<noteq> None then Inl (DuplicateMessageKey (ct_key s))
     else Inr (s\<lparr>ct_result := ct_result s @ [(ct_key s, trim_newlines (ct_builder s))], ct_builder := []\<rparr>))"

fun parse_lines :: "catalog_state \<Rightarrow> bytes list \<Rightarrow> catalog_error + catalog_state" where
  "parse_lines s [] = Inr s"
| "parse_lines s (line # lines) =
     (if has_prefix line ''## '' then (case flush s of
          Inl e \<Rightarrow> Inl e
        | Inr s' \<Rightarrow> (let key = trim_space (trim_prefix line ''## '') in
            if key = [] then Inl EmptyMessageKey else parse_lines (s'\<lparr>ct_key := key\<rparr>) lines))
      else if isEditorialComment line \<or> ct_key s = [] then parse_lines s lines
      else parse_lines (s\<lparr>ct_builder := ct_builder s @ line @ [newline]\<rparr>) lines)"

definition parseCatalog :: "bytes \<Rightarrow> catalog_error + (bytes \<times> bytes) list" where
  "parseCatalog raw =
     (case parse_lines \<lparr>ct_result = [], ct_key = [], ct_builder = []\<rparr> (split_on newline raw) of
        Inl e \<Rightarrow> Inl e
      | Inr s \<Rightarrow> (case flush s of
          Inl e \<Rightarrow> Inl e
        | Inr s' \<Rightarrow> if ct_result s' = [] then Inl EmptyCatalog else Inr (ct_result s')))"

section \<open>Formatting\<close>

text \<open>\<open>strings.NewReplacer(pairs).Replace\<close>: one pass, the first pair that matches at a position.\<close>

fun replacer :: "(bytes \<times> bytes) list \<Rightarrow> bytes \<Rightarrow> bytes" where
  "replacer rs [] = []"
| "replacer rs (c # s) = (case List.find (\<lambda>(old, _). has_prefix (c # s) old) rs of
      None \<Rightarrow> c # replacer rs s
    | Some (old, new) \<Rightarrow> new @ replacer rs (drop (length old - 1) s))"

definition placeholder :: "bytes \<Rightarrow> bytes" where "placeholder name = ''{{'' @ name @ ''}}''"

definition Format :: "(bytes \<Rightarrow> bytes) \<Rightarrow> bytes \<Rightarrow> (bytes \<times> bytes) list \<Rightarrow> bytes" where
  "Format txt key pairs = (if pairs = [] then txt key
     else replacer (map (\<lambda>(name, value). (placeholder name, value)) pairs) (txt key))"

section \<open>Reading what was written\<close>

definition print_entry :: "bytes \<times> bytes \<Rightarrow> bytes" where
  "print_entry e = (case e of (key, value) \<Rightarrow> ''## '' @ key @ [newline] @ value @ [newline, newline])"

definition entry_ok :: "bytes \<times> bytes \<Rightarrow> bool" where
  "entry_ok e \<longleftrightarrow> (case e of (key, value) \<Rightarrow> key \<noteq> [] \<and> trim_space key = key \<and> newline \<notin> set key
     \<and> trim_newlines value = value
     \<and> list_all (\<lambda>line. \<not> has_prefix line ''## '' \<and> \<not> isEditorialComment line) (split_on newline value))"

definition lines_text :: "bytes list \<Rightarrow> bytes" where "lines_text ls = concat (map (\<lambda>l. l @ [newline]) ls)"

lemma parse_value_lines:
  assumes "list_all (\<lambda>line. \<not> has_prefix line ''## '' \<and> \<not> isEditorialComment line) ls" and "ct_key s \<noteq> []"
  shows "parse_lines s (ls @ rest) = parse_lines (s\<lparr>ct_builder := ct_builder s @ lines_text ls\<rparr>) rest"
  using assms by (induction ls arbitrary: s) (simp_all add: lines_text_def)

lemma lines_text_split: "lines_text (split_on newline v) = v @ [newline]"
proof (induction v)
  case (Cons c v)
  obtain p ps where "split_on newline v = p # ps" by (cases "split_on newline v") auto
  with Cons show ?case by (simp add: lines_text_def)
qed (simp add: lines_text_def)

lemma trim_newlines_snoc: "trim_newlines (s @ [newline]) = trim_newlines s"
proof (cases "\<exists>c \<in> set s. c \<noteq> newline")
  case True
  then have "dropWhile (\<lambda>c. c = newline) (s @ [newline]) = dropWhile (\<lambda>c. c = newline) s @ [newline]"
    by (auto intro: dropWhile_append1)
  then show ?thesis by (simp add: trim_newlines_def)
next
  case False
  then have "dropWhile (\<lambda>c. c = newline) s = []" "dropWhile (\<lambda>c. c = newline) (s @ [newline]) = []"
    by (simp_all only: dropWhile_eq_Nil_conv) auto
  then show ?thesis by (simp only: trim_newlines_def)
qed

lemma split_entry:
  "newline \<notin> set key \<Longrightarrow> split_on newline (print_entry (key, value) @ rest)
     = (''## '' @ key) # split_on newline value @ [] # split_on newline rest"
proof -
  have "split_on newline (v @ newline # r) = split_on newline v @ split_on newline r" for v r
    by (induction v) (auto split: list.splits)
  moreover assume "newline \<notin> set key"
  then have "newline \<notin> set (''## '' @ key)" by (simp add: newline_def)
  then have "split_on newline ((''## '' @ key) @ newline # s) = (''## '' @ key) # split_on newline s" for s
    by (rule split_on_append_sep)
  ultimately show ?thesis by (simp add: print_entry_def)
qed

text \<open>The entry that is being read.\<close>

definition pending :: "catalog_state \<Rightarrow> (bytes \<times> bytes) list" where
  "pending s = (if ct_key s = [] then [] else [(ct_key s, trim_newlines (ct_builder s))])"

definition tidy :: "catalog_state \<Rightarrow> bool" where "tidy s \<longleftrightarrow> (ct_key s = [] \<longrightarrow> ct_builder s = [])"

lemma flush_pending:
  "distinct (map fst (ct_result s @ pending s)) \<Longrightarrow> tidy s \<Longrightarrow>
   flush s = Inr (s\<lparr>ct_result := ct_result s @ pending s, ct_builder := []\<rparr>)"
  by (auto simp: flush_def pending_def tidy_def map_of_eq_None_iff)

lemma not_header [simp]: "\<not> has_prefix [] ''## ''" "has_prefix (''## '' @ k) ''## ''"
  by (simp_all add: has_prefix_def)

lemma parse_entry:
  assumes "entry_ok (key, value)" and "distinct (map fst (ct_result s @ pending s))" and "tidy s"
  shows "parse_lines s ((''## '' @ key) # split_on newline value @ [] # rest)
    = parse_lines \<lparr>ct_result = ct_result s @ pending s, ct_key = key, ct_builder = value @ [newline, newline]\<rparr> rest"
proof -
  have "\<not> isEditorialComment []" by (simp add: isEditorialComment_def has_prefix_def)
  moreover have "trim_prefix (''## '' @ key) ''## '' = key" by (simp add: trim_prefix_def has_prefix_def)
  ultimately show ?thesis
    using assms by (cases s, simp add: flush_pending entry_ok_def Let_def parse_value_lines lines_text_split del: append_Cons, simp)
qed

lemma parse_printed:
  assumes "list_all entry_ok es" and "distinct (map fst (ct_result s @ pending s @ es))" and "tidy s"
  shows "\<exists>s'. parse_lines s (split_on newline (concat (map print_entry es))) = Inr s' \<and> tidy s'
    \<and> ct_result s' @ pending s' = ct_result s @ pending s @ es"
  using assms
proof (induction es arbitrary: s)
  case Nil
  have "\<not> isEditorialComment []" by (simp add: isEditorialComment_def has_prefix_def)
  with Nil show ?case by (auto simp: pending_def tidy_def trim_newlines_snoc)
next
  case (Cons e es)
  obtain key val where e: "e = (key, val)" by fastforce
  define s1 where "s1 = \<lparr>ct_result = ct_result s @ pending s, ct_key = key, ct_builder = val @ [newline, newline]\<rparr>"
  have ok: "entry_ok (key, val)" "newline \<notin> set key" "key \<noteq> []" "trim_newlines val = val"
    using Cons.prems(1) e by (auto simp: entry_ok_def)
  have "trim_newlines (val @ [newline, newline]) = val"
    using trim_newlines_snoc [of "val @ [newline]"] trim_newlines_snoc [of val] ok(4) by simp
  then have p1: "ct_result s1 @ pending s1 = ct_result s @ pending s @ [(key, val)]" "tidy s1"
    using ok(3) by (simp_all add: s1_def pending_def tidy_def)
  have dist: "distinct (map fst (ct_result s @ pending s))" "distinct (map fst (ct_result s1 @ pending s1 @ es))"
    using Cons.prems(2) e p1(1) by (simp_all flip: append_assoc)
  have "parse_lines s (split_on newline (concat (map print_entry (e # es))))
      = parse_lines s1 (split_on newline (concat (map print_entry es)))"
    using parse_entry [OF ok(1) dist(1) Cons.prems(3)] split_entry [OF ok(2)] by (simp add: e s1_def)
  moreover obtain s' where "parse_lines s1 (split_on newline (concat (map print_entry es))) = Inr s'" "tidy s'"
      "ct_result s' @ pending s' = ct_result s1 @ pending s1 @ es"
    using Cons.IH [OF _ dist(2) p1(2)] Cons.prems(1) by auto
  ultimately show ?case using p1(1) e by (metis append.assoc append_Cons append_Nil)
qed

text \<open>The catalogue is read as it is written: for entries with different, trimmed keys and values without
  headings, comments and outer blank lines, parsing their file gives back the entries in order.\<close>

theorem catalog_roundtrip:
  assumes "list_all entry_ok es" and "distinct (map fst es)" and "es \<noteq> []"
  shows "parseCatalog (concat (map print_entry es)) = Inr es"
proof -
  let ?s = "\<lparr>ct_result = [], ct_key = [], ct_builder = []\<rparr>"
  obtain s' where s': "parse_lines ?s (split_on newline (concat (map print_entry es))) = Inr s'" "tidy s'"
      "ct_result s' @ pending s' = es"
    using parse_printed [of es ?s] assms(1,2) by (auto simp: pending_def tidy_def)
  then have "flush s' = Inr (s'\<lparr>ct_result := es, ct_builder := []\<rparr>)"
    using flush_pending [of s'] assms(2) by simp
  with s'(1) assms(3) show ?thesis by (simp add: parseCatalog_def)
qed

theorem catalog_roundtrip_witness:
  "parseCatalog (concat (map print_entry [(''a.title'', ''Hi {{person}}''), (''b'', ''B'')]))
    = Inr [(''a.title'', ''Hi {{person}}''), (''b'', ''B'')]"
  by (rule catalog_roundtrip)
    (simp_all add: entry_ok_def isEditorialComment_def trim_space_printable has_prefix_def trim_newlines_def newline_def)

section \<open>Filling a text\<close>

datatype piece = Lit bytes | Var bytes

fun piece_text :: "piece \<Rightarrow> bytes" where
  "piece_text (Lit s) = s"
| "piece_text (Var n) = placeholder n"

fun fill :: "(bytes \<times> bytes) list \<Rightarrow> piece \<Rightarrow> bytes" where
  "fill pairs (Lit s) = s"
| "fill pairs (Var n) = (case map_of pairs n of Some v \<Rightarrow> v | None \<Rightarrow> placeholder n)"

fun piece_ok :: "piece \<Rightarrow> bool" where
  "piece_ok (Lit s) \<longleftrightarrow> CHR ''{'' \<notin> set s"
| "piece_ok (Var n) \<longleftrightarrow> CHR ''{'' \<notin> set n \<and> CHR ''}'' \<notin> set n"

definition names_ok :: "(bytes \<times> bytes) list \<Rightarrow> bool" where
  "names_ok pairs \<longleftrightarrow> list_all (\<lambda>(n, _). CHR ''{'' \<notin> set n \<and> CHR ''}'' \<notin> set n) pairs"

definition olds :: "(bytes \<times> bytes) list \<Rightarrow> (bytes \<times> bytes) list" where
  "olds pairs = map (\<lambda>(name, value). (placeholder name, value)) pairs"

lemma has_prefix_append: "has_prefix s p \<longleftrightarrow> (\<exists>r. s = p @ r)"
  unfolding has_prefix_def by (metis append_eq_conv_conj append_take_drop_id)

lemma no_match:
  assumes "c \<noteq> CHR ''{'' \<or> s = [] \<or> hd s \<noteq> CHR ''{''"
  shows "List.find (\<lambda>(old, _). has_prefix (c # s) old) (olds pairs) = None"
  using assms by (auto simp: find_None_iff olds_def has_prefix_append placeholder_def)

lemma replacer_literal: "CHR ''{'' \<notin> set s \<Longrightarrow> replacer (olds pairs) (s @ r) = s @ replacer (olds pairs) r"
  by (induction s) (simp_all add: no_match not_sym)

lemma placeholder_prefix:
  assumes "CHR ''}'' \<notin> set m" and "CHR ''}'' \<notin> set n"
  shows "has_prefix (placeholder n @ r) (placeholder m) \<longleftrightarrow> m = n"
proof
  assume "has_prefix (placeholder n @ r) (placeholder m)"
  then obtain q where eq: "n @ CHR ''}'' # ''}'' @ r = m @ CHR ''}'' # ''}'' @ q"
    by (auto simp: has_prefix_append placeholder_def)
  have "takeWhile (\<lambda>c. c \<noteq> CHR ''}'') (s @ CHR ''}'' # t) = s" if "CHR ''}'' \<notin> set s" for s t
    using that by (induction s) auto
  with eq assms show "m = n" by metis
qed (simp add: has_prefix_append)

lemma find_placeholder:
  assumes "names_ok pairs" and "CHR ''}'' \<notin> set n"
  shows "List.find (\<lambda>(old, _). has_prefix (placeholder n @ r) old) (olds pairs)
    = map_option (\<lambda>v. (placeholder n, v)) (map_of pairs n)"
  using assms by (induction pairs) (auto simp: olds_def names_ok_def placeholder_prefix)

lemma replacer_variable:
  assumes "names_ok pairs" and "piece_ok (Var n)"
  shows "replacer (olds pairs) (placeholder n @ r) = fill pairs (Var n) @ replacer (olds pairs) r"
proof (cases "map_of pairs n")
  case (Some v)
  have "placeholder n @ r = CHR ''{'' # (''{'' @ n @ ''}}'' @ r)" by (simp add: placeholder_def)
  with find_placeholder [of pairs n r] assms Some show ?thesis
    by (simp add: placeholder_def)
next
  case None
  have "placeholder n @ r = CHR ''{'' # (''{'' @ n @ ''}}'' @ r)" by (simp add: placeholder_def)
  with find_placeholder [of pairs n r] assms None
  have "replacer (olds pairs) (placeholder n @ r) = CHR ''{'' # replacer (olds pairs) (''{'' @ n @ ''}}'' @ r)"
    by (simp add: placeholder_def)
  also have "\<dots> = CHR ''{'' # CHR ''{'' # replacer (olds pairs) ((n @ ''}}'') @ r)"
    using no_match [of "CHR ''{''" "n @ ''}}'' @ r" pairs] assms(2) by (cases n) auto
  also have "\<dots> = placeholder n @ replacer (olds pairs) r"
    using replacer_literal [of "n @ ''}}''" pairs r] assms(2) by (simp add: placeholder_def)
  finally show ?thesis using None by simp
qed

text \<open>Formatting fills the placeholders of a text and nothing else: each named placeholder becomes its value,
  one without a value stays as it is, and a value is never searched for placeholders again, so what a
  user typed cannot expand.\<close>

theorem format_fills_placeholders:
  assumes "txt key = concat (map piece_text ps)" and "list_all piece_ok ps" and "names_ok pairs"
  shows "Format txt key pairs = concat (map (fill pairs) ps)"
proof -
  have "replacer (olds pairs) (concat (map piece_text ps)) = concat (map (fill pairs) ps)"
    using assms(2)
  proof (induction ps)
    case (Cons p ps)
    have "replacer (olds pairs) (piece_text p @ r) = fill pairs p @ replacer (olds pairs) r" for r
    proof (cases p)
      case (Lit s)
      with Cons.prems show ?thesis by (simp add: replacer_literal)
    next
      case (Var n)
      with Cons.prems replacer_variable [OF assms(3), of n r] show ?thesis by simp
    qed
    with Cons show ?case by simp
  qed simp
  moreover have "concat (map (fill []) ps) = concat (map piece_text ps)"
    by (rule arg_cong [of _ _ concat], rule map_cong [OF refl], rename_tac p, case_tac p) simp_all
  ultimately show ?thesis using assms(1) by (simp add: Format_def olds_def)
qed

theorem format_fills_placeholders_witness:
  "Format (\<lambda>_. ''Hi {{a}}, {{b}}{{c}}'') ''k'' [(''b'', ''2''), (''a'', ''{{b}}'')] = ''Hi {{b}}, 2{{c}}''"
  using format_fills_placeholders [of "\<lambda>_. ''Hi {{a}}, {{b}}{{c}}''" "''k''"
      "[Lit ''Hi '', Var ''a'', Lit '', '', Var ''b'', Var ''c'']" "[(''b'', ''2''), (''a'', ''{{b}}'')]"]
  by (simp add: placeholder_def names_ok_def)

end
