(* ===== verification/Formatters.thy ===== *)
theory Formatters imports Messages Bot_Service begin

text \<open>
  \<open>internal/ui/formatters.go\<close>: the characters of the texts that the rest of the model keeps as
  views. \<open>texts\<close> holds what the formatters take from outside: the texts of the catalogue, the
  Unicode lower case of the runtime (used for strings that are not ASCII) and what \<open>fmt.Sprint\<close> makes
  of a payload, which only events of no known form show. Cyrillic words and emoji are written as the
  runes they consist of.
\<close>

record texts =
  tx_text :: "bytes \<Rightarrow> bytes"
  tx_lower :: "bytes \<Rightarrow> bytes"
  tx_sprint :: "payload \<Rightarrow> bytes"

abbreviation fmt :: "texts \<Rightarrow> bytes \<Rightarrow> (bytes \<times> bytes) list \<Rightarrow> bytes" where
  "fmt x key pairs \<equiv> Format (tx_text x) key pairs"

definition msg_text :: "texts \<Rightarrow> msg \<Rightarrow> bytes" where "msg_text x m = fmt x (msg_key m) (msg_args m)"

definition nl :: bytes where "nl = [newline]"

definition dash :: bytes where "dash = utf8 [0x2014]"

definition check_mark :: bytes where "check_mark = utf8 [0x2705]"

definition orange_diamond :: bytes where "orange_diamond = utf8 [0x1F538]"

definition cross_mark :: bytes where "cross_mark = utf8 [0x274C]"

section \<open>Names\<close>

datatype participantNameCase = participantNameNominative | participantNameGenitive

record participantNameForms =
  Nominative :: bytes
  Genitive :: bytes

definition igor_name :: participantNameForms where
  "igor_name = \<lparr>Nominative = utf8 [0x418, 0x433, 0x43E, 0x440, 0x44C],
     Genitive = utf8 [0x418, 0x433, 0x43E, 0x440, 0x44F]\<rparr>"

definition egor_name :: participantNameForms where
  "egor_name = \<lparr>Nominative = utf8 [0x415, 0x433, 0x43E, 0x440],
     Genitive = utf8 [0x415, 0x433, 0x43E, 0x440, 0x430]\<rparr>"

definition yaroslav_name :: participantNameForms where
  "yaroslav_name = \<lparr>Nominative = utf8 [0x42F, 0x440, 0x43E, 0x441, 0x43B, 0x430, 0x432],
     Genitive = utf8 [0x42F, 0x440, 0x43E, 0x441, 0x43B, 0x430, 0x432, 0x430]\<rparr>"

definition participantNamesByUsername :: "(bytes \<times> participantNameForms) list" where
  "participantNamesByUsername = [(''pheik13'', igor_name), (''whysoxxx'', egor_name),
     (''superssuperior'', yaroslav_name), (''superssuperiorr'', yaroslav_name)]"

definition participantNamesByToken :: "(bytes \<times> participantNameForms) list" where
  "participantNamesByToken =
     [(utf8 [0x438, 0x433, 0x43E, 0x440, 0x44C], igor_name), (utf8 [0x435, 0x433, 0x43E, 0x440], egor_name),
      (utf8 [0x44F, 0x440, 0x43E, 0x441, 0x43B, 0x430, 0x432], yaroslav_name),
      (''igor'', igor_name), (''egor'', egor_name), (''yaroslav'', yaroslav_name)]"

text \<open>\<open>strings.Fields\<close>; the fuel is the length of the string, as every word has a byte.\<close>

fun word_of :: "bytes \<Rightarrow> bytes" where
  "word_of [] = []"
| "word_of (c # s) = (if list_ex (has_prefix (c # s)) space_runes then [] else c # word_of s)"

fun fields_fuel :: "nat \<Rightarrow> bytes \<Rightarrow> bytes list" where
  "fields_fuel 0 s = []"
| "fields_fuel (Suc n) s = (let t = trim_left s; w = word_of t in
     if t = [] then [] else w # fields_fuel n (drop (length w) t))"

definition fields :: "bytes \<Rightarrow> bytes list" where "fields s = fields_fuel (length s) s"

text \<open>\<open>strings.Trim\<close> with a set of runes.\<close>

definition trim_runes :: "bytes list \<Rightarrow> bytes \<Rightarrow> bytes" where
  "trim_runes cutset s = (let t = trim_fuel (length s) cutset s in rev (trim_fuel (length t) (map rev cutset) (rev t)))"

definition punctuation :: "bytes list" where
  "punctuation = map (\<lambda>c. [c]) ''.,:;!?()[]{}<>'' @ [utf8 [0xAB], utf8 [0xBB], [CHR 0x22], [CHR 0x27]]"

definition participantNameFormsFor :: "texts \<Rightarrow> bytes \<Rightarrow> bytes \<Rightarrow> participantNameForms option" where
  "participantNameFormsFor x displayName username =
     (case map_of participantNamesByUsername (to_lower (tx_lower x) (trim_space (trim_prefix username ''@''))) of
        Some forms \<Rightarrow> Some forms
      | None \<Rightarrow> (case List.map_filter (\<lambda>tok. map_of participantNamesByToken
            (to_lower (tx_lower x) (trim_runes punctuation tok))) (fields displayName) of
          [] \<Rightarrow> None | forms # _ \<Rightarrow> Some forms))"

definition participantNameByCase :: "participantNameForms \<Rightarrow> participantNameCase \<Rightarrow> bytes" where
  "participantNameByCase forms c = (if c = participantNameGenitive \<and> Genitive forms \<noteq> [] then Genitive forms
     else Nominative forms)"

definition firstDisplayToken :: "bytes \<Rightarrow> bytes" where
  "firstDisplayToken displayName = (case fields displayName of [] \<Rightarrow> [] | w # _ \<Rightarrow> w)"

definition participantDisplayName :: "texts \<Rightarrow> bytes \<Rightarrow> bytes \<Rightarrow> participantNameCase \<Rightarrow> bytes" where
  "participantDisplayName x displayName username c = (case participantNameFormsFor x displayName username of
      Some forms \<Rightarrow> participantNameByCase forms c
    | None \<Rightarrow> if firstDisplayToken displayName \<noteq> [] then firstDisplayToken displayName
        else if trim_space username \<noteq> [] then trim_space username
        else tx_text x ''participant.fallback_name'')"

definition link_to :: "bytes \<Rightarrow> bytes \<Rightarrow> bytes" where
  "link_to url label = ''<a href='' @ quote @ url @ quote @ ''>'' @ label @ ''</a>''"

definition userLinkLabelCase :: "texts \<Rightarrow> bytes \<Rightarrow> bytes \<Rightarrow> int \<Rightarrow> participantNameCase \<Rightarrow> bytes" where
  "userLinkLabelCase x displayName username userID c =
     (let escaped = EscapeString (participantDisplayName x displayName username c) in
      if userID = 0 then escaped else link_to (''tg://user?id='' @ show_int userID) escaped)"

definition userLinkLabel :: "texts \<Rightarrow> bytes \<Rightarrow> bytes \<Rightarrow> int \<Rightarrow> bytes" where
  "userLinkLabel x displayName username userID = userLinkLabelCase x displayName username userID participantNameNominative"

definition personLabel :: "texts \<Rightarrow> bytes \<Rightarrow> bytes \<Rightarrow> bytes" where
  "personLabel x username displayName =
     EscapeString (participantDisplayName x displayName username participantNameNominative)"

definition participantLabel :: "texts \<Rightarrow> participant \<Rightarrow> bytes" where
  "participantLabel x p = personLabel x (case pt_Username p of None \<Rightarrow> [] | Some n \<Rightarrow> n) (pt_DisplayName p)"

definition profileLinkLabel :: "texts \<Rightarrow> payload \<Rightarrow> bytes" where
  "profileLinkLabel x payload =
     (let displayName = (if payloadString payload ''display_name'' = [] then tx_text x ''participant.fallback_name''
          else payloadString payload ''display_name'') in
      if payloadString payload ''username'' \<noteq> []
      then userLinkLabel x displayName (payloadString payload ''username'') (payloadInt64 payload ''user_id'')
      else userLinkLabel x displayName [] (payloadInt64 payload ''user_id''))"

section \<open>Parts of a text\<close>

definition mark :: "bool \<Rightarrow> bytes" where "mark value = (if value then check_mark else dash)"

definition join_lines :: "bytes list \<Rightarrow> bytes" where "join_lines ls = join_with nl ls"

definition appendNotice :: "bytes list \<Rightarrow> bytes \<Rightarrow> bytes" where
  "appendNotice lines notice = join_lines (if notice \<noteq> [] then
     lines @ [[], ''<blockquote>'' @ EscapeString notice @ ''</blockquote>''] else lines)"

definition renderSectionHTML :: "bytes \<Rightarrow> bytes" where
  "renderSectionHTML value = (if value = [] then ''<i>'' @ dash @ ''</i>''
     else if contains_str value ''<blockquote'' then value
     else ''<blockquote>'' @ value @ ''</blockquote>'')"

text \<open>
  A match of the regular expression \<open>(?i)</?a(?:\s+[^>]*)?>\<close> at the start of a string: what follows
  it. After the white space everything up to the next closing bracket belongs to the tag.
\<close>

definition is_re_space :: "char \<Rightarrow> bool" where
  "is_re_space c \<longleftrightarrow> (of_char c :: nat) \<in> {9, 10, 12, 13, 32}"

definition after_anchor_name :: "bytes \<Rightarrow> bytes option" where
  "after_anchor_name s = (case s of
      c # r \<Rightarrow> if c = CHR ''a'' \<or> c = CHR ''A'' then (case r of
          d # r' \<Rightarrow> if d = CHR ''>'' then Some r'
            else if is_re_space d \<and> CHR ''>'' \<in> set r' then Some (tl (dropWhile (\<lambda>e. e \<noteq> CHR ''>'') r'))
            else None
        | [] \<Rightarrow> None) else None
    | [] \<Rightarrow> None)"

definition match_anchor :: "bytes \<Rightarrow> bytes option" where
  "match_anchor s = (if has_prefix s ''</'' then after_anchor_name (drop 2 s)
     else if has_prefix s ''<'' then after_anchor_name (drop 1 s) else None)"

text \<open>\<open>anchorTagPattern.ReplaceAllString(value, "")\<close>; the fuel is the length of the string.\<close>

fun remove_anchors :: "nat \<Rightarrow> bytes \<Rightarrow> bytes" where
  "remove_anchors 0 s = []"
| "remove_anchors (Suc n) s = (case match_anchor s of
      Some r \<Rightarrow> remove_anchors n r
    | None \<Rightarrow> (case s of [] \<Rightarrow> [] | c # s' \<Rightarrow> c # remove_anchors n s'))"

definition renderTaskSectionHTML :: "bytes \<Rightarrow> bytes" where
  "renderTaskSectionHTML value = renderSectionHTML (remove_anchors (length value) value)"

definition renderInlineHTML :: "bytes \<Rightarrow> bytes" where
  "renderInlineHTML value = (if value = [] then dash
     else if contains_str value ''<'' \<and> contains_str value ''>'' then value
     else EscapeString value)"

definition payloadLink :: "payload \<Rightarrow> bytes \<Rightarrow> bytes \<Rightarrow> bytes" where
  "payloadLink payload key label = (let link = payloadString payload key in
     if link = [] then label else link_to (EscapeString link) label)"

definition payloadStringSlice :: "payload \<Rightarrow> bytes \<Rightarrow> bytes list" where
  "payloadStringSlice payload key = (case payload key of
      Some (JList values) \<Rightarrow> List.map_filter (\<lambda>v. case v of JStr item \<Rightarrow> if item \<noteq> [] then Some item else None | _ \<Rightarrow> None) values
    | _ \<Rightarrow> [])"

definition day_month :: "gotime \<Rightarrow> bytes" where
  "day_month t = (let c = t_civil t in pad2 (cd c) @ ''.'' @ pad2 (cm c))"

text \<open>\<open>Format("02.01.2006")\<close> for the years 0 to 9999.\<close>

definition day_month_year :: "gotime \<Rightarrow> bytes" where
  "day_month_year t = (let y = show_int (cy (t_civil t)) in
     day_month t @ ''.'' @ replicate (4 - length y) (CHR ''0'') @ y)"

definition routineWeekdays :: "bytes list" where
  "routineWeekdays =
     [utf8 [0x432, 0x43E, 0x441, 0x43A, 0x440, 0x435, 0x441, 0x435, 0x43D, 0x44C, 0x435],
      utf8 [0x43F, 0x43E, 0x43D, 0x435, 0x434, 0x435, 0x43B, 0x44C, 0x43D, 0x438, 0x43A],
      utf8 [0x432, 0x442, 0x43E, 0x440, 0x43D, 0x438, 0x43A],
      utf8 [0x441, 0x440, 0x435, 0x434, 0x443],
      utf8 [0x447, 0x435, 0x442, 0x432, 0x435, 0x440, 0x433],
      utf8 [0x43F, 0x44F, 0x442, 0x43D, 0x438, 0x446, 0x443],
      utf8 [0x441, 0x443, 0x431, 0x431, 0x43E, 0x442, 0x443]]"

definition routineMonths :: "bytes list" where
  "routineMonths =
     [utf8 [0x44F, 0x43D, 0x432, 0x430, 0x440, 0x44F],
      utf8 [0x444, 0x435, 0x432, 0x440, 0x430, 0x43B, 0x44F],
      utf8 [0x43C, 0x430, 0x440, 0x442, 0x430],
      utf8 [0x430, 0x43F, 0x440, 0x435, 0x43B, 0x44F],
      utf8 [0x43C, 0x430, 0x44F],
      utf8 [0x438, 0x44E, 0x43D, 0x44F],
      utf8 [0x438, 0x44E, 0x43B, 0x44F],
      utf8 [0x430, 0x432, 0x433, 0x443, 0x441, 0x442, 0x430],
      utf8 [0x441, 0x435, 0x43D, 0x442, 0x44F, 0x431, 0x440, 0x44F],
      utf8 [0x43E, 0x43A, 0x442, 0x44F, 0x431, 0x440, 0x44F],
      utf8 [0x43D, 0x43E, 0x44F, 0x431, 0x440, 0x44F],
      utf8 [0x434, 0x435, 0x43A, 0x430, 0x431, 0x440, 0x44F]]"

text \<open>The weekdays start with Sunday. Every weekday and every month has a name.\<close>

definition routineDateLabel :: "gotime \<Rightarrow> bytes" where
  "routineDateLabel date = (let c = t_civil date in
     routineWeekdays ! nat (t_weekday date) @ '', '' @ show_int (cd c) @ '' '' @ routineMonths ! nat (cm c - 1))"

definition routineLinkedWord :: "bytes \<Rightarrow> bytes \<Rightarrow> bytes" where
  "routineLinkedWord word routineLink = (if trim_space routineLink = [] then EscapeString word
     else link_to (EscapeString routineLink) (EscapeString word))"

section \<open>Counted words\<close>

text \<open>The remainder of Go, which has the sign of the dividend.\<close>

definition go_rem :: "int \<Rightarrow> int \<Rightarrow> int" where "go_rem a b = a - b * trunc_div a b"

definition russianPlural :: "int \<Rightarrow> bytes \<Rightarrow> bytes \<Rightarrow> bytes \<Rightarrow> bytes" where
  "russianPlural count one few many = (let mod100 = go_rem count 100; mod10 = go_rem count 10 in
     if 11 \<le> mod100 \<and> mod100 \<le> 14 then many
     else if mod10 = 1 then one
     else if mod10 = 2 \<or> mod10 = 3 \<or> mod10 = 4 then few else many)"

definition daysLabel :: "texts \<Rightarrow> int \<Rightarrow> bytes" where
  "daysLabel x n = (let days = max n 0 in show_int days @ '' '' @
     russianPlural days (tx_text x ''goals.days.one'') (tx_text x ''goals.days.few'') (tx_text x ''goals.days.many''))"

definition reviewsLabel :: "texts \<Rightarrow> int \<Rightarrow> bytes" where
  "reviewsLabel x n = (let reviews = max n 0 in show_int reviews @ '' '' @
     russianPlural reviews (tx_text x ''goals.reviews.one'') (tx_text x ''goals.reviews.few'')
       (tx_text x ''goals.reviews.many''))"

definition routineItemsCountLabel :: "texts \<Rightarrow> int \<Rightarrow> bytes" where
  "routineItemsCountLabel x count = (let m10 = go_rem count 10; m100 = go_rem count 100;
       key = (if m10 = 1 \<and> m100 \<noteq> 11 then ''routine.items_count.one''
         else if 2 \<le> m10 \<and> m10 \<le> 4 \<and> (m100 < 10 \<or> 20 \<le> m100) then ''routine.items_count.few''
         else ''routine.items_count.many'')
     in fmt x key [(''count'', show_int count)])"

definition one_day :: bytes where "one_day = utf8 [0x434, 0x435, 0x43D, 0x44C]"

definition few_days :: bytes where "few_days = utf8 [0x434, 0x43D, 0x44F]"

definition many_days :: bytes where "many_days = utf8 [0x434, 0x43D, 0x435, 0x439]"

definition routineDaysLabel :: "int \<Rightarrow> bytes" where
  "routineDaysLabel count = show_int count @ '' '' @ russianPlural count one_day few_days many_days"

definition routineSeriesDaysLabel :: "int \<Rightarrow> bytes" where
  "routineSeriesDaysLabel count = show_int count @ '' '' @
     (if go_rem count 10 = 1 \<and> go_rem count 100 \<noteq> 11 then few_days else many_days)"

section \<open>Set-up\<close>

definition FormatSetupChecklist ::
    "texts \<Rightarrow> bool \<Rightarrow> bool \<Rightarrow> bool \<Rightarrow> bool \<Rightarrow> bool \<Rightarrow> bool \<Rightarrow> bytes \<Rightarrow> bytes" where
  "FormatSetupChecklist x ready isSupergroup isForum isAdmin canManageTopics canReadMessages notice =
     (let line = (\<lambda>ok key. mark ok @ '' '' @ tx_text x key) in
      appendNotice [tx_text x ''setup.checklist.title'', [],
        tx_text x (if ready then ''setup.checklist.ready'' else ''setup.checklist.pending''), [],
        line isSupergroup ''setup.checklist.supergroup'', line isForum ''setup.checklist.forum'',
        line isAdmin ''setup.checklist.admin'', line canManageTopics ''setup.checklist.topics'',
        line canReadMessages ''setup.checklist.messages'', [], tx_text x ''setup.checklist.footer''] notice)"

section \<open>Daily entries\<close>

fun dailyTaskCardEmoji :: "daily_task_status \<Rightarrow> bytes" where
  "dailyTaskCardEmoji DailyTaskDone = check_mark"
| "dailyTaskCardEmoji DailyTaskPartial = orange_diamond"
| "dailyTaskCardEmoji DailyTaskFailed = cross_mark"
| "dailyTaskCardEmoji DailyTaskAwaitingReport = utf8 [0x1F3C1]"
| "dailyTaskCardEmoji DailyTaskActive = utf8 [0x1F3AF]"

definition dailyTaskCardTitle :: "texts \<Rightarrow> daily_task_status \<Rightarrow> bytes \<Rightarrow> bytes \<Rightarrow> int \<Rightarrow> bytes" where
  "dailyTaskCardTitle x status displayName username userID =
     (let person = userLinkLabel x displayName username userID in
      case status of
        DailyTaskDone \<Rightarrow> fmt x ''daily.card.closed.done'' [(''person'', person)]
      | DailyTaskPartial \<Rightarrow> fmt x ''daily.card.closed.partial'' [(''person'', person)]
      | DailyTaskFailed \<Rightarrow> fmt x ''daily.card.closed.failed'' [(''person'', person)]
      | _ \<Rightarrow> fmt x ''daily.card.title'' [(''emoji'', dailyTaskCardEmoji status),
          (''person'', userLinkLabelCase x displayName username userID participantNameGenitive)])"

definition dailySummaryCardTitle :: "texts \<Rightarrow> daily_task \<Rightarrow> bytes \<Rightarrow> bytes" where
  "dailySummaryCardTitle x task person = fmt x (case tk_Status task of
       DailyTaskDone \<Rightarrow> ''daily.summary.closed.done''
     | DailyTaskPartial \<Rightarrow> ''daily.summary.closed.partial''
     | DailyTaskFailed \<Rightarrow> (if tk_ReportText task = None \<or> tk_ReportText task = Some []
         then ''daily.summary.closed.missed'' else ''daily.summary.closed.failed'')
     | _ \<Rightarrow> ''daily.summary.card.title'') [(''person'', person)]"

definition report_lines :: "bytes option \<Rightarrow> bytes \<Rightarrow> bytes list" where
  "report_lines report title = (case report of None \<Rightarrow> []
     | Some r \<Rightarrow> if r = [] then [] else [[], title, renderSectionHTML r])"

definition FormatDailySummaryCard :: "texts \<Rightarrow> daily_task \<Rightarrow> bytes \<Rightarrow> bytes \<Rightarrow> bytes \<Rightarrow> bytes" where
  "FormatDailySummaryCard x task displayName username notice =
     (if is_open (tk_Status task) then
        appendNotice [fmt x ''daily.summary.card.title'' [(''person'',
            userLinkLabelCase x displayName username (tk_OwnerUserID task) participantNameGenitive)],
          [], tx_text x ''daily.summary.card.awaiting''] notice
      else appendNotice (dailySummaryCardTitle x task (userLinkLabel x displayName username (tk_OwnerUserID task))
          # report_lines (tk_ReportText task) (tx_text x ''daily.summary.body'')) notice)"

definition FormatDailyTaskCard :: "texts \<Rightarrow> daily_task \<Rightarrow> bytes \<Rightarrow> bytes \<Rightarrow> bytes \<Rightarrow> bytes" where
  "FormatDailyTaskCard x task displayName username notice =
     (if is_summary (tk_Kind task) then FormatDailySummaryCard x task displayName username notice
      else appendNotice ([dailyTaskCardTitle x (tk_Status task) displayName username (tk_OwnerUserID task), [],
          tx_text x ''daily.card.plan'', renderTaskSectionHTML (tk_Text task)]
        @ report_lines (tk_ReportText task) (tx_text x ''daily.card.report'')) notice)"

definition with_nudge :: "bytes \<Rightarrow> bytes \<Rightarrow> bytes" where
  "with_nudge prompt nudge = join_lines (split_on newline prompt
     @ (if nudge \<noteq> [] then [[], utf8 [0x1F4A1] @ '' '' @ EscapeString nudge] else []))"

definition DailyTaskTextPrompt :: "texts \<Rightarrow> bytes \<Rightarrow> bytes" where
  "DailyTaskTextPrompt x nudge = with_nudge (tx_text x ''daily.prompt.task'') nudge"

definition DailyTaskReportPrompt :: "texts \<Rightarrow> bytes \<Rightarrow> bytes" where
  "DailyTaskReportPrompt x nudge = with_nudge (tx_text x ''daily.prompt.report'') nudge"

definition DailySummaryReportPrompt :: "texts \<Rightarrow> bytes" where
  "DailySummaryReportPrompt x = tx_text x ''daily.summary.prompt.report''"

section \<open>Routines\<close>

definition routine_word :: bytes where "routine_word = utf8 [0x420, 0x443, 0x442, 0x438, 0x43D, 0x430]"

definition routine_word_accusative :: bytes where "routine_word_accusative = utf8 [0x440, 0x443, 0x442, 0x438, 0x43D, 0x443]"

definition RoutinePlanPrompt :: "texts \<Rightarrow> bytes" where "RoutinePlanPrompt x = tx_text x ''routine.plan.prompt''"

definition FormatRoutinePlanSaved :: "texts \<Rightarrow> bytes \<Rightarrow> bytes" where
  "FormatRoutinePlanSaved x routineLink = (if trim_space routineLink = [] then tx_text x ''routine.plan.saved_no_link''
     else fmt x ''routine.plan.saved'' [(''link'', EscapeString routineLink)])"

definition routineCheckinAllDone :: "routine_checkin \<Rightarrow> bool" where
  "routineCheckinAllDone c \<longleftrightarrow> rc_Items c \<noteq> [] \<and> list_all (\<lambda>it. ri_Status it = Some RoutineItemDone) (rc_Items c)"

definition routineCheckinPartialItems :: "routine_checkin \<Rightarrow> routine_checkin_item list option" where
  "routineCheckinPartialItems c = (let partial = filter (\<lambda>it. ri_Status it = Some RoutineItemPartial) (rc_Items c) in
     if list_all (\<lambda>it. ri_Status it = Some RoutineItemDone \<or> ri_Status it = Some RoutineItemPartial) (rc_Items c)
       \<and> partial \<noteq> [] then Some partial else None)"

definition routineItemLine :: "routine_checkin_item \<Rightarrow> bytes" where
  "routineItemLine it = (case ri_Status it of None \<Rightarrow> dash | Some RoutineItemDone \<Rightarrow> check_mark
     | Some RoutineItemPartial \<Rightarrow> orange_diamond | Some RoutineItemFailed \<Rightarrow> cross_mark) @ '' '' @ EscapeString (ri_Text it)"

definition item_lines :: "texts \<Rightarrow> routine_checkin_item list \<Rightarrow> bytes list" where
  "item_lines x its = concat (map (\<lambda>it. routineItemLine it # (case ri_ReasonText it of
       Some reason \<Rightarrow> if reason = [] then [] else [fmt x ''routine.item.reason_label'' [(''reason'', renderInlineHTML reason)]]
     | None \<Rightarrow> [])) its)"

definition formatRoutineCheckinCard ::
    "texts \<Rightarrow> routine_checkin \<Rightarrow> bytes \<Rightarrow> bytes \<Rightarrow> bytes \<Rightarrow> bytes \<Rightarrow> bytes" where
  "formatRoutineCheckinCard x c displayName username routineLink notice =
     (let person = EscapeString (participantDisplayName x displayName username participantNameGenitive);
          title = fmt x ''routine.card.title'' [(''emoji'', tx_text x ''routine.header_emoji''),
            (''routine'', EscapeString routine_word),
            (''date'', routineDateLabel (date_time (rc_CheckinDate c))), (''person'', person)];
          head_lines = title # (if 0 \<le> NextRoutineItemIndex c then [[], tx_text x ''routine.card.subtitle'', []] else [[]]);
          reflection = (if rc_CompletedAt c \<noteq> None
            then report_lines (rc_ReflectionText c) (tx_text x ''daily.card.report'') else [])
      in appendNotice (head_lines @ item_lines x (rc_Items c) @ reflection) notice)"

definition FormatRoutineCheckinCard ::
    "texts \<Rightarrow> routine_checkin \<Rightarrow> bytes \<Rightarrow> bytes \<Rightarrow> bytes \<Rightarrow> bytes \<Rightarrow> bytes" where
  "FormatRoutineCheckinCard = formatRoutineCheckinCard"

definition FormatRoutineCheckinStatusCard ::
    "texts \<Rightarrow> routine_checkin \<Rightarrow> bytes \<Rightarrow> bytes \<Rightarrow> bytes \<Rightarrow> bytes \<Rightarrow> bytes" where
  "FormatRoutineCheckinStatusCard = formatRoutineCheckinCard"

definition completed_line :: "texts \<Rightarrow> bytes \<Rightarrow> routine_checkin \<Rightarrow> bytes \<Rightarrow> bytes \<Rightarrow> bytes \<Rightarrow> bytes" where
  "completed_line x key c displayName username routineLink = fmt x key [(''emoji'', tx_text x ''routine.header_emoji''),
     (''date'', routineDateLabel (date_time (rc_CheckinDate c))), (''person'', personLabel x username displayName),
     (''routine'', routineLinkedWord routine_word_accusative routineLink)]"

definition FormatRoutineCheckinFinishedCard ::
    "texts \<Rightarrow> routine_checkin \<Rightarrow> bytes \<Rightarrow> bytes \<Rightarrow> bytes \<Rightarrow> bytes \<Rightarrow> bytes" where
  "FormatRoutineCheckinFinishedCard x c displayName username routineLink notice =
     (if routineCheckinAllDone c then
        appendNotice [completed_line x ''routine.card.completed_all'' c displayName username routineLink] notice
      else (case routineCheckinPartialItems c of
          Some partial \<Rightarrow> appendNotice ([completed_line x ''routine.card.completed_partial'' c displayName username routineLink, []]
              @ item_lines x partial) notice
        | None \<Rightarrow> FormatRoutineCheckinStatusCard x c displayName username routineLink notice))"

definition FormatRoutineReasonPrompt :: "texts \<Rightarrow> bytes \<Rightarrow> bytes" where
  "FormatRoutineReasonPrompt x itemText = fmt x ''routine.reason.prompt'' [(''item'', EscapeString itemText)]"

definition RoutineReminderText :: "texts \<Rightarrow> routine_checkin \<Rightarrow> bytes \<Rightarrow> bytes \<Rightarrow> int \<Rightarrow> bytes" where
  "RoutineReminderText x c displayName username userID =
     fmt x (if ShouldShowPersonalAlert (tx_lower x) username (''routine-reminder:'' @ show_int (rc_ID c))
         then ''routine.reminder.egor'' else ''routine.reminder'')
       [(''date'', day_month (date_time (rc_CheckinDate c))), (''person'', userLinkLabel x displayName username userID)]"

definition RoutineAutoClosedText :: "texts \<Rightarrow> routine_checkin \<Rightarrow> bytes \<Rightarrow> bytes \<Rightarrow> int \<Rightarrow> bytes \<Rightarrow> bytes" where
  "RoutineAutoClosedText x c displayName username userID routineLink = fmt x ''routine.auto_closed''
     [(''date'', day_month (date_time (rc_CheckinDate c))), (''person'', userLinkLabel x displayName username userID),
      (''routine'', routineLinkedWord routine_word routineLink)]"

definition routineLeaderboardBadge :: "nat \<Rightarrow> bytes" where
  "routineLeaderboardBadge index = (if index = 0 then utf8 [0x2728, 0x20] else [])"

definition leaderboard_line :: "texts \<Rightarrow> nat \<times> leaderboard_entry \<Rightarrow> bytes" where
  "leaderboard_line x p = (case p of (i, entry) \<Rightarrow> fmt x ''routine.leaderboard.entry''
     [(''rank'', show_int (int i + 1)), (''badge'', routineLeaderboardBadge i),
      (''participant'', participantLabel x (le_Participant entry)),
      (''rate'', show_int (round_even (le_CompletionRate entry))),
      (''streak_days'', routineSeriesDaysLabel (le_CurrentStreak entry)),
      (''items'', routineItemsCountLabel x (le_RoutineItemCount entry))])"

definition best_entry :: "leaderboard_entry \<Rightarrow> leaderboard_entry list \<Rightarrow> leaderboard_entry" where
  "best_entry e es = fold (\<lambda>entry best. if le_MaxStreak best < le_MaxStreak entry then entry else best) es e"

definition FormatRoutineLeaderboard :: "texts \<Rightarrow> leaderboard_entry list \<Rightarrow> bytes" where
  "FormatRoutineLeaderboard x entries =
     (let start = [tx_text x ''routine.leaderboard.title'', []] in
      case entries of [] \<Rightarrow> join_lines (start @ [tx_text x ''routine.leaderboard.empty''])
      | first # _ \<Rightarrow> (let best = best_entry first entries in
          join_lines (start @ map (leaderboard_line x) (enumerate 0 (take 10 entries))
            @ [[], tx_text x ''routine.leaderboard.best_title'',
               fmt x ''routine.leaderboard.best_entry'' [(''participant'', participantLabel x (le_Participant best)),
                 (''streak_days'', routineDaysLabel (le_MaxStreak best))]])))"

end
