(* ===== verification/Message_Texts.thy ===== *)
theory Message_Texts imports Formatters Bot_Goals Bot_Routines begin

text \<open>
  The rest of \<open>internal/ui/formatters.go\<close>: the texts of goals, progress events and alerts; and
  \<open>view_text\<close>, which gives the characters of every view that the bot and the worker send.
\<close>

section \<open>Goals\<close>

definition SeasonalGoalsPrompt :: "texts \<Rightarrow> goal_period \<Rightarrow> bytes" where
  "SeasonalGoalsPrompt x period = fmt x ''goals.prompt''
     [(''period'', EscapeString (msg_text x (gp_title period))), (''date'', day_month_year (gp_ends period))]"

definition FormatGoalsSaved :: "texts \<Rightarrow> bytes \<Rightarrow> bytes" where
  "FormatGoalsSaved x goalsLink = (if trim_space goalsLink = [] then tx_text x ''goals.saved_no_link''
     else fmt x ''goals.saved'' [(''link'', EscapeString goalsLink)])"

definition FormatSeasonalGoalCard :: "texts \<Rightarrow> seasonal_goal_set \<Rightarrow> bytes \<Rightarrow> bytes \<Rightarrow> bytes \<Rightarrow> bytes" where
  "FormatSeasonalGoalCard x g displayName username notice = appendNotice
     [fmt x ''goals.card.title'' [(''period'', EscapeString (to_lower (tx_lower x) (msg_text x (gs_PeriodTitle g)))),
        (''person'', personLabel x username displayName)], [],
      fmt x ''goals.card.deadline'' [(''date'', day_month_year (date_time (gs_PeriodEndsOn g)))], [],
      renderSectionHTML (gs_GoalsText g)] notice"

definition goals_source :: "texts \<Rightarrow> bytes \<Rightarrow> bytes" where
  "goals_source x goalsLink = (if goalsLink \<noteq> [] then fmt x ''goals.weekly.source'' [(''link'', EscapeString goalsLink)]
     else tx_text x ''goals.weekly.source_missing'')"

definition FormatGoalWeeklyReviewPrompt :: "texts \<Rightarrow> bytes \<Rightarrow> bytes \<Rightarrow> bytes \<Rightarrow> int \<Rightarrow> int \<Rightarrow> bytes" where
  "FormatGoalWeeklyReviewPrompt x displayName username goalsLink daysLeft reviewsLeft = join_lines
     [tx_text x ''goals.weekly.title'', [], fmt x ''goals.weekly.intro'' [(''person'', personLabel x username displayName)], [],
      goals_source x goalsLink,
      fmt x ''goals.weekly.countdown'' [(''days'', daysLabel x daysLeft), (''reviews'', reviewsLabel x reviewsLeft)], [],
      tx_text x ''goals.weekly.q1'', tx_text x ''goals.weekly.q2'', tx_text x ''goals.weekly.q3'']"

definition final_title :: "texts \<Rightarrow> seasonal_goal_set \<Rightarrow> bytes" where
  "final_title x g = fmt x ''goals.final.title'' [(''period'', EscapeString (msg_text x (gs_PeriodTitle g)))]"

definition FormatGoalFinalReviewPrompt :: "texts \<Rightarrow> seasonal_goal_set \<Rightarrow> bytes \<Rightarrow> bytes \<Rightarrow> bytes \<Rightarrow> bytes" where
  "FormatGoalFinalReviewPrompt x g displayName username goalsLink = join_lines
     [final_title x g, [], fmt x ''goals.final.ask_status'' [(''person'', personLabel x username displayName)], [],
      goals_source x goalsLink]"

definition FormatGoalWeeklyReviewSaved :: "texts \<Rightarrow> goal_weekly_review \<Rightarrow> int \<Rightarrow> bytes" where
  "FormatGoalWeeklyReviewSaved x review chatID = join_lines (tx_text x ''goals.weekly.saved'' #
     (case wr_ResponseMessageID review of None \<Rightarrow> []
      | Some mid \<Rightarrow> [[], fmt x ''goals.weekly.saved_source'' [(''link'',
          EscapeString (MessageLink chatID mid (opt0 (wr_ResponseMessageThreadID review))))]]))"

fun goalFinalStatusLabel :: "texts \<Rightarrow> goal_final_status \<Rightarrow> bytes" where
  "goalFinalStatusLabel x GoalFinalDone = tx_text x ''goals.status.done''"
| "goalFinalStatusLabel x GoalFinalPartial = tx_text x ''goals.status.partial''"
| "goalFinalStatusLabel x GoalFinalFailed = tx_text x ''goals.status.failed''"

definition FormatGoalFinalReflectionPrompt :: "texts \<Rightarrow> seasonal_goal_set \<Rightarrow> goal_final_status \<Rightarrow> bytes" where
  "FormatGoalFinalReflectionPrompt x g status = join_lines
     [final_title x g, [], fmt x ''goals.final.score'' [(''status'', goalFinalStatusLabel x status)], [],
      tx_text x ''goals.final.reflection_intro'', tx_text x ''goals.final.reflection_done'',
      tx_text x ''goals.final.reflection_failed'', tx_text x ''goals.final.reflection_next'']"

definition FormatGoalFinalReflectionDraft :: "texts \<Rightarrow> seasonal_goal_set \<Rightarrow> goal_final_status \<Rightarrow> int \<Rightarrow> bytes" where
  "FormatGoalFinalReflectionDraft x g status parts = join_lines
     [FormatGoalFinalReflectionPrompt x g status, [],
      fmt x ''goals.final.parts_saved'' [(''count'', show_int parts)], tx_text x ''goals.final.finish_hint'']"

definition FormatGoalFinalReviewSaved ::
    "texts \<Rightarrow> seasonal_goal_set \<Rightarrow> goal_final_review \<Rightarrow> bytes \<Rightarrow> bytes \<Rightarrow> int \<Rightarrow> bytes" where
  "FormatGoalFinalReviewSaved x g review displayName username chatID =
     (let status = (case fr_Status review of None \<Rightarrow> dash | Some st \<Rightarrow> goalFinalStatusLabel x st);
          part = (\<lambda>(index, mid). fmt x ''goals.final.saved_part''
            [(''link'', EscapeString (MessageLink chatID mid (opt0 (fr_PromptMessageThreadID review)))),
             (''number'', show_int (int index + 1))]);
          parts = map part (enumerate 0 (fr_SummaryMessageIDs review))
      in join_lines ([fmt x ''goals.final.saved_title'' [(''period'', EscapeString (msg_text x (gs_PeriodTitle g))),
            (''person'', personLabel x username displayName)], [],
          fmt x ''goals.final.score'' [(''status'', status)]]
        @ (if parts = [] then [] else [[], fmt x ''goals.final.saved_summary''
            [(''parts'', join_with (utf8 [0x20, 0xB7, 0x20]) parts)]])))"

section \<open>Progress\<close>

text \<open>\<open>strings.Replace(s, old, new, 1)\<close> for a non-empty \<open>old\<close>.\<close>

fun replace_first :: "bytes \<Rightarrow> bytes \<Rightarrow> bytes \<Rightarrow> bytes" where
  "replace_first old new [] = []"
| "replace_first old new (c # s) = (if has_prefix (c # s) old then new @ drop (length old) (c # s)
     else c # replace_first old new s)"

definition closed_key :: "bytes \<Rightarrow> bytes \<Rightarrow> bytes \<Rightarrow> bytes" where
  "closed_key stem status fallback = (if status = ''done'' \<or> status = ''partial'' \<or> status = ''failed''
     then stem @ status else stem @ fallback)"

definition dailyTaskClosedTitle :: "texts \<Rightarrow> bytes \<Rightarrow> bytes \<Rightarrow> bytes \<Rightarrow> bytes" where
  "dailyTaskClosedTitle x status person action = fmt x (closed_key ''progress.daily.closed.'' status ''default'')
     [(''person'', person), (''action'', action)]"

definition dailySummaryClosedProgressTitle :: "texts \<Rightarrow> bytes \<Rightarrow> bytes \<Rightarrow> bytes \<Rightarrow> bytes" where
  "dailySummaryClosedProgressTitle x status person action =
     fmt x (closed_key ''progress.summary.closed.'' status ''done'') [(''person'', person), (''action'', action)]"

definition closed_action :: "bytes \<Rightarrow> bytes \<Rightarrow> bytes" where
  "closed_action label reportLink = (if reportLink = [] then label else link_to (EscapeString reportLink) label)"

definition dailyTaskClosedAction :: "texts \<Rightarrow> bytes \<Rightarrow> bytes \<Rightarrow> bytes" where
  "dailyTaskClosedAction x status reportLink =
     closed_action (tx_text x (closed_key ''progress.daily.action.'' status ''done'')) reportLink"

definition dailySummaryClosedAction :: "texts \<Rightarrow> bytes \<Rightarrow> bytes \<Rightarrow> bytes" where
  "dailySummaryClosedAction x status reportLink =
     closed_action (tx_text x (closed_key ''progress.summary.action.'' status ''done'')) reportLink"

definition formatSystemProgressAlert :: "texts \<Rightarrow> payload \<Rightarrow> bytes" where
  "formatSystemProgressAlert x payload =
     (if payloadString payload ''kind'' \<noteq> ''edit_failed'' then tx_text x ''progress.system'' @ nl @ nl @ tx_sprint x payload
      else (let target0 = payloadString payload ''target''; link = payloadString payload ''message'';
                target1 = (if link \<noteq> [] \<and> target0 \<noteq> [] then link_to (EscapeString link) (EscapeString target0)
                  else EscapeString target0);
                target = (if target1 = [] then tx_text x ''progress.edit_failed.target_unknown'' else target1);
                errText = payloadString payload ''error''
        in join_lines ([tx_text x ''progress.edit_failed.title'', [], tx_text x ''progress.edit_failed.body'', [],
              fmt x ''progress.edit_failed.target'' [(''target'', target)]]
            @ (if errText = [] then [] else [fmt x ''progress.edit_failed.error'' [(''error'', EscapeString errText)]]))))"

definition formatCustomProgressUpdate :: "texts \<Rightarrow> payload \<Rightarrow> bytes" where
  "formatCustomProgressUpdate x payload =
     (let title = (if payloadString payload ''title'' = [] then tx_text x ''progress.custom.default_title''
            else payloadString payload ''title'');
          body = payloadString payload ''body''; items = payloadStringSlice payload ''items''
      in join_lines ([utf8 [0x1F680, 0x20] @ ''<b>'' @ EscapeString title @ ''</b>'']
        @ (if body = [] then [] else [[], EscapeString body])
        @ (if items = [] then [] else [] # map (\<lambda>item. dash @ '' '' @ EscapeString item) items)))"

definition FormatProgressEvent :: "texts \<Rightarrow> progress_event \<Rightarrow> bytes" where
  "FormatProgressEvent x event =
     (let payload = pe_Payload event; person = profileLinkLabel x payload; str = payloadString payload in
      case pe_EventType event of
        ProgressDailyTaskClosed \<Rightarrow>
          (let taskLabel = tx_text x ''progress.daily.task_link'';
               task = payloadLink payload ''task_link'' taskLabel;
               action = dailyTaskClosedAction x (str ''status'') (str ''report_link'');
               title = dailyTaskClosedTitle x (str ''status'') person action
           in join_lines [replace_first taskLabel task title, [], tx_text x ''daily.card.plan'',
                renderTaskSectionHTML (str ''task_html''), [], tx_text x ''daily.card.report'',
                renderSectionHTML (str ''report_html'')])
      | ProgressDailyTaskAutoFail \<Rightarrow>
          join_lines ([fmt x ''progress.daily.auto_failed'' [(''person'', person),
                (''task'', payloadLink payload ''task_link'' (tx_text x ''progress.daily.task_link''))], [],
              tx_text x ''daily.card.plan'', renderTaskSectionHTML (str ''task_html'')]
            @ report_lines (Some (str ''report_html'')) (tx_text x ''daily.card.report''))
      | ProgressDailySummaryClosed \<Rightarrow>
          join_lines [dailySummaryClosedProgressTitle x (str ''status'') person
                (dailySummaryClosedAction x (str ''status'') (str ''report_link'')), [],
              tx_text x ''daily.summary.body'', renderSectionHTML (str ''report_html'')]
      | ProgressDailySummaryAutoFail \<Rightarrow> fmt x ''progress.summary.auto_failed'' [(''person'', person)]
      | ProgressCustomUpdate \<Rightarrow> formatCustomProgressUpdate x payload
      | ProgressSystemAlert \<Rightarrow> formatSystemProgressAlert x payload)"

section \<open>Alerts\<close>

definition AlertText :: "texts \<Rightarrow> alert_kind \<Rightarrow> bytes \<Rightarrow> bytes \<Rightarrow> int \<Rightarrow> bytes \<Rightarrow> bytes" where
  "AlertText x kind displayName username userID seed =
     (if ShouldShowPersonalAlert (tx_lower x) username seed
      then fmt x ''alert.egor'' [(''person'', userLinkLabel x displayName username userID)]
      else if kind = AlertDayClosedPendingReport then tx_text x ''alert.day_closed_pending_report''
      else tx_text x ''alert.auto_failed'')"

definition DailyEntryAlertText ::
    "texts \<Rightarrow> alert_kind \<Rightarrow> daily_entry_kind \<Rightarrow> bytes \<Rightarrow> bytes \<Rightarrow> int \<Rightarrow> bytes \<Rightarrow> bytes" where
  "DailyEntryAlertText x kind entryKind displayName username userID seed =
     (if is_summary entryKind then
        (if kind = AlertDayClosedPendingReport then tx_text x ''alert.summary.pending''
         else tx_text x ''alert.summary.auto_failed'')
      else AlertText x kind displayName username userID seed)"

section \<open>The views of the model\<close>

text \<open>
  The characters of a view: its name is the formatter (or the key of a text without arguments), as
  the handlers and the worker call it.
\<close>

definition checkin_text ::
    "(routine_checkin \<Rightarrow> bytes \<Rightarrow> bytes \<Rightarrow> bytes \<Rightarrow> bytes \<Rightarrow> bytes) \<Rightarrow> varg list \<Rightarrow> bytes option" where
  "checkin_text f args = (case args of
     [VCheckin c, VStr name, VStr username, VStr link, VStr notice] \<Rightarrow> Some (f c name username link notice) | _ \<Rightarrow> None)"

definition nudge_text :: "texts \<Rightarrow> (bytes \<Rightarrow> bytes) \<Rightarrow> varg list \<Rightarrow> bytes option" where
  "nudge_text x f args = (case args of [] \<Rightarrow> Some (f []) | [VMsg n] \<Rightarrow> Some (f (msg_text x n)) | _ \<Rightarrow> None)"

definition daily_view :: "texts \<Rightarrow> bytes \<Rightarrow> varg list \<Rightarrow> bytes option" where
  "daily_view x name args =
     (if name = ''FormatSetupChecklist'' then (case args of
          [VBool r, VBool s, VBool f, VBool a, VBool t, VBool m, VStr notice] \<Rightarrow>
            Some (FormatSetupChecklist x r s f a t m notice) | _ \<Rightarrow> None)
      else if name = ''FormatDailyTaskCard'' then (case args of
          [VTask task, VStr n, VStr u, VStr notice] \<Rightarrow> Some (FormatDailyTaskCard x task n u notice) | _ \<Rightarrow> None)
      else if name = ''DailyTaskTextPrompt'' then nudge_text x (DailyTaskTextPrompt x) args
      else if name = ''DailyTaskReportPrompt'' then nudge_text x (DailyTaskReportPrompt x) args
      else if name = ''DailyEntryAlertText'' then (case args of
          [VAlert k, VKind e, VStr n, VStr u, VInt i, VStr seed] \<Rightarrow> Some (DailyEntryAlertText x k e n u i seed) | _ \<Rightarrow> None)
      else if name = ''FormatProgressEvent'' then (case args of
          [VEvent e] \<Rightarrow> Some (FormatProgressEvent x e) | _ \<Rightarrow> None)
      else if name = ''warning'' then (case args of
          [VMsg m] \<Rightarrow> Some (utf8 [0x26A0, 0xFE0F, 0x20] @ ''<b>'' @ msg_text x m @ ''</b>'') | _ \<Rightarrow> None)
      else if name = ''PreparedReport'' then (case args of [VStr html] \<Rightarrow> Some html | _ \<Rightarrow> None)
      else None)"

definition routine_view :: "texts \<Rightarrow> bytes \<Rightarrow> varg list \<Rightarrow> bytes option" where
  "routine_view x name args =
     (if name = ''FormatRoutineCheckinCard'' then checkin_text (FormatRoutineCheckinCard x) args
      else if name = ''FormatRoutineCheckinStatusCard'' then checkin_text (FormatRoutineCheckinStatusCard x) args
      else if name = ''FormatRoutineCheckinFinishedCard'' then checkin_text (FormatRoutineCheckinFinishedCard x) args
      else if name = ''FormatRoutinePlanSaved'' then (case args of
          [VStr link] \<Rightarrow> Some (FormatRoutinePlanSaved x link) | _ \<Rightarrow> None)
      else if name = ''FormatRoutineReasonPrompt'' then (case args of
          [VStr item] \<Rightarrow> Some (FormatRoutineReasonPrompt x item) | _ \<Rightarrow> None)
      else if name = ''RoutineReminderText'' then (case args of
          [VCheckin c, VStr n, VStr u, VInt i] \<Rightarrow> Some (RoutineReminderText x c n u i) | _ \<Rightarrow> None)
      else if name = ''RoutineAutoClosedText'' then (case args of
          [VCheckin c, VStr n, VStr u, VInt i, VStr link] \<Rightarrow> Some (RoutineAutoClosedText x c n u i link) | _ \<Rightarrow> None)
      else if name = ''FormatRoutineLeaderboard'' then (case args of
          [VEntries es] \<Rightarrow> Some (FormatRoutineLeaderboard x es) | _ \<Rightarrow> None)
      else None)"

definition goals_view :: "texts \<Rightarrow> bytes \<Rightarrow> varg list \<Rightarrow> bytes option" where
  "goals_view x name args =
     (if name = ''SeasonalGoalsPrompt'' then (case args of
          [VPeriod p] \<Rightarrow> Some (SeasonalGoalsPrompt x p) | _ \<Rightarrow> None)
      else if name = ''FormatGoalsSaved'' then (case args of [VStr link] \<Rightarrow> Some (FormatGoalsSaved x link) | _ \<Rightarrow> None)
      else if name = ''FormatGoalWeeklyReviewPrompt'' then (case args of
          [VGoals g, VStr n, VStr u, VStr link, VInt days, VInt reviews] \<Rightarrow>
            Some (FormatGoalWeeklyReviewPrompt x n u link days reviews) | _ \<Rightarrow> None)
      else if name = ''FormatGoalWeeklyReviewSaved'' then (case args of
          [VWeekly r, VInt chat] \<Rightarrow> Some (FormatGoalWeeklyReviewSaved x r chat) | _ \<Rightarrow> None)
      else if name = ''FormatGoalFinalReviewPrompt'' then (case args of
          [VGoals g, VStr n, VStr u, VStr link] \<Rightarrow> Some (FormatGoalFinalReviewPrompt x g n u link) | _ \<Rightarrow> None)
      else if name = ''FormatGoalFinalReflectionPrompt'' then (case args of
          [VGoals g, VGoalStatus st] \<Rightarrow> Some (FormatGoalFinalReflectionPrompt x g st) | _ \<Rightarrow> None)
      else if name = ''FormatGoalFinalReflectionDraft'' then (case args of
          [VGoals g, VGoalStatus st, VInt n] \<Rightarrow> Some (FormatGoalFinalReflectionDraft x g st n) | _ \<Rightarrow> None)
      else if name = ''FormatGoalFinalReviewSaved'' then (case args of
          [VGoals g, VFinal r, VStr n, VStr u, VInt chat] \<Rightarrow> Some (FormatGoalFinalReviewSaved x g r n u chat) | _ \<Rightarrow> None)
      else None)"

definition first_some :: "'a option list \<Rightarrow> 'a option" where
  "first_some xs = (case List.map_filter (\<lambda>v. v) xs of [] \<Rightarrow> None | y # _ \<Rightarrow> Some y)"

definition view_text :: "texts \<Rightarrow> view \<Rightarrow> bytes option" where
  "view_text x v = (let name = view_name v; args = view_args v in
     if has_prefix name ''above:'' then (case args of
         VMsg m # rest \<Rightarrow> map_option (\<lambda>t. msg_text x m @ nl @ nl @ t)
           (first_some [daily_view x (drop 6 name) rest, routine_view x (drop 6 name) rest, goals_view x (drop 6 name) rest,
              if rest = [] then Some (tx_text x (drop 6 name)) else None])
       | _ \<Rightarrow> None)
     else first_some [daily_view x name args, routine_view x name args, goals_view x name args,
         if args = [] then Some (tx_text x name) else None])"

end
