(* ===== verification/Text_Safety.thy ===== *)
theory Text_Safety imports Input_Safety Message_Texts begin

text \<open>
  What the formatters make of a stored text: the plan on a card keeps the text and loses its links,
  and a reason is escaped a second time.
\<close>

section \<open>Links are removed\<close>

definition is_anchor :: "bytes \<Rightarrow> bool" where "is_anchor t \<longleftrightarrow> match_anchor t = Some []"

lemma drop_until: "CHR ''>'' \<notin> set s \<Longrightarrow> dropWhile (\<lambda>d. d \<noteq> CHR ''>'') (s @ CHR ''>'' # r) = CHR ''>'' # r"
  by (induction s) auto

lemma after_anchor_name_tag:
  assumes "plain m"
  shows "after_anchor_name (m @ ''>'' @ rest) = (if after_anchor_name (m @ ''>'') = Some [] then Some rest else None)"
proof (cases m)
  case Nil
  then show ?thesis by (simp add: after_anchor_name_def)
next
  case m: (Cons c m')
  show ?thesis
  proof (cases m')
    case Nil
    with m show ?thesis by (simp add: after_anchor_name_def)
  next
    case (Cons d r)
    with m assms have "d \<noteq> CHR ''>''" "CHR ''>'' \<notin> set r" by (auto simp: plain_def)
    with m Cons show ?thesis by (simp add: after_anchor_name_def drop_until)
  qed
qed

lemma match_anchor_tag:
  assumes "is_tag t"
  shows "match_anchor (t @ rest) = (if is_anchor t then Some rest else None)"
proof -
  obtain m where m: "t = CHR ''<'' # m @ ''>''" "plain m" using assms by (auto simp: is_tag_def)
  obtain m' where m': "plain m'" "\<And>s. match_anchor (t @ s) = after_anchor_name (m' @ ''>'' @ s)"
  proof (cases "\<exists>m'. m = CHR ''/'' # m'")
    case True
    then obtain m' where "m = CHR ''/'' # m'" by blast
    with m that [of m'] show ?thesis by (simp add: match_anchor_def has_prefix_def plain_def)
  next
    case False
    then have "match_anchor (t @ s) = after_anchor_name (m @ ''>'' @ s)" for s
      using m(1) by (cases m) (simp_all add: match_anchor_def has_prefix_def)
    with m(2) that [of m] show ?thesis by blast
  qed
  have "match_anchor t = after_anchor_name (m' @ ''>'')" using m'(2) [of "[]"] by simp
  then show ?thesis unfolding is_anchor_def m'(2) by (simp only: after_anchor_name_tag [OF m'(1)])
qed

lemma match_anchor_other: "c \<noteq> CHR ''<'' \<Longrightarrow> match_anchor (c # s) = None"
  by (simp add: match_anchor_def has_prefix_def)

lemma remove_anchors_Nil [simp]: "remove_anchors n [] = []"
  by (cases n) (simp_all add: match_anchor_def has_prefix_def)

lemma remove_anchors_plain:
  "CHR ''<'' \<notin> set c \<Longrightarrow> length c \<le> n \<Longrightarrow> remove_anchors n (c @ rest) = c @ remove_anchors (n - length c) rest"
proof (induction c arbitrary: n)
  case (Cons x c)
  then obtain k where "n = Suc k" "length c \<le> k" by (cases n) auto
  with Cons show ?case by (simp add: match_anchor_other not_sym)
qed simp

lemma remove_anchors_tag:
  assumes "is_tag t" and "length t + length rest \<le> n"
  shows "\<exists>n' \<ge> length rest. remove_anchors n (t @ rest) = (if is_anchor t then [] else t) @ remove_anchors n' rest"
proof -
  obtain m where m: "t = CHR ''<'' # m @ ''>''" "plain m" using assms(1) by (auto simp: is_tag_def)
  with assms(2) obtain k where n: "n = Suc k" "length (m @ ''>'') + length rest \<le> k" by (cases n) auto
  show ?thesis
  proof (cases "is_anchor t")
    case True
    with match_anchor_tag [OF assms(1)] n show ?thesis by (intro exI [of _ k]) simp
  next
    case False
    have "CHR ''<'' \<notin> set (m @ ''>'')" using m(2) by (simp add: plain_def)
    from remove_anchors_plain [OF this, of k rest] n(2)
    have "remove_anchors k ((m @ ''>'') @ rest) = (m @ ''>'') @ remove_anchors (k - length (m @ ''>'')) rest" by simp
    moreover have "match_anchor (t @ rest) = None" using match_anchor_tag [OF assms(1)] False by simp
    ultimately show ?thesis using n m(1) False by (intro exI [of _ "k - length (m @ ''>'')"]) simp
  qed
qed

lemma remove_anchors_chunks:
  "chunky cs \<Longrightarrow> length (concat cs) \<le> n \<Longrightarrow>
   remove_anchors n (concat cs) = concat (filter (\<lambda>c. \<not> (is_tag c \<and> is_anchor c)) cs)"
proof (induction cs arbitrary: n)
  case (Cons c cs)
  have cs: "chunky cs" using Cons.prems(1) by (simp add: chunky_def)
  show ?case
  proof (cases "is_tag c")
    case True
    with remove_anchors_tag [OF True, of "concat cs" n] Cons.prems(2) Cons.IH [OF cs] show ?thesis by auto
  next
    case False
    with Cons.prems(1) have "CHR ''<'' \<notin> set c" by (simp add: chunky_def plain_def)
    from remove_anchors_plain [OF this, of n "concat cs"] Cons.prems(2) Cons.IH [OF cs, of "n - length c"] False
    show ?thesis by simp
  qed
qed simp

lemma link_tags_are_anchors:
  assumes "me_Type e = ''text_link''"
  shows "is_anchor (fst (entityTags e))" and "is_anchor (snd (entityTags e))"
proof -
  let ?url = "EscapeString (me_URL e)"
  have "plain ?url" by (rule plain_EscapeString)
  then have "dropWhile (\<lambda>d. d \<noteq> CHR ''>'') (''href='' @ quote @ ?url @ quote @ ''>'') = ''>''"
    using drop_until [of "''href='' @ quote @ ?url @ quote" "[]"] by (simp add: quote_def plain_def)
  with assms show "is_anchor (fst (entityTags e))"
    by (simp add: entityTags_def is_anchor_def match_anchor_def after_anchor_name_def has_prefix_def is_re_space_def)
  show "is_anchor (snd (entityTags e))"
    using assms by (simp add: entityTags_def is_anchor_def match_anchor_def after_anchor_name_def has_prefix_def)
qed

lemma escape_empty: "EscapeString s = [] \<longleftrightarrow> s = []"
  by (cases s) (auto simp: EscapeString_def escape_char_def)

lemma encode_rune_not_Nil: "encode_rune r \<noteq> []"
  by (simp add: encode_rune_def)

lemma section_wrap:
  assumes "chunky cs"
  shows "\<exists>cs'. renderSectionHTML (concat cs) = concat cs' \<and> chunky cs'
    \<and> (concat cs \<noteq> [] \<longrightarrow> concat (filter (\<lambda>c. \<not> is_tag c) cs') = concat (filter (\<lambda>c. \<not> is_tag c) cs))
    \<and> set (filter is_tag cs') \<subseteq> set (filter is_tag cs) \<union> {''<blockquote>'', ''</blockquote>'', ''<i>'', ''</i>''}"
proof -
  have tags: "is_tag ''<blockquote>''" "is_tag ''</blockquote>''" "is_tag ''<i>''" "is_tag ''</i>''"
    by (simp_all add: is_tagI plain_def)
  have dash: "plain dash"
    by (simp add: dash_def utf8_def encode_rune_def plain_def byte_def char_of_def bit_0)
  consider "concat cs = []" | "concat cs \<noteq> []" "contains_str (concat cs) ''<blockquote''"
    | "concat cs \<noteq> []" "\<not> contains_str (concat cs) ''<blockquote''" by blast
  then show ?thesis
  proof cases
    case 1
    with tags dash show ?thesis
      by (intro exI [of _ "[''<i>'', dash, ''</i>'']"]) (simp add: renderSectionHTML_def chunky_def plain_not_tag)
  next
    case 2
    with assms show ?thesis by (intro exI [of _ cs]) (auto simp: renderSectionHTML_def)
  next
    case 3
    with assms tags show ?thesis
      by (intro exI [of _ "''<blockquote>'' # cs @ [''</blockquote>'']"]) (auto simp: renderSectionHTML_def chunky_def)
  qed
qed

text \<open>The plan of a task is shown without its links: for the text of a message that is not empty, the
  section of the card shows exactly the escaped characters of the message, keeps the tags of its other
  entities and adds only the tags of a quotation.\<close>

theorem task_section_has_no_links:
  assumes "\<forall>r \<in> set rs. is_rune r" and "rs \<noteq> []"
  shows "outside False (renderTaskSectionHTML (renderEntitiesHTML (utf8 rs) entities)) = EscapeString (utf8 rs)
    \<and> set (tags_in None (renderTaskSectionHTML (renderEntitiesHTML (utf8 rs) entities)))
        \<subseteq> (\<Union>e \<in> {e \<in> set entities. me_Type e \<noteq> ''text_link''}. {fst (entityTags e), snd (entityTags e)})
          \<union> {''<blockquote>'', ''</blockquote>'', ''<i>'', ''</i>''}"
proof -
  obtain cs where cs: "renderEntitiesHTML (utf8 rs) entities = concat cs" "chunky cs"
      "concat (filter (\<lambda>c. \<not> is_tag c) cs) = EscapeString (utf8 rs)"
      "set (filter is_tag cs) \<subseteq> (\<Union>e \<in> set entities. {fst (entityTags e), snd (entityTags e)})"
    using rendered_chunks [OF assms(1)] by blast
  define ds where "ds = filter (\<lambda>c. \<not> (is_tag c \<and> is_anchor c)) cs"
  have ds: "remove_anchors (length (concat cs)) (concat cs) = concat ds" "chunky ds"
    using remove_anchors_chunks [OF cs(2) order_refl] cs(2) by (simp_all add: ds_def chunky_def list_all_iff)
  have out: "concat (filter (\<lambda>c. \<not> is_tag c) ds) = EscapeString (utf8 rs)"
  proof -
    have "filter (\<lambda>c. \<not> is_tag c) ds = filter (\<lambda>c. \<not> is_tag c) cs"
      unfolding ds_def filter_filter by (rule filter_cong) auto
    with cs(3) show ?thesis by simp
  qed
  have "EscapeString (utf8 rs) \<noteq> []"
    using assms(2) by (cases rs) (simp_all add: utf8_def escape_empty encode_rune_not_Nil)
  with out have nonempty: "concat ds \<noteq> []" by (auto simp flip: out)
  have tags: "set (filter is_tag ds) \<subseteq> (\<Union>e \<in> {e \<in> set entities. me_Type e \<noteq> ''text_link''}. {fst (entityTags e), snd (entityTags e)})"
    using cs(4) link_tags_are_anchors by (fastforce simp: ds_def)
  obtain es where es: "renderSectionHTML (concat ds) = concat es" "chunky es"
      "concat (filter (\<lambda>c. \<not> is_tag c) es) = EscapeString (utf8 rs)"
      "set (filter is_tag es) \<subseteq> set (filter is_tag ds) \<union> {''<blockquote>'', ''</blockquote>'', ''<i>'', ''</i>''}"
    using section_wrap [OF ds(2)] out nonempty by auto
  have "renderTaskSectionHTML (renderEntitiesHTML (utf8 rs) entities) = concat es"
    by (simp add: renderTaskSectionHTML_def cs(1) ds(1) es(1))
  with es tags show ?thesis by (simp only: read_chunks) blast
qed

theorem task_section_has_no_links_witness:
  "outside False (renderTaskSectionHTML (renderEntitiesHTML (utf8 [0x3C, 0x62]) [link_entity])) = ''&lt;b''"
proof -
  have "EscapeString (utf8 [0x3C, 0x62]) = ''&lt;b''"
    by (simp add: utf8_def encode_rune_def byte_def EscapeString_def escape_char_def char_of_def bit_0)
  with task_section_has_no_links [of "[0x3C, 0x62]" "[link_entity]"] show ?thesis by (simp add: is_rune_def)
qed

section \<open>Reasons are escaped twice\<close>

text \<open>
  A reason is stored as HTML (\<open>NewMessageInput\<close>), and \<open>renderInlineHTML\<close> escapes every stored text
  without a tag: the reader sees the entities of the first escape.
\<close>

lemma contains_char: "contains_str s [c] \<longleftrightarrow> c \<in> set s"
  by (induction s) (auto simp: has_prefix_def)

lemma reason_is_escaped_twice:
  "s \<noteq> [] \<Longrightarrow> renderInlineHTML (EscapeString s) = EscapeString (EscapeString s)"
  using plain_EscapeString [of s] by (simp add: renderInlineHTML_def contains_char plain_def escape_empty)

lemma ampersand_of_a_reason: "renderInlineHTML (EscapeString ''R&D'') = ''R&amp;amp;D''"
  by (simp add: reason_is_escaped_twice) (simp add: EscapeString_def escape_char_def)

section \<open>Every view has a text\<close>

lemma shared_views_have_texts:
  "view_text x (View ''FormatProgressEvent'' [VEvent e]) = Some (FormatProgressEvent x e)"
  "view_text x (View ''FormatDailyTaskCard'' [VTask t, VStr n, VStr u, VStr notice]) = Some (FormatDailyTaskCard x t n u notice)"
  "view_text x (View ''FormatRoutineCheckinCard'' [VCheckin c, VStr n, VStr u, VStr l, VStr notice])
     = Some (FormatRoutineCheckinCard x c n u l notice)"
  by (simp_all add: view_text_def Let_def first_some_def List.map_filter_simps daily_view_def routine_view_def
      checkin_text_def has_prefix_def)

end
