(* ===== verification/Processes.thy ===== *)
theory Processes imports Polling Worker Config begin

text \<open>
  The two processes from their start: \<open>run\<close> of \<open>cmd/trackmate-api\<close> and of \<open>cmd/trackmate-worker\<close>.
  Opening the store, signals and the control server (\<open>Control\<close>) are left out. The loops have no end,
  so a number of rounds is given; the advisory lock is free at the k-th tick when \<open>free k\<close> says so.
\<close>

text \<open>What the processes take from their configuration and from \<open>getMe\<close>.\<close>

definition configure :: "config \<Rightarrow> unit io" where
  "configure cfg = (\<lambda>w. (Inr (), w\<lparr>w_env := (w_env w)\<lparr>e_Token := cf_BotToken cfg,
     e_DefaultTimezone := cf_DefaultTimezone cfg\<rparr>\<rparr>))"

definition know_self :: "tg_user \<Rightarrow> unit io" where
  "know_self me = (\<lambda>w. (Inr (), w\<lparr>w_env := (w_env w)\<lparr>e_BotID := us_ID me\<rparr>\<rparr>))"

definition accepted :: "goerr + config \<Rightarrow> config io" where
  "accepted loaded = (case loaded of Inl e \<Rightarrow> failM e
     | Inr cfg \<Rightarrow> thenM (raise_opt (RequireBotToken cfg)) (thenM (configure cfg) (ret cfg)))"

definition api_run :: "nat \<Rightarrow> goerr + config \<Rightarrow> poll_state io" where
  "api_run n loaded = bindM (accepted loaded) (\<lambda>cfg. bindM tgGetMe (\<lambda>me.
     thenM (know_self me) (poll_rounds n (cf_PollTimeout cfg) poll0)))"

text \<open>
  \<open>time.Ticker\<close> started at \<open>start\<close>: a tick that came since the last one was taken is waiting (ticks
  beyond one are dropped), otherwise the loop sleeps until the next one. The result is the time the
  tick was taken.
\<close>

definition next_tick :: "int \<Rightarrow> int \<Rightarrow> int \<Rightarrow> int \<Rightarrow> int" where
  "next_tick start period taken now = max now (start + ((taken - start) div period + 1) * period)"

definition await_tick :: "int \<Rightarrow> int \<Rightarrow> int \<Rightarrow> int io" where
  "await_tick start period taken = (\<lambda>w. let t = next_tick start period taken (w_now w) in (Inr t, w\<lparr>w_now := t\<rparr>))"

fun worker_rounds :: "nat \<Rightarrow> nat \<Rightarrow> (nat \<Rightarrow> bool) \<Rightarrow> nat \<Rightarrow> int \<Rightarrow> int \<Rightarrow> int \<Rightarrow> unit io" where
  "worker_rounds 0 fuel free k start period taken = ret ()"
| "worker_rounds (Suc n) fuel free k start period taken =
     bindM time_now (\<lambda>now. thenM (ignore (Tick fuel (free k) now))
       (bindM (await_tick start period taken) (worker_rounds n fuel free (Suc k) start period)))"

definition worker_run :: "nat \<Rightarrow> nat \<Rightarrow> (nat \<Rightarrow> bool) \<Rightarrow> goerr + config \<Rightarrow> unit io" where
  "worker_run n fuel free loaded = bindM (accepted loaded) (\<lambda>cfg. bindM time_now (\<lambda>t.
     worker_rounds n fuel free 0 (gt_ns t) (cf_WorkerTickSeconds cfg * ns_per_sec) (gt_ns t)))"

section \<open>Lemmas\<close>

lemma sound_start: "sound (configure cfg)" "sound (know_self me)" "sound (await_tick s p t)"
  by (rule sound_same, rule unchanged.keeps_pure; simp add: configure_def know_self_def await_tick_def Let_def)+

lemma sound_accepted: "sound (accepted loaded)"
  unfolding accepted_def by (intro sound_rules sound_start)

lemma sound_api_run: "sound (api_run n loaded)"
  unfolding api_run_def by (intro sound_rules sound_accepted sound_start sound_ops)

lemma sound_worker_rounds: "sound (worker_rounds n fuel free k start period taken)"
  by (induction n arbitrary: k taken) (unfold worker_rounds.simps, (intro sound_rules sound_ops sound_start | assumption)+)

lemma sound_worker_run: "sound (worker_run n fuel free loaded)"
  unfolding worker_run_def by (intro sound_rules sound_accepted sound_worker_rounds)

text \<open>The worker goes on whatever its ticks return, and time passes between them.\<close>

lemma worker_rounds_go_on: "\<exists>w'. worker_rounds n fuel free k start period taken w = (Inr (), w')"
proof (induction n arbitrary: k taken w)
  case (Suc n)
  then show ?case by (simp add: run time_now_def bindM_def await_tick_def Let_def)
qed (simp add: ret_run)

lemma next_tick_later:
  assumes "0 < period"
  shows "taken < next_tick start period taken now" "now \<le> next_tick start period taken now"
proof -
  have "(taken - start) mod period < period" using assms by simp
  moreover have "taken - start = (taken - start) div period * period + (taken - start) mod period" by simp
  ultimately have "taken < start + ((taken - start) div period + 1) * period" unfolding distrib_right by linarith
  then show "taken < next_tick start period taken now" "now \<le> next_tick start period taken now"
    by (simp_all add: next_tick_def)
qed

end
