(* ===== verification/Log_Lines.thy ===== *)
theory Log_Lines imports Telegram GoSha256 begin

text \<open>
  \<open>internal/logging\<close>, \<open>internal/observability\<close> and \<open>internal/telegram/update_logging.go\<close>: the level of
  the log, the identifiers a context carries, and the line that is logged for an update. A line is its
  message with its attributes; writing it is left to the logger.
\<close>

datatype log_level = LevelDebug | LevelInfo | LevelWarn | LevelError

definition upper_byte :: "char \<Rightarrow> char" where
  "upper_byte c = (let n = of_char c :: nat in if 97 \<le> n \<and> n \<le> 122 then char_of (n - 32) else c)"

text \<open>\<open>strings.ToUpper\<close>, with the Unicode tables of the runtime as the argument \<open>uni\<close>.\<close>

definition to_upper :: "(bytes \<Rightarrow> bytes) \<Rightarrow> bytes \<Rightarrow> bytes" where
  "to_upper uni s = (if is_ascii s then map upper_byte s else uni s)"

definition parseLevel :: "(bytes \<Rightarrow> bytes) \<Rightarrow> bytes \<Rightarrow> log_level" where
  "parseLevel uni level = (let l = to_upper uni (trim_space level) in
     if l = ''DEBUG'' then LevelDebug else if l \<in> {''WARN'', ''WARNING''} then LevelWarn
     else if l = ''ERROR'' then LevelError else LevelInfo)"

section \<open>Identifiers\<close>

record log_context =
  lc_trace :: "bytes option"
  lc_update :: "int option"

definition TraceID :: "log_context \<Rightarrow> bytes" where
  "TraceID ctx = (case lc_trace ctx of Some v \<Rightarrow> v | None \<Rightarrow> [])"

text \<open>The eight random bytes are an argument, \<open>None\<close> when the source of randomness fails.\<close>

definition EnsureTraceID :: "nat list option \<Rightarrow> log_context \<Rightarrow> log_context" where
  "EnsureTraceID random ctx = (if TraceID ctx \<noteq> [] then ctx
     else (case random of None \<Rightarrow> ctx\<lparr>lc_trace := Some ''trace-unavailable''\<rparr>
       | Some bs \<Rightarrow> ctx\<lparr>lc_trace := Some (hex_of bs)\<rparr>))"

definition WithUpdateID :: "log_context \<Rightarrow> int \<Rightarrow> log_context" where
  "WithUpdateID ctx updateID = ctx\<lparr>lc_update := Some updateID\<rparr>"

datatype log_value = LStr bytes | LInt int

definition LogAttrs :: "log_context \<Rightarrow> (bytes \<times> log_value) list \<Rightarrow> (bytes \<times> log_value) list" where
  "LogAttrs ctx attrs =
     (if TraceID ctx \<noteq> [] then [(''trace_id'', LStr (TraceID ctx))] else [])
     @ (case lc_update ctx of Some i \<Rightarrow> if i \<noteq> 0 then [(''update_id'', LInt i)] else [] | None \<Rightarrow> [])
     @ attrs"

section \<open>Incoming updates\<close>

definition message_attrs :: "message \<Rightarrow> (bytes \<times> log_value) list" where
  "message_attrs m = [(''chat_id'', LInt (ch_ID (mg_Chat m))), (''message_id'', LInt (mg_MessageID m)),
     (''thread_id'', LInt (mg_MessageThreadID m)),
     (''user_id'', LInt (case mg_From m of Some u \<Rightarrow> us_ID u | None \<Rightarrow> 0)),
     (''username'', LStr (case mg_From m of Some u \<Rightarrow> us_Username u | None \<Rightarrow> [])),
     (''media_group_id'', LStr (mg_MediaGroupID m))]"

definition callback_attrs :: "callback_query \<Rightarrow> (bytes \<times> log_value) list" where
  "callback_attrs q =
     (case cq_Message q of
        Some m \<Rightarrow> [(''chat_id'', LInt (ch_ID (mg_Chat m))), (''message_id'', LInt (mg_MessageID m)),
          (''thread_id'', LInt (mg_MessageThreadID m))]
      | None \<Rightarrow> [(''chat_id'', LInt 0), (''message_id'', LInt 0), (''thread_id'', LInt 0)])
     @ [(''user_id'', LInt (us_ID (cq_From q))), (''username'', LStr (us_Username (cq_From q))), (''data'', LStr (cq_Data q))]"

definition LogIncomingUpdate :: "log_context \<Rightarrow> tg_update \<Rightarrow> (bytes \<times> (bytes \<times> log_value) list) option" where
  "LogIncomingUpdate ctx u = (case (up_Message u, up_EditedMessage u, up_Callback u) of
      (Some m, _, _) \<Rightarrow> Some (''telegram_incoming_message'', LogAttrs ctx (message_attrs m))
    | (None, Some m, _) \<Rightarrow> Some (''telegram_incoming_edited_message'', LogAttrs ctx (message_attrs m))
    | (None, None, Some q) \<Rightarrow> Some (''telegram_incoming_callback'', LogAttrs ctx (callback_attrs q))
    | (None, None, None) \<Rightarrow> None)"

section \<open>Lemmas\<close>

text \<open>Every context that passed \<open>EnsureTraceID\<close> has an identifier, which later calls keep.\<close>

lemma hex_of_not_Nil: "bs \<noteq> [] \<Longrightarrow> hex_of bs \<noteq> []"
  by (cases bs) (simp_all add: hex_of_def)

lemma EnsureTraceID_set: "random \<noteq> Some [] \<Longrightarrow> TraceID (EnsureTraceID random ctx) \<noteq> []"
  by (auto simp: EnsureTraceID_def TraceID_def hex_of_not_Nil split: option.splits)

lemma EnsureTraceID_twice:
  "random \<noteq> Some [] \<Longrightarrow> EnsureTraceID random' (EnsureTraceID random ctx) = EnsureTraceID random ctx"
  using EnsureTraceID_set [of random ctx] by (simp add: EnsureTraceID_def [of random'])

text \<open>Only the callbacks' data and the users' names of an update reach the log, never its text.\<close>

lemma log_ignores_text:
  "LogIncomingUpdate ctx (u\<lparr>up_Message := Some (m\<lparr>mg_Text := t\<rparr>)\<rparr>) = LogIncomingUpdate ctx (u\<lparr>up_Message := Some m\<rparr>)"
  by (simp add: LogIncomingUpdate_def message_attrs_def)

end
