(* ===== verification/Row_Scan.thy ===== *)
theory Row_Scan imports App_Outbox Bot_Messages Examples begin

text \<open>
  The scans of \<open>internal/storage/postgres\<close>: how a row of columns becomes a struct. The tables of the
  model hold the structs themselves; here a table row is the list of its columns, with INTEGER and
  BIGINT at their width, times in microseconds and NULL, and reading the columns of a row gives the
  row back. The scans stop at the first column they cannot read, with the error of \<open>pgx\<close>. The types of
  the status columns are enumerations of PostgreSQL with the constants of \<open>internal/domain\<close>, and the
  program alone writes \<open>pending_inputs.kind\<close>, so a scan meets no other strings. A JSONB column stands
  for its decoded value. \<open>scanSeasonalGoalSet\<close> is left out, since the model keeps the title of a period as its key
  of the catalogue, not as the text in the column.
\<close>

section \<open>Columns\<close>

datatype column = Null | Int4 "32 word" | Int8 "64 word" | Text bytes | Bool bool | Date int | Timestamptz int
  | Jsonb payload | JsonStrings "bytes list" | Int8s "64 word list"

text \<open>The destinations of \<open>Scan\<close>: NULL has a value only in the types of \<open>pgtype\<close>.\<close>

fun to_int :: "column \<Rightarrow> int option" where
  "to_int (Int4 n) = Some (sint n)"
| "to_int (Int8 n) = Some (sint n)"
| "to_int _ = None"

fun to_text :: "column \<Rightarrow> bytes option" where
  "to_text (Text s) = Some s"
| "to_text _ = None"

fun to_bool :: "column \<Rightarrow> bool option" where
  "to_bool (Bool b) = Some b"
| "to_bool _ = None"

text \<open>A DATE arrives as its day; a TIMESTAMPTZ has microseconds.\<close>

fun to_date :: "column \<Rightarrow> int option" where
  "to_date (Date d) = Some d"
| "to_date _ = None"

fun to_time :: "column \<Rightarrow> int option" where
  "to_time (Timestamptz us) = Some (us * 1000)"
| "to_time _ = None"

fun to_payload :: "column \<Rightarrow> payload option" where
  "to_payload (Jsonb p) = Some p"
| "to_payload _ = None"

fun to_strings :: "column \<Rightarrow> bytes list option" where
  "to_strings (JsonStrings ss) = Some ss"
| "to_strings _ = None"

fun to_ints :: "column \<Rightarrow> int list option" where
  "to_ints (Int8s ns) = Some (map sint ns)"
| "to_ints _ = None"

text \<open>\<open>pgtype.Int4\<close>, \<open>pgtype.Text\<close> and \<open>pgtype.Timestamptz\<close>: \<open>Valid\<close> is \<open>Some\<close>.\<close>

fun to_Int4 :: "column \<Rightarrow> 32 word option option" where
  "to_Int4 Null = Some None"
| "to_Int4 (Int4 n) = Some (Some n)"
| "to_Int4 _ = None"

fun to_Text :: "column \<Rightarrow> bytes option option" where
  "to_Text Null = Some None"
| "to_Text (Text s) = Some (Some s)"
| "to_Text _ = None"

fun to_Timestamptz :: "column \<Rightarrow> int option option" where
  "to_Timestamptz Null = Some None"
| "to_Timestamptz (Timestamptz us) = Some (Some us)"
| "to_Timestamptz _ = None"

section \<open>Conversions of \<open>models.go\<close>\<close>

definition int64FromPgInt4 :: "32 word option \<Rightarrow> int option" where
  "int64FromPgInt4 v = (case v of None \<Rightarrow> None | Some n \<Rightarrow> Some (sint n))"

definition timeFromPg :: "int option \<Rightarrow> int option" where
  "timeFromPg v = (case v of None \<Rightarrow> None | Some us \<Rightarrow> Some (us * 1000))"

definition textFromPg :: "bytes option \<Rightarrow> bytes option" where
  "textFromPg v = (case v of None \<Rightarrow> None | Some s \<Rightarrow> Some s)"

text \<open>The value of a constant, by its string.\<close>

definition find_constant :: "('a \<Rightarrow> bytes) \<Rightarrow> 'a list \<Rightarrow> bytes \<Rightarrow> 'a option" where
  "find_constant str vs s = List.find (\<lambda>v. str v = s) vs"

definition to_constant :: "('a \<Rightarrow> bytes) \<Rightarrow> 'a list \<Rightarrow> column \<Rightarrow> 'a option" where
  "to_constant str vs c = (case to_text c of None \<Rightarrow> None | Some s \<Rightarrow> find_constant str vs s)"

definition to_constant_opt :: "('a \<Rightarrow> bytes) \<Rightarrow> 'a list \<Rightarrow> column \<Rightarrow> 'a option option" where
  "to_constant_opt str vs c = (case to_Text c of None \<Rightarrow> None | Some None \<Rightarrow> Some None
     | Some (Some s) \<Rightarrow> map_option Some (find_constant str vs s))"

fun setup_status_str :: "group_setup_status \<Rightarrow> bytes" where
  "setup_status_str GroupSetupPending = ''pending''"
| "setup_status_str GroupSetupRequirementsFailed = ''requirements_failed''"
| "setup_status_str GroupSetupReady = ''ready''"

fun topic_key_str :: "topic_key \<Rightarrow> bytes" where
  "topic_key_str TopicToday = ''today''"
| "topic_key_str TopicProgress = ''progress''"
| "topic_key_str TopicRoutine = ''routine''"
| "topic_key_str TopicGoals = ''goals''"

fun entry_kind_str :: "daily_entry_kind \<Rightarrow> bytes" where
  "entry_kind_str DailyEntryTask = ''task''"
| "entry_kind_str DailyEntrySummary = ''summary''"

fun alert_status_str :: "alert_dispatch_status \<Rightarrow> bytes" where
  "alert_status_str AlertDispatchPending = ''pending''"
| "alert_status_str AlertDispatchDispatching = ''dispatching''"
| "alert_status_str AlertDispatchSent = ''sent''"

fun event_type_str :: "progress_event_type \<Rightarrow> bytes" where
  "event_type_str ProgressDailyTaskClosed = ''daily_task.closed''"
| "event_type_str ProgressDailyTaskAutoFail = ''daily_task.auto_failed''"
| "event_type_str ProgressDailySummaryClosed = ''daily_summary.closed''"
| "event_type_str ProgressDailySummaryAutoFail = ''daily_summary.auto_failed''"
| "event_type_str ProgressSystemAlert = ''system_alert''"
| "event_type_str ProgressCustomUpdate = ''custom_update''"

fun publish_status_str :: "progress_publish_status \<Rightarrow> bytes" where
  "publish_status_str ProgressPublishPending = ''pending''"
| "publish_status_str ProgressPublishPublishing = ''publishing''"
| "publish_status_str ProgressPublishPublished = ''published''"
| "publish_status_str ProgressPublishFailed = ''failed''"

definition setup_statuses :: "group_setup_status list" where
  "setup_statuses = [GroupSetupPending, GroupSetupRequirementsFailed, GroupSetupReady]"

definition topic_keys :: "topic_key list" where
  "topic_keys = [TopicToday, TopicProgress, TopicRoutine, TopicGoals]"

definition task_statuses :: "daily_task_status list" where
  "task_statuses = [DailyTaskActive, DailyTaskAwaitingReport, DailyTaskDone, DailyTaskPartial, DailyTaskFailed]"

definition entry_kinds :: "daily_entry_kind list" where "entry_kinds = [DailyEntryTask, DailyEntrySummary]"

definition alert_kinds :: "alert_kind list" where
  "alert_kinds = [AlertDayClosedPendingReport, AlertOverdueTaskFailed]"

definition alert_statuses :: "alert_dispatch_status list" where
  "alert_statuses = [AlertDispatchPending, AlertDispatchDispatching, AlertDispatchSent]"

definition event_types :: "progress_event_type list" where
  "event_types = [ProgressDailyTaskClosed, ProgressDailyTaskAutoFail, ProgressDailySummaryClosed,
     ProgressDailySummaryAutoFail, ProgressSystemAlert, ProgressCustomUpdate]"

definition publish_statuses :: "progress_publish_status list" where
  "publish_statuses = [ProgressPublishPending, ProgressPublishPublishing, ProgressPublishPublished, ProgressPublishFailed]"

definition pending_kinds :: "pending_input_kind list" where
  "pending_kinds = [PendingDailyTaskText, PendingDailyTaskReport, PendingDailySummaryReport, PendingRoutinePlan,
     PendingRoutineReason, PendingSeasonalGoals, PendingGoalWeeklyReview, PendingGoalFinalReflection]"

definition routine_statuses :: "routine_item_status list" where
  "routine_statuses = [RoutineItemDone, RoutineItemPartial, RoutineItemFailed]"

definition goal_statuses :: "goal_final_status list" where
  "goal_statuses = [GoalFinalDone, GoalFinalPartial, GoalFinalFailed]"

text \<open>The nullable status columns: \<open>pgtype.Text\<close>, then the conversion.\<close>

definition statusFromPg :: "column \<Rightarrow> daily_task_status option option" where
  "statusFromPg = to_constant_opt task_status_str task_statuses"

definition routineStatusFromPg :: "column \<Rightarrow> routine_item_status option option" where
  "routineStatusFromPg = to_constant_opt routine_status_str routine_statuses"

definition goalFinalStatusFromPg :: "column \<Rightarrow> goal_final_status option option" where
  "goalFinalStatusFromPg = to_constant_opt goal_status_str goal_statuses"

section \<open>Scans\<close>

text \<open>A scan reads one column after the other; it needs as many columns as it has destinations.\<close>

type_synonym 'a scan = "column list \<Rightarrow> goerr + 'a"

definition scan_error :: goerr where "scan_error = DbError ''scan''"

definition dest :: "(column \<Rightarrow> 'a option) \<Rightarrow> ('a \<Rightarrow> 'b scan) \<Rightarrow> 'b scan" where
  "dest read k = (\<lambda>cs. case cs of [] \<Rightarrow> Inl scan_error
     | c # cs' \<Rightarrow> (case read c of None \<Rightarrow> Inl scan_error | Some x \<Rightarrow> k x cs'))"

definition scanned :: "'a \<Rightarrow> 'a scan" where
  "scanned v = (\<lambda>cs. if cs = [] then Inr v else Inl scan_error)"

definition scanWorkspace :: "workspace scan" where
  "scanWorkspace =
     dest to_int (\<lambda>i. dest to_int (\<lambda>chatID. dest to_Text (\<lambda>title.
     dest to_text (\<lambda>timezone. dest (to_constant setup_status_str setup_statuses) (\<lambda>setupStatus.
     dest to_Int4 (\<lambda>setupMessageID. dest to_time (\<lambda>createdAt. dest to_time (\<lambda>updatedAt.
     scanned \<lparr>ws_ID = i, ws_ChatID = chatID, ws_Title = textFromPg title, ws_Timezone = timezone,
       ws_SetupStatus = setupStatus, ws_SetupMessageID = int64FromPgInt4 setupMessageID, ws_CreatedAt = createdAt,
       ws_UpdatedAt = updatedAt\<rparr>))))))))"

definition scanTopicBinding :: "topic_binding scan" where
  "scanTopicBinding =
     dest to_int (\<lambda>i. dest to_int (\<lambda>workspaceGroupID.
     dest (to_constant topic_key_str topic_keys) (\<lambda>topicKey. dest to_int (\<lambda>threadID.
     dest to_text (\<lambda>topicTitle. dest to_Int4 (\<lambda>introMessageID.
     dest to_Int4 (\<lambda>controlMessageID. dest to_time (\<lambda>createdAt.
     scanned \<lparr>tb_ID = i, tb_WorkspaceGroupID = workspaceGroupID, tb_TopicKey = topicKey, tb_ThreadID = threadID,
       tb_TopicTitle = topicTitle, tb_IntroMessageID = int64FromPgInt4 introMessageID,
       tb_ControlMessageID = int64FromPgInt4 controlMessageID, tb_CreatedAt = createdAt\<rparr>))))))))"

definition scanTopicBindingRows :: "topic_binding scan" where "scanTopicBindingRows = scanTopicBinding"

definition scanParticipant :: "participant scan" where
  "scanParticipant =
     dest to_int (\<lambda>i. dest to_int (\<lambda>workspaceGroupID. dest to_int (\<lambda>userID.
     dest to_Text (\<lambda>username. dest to_text (\<lambda>displayName. dest to_bool (\<lambda>isActive.
     dest to_time (\<lambda>createdAt. dest to_time (\<lambda>updatedAt.
     scanned \<lparr>pt_ID = i, pt_WorkspaceGroupID = workspaceGroupID, pt_UserID = userID, pt_Username = textFromPg username,
       pt_DisplayName = displayName, pt_IsActive = isActive, pt_CreatedAt = createdAt, pt_UpdatedAt = updatedAt\<rparr>))))))))"

definition scanDailyTask :: "daily_task scan" where
  "scanDailyTask =
     dest to_int (\<lambda>i. dest to_int (\<lambda>workspaceGroupID. dest to_int (\<lambda>participantID.
     dest to_int (\<lambda>ownerUserID. dest to_date (\<lambda>taskDate.
     dest (to_constant entry_kind_str entry_kinds) (\<lambda>kind. dest to_text (\<lambda>txt.
     dest (to_constant task_status_str task_statuses) (\<lambda>status. dest to_Text (\<lambda>reportText.
     dest statusFromPg (\<lambda>reportStatus. dest to_Int4 (\<lambda>todayCardMessageID.
     dest to_time (\<lambda>createdAt. dest to_Timestamptz (\<lambda>reportedAt.
     dest to_Timestamptz (\<lambda>awaitingReportAt. dest to_Timestamptz (\<lambda>failedAt.
     dest to_Int4 (\<lambda>taskMessageID. dest to_Int4 (\<lambda>taskMessageThreadID.
     dest to_Int4 (\<lambda>reportMessageID. dest to_Int4 (\<lambda>reportMessageThreadID.
     scanned \<lparr>tk_ID = i, tk_WorkspaceGroupID = workspaceGroupID, tk_ParticipantID = participantID,
       tk_OwnerUserID = ownerUserID, tk_TaskDate = taskDate, tk_Kind = kind, tk_Text = txt, tk_Status = status,
       tk_ReportText = textFromPg reportText, tk_ReportStatus = reportStatus,
       tk_TodayCardMessageID = int64FromPgInt4 todayCardMessageID, tk_TaskMessageID = int64FromPgInt4 taskMessageID,
       tk_TaskMessageThreadID = int64FromPgInt4 taskMessageThreadID,
       tk_ReportMessageID = int64FromPgInt4 reportMessageID,
       tk_ReportMessageThreadID = int64FromPgInt4 reportMessageThreadID, tk_CreatedAt = createdAt,
       tk_ReportedAt = timeFromPg reportedAt, tk_AwaitingReportAt = timeFromPg awaitingReportAt,
       tk_FailedAt = timeFromPg failedAt\<rparr>)))))))))))))))))))"

definition scanDailyTaskRows :: "daily_task scan" where "scanDailyTaskRows = scanDailyTask"

definition scanAlert :: "daily_task_alert scan" where
  "scanAlert =
     dest to_int (\<lambda>i. dest to_int (\<lambda>dailyTaskID.
     dest (to_constant alert_kind_str alert_kinds) (\<lambda>alertKind.
     dest (to_constant alert_status_str alert_statuses) (\<lambda>dispatchStatus.
     dest to_Int4 (\<lambda>telegramMessageID. dest to_Timestamptz (\<lambda>acknowledgedAt.
     dest to_time (\<lambda>createdAt.
     scanned \<lparr>al_ID = i, al_DailyTaskID = dailyTaskID, al_AlertKind = alertKind, al_DispatchStatus = dispatchStatus,
       al_TelegramMessageID = int64FromPgInt4 telegramMessageID, al_AcknowledgedAt = timeFromPg acknowledgedAt,
       al_CreatedAt = createdAt, al_DispatchStartedAt = None\<rparr>)))))))"

definition scanAlertRows :: "daily_task_alert scan" where "scanAlertRows = scanAlert"

definition scanPending :: "pending_input scan" where
  "scanPending =
     dest to_int (\<lambda>i. dest to_int (\<lambda>workspaceGroupID. dest to_int (\<lambda>userID.
     dest to_int (\<lambda>messageThreadID. dest (to_constant pending_kind_str pending_kinds) (\<lambda>kind.
     dest to_payload (\<lambda>payload. dest to_time (\<lambda>createdAt.
     scanned \<lparr>pi_ID = i, pi_WorkspaceGroupID = workspaceGroupID, pi_UserID = userID, pi_MessageThreadID = messageThreadID,
       pi_Kind = kind, pi_Payload = decodePayload payload, pi_CreatedAt = createdAt\<rparr>)))))))"

definition scanProgressEvent :: "progress_event scan" where
  "scanProgressEvent =
     dest to_int (\<lambda>i. dest to_int (\<lambda>workspaceGroupID. dest to_Int4 (\<lambda>participantID.
     dest to_Int4 (\<lambda>dailyTaskID. dest (to_constant event_type_str event_types) (\<lambda>eventType.
     dest (to_constant publish_status_str publish_statuses) (\<lambda>publishStatus.
     dest to_payload (\<lambda>payload. dest to_Int4 (\<lambda>publishedMessageID. dest to_time (\<lambda>createdAt.
     dest to_Timestamptz (\<lambda>publishedAt.
     scanned \<lparr>pe_ID = i, pe_WorkspaceGroupID = workspaceGroupID, pe_ParticipantID = int64FromPgInt4 participantID,
       pe_DailyTaskID = int64FromPgInt4 dailyTaskID, pe_EventType = eventType, pe_PublishStatus = publishStatus,
       pe_Payload = decodePayload payload, pe_PublishedMessageID = int64FromPgInt4 publishedMessageID,
       pe_CreatedAt = createdAt, pe_PublishedAt = timeFromPg publishedAt, pe_PublishStartedAt = None\<rparr>))))))))))"

definition scanProgressEventRows :: "progress_event scan" where "scanProgressEventRows = scanProgressEvent"

definition scanRoutinePlan :: "routine_plan scan" where
  "scanRoutinePlan =
     dest to_int (\<lambda>i. dest to_int (\<lambda>workspaceGroupID. dest to_int (\<lambda>participantID.
     dest to_int (\<lambda>ownerUserID. dest to_strings (\<lambda>items. dest to_Int4 (\<lambda>sourceMessageID.
     dest to_Int4 (\<lambda>sourceMessageThreadID. dest to_time (\<lambda>createdAt.
     dest to_time (\<lambda>updatedAt.
     scanned \<lparr>rp_ID = i, rp_WorkspaceGroupID = workspaceGroupID, rp_ParticipantID = participantID,
       rp_OwnerUserID = ownerUserID, rp_Items = items, rp_SourceMessageID = int64FromPgInt4 sourceMessageID,
       rp_SourceMessageThreadID = int64FromPgInt4 sourceMessageThreadID, rp_CreatedAt = createdAt,
       rp_UpdatedAt = updatedAt\<rparr>)))))))))"

definition scanRoutineCheckin :: "routine_checkin scan" where
  "scanRoutineCheckin =
     dest to_int (\<lambda>i. dest to_int (\<lambda>workspaceGroupID. dest to_int (\<lambda>participantID.
     dest to_int (\<lambda>ownerUserID. dest to_date (\<lambda>checkinDate. dest to_Int4 (\<lambda>sourceMessageID.
     dest to_Int4 (\<lambda>sourceMessageThreadID. dest to_Int4 (\<lambda>cardMessageID.
     dest to_Int4 (\<lambda>cardMessageThreadID. dest to_Int4 (\<lambda>reminderMessageID.
     dest to_Int4 (\<lambda>autoCloseNoticeMessageID. dest to_Text (\<lambda>reflectionText.
     dest to_time (\<lambda>createdAt. dest to_time (\<lambda>updatedAt.
     dest to_Timestamptz (\<lambda>reminderSentAt. dest to_Timestamptz (\<lambda>autoCloseNoticeSentAt.
     dest to_Timestamptz (\<lambda>completedAt. dest to_Timestamptz (\<lambda>autoFailedAt.
     scanned \<lparr>rc_ID = i, rc_WorkspaceGroupID = workspaceGroupID, rc_ParticipantID = participantID,
       rc_OwnerUserID = ownerUserID, rc_CheckinDate = checkinDate,
       rc_SourceMessageID = int64FromPgInt4 sourceMessageID,
       rc_SourceMessageThreadID = int64FromPgInt4 sourceMessageThreadID,
       rc_CardMessageID = int64FromPgInt4 cardMessageID,
       rc_CardMessageThreadID = int64FromPgInt4 cardMessageThreadID,
       rc_ReminderMessageID = int64FromPgInt4 reminderMessageID,
       rc_AutoCloseNoticeMessageID = int64FromPgInt4 autoCloseNoticeMessageID,
       rc_ReflectionText = textFromPg reflectionText, rc_CreatedAt = createdAt, rc_UpdatedAt = updatedAt,
       rc_ReminderSentAt = timeFromPg reminderSentAt, rc_AutoCloseNoticeSentAt = timeFromPg autoCloseNoticeSentAt,
       rc_CompletedAt = timeFromPg completedAt, rc_AutoFailedAt = timeFromPg autoFailedAt, rc_Items = []\<rparr>))))))))))))))))))"

definition scanRoutineCheckinItemRows :: "routine_checkin_item scan" where
  "scanRoutineCheckinItemRows =
     dest to_int (\<lambda>i. dest to_int (\<lambda>routineCheckinID. dest to_int (\<lambda>itemIndex.
     dest to_text (\<lambda>txt. dest routineStatusFromPg (\<lambda>status. dest to_Text (\<lambda>reasonText.
     dest to_time (\<lambda>createdAt. dest to_time (\<lambda>updatedAt.
     scanned \<lparr>ri_ID = i, ri_RoutineCheckinID = routineCheckinID, ri_ItemIndex = itemIndex, ri_Text = txt,
       ri_Status = status, ri_ReasonText = textFromPg reasonText, ri_CreatedAt = createdAt, ri_UpdatedAt = updatedAt\<rparr>))))))))"

definition scanGoalWeeklyReview :: "goal_weekly_review scan" where
  "scanGoalWeeklyReview =
     dest to_int (\<lambda>i. dest to_int (\<lambda>goalSetID. dest to_date (\<lambda>reviewWeekStart.
     dest to_Int4 (\<lambda>promptMessageID. dest to_Int4 (\<lambda>promptMessageThreadID.
     dest to_Text (\<lambda>responseText. dest to_Int4 (\<lambda>responseMessageID.
     dest to_Int4 (\<lambda>responseMessageThreadID. dest to_time (\<lambda>requestedAt.
     dest to_Timestamptz (\<lambda>reminderSentAt. dest to_Timestamptz (\<lambda>respondedAt.
     dest to_Timestamptz (\<lambda>skippedAt.
     scanned \<lparr>wr_ID = i, wr_GoalSetID = goalSetID, wr_ReviewWeekStart = reviewWeekStart,
       wr_PromptMessageID = int64FromPgInt4 promptMessageID,
       wr_PromptMessageThreadID = int64FromPgInt4 promptMessageThreadID, wr_ResponseText = textFromPg responseText,
       wr_ResponseMessageID = int64FromPgInt4 responseMessageID,
       wr_ResponseMessageThreadID = int64FromPgInt4 responseMessageThreadID, wr_RequestedAt = requestedAt,
       wr_ReminderSentAt = timeFromPg reminderSentAt, wr_RespondedAt = timeFromPg respondedAt,
       wr_SkippedAt = timeFromPg skippedAt\<rparr>))))))))))))"

definition scanGoalFinalReview :: "goal_final_review scan" where
  "scanGoalFinalReview =
     dest to_int (\<lambda>i. dest to_int (\<lambda>goalSetID. dest goalFinalStatusFromPg (\<lambda>status.
     dest to_Int4 (\<lambda>promptMessageID. dest to_Int4 (\<lambda>promptMessageThreadID.
     dest to_Text (\<lambda>summaryText. dest to_ints (\<lambda>summaryMessageIDs.
     dest to_time (\<lambda>requestedAt. dest to_Timestamptz (\<lambda>completedAt.
     scanned \<lparr>fr_ID = i, fr_GoalSetID = goalSetID, fr_Status = status, fr_PromptMessageID = int64FromPgInt4 promptMessageID,
       fr_PromptMessageThreadID = int64FromPgInt4 promptMessageThreadID, fr_SummaryText = textFromPg summaryText,
       fr_SummaryMessageIDs = summaryMessageIDs, fr_RequestedAt = requestedAt, fr_CompletedAt = timeFromPg completedAt\<rparr>)))))))))"

section \<open>The columns of a row\<close>

definition opt_col :: "('a \<Rightarrow> column) \<Rightarrow> 'a option \<Rightarrow> column" where
  "opt_col f v = (case v of None \<Rightarrow> Null | Some x \<Rightarrow> f x)"

text \<open>What a column can hold: 32 and 64 bits, and whole microseconds.\<close>

definition fits4 :: "int \<Rightarrow> bool" where "fits4 n \<longleftrightarrow> - 2147483648 \<le> n \<and> n < 2147483648"

definition fits8 :: "int \<Rightarrow> bool" where "fits8 n \<longleftrightarrow> - 9223372036854775808 \<le> n \<and> n < 9223372036854775808"

definition whole_us :: "int \<Rightarrow> bool" where "whole_us t \<longleftrightarrow> t mod 1000 = 0"

definition workspace_columns :: "workspace \<Rightarrow> column list" where
  "workspace_columns r = [Int4 (word_of_int (ws_ID r)), Int8 (word_of_int (ws_ChatID r)), opt_col Text (ws_Title r), Text (ws_Timezone r),
     Text (setup_status_str (ws_SetupStatus r)), opt_col (\<lambda>n. Int4 (word_of_int n)) (ws_SetupMessageID r),
     Timestamptz (ws_CreatedAt r div 1000), Timestamptz (ws_UpdatedAt r div 1000)]"

definition workspace_fits :: "workspace \<Rightarrow> bool" where
  "workspace_fits r \<longleftrightarrow> fits4 (ws_ID r) \<and> fits8 (ws_ChatID r) \<and> pred_option fits4 (ws_SetupMessageID r) \<and>
     whole_us (ws_CreatedAt r) \<and> whole_us (ws_UpdatedAt r)"

definition topic_binding_columns :: "topic_binding \<Rightarrow> column list" where
  "topic_binding_columns r = [Int4 (word_of_int (tb_ID r)), Int4 (word_of_int (tb_WorkspaceGroupID r)), Text (topic_key_str (tb_TopicKey r)),
     Int4 (word_of_int (tb_ThreadID r)), Text (tb_TopicTitle r),
     opt_col (\<lambda>n. Int4 (word_of_int n)) (tb_IntroMessageID r),
     opt_col (\<lambda>n. Int4 (word_of_int n)) (tb_ControlMessageID r), Timestamptz (tb_CreatedAt r div 1000)]"

definition topic_binding_fits :: "topic_binding \<Rightarrow> bool" where
  "topic_binding_fits r \<longleftrightarrow> fits4 (tb_ID r) \<and> fits4 (tb_WorkspaceGroupID r) \<and> fits4 (tb_ThreadID r) \<and>
     pred_option fits4 (tb_IntroMessageID r) \<and> pred_option fits4 (tb_ControlMessageID r) \<and>
     whole_us (tb_CreatedAt r)"

definition participant_columns :: "participant \<Rightarrow> column list" where
  "participant_columns r = [Int4 (word_of_int (pt_ID r)), Int4 (word_of_int (pt_WorkspaceGroupID r)), Int8 (word_of_int (pt_UserID r)),
     opt_col Text (pt_Username r), Text (pt_DisplayName r), Bool (pt_IsActive r),
     Timestamptz (pt_CreatedAt r div 1000), Timestamptz (pt_UpdatedAt r div 1000)]"

definition participant_fits :: "participant \<Rightarrow> bool" where
  "participant_fits r \<longleftrightarrow> fits4 (pt_ID r) \<and> fits4 (pt_WorkspaceGroupID r) \<and> fits8 (pt_UserID r) \<and>
     whole_us (pt_CreatedAt r) \<and> whole_us (pt_UpdatedAt r)"

definition daily_task_columns :: "daily_task \<Rightarrow> column list" where
  "daily_task_columns r = [Int4 (word_of_int (tk_ID r)), Int4 (word_of_int (tk_WorkspaceGroupID r)),
     Int4 (word_of_int (tk_ParticipantID r)), Int8 (word_of_int (tk_OwnerUserID r)), Date (tk_TaskDate r),
     Text (entry_kind_str (tk_Kind r)), Text (tk_Text r), Text (task_status_str (tk_Status r)),
     opt_col Text (tk_ReportText r), opt_col (\<lambda>s. Text (task_status_str s)) (tk_ReportStatus r),
     opt_col (\<lambda>n. Int4 (word_of_int n)) (tk_TodayCardMessageID r), Timestamptz (tk_CreatedAt r div 1000),
     opt_col (\<lambda>t. Timestamptz (t div 1000)) (tk_ReportedAt r),
     opt_col (\<lambda>t. Timestamptz (t div 1000)) (tk_AwaitingReportAt r),
     opt_col (\<lambda>t. Timestamptz (t div 1000)) (tk_FailedAt r),
     opt_col (\<lambda>n. Int4 (word_of_int n)) (tk_TaskMessageID r),
     opt_col (\<lambda>n. Int4 (word_of_int n)) (tk_TaskMessageThreadID r),
     opt_col (\<lambda>n. Int4 (word_of_int n)) (tk_ReportMessageID r),
     opt_col (\<lambda>n. Int4 (word_of_int n)) (tk_ReportMessageThreadID r)]"

definition daily_task_fits :: "daily_task \<Rightarrow> bool" where
  "daily_task_fits r \<longleftrightarrow> fits4 (tk_ID r) \<and> fits4 (tk_WorkspaceGroupID r) \<and> fits4 (tk_ParticipantID r) \<and>
     fits8 (tk_OwnerUserID r) \<and> pred_option fits4 (tk_TodayCardMessageID r) \<and>
     whole_us (tk_CreatedAt r) \<and> pred_option whole_us (tk_ReportedAt r) \<and>
     pred_option whole_us (tk_AwaitingReportAt r) \<and> pred_option whole_us (tk_FailedAt r) \<and>
     pred_option fits4 (tk_TaskMessageID r) \<and> pred_option fits4 (tk_TaskMessageThreadID r) \<and>
     pred_option fits4 (tk_ReportMessageID r) \<and> pred_option fits4 (tk_ReportMessageThreadID r)"

definition daily_task_alert_columns :: "daily_task_alert \<Rightarrow> column list" where
  "daily_task_alert_columns r = [Int4 (word_of_int (al_ID r)), Int4 (word_of_int (al_DailyTaskID r)), Text (alert_kind_str (al_AlertKind r)),
     Text (alert_status_str (al_DispatchStatus r)),
     opt_col (\<lambda>n. Int4 (word_of_int n)) (al_TelegramMessageID r),
     opt_col (\<lambda>t. Timestamptz (t div 1000)) (al_AcknowledgedAt r), Timestamptz (al_CreatedAt r div 1000)]"

definition daily_task_alert_fits :: "daily_task_alert \<Rightarrow> bool" where
  "daily_task_alert_fits r \<longleftrightarrow> fits4 (al_ID r) \<and> fits4 (al_DailyTaskID r) \<and> pred_option fits4 (al_TelegramMessageID r) \<and>
     pred_option whole_us (al_AcknowledgedAt r) \<and> whole_us (al_CreatedAt r)"

definition pending_input_columns :: "pending_input \<Rightarrow> column list" where
  "pending_input_columns r = [Int4 (word_of_int (pi_ID r)), Int4 (word_of_int (pi_WorkspaceGroupID r)), Int8 (word_of_int (pi_UserID r)),
     Int4 (word_of_int (pi_MessageThreadID r)), Text (pending_kind_str (pi_Kind r)), Jsonb (pi_Payload r),
     Timestamptz (pi_CreatedAt r div 1000)]"

definition pending_input_fits :: "pending_input \<Rightarrow> bool" where
  "pending_input_fits r \<longleftrightarrow> fits4 (pi_ID r) \<and> fits4 (pi_WorkspaceGroupID r) \<and> fits8 (pi_UserID r) \<and>
     fits4 (pi_MessageThreadID r) \<and> whole_us (pi_CreatedAt r)"

definition progress_event_columns :: "progress_event \<Rightarrow> column list" where
  "progress_event_columns r = [Int4 (word_of_int (pe_ID r)), Int4 (word_of_int (pe_WorkspaceGroupID r)),
     opt_col (\<lambda>n. Int4 (word_of_int n)) (pe_ParticipantID r),
     opt_col (\<lambda>n. Int4 (word_of_int n)) (pe_DailyTaskID r), Text (event_type_str (pe_EventType r)),
     Text (publish_status_str (pe_PublishStatus r)), Jsonb (pe_Payload r),
     opt_col (\<lambda>n. Int4 (word_of_int n)) (pe_PublishedMessageID r), Timestamptz (pe_CreatedAt r div 1000),
     opt_col (\<lambda>t. Timestamptz (t div 1000)) (pe_PublishedAt r)]"

definition progress_event_fits :: "progress_event \<Rightarrow> bool" where
  "progress_event_fits r \<longleftrightarrow> fits4 (pe_ID r) \<and> fits4 (pe_WorkspaceGroupID r) \<and> pred_option fits4 (pe_ParticipantID r) \<and>
     pred_option fits4 (pe_DailyTaskID r) \<and> pred_option fits4 (pe_PublishedMessageID r) \<and>
     whole_us (pe_CreatedAt r) \<and> pred_option whole_us (pe_PublishedAt r)"

definition routine_plan_columns :: "routine_plan \<Rightarrow> column list" where
  "routine_plan_columns r = [Int4 (word_of_int (rp_ID r)), Int4 (word_of_int (rp_WorkspaceGroupID r)),
     Int4 (word_of_int (rp_ParticipantID r)), Int8 (word_of_int (rp_OwnerUserID r)), JsonStrings (rp_Items r),
     opt_col (\<lambda>n. Int4 (word_of_int n)) (rp_SourceMessageID r),
     opt_col (\<lambda>n. Int4 (word_of_int n)) (rp_SourceMessageThreadID r), Timestamptz (rp_CreatedAt r div 1000),
     Timestamptz (rp_UpdatedAt r div 1000)]"

definition routine_plan_fits :: "routine_plan \<Rightarrow> bool" where
  "routine_plan_fits r \<longleftrightarrow> fits4 (rp_ID r) \<and> fits4 (rp_WorkspaceGroupID r) \<and> fits4 (rp_ParticipantID r) \<and>
     fits8 (rp_OwnerUserID r) \<and> pred_option fits4 (rp_SourceMessageID r) \<and>
     pred_option fits4 (rp_SourceMessageThreadID r) \<and> whole_us (rp_CreatedAt r) \<and> whole_us (rp_UpdatedAt r)"

definition routine_checkin_columns :: "routine_checkin \<Rightarrow> column list" where
  "routine_checkin_columns r = [Int4 (word_of_int (rc_ID r)), Int4 (word_of_int (rc_WorkspaceGroupID r)),
     Int4 (word_of_int (rc_ParticipantID r)), Int8 (word_of_int (rc_OwnerUserID r)), Date (rc_CheckinDate r),
     opt_col (\<lambda>n. Int4 (word_of_int n)) (rc_SourceMessageID r),
     opt_col (\<lambda>n. Int4 (word_of_int n)) (rc_SourceMessageThreadID r),
     opt_col (\<lambda>n. Int4 (word_of_int n)) (rc_CardMessageID r),
     opt_col (\<lambda>n. Int4 (word_of_int n)) (rc_CardMessageThreadID r),
     opt_col (\<lambda>n. Int4 (word_of_int n)) (rc_ReminderMessageID r),
     opt_col (\<lambda>n. Int4 (word_of_int n)) (rc_AutoCloseNoticeMessageID r), opt_col Text (rc_ReflectionText r),
     Timestamptz (rc_CreatedAt r div 1000), Timestamptz (rc_UpdatedAt r div 1000),
     opt_col (\<lambda>t. Timestamptz (t div 1000)) (rc_ReminderSentAt r),
     opt_col (\<lambda>t. Timestamptz (t div 1000)) (rc_AutoCloseNoticeSentAt r),
     opt_col (\<lambda>t. Timestamptz (t div 1000)) (rc_CompletedAt r),
     opt_col (\<lambda>t. Timestamptz (t div 1000)) (rc_AutoFailedAt r)]"

definition routine_checkin_fits :: "routine_checkin \<Rightarrow> bool" where
  "routine_checkin_fits r \<longleftrightarrow> fits4 (rc_ID r) \<and> fits4 (rc_WorkspaceGroupID r) \<and> fits4 (rc_ParticipantID r) \<and>
     fits8 (rc_OwnerUserID r) \<and> pred_option fits4 (rc_SourceMessageID r) \<and>
     pred_option fits4 (rc_SourceMessageThreadID r) \<and> pred_option fits4 (rc_CardMessageID r) \<and>
     pred_option fits4 (rc_CardMessageThreadID r) \<and> pred_option fits4 (rc_ReminderMessageID r) \<and>
     pred_option fits4 (rc_AutoCloseNoticeMessageID r) \<and> whole_us (rc_CreatedAt r) \<and>
     whole_us (rc_UpdatedAt r) \<and> pred_option whole_us (rc_ReminderSentAt r) \<and>
     pred_option whole_us (rc_AutoCloseNoticeSentAt r) \<and> pred_option whole_us (rc_CompletedAt r) \<and>
     pred_option whole_us (rc_AutoFailedAt r)"

definition routine_checkin_item_columns :: "routine_checkin_item \<Rightarrow> column list" where
  "routine_checkin_item_columns r = [Int4 (word_of_int (ri_ID r)), Int4 (word_of_int (ri_RoutineCheckinID r)), Int4 (word_of_int (ri_ItemIndex r)),
     Text (ri_Text r), opt_col (\<lambda>s. Text (routine_status_str s)) (ri_Status r),
     opt_col Text (ri_ReasonText r), Timestamptz (ri_CreatedAt r div 1000), Timestamptz (ri_UpdatedAt r div 1000)]"

definition routine_checkin_item_fits :: "routine_checkin_item \<Rightarrow> bool" where
  "routine_checkin_item_fits r \<longleftrightarrow> fits4 (ri_ID r) \<and> fits4 (ri_RoutineCheckinID r) \<and> fits4 (ri_ItemIndex r) \<and>
     whole_us (ri_CreatedAt r) \<and> whole_us (ri_UpdatedAt r)"

definition goal_weekly_review_columns :: "goal_weekly_review \<Rightarrow> column list" where
  "goal_weekly_review_columns r = [Int4 (word_of_int (wr_ID r)), Int4 (word_of_int (wr_GoalSetID r)), Date (wr_ReviewWeekStart r),
     opt_col (\<lambda>n. Int4 (word_of_int n)) (wr_PromptMessageID r),
     opt_col (\<lambda>n. Int4 (word_of_int n)) (wr_PromptMessageThreadID r), opt_col Text (wr_ResponseText r),
     opt_col (\<lambda>n. Int4 (word_of_int n)) (wr_ResponseMessageID r),
     opt_col (\<lambda>n. Int4 (word_of_int n)) (wr_ResponseMessageThreadID r),
     Timestamptz (wr_RequestedAt r div 1000), opt_col (\<lambda>t. Timestamptz (t div 1000)) (wr_ReminderSentAt r),
     opt_col (\<lambda>t. Timestamptz (t div 1000)) (wr_RespondedAt r),
     opt_col (\<lambda>t. Timestamptz (t div 1000)) (wr_SkippedAt r)]"

definition goal_weekly_review_fits :: "goal_weekly_review \<Rightarrow> bool" where
  "goal_weekly_review_fits r \<longleftrightarrow> fits4 (wr_ID r) \<and> fits4 (wr_GoalSetID r) \<and> pred_option fits4 (wr_PromptMessageID r) \<and>
     pred_option fits4 (wr_PromptMessageThreadID r) \<and> pred_option fits4 (wr_ResponseMessageID r) \<and>
     pred_option fits4 (wr_ResponseMessageThreadID r) \<and> whole_us (wr_RequestedAt r) \<and>
     pred_option whole_us (wr_ReminderSentAt r) \<and> pred_option whole_us (wr_RespondedAt r) \<and>
     pred_option whole_us (wr_SkippedAt r)"

definition goal_final_review_columns :: "goal_final_review \<Rightarrow> column list" where
  "goal_final_review_columns r = [Int4 (word_of_int (fr_ID r)), Int4 (word_of_int (fr_GoalSetID r)),
     opt_col (\<lambda>s. Text (goal_status_str s)) (fr_Status r),
     opt_col (\<lambda>n. Int4 (word_of_int n)) (fr_PromptMessageID r),
     opt_col (\<lambda>n. Int4 (word_of_int n)) (fr_PromptMessageThreadID r), opt_col Text (fr_SummaryText r),
     Int8s (map word_of_int (fr_SummaryMessageIDs r)), Timestamptz (fr_RequestedAt r div 1000),
     opt_col (\<lambda>t. Timestamptz (t div 1000)) (fr_CompletedAt r)]"

definition goal_final_review_fits :: "goal_final_review \<Rightarrow> bool" where
  "goal_final_review_fits r \<longleftrightarrow> fits4 (fr_ID r) \<and> fits4 (fr_GoalSetID r) \<and> pred_option fits4 (fr_PromptMessageID r) \<and>
     pred_option fits4 (fr_PromptMessageThreadID r) \<and> list_all fits8 (fr_SummaryMessageIDs r) \<and>
     whole_us (fr_RequestedAt r) \<and> pred_option whole_us (fr_CompletedAt r)"

section \<open>Reading back\<close>

named_theorems column_simps \<open>equations that read columns\<close>

lemma dest_Cons [column_simps]: "read c = Some x \<Longrightarrow> dest read k (c # cs) = k x cs"
  by (simp add: dest_def)

lemma scanned_Nil [column_simps]: "scanned v [] = Inr v"
  by (simp add: scanned_def)

lemma sint_fits [column_simps]: "fits4 n \<Longrightarrow> sint (word_of_int n :: 32 word) = n" "fits8 n \<Longrightarrow> sint (word_of_int n :: 64 word) = n"
  by (simp_all only: sint_sbintrunc') (rule signed_take_bit_int_eq_self; simp add: fits4_def fits8_def)+

lemma whole_us_div [column_simps]: "whole_us t \<Longrightarrow> t div 1000 * 1000 = t"
  using div_mult_mod_eq [of t 1000] by (simp add: whole_us_def)

lemma read_value [column_simps]:
  "fits4 n \<Longrightarrow> to_int (Int4 (word_of_int n)) = Some n" "fits8 n \<Longrightarrow> to_int (Int8 (word_of_int n)) = Some n"
  "whole_us t \<Longrightarrow> to_time (Timestamptz (t div 1000)) = Some t"
  "list_all fits8 ns \<Longrightarrow> to_ints (Int8s (map word_of_int ns)) = Some ns"
  by (auto simp: sint_fits whole_us_div list_all_iff intro!: map_idI)

lemma read_option [column_simps]:
  "to_Int4 (opt_col (\<lambda>n. Int4 (word_of_int n)) v) = Some (map_option word_of_int v)"
  "to_Text (opt_col Text u) = Some u"
  "to_Timestamptz (opt_col (\<lambda>t. Timestamptz (t div 1000)) x) = Some (map_option (\<lambda>t. t div 1000) x)"
  by (simp_all add: opt_col_def split: option.split)

lemma convert_option [column_simps]:
  "pred_option fits4 v \<Longrightarrow> int64FromPgInt4 (map_option word_of_int v) = v" "textFromPg u = u"
  "pred_option whole_us x \<Longrightarrow> timeFromPg (map_option (\<lambda>t. t div 1000) x) = x"
  by (cases v; cases u; cases x; simp add: int64FromPgInt4_def textFromPg_def timeFromPg_def sint_fits whole_us_div)+

lemma ints_fit [column_simps]: "list_all fits8 ns \<Longrightarrow> map (sint \<circ> (word_of_int :: int \<Rightarrow> 64 word)) ns = ns"
  by (induction ns) (simp_all add: sint_fits)

text \<open>Every constant is found by its string.\<close>

lemma find_constants [column_simps]:
  "find_constant setup_status_str setup_statuses (setup_status_str a) = Some a"
  "find_constant topic_key_str topic_keys (topic_key_str b) = Some b"
  "find_constant task_status_str task_statuses (task_status_str c) = Some c"
  "find_constant entry_kind_str entry_kinds (entry_kind_str d) = Some d"
  "find_constant alert_kind_str alert_kinds (alert_kind_str e) = Some e"
  "find_constant alert_status_str alert_statuses (alert_status_str f) = Some f"
  "find_constant event_type_str event_types (event_type_str g) = Some g"
  "find_constant publish_status_str publish_statuses (publish_status_str h) = Some h"
  "find_constant pending_kind_str pending_kinds (pending_kind_str i) = Some i"
  "find_constant routine_status_str routine_statuses (routine_status_str j) = Some j"
  "find_constant goal_status_str goal_statuses (goal_status_str k) = Some k"
  unfolding find_constant_def setup_statuses_def topic_keys_def task_statuses_def entry_kinds_def alert_kinds_def
    alert_statuses_def event_types_def publish_statuses_def pending_kinds_def routine_statuses_def goal_statuses_def
  by ((cases a; simp), (cases b; simp), (cases c; simp), (cases d; simp), (cases e; simp), (cases f; simp), (cases g; simp), (cases h; simp), (cases i; simp), (cases j; simp), (cases k; simp))

lemma to_constants [column_simps]:
  "find_constant str vs (str v) = Some v \<Longrightarrow> to_constant str vs (Text (str v)) = Some v"
  "(\<And>x. find_constant str vs (str x) = Some x) \<Longrightarrow> to_constant_opt str vs (opt_col (\<lambda>s. Text (str s)) u) = Some u"
  by (simp_all add: to_constant_def to_constant_opt_def opt_col_def split: option.split)

lemma statuses_read [column_simps]:
  "statusFromPg (opt_col (\<lambda>s. Text (task_status_str s)) c) = Some c"
  "routineStatusFromPg (opt_col (\<lambda>s. Text (routine_status_str s)) j) = Some j"
  "goalFinalStatusFromPg (opt_col (\<lambda>s. Text (goal_status_str s)) k) = Some k"
  by (simp_all add: statusFromPg_def routineStatusFromPg_def goalFinalStatusFromPg_def column_simps)

lemma workspace_read: "workspace_fits r \<Longrightarrow> scanWorkspace (workspace_columns r) = Inr r"
  by (cases r) (simp add: scanWorkspace_def workspace_columns_def workspace_fits_def
      column_simps)

lemma topic_binding_read: "topic_binding_fits r \<Longrightarrow> scanTopicBinding (topic_binding_columns r) = Inr r"
  by (cases r) (simp add: scanTopicBinding_def topic_binding_columns_def topic_binding_fits_def
      column_simps)

lemma participant_read: "participant_fits r \<Longrightarrow> scanParticipant (participant_columns r) = Inr r"
  by (cases r) (simp add: scanParticipant_def participant_columns_def participant_fits_def
      column_simps)

lemma daily_task_read: "daily_task_fits r \<Longrightarrow> scanDailyTask (daily_task_columns r) = Inr r"
  by (cases r) (simp add: scanDailyTask_def daily_task_columns_def daily_task_fits_def
      column_simps)

lemma daily_task_alert_read: "daily_task_alert_fits r \<Longrightarrow> scanAlert (daily_task_alert_columns r) = Inr (r\<lparr>al_DispatchStartedAt := None\<rparr>)"
  by (cases r) (simp add: scanAlert_def daily_task_alert_columns_def daily_task_alert_fits_def
      column_simps)

lemma pending_input_read: "pending_input_fits r \<Longrightarrow> scanPending (pending_input_columns r) = Inr (scan_pending r)"
  by (cases r) (simp add: scanPending_def pending_input_columns_def pending_input_fits_def scan_pending_def
      column_simps)

lemma progress_event_read: "progress_event_fits r \<Longrightarrow> scanProgressEvent (progress_event_columns r) = Inr (scan_event (r\<lparr>pe_PublishStartedAt := None\<rparr>))"
  by (cases r) (simp add: scanProgressEvent_def progress_event_columns_def progress_event_fits_def scan_event_def
      column_simps)

lemma routine_plan_read: "routine_plan_fits r \<Longrightarrow> scanRoutinePlan (routine_plan_columns r) = Inr r"
  by (cases r) (simp add: scanRoutinePlan_def routine_plan_columns_def routine_plan_fits_def
      column_simps)

lemma routine_checkin_read: "routine_checkin_fits r \<Longrightarrow> scanRoutineCheckin (routine_checkin_columns r) = Inr (r\<lparr>rc_Items := []\<rparr>)"
  by (cases r) (simp add: scanRoutineCheckin_def routine_checkin_columns_def routine_checkin_fits_def
      column_simps)

lemma routine_checkin_item_read: "routine_checkin_item_fits r \<Longrightarrow> scanRoutineCheckinItemRows (routine_checkin_item_columns r) = Inr r"
  by (cases r) (simp add: scanRoutineCheckinItemRows_def routine_checkin_item_columns_def routine_checkin_item_fits_def
      column_simps)

lemma goal_weekly_review_read: "goal_weekly_review_fits r \<Longrightarrow> scanGoalWeeklyReview (goal_weekly_review_columns r) = Inr r"
  by (cases r) (simp add: scanGoalWeeklyReview_def goal_weekly_review_columns_def goal_weekly_review_fits_def
      column_simps)

lemma goal_final_review_read: "goal_final_review_fits r \<Longrightarrow> scanGoalFinalReview (goal_final_review_columns r) = Inr r"
  by (cases r) (simp add: scanGoalFinalReview_def goal_final_review_columns_def goal_final_review_fits_def
      column_simps)

section \<open>Property\<close>



text \<open>A message with a number beyond 32 bits has no column: its low bits would name another message.\<close>

lemma wide_id_wraps: "to_int (Int4 (word_of_int 4294967338)) = Some 42"
  by simp

end
