(* ===== verification/Steady.thy ===== *)
theory Steady imports Worker Talk begin

text \<open>
  Steady programs: run outside a transaction they end outside it, they keep the oracle of the
  database and the environment, and their errors are errors of the program, never the outcome
  \<open>FuelExhausted\<close> of a loop of the model, however deep it may be wrapped. All steps of a worker tick
  but its four loops are steady.
\<close>

section \<open>Steady programs\<close>

fun out_of_fuel :: "goerr \<Rightarrow> bool" where
  "out_of_fuel FuelExhausted = True"
| "out_of_fuel (JoinedError es) = list_ex out_of_fuel es"
| "out_of_fuel (WrappedError p e) = out_of_fuel e"
| "out_of_fuel (TgError t) = False"
| "out_of_fuel (DbError s) = False"
| "out_of_fuel (RuleError r) = False"
| "out_of_fuel (ClaimLost k i) = False"
| "out_of_fuel (PlainError s) = False"

text \<open>Every zone that the database of zones knows is one in which days follow each other.\<close>

definition zoned :: "world \<Rightarrow> bool" where
  "zoned w \<longleftrightarrow> (\<forall>name z. e_tzdb (w_env w) name = Some z \<longrightarrow> civil_zone z)"

definition quiet :: "world \<Rightarrow> world \<Rightarrow> bool" where
  "quiet w w' \<longleftrightarrow> w_sql w' = w_sql w \<and> w_env w' = w_env w \<and> (w_tx w = NoTx \<longrightarrow> w_tx w' = NoTx)"

definition steady :: "'a io \<Rightarrow> bool" where
  "steady m \<longleftrightarrow> (\<forall>w r w'. zoned w \<longrightarrow> m w = (r, w') \<longrightarrow> quiet w w' \<and> (\<forall>e. r = Inl e \<longrightarrow> \<not> out_of_fuel e))"

lemma quiet_refl [simp]: "quiet w w"
  by (simp add: quiet_def)

lemma quiet_trans: "quiet w w1 \<Longrightarrow> quiet w1 w2 \<Longrightarrow> quiet w w2"
  by (simp add: quiet_def)

lemma quiet_zoned: "quiet w w' \<Longrightarrow> zoned w' = zoned w"
  by (simp add: quiet_def zoned_def)

lemma steadyD: "steady m \<Longrightarrow> zoned w \<Longrightarrow> m w = (r, w') \<Longrightarrow> quiet w w'"
  "steady m \<Longrightarrow> zoned w \<Longrightarrow> m w = (Inl e, w') \<Longrightarrow> \<not> out_of_fuel e"
  by (auto simp: steady_def)

lemma steady_quiet: "steady m \<Longrightarrow> zoned w \<Longrightarrow> quiet w (snd (m w))"
  by (metis prod.collapse steadyD(1))

lemma steadyI: "(\<And>w r w'. zoned w \<Longrightarrow> m w = (r, w') \<Longrightarrow> quiet w w' \<and> (\<forall>e. r = Inl e \<longrightarrow> \<not> out_of_fuel e)) \<Longrightarrow> steady m"
  by (simp add: steady_def)

lemma steady_simple: "steady (ret x)" "\<not> out_of_fuel e \<Longrightarrow> steady (failM e)" "steady (getW g)" "steady time_now"
  "steady (rule r)" "(\<And>e. oe = Some e \<Longrightarrow> \<not> out_of_fuel e) \<Longrightarrow> steady (raise_opt oe)"
  by (auto intro!: steadyI simp: ret_def failM_def getW_def time_now_def rule_def raise_opt_def split: option.splits sum.splits)

lemma steady_bindM:
  assumes "steady m" and "\<And>x. steady (f x)"
  shows "steady (bindM m f)"
proof (rule steadyI)
  fix w r w' assume z: "zoned w" and run: "bindM m f w = (r, w')"
  obtain r1 w1 where m: "m w = (r1, w1)" by (cases "m w")
  note q = steadyD(1) [OF assms(1) z m]
  show "quiet w w' \<and> (\<forall>e. r = Inl e \<longrightarrow> \<not> out_of_fuel e)"
  proof (cases r1)
    case (Inl e)
    then show ?thesis using m run steadyD [OF assms(1) z] by auto
  next
    case (Inr x)
    then have fx: "f x w1 = (r, w')" using m run by simp
    have z1: "zoned w1" using z quiet_zoned [OF q] by simp
    show ?thesis using quiet_trans [OF q steadyD(1) [OF assms(2) z1 fx]] steadyD(2) [OF assms(2) z1] fx by auto
  qed
qed

text \<open>An error that is looked at as a value is one of the program, too.\<close>

lemma steady_bind_err_of:
  assumes "steady m" and "\<And>r. (\<And>e. r = Some e \<Longrightarrow> \<not> out_of_fuel e) \<Longrightarrow> steady (f r)"
  shows "steady (bindM (err_of m) f)"
proof (rule steadyI)
  fix w r w' assume z: "zoned w" and run: "bindM (err_of m) f w = (r, w')"
  obtain r1 w1 where m: "m w = (r1, w1)" by (cases "m w")
  let ?v = "case r1 of Inl e \<Rightarrow> Some e | Inr _ \<Rightarrow> None"
  have q: "quiet w w1" "zoned w1" using steadyD(1) [OF assms(1) z m] z quiet_zoned by auto
  have v: "\<not> out_of_fuel e" if "?v = Some e" for e
    using that m steadyD(2) [OF assms(1) z] by (auto split: sum.splits)
  have f: "f ?v w1 = (r, w')" using run m by (simp add: bindM_err_of)
  show "quiet w w' \<and> (\<forall>e. r = Inl e \<longrightarrow> \<not> out_of_fuel e)"
    using quiet_trans [OF q(1) steadyD(1) [OF assms(2) [OF v] q(2) f]] steadyD(2) [OF assms(2) [OF v] q(2)] f by auto
qed

lemma steady_bind_attempt:
  assumes "steady m" and "\<And>r. (\<And>e. r = Inl e \<Longrightarrow> \<not> out_of_fuel e) \<Longrightarrow> steady (f r)"
  shows "steady (bindM (attempt m) f)"
proof (rule steadyI)
  fix w r w' assume z: "zoned w" and run: "bindM (attempt m) f w = (r, w')"
  obtain r1 w1 where m: "m w = (r1, w1)" by (cases "m w")
  have q: "quiet w w1" "zoned w1" using steadyD(1) [OF assms(1) z m] z quiet_zoned by auto
  have v: "\<not> out_of_fuel e" if "r1 = Inl e" for e using that m steadyD(2) [OF assms(1) z] by auto
  have f: "f r1 w1 = (r, w')" using run m by (simp add: bindM_attempt)
  show "quiet w w' \<and> (\<forall>e. r = Inl e \<longrightarrow> \<not> out_of_fuel e)"
    using quiet_trans [OF q(1) steadyD(1) [OF assms(2) [OF v] q(2) f]] steadyD(2) [OF assms(2) [OF v] q(2)] f by auto
qed

lemma steady_thenM: "steady m \<Longrightarrow> steady n \<Longrightarrow> steady (thenM m n)"
  by (simp add: thenM_def steady_bindM)

lemma steady_wrap: "steady m \<Longrightarrow> steady (ignore m)" "steady m \<Longrightarrow> steady (err_of m)" "steady m \<Longrightarrow> steady (attempt m)"
  "steady u \<Longrightarrow> steady (whenM b u)"
  by (auto intro!: steadyI simp: ignore_run err_of_run attempt_run whenM_def ret_def dest: steadyD intro: steady_quiet split: if_splits)

lemma steady_loops: "(\<And>x. steady (f x)) \<Longrightarrow> steady (for_each xs f)" "(\<And>x. steady (g x)) \<Longrightarrow> steady (mapM g xs)"
  by (induction xs) (simp_all add: steady_simple steady_thenM steady_bindM)

lemma steady_cases:
  "steady m \<Longrightarrow> steady n \<Longrightarrow> steady (if b then m else n)"
  "(oo = None \<Longrightarrow> steady m) \<Longrightarrow> (\<And>x. oo = Some x \<Longrightarrow> steady (f x)) \<Longrightarrow> steady (case oo of None \<Rightarrow> m | Some x \<Rightarrow> f x)"
  "(\<And>e. s = Inl e \<Longrightarrow> steady (g e)) \<Longrightarrow> (\<And>y. s = Inr y \<Longrightarrow> steady (h y)) \<Longrightarrow> steady (case s of Inl e \<Rightarrow> g e | Inr y \<Rightarrow> h y)"
  "(\<And>x y. steady (k x y)) \<Longrightarrow> steady (case p of (x, y) \<Rightarrow> k x y)"
  by (simp_all split: option.split sum.split prod.split)

lemma steady_stmt: "steady (stmt f)"
proof -
  have bump: "quiet w (bump w)" "quiet w (abort_tx (bump w))" "quiet w ((bump w)\<lparr>w_db := d\<rparr>)" for w d
    by (simp_all add: quiet_def bump_def abort_tx_def)
  then show ?thesis by (intro steadyI) (auto simp: stmt_def split: tx_state.splits option.splits prod.splits)
qed

lemma steady_statements: "steady (query q)" "steady (exec g)"
  by (simp_all add: query_def exec_def steady_stmt)

lemma steady_inTx:
  assumes "steady m"
  shows "steady (inTx m)"
proof (rule steadyI)
  fix w r w' assume z: "zoned w" and run: "inTx m w = (r, w')"
  let ?w0 = "(bump w)\<lparr>w_tx := InTx (w_now w)\<rparr>"
  obtain r1 w1 where m: "m ?w0 = (r1, w1)" by (cases "m ?w0")
  have z0: "zoned ?w0" using z by (simp add: zoned_def bump_def)
  have q: "w_sql w1 = w_sql w" "w_env w1 = w_env w" using steadyD(1) [OF assms z0 m] by (simp_all add: quiet_def bump_def)
  have e: "\<not> out_of_fuel e" if "r1 = Inl e" for e using steadyD(2) [OF assms z0] m that by auto
  show "quiet w w' \<and> (\<forall>e. r = Inl e \<longrightarrow> \<not> out_of_fuel e)"
    using run m q e
    by (auto simp: inTx_def quiet_def rollback_def bump_def split: option.splits sum.splits tx_state.splits)
qed

lemma talk_quiet: "talk w w' \<Longrightarrow> quiet w w'"
  by (simp add: talk_def quiet_def)

lemma steady_callJSON: "steady (callJSON req)"
proof (rule steadyI)
  fix w r w' assume "callJSON req w = (r, w')"
  moreover have "0 < retryAttempts (method_of req)" by (simp add: retryAttempts_def)
  ultimately obtain m where "r = attempt_result req w m"
    using call_attempts_sent [of "retryAttempts (method_of req)" 1 "PlainError []" req w] by (auto simp: callJSON_def)
  then show "quiet w w' \<and> (\<forall>e. r = Inl e \<longrightarrow> \<not> out_of_fuel e)"
    using \<open>callJSON req w = (r, w')\<close> talk_quiet [OF talksD [OF talks_callJSON, of w req]]
    by (auto simp: attempt_result_def map_sum_def split: sum.splits)
qed

lemmas steady_rules = steady_simple steady_bind_err_of steady_bind_attempt steady_bindM steady_thenM steady_wrap steady_loops
  steady_cases steady_stmt steady_statements steady_inTx

named_theorems steady_ops \<open>operations shown to be steady\<close>

lemma steady_call_unless: "steady (call_unless h req)"
  unfolding call_unless_def by (intro steady_rules steady_callJSON) simp

lemma steady_telegram [steady_ops]: "steady (tgSendMessage sr)" "steady (tgEditMessageText er)" "steady (tgDeleteMessage c i)"
  unfolding tgSendMessage_def tgEditMessageText_def tgDeleteMessage_def Let_def
  by (intro steady_rules steady_callJSON steady_call_unless)+

section \<open>Operations of the database\<close>

lemma steady_reads [steady_ops]:
  "steady (CurrentNow t)" "steady current_now" "steady ListTasksForTransition" "steady (GetWorkspaceByID wid)"
  "steady (GetParticipantByID pid)" "steady (GetTopicBinding wid tk)" "steady ListRoutinePlanContexts"
  "steady (DeliveryReady op i t)" "steady (DeliveryRetryIDs op t)" "steady (GetPendingInput wid u th)"
  "steady (ListExpiredRoutineNoticeContexts t)" "steady ListSeasonalGoalSetContexts" "steady (GetOpenGoalWeeklyReview gid)"
  "steady (ListRoutineCheckinItems i)" "steady (GetTask tid)" "steady (ListStalePendingInputContexts t n)"
  unfolding CurrentNow_def current_now_def ListTasksForTransition_def GetWorkspaceByID_def GetParticipantByID_def
    GetTopicBinding_def ListRoutinePlanContexts_def DeliveryReady_def DeliveryRetryIDs_def GetPendingInput_def
    ListExpiredRoutineNoticeContexts_def ListSeasonalGoalSetContexts_def GetOpenGoalWeeklyReview_def
    ListRoutineCheckinItems_def GetTask_def ListStalePendingInputContexts_def
  by (intro steady_rules)+

lemma steady_delivery_writes [steady_ops]:
  "steady (RecordDeliveryFailure op i t c s)" "steady (ClearDeliveryRetry op i)" "steady (SetTopicMessages wid tk mi mc ri rc)"
  "steady ClaimPendingAlert" "steady ClaimProgressEvent" "steady (ClaimStalePendingInput i t)"
  unfolding RecordDeliveryFailure_def ClearDeliveryRetry_def SetTopicMessages_def ClaimPendingAlert_def ClaimProgressEvent_def
    ClaimStalePendingInput_def take_pending_def
  by (intro steady_rules)+

lemma steady_claims [steady_ops]:
  "steady (MarkAlertSent i m)" "steady (RequeueAlert i)" "steady (MarkProgressEventPublished i m t)"
  "steady (RequeueProgressEvent i)" "steady (MarkProgressEventFailed i)"
  unfolding MarkAlertSent_def RequeueAlert_def MarkProgressEventPublished_def RequeueProgressEvent_def
    MarkProgressEventFailed_def requireDeliveryClaim_def update_count_def
  by (intro steady_rules; simp)+

lemma steady_task_writes [steady_ops]:
  "steady (UpdateTaskAwaitingReport i t)" "steady (UpdateTaskFailed i t)" "steady (GetOrCreateAlert i k)"
  "steady (CreateAutoFailProgressEvent tk w p th)"
  unfolding UpdateTaskAwaitingReport_def UpdateTaskFailed_def GetOrCreateAlert_def CreateAutoFailProgressEvent_def
    CreateProgressEvent_def Let_def
  by (intro steady_rules)+

lemma steady_goal_writes [steady_ops]:
  "steady (GetOrCreateGoalWeeklyReview gid t r)" "steady (GetOrCreateGoalFinalReview gid)"
  "steady (SetGoalWeeklyReviewPrompt i m th t)" "steady (SetGoalWeeklyReviewReminderPrompt i m th t)"
  "steady (MarkGoalWeeklyReviewSkipped i t)" "steady (ClearGoalWeeklyReviewPendingInput wid u th rid)"
  "steady (SetGoalFinalReviewPrompt i m th)" "steady (UpsertPendingInput wid u th k pl)"
  unfolding GetOrCreateGoalWeeklyReview_def GetOrCreateGoalFinalReview_def SetGoalWeeklyReviewPrompt_def
    SetGoalWeeklyReviewReminderPrompt_def MarkGoalWeeklyReviewSkipped_def ClearGoalWeeklyReviewPendingInput_def
    SetGoalFinalReviewPrompt_def UpsertPendingInput_def upd_weekly_def delete_pending_def Let_def
  by (intro steady_rules steady_ops)+

lemma steady_checkin_ops [steady_ops]:
  "steady (GetRoutineCheckin i)" "steady (GetOrCreateRoutineCheckin plan t)" "steady (AutoFailRoutineCheckin i t)"
  "steady ListOpenRoutineCheckinContexts" "steady (GetRoutineLeaderboard wid t)" "steady (ClearRoutineCheckinPendingInput wid u th i)"
  "steady (SetRoutineCheckinCardMessageID i m th)" "steady (SetRoutineCheckinReminderMessageID i m t)"
  "steady (ClearRoutineCheckinReminderMessageID i)" "steady (ClearRoutineCheckinAutoCloseNoticeMessageID i)"
proof -
  have items: "steady (with_items x)" "steady (scanRoutineCheckinContexts xs)" for x xs
    unfolding with_items_def scanRoutineCheckinContexts_def by (intro steady_rules steady_ops)+
  have get: "steady (GetRoutineCheckin i)" "steady (GetRoutineCheckinForDate wid pid t)" for i wid pid t
    unfolding GetRoutineCheckin_def GetRoutineCheckinForDate_def by (intro steady_rules items)+
  then show "steady (GetRoutineCheckin i)" by blast
  have upd: "steady (upd_checkins p f)" "steady (set_checkin i g)" for p f i g
    unfolding set_checkin_def upd_checkins_def by (intro steady_rules)+
  show "steady (GetOrCreateRoutineCheckin plan t)" "steady (AutoFailRoutineCheckin i t)"
    "steady ListOpenRoutineCheckinContexts" "steady (GetRoutineLeaderboard wid t)" "steady (ClearRoutineCheckinPendingInput wid u th i)"
    unfolding GetOrCreateRoutineCheckin_def AutoFailRoutineCheckin_def ListOpenRoutineCheckinContexts_def GetRoutineLeaderboard_def
      ClearRoutineCheckinPendingInput_def delete_pending_def
    by (intro steady_rules steady_ops items get upd | simp)+
  show "steady (SetRoutineCheckinCardMessageID i m th)" "steady (SetRoutineCheckinReminderMessageID i m t)"
    "steady (ClearRoutineCheckinReminderMessageID i)" "steady (ClearRoutineCheckinAutoCloseNoticeMessageID i)"
    unfolding SetRoutineCheckinCardMessageID_def SetRoutineCheckinReminderMessageID_def
      ClearRoutineCheckinReminderMessageID_def ClearRoutineCheckinAutoCloseNoticeMessageID_def by (rule upd)+
qed

section \<open>Deliveries\<close>

lemma steady_Defer: "\<not> out_of_fuel cause \<Longrightarrow> steady (Defer op i now cause)"
  unfolding Defer_def by (intro steady_rules steady_ops) (auto split: if_splits)

lemma steady_Run [steady_ops]: "steady fn \<Longrightarrow> steady (Run op i now fn)" "steady fn \<Longrightarrow> steady (RunSent op i now fn)"
  unfolding Run_def RunSent_def by (intro steady_rules steady_ops steady_Defer; simp)+

lemma steady_cleanup [steady_ops]: "steady (DeleteBestEffort c m s n)" "steady (CloseBestEffort c m s n f)"
  "steady (CompensateSentMessage c m None)" "steady k \<Longrightarrow> steady (CompensateSentMessage c m (Some k))"
  unfolding DeleteBestEffort_def CloseBestEffort_def CompensateSentMessage_def Let_def
  by (intro steady_rules steady_ops | simp add: steady_simple)+

section \<open>The steps of the worker\<close>

lemma steady_tick_start: "steady (tick_start now)"
proof -
  have step: "steady (apply_transition t w tr now)" for t w tr now
    unfolding apply_transition_def by (auto intro!: steady_rules steady_ops split: option.split daily_task_status.split)
  have "steady (transition_loop now ts)" for ts now
    by (induction ts) (unfold transition_loop.simps, (intro steady_rules steady_ops step | assumption)+)
  then show ?thesis unfolding tick_start_def RunDailyTaskTransitions_def by (intro steady_rules steady_ops)
qed

lemma out_of_fuel_joined:
  assumes "errors_join [Some a, b] = Some e"
  shows "out_of_fuel e = (out_of_fuel a \<or> (\<exists>x. b = Some x \<and> out_of_fuel x))"
  using assms by (cases b) (auto simp: errors_join_def map_filter_def)

lemma steady_DispatchDueCheckins: "steady (DispatchDueCheckins now)"
  unfolding DispatchDueCheckins_def dispatch_checkin_def send_checkin_card_def Let_def
  by (intro steady_rules steady_ops) (auto dest: out_of_fuel_joined)

lemma steady_closeNotice: "steady (closeRoutineNotice c m s n)" "steady (routine_deletePendingMessages c pl t n)"
  "steady (deletePendingMessages c pl t n)" "steady (closeWeeklyReviewPrompt c m k n)"
proof -
  have "steady (delete_unseen c t n seen ms)" for seen ms
    by (induction ms arbitrary: seen) (auto intro!: steady_rules steady_ops)
  then show "steady (routine_deletePendingMessages c pl t n)" "steady (deletePendingMessages c pl t n)"
    unfolding routine_deletePendingMessages_def deletePendingMessages_def by blast+
qed (unfold closeRoutineNotice_def closeWeeklyReviewPrompt_def, (intro steady_ops)+)

lemma steady_checkin_transitions: "steady (checkin_transitions now items refreshed)"
proof -
  have step: "steady (checkin_transition now item)" for item
    unfolding checkin_transition_def auto_fail_checkin_def send_reminder_def Let_def
    by (intro steady_rules steady_ops steady_closeNotice) (auto dest: out_of_fuel_joined)
  show ?thesis
    by (induction items arbitrary: refreshed) (unfold checkin_transitions.simps, (intro steady_rules step | assumption)+)
qed

lemma steady_leaderboards: "steady (retry_workspaces ids ws)" "steady (RefreshLeaderboard w c now)"
proof -
  show "steady (retry_workspaces ids ws)"
    by (induction ids arbitrary: ws) (unfold retry_workspaces.simps, (intro steady_rules steady_ops | assumption)+)
  show "steady (RefreshLeaderboard w c now)"
    unfolding RefreshLeaderboard_def post_leaderboard_def Let_def
    by (intro steady_rules steady_ops) (auto dest: out_of_fuel_joined)
qed

lemma steady_CleanupExpiredNotices: "steady (CleanupExpiredNotices now)"
  unfolding CleanupExpiredNotices_def cleanup_notice_def Let_def
  by (intro steady_rules steady_ops steady_closeNotice)

text \<open>The countdown of a review prompt is the only loop over days; where days follow each other it ends.\<close>

context civil_zone
begin

lemma review_days_end: "\<exists>k. review_count_loop starts z (go_date z e 0) (go_date z d 0) n = Some k"
proof (induction "nat (e - d)" arbitrary: d n)
  case 0
  then show ?case by (subst review_count_loop.simps) simp
next
  case (Suc k)
  then show ?case by (subst review_count_loop.simps) (simp add: Suc.hyps(1))
qed

lemma countdown_ends: "tzdb tz = Some z \<Longrightarrow> GoalReviewCountdown tzdb starts ends tz now \<noteq> None"
  using review_days_end [of starts "t_day ends" "t_day (t_in now z) + 1" 0]
  by (auto simp: GoalReviewCountdown_def Let_def day_eqs)

end

lemma steady_countdown:
  "steady (rule_loop (\<lambda>tzdb. GoalReviewCountdown tzdb starts ends tz now))"
proof (rule steadyI)
  fix w :: world and w' :: world and r
  let ?tzdb = "e_tzdb (w_env w)"
  assume z: "zoned w" and run: "rule_loop (\<lambda>tzdb. GoalReviewCountdown tzdb starts ends tz now) w = (r, w')"
  have "GoalReviewCountdown ?tzdb starts ends tz now \<noteq> None"
  proof (cases "?tzdb tz")
    case None
    then show ?thesis by (simp add: GoalReviewCountdown_def load_location_def)
  next
    case (Some l)
    then have "civil_zone l" using z unfolding zoned_def by blast
    then show ?thesis by (rule civil_zone.countdown_ends) (rule Some)
  qed
  then show "quiet w w' \<and> (\<forall>e. r = Inl e \<longrightarrow> \<not> out_of_fuel e)"
    using run by (auto simp: rule_loop_def split: option.splits sum.splits)
qed

lemma steady_sendWeekly: "steady (sendWeeklyReviewPrompt item topic review now b)"
  unfolding sendWeeklyReviewPrompt_def deliverWeeklyReviewPrompt_def persist_weekly_prompt_def Let_def
  by (intro steady_rules steady_ops steady_countdown)
    (auto dest: out_of_fuel_joined simp: errWeeklyReviewNoLongerOpen_def errWeeklyReviewDeferred_def)

lemma steady_weekly_action:
  "steady a \<Longrightarrow> steady b \<Longrightarrow> steady c \<Longrightarrow> steady (case act of GoalWeeklyReviewNoAction \<Rightarrow> a
     | GoalWeeklyReviewRemind \<Rightarrow> b | GoalWeeklyReviewSkip \<Rightarrow> c)"
  by (cases act) simp_all

lemma steady_unless_deferred: "steady m \<Longrightarrow> steady (unless_deferred m)"
  unfolding unless_deferred_def by (intro steady_rules) simp_all

lemma steady_DispatchWeeklyReviews: "steady (DispatchWeeklyReviews now)"
proof -
  have "steady (advanceWeeklyReview item topic review now)" for item topic review
    unfolding advanceWeeklyReview_def Let_def
    by (intro steady_rules steady_ops steady_weekly_action steady_sendWeekly steady_closeNotice)
  then show ?thesis
    unfolding DispatchWeeklyReviews_def weekly_round_def Let_def
    by (intro steady_rules steady_ops steady_unless_deferred steady_sendWeekly)
qed

lemma steady_DispatchFinalReviews: "steady (DispatchFinalReviews now)"
  unfolding DispatchFinalReviews_def final_round_def send_final_prompt_def Let_def
  by (intro steady_rules steady_ops) (auto dest: out_of_fuel_joined)

section \<open>Rounds of the loops\<close>

lemma steady_join_and_fail:
  assumes "steady k" and "\<And>e. a = Some e \<Longrightarrow> \<not> out_of_fuel e" and "\<And>e. b = Some e \<Longrightarrow> \<not> out_of_fuel e"
  shows "steady (join_and_fail [a, b] k)"
  using assms unfolding join_and_fail_def
  by (cases a; cases b) (auto simp: errors_join_def map_filter_def intro!: steady_simple)

lemma steady_publish_round: "steady (publish_round now)"
  unfolding publish_round_def by (intro steady_rules steady_ops steady_join_and_fail steady_Defer) simp_all

lemma steady_alert_round: "steady (alert_round now)"
proof -
  have "steady (deferUnavailableAlert i now reason)" for i reason
    unfolding deferUnavailableAlert_def by (intro steady_rules steady_ops)
  then show ?thesis
    unfolding alert_round_def send_alert_def Let_def
    by (intro steady_rules steady_ops steady_join_and_fail steady_Defer) simp_all
qed

lemma steady_cleanup_round: "steady (cleanup_round cutoff now)"
  unfolding cleanup_round_def by (intro steady_rules steady_ops steady_closeNotice)

end
