(* ===== verification/Outbox_Loops.thy ===== *)
theory Outbox_Loops imports Delivery_Claims Talk begin

text \<open>
  The loops of the worker that claim one delivery after the other end. Every failed round uses up one
  of the eight attempts of a delivery, every other round settles it, so the attempts that are left
  bound the rounds. \<open>claim_loop\<close> is the contract of such a loop; it is interpreted on the rounds of
  \<open>PublishPending\<close> with any Telegram, and with one that accepts every message.
\<close>

section \<open>The contract of a loop\<close>

text \<open>A round either fails with an error in \<open>E\<close>, or is the last one and leaves \<open>Done\<close>, or lowers the
  measure \<open>pot\<close>; all rounds keep the invariant \<open>I\<close> and relate the worlds by \<open>G\<close>.\<close>

locale claim_loop =
  fixes body :: "bool io" and I :: "world \<Rightarrow> bool" and G :: "world \<Rightarrow> world \<Rightarrow> bool"
    and E :: "goerr \<Rightarrow> bool" and Done :: "world \<Rightarrow> bool" and pot :: "world \<Rightarrow> nat"
  assumes G_refl: "G w w" and G_trans: "G w w1 \<Longrightarrow> G w1 w2 \<Longrightarrow> G w w2"
    and round: "I w \<Longrightarrow> case body w of
        (Inl e, w') \<Rightarrow> G w w' \<and> E e
      | (Inr again, w') \<Rightarrow> G w w' \<and> (if again then I w' \<and> pot w' < pot w else Done w')"
begin

lemma loop_ends:
  "I w \<Longrightarrow> pot w < n \<Longrightarrow> case loopM n body w of (Inl e, w') \<Rightarrow> G w w' \<and> E e | (Inr _, w') \<Rightarrow> G w w' \<and> Done w'"
proof (induction n arbitrary: w)
  case (Suc n)
  obtain r w1 where run: "body w = (r, w1)" by (cases "body w")
  show ?case
  proof (cases r)
    case (Inl e)
    then show ?thesis using run round [OF Suc.prems(1)] by (simp add: bindM_def)
  next
    case (Inr again)
    note rd = round [OF Suc.prems(1)]
    show ?thesis
    proof (cases again)
      case True
      then have w1: "G w w1" "I w1" "pot w1 < n" using run rd Inr Suc.prems(2) by simp_all
      have "loopM (Suc n) body w = loopM n body w1" using run Inr True by (simp add: bindM_def)
      then show ?thesis using Suc.IH [OF w1(2,3)] G_trans [OF w1(1)] by (auto split: prod.splits sum.splits)
    next
      case False
      then show ?thesis using run rd Inr by (simp add: bindM_def ret_run)
    qed
  qed
qed simp

end

section \<open>Attempts that are left\<close>

definition attempts_left :: "bytes \<Rightarrow> int \<Rightarrow> db \<Rightarrow> nat" where
  "attempts_left operation i d = (case first_where (retry_key operation i) (db_retries d) of
      None \<Rightarrow> 9 | Some r \<Rightarrow> if dr_Exhausted r then 0 else nat (9 - dr_Attempts r))"

definition after_failure :: "bytes \<Rightarrow> int \<Rightarrow> int \<Rightarrow> bytes \<Rightarrow> bool \<Rightarrow> delivery_retry list \<Rightarrow> delivery_retry list" where
  "after_failure operation i now cause suspend rs = (if list_ex (retry_key operation i) rs
     then upd_where (retry_key operation i) (retry_after_failure now cause suspend) rs
     else rs @ [first_failure operation i now cause suspend])"

lemma record_run:
  "calm w \<Longrightarrow> RecordDeliveryFailure operation i t c s w = (Inr (), (bump w)\<lparr>w_db :=
     (w_db w)\<lparr>db_retries := after_failure operation i (gt_ns t) c s (db_retries (w_db w))\<rparr>\<rparr>)"
  by (simp add: RecordDeliveryFailure_def exec_calm retry_key_def [abs_def] after_failure_def Let_def)

lemma clear_run:
  "calm w \<Longrightarrow> ClearDeliveryRetry operation i w = (Inr (), (bump w)\<lparr>w_db :=
     (w_db w)\<lparr>db_retries := filter (\<lambda>r. \<not> retry_key operation i r) (db_retries (w_db w))\<rparr>\<rparr>)"
  by (simp add: ClearDeliveryRetry_def exec_calm retry_key_def)

lemma retry_key_after [simp]:
  "retry_key op i (retry_after_failure t c s r) = retry_key op i r"
  "retry_key op' j (first_failure op i t c s) = (op' = op \<and> j = i)"
  by (auto simp: retry_key_def retry_after_failure_def first_failure_def)

lemma retry_key_unique: "retry_key op i r \<Longrightarrow> retry_key op j r = (j = i)"
  by (auto simp: retry_key_def)

lemma failure_uses_attempt:
  assumes "schema d" and "0 < attempts_left op i d"
  shows "attempts_left op i (d\<lparr>db_retries := after_failure op i t c s (db_retries d)\<rparr>) < attempts_left op i d"
proof (cases "first_where (retry_key op i) (db_retries d)")
  case None
  then have "\<not> list_ex (retry_key op i) (db_retries d)" by (auto simp: first_where_None list_ex_iff)
  then show ?thesis using None
    by (simp add: attempts_left_def after_failure_def first_where_append) (simp add: first_failure_def)
next
  case (Some r)
  then have r: "retry_key op i r" "r \<in> set (db_retries d)" using first_where_Some [OF Some] by simp_all
  then have "1 \<le> dr_Attempts r" "dr_Attempts r \<le> 8" using retries_schemaD [OF assms(1)] by auto
  moreover have "list_ex (retry_key op i) (db_retries d)" using r by (auto simp: list_ex_iff)
  ultimately show ?thesis using Some assms(2) r(1)
    by (auto simp: attempts_left_def after_failure_def first_where_upd_same) (auto simp: retry_after_failure_def split: if_splits)
qed

lemma other_attempts:
  assumes "j \<noteq> i"
  shows "attempts_left op j (d\<lparr>db_retries := after_failure op i t c s rs\<rparr>) = attempts_left op j (d\<lparr>db_retries := rs\<rparr>)"
    and "attempts_left op j (d\<lparr>db_retries := filter (\<lambda>r. \<not> retry_key op i r) rs\<rparr>) = attempts_left op j (d\<lparr>db_retries := rs\<rparr>)"
proof -
  have "first_where (retry_key op j) (upd_where (retry_key op i) f rs) = first_where (retry_key op j) rs"
    if "\<And>r. retry_key op j (f r) = retry_key op j r" for f
    using assms that by (induction rs) (auto simp: retry_key_def)
  moreover have "first_where (retry_key op j) (rs @ [first_failure op i t c s]) = first_where (retry_key op j) rs"
    using assms by (auto simp: first_where_append split: option.split)
  ultimately show "attempts_left op j (d\<lparr>db_retries := after_failure op i t c s rs\<rparr>) = attempts_left op j (d\<lparr>db_retries := rs\<rparr>)"
    by (simp add: attempts_left_def after_failure_def)
  have "first_where (retry_key op j) (filter (\<lambda>r. \<not> retry_key op i r) rs) = first_where (retry_key op j) rs"
    using assms by (induction rs) (auto simp: retry_key_def)
  then show "attempts_left op j (d\<lparr>db_retries := filter (\<lambda>r. \<not> retry_key op i r) rs\<rparr>) = attempts_left op j (d\<lparr>db_retries := rs\<rparr>)"
    by (simp add: attempts_left_def)
qed

text \<open>A delivery that the schedule does not hold back has an attempt left.\<close>

lemma unblocked_has_attempt:
  assumes "schema d" and "\<not> retry_blocked op i now d"
  shows "0 < attempts_left op i d"
proof (cases "first_where (retry_key op i) (db_retries d)")
  case (Some r)
  then have "retry_key op i r" "r \<in> set (db_retries d)" using first_where_Some [OF Some] by simp_all
  then show ?thesis using Some assms retries_schemaD [OF assms(1)]
    by (auto simp: attempts_left_def retry_blocked_def retry_key_def list_ex_iff)
qed (simp add: attempts_left_def)

section \<open>One event\<close>

fun settled_row :: "event_op \<Rightarrow> progress_event \<Rightarrow> progress_event" where
  "settled_row (PublishEvent m t) e = e\<lparr>pe_PublishStatus := ProgressPublishPublished, pe_PublishedMessageID := Some m,
     pe_PublishedAt := Some t, pe_PublishStartedAt := None\<rparr>"
| "settled_row RequeueEvent e = e\<lparr>pe_PublishStatus := ProgressPublishPending, pe_PublishStartedAt := None\<rparr>"
| "settled_row FailEvent e = e\<lparr>pe_PublishStatus := ProgressPublishFailed, pe_PublishStartedAt := None\<rparr>"

definition put_event :: "event_op \<Rightarrow> int \<Rightarrow> db \<Rightarrow> db" where
  "put_event op i d = d\<lparr>db_events := upd_where (\<lambda>q. pe_ID q = i) (settled_row op) (db_events d)\<rparr>"

definition unsettled :: "progress_event \<Rightarrow> bool" where
  "unsettled e \<longleftrightarrow> pe_PublishStatus e = ProgressPublishPending \<or> pe_PublishStatus e = ProgressPublishPublishing"

definition claim_row :: "int \<Rightarrow> progress_event \<Rightarrow> db \<Rightarrow> db" where
  "claim_row now e d = d\<lparr>db_events := upd_where (\<lambda>q. pe_ID q = pe_ID e)
     (\<lambda>q. q\<lparr>pe_PublishStatus := ProgressPublishPublishing, pe_PublishStartedAt := Some now\<rparr>) (db_events d)\<rparr>"

lemma settled_row_ID [simp]: "pe_ID (settled_row op e) = pe_ID e"
  "pe_WorkspaceGroupID (settled_row op e) = pe_WorkspaceGroupID e" "pe_PublishStatus (settled_row op e) = event_result op"
  by (cases op; simp)+

lemma settled_row_fun: "settled_row (PublishEvent m t) = (\<lambda>e. e\<lparr>pe_PublishStatus := ProgressPublishPublished,
     pe_PublishedMessageID := Some m, pe_PublishedAt := Some t, pe_PublishStartedAt := None\<rparr>)"
  "settled_row RequeueEvent = (\<lambda>e. e\<lparr>pe_PublishStatus := ProgressPublishPending, pe_PublishStartedAt := None\<rparr>)"
  "settled_row FailEvent = (\<lambda>e. e\<lparr>pe_PublishStatus := ProgressPublishFailed, pe_PublishStartedAt := None\<rparr>)"
  by (simp_all add: fun_eq_iff)

lemma settled_twice [simp]: "settled_row op (settled_row RequeueEvent e) = settled_row op e"
  by (cases op) simp_all

lemma upd_where_twice:
  "(\<And>r. p r \<Longrightarrow> p (g r)) \<Longrightarrow> upd_where p f (upd_where p g rs) = upd_where p (\<lambda>r. f (g r)) rs"
  by (auto simp: upd_where_def)

lemma put_claimed [simp]: "put_event op (pe_ID e) (claim_row now e d) = put_event op (pe_ID e) d"
  by (cases op) (simp_all add: put_event_def claim_row_def upd_where_twice settled_row_fun)

lemma settle_run:
  assumes "calm w" and "uniq pe_ID (db_events (w_db w))" and "q \<in> set (db_events (w_db w))" and "pe_ID q = i"
    and "pe_PublishStatus q = ProgressPublishPublishing"
  shows "settle_event op i w = (Inr (), (bump w)\<lparr>w_db := put_event op i (w_db w)\<rparr>)"
proof -
  let ?es = "db_events (w_db w)"
  have one: "claimed_event i r = (pe_ID r = i)" if "r \<in> set ?es" for r
    using uniq_same [OF assms(2) that assms(3)] assms(4,5) by (auto simp: claimed_event_def)
  have "filter (claimed_event i) ?es = filter (\<lambda>r. pe_ID r = i) ?es" using one by (intro filter_cong) simp_all
  moreover have "n_where (\<lambda>r. pe_ID r = i) ?es = 1"
    using n_where_key_le [of pe_ID ?es "\<lambda>r. pe_ID r = i" i] assms(2-4) n_where_0 [of "\<lambda>r. pe_ID r = i" ?es]
    by (auto simp: uniq_def le_Suc_eq)
  ultimately have n: "n_where (claimed_event i) ?es = 1" by (simp add: n_where_def)
  have upd: "upd_where (claimed_event i) f ?es = upd_where (\<lambda>r. pe_ID r = i) f ?es" for f
    unfolding upd_where_def using one by (intro map_cong) simp_all
  have f: "settle_event op i = requireDeliveryClaim ''progress event'' i
      (update_count db_events set_events (claimed_event i) (settled_row op))"
    by (cases op) (simp_all add: MarkProgressEventPublished_def RequeueProgressEvent_def MarkProgressEventFailed_def settled_row_fun)
  show ?thesis
    using assms(1) n unfolding f
    by (simp add: requireDeliveryClaim_def update_count_def bindM_stmt_calm upd ret_run put_event_def set_events_def)
qed

definition claimed_world :: "progress_event \<Rightarrow> world \<Rightarrow> world" where
  "claimed_world e w = (bump w)\<lparr>w_db := claim_row (sql_now w) e (w_db w)\<rparr>"

lemma claim_run:
  assumes "calm w"
  shows "ClaimProgressEvent w = (case first_where (event_claimable (sql_now w) (w_db w)) (db_events (w_db w)) of
      None \<Rightarrow> (Inr None, bump w)
    | Some e \<Rightarrow> (Inr (Some (scan_event (e\<lparr>pe_PublishStatus := ProgressPublishPublishing,
        pe_PublishStartedAt := Some (sql_now w)\<rparr>))), claimed_world e w))"
  using assms by (auto simp: ClaimProgressEvent_def stmt_calm sql_ClaimProgressEvent_def Let_def claimed_world_def
      claim_row_def split: option.split)

text \<open>What a round does once it holds a claim and knows the topic.\<close>

definition progress_request :: "workspace \<Rightarrow> topic_binding \<Rightarrow> progress_event \<Rightarrow> send_message_request" where
  "progress_request g b e = SilentMessage
     ((send_req (ws_ChatID g) (tb_ThreadID b) (progress_view e) None)\<lparr>sm_DisableWebPagePreview := Some True\<rparr>)"

definition deliver_event :: "gotime \<Rightarrow> progress_event \<Rightarrow> workspace \<Rightarrow> topic_binding \<Rightarrow> bool io" where
  "deliver_event now e g b = bindM (attempt (tgSendMessage (progress_request g b e))) (\<lambda>rm. case rm of
      Inl err \<Rightarrow>
        bindM (err_of (Defer ''progress'' (pe_ID e) now err)) (\<lambda>retryErr.
        bindM (err_of (RequeueProgressEvent (pe_ID e))) (\<lambda>requeueErr.
        join_and_fail [retryErr, requeueErr] (ret True)))
    | Inr message \<Rightarrow>
        bindM time_now (\<lambda>t.
        bindM (err_of (MarkProgressEventPublished (pe_ID e) (mg_MessageID message)
            (message_date (gt_ns t) message))) (\<lambda>r. case r of
            Some err \<Rightarrow>
              bindM (err_of (CompensateSentMessage (ws_ChatID g) (mg_MessageID message)
                  (Some (RequeueProgressEvent (pe_ID e))))) (\<lambda>compensateErr.
              join_and_fail [Some err, compensateErr] (ret True))
          | None \<Rightarrow> thenM (ClearDeliveryRetry ''progress'' (pe_ID e)) (ret True))))"

definition group_of :: "db \<Rightarrow> progress_event \<Rightarrow> workspace option" where
  "group_of d e = first_where (\<lambda>w. ws_ID w = pe_WorkspaceGroupID e) (db_workspaces d)"

definition topic_of :: "db \<Rightarrow> progress_event \<Rightarrow> topic_binding option" where
  "topic_of d e = first_where (\<lambda>b. tb_WorkspaceGroupID b = pe_WorkspaceGroupID e \<and> tb_TopicKey b = TopicProgress) (db_bindings d)"

lemma group_of_schema: "schema d \<Longrightarrow> e \<in> set (db_events d) \<Longrightarrow> \<exists>g. group_of d e = Some g \<and> ws_ID g = pe_WorkspaceGroupID e"
  by (cases "group_of d e") (auto simp: group_of_def first_where_None schema_defs dest: first_where_Some)

lemma publish_round_eq: "publish_round now = bindM ClaimProgressEvent (\<lambda>claimed. case claimed of
      None \<Rightarrow> ret False
    | Some event \<Rightarrow>
        bindM (attempt (GetWorkspaceByID (pe_WorkspaceGroupID event))) (\<lambda>rw. case rw of
            Inl err \<Rightarrow> thenM (ignore (RequeueProgressEvent (pe_ID event))) (failM err)
          | Inr None \<Rightarrow> thenM (ignore (MarkProgressEventFailed (pe_ID event))) (ret True)
          | Inr (Some w) \<Rightarrow>
              bindM (attempt (GetTopicBinding (ws_ID w) TopicProgress)) (\<lambda>rb. case rb of
                  Inl err \<Rightarrow> thenM (ignore (RequeueProgressEvent (pe_ID event))) (failM err)
                | Inr None \<Rightarrow> thenM (ignore (MarkProgressEventFailed (pe_ID event))) (ret True)
                | Inr (Some topic) \<Rightarrow> deliver_event now event w topic)))"
  unfolding publish_round_def deliver_event_def progress_request_def by (rule refl)

lemma round_run:
  assumes "calm w" and "schema (w_db w)"
    and "first_where (event_claimable (sql_now w) (w_db w)) (db_events (w_db w)) = Some e"
  shows "\<exists>g e' w3. group_of (w_db w) e = Some g \<and> pe_ID e' = pe_ID e \<and> w3 = bump (bump (claimed_world e w))
    \<and> publish_round now w = (case topic_of (w_db w) e of
        None \<Rightarrow> thenM (ignore (MarkProgressEventFailed (pe_ID e))) (ret True) w3
      | Some b \<Rightarrow> deliver_event now e' g b w3)"
proof -
  let ?e = "scan_event (e\<lparr>pe_PublishStatus := ProgressPublishPublishing, pe_PublishStartedAt := Some (sql_now w)\<rparr>)"
  have e: "e \<in> set (db_events (w_db w))" using first_where_Some [OF assms(3)] by simp
  obtain g where g: "group_of (w_db w) e = Some g" "ws_ID g = pe_WorkspaceGroupID e"
    using group_of_schema [OF assms(2) e] by blast
  have cw: "calm (claimed_world e w)" "db_workspaces (w_db (claimed_world e w)) = db_workspaces (w_db w)"
    "db_bindings (w_db (claimed_world e w)) = db_bindings (w_db w)"
    using assms(1) by (simp_all add: claimed_world_def claim_row_def)
  have ids: "pe_ID ?e = pe_ID e" "pe_WorkspaceGroupID ?e = pe_WorkspaceGroupID e" by (simp_all add: scan_event_def)
  have "publish_round now w = (case topic_of (w_db w) e of
        None \<Rightarrow> thenM (ignore (MarkProgressEventFailed (pe_ID e))) (ret True) (bump (bump (claimed_world e w)))
      | Some b \<Rightarrow> deliver_event now ?e g b (bump (bump (claimed_world e w))))"
    using assms g(1) cw ids
    by (simp add: publish_round_eq bindM_def [of ClaimProgressEvent] claim_run bindM_attempt GetWorkspaceByID_def
        GetTopicBinding_def query_calm group_of_def topic_of_def g(2) split: option.split)
  then show ?thesis using g(1) ids(1) by blast
qed

section \<open>The outcome of a round\<close>

definition aside :: "world \<Rightarrow> world \<Rightarrow> bool" where
  "aside w w' \<longleftrightarrow> w_env w' = w_env w \<and> w_http w' = w_http w \<and> w_tx w' = w_tx w \<and> w_sql w' = w_sql w"

lemma aside_simps [simp]: "aside w w" "aside w (bump w') = aside w w'" "aside w (w'\<lparr>w_db := d\<rparr>) = aside w w'"
  by (simp_all add: aside_def bump_def)

lemma sent_bump [simp]: "w_sent (bump w) = w_sent w"
  by (simp add: bump_def)

lemma aside_trans: "aside w w1 \<Longrightarrow> aside w1 w2 \<Longrightarrow> aside w w2"
  by (simp add: aside_def)

lemma aside_calm: "aside w w' \<Longrightarrow> calm w' = calm w"
  by (simp add: aside_def calm_def)

lemma talk_aside: "talk w w' \<Longrightarrow> aside w w'"
  by (simp add: talk_def aside_def)

lemma callJSON_fails_with_tg_error:
  assumes "callJSON req w = (Inl e, w')"
  shows "\<exists>t. e = TgError t"
proof -
  have "0 < retryAttempts (method_of req)" by (simp add: retryAttempts_def)
  then obtain m where "Inl e = attempt_result req w m"
    using assms call_attempts_sent [of "retryAttempts (method_of req)" 1 "PlainError []" req w] by (auto simp: callJSON_def)
  then show ?thesis by (auto simp: attempt_result_def map_sum_def split: sum.splits)
qed

lemma send_fails_with_tg_error:
  assumes "tgSendMessage req w = (Inl e, w')"
  obtains t where "e = TgError t"
proof -
  obtain req' where "callJSON req' w = (Inl e, w')"
    using assms by (auto simp: tgSendMessage_def Let_def bindM_def ret_run split: prod.splits sum.splits)
  then show ?thesis using that callJSON_fails_with_tg_error by blast
qed

lemma defer_tg_run:
  assumes "calm w"
  shows "\<exists>r. Defer op i now (TgError t) w = (r, (bump w)\<lparr>w_db := (w_db w)\<lparr>db_retries :=
      after_failure op i (gt_ns now) (tg_error_text t) (te_Ambiguous t) (db_retries (w_db w))\<rparr>\<rparr>)"
  using assms by (simp add: Defer_def bindM_err_of record_run failM_run ret_run)

lemma join_and_fail_run:
  "\<exists>r. join_and_fail [x, None] (ret True) w = (r, w) \<and> (r = Inr True \<or> (\<exists>es. r = Inl (JoinedError es)))"
  by (cases x) (simp_all add: join_and_fail_def errors_join_def map_filter_def ret_run failM_run)

lemma claim_row_in:
  "e \<in> set (db_events d) \<Longrightarrow> e\<lparr>pe_PublishStatus := ProgressPublishPublishing, pe_PublishStartedAt := Some now\<rparr>
    \<in> set (db_events (claim_row now e d))"
  by (auto simp: claim_row_def set_upd_where)

lemma claim_row_uniq: "uniq pe_ID (db_events d) \<Longrightarrow> uniq pe_ID (db_events (claim_row now e d))"
  by (simp add: claim_row_def uniq_upd)

lemma db_events_retries [simp]:
  "put_event op i (d\<lparr>db_retries := rs\<rparr>) = (put_event op i d)\<lparr>db_retries := rs\<rparr>"
  "db_retries (put_event op i d) = db_retries d" "db_retries (claim_row now e d) = db_retries d"
  by (simp_all add: put_event_def claim_row_def)

lemma settle_claimed:
  assumes "calm w" and "db_events (w_db w) = db_events (claim_row t e d)" and "uniq pe_ID (db_events d)"
    and "e \<in> set (db_events d)"
  shows "settle_event op (pe_ID e) w = (Inr (), (bump w)\<lparr>w_db := put_event op (pe_ID e) (w_db w)\<rparr>)"
  using settle_run [OF assms(1), of "e\<lparr>pe_PublishStatus := ProgressPublishPublishing, pe_PublishStartedAt := Some t\<rparr>" "pe_ID e" op]
    claim_row_in [OF assms(4)] claim_row_uniq [OF assms(3)] assms(2) by simp

text \<open>Delivering a claimed event in a world \<open>w3\<close> whose tables are those of \<open>d\<close> with the claim.\<close>

lemma deliver_run:
  assumes "calm w3" and d: "w_db w3 = claim_row t e d" and "uniq pe_ID (db_events d)" and "e \<in> set (db_events d)"
    and "pe_ID e' = pe_ID e"
  shows "case tgSendMessage (progress_request g b e') w3 of
      (Inr m, w4) \<Rightarrow> deliver_event now e' g b w3 = (Inr True, (bump (bump w4))\<lparr>w_db :=
        (put_event (PublishEvent (mg_MessageID m) (message_date (w_now w4) m)) (pe_ID e) d)\<lparr>db_retries :=
          filter (\<lambda>r. \<not> retry_key ''progress'' (pe_ID e) r) (db_retries d)\<rparr>\<rparr>)
    | (Inl err, w4) \<Rightarrow> \<exists>r c s. deliver_event now e' g b w3 = (r, (bump (bump w4))\<lparr>w_db :=
        (put_event RequeueEvent (pe_ID e) d)\<lparr>db_retries :=
          after_failure ''progress'' (pe_ID e) (gt_ns now) c s (db_retries d)\<rparr>\<rparr>) \<and> (r = Inr True \<or> (\<exists>es. r = Inl (JoinedError es)))"
proof -
  obtain r w4 where send: "tgSendMessage (progress_request g b e') w3 = (r, w4)" by (cases "tgSendMessage (progress_request g b e') w3")
  then have tk: "talk w3 w4" using talksD [OF talks_telegram(1)] by (metis snd_conv)
  then have w4: "calm w4" "w_db w4 = claim_row t e d" using talk_calm [OF tk] assms(1) d by (simp_all add: talk_def)
  note settle = settle_claimed [OF _ _ assms(3,4), where t = t]
  show ?thesis
  proof (cases r)
    case (Inr m)
    let ?op = "PublishEvent (mg_MessageID m) (message_date (w_now w4) m)"
    have "MarkProgressEventPublished (pe_ID e) (mg_MessageID m) (message_date (w_now w4) m) w4
        = (Inr (), (bump w4)\<lparr>w_db := put_event ?op (pe_ID e) d\<rparr>)"
      using settle [of w4 ?op] w4 by simp
    then show ?thesis
      using send Inr w4(1) assms(5)
      by (simp add: deliver_event_def bindM_attempt time_now_def bindM_getW bindM_err_of thenM_def utc_time_def)
        (simp add: bindM_def clear_run ret_run, simp add: bump_def)
  next
    case (Inl err)
    obtain x where "err = TgError x" using send_fails_with_tg_error send Inl by blast
    then obtain rd where rd: "Defer ''progress'' (pe_ID e) now err w4 = (rd, (bump w4)\<lparr>w_db := (w_db w4)\<lparr>db_retries :=
        after_failure ''progress'' (pe_ID e) (gt_ns now) (tg_error_text x) (te_Ambiguous x) (db_retries (w_db w4))\<rparr>\<rparr>)"
      using defer_tg_run [OF w4(1)] by blast
    define w' where "w' = (bump (bump w4))\<lparr>w_db := (put_event RequeueEvent (pe_ID e) d)\<lparr>db_retries :=
        after_failure ''progress'' (pe_ID e) (gt_ns now) (tg_error_text x) (te_Ambiguous x) (db_retries d)\<rparr>\<rparr>"
    have "RequeueProgressEvent (pe_ID e) (snd (Defer ''progress'' (pe_ID e) now err w4)) = (Inr (), w')"
      using settle [of "snd (Defer ''progress'' (pe_ID e) now err w4)" RequeueEvent] w4 by (simp add: rd w'_def) (simp add: bump_def)
    then have "deliver_event now e' g b w3 = join_and_fail [case rd of Inl e \<Rightarrow> Some e | Inr _ \<Rightarrow> None, None] (ret True) w'"
      using send Inl assms(5) by (simp add: deliver_event_def bindM_attempt bindM_err_of rd)
    then obtain r where "deliver_event now e' g b w3 = (r, w')" "r = Inr True \<or> (\<exists>es. r = Inl (JoinedError es))"
      using join_and_fail_run by metis
    then show ?thesis using send Inl unfolding w'_def by auto
  qed
qed

section \<open>The measure\<close>

definition open_attempts :: "world \<Rightarrow> nat" where
  "open_attempts w = (\<Sum>e \<leftarrow> db_events (w_db w).
     if unsettled e then attempts_left ''progress'' (pe_ID e) (w_db w) else 0)"

lemma sum_list_less:
  fixes g h :: "'a \<Rightarrow> nat"
  assumes "\<And>q. q \<in> set rs \<Longrightarrow> g q \<le> h q" and "r \<in> set rs" and "g r < h r"
  shows "sum_list (map g rs) < sum_list (map h rs)"
  using assms
proof (induction rs)
  case (Cons q rs)
  have le: "sum_list (map g rs) \<le> sum_list (map h rs)" using Cons.prems(1) by (intro sum_list_mono) simp
  show ?case
  proof (cases "r = q")
    case True
    then show ?thesis using le Cons.prems(3) by simp
  next
    case False
    then have "sum_list (map g rs) < sum_list (map h rs)" using Cons by simp
    then show ?thesis using Cons.prems(1) [of q] by (simp add: add_le_less_mono)
  qed
qed simp

text \<open>Settling an event, or using up one of its attempts, lowers the measure.\<close>

lemma open_attempts_less:
  assumes "schema d" and "w_db w = d" and "w_db w' = (put_event op (pe_ID e) d)\<lparr>db_retries := rs\<rparr>"
    and e: "e \<in> set (db_events d)" "event_claimable now d e"
    and "op = RequeueEvent \<longrightarrow> (\<exists>t c s. rs = after_failure ''progress'' (pe_ID e) t c s (db_retries d))"
    and "op \<noteq> RequeueEvent \<longrightarrow> rs = db_retries d \<or> rs = filter (\<lambda>r. \<not> retry_key ''progress'' (pe_ID e) r) (db_retries d)"
  shows "open_attempts w' < open_attempts w"
proof -
  let ?left = "\<lambda>i d. attempts_left ''progress'' i d" and ?d' = "d\<lparr>db_retries := rs\<rparr>"
  have w': "?left i (w_db w') = ?left i ?d'" for i
    by (simp add: assms(3) attempts_left_def put_event_def)
  have other: "?left i ?d' = ?left i d" if "i \<noteq> pe_ID e" for i
    using assms(6,7) other_attempts [OF that, where d = d and rs = "db_retries d"] by (cases op) auto
  have pos: "0 < ?left (pe_ID e) d" "unsettled e"
    using e(2) unblocked_has_attempt [OF assms(1)] by (auto simp: event_claimable_def unsettled_def)
  have own: "(if unsettled (settled_row op e) then ?left (pe_ID e) ?d' else 0) < ?left (pe_ID e) d"
    using pos(1) assms(6) failure_uses_attempt [OF assms(1) pos(1)] by (cases op) (auto simp: unsettled_def)
  let ?row = "\<lambda>q. if pe_ID q = pe_ID e then settled_row op q else q"
  have same: "q = e" if "q \<in> set (db_events d)" "pe_ID q = pe_ID e" for q
    using uniq_same [OF schema_uniq_queues(1) [OF assms(1)] that(1) e(1) that(2)] .
  have "open_attempts w' = (\<Sum>q \<leftarrow> db_events d. if unsettled (?row q) then ?left (pe_ID q) ?d' else 0)"
    unfolding open_attempts_def w' by (simp add: assms(3) put_event_def upd_where_def comp_def)
      (rule arg_cong [where f = sum_list], rule map_cong, simp_all)
  also have "\<dots> < (\<Sum>q \<leftarrow> db_events d. if unsettled q then ?left (pe_ID q) d else 0)"
  proof (rule sum_list_less [OF _ e(1)])
    show "(if unsettled (?row e) then ?left (pe_ID e) ?d' else 0) < (if unsettled e then ?left (pe_ID e) d else 0)"
      using own pos(2) by simp
    fix q assume q: "q \<in> set (db_events d)"
    show "(if unsettled (?row q) then ?left (pe_ID q) ?d' else 0) \<le> (if unsettled q then ?left (pe_ID q) d else 0)"
      using own pos(2) same [OF q] other [of "pe_ID q"] by (cases "pe_ID q = pe_ID e") auto
  qed
  finally show ?thesis unfolding open_attempts_def assms(2) .
qed

lemma attempts_left_le: "schema d \<Longrightarrow> attempts_left op i d \<le> 9"
  using retries_schemaD [of d] by (force simp: attempts_left_def split: option.split dest: first_where_Some)

lemma open_attempts_le:
  assumes "schema (w_db w)"
  shows "open_attempts w \<le> 9 * length (filter unsettled (db_events (w_db w)))"
proof -
  have "(\<Sum>e \<leftarrow> es. if unsettled e then attempts_left ''progress'' (pe_ID e) (w_db w) else 0)
      \<le> 9 * length (filter unsettled es)" for es
    using attempts_left_le [OF assms] by (induction es) (auto intro: add_mono)
  then show ?thesis by (simp add: open_attempts_def)
qed

lemma open_attempts_bump [simp]: "open_attempts (bump w) = open_attempts w"
  by (simp add: open_attempts_def cong: if_cong)

section \<open>Publishing ends\<close>

text \<open>What may become of an event: it is published if its group has a progress topic and failed otherwise,
  or, with \<open>retry\<close>, a failed attempt gave it back.\<close>

definition fate :: "bool \<Rightarrow> db \<Rightarrow> progress_event \<Rightarrow> progress_event \<Rightarrow> bool" where
  "fate retry d e e' \<longleftrightarrow> e' = e \<or> unsettled e \<and>
     (if topic_of d e = None then e' = settled_row FailEvent e
      else (\<exists>m t. e' = settled_row (PublishEvent m t) e) \<or> retry \<and> e' = settled_row RequeueEvent e)"

definition events_moved :: "bool \<Rightarrow> world \<Rightarrow> world \<Rightarrow> bool" where
  "events_moved retry w w' \<longleftrightarrow> aside w w' \<and> (\<exists>es rs. w_db w' = (w_db w)\<lparr>db_events := es, db_retries := rs\<rparr>
     \<and> list_all2 (fate retry (w_db w)) (db_events (w_db w)) es)"

lemma fate_trans:
  assumes "fate retry d a b" and "fate retry d' b c" and "db_bindings d' = db_bindings d"
  shows "fate retry d a c"
proof -
  have topic: "topic_of d' b = topic_of d b" by (simp add: topic_of_def assms(3))
  have "topic_of d (settled_row op a) = topic_of d a" for op by (simp add: topic_of_def)
  moreover have "\<not> unsettled (settled_row FailEvent a)" "\<not> unsettled (settled_row (PublishEvent m t) a)" for m t
    by (simp_all add: unsettled_def)
  ultimately show ?thesis using assms(1,2) topic unfolding fate_def by (auto split: if_splits simp del: settled_row.simps; blast)
qed

lemma events_moved_refl: "events_moved retry w w"
  unfolding events_moved_def
  by (intro conjI exI [of _ "db_events (w_db w)"] exI [of _ "db_retries (w_db w)"]) (simp_all add: list_all2_refl fate_def)

lemma events_moved_trans:
  assumes "events_moved retry w w1" and "events_moved retry w1 w2"
  shows "events_moved retry w w2"
proof -
  obtain es rs where w1: "aside w w1" "w_db w1 = (w_db w)\<lparr>db_events := es, db_retries := rs\<rparr>"
      "list_all2 (fate retry (w_db w)) (db_events (w_db w)) es"
    using assms(1) unfolding events_moved_def by blast
  obtain es' rs' where w2: "aside w1 w2" "w_db w2 = (w_db w1)\<lparr>db_events := es', db_retries := rs'\<rparr>"
      "list_all2 (fate retry (w_db w1)) (db_events (w_db w1)) es'"
    using assms(2) unfolding events_moved_def by blast
  have "list_all2 (fate retry (w_db w1)) es es'" using w2(3) w1(2) by simp
  then have "list_all2 (fate retry (w_db w)) (db_events (w_db w)) es'"
    by (rule list_all2_trans [OF _ w1(3), rotated]) (erule (1) fate_trans, simp add: w1(2))
  then show ?thesis
    using aside_trans [OF w1(1) w2(1)] w1(2) w2(2) unfolding events_moved_def
    by (intro conjI exI [of _ es'] exI [of _ rs']) simp_all
qed

text \<open>The invariant and the outcome of one round, whatever Telegram answers.\<close>

definition in_order :: "world \<Rightarrow> bool" where "in_order w \<longleftrightarrow> calm w \<and> schema (w_db w)"

definition none_claimable :: "world \<Rightarrow> bool" where
  "none_claimable w \<longleftrightarrow> (\<forall>e \<in> set (db_events (w_db w)). \<not> event_claimable (sql_now w) (w_db w) e)"

lemma put_event_moved:
  assumes "aside w w'" and "w_db w' = (put_event op (pe_ID e) (w_db w))\<lparr>db_retries := rs\<rparr>"
    and "schema (w_db w)" and "e \<in> set (db_events (w_db w))" and "fate retry (w_db w) e (settled_row op e)"
  shows "events_moved retry w w'"
proof -
  have "fate retry (w_db w) q (if pe_ID q = pe_ID e then settled_row op q else q)" if "q \<in> set (db_events (w_db w))" for q
    using uniq_same [OF schema_uniq_queues(1) [OF assms(3)] that assms(4)] assms(5) by (auto simp: fate_def)
  then have "list_all2 (fate retry (w_db w)) (db_events (w_db w)) (upd_where (\<lambda>q. pe_ID q = pe_ID e) (settled_row op) (db_events (w_db w)))"
    unfolding upd_where_def list_all2_map2 by (intro list.rel_refl_strong) simp
  then show ?thesis using assms(1,2) unfolding events_moved_def
    by (intro conjI exI [of _ "upd_where (\<lambda>q. pe_ID q = pe_ID e) (settled_row op) (db_events (w_db w))"] exI [of _ rs])
      (simp_all add: put_event_def)
qed

text \<open>A Telegram that accepts every message.\<close>

definition accepts :: "world \<Rightarrow> bool" where
  "accepts w \<longleftrightarrow> (\<forall>k r. \<exists>res. http_result (e_Token (w_env w)) (SendMessage r) (w_http w k (SendMessage r)) = Inr res)"

lemma aside_accepts: "aside w w' \<Longrightarrow> accepts w' = accepts w"
  by (simp add: aside_def accepts_def)

lemma send_accepted:
  assumes "accepts w"
  shows "\<exists>m q. tgSendMessage r w = (Inr m, w\<lparr>w_now := max (w_now w) (w_RateLimitUntil w), w_sent := w_sent w @ [q]\<rparr>)"
proof -
  let ?r = "if sm_ParseMode r = [] then r\<lparr>sm_ParseMode := ''HTML''\<rparr> else r"
  let ?w = "w\<lparr>w_now := max (w_now w) (w_RateLimitUntil w)\<rparr>"
  obtain res where res: "http_result (e_Token (w_env w)) (SendMessage ?r) (w_http w (length (w_sent w)) (SendMessage ?r)) = Inr res"
    using assms unfolding accepts_def by blast
  then have "callJSONOnce (SendMessage ?r) ?w = (Inr res, ?w\<lparr>w_sent := w_sent w @ [SendMessage ?r]\<rparr>)"
    by (simp add: callJSONOnce_def)
  moreover obtain k where "retryAttempts (method_of (SendMessage ?r)) = Suc k" by (simp add: retryAttempts_def)
  ultimately have "callJSON (SendMessage ?r) w = (Inr res, ?w\<lparr>w_sent := w_sent w @ [SendMessage ?r]\<rparr>)"
    by (simp add: callJSON_def whenM_def thenM_def bindM_def ret_run waitRateLimit_def attempt_run)
  then show ?thesis by (simp add: tgSendMessage_def Let_def bindM_def ret_run) blast
qed

fun messages_of :: "event_op \<Rightarrow> nat" where "messages_of (PublishEvent m t) = 1" | "messages_of _ = 0"

definition accepted_round :: "event_op \<Rightarrow> world \<Rightarrow> world \<Rightarrow> bool" where
  "accepted_round op w w' \<longleftrightarrow> op \<noteq> RequeueEvent \<and> sql_now w \<le> sql_now w'
     \<and> length (w_sent w') = length (w_sent w) + messages_of op"

text \<open>What a round with the claim of \<open>e\<close> does, in one of the three ways to settle the claim.\<close>

definition round_effect :: "world \<Rightarrow> progress_event \<Rightarrow> event_op \<Rightarrow> goerr + bool \<Rightarrow> world \<Rightarrow> bool" where
  "round_effect w e op r w' \<longleftrightarrow> (r = Inr True \<or> op = RequeueEvent \<and> (\<exists>es. r = Inl (JoinedError es))) \<and> aside w w'
     \<and> fate (op = RequeueEvent) (w_db w) e (settled_row op e)
     \<and> (\<exists>rs. w_db w' = (put_event op (pe_ID e) (w_db w))\<lparr>db_retries := rs\<rparr>
         \<and> (if op = RequeueEvent then \<exists>t c s. rs = after_failure ''progress'' (pe_ID e) t c s (db_retries (w_db w))
            else rs = db_retries (w_db w) \<or> rs = filter (\<lambda>r. \<not> retry_key ''progress'' (pe_ID e) r) (db_retries (w_db w))))
     \<and> (accepts w \<longrightarrow> accepted_round op w w')"

lemma delivery_outcome:
  assumes "calm w3" and "w_db w3 = claim_row t e (w_db w)" and "schema (w_db w)" and "e \<in> set (db_events (w_db w))"
    and "pe_ID e' = pe_ID e" and "unsettled e" and "topic_of (w_db w) e = Some b"
    and "aside w w3" and "w_now w3 = w_now w" and "w_sent w3 = w_sent w"
  shows "\<exists>op r w'. deliver_event now e' g b w3 = (r, w') \<and> round_effect w e op r w'"
proof -
  note out = deliver_run [OF assms(1,2) schema_uniq_queues(1) [OF assms(3)] assms(4,5), of now g b]
  obtain rm w4 where send: "tgSendMessage (progress_request g b e') w3 = (rm, w4)" by (cases "tgSendMessage (progress_request g b e') w3")
  have a4: "aside w w4"
    using talk_aside [OF talksD [OF talks_telegram(1)]] send aside_trans [OF assms(8)] by (metis snd_conv)
  have acc: "(\<exists>m. rm = Inr m) \<and> w_now w \<le> w_now w4 \<and> length (w_sent w4) = length (w_sent w) + 1" if "accepts w"
    using send_accepted [of w3 "progress_request g b e'"] aside_accepts [OF assms(8)] that send assms(9,10) by auto
  show ?thesis
  proof (cases rm)
    case (Inl err)
    then obtain r c s where "deliver_event now e' g b w3 = (r, (bump (bump w4))\<lparr>w_db :=
        (put_event RequeueEvent (pe_ID e) (w_db w))\<lparr>db_retries :=
          after_failure ''progress'' (pe_ID e) (gt_ns now) c s (db_retries (w_db w))\<rparr>\<rparr>)"
        "r = Inr True \<or> (\<exists>es. r = Inl (JoinedError es))"
      using out send by auto
    then show ?thesis using a4 assms(6,7) acc Inl
      by (intro exI [of _ RequeueEvent] exI [of _ r]) (auto simp: round_effect_def fate_def simp del: settled_row.simps)
  next
    case (Inr m)
    let ?op = "PublishEvent (mg_MessageID m) (message_date (w_now w4) m)"
    have "deliver_event now e' g b w3 = (Inr True, (bump (bump w4))\<lparr>w_db := (put_event ?op (pe_ID e) (w_db w))\<lparr>db_retries :=
        filter (\<lambda>r. \<not> retry_key ''progress'' (pe_ID e) r) (db_retries (w_db w))\<rparr>\<rparr>)"
      using out send Inr by simp
    moreover have "sql_now w \<le> sql_now w4" if "accepts w"
      using acc [OF that] a4 by (simp add: sql_now_def aside_def split: tx_state.split)
    ultimately show ?thesis using a4 assms(6,7) acc
      by (intro exI [of _ ?op] exI [of _ "Inr True"])
        (auto simp: round_effect_def fate_def accepted_round_def simp del: settled_row.simps)
  qed
qed

lemma round_outcome:
  assumes "in_order w" and "first_where (event_claimable (sql_now w) (w_db w)) (db_events (w_db w)) = Some e"
  shows "\<exists>op r w'. publish_round now w = (r, w') \<and> round_effect w e op r w'"
proof -
  have calm: "calm w" and sch: "schema (w_db w)" using assms(1) by (simp_all add: in_order_def)
  have e: "e \<in> set (db_events (w_db w))" "event_claimable (sql_now w) (w_db w) e"
    using first_where_Some [OF assms(2)] by simp_all
  obtain g e' w3 where e': "pe_ID e' = pe_ID e" and w3: "w3 = bump (bump (claimed_world e w))"
    and run: "publish_round now w = (case topic_of (w_db w) e of
        None \<Rightarrow> thenM (ignore (MarkProgressEventFailed (pe_ID e))) (ret True) w3
      | Some b \<Rightarrow> deliver_event now e' g b w3)"
    using round_run [OF calm sch assms(2)] by blast
  have c3: "calm w3" "w_db w3 = claim_row (sql_now w) e (w_db w)" "aside w w3" "w_now w3 = w_now w" "w_sent w3 = w_sent w"
    using calm by (simp_all add: w3 claimed_world_def) (simp_all add: bump_def)
  have uns: "unsettled e" using e(2) by (auto simp: event_claimable_def unsettled_def)
  show ?thesis
  proof (cases "topic_of (w_db w) e")
    case None
    have "MarkProgressEventFailed (pe_ID e) w3 = (Inr (), (bump w3)\<lparr>w_db := put_event FailEvent (pe_ID e) (w_db w)\<rparr>)"
      using settle_claimed [OF c3(1) _ schema_uniq_queues(1) [OF sch] e(1), of "sql_now w" FailEvent] by (simp add: c3(2))
    then have "publish_round now w = (Inr True, (bump w3)\<lparr>w_db := put_event FailEvent (pe_ID e) (w_db w)\<rparr>)"
      using run None by (simp add: thenM_def bindM_ignore ret_run)
    moreover have "sql_now w3 = sql_now w" using c3(3,4) by (simp add: sql_now_def aside_def split: tx_state.split)
    moreover have "round_effect w e FailEvent (Inr True) ((bump w3)\<lparr>w_db := put_event FailEvent (pe_ID e) (w_db w)\<rparr>)"
      unfolding round_effect_def using None c3(3,5) uns \<open>sql_now w3 = sql_now w\<close>
      by (intro conjI exI [of _ "db_retries (w_db w)"]) (simp_all add: fate_def accepted_round_def put_event_def)
    ultimately show ?thesis by blast
  next
    case (Some b)
    then show ?thesis using delivery_outcome [OF c3(1,2) sch e(1) e' uns Some c3(3-5), of now g] run by simp
  qed
qed

lemma round_none:
  assumes "in_order w" and "first_where (event_claimable (sql_now w) (w_db w)) (db_events (w_db w)) = None"
  shows "publish_round now w = (Inr False, bump w)" and "none_claimable (bump w)"
proof -
  show "publish_round now w = (Inr False, bump w)"
    using assms by (simp add: publish_round_eq bindM_def [of ClaimProgressEvent] claim_run in_order_def ret_run)
  show "none_claimable (bump w)" using assms(2) by (simp add: none_claimable_def first_where_None)
qed

lemma round_progress:
  assumes "in_order w" and "first_where (event_claimable (sql_now w) (w_db w)) (db_events (w_db w)) = Some e"
    and run: "publish_round now w = (r, w')" and eff: "round_effect w e op r w'"
  shows "in_order w'" and "open_attempts w' < open_attempts w" and "events_moved (op = RequeueEvent) w w'"
proof -
  have sch: "schema (w_db w)" using assms(1) by (simp add: in_order_def)
  have e: "e \<in> set (db_events (w_db w))" "event_claimable (sql_now w) (w_db w) e"
    using first_where_Some [OF assms(2)] by simp_all
  obtain rs where rs: "w_db w' = (put_event op (pe_ID e) (w_db w))\<lparr>db_retries := rs\<rparr>"
      "if op = RequeueEvent then \<exists>t c s. rs = after_failure ''progress'' (pe_ID e) t c s (db_retries (w_db w))
       else rs = db_retries (w_db w) \<or> rs = filter (\<lambda>r. \<not> retry_key ''progress'' (pe_ID e) r) (db_retries (w_db w))"
    using eff unfolding round_effect_def by blast
  show "in_order w'"
    using soundD [OF sound_publish_round run sch] aside_calm [of w w'] assms(1) eff by (simp add: in_order_def round_effect_def)
  show "open_attempts w' < open_attempts w"
    using open_attempts_less [OF sch refl rs(1) e] rs(2) by (simp split: if_splits)
  show "events_moved (op = RequeueEvent) w w'"
    using put_event_moved [OF _ rs(1) sch e(1)] eff by (simp add: round_effect_def)
qed

lemma events_moved_mono: "events_moved b w w' \<Longrightarrow> events_moved True w w'"
  unfolding events_moved_def by (fastforce elim!: list_all2_mono simp: fate_def split: if_splits)

lemma publish_round_step:
  assumes "in_order w"
  shows "case publish_round now w of
      (Inl err, w') \<Rightarrow> events_moved True w w' \<and> err \<noteq> FuelExhausted
    | (Inr again, w') \<Rightarrow> events_moved True w w' \<and> (if again then in_order w' \<and> open_attempts w' < open_attempts w
        else none_claimable w')"
proof (cases "first_where (event_claimable (sql_now w) (w_db w)) (db_events (w_db w))")
  case None
  then show ?thesis using round_none [OF assms None] events_moved_refl [of True w] by (simp add: events_moved_def)
next
  case (Some e)
  obtain op r w' where run: "publish_round now w = (r, w')" "round_effect w e op r w'"
    using round_outcome [OF assms Some] by blast
  then show ?thesis
    using round_progress [OF assms Some run] events_moved_mono by (auto simp: round_effect_def)
qed

interpretation publishing: claim_loop "publish_round now" in_order "events_moved True" "\<lambda>e. e \<noteq> FuelExhausted"
    none_claimable open_attempts for now
  by unfold_locales (fact events_moved_refl, erule (1) events_moved_trans, rule publish_round_step)

text \<open>With a Telegram that accepts every message, every round settles its event for good: it sends one message
  per published event, and time and the schedule do not move backwards.\<close>

definition published_count :: "world \<Rightarrow> nat" where
  "published_count w = n_where (\<lambda>e. pe_PublishStatus e = ProgressPublishPublished) (db_events (w_db w))"

definition delivered :: "world \<Rightarrow> world \<Rightarrow> bool" where
  "delivered w w' \<longleftrightarrow> events_moved False w w' \<and> sql_now w \<le> sql_now w'
     \<and> set (db_retries (w_db w')) \<subseteq> set (db_retries (w_db w))
     \<and> length (w_sent w') + published_count w = length (w_sent w) + published_count w'"

lemma published_count_put:
  assumes "uniq pe_ID (db_events (w_db w))" and "e \<in> set (db_events (w_db w))" and "unsettled e"
    and "db_events (w_db w') = db_events (put_event op (pe_ID e) (w_db w))" and "op \<noteq> RequeueEvent"
  shows "published_count w' = published_count w + messages_of op"
proof -
  have one: "n_where p (upd_where (\<lambda>q. pe_ID q = pe_ID e) f es) = n_where p es + (if p (f e) then 1 else 0)"
    if "distinct (map pe_ID es)" "e \<in> set es" "\<not> p e" for p f and es :: "progress_event list"
    using that
  proof (induction es)
    case (Cons q es)
    have "upd_where (\<lambda>q. pe_ID q = pe_ID e) f es = es" if "q = e"
    proof (rule upd_where_none)
      fix r assume "r \<in> set es"
      then show "pe_ID r \<noteq> pe_ID e" using Cons.prems(1) that by (metis distinct.simps(2) image_eqI list.set_map list.simps(9))
    qed
    then show ?case using Cons by (auto simp: image_iff)
  qed simp
  have "published_count w' = published_count w
      + (if pe_PublishStatus (settled_row op e) = ProgressPublishPublished then 1 else 0)"
    unfolding published_count_def assms(4) using one [of "db_events (w_db w)"] assms(1-3)
    by (auto simp: put_event_def uniq_def unsettled_def simp del: settled_row_ID)
  then show ?thesis using assms(5) by (cases op) simp_all
qed

interpretation accepted: claim_loop "publish_round now" "\<lambda>w. in_order w \<and> accepts w" delivered "\<lambda>e. False"
    none_claimable open_attempts for now
proof
  show "delivered w w" for w by (simp add: delivered_def events_moved_refl)
  show "delivered w w1 \<Longrightarrow> delivered w1 w2 \<Longrightarrow> delivered w w2" for w w1 w2
    unfolding delivered_def using events_moved_trans by fastforce
  fix w assume w: "in_order w \<and> accepts w"
  show "case publish_round now w of (Inl e, w') \<Rightarrow> delivered w w' \<and> False
    | (Inr again, w') \<Rightarrow> delivered w w' \<and> (if again then (in_order w' \<and> accepts w') \<and> open_attempts w' < open_attempts w
        else none_claimable w')"
  proof (cases "first_where (event_claimable (sql_now w) (w_db w)) (db_events (w_db w))")
    case None
    then show ?thesis using round_none [OF _ None] w events_moved_refl [of False w]
      by (simp add: delivered_def events_moved_def published_count_def)
  next
    case (Some e)
    have e: "e \<in> set (db_events (w_db w))" "unsettled e"
      using first_where_Some [OF Some] by (auto simp: event_claimable_def unsettled_def)
    obtain op r w' where run: "publish_round now w = (r, w')" "round_effect w e op r w'"
      using round_outcome [OF _ Some] w by blast
    note prog = round_progress [OF _ Some run]
    have acc: "accepted_round op w w'" "aside w w'" "r = Inr True"
      using run(2) w by (auto simp: round_effect_def accepted_round_def)
    obtain rs where rs: "w_db w' = (put_event op (pe_ID e) (w_db w))\<lparr>db_retries := rs\<rparr>" "set rs \<subseteq> set (db_retries (w_db w))"
      using run(2) acc(1) by (auto simp: round_effect_def accepted_round_def)
    have "published_count w' = published_count w + messages_of op"
      using w acc(1) by (intro published_count_put [OF _ e]) (simp_all add: in_order_def schema_uniq_queues(1) rs(1) accepted_round_def)
    then have "delivered w w'"
      using prog(3) w acc(1) rs by (simp add: delivered_def accepted_round_def put_event_def)
    then show ?thesis using run(1) prog w acc aside_accepts [OF acc(2)] by simp
  qed
qed

section \<open>Properties\<close>

lemma current_now_run: "calm w \<Longrightarrow> \<exists>t. current_now w = (Inr t, bump w)"
  by (simp add: current_now_def time_now_def bindM_getW CurrentNow_def bindM_query_calm ret_run)

lemma bump_moved [simp]: "events_moved b (bump w) w' = events_moved b w w'" "delivered (bump w) w' = delivered w w'"
  by (simp_all add: events_moved_def delivered_def published_count_def aside_def) (simp_all add: bump_def)

text \<open>C25. Publishing progress events ends, whatever Telegram answers: while the database answers, nine rounds
  per open event are enough. No event is lost or duplicated: each is left alone, published if its group
  has a progress topic, given back, or failed if it has none; a settled event never changes, and when
  the loop returns without an error no event is left that could be claimed.\<close>

theorem publishing_ends:
  assumes "calm w" and "schema (w_db w)" and "9 * length (filter unsettled (db_events (w_db w))) < n"
  shows "\<exists>r w' es rs. PublishPending n w = (r, w') \<and> r \<noteq> Inl FuelExhausted \<and> (r = Inr () \<longrightarrow> none_claimable w')
    \<and> w_db w' = (w_db w)\<lparr>db_events := es, db_retries := rs\<rparr> \<and> list_all2 (fate True (w_db w)) (db_events (w_db w)) es"
proof -
  obtain t where t: "current_now w = (Inr t, bump w)" using current_now_run [OF assms(1)] by blast
  have "open_attempts (bump w) < n" using open_attempts_le [of w] assms(2,3) by simp
  then have "case PublishPending n w of (Inl e, w') \<Rightarrow> events_moved True w w' \<and> e \<noteq> FuelExhausted
      | (Inr _, w') \<Rightarrow> events_moved True w w' \<and> none_claimable w'"
    using publishing.loop_ends [of "bump w" n t] assms t by (auto simp: in_order_def PublishPending_def bindM_def split: prod.splits sum.splits)
  then show ?thesis
    by (cases "PublishPending n w") (auto simp: events_moved_def split: sum.splits)
qed

text \<open>C26. When Telegram accepts every message, publishing succeeds and each event that could be claimed is settled:
  published if its group has a progress topic, failed otherwise. Telegram got exactly one message for
  each event that was published.\<close>

theorem accepted_events_are_published:
  assumes "calm w" and "schema (w_db w)" and "accepts w" and "9 * length (filter unsettled (db_events (w_db w))) < n"
  shows "\<exists>w' es. PublishPending n w = (Inr (), w') \<and> db_events (w_db w') = es
    \<and> list_all2 (\<lambda>e e'. fate False (w_db w) e e' \<and> (event_claimable (sql_now w) (w_db w) e \<longrightarrow> \<not> unsettled e')) (db_events (w_db w)) es
    \<and> length (w_sent w') + published_count w = length (w_sent w) + published_count w'"
proof -
  obtain t where t: "current_now w = (Inr t, bump w)" using current_now_run [OF assms(1)] by blast
  have "open_attempts (bump w) < n" using open_attempts_le [of w] assms(2,4) by simp
  moreover have "accepts (bump w)" using assms(3) aside_accepts [of w "bump w"] by simp
  ultimately obtain w' where w': "PublishPending n w = (Inr (), w')" "delivered w w'" "none_claimable w'"
    using accepted.loop_ends [of "bump w" n t] assms t
    by (cases "PublishPending n w") (auto simp: in_order_def PublishPending_def bindM_def split: sum.splits)
  obtain es rs where es: "w_db w' = (w_db w)\<lparr>db_events := es, db_retries := rs\<rparr>"
      "list_all2 (fate False (w_db w)) (db_events (w_db w)) es"
    using w'(2) unfolding delivered_def events_moved_def by blast
  have settled: "\<not> unsettled e'" if "e \<in> set (db_events (w_db w))" "e' \<in> set es" "fate False (w_db w) e e'"
    "event_claimable (sql_now w) (w_db w) e" for e e'
  proof
    assume "unsettled e'"
    then have "e' = e" using that(3) by (auto simp: fate_def unsettled_def split: if_splits)
    moreover have "sql_now w \<le> sql_now w'" "set rs \<subseteq> set (db_retries (w_db w))" using w'(2) es(1) by (simp_all add: delivered_def)
    then have "event_claimable (sql_now w') (w_db w') e"
      using that(4) es(1) by (fastforce simp: event_claimable_def lease_free_def retry_blocked_def list_ex_iff split: option.splits)
    ultimately show False using w'(3) that(2) es(1) by (auto simp: none_claimable_def)
  qed
  have "list_all2 (\<lambda>e e'. fate False (w_db w) e e' \<and> (event_claimable (sql_now w) (w_db w) e \<longrightarrow> \<not> unsettled e')) (db_events (w_db w)) es"
    by (rule list.rel_mono_strong [OF es(2)]) (use settled in blast)
  then show ?thesis using w'(1,2) es(1) by (intro exI [of _ w'] exI [of _ es]) (simp add: delivered_def)
qed

section \<open>Witnesses\<close>

text \<open>One group with a progress topic and one event, and a Telegram that is down.\<close>

definition db7 :: db where
  "db7 = db1\<lparr>db_seq := (db_seq db1)(TBindings := 1), db_bindings := [\<lparr>tb_ID = 1, tb_WorkspaceGroupID = 1,
     tb_TopicKey = TopicProgress, tb_ThreadID = 4, tb_TopicTitle = ''P'', tb_IntroMessageID = None,
     tb_ControlMessageID = None, tb_CreatedAt = 0\<rparr>]\<rparr>"

definition world7 :: world where "world7 = world0\<lparr>w_db := db7\<rparr>"

definition down7 :: world where "down7 = world7\<lparr>w_http := \<lambda>k req. HttpFailed ''timeout'' True\<rparr>"

lemma schema_db7: "schema db7"
  by (simp add: db7_def db1_def db0_def workspace1_def event1_def schema_defs plans_defs ids_ok_def uniq_def)

lemma world7_fields [simp]: "w_db world7 = db7" "w_db down7 = db7" "calm world7" "calm down7" "w_sent world7 = []"
  by (simp_all add: world7_def down7_def world0_def calm_def)

lemma events7: "db_events db7 = [event1]" "unsettled event1" "topic_of db7 event1 \<noteq> None"
  "event_claimable now db7 event1"
  by (simp_all add: db7_def db1_def db0_def event1_def unsettled_def topic_of_def event_claimable_def retry_blocked_def)

theorem publishing_ends_witness:
  "\<exists>r w'. PublishPending 10 down7 = (r, w') \<and> r \<noteq> Inl FuelExhausted
    \<and> (db_events (w_db w') = [event1] \<or> (\<exists>op. db_events (w_db w') = [settled_row op event1]))"
proof -
  obtain r w' es rs where w': "PublishPending 10 down7 = (r, w')" "r \<noteq> Inl FuelExhausted"
      "w_db w' = db7\<lparr>db_events := es, db_retries := rs\<rparr>" "list_all2 (fate True db7) [event1] es"
    using publishing_ends [of down7 10] schema_db7 by (auto simp: events7)
  then have "\<exists>e. es = [e] \<and> fate True db7 event1 e" by (auto simp: list_all2_Cons1)
  then show ?thesis using w' events7(3) by (auto simp: fate_def simp del: settled_row.simps)
qed

theorem accepted_events_are_published_witness:
  "\<exists>w' m t. PublishPending 10 world7 = (Inr (), w') \<and> db_events (w_db w') = [settled_row (PublishEvent m t) event1]
    \<and> length (w_sent w') = 1"
proof -
  have acc: "accepts world7"
    by (simp add: accepts_def world7_def world0_def http_result_def responseDescription_def)
  obtain w' es where w': "PublishPending 10 world7 = (Inr (), w')" "db_events (w_db w') = es"
      "list_all2 (\<lambda>e e'. fate False db7 e e' \<and> (event_claimable (sql_now world7) db7 e \<longrightarrow> \<not> unsettled e')) [event1] es"
      "length (w_sent w') + published_count world7 = published_count w'"
    using accepted_events_are_published [of world7 10] schema_db7 acc by (auto simp: events7)
  then obtain e where es: "es = [e]" "fate False db7 event1 e" "\<not> unsettled e" by (auto simp: list_all2_Cons1 events7)
  then obtain m t where e: "e = settled_row (PublishEvent m t) event1"
    using events7(2,3) by (auto simp: fate_def simp del: settled_row.simps split: if_splits)
  then have "published_count w' = 1" "published_count world7 = 0"
    using w'(2) es(1) by (simp_all add: published_count_def events7(1) event1_def)
  then show ?thesis using w' es(1) e by auto
qed

end
