(* ===== verification/Notice_Loop.thy ===== *)
theory Notice_Loop imports App_Routine Outbox_Loops begin

text \<open>
  The loop that sends the notices of automatically failed check-ins, one transaction each, ends
  whatever Telegram answers: a notice that was sent is stored with its check-in, and a failure rolls
  the transaction back and uses up one of the attempts. A fourth loop that meets the contract
  \<open>claim_loop\<close>.
\<close>

section \<open>One notice\<close>

definition awaits_notice :: "routine_checkin \<Rightarrow> bool" where
  "awaits_notice c \<longleftrightarrow> rc_AutoFailedAt c \<noteq> None \<and> rc_AutoCloseNoticeMessageID c = None
     \<and> rc_AutoCloseNoticeSentAt c = None \<and> rc_CardMessageThreadID c \<noteq> None"

lemma notice_pending_iff:
  "notice_pending now d c \<longleftrightarrow> awaits_notice c \<and> \<not> retry_blocked ''routine_close'' (rc_ID c) now d"
  by (auto simp: notice_pending_def awaits_notice_def)

definition noted :: "int \<Rightarrow> int \<Rightarrow> int \<Rightarrow> routine_checkin \<Rightarrow> routine_checkin" where
  "noted m t u c = c\<lparr>rc_AutoCloseNoticeMessageID := Some m, rc_AutoCloseNoticeSentAt := Some t, rc_UpdatedAt := u\<rparr>"

definition put_notice :: "int \<Rightarrow> int \<Rightarrow> int \<Rightarrow> int \<Rightarrow> db \<Rightarrow> db" where
  "put_notice i m t u d = d\<lparr>db_checkins := upd_where (\<lambda>c. rc_ID c = i) (noted m t u) (db_checkins d)\<rparr>"

lemma noted_fields [simp]: "rc_ID (noted m t u c) = rc_ID c" "\<not> awaits_notice (noted m t u c)"
  by (simp_all add: noted_def awaits_notice_def)

lemma put_notice_fields [simp]: "db_retries (put_notice i m t u d) = db_retries d"
  "db_seq (put_notice i m t u d) = db_seq d"
  by (simp_all add: put_notice_def)

lemma store_notice_run:
  "calm w \<Longrightarrow> SetRoutineCheckinAutoCloseNoticeMessageID i m now w
    = (Inr (), (bump w)\<lparr>w_db := put_notice i m (gt_ns now) (sql_now w) (w_db w)\<rparr>)"
  by (simp add: SetRoutineCheckinAutoCloseNoticeMessageID_def set_checkin_def upd_checkins_def thenM_def
      bindM_stmt_calm ret_run put_notice_def noted_def [abs_def])

lemma edit_fails_with_tg_error:
  assumes "tgEditMessageText req w = (Inl e, w')"
  shows "\<exists>t. e = TgError t"
proof -
  obtain req' where "fst (callJSON req' w) = Inl e"
    using assms by (auto simp: tgEditMessageText_def Let_def call_unless_def bindM_err_of io_run split: sum.splits if_splits)
  then show ?thesis using callJSON_fails_with_tg_error by (metis prod.collapse)
qed

text \<open>The card before the notice.\<close>

lemma card_outcome:
  "\<exists>r w'. update_closed_card item link w = (r, w') \<and> talk w w'
    \<and> (\<forall>e. r = Inl e \<longrightarrow> (\<exists>p t. e = WrappedError p (TgError t)))"
proof -
  have "talks (update_closed_card item link)"
    unfolding update_closed_card_def Let_def by (intro tlk.wkeeps_rules talks_telegram)
  then have "talk w (snd (update_closed_card item link w))" by (rule talksD)
  moreover have "\<exists>p t. e = WrappedError p (TgError t)" if "fst (update_closed_card item link w) = Inl e" for e
    using that edit_fails_with_tg_error
    by (auto simp: update_closed_card_def Let_def bindM_err_of io_run split: if_splits sum.splits) (metis prod.collapse)+
  ultimately show ?thesis by (metis prod.collapse)
qed

text \<open>A notice with its second try, which leaves the reply target out.\<close>

definition send_notice :: "send_message_request \<Rightarrow> (goerr + message) io" where
  "send_notice request = bindM (attempt (tgSendMessage request)) (\<lambda>first. case first of
      Inl err \<Rightarrow> if sm_ReplyToMessageID request \<noteq> 0 \<and> IsMissingReplyTarget err
        then attempt (tgSendMessage (request\<lparr>sm_ReplyToMessageID := 0\<rparr>)) else ret first
    | Inr m \<Rightarrow> ret first)"

definition keep_notice :: "routine_checkin_context \<Rightarrow> gotime \<Rightarrow> goerr + message \<Rightarrow> unit io" where
  "keep_notice item now sent = (let c = cc_Checkin item in case sent of
      Inl err \<Rightarrow> failM (WrappedError (''send auto-close notice for routine '' @ show_int (rc_ID c)) err)
    | Inr notice \<Rightarrow>
        bindM (err_of (SetRoutineCheckinAutoCloseNoticeMessageID (rc_ID c) (mg_MessageID notice) now)) (\<lambda>r. case r of
            None \<Rightarrow> ret ()
          | Some err \<Rightarrow> bindM (err_of (CompensateSentMessage (ws_ChatID (cc_Workspace item)) (mg_MessageID notice) None)) (\<lambda>comp.
              raise_opt (errors_join [Some (WrappedError (''store auto-close notice for routine '' @ show_int (rc_ID c)) err), comp]))))"

lemma deliver_notice_eq: "\<exists>request. deliverRoutineAutoCloseNotice item now
    = bindM (update_closed_card item (routineSourceLink (ws_ChatID (cc_Workspace item)) (cc_Checkin item)))
        (\<lambda>target. bindM (send_notice (request target)) (keep_notice item now))"
  unfolding deliverRoutineAutoCloseNotice_def send_notice_def keep_notice_def Let_def bindM_assoc by (rule exI, rule refl)

lemma send_notice_outcome:
  "\<exists>r w'. send_notice request w = (Inr r, w') \<and> talk w w' \<and> (\<forall>e. r = Inl e \<longrightarrow> (\<exists>t. e = TgError t))"
proof -
  have "talks (send_notice request)" unfolding send_notice_def by (intro tlk.wkeeps_rules talks_telegram)
  then have "talk w (snd (send_notice request w))" by (rule talksD)
  moreover have "\<exists>r. fst (send_notice request w) = Inr r \<and> (\<forall>e. r = Inl e \<longrightarrow> (\<exists>t. e = TgError t))"
    using send_fails_with_tg_error
    by (auto simp: send_notice_def bindM_attempt attempt_run io_run split: sum.split) (metis prod.collapse)+
  ultimately show ?thesis by (metis prod.collapse)
qed

text \<open>Delivering a notice: a failure is a Telegram error and leaves the tables alone, a success stores it.\<close>

lemma notice_outcome:
  assumes "calm w"
  shows "\<exists>r w'. deliverRoutineAutoCloseNotice item now w = (r, w') \<and> aside w w'
    \<and> (case r of Inl e \<Rightarrow> (\<exists>p t. e = WrappedError p (TgError t)) \<and> w_db w' = w_db w
       | Inr _ \<Rightarrow> \<exists>m u. w_db w' = put_notice (rc_ID (cc_Checkin item)) m (gt_ns now) u (w_db w))"
proof -
  obtain request where eq: "deliverRoutineAutoCloseNotice item now
      = bindM (update_closed_card item (routineSourceLink (ws_ChatID (cc_Workspace item)) (cc_Checkin item)))
          (\<lambda>target. bindM (send_notice (request target)) (keep_notice item now))"
    using deliver_notice_eq by blast
  obtain r1 w1 where card: "update_closed_card item (routineSourceLink (ws_ChatID (cc_Workspace item)) (cc_Checkin item)) w = (r1, w1)"
      "talk w w1" "\<forall>e. r1 = Inl e \<longrightarrow> (\<exists>p t. e = WrappedError p (TgError t))"
    using card_outcome by blast
  show ?thesis
  proof (cases r1)
    case (Inl e)
    then show ?thesis using card talk_aside [OF card(2)]
      by (intro exI [of _ "Inl e"] exI [of _ w1]) (simp add: eq talk_def)
  next
    case (Inr target)
    obtain r2 w2 where send: "send_notice (request target) w1 = (Inr r2, w2)" "talk w1 w2"
        "\<forall>e. r2 = Inl e \<longrightarrow> (\<exists>t. e = TgError t)"
      using send_notice_outcome by blast
    have run: "deliverRoutineAutoCloseNotice item now w = keep_notice item now r2 w2"
      using card(1) Inr send(1) by (simp add: eq)
    have w2: "calm w2" "aside w w2" "w_db w2 = w_db w"
      using assms talk_calm [OF card(2)] talk_calm [OF send(2)] aside_trans [OF talk_aside [OF card(2)] talk_aside [OF send(2)]]
        card(2) send(2) by (simp_all add: talk_def)
    show ?thesis
    proof (cases r2)
      case (Inl e)
      then show ?thesis using send(3) w2 run
        by (intro exI [of _ "fst (keep_notice item now r2 w2)"] exI [of _ w2]) (auto simp: keep_notice_def Let_def io_run)
    next
      case (Inr m)
      then have "deliverRoutineAutoCloseNotice item now w = (Inr (), (bump w2)\<lparr>w_db :=
          put_notice (rc_ID (cc_Checkin item)) (mg_MessageID m) (gt_ns now) (sql_now w2) (w_db w)\<rparr>)"
        using w2 by (simp add: run keep_notice_def Let_def bindM_err_of store_notice_run io_run)
      then show ?thesis using w2(2) by auto
    qed
  qed
qed

section \<open>Claiming a notice\<close>

lemma checkin_context_schema:
  assumes "schema d" and "c \<in> set (db_checkins d)"
  obtains x where "checkin_context d c = Some x" "rc_ID (cc_Checkin x) = rc_ID c"
proof -
  have "ws_by_id d (rc_WorkspaceGroupID c) \<noteq> None" "pt_by_id d (rc_ParticipantID c) \<noteq> None"
    using checkins_schemaD(3) [OF assms] by (simp_all only: ws_by_id_Some pt_by_id_Some)
  then show ?thesis using that by (auto simp: checkin_context_def scan_checkin_def)
qed

lemma bump_now: "w_now (bump w) = w_now w"
  by (simp add: bump_def)

lemma claim_notice_outcome:
  assumes "calm w" and "schema (w_db w)"
  shows "\<exists>r w'. ClaimPendingRoutineAutoCloseNoticeContext w = (Inr r, w') \<and> aside w w' \<and> w_db w' = w_db w \<and> w_now w' = w_now w
    \<and> (case r of None \<Rightarrow> \<forall>c \<in> set (db_checkins (w_db w)). \<not> notice_pending (sql_now w) (w_db w) c
       | Some x \<Rightarrow> \<exists>c \<in> set (db_checkins (w_db w)). notice_pending (sql_now w) (w_db w) c
           \<and> rc_ID (cc_Checkin x) = rc_ID c)"
proof -
  let ?cs = "by_date_id (filter (notice_pending (sql_now w) (w_db w)) (db_checkins (w_db w)))"
  have cs: "set ?cs = {c \<in> set (db_checkins (w_db w)). notice_pending (sql_now w) (w_db w) c}"
    by (auto simp: by_date_id_def)
  show ?thesis
  proof (cases ?cs)
    case Nil
    then have "ClaimPendingRoutineAutoCloseNoticeContext w = (Inr None, bump w)"
      using assms(1) by (simp add: ClaimPendingRoutineAutoCloseNoticeContext_def bindM_stmt_calm
          scanRoutineCheckinContexts_def io_run bindM_ret map_filter_def)
    then show ?thesis using cs Nil by (auto simp: bump_now)
  next
    case (Cons c cs')
    then have c: "c \<in> set (db_checkins (w_db w))" "notice_pending (sql_now w) (w_db w) c" using cs by auto
    obtain x where x: "checkin_context (w_db w) c = Some x" "rc_ID (cc_Checkin x) = rc_ID c"
      using checkin_context_schema [OF assms(2) c(1)] .
    obtain items where "ClaimPendingRoutineAutoCloseNoticeContext w
        = (Inr (Some (x\<lparr>cc_Checkin := (cc_Checkin x)\<lparr>rc_Items := items\<rparr>\<rparr>)), bump (bump w))"
      using assms(1) Cons x by (simp add: ClaimPendingRoutineAutoCloseNoticeContext_def bindM_stmt_calm
          scanRoutineCheckinContexts_def io_run bindM_ret bindM_assoc map_filter_def ListRoutineCheckinItems_def bindM_query_calm)
    then show ?thesis using c x(2) by (auto simp: bump_now)
  qed
qed

section \<open>One transaction\<close>

lemma close_tx_outcome:
  assumes "calm w" and "schema (w_db w)" and "w_tx w = NoTx"
  shows "\<exists>x e w'. close_tx now w = (Inr (x, e), w') \<and> aside w w' \<and> (case (x, e) of
      (None, None) \<Rightarrow> w_db w' = w_db w \<and> w_now w' = w_now w \<and> (\<forall>c \<in> set (db_checkins (w_db w)). \<not> notice_pending (w_now w) (w_db w) c)
    | (None, Some e) \<Rightarrow> False
    | (Some x, e) \<Rightarrow> (\<exists>c \<in> set (db_checkins (w_db w)). notice_pending (w_now w) (w_db w) c \<and> rc_ID (cc_Checkin x) = rc_ID c)
        \<and> (case e of None \<Rightarrow> \<exists>m u. w_db w' = put_notice (rc_ID (cc_Checkin x)) m (gt_ns now) u (w_db w)
           | Some e \<Rightarrow> w_db w' = w_db w \<and> (\<exists>p t. e = WrappedError p (TgError t))))"
proof -
  define w0 where "w0 = (bump w)\<lparr>w_tx := InTx (w_now w)\<rparr>"
  have w0: "calm w0" "w_db w0 = w_db w" "sql_now w0 = w_now w" "w_tx w0 = InTx (w_now w)" "w_env w0 = w_env w"
      "w_http w0 = w_http w" "w_sql w0 = w_sql w"
    using assms(1) by (simp_all add: w0_def sql_now_def) (simp_all add: bump_def)
  have ended: "aside w (w1\<lparr>w_tx := NoTx\<rparr>)" "aside w ((bump w1)\<lparr>w_tx := NoTx\<rparr>)" "aside w (rollback d w1)" "w_tx w1 = InTx (w_now w)"
      "w_sql w1 = (\<lambda>_. None)" if "aside w0 w1" for w1 d
    using that w0 assms(1,3) by (simp_all add: aside_def rollback_def calm_def) (simp_all add: bump_def)
  obtain r w1 where claim: "ClaimPendingRoutineAutoCloseNoticeContext w0 = (Inr r, w1)" "aside w0 w1" "w_db w1 = w_db w" "w_now w1 = w_now w0"
      "case r of None \<Rightarrow> \<forall>c \<in> set (db_checkins (w_db w)). \<not> notice_pending (w_now w) (w_db w) c
       | Some x \<Rightarrow> \<exists>c \<in> set (db_checkins (w_db w)). notice_pending (w_now w) (w_db w) c \<and> rc_ID (cc_Checkin x) = rc_ID c"
    using claim_notice_outcome [OF w0(1)] assms(2) unfolding w0(2,3) by blast
  have sql: "w_sql w (w_nsql w) = None" using assms(1) by (simp add: calm_def)
  show ?thesis
  proof (cases r)
    case None
    then have "close_tx now w = (Inr (None, None), (bump w1)\<lparr>w_tx := NoTx\<rparr>)"
      using ended [OF claim(2)] by (simp add: close_tx_def inTxVar_def sql bindM_attempt io_run claim(1) w0_def [symmetric])
    then show ?thesis using None claim(3-5) ended [OF claim(2)] by (auto simp: w0_def bump_now)
  next
    case (Some x)
    have c1: "calm w1" using w0(1) aside_calm [OF claim(2)] by simp
    obtain r2 w2 where send: "deliverRoutineAutoCloseNotice x now w1 = (r2, w2)" "aside w1 w2"
        "case r2 of Inl e \<Rightarrow> (\<exists>p t. e = WrappedError p (TgError t)) \<and> w_db w2 = w_db w
         | Inr _ \<Rightarrow> \<exists>m u. w_db w2 = put_notice (rc_ID (cc_Checkin x)) m (gt_ns now) u (w_db w)"
      using notice_outcome [OF c1, of x now] unfolding claim(3) by blast
    have a2: "aside w0 w2" using aside_trans [OF claim(2) send(2)] .
    show ?thesis
    proof (cases r2)
      case (Inl e)
      have "close_tx now w = (Inr (Some x, Some e), rollback (w_db w) w2)"
        using Some Inl by (simp add: close_tx_def inTxVar_def sql bindM_attempt bindM_err_of io_run claim(1) send(1) w0_def [symmetric])
      moreover have "w_db (rollback (w_db w) w2) = w_db w" using send(3) Inl by (simp add: rollback_def)
      ultimately show ?thesis using Some Inl claim(5) send(3) ended [OF a2] by auto
    next
      case (Inr u)
      have "close_tx now w = (Inr (Some x, None), (bump w2)\<lparr>w_tx := NoTx\<rparr>)"
        using Some Inr ended [OF a2]
        by (simp add: close_tx_def inTxVar_def sql bindM_attempt bindM_err_of io_run claim(1) send(1) w0_def [symmetric])
      then show ?thesis using Some Inr claim(5) send(3) ended [OF a2] by auto
    qed
  qed
qed

section \<open>The loop\<close>

text \<open>A round of \<open>close_loop\<close> without the list of workspaces that it collects.\<close>

definition close_round :: "gotime \<Rightarrow> bool io" where
  "close_round now = bindM (close_tx now) (\<lambda>(item, e). case e of
      Some err \<Rightarrow> thenM (Defer ''routine_close'' (case item of None \<Rightarrow> 0 | Some x \<Rightarrow> rc_ID (cc_Checkin x)) now err) (ret True)
    | None \<Rightarrow> (case item of None \<Rightarrow> ret False
        | Some x \<Rightarrow> thenM (ClearDeliveryRetry ''routine_close'' (rc_ID (cc_Checkin x))) (ret True)))"

lemma close_round_then: "bindM (close_round now) (\<lambda>again. if again then m else ret ()) = bindM (close_tx now) (\<lambda>(item, e). case e of
      Some err \<Rightarrow> thenM (Defer ''routine_close'' (case item of None \<Rightarrow> 0 | Some x \<Rightarrow> rc_ID (cc_Checkin x)) now err) m
    | None \<Rightarrow> (case item of None \<Rightarrow> ret ()
        | Some x \<Rightarrow> thenM (ClearDeliveryRetry ''routine_close'' (rc_ID (cc_Checkin x))) m))"
  unfolding close_round_def bindM_assoc
  by (rule arg_cong [where f = "bindM (close_tx now)"]) (auto simp: fun_eq_iff thenM_bind bindM_assoc bindM_ret split: option.split)

lemma close_loop_rounds: "bindM (close_loop n now refreshed) (\<lambda>_. ret ()) = loopM n (close_round now)"
proof (induction n arbitrary: refreshed)
  case (Suc n)
  have "bindM (close_loop (Suc n) now refreshed) (\<lambda>_. ret ()) = bindM (close_tx now) (\<lambda>(item, e). case e of
      Some err \<Rightarrow> thenM (Defer ''routine_close'' (case item of None \<Rightarrow> 0 | Some x \<Rightarrow> rc_ID (cc_Checkin x)) now err) (loopM n (close_round now))
    | None \<Rightarrow> (case item of None \<Rightarrow> ret ()
        | Some x \<Rightarrow> thenM (ClearDeliveryRetry ''routine_close'' (rc_ID (cc_Checkin x))) (loopM n (close_round now))))"
    unfolding close_loop.simps bindM_assoc
    by (rule arg_cong [where f = "bindM (close_tx now)"])
      (auto simp: fun_eq_iff thenM_bind bindM_assoc bindM_ret Suc.IH split: option.split)
  then show ?case unfolding loopM.simps close_round_then .
qed (simp add: bindM_failM)

text \<open>What may become of a check-in, and of the tables.\<close>

definition notice_fate :: "routine_checkin \<Rightarrow> routine_checkin \<Rightarrow> bool" where
  "notice_fate c c' \<longleftrightarrow> c' = c \<or> awaits_notice c \<and> (\<exists>m t u. c' = noted m t u c)"

definition notices_moved :: "world \<Rightarrow> world \<Rightarrow> bool" where
  "notices_moved w w' \<longleftrightarrow> aside w w' \<and> (\<exists>cs rs. w_db w' = (w_db w)\<lparr>db_checkins := cs, db_retries := rs\<rparr>
     \<and> list_all2 notice_fate (db_checkins (w_db w)) cs)"

definition no_notice_pending :: "world \<Rightarrow> bool" where
  "no_notice_pending w \<longleftrightarrow> (\<forall>c \<in> set (db_checkins (w_db w)). \<not> notice_pending (w_now w) (w_db w) c)"

definition notice_attempts :: "world \<Rightarrow> nat" where
  "notice_attempts w = (\<Sum>c \<leftarrow> db_checkins (w_db w). if awaits_notice c then attempts_left ''routine_close'' (rc_ID c) (w_db w) else 0)"

lemma notice_fate_trans: "notice_fate a b \<Longrightarrow> notice_fate b c \<Longrightarrow> notice_fate a c"
  by (auto simp: notice_fate_def)

lemma notices_moved_refl: "notices_moved w w"
  unfolding notices_moved_def
  by (intro conjI exI [of _ "db_checkins (w_db w)"] exI [of _ "db_retries (w_db w)"]) (simp_all add: list_all2_refl notice_fate_def)

lemma notices_moved_trans:
  assumes "notices_moved w w1" and "notices_moved w1 w2"
  shows "notices_moved w w2"
proof -
  obtain cs rs where w1: "aside w w1" "w_db w1 = (w_db w)\<lparr>db_checkins := cs, db_retries := rs\<rparr>"
      "list_all2 notice_fate (db_checkins (w_db w)) cs"
    using assms(1) unfolding notices_moved_def by blast
  obtain cs' rs' where w2: "aside w1 w2" "w_db w2 = (w_db w1)\<lparr>db_checkins := cs', db_retries := rs'\<rparr>"
      "list_all2 notice_fate (db_checkins (w_db w1)) cs'"
    using assms(2) unfolding notices_moved_def by blast
  have "list_all2 notice_fate cs cs'" using w2(3) w1(2) by simp
  then have "list_all2 notice_fate (db_checkins (w_db w)) cs'"
    by (rule list_all2_trans [OF _ w1(3), rotated]) (erule (1) notice_fate_trans)
  then show ?thesis
    using aside_trans [OF w1(1) w2(1)] w1(2) w2(2) unfolding notices_moved_def
    by (intro conjI exI [of _ cs'] exI [of _ rs']) simp_all
qed

lemma defer_run:
  assumes "calm w"
  shows "\<exists>r. Defer op i now (WrappedError p (TgError t)) w = (r, (bump w)\<lparr>w_db := (w_db w)\<lparr>db_retries :=
      after_failure op i (gt_ns now) (tg_error_text t) (te_Ambiguous t) (db_retries (w_db w))\<rparr>\<rparr>) \<and> (\<forall>e. r = Inl e \<longrightarrow> onlyTelegramErrors e)"
  using assms by (simp add: Defer_def bindM_err_of record_run failM_run ret_run)

text \<open>The tables after a round that had a notice to send.\<close>

definition notice_effect :: "world \<Rightarrow> routine_checkin \<Rightarrow> (int \<times> int \<times> int) option \<Rightarrow> world \<Rightarrow> bool" where
  "notice_effect w c sent w' \<longleftrightarrow> aside w w' \<and> (\<exists>rs. case sent of
      None \<Rightarrow> w_db w' = (w_db w)\<lparr>db_retries := rs\<rparr>
        \<and> (\<exists>t x s. rs = after_failure ''routine_close'' (rc_ID c) t x s (db_retries (w_db w)))
    | Some (m, t, u) \<Rightarrow> w_db w' = (put_notice (rc_ID c) m t u (w_db w))\<lparr>db_retries := rs\<rparr>
        \<and> rs = filter (\<lambda>r. \<not> retry_key ''routine_close'' (rc_ID c) r) (db_retries (w_db w)))"

lemma close_round_outcome:
  assumes "calm w" and "schema (w_db w)" and "w_tx w = NoTx"
  shows "(\<exists>w'. close_round now w = (Inr False, w') \<and> aside w w' \<and> w_db w' = w_db w \<and> no_notice_pending w')
    \<or> (\<exists>c sent r w'. close_round now w = (r, w') \<and> c \<in> set (db_checkins (w_db w)) \<and> notice_pending (w_now w) (w_db w) c
        \<and> notice_effect w c sent w' \<and> (r = Inr True \<or> (\<exists>e. r = Inl e \<and> onlyTelegramErrors e)))"
proof -
  obtain x e w1 where tx: "close_tx now w = (Inr (x, e), w1)" "aside w w1" and res: "case (x, e) of
      (None, None) \<Rightarrow> w_db w1 = w_db w \<and> w_now w1 = w_now w \<and> (\<forall>c \<in> set (db_checkins (w_db w)). \<not> notice_pending (w_now w) (w_db w) c)
    | (None, Some e) \<Rightarrow> False
    | (Some x, e) \<Rightarrow> (\<exists>c \<in> set (db_checkins (w_db w)). notice_pending (w_now w) (w_db w) c \<and> rc_ID (cc_Checkin x) = rc_ID c)
        \<and> (case e of None \<Rightarrow> \<exists>m u. w_db w1 = put_notice (rc_ID (cc_Checkin x)) m (gt_ns now) u (w_db w)
           | Some e \<Rightarrow> w_db w1 = w_db w \<and> (\<exists>p t. e = WrappedError p (TgError t)))"
    using close_tx_outcome [OF assms, of now] by blast
  have calm: "calm w1" using assms(1) aside_calm [OF tx(2)] by simp
  show ?thesis
  proof (cases x)
    case None
    then have "close_round now w = (Inr False, w1)" "w_db w1 = w_db w" "no_notice_pending w1"
      using tx(1) res by (auto simp: close_round_def io_run no_notice_pending_def split: option.splits)
    then show ?thesis using tx(2) by blast
  next
    case (Some y)
    then obtain c where c: "c \<in> set (db_checkins (w_db w))" "notice_pending (w_now w) (w_db w) c" "rc_ID (cc_Checkin y) = rc_ID c"
      using res by auto
    show ?thesis
    proof (cases e)
      case None
      then obtain m u where db: "w_db w1 = put_notice (rc_ID c) m (gt_ns now) u (w_db w)" using res Some c(3) by auto
      define w' where "w' = (bump w1)\<lparr>w_db := (put_notice (rc_ID c) m (gt_ns now) u (w_db w))\<lparr>db_retries :=
          filter (\<lambda>r. \<not> retry_key ''routine_close'' (rc_ID c) r) (db_retries (w_db w))\<rparr>\<rparr>"
      have "close_round now w = (Inr True, w')"
        using tx(1) Some None c(3) db by (simp add: close_round_def thenM_bind bindM_def clear_run [OF calm] io_run w'_def)
      moreover have "notice_effect w c (Some (m, gt_ns now, u)) w'"
        using tx(2) by (simp add: notice_effect_def w'_def)
      ultimately show ?thesis using c by blast
    next
      case e: (Some err)
      then obtain p t where err: "err = WrappedError p (TgError t)" "w_db w1 = w_db w" using res Some by auto
      obtain r cause s where def: "Defer ''routine_close'' (rc_ID c) now err w1 = (r, (bump w1)\<lparr>w_db := (w_db w1)\<lparr>db_retries :=
          after_failure ''routine_close'' (rc_ID c) (gt_ns now) cause s (db_retries (w_db w1))\<rparr>\<rparr>)"
          "\<forall>e. r = Inl e \<longrightarrow> onlyTelegramErrors e"
        using defer_run [OF calm] err(1) by blast
      define w' where "w' = (bump w1)\<lparr>w_db := (w_db w)\<lparr>db_retries :=
          after_failure ''routine_close'' (rc_ID c) (gt_ns now) cause s (db_retries (w_db w))\<rparr>\<rparr>"
      have "close_round now w = (case r of Inl e \<Rightarrow> (Inl e, w') | Inr _ \<Rightarrow> (Inr True, w'))"
        using tx(1) Some e c(3) def(1) err(2) by (simp add: close_round_def thenM_bind bindM_def io_run w'_def split: sum.split)
      moreover have "notice_effect w c None w'" using tx(2) by (auto simp: notice_effect_def w'_def)
      ultimately show ?thesis using c def(2) by (auto split: sum.splits)
    qed
  qed
qed

lemma sound_close_round: "sound (close_round now)"
  unfolding close_round_def by (intro sound_rules sound_ops sound_close_tx)

lemma notice_progress:
  assumes sch: "schema (w_db w)" and c: "c \<in> set (db_checkins (w_db w))" "notice_pending (w_now w) (w_db w) c"
    and eff: "notice_effect w c sent w'"
  shows "notice_attempts w' < notice_attempts w" and "notices_moved w w'"
proof -
  let ?row = "\<lambda>q. case sent of None \<Rightarrow> q | Some (m, t, u) \<Rightarrow> if rc_ID q = rc_ID c then noted m t u q else q"
  let ?cs = "map ?row (db_checkins (w_db w))"
  obtain rs where db: "w_db w' = (w_db w)\<lparr>db_checkins := ?cs, db_retries := rs\<rparr>"
    and rs: "if sent = None then \<exists>t x s. rs = after_failure ''routine_close'' (rc_ID c) t x s (db_retries (w_db w))
      else rs = filter (\<lambda>r. \<not> retry_key ''routine_close'' (rc_ID c) r) (db_retries (w_db w))"
    using eff unfolding notice_effect_def by (cases sent) (auto simp: put_notice_def upd_where_def)
  have uns: "awaits_notice c" "0 < attempts_left ''routine_close'' (rc_ID c) (w_db w)"
    using c(2) unblocked_has_attempt [OF sch] by (auto simp: notice_pending_iff)
  have same: "q = c" if "q \<in> set (db_checkins (w_db w))" "rc_ID q = rc_ID c" for q
    using checkins_schemaD(1) [OF sch] that c(1) by (auto simp: ids_ok_def distinct_map dest: inj_onD)
  let ?d' = "(w_db w)\<lparr>db_retries := rs\<rparr>"
  have other: "attempts_left ''routine_close'' i ?d' = attempts_left ''routine_close'' i (w_db w)" if "i \<noteq> rc_ID c" for i
    using rs other_attempts [OF that, where d = "w_db w" and rs = "db_retries (w_db w)"] by (auto split: if_splits)
  have own: "(if awaits_notice (?row c) then attempts_left ''routine_close'' (rc_ID c) ?d' else 0)
      < attempts_left ''routine_close'' (rc_ID c) (w_db w)"
    using uns rs failure_uses_attempt [OF sch uns(2)] by (cases sent) auto
  have left: "attempts_left ''routine_close'' i (w_db w') = attempts_left ''routine_close'' i ?d'" for i
    by (simp add: db attempts_left_def)
  have id: "rc_ID (?row q) = rc_ID q" for q by (cases sent) auto
  have "notice_attempts w' = (\<Sum>q \<leftarrow> db_checkins (w_db w). if awaits_notice (?row q) then attempts_left ''routine_close'' (rc_ID q) ?d' else 0)"
    unfolding notice_attempts_def left by (simp add: db comp_def id cong: if_cong)
  also have "\<dots> < notice_attempts w"
    unfolding notice_attempts_def
  proof (rule sum_list_less [OF _ c(1)])
    show "(if awaits_notice (?row c) then attempts_left ''routine_close'' (rc_ID c) ?d' else 0)
        < (if awaits_notice c then attempts_left ''routine_close'' (rc_ID c) (w_db w) else 0)"
      using own uns by simp
    fix q assume q: "q \<in> set (db_checkins (w_db w))"
    show "(if awaits_notice (?row q) then attempts_left ''routine_close'' (rc_ID q) ?d' else 0)
        \<le> (if awaits_notice q then attempts_left ''routine_close'' (rc_ID q) (w_db w) else 0)"
    proof (cases "rc_ID q = rc_ID c")
      case True
      then show ?thesis using own uns(1) same [OF q] by (cases sent) (auto split: if_splits)
    next
      case False
      then show ?thesis using other [of "rc_ID q"] by (cases sent) auto
    qed
  qed
  finally show "notice_attempts w' < notice_attempts w" .
  have "notice_fate q (?row q)" if "q \<in> set (db_checkins (w_db w))" for q
  proof (cases "rc_ID q = rc_ID c")
    case True
    then show ?thesis using same [OF that] uns(1) by (auto simp: notice_fate_def split: option.split)
  qed (cases sent; auto simp: notice_fate_def)
  then have "list_all2 notice_fate (db_checkins (w_db w)) ?cs"
    unfolding list_all2_map2 by (intro list.rel_refl_strong) simp
  then show "notices_moved w w'" using eff db unfolding notices_moved_def notice_effect_def
    by (intro conjI exI [of _ ?cs] exI [of _ rs]) simp_all
qed

definition outside_tx :: "world \<Rightarrow> bool" where "outside_tx w \<longleftrightarrow> in_order w \<and> w_tx w = NoTx"

lemma close_round_step:
  assumes "outside_tx w"
  shows "case close_round now w of
      (Inl e, w') \<Rightarrow> notices_moved w w' \<and> onlyTelegramErrors e
    | (Inr again, w') \<Rightarrow> notices_moved w w' \<and> (if again then outside_tx w' \<and> notice_attempts w' < notice_attempts w
        else no_notice_pending w')"
proof -
  have w: "calm w" "schema (w_db w)" "w_tx w = NoTx" using assms by (simp_all add: outside_tx_def in_order_def)
  consider (none) w' where "close_round now w = (Inr False, w')" "aside w w'" "w_db w' = w_db w" "no_notice_pending w'"
    | (some) c sent r w' where "close_round now w = (r, w')" "c \<in> set (db_checkins (w_db w))" "notice_pending (w_now w) (w_db w) c"
        "notice_effect w c sent w'" "r = Inr True \<or> (\<exists>e. r = Inl e \<and> onlyTelegramErrors e)"
    using close_round_outcome [OF w] by blast
  then show ?thesis
  proof cases
    case none
    then show ?thesis using notices_moved_refl [of w] by (simp add: notices_moved_def)
  next
    case some
    have "schema (w_db w')" using soundD [OF sound_close_round some(1) w(2)] by simp
    moreover have "aside w w'" using some(4) by (simp add: notice_effect_def)
    ultimately have "outside_tx w'" using w aside_calm [of w w'] by (simp add: outside_tx_def in_order_def aside_def)
    then show ?thesis using some(1,5) notice_progress [OF w(2) some(2-4)] by auto
  qed
qed

interpretation closing: claim_loop "close_round now" outside_tx notices_moved onlyTelegramErrors no_notice_pending notice_attempts
    for now
  by unfold_locales (fact notices_moved_refl, erule (1) notices_moved_trans, rule close_round_step)

lemma close_loop_ends:
  assumes "outside_tx w" and "notice_attempts w < n"
  shows "case close_loop n now refreshed w of (Inl e, w') \<Rightarrow> notices_moved w w' \<and> onlyTelegramErrors e
    | (Inr _, w') \<Rightarrow> notices_moved w w' \<and> no_notice_pending w'"
proof -
  have "case bindM (close_loop n now refreshed) (\<lambda>_. ret ()) w of (Inl e, w') \<Rightarrow> notices_moved w w' \<and> onlyTelegramErrors e
    | (Inr _, w') \<Rightarrow> notices_moved w w' \<and> no_notice_pending w'"
    unfolding close_loop_rounds using closing.loop_ends [OF assms] .
  then show ?thesis by (auto simp: bindM_def io_run split: prod.splits sum.splits)
qed

lemma notice_attempts_le:
  assumes "schema (w_db w)"
  shows "notice_attempts w \<le> 9 * length (filter awaits_notice (db_checkins (w_db w)))"
proof -
  have "(\<Sum>c \<leftarrow> cs. if awaits_notice c then attempts_left ''routine_close'' (rc_ID c) (w_db w) else 0) \<le> 9 * length (filter awaits_notice cs)" for cs
    using attempts_left_le [OF assms] by (induction cs) (auto intro: add_mono)
  then show ?thesis by (simp add: notice_attempts_def)
qed

end
