(* ===== verification/Alert_Loop.thy ===== *)
theory Alert_Loop imports Outbox_Loops begin

text \<open>
  The loop of \<open>DispatchAlerts\<close> ends, whatever Telegram answers, and sends or gives back every alert it
  claims: a third loop that meets the contract \<open>claim_loop\<close>.
\<close>

section \<open>One alert\<close>

fun settled_alert :: "alert_op \<Rightarrow> daily_task_alert \<Rightarrow> daily_task_alert" where
  "settled_alert (AlertSent m) a = a\<lparr>al_DispatchStatus := AlertDispatchSent, al_TelegramMessageID := Some m,
     al_DispatchStartedAt := None\<rparr>"
| "settled_alert AlertRequeued a = a\<lparr>al_DispatchStatus := AlertDispatchPending, al_DispatchStartedAt := None\<rparr>"

lemma settled_alert_fun: "settled_alert (AlertSent m) = (\<lambda>a. a\<lparr>al_DispatchStatus := AlertDispatchSent,
     al_TelegramMessageID := Some m, al_DispatchStartedAt := None\<rparr>)"
  "settled_alert AlertRequeued = (\<lambda>a. a\<lparr>al_DispatchStatus := AlertDispatchPending, al_DispatchStartedAt := None\<rparr>)"
  by (simp_all add: fun_eq_iff)

lemma settled_alert_fields [simp]: "al_ID (settled_alert op a) = al_ID a" "al_DailyTaskID (settled_alert op a) = al_DailyTaskID a"
  "al_DispatchStatus (settled_alert op a) = alert_result op" "al_AcknowledgedAt (settled_alert op a) = al_AcknowledgedAt a"
  by (cases op; simp)+

definition put_alert :: "alert_op \<Rightarrow> int \<Rightarrow> db \<Rightarrow> db" where
  "put_alert op i d = d\<lparr>db_alerts := upd_where (\<lambda>q. al_ID q = i) (settled_alert op) (db_alerts d)\<rparr>"

definition unsent :: "daily_task_alert \<Rightarrow> bool" where
  "unsent a \<longleftrightarrow> (al_DispatchStatus a = AlertDispatchPending \<or> al_DispatchStatus a = AlertDispatchDispatching)
     \<and> al_AcknowledgedAt a = None"

definition lease_alert :: "int \<Rightarrow> daily_task_alert \<Rightarrow> db \<Rightarrow> db" where
  "lease_alert now a d = d\<lparr>db_alerts := upd_where (\<lambda>q. al_ID q = al_ID a)
     (\<lambda>q. q\<lparr>al_DispatchStatus := AlertDispatchDispatching, al_DispatchStartedAt := Some now\<rparr>) (db_alerts d)\<rparr>"

definition leased_world :: "daily_task_alert \<Rightarrow> world \<Rightarrow> world" where
  "leased_world a w = (bump w)\<lparr>w_db := lease_alert (sql_now w) a (w_db w)\<rparr>"

lemma put_leased [simp]: "put_alert op (al_ID a) (lease_alert now a d) = put_alert op (al_ID a) d"
  by (cases op) (simp_all add: put_alert_def lease_alert_def upd_where_twice settled_alert_fun)

lemma put_alert_retries [simp]:
  "put_alert op i (d\<lparr>db_retries := rs\<rparr>) = (put_alert op i d)\<lparr>db_retries := rs\<rparr>"
  "db_retries (put_alert op i d) = db_retries d" "db_retries (lease_alert now a d) = db_retries d"
  by (simp_all add: put_alert_def lease_alert_def)

lemma claim_alert_run:
  assumes "calm w"
  shows "ClaimPendingAlert w = (case first_where (alert_claimable (sql_now w) (w_db w)) (db_alerts (w_db w)) of
      None \<Rightarrow> (Inr None, bump w)
    | Some a \<Rightarrow> (Inr (Some (a\<lparr>al_DispatchStatus := AlertDispatchDispatching, al_DispatchStartedAt := Some (sql_now w)\<rparr>)),
        leased_world a w))"
  using assms by (auto simp: ClaimPendingAlert_def stmt_calm sql_ClaimPendingAlert_def Let_def leased_world_def
      lease_alert_def split: option.split)

lemma settle_alert_run:
  assumes "calm w" and "db_alerts (w_db w) = db_alerts (lease_alert t a d)" and "uniq al_ID (db_alerts d)"
    and "a \<in> set (db_alerts d)"
  shows "settle_alert op (al_ID a) w = (Inr (), (bump w)\<lparr>w_db := put_alert op (al_ID a) (w_db w)\<rparr>)"
proof -
  let ?as = "db_alerts (w_db w)" and ?i = "al_ID a"
  let ?q = "a\<lparr>al_DispatchStatus := AlertDispatchDispatching, al_DispatchStartedAt := Some t\<rparr>"
  have uq: "uniq al_ID ?as" and q: "?q \<in> set ?as"
    using assms(2-4) by (auto simp: lease_alert_def uniq_upd set_upd_where)
  have one: "claimed_alert ?i r = (al_ID r = ?i)" if "r \<in> set ?as" for r
    using uniq_same [OF uq that q] by (auto simp: claimed_alert_def)
  have "filter (claimed_alert ?i) ?as = filter (\<lambda>r. al_ID r = ?i) ?as" using one by (intro filter_cong) simp_all
  moreover have "n_where (\<lambda>r. al_ID r = ?i) ?as = 1"
    using n_where_key_le [of al_ID ?as "\<lambda>r. al_ID r = ?i" ?i] uq q n_where_0 [of "\<lambda>r. al_ID r = ?i" ?as]
    by (force simp: uniq_def le_Suc_eq)
  ultimately have n: "n_where (claimed_alert ?i) ?as = 1" by (simp add: n_where_def)
  have upd: "upd_where (claimed_alert ?i) f ?as = upd_where (\<lambda>r. al_ID r = ?i) f ?as" for f
    unfolding upd_where_def using one by (intro map_cong) simp_all
  have f: "settle_alert op ?i = requireDeliveryClaim ''alert'' ?i
      (update_count db_alerts set_alerts (claimed_alert ?i) (settled_alert op))"
    by (cases op) (simp_all add: MarkAlertSent_def RequeueAlert_def settled_alert_fun)
  show ?thesis
    using assms(1) n unfolding f
    by (simp add: requireDeliveryClaim_def update_count_def bindM_stmt_calm upd ret_run put_alert_def set_alerts_def)
qed

section \<open>One round\<close>

definition alert_effect :: "world \<Rightarrow> daily_task_alert \<Rightarrow> alert_op \<Rightarrow> goerr + bool \<Rightarrow> world \<Rightarrow> bool" where
  "alert_effect w a op r w' \<longleftrightarrow> (r = Inr True \<or> op = AlertRequeued \<and> (\<exists>es. r = Inl (JoinedError es))) \<and> aside w w'
     \<and> (\<exists>rs. w_db w' = (put_alert op (al_ID a) (w_db w))\<lparr>db_retries := rs\<rparr>
         \<and> (if op = AlertRequeued then \<exists>t c s. rs = after_failure ''alert'' (al_ID a) t c s (db_retries (w_db w))
            else rs = filter (\<lambda>r. \<not> retry_key ''alert'' (al_ID a) r) (db_retries (w_db w))))"

text \<open>The ends of a round in a world \<open>w3\<close> whose tables are those of \<open>w\<close> with the claim.\<close>

definition holds_claim :: "world \<Rightarrow> daily_task_alert \<Rightarrow> world \<Rightarrow> bool" where
  "holds_claim w a w3 \<longleftrightarrow> calm w3 \<and> aside w w3 \<and> w_db w3 = lease_alert (sql_now w) a (w_db w)
     \<and> schema (w_db w) \<and> a \<in> set (db_alerts (w_db w))"

lemma holds_claim_talk:
  assumes "holds_claim w a w3" and "talk w3 w4"
  shows "holds_claim w a w4"
proof -
  have "aside w w4" using assms(1) aside_trans [OF _ talk_aside [OF assms(2)]] by (simp add: holds_claim_def)
  moreover have "calm w4" "w_db w4 = w_db w3"
    using assms(1) talk_calm [OF assms(2)] assms(2) by (simp_all add: holds_claim_def talk_def)
  ultimately show ?thesis using assms(1) by (simp add: holds_claim_def)
qed

lemma holds_claim_bump [simp]: "holds_claim w a (bump w3) = holds_claim w a w3"
  by (simp add: holds_claim_def)

lemma settle_held:
  assumes "holds_claim w a w3"
  shows "settle_alert op (al_ID a) w3 = (Inr (), (bump w3)\<lparr>w_db := put_alert op (al_ID a) (w_db w)\<rparr>)"
    and "settle_alert op (al_ID a) ((bump w3)\<lparr>w_db := (w_db w3)\<lparr>db_retries := rs\<rparr>\<rparr>)
      = (Inr (), (bump (bump w3))\<lparr>w_db := (put_alert op (al_ID a) (w_db w))\<lparr>db_retries := rs\<rparr>\<rparr>)"
  using settle_alert_run [of w3 "sql_now w" a "w_db w" op] assms schema_uniq_queues(2) [of "w_db w"]
    settle_alert_run [of "(bump w3)\<lparr>w_db := (w_db w3)\<lparr>db_retries := rs\<rparr>\<rparr>" "sql_now w" a "w_db w" op]
  by (simp_all add: holds_claim_def) (simp add: bump_def)

lemma deferred_outcome:
  assumes "holds_claim w a w3"
  shows "\<exists>r w'. thenM (deferUnavailableAlert (al_ID a) now reason) (ret True) w3 = (r, w') \<and> alert_effect w a AlertRequeued r w'"
proof -
  have "thenM (deferUnavailableAlert (al_ID a) now reason) (ret True) w3 = (Inr True, (bump (bump w3))\<lparr>w_db :=
      (put_alert AlertRequeued (al_ID a) (w_db w))\<lparr>db_retries :=
        after_failure ''alert'' (al_ID a) (gt_ns now) reason False (db_retries (w_db w3))\<rparr>\<rparr>)"
    using assms settle_held(2) [OF assms, of AlertRequeued]
    by (simp add: deferUnavailableAlert_def thenM_def bindM_def record_run holds_claim_def ret_run)
  then show ?thesis using assms by (auto simp: alert_effect_def holds_claim_def)
qed

text \<open>\<open>send_alert\<close> in three steps: the card, the topic, the message.\<close>

definition edit_failed_card :: "daily_task_alert \<Rightarrow> daily_task \<Rightarrow> bytes \<Rightarrow> bytes \<Rightarrow> workspace \<Rightarrow> unit io" where
  "edit_failed_card a task displayName username g = (case tk_TodayCardMessageID task of
      Some cardID \<Rightarrow> whenM (al_AlertKind a = AlertOverdueTaskFailed)
        (ignore (tgEditMessageText (edit_req (ws_ChatID g) cardID (card_view task displayName username [])
          (Some EmptyKeyboard))))
    | None \<Rightarrow> ret ())"

definition send_ping :: "gotime \<Rightarrow> daily_task_alert \<Rightarrow> workspace \<Rightarrow> send_message_request \<Rightarrow> bool io" where
  "send_ping now a g request = bindM (attempt (tgSendMessage request)) (\<lambda>rm. case rm of
      Inl err \<Rightarrow>
        bindM (err_of (Defer ''alert'' (al_ID a) now err)) (\<lambda>retryErr.
        bindM (err_of (RequeueAlert (al_ID a))) (\<lambda>requeueErr.
        join_and_fail [retryErr, requeueErr] (ret True)))
    | Inr message \<Rightarrow>
        bindM (err_of (MarkAlertSent (al_ID a) (mg_MessageID message))) (\<lambda>r. case r of
            Some err \<Rightarrow>
              bindM (err_of (CompensateSentMessage (ws_ChatID g) (mg_MessageID message)
                  (Some (RequeueAlert (al_ID a))))) (\<lambda>compensateErr.
              join_and_fail [Some err, compensateErr] (ret True))
          | None \<Rightarrow> thenM (ClearDeliveryRetry ''alert'' (al_ID a)) (ret True)))"

lemma send_alert_eq: "send_alert now a task participant g =
   (let displayName = (case participant of Some p \<Rightarrow> pt_DisplayName p | None \<Rightarrow> []);
        username = (case participant of Some p \<Rightarrow> participantUsername p | None \<Rightarrow> []);
        userID = (case participant of Some p \<Rightarrow> pt_UserID p | None \<Rightarrow> tk_OwnerUserID task)
    in thenM (edit_failed_card a task displayName username g)
       (bindM (attempt (GetTopicBinding (ws_ID g) TopicToday)) (\<lambda>rb. case rb of
           Inl err \<Rightarrow> thenM (ignore (RequeueAlert (al_ID a))) (failM err)
         | Inr None \<Rightarrow> thenM (deferUnavailableAlert (al_ID a) now ''Today topic missing'') (ret True)
         | Inr (Some topic) \<Rightarrow> send_ping now a g (PingMessage
             ((send_req (ws_ChatID g) (tb_ThreadID topic) (alert_view a task displayName username userID)
                 (Some (AlertKeyboard (tk_ID task) (al_ID a))))
               \<lparr>sm_ReplyToMessageID := opt0 (tk_TodayCardMessageID task)\<rparr>)))))"
  unfolding send_alert_def edit_failed_card_def send_ping_def by (rule refl)

lemma ping_outcome:
  assumes "holds_claim w a w3" and a': "al_ID a' = al_ID a"
  shows "\<exists>op r w'. send_ping now a' g request w3 = (r, w') \<and> alert_effect w a op r w'"
proof -
  obtain rm w4 where send: "tgSendMessage request w3 = (rm, w4)" by (cases "tgSendMessage request w3")
  have h4: "holds_claim w a w4"
    using holds_claim_talk [OF assms(1)] talksD [OF talks_telegram(1)] send by (metis snd_conv)
  then have c4: "calm w4" "aside w w4" "w_db w4 = lease_alert (sql_now w) a (w_db w)" by (simp_all add: holds_claim_def)
  show ?thesis
  proof (cases rm)
    case (Inl err)
    obtain x where "err = TgError x" using send_fails_with_tg_error send Inl by blast
    then obtain rd where rd: "Defer ''alert'' (al_ID a) now err w4 = (rd, (bump w4)\<lparr>w_db := (w_db w4)\<lparr>db_retries :=
        after_failure ''alert'' (al_ID a) (gt_ns now) (tg_error_text x) (te_Ambiguous x) (db_retries (w_db w4))\<rparr>\<rparr>)"
      using defer_tg_run [OF c4(1)] by blast
    define w' where "w' = (bump (bump w4))\<lparr>w_db := (put_alert AlertRequeued (al_ID a) (w_db w))\<lparr>db_retries :=
        after_failure ''alert'' (al_ID a) (gt_ns now) (tg_error_text x) (te_Ambiguous x) (db_retries (w_db w))\<rparr>\<rparr>"
    have "RequeueAlert (al_ID a) (snd (Defer ''alert'' (al_ID a) now err w4)) = (Inr (), w')"
      using settle_held(2) [OF h4, of AlertRequeued] c4(3) by (simp add: rd w'_def)
    then have "send_ping now a' g request w3 = join_and_fail [case rd of Inl e \<Rightarrow> Some e | Inr _ \<Rightarrow> None, None] (ret True) w'"
      using send Inl a' by (simp add: send_ping_def bindM_attempt bindM_err_of rd)
    then obtain r where "send_ping now a' g request w3 = (r, w')" "r = Inr True \<or> (\<exists>es. r = Inl (JoinedError es))"
      using join_and_fail_run by metis
    then show ?thesis using c4(2)
      by (intro exI [of _ AlertRequeued] exI [of _ r] exI [of _ w']) (auto simp: alert_effect_def w'_def)
  next
    case (Inr m)
    have "MarkAlertSent (al_ID a) (mg_MessageID m) w4
        = (Inr (), (bump w4)\<lparr>w_db := put_alert (AlertSent (mg_MessageID m)) (al_ID a) (w_db w)\<rparr>)"
      using settle_held(1) [OF h4, of "AlertSent (mg_MessageID m)"] by simp
    then have "send_ping now a' g request w3 = (Inr True, (bump (bump w4))\<lparr>w_db :=
        (put_alert (AlertSent (mg_MessageID m)) (al_ID a) (w_db w))\<lparr>db_retries :=
          filter (\<lambda>r. \<not> retry_key ''alert'' (al_ID a) r) (db_retries (w_db w))\<rparr>\<rparr>)"
      using send Inr c4(1) a' by (simp add: send_ping_def bindM_attempt bindM_err_of thenM_def)
        (simp add: bindM_def clear_run ret_run, simp add: bump_def)
    then show ?thesis using c4(2)
      by (intro exI [of _ "AlertSent (mg_MessageID m)"] exI [of _ "Inr True"]) (auto simp: alert_effect_def)
  qed
qed

lemma send_outcome:
  assumes "holds_claim w a w3" and a': "al_ID a' = al_ID a"
  shows "\<exists>op r w'. send_alert now a' task participant g w3 = (r, w') \<and> alert_effect w a op r w'"
proof -
  let ?name = "case participant of Some p \<Rightarrow> pt_DisplayName p | None \<Rightarrow> []"
    and ?username = "case participant of Some p \<Rightarrow> participantUsername p | None \<Rightarrow> []"
  have "talks (edit_failed_card a' task ?name ?username g)" "total (edit_failed_card a' task ?name ?username g)"
    unfolding edit_failed_card_def by (intro tlk.wkeeps_rules talks_telegram) (auto intro!: total_rules split: option.split)
  then obtain u w4 where edit: "edit_failed_card a' task ?name ?username g w3 = (Inr u, w4)" "talk w3 w4"
    by (rule talk_total_run)
  have h4: "holds_claim w a (bump w4)" using holds_claim_talk [OF assms(1) edit(2)] by simp
  then have c4: "calm w4" by (simp add: holds_claim_def)
  show ?thesis
  proof (cases "first_where (\<lambda>b. tb_WorkspaceGroupID b = ws_ID g \<and> tb_TopicKey b = TopicToday) (db_bindings (w_db w4))")
    case None
    then have "send_alert now a' task participant g w3
        = thenM (deferUnavailableAlert (al_ID a) now ''Today topic missing'') (ret True) (bump w4)"
      using edit(1) c4 a' by (simp add: send_alert_eq Let_def thenM_def [of "edit_failed_card a' task ?name ?username g"]
          bindM_def [of "edit_failed_card a' task ?name ?username g"] bindM_attempt GetTopicBinding_def query_calm)
    then show ?thesis using deferred_outcome [OF h4] by metis
  next
    case (Some b)
    then obtain request where "send_alert now a' task participant g w3 = send_ping now a' g request (bump w4)"
      using edit(1) c4 by (simp add: send_alert_eq Let_def thenM_def [of "edit_failed_card a' task ?name ?username g"]
          bindM_def [of "edit_failed_card a' task ?name ?username g"] bindM_attempt GetTopicBinding_def query_calm)
    then show ?thesis using ping_outcome [OF h4 a'] by metis
  qed
qed

lemma alert_round_outcome:
  assumes "calm w" and "schema (w_db w)"
    and some: "first_where (alert_claimable (sql_now w) (w_db w)) (db_alerts (w_db w)) = Some a"
  shows "\<exists>op r w'. alert_round now w = (r, w') \<and> alert_effect w a op r w'"
proof -
  have a: "a \<in> set (db_alerts (w_db w))" using first_where_Some [OF some] by simp
  let ?a = "a\<lparr>al_DispatchStatus := AlertDispatchDispatching, al_DispatchStartedAt := Some (sql_now w)\<rparr>"
  let ?w = "leased_world a w"
  have h: "holds_claim w a ?w" using assms(1,2) a by (simp add: holds_claim_def leased_world_def)
  have same: "db_tasks (w_db ?w) = db_tasks (w_db w)" "db_participants (w_db ?w) = db_participants (w_db w)"
    "db_workspaces (w_db ?w) = db_workspaces (w_db w)" "calm ?w"
    using assms(1) by (simp_all add: leased_world_def lease_alert_def)
  have refs: "tk_ref (w_db w) (al_DailyTaskID a)" using assms(2) a by (simp add: schema_defs)
  obtain t where t: "first_where (\<lambda>t. tk_ID t = al_DailyTaskID a) (db_tasks (w_db w)) = Some t"
    using refs by (cases "first_where (\<lambda>t. tk_ID t = al_DailyTaskID a) (db_tasks (w_db w))") (auto simp: tk_ref_def first_where_None)
  have "ws_ref (w_db w) (tk_WorkspaceGroupID t)"
    using assms(2) first_where_Some [OF t] by (simp add: schema_defs)
  then obtain g where g: "first_where (\<lambda>w. ws_ID w = tk_WorkspaceGroupID t) (db_workspaces (w_db w)) = Some g"
    by (cases "first_where (\<lambda>w. ws_ID w = tk_WorkspaceGroupID t) (db_workspaces (w_db w))") (auto simp: ws_ref_def first_where_None)
  have "alert_round now w = send_alert now ?a t
      (first_where (\<lambda>p. pt_ID p = tk_ParticipantID t) (db_participants (w_db w))) g (bump (bump (bump ?w)))"
    using some t g same assms(1)
    by (simp add: alert_round_def bindM_def [of ClaimPendingAlert] claim_alert_run bindM_attempt GetTask_def find_task_def
        GetParticipantByID_def GetWorkspaceByID_def query_calm)
  then show ?thesis using send_outcome [of w a "bump (bump (bump ?w))" ?a] h by simp
qed

section \<open>The loop\<close>

definition alert_attempts :: "world \<Rightarrow> nat" where
  "alert_attempts w = (\<Sum>a \<leftarrow> db_alerts (w_db w). if unsent a then attempts_left ''alert'' (al_ID a) (w_db w) else 0)"

text \<open>What may become of an alert: it is sent, or a failed attempt gave it back.\<close>

definition alert_fate :: "daily_task_alert \<Rightarrow> daily_task_alert \<Rightarrow> bool" where
  "alert_fate a a' \<longleftrightarrow> a' = a \<or> unsent a \<and> (\<exists>op. a' = settled_alert op a)"

definition alerts_moved :: "world \<Rightarrow> world \<Rightarrow> bool" where
  "alerts_moved w w' \<longleftrightarrow> aside w w' \<and> (\<exists>as rs. w_db w' = (w_db w)\<lparr>db_alerts := as, db_retries := rs\<rparr>
     \<and> list_all2 alert_fate (db_alerts (w_db w)) as)"

definition no_alert_claimable :: "world \<Rightarrow> bool" where
  "no_alert_claimable w \<longleftrightarrow> (\<forall>a \<in> set (db_alerts (w_db w)). \<not> alert_claimable (sql_now w) (w_db w) a)"

lemma alert_fate_trans: "alert_fate a b \<Longrightarrow> alert_fate b c \<Longrightarrow> alert_fate a c"
proof -
  have "settled_alert op (settled_alert op' a) = settled_alert op a \<or> \<not> unsent (settled_alert op' a)" for op op'
    by (cases op; cases op') (simp_all add: unsent_def)
  then show "alert_fate a b \<Longrightarrow> alert_fate b c \<Longrightarrow> alert_fate a c" unfolding alert_fate_def by metis
qed

lemma alerts_moved_refl: "alerts_moved w w"
  unfolding alerts_moved_def
  by (intro conjI exI [of _ "db_alerts (w_db w)"] exI [of _ "db_retries (w_db w)"]) (simp_all add: list_all2_refl alert_fate_def)

lemma alerts_moved_trans:
  assumes "alerts_moved w w1" and "alerts_moved w1 w2"
  shows "alerts_moved w w2"
proof -
  obtain as rs where w1: "aside w w1" "w_db w1 = (w_db w)\<lparr>db_alerts := as, db_retries := rs\<rparr>"
      "list_all2 alert_fate (db_alerts (w_db w)) as"
    using assms(1) unfolding alerts_moved_def by blast
  obtain as' rs' where w2: "aside w1 w2" "w_db w2 = (w_db w1)\<lparr>db_alerts := as', db_retries := rs'\<rparr>"
      "list_all2 alert_fate (db_alerts (w_db w1)) as'"
    using assms(2) unfolding alerts_moved_def by blast
  have "list_all2 alert_fate as as'" using w2(3) w1(2) by simp
  then have "list_all2 alert_fate (db_alerts (w_db w)) as'"
    by (rule list_all2_trans [OF _ w1(3), rotated]) (erule (1) alert_fate_trans)
  then show ?thesis
    using aside_trans [OF w1(1) w2(1)] w1(2) w2(2) unfolding alerts_moved_def
    by (intro conjI exI [of _ as'] exI [of _ rs']) simp_all
qed

lemma sound_alert_round: "sound (alert_round now)"
  unfolding alert_round_def by (intro sound_rules sound_nested_case sound_ops sound_send_alert)

lemma alert_progress:
  assumes ord: "in_order w" and some: "first_where (alert_claimable (sql_now w) (w_db w)) (db_alerts (w_db w)) = Some a"
    and run: "alert_round now w = (r, w')" and eff: "alert_effect w a op r w'"
  shows "in_order w'" and "alert_attempts w' < alert_attempts w" and "alerts_moved w w'"
proof -
  have sch: "schema (w_db w)" using ord by (simp add: in_order_def)
  have a: "a \<in> set (db_alerts (w_db w))" "alert_claimable (sql_now w) (w_db w) a"
    using first_where_Some [OF some] by simp_all
  obtain rs where db: "w_db w' = (put_alert op (al_ID a) (w_db w))\<lparr>db_retries := rs\<rparr>"
    and rs: "if op = AlertRequeued then \<exists>t c s. rs = after_failure ''alert'' (al_ID a) t c s (db_retries (w_db w))
      else rs = filter (\<lambda>r. \<not> retry_key ''alert'' (al_ID a) r) (db_retries (w_db w))"
    using eff unfolding alert_effect_def by blast
  show "in_order w'"
    using soundD [OF sound_alert_round run sch] aside_calm [of w w'] ord eff by (simp add: in_order_def alert_effect_def)
  have uns: "unsent a" "0 < attempts_left ''alert'' (al_ID a) (w_db w)"
    using a(2) unblocked_has_attempt [OF sch] by (auto simp: alert_claimable_def unsent_def)
  have same: "q = a" if "q \<in> set (db_alerts (w_db w))" "al_ID q = al_ID a" for q
    using uniq_same [OF schema_uniq_queues(2) [OF sch] that(1) a(1) that(2)] .
  let ?d' = "(w_db w)\<lparr>db_retries := rs\<rparr>" and ?row = "\<lambda>q. if al_ID q = al_ID a then settled_alert op q else q"
  have other: "attempts_left ''alert'' i ?d' = attempts_left ''alert'' i (w_db w)" if "i \<noteq> al_ID a" for i
    using rs other_attempts [OF that, where d = "w_db w" and rs = "db_retries (w_db w)"] by (auto split: if_splits)
  have own: "(if unsent (settled_alert op a) then attempts_left ''alert'' (al_ID a) ?d' else 0)
      < attempts_left ''alert'' (al_ID a) (w_db w)"
    using uns rs failure_uses_attempt [OF sch uns(2)] by (cases op) (auto simp: unsent_def)
  have left: "attempts_left ''alert'' i (w_db w') = attempts_left ''alert'' i ?d'" for i
    by (simp add: db attempts_left_def put_alert_def)
  have "alert_attempts w' = (\<Sum>q \<leftarrow> db_alerts (w_db w). if unsent (?row q) then attempts_left ''alert'' (al_ID q) ?d' else 0)"
    unfolding alert_attempts_def left by (simp add: db put_alert_def upd_where_def comp_def)
      (rule arg_cong [where f = sum_list], rule map_cong, simp_all)
  also have "\<dots> < alert_attempts w"
    unfolding alert_attempts_def
  proof (rule sum_list_less [OF _ a(1)])
    show "(if unsent (?row a) then attempts_left ''alert'' (al_ID a) ?d' else 0)
        < (if unsent a then attempts_left ''alert'' (al_ID a) (w_db w) else 0)"
      using own uns by simp
    fix q assume q: "q \<in> set (db_alerts (w_db w))"
    show "(if unsent (?row q) then attempts_left ''alert'' (al_ID q) ?d' else 0)
        \<le> (if unsent q then attempts_left ''alert'' (al_ID q) (w_db w) else 0)"
      using own uns(1) same [OF q] other [of "al_ID q"] by (cases "al_ID q = al_ID a") auto
  qed
  finally show "alert_attempts w' < alert_attempts w" .
  have "alert_fate q (?row q)" if "q \<in> set (db_alerts (w_db w))" for q
    using same [OF that] uns(1) by (auto simp: alert_fate_def)
  then have "list_all2 alert_fate (db_alerts (w_db w)) (upd_where (\<lambda>q. al_ID q = al_ID a) (settled_alert op) (db_alerts (w_db w)))"
    unfolding upd_where_def list_all2_map2 by (intro list.rel_refl_strong) simp
  then show "alerts_moved w w'" using eff db unfolding alerts_moved_def alert_effect_def
    by (intro conjI exI [of _ "upd_where (\<lambda>q. al_ID q = al_ID a) (settled_alert op) (db_alerts (w_db w))"] exI [of _ rs])
      (simp_all add: put_alert_def)
qed

interpretation alerting: claim_loop "alert_round now" in_order alerts_moved "\<lambda>e. e \<noteq> FuelExhausted"
    no_alert_claimable alert_attempts for now
proof
  show "alerts_moved w w" for w by (rule alerts_moved_refl)
  show "alerts_moved w w1 \<Longrightarrow> alerts_moved w1 w2 \<Longrightarrow> alerts_moved w w2" for w w1 w2 by (rule alerts_moved_trans)
  fix w assume w: "in_order w"
  show "case alert_round now w of (Inl e, w') \<Rightarrow> alerts_moved w w' \<and> e \<noteq> FuelExhausted
    | (Inr again, w') \<Rightarrow> alerts_moved w w' \<and> (if again then in_order w' \<and> alert_attempts w' < alert_attempts w
        else no_alert_claimable w')"
  proof (cases "first_where (alert_claimable (sql_now w) (w_db w)) (db_alerts (w_db w))")
    case None
    then have "alert_round now w = (Inr False, bump w)"
      using w by (simp add: alert_round_def bindM_def [of ClaimPendingAlert] claim_alert_run in_order_def ret_run)
    moreover have "no_alert_claimable (bump w)" using None by (simp add: no_alert_claimable_def first_where_None)
    ultimately show ?thesis using alerts_moved_refl [of w] by (simp add: alerts_moved_def)
  next
    case (Some a)
    obtain op r w' where run: "alert_round now w = (r, w')" "alert_effect w a op r w'"
      using alert_round_outcome [OF _ _ Some, of now] w unfolding in_order_def by blast
    then show ?thesis using alert_progress [OF w Some run] by (auto simp: alert_effect_def)
  qed
qed

lemma alert_attempts_le:
  assumes "schema (w_db w)"
  shows "alert_attempts w \<le> 9 * length (filter unsent (db_alerts (w_db w)))"
proof -
  have "(\<Sum>a \<leftarrow> as. if unsent a then attempts_left ''alert'' (al_ID a) (w_db w) else 0) \<le> 9 * length (filter unsent as)" for as
    using attempts_left_le [OF assms] by (induction as) (auto intro: add_mono)
  then show ?thesis by (simp add: alert_attempts_def)
qed

text \<open>C27. Dispatching alerts ends, whatever Telegram answers: while the database answers, nine rounds per open
  alert are enough. Every alert is left alone, sent, or given back; a sent or acknowledged alert never
  changes, and when the loop returns without an error no alert is left that could be claimed.\<close>

theorem dispatching_ends:
  assumes "calm w" and "schema (w_db w)" and "9 * length (filter unsent (db_alerts (w_db w))) < n"
  shows "\<exists>r w' as rs. DispatchAlerts n w = (r, w') \<and> r \<noteq> Inl FuelExhausted \<and> (r = Inr () \<longrightarrow> no_alert_claimable w')
    \<and> w_db w' = (w_db w)\<lparr>db_alerts := as, db_retries := rs\<rparr> \<and> list_all2 alert_fate (db_alerts (w_db w)) as"
proof -
  obtain t where t: "current_now w = (Inr t, bump w)" using current_now_run [OF assms(1)] by blast
  have "alert_attempts (bump w) < n"
    using alert_attempts_le [of w] assms(2,3) by (simp add: alert_attempts_def cong: if_cong)
  moreover have "alerts_moved (bump w) w' = alerts_moved w w'" for w'
    by (simp add: alerts_moved_def aside_def) (simp add: bump_def)
  ultimately have "case DispatchAlerts n w of (Inl e, w') \<Rightarrow> alerts_moved w w' \<and> e \<noteq> FuelExhausted
      | (Inr _, w') \<Rightarrow> alerts_moved w w' \<and> no_alert_claimable w'"
    using alerting.loop_ends [of "bump w" n t] assms t
    by (auto simp: in_order_def DispatchAlerts_def bindM_def split: prod.splits sum.splits)
  then show ?thesis
    by (cases "DispatchAlerts n w") (auto simp: alerts_moved_def split: sum.splits)
qed

definition alert8 :: daily_task_alert where
  "alert8 = \<lparr>al_ID = 1, al_DailyTaskID = 1, al_AlertKind = AlertOverdueTaskFailed, al_DispatchStatus = AlertDispatchPending,
     al_TelegramMessageID = None, al_AcknowledgedAt = None, al_CreatedAt = 0, al_DispatchStartedAt = None\<rparr>"

definition db8 :: db where "db8 = db2\<lparr>db_seq := (db_seq db2)(TAlerts := 1), db_alerts := [alert8]\<rparr>"

theorem dispatching_ends_witness:
  "\<exists>r w'. DispatchAlerts 10 (world2\<lparr>w_db := db8\<rparr>) = (r, w') \<and> r \<noteq> Inl FuelExhausted
    \<and> (db_alerts (w_db w') = [alert8] \<or> (\<exists>op. db_alerts (w_db w') = [settled_alert op alert8]))"
proof -
  have "schema db8"
    by (simp add: db8_def alert8_def example_defs schema_defs plans_defs ids_ok_def uniq_def)
  moreover have "unsent alert8" "db_alerts db8 = [alert8]" by (simp_all add: alert8_def unsent_def db8_def)
  ultimately obtain r w' as rs where w': "DispatchAlerts 10 (world2\<lparr>w_db := db8\<rparr>) = (r, w')" "r \<noteq> Inl FuelExhausted"
      "w_db w' = db8\<lparr>db_alerts := as, db_retries := rs\<rparr>" "list_all2 alert_fate [alert8] as"
    using dispatching_ends [of "world2\<lparr>w_db := db8\<rparr>" 10] by auto
  then show ?thesis by (auto simp: list_all2_Cons1 alert_fate_def)
qed

end
