(* ===== verification/Tick_Loop.thy ===== *)
theory Tick_Loop imports Steady Notice_Loop Alert_Loop Input_Cleanup begin

text \<open>
  A whole tick of the worker ends. The four loops of a tick take a fuel in the model; here enough fuel
  is shown to exist for every tick, and more fuel never changes what the tick returns or does, so the
  fuel is no part of the program's behaviour.
\<close>

section \<open>Programs with fuel\<close>

text \<open>The worlds between the steps of a tick.\<close>

definition fit :: "world \<Rightarrow> bool" where
  "fit w \<longleftrightarrow> calm w \<and> w_tx w = NoTx \<and> schema (w_db w) \<and> zoned w"

text \<open>From some fuel on the result is the same, and it is a result of the program.\<close>

definition settles :: "(nat \<Rightarrow> 'a io) \<Rightarrow> world \<Rightarrow> bool" where
  "settles F w \<longleftrightarrow> (\<exists>N r w'. (\<forall>n \<ge> N. F n w = (r, w')) \<and> fit w' \<and> (\<forall>e. r = Inl e \<longrightarrow> \<not> out_of_fuel e))"

lemma fit_quiet: "fit w \<Longrightarrow> quiet w w' \<Longrightarrow> schema (w_db w') \<Longrightarrow> fit w'"
  using quiet_zoned [of w w'] by (auto simp: fit_def quiet_def calm_def)

lemma settles_steady:
  assumes "steady m" and "sound m" and "fit w"
  shows "settles (\<lambda>_. m) w"
proof -
  obtain r w' where run: "m w = (r, w')" by (cases "m w")
  have "zoned w" "schema (w_db w)" using assms(3) by (simp_all add: fit_def)
  then show ?thesis
    using run fit_quiet [OF assms(3)] steadyD [OF assms(1)] soundD [OF assms(2) run] unfolding settles_def by blast
qed

lemma settles_bindM:
  assumes "settles F w" and "\<And>x w'. fit w' \<Longrightarrow> settles (\<lambda>n. G n x) w'"
  shows "settles (\<lambda>n. bindM (F n) (G n)) w"
proof -
  obtain N r w1 where F: "\<forall>n \<ge> N. F n w = (r, w1)" "fit w1" "\<forall>e. r = Inl e \<longrightarrow> \<not> out_of_fuel e"
    using assms(1) unfolding settles_def by blast
  show ?thesis
  proof (cases r)
    case (Inl e)
    then show ?thesis using F unfolding settles_def by (intro exI [of _ N] exI [of _ "Inl e"] exI [of _ w1]) simp
  next
    case (Inr x)
    obtain M r' w2 where G: "\<forall>n \<ge> M. G n x w1 = (r', w2)" "fit w2" "\<forall>e. r' = Inl e \<longrightarrow> \<not> out_of_fuel e"
      using assms(2) [OF F(2), of x] unfolding settles_def by blast
    then show ?thesis using F(1) Inr unfolding settles_def
      by (intro exI [of _ "max N M"] exI [of _ r'] exI [of _ w2]) simp
  qed
qed

lemma settles_thenM: "settles F w \<Longrightarrow> (\<And>w'. fit w' \<Longrightarrow> settles G w') \<Longrightarrow> settles (\<lambda>n. thenM (F n) (G n)) w"
  unfolding thenM_def by (rule settles_bindM)

lemma settles_err_of:
  assumes "settles F w" and "\<And>r w'. fit w' \<Longrightarrow> (\<And>e. r = Some e \<Longrightarrow> \<not> out_of_fuel e) \<Longrightarrow> settles (\<lambda>n. G n r) w'"
  shows "settles (\<lambda>n. bindM (err_of (F n)) (G n)) w"
proof -
  obtain N r w1 where F: "\<forall>n \<ge> N. F n w = (r, w1)" "fit w1" "\<forall>e. r = Inl e \<longrightarrow> \<not> out_of_fuel e"
    using assms(1) unfolding settles_def by blast
  let ?v = "case r of Inl e \<Rightarrow> Some e | Inr _ \<Rightarrow> None"
  have "settles (\<lambda>n. G n ?v) w1" by (rule assms(2) [OF F(2)]) (use F(3) in \<open>auto split: sum.splits\<close>)
  then obtain M r' w2 where G: "\<forall>n \<ge> M. G n ?v w1 = (r', w2)" "fit w2" "\<forall>e. r' = Inl e \<longrightarrow> \<not> out_of_fuel e"
    unfolding settles_def by blast
  then show ?thesis using F(1) unfolding settles_def
    by (intro exI [of _ "max N M"] exI [of _ r'] exI [of _ w2]) (simp add: bindM_err_of)
qed

text \<open>A loop settles when some fuel is enough and more fuel does not change a result.\<close>

lemma settles_enough:
  assumes "\<And>n m. n \<le> m \<Longrightarrow> fst (F n w) \<noteq> Inl FuelExhausted \<Longrightarrow> F m w = F n w"
    and "F N w = (r, w')" and "\<And>e. r = Inl e \<Longrightarrow> \<not> out_of_fuel e" and "fit w'"
  shows "settles F w"
proof -
  have "fst (F N w) \<noteq> Inl FuelExhausted" using assms(2,3) by auto
  then show ?thesis using assms unfolding settles_def by (intro exI [of _ N] exI [of _ r] exI [of _ w']) auto
qed

lemma loopM_more_fuel: "n \<le> m \<Longrightarrow> fst (loopM n body w) \<noteq> Inl FuelExhausted \<Longrightarrow> loopM m body w = loopM n body w"
proof (induction n arbitrary: m w)
  case (Suc n)
  then obtain k where m: "m = Suc k" "n \<le> k" by (cases m) auto
  obtain r w1 where run: "body w = (r, w1)" by (cases "body w")
  show ?case
  proof (cases r)
    case (Inl e)
    then show ?thesis using run m(1) by simp
  next
    case (Inr again)
    then show ?thesis using run m Suc.IH [of k w1] Suc.prems(2) by (cases again) simp_all
  qed
qed (simp add: failM_run)

lemma close_loop_more_fuel:
  "n \<le> m \<Longrightarrow> fst (close_loop n now ws w) \<noteq> Inl FuelExhausted \<Longrightarrow> close_loop m now ws w = close_loop n now ws w"
proof (induction n arbitrary: m ws w)
  case (Suc n)
  then obtain k where m: "m = Suc k" "n \<le> k" by (cases m) auto
  have next_round: "thenM u (close_loop k now ws') w1 = thenM u (close_loop n now ws') w1"
    if "fst (thenM u (close_loop n now ws') w1) \<noteq> Inl FuelExhausted" for u :: "unit io" and ws' w1
  proof -
    obtain r w2 where run: "u w1 = (r, w2)" by (cases "u w1")
    then show ?thesis using that Suc.IH [OF m(2), of ws' w2] by (cases r) (simp_all add: thenM_def)
  qed
  obtain r w1 where tx: "close_tx now w = (r, w1)" by (cases "close_tx now w")
  show ?case
  proof (cases r)
    case (Inl e)
    then show ?thesis using tx m(1) by simp
  next
    case (Inr p)
    obtain x e where p: "p = (x, e)" by (cases p)
    show ?thesis using Suc.prems(2) tx Inr p m(1) next_round by (cases e; cases x) simp_all
  qed
qed (simp add: failM_run)

lemma steady_loop_result:
  "steady body \<Longrightarrow> zoned w \<Longrightarrow> loopM n body w = (r, w') \<Longrightarrow> quiet w w' \<and> (\<forall>e. r = Inl e \<longrightarrow> e = FuelExhausted \<or> \<not> out_of_fuel e)"
proof (induction n arbitrary: w)
  case (Suc n)
  obtain r1 w1 where run: "body w = (r1, w1)" by (cases "body w")
  note q = steadyD(1) [OF Suc.prems(1,2) run]
  show ?case
  proof (cases r1)
    case (Inl e)
    then show ?thesis using q run Suc.prems steadyD(2) [OF Suc.prems(1,2)] by auto
  next
    case (Inr again)
    show ?thesis
    proof (cases again)
      case True
      then have "loopM n body w1 = (r, w')" using run Inr Suc.prems(3) by simp
      then show ?thesis using Suc.IH [OF Suc.prems(1)] quiet_zoned [OF q] Suc.prems(2) quiet_trans [OF q] by blast
    next
      case False
      then show ?thesis using q run Inr Suc.prems(3) by (auto simp: ret_run)
    qed
  qed
qed (auto simp: failM_run)

lemma settles_loop:
  assumes "steady body" and "sound body" and "fit w" and "fst (loopM N body w) \<noteq> Inl FuelExhausted"
  shows "settles (\<lambda>n. loopM n body) w"
proof -
  obtain r w' where run: "loopM N body w = (r, w')" by (cases "loopM N body w")
  have "zoned w" "schema (w_db w)" using assms(3) by (simp_all add: fit_def)
  then have "quiet w w'" "\<forall>e. r = Inl e \<longrightarrow> \<not> out_of_fuel e" "schema (w_db w')"
    using steady_loop_result [OF assms(1) _ run] soundD [OF sound_loops(3) [OF assms(2)] run] assms(4) run by auto
  then have "fit w'" "\<And>e. r = Inl e \<Longrightarrow> \<not> out_of_fuel e" using fit_quiet [OF assms(3)] by blast+
  then show ?thesis
    by (intro settles_enough [where F = "\<lambda>n. loopM n body" and N = N]) (rule loopM_more_fuel, assumption+, rule run)
qed

section \<open>The loops of a tick\<close>

lemma in_order_fit: "fit w \<Longrightarrow> in_order w" "fit w \<Longrightarrow> outside_tx w"
  by (simp_all add: fit_def in_order_def outside_tx_def)

lemma settles_DispatchAlerts:
  assumes "fit w"
  shows "settles DispatchAlerts w"
proof -
  have "settles (\<lambda>n. bindM current_now (\<lambda>now. loopM n (alert_round now))) w"
  proof (rule settles_bindM)
    show "settles (\<lambda>_. current_now) w"
      by (rule settles_steady [OF _ _ assms]) (rule steady_ops, rule sound_ops)
    fix now w' assume "fit w'"
    have "fst (loopM (Suc (alert_attempts w')) (alert_round now) w') \<noteq> Inl FuelExhausted"
      using alerting.loop_ends [OF in_order_fit(1) [OF \<open>fit w'\<close>], of "Suc (alert_attempts w')" now] by (auto split: prod.splits)
    then show "settles (\<lambda>n. loopM n (alert_round now)) w'"
      using settles_loop [OF steady_alert_round sound_alert_round \<open>fit w'\<close>] by blast
  qed
  then show ?thesis by (simp add: DispatchAlerts_def [abs_def])
qed

lemma settles_PublishPending:
  assumes "fit w"
  shows "settles PublishPending w"
proof -
  have "settles (\<lambda>n. bindM current_now (\<lambda>now. loopM n (publish_round now))) w"
  proof (rule settles_bindM)
    show "settles (\<lambda>_. current_now) w"
      by (rule settles_steady [OF _ _ assms]) (rule steady_ops, rule sound_ops)
    fix now w' assume "fit w'"
    have "fst (loopM (Suc (open_attempts w')) (publish_round now) w') \<noteq> Inl FuelExhausted"
      using publishing.loop_ends [OF in_order_fit(1) [OF \<open>fit w'\<close>], of "Suc (open_attempts w')" now] by (auto split: prod.splits)
    then show "settles (\<lambda>n. loopM n (publish_round now)) w'"
      using settles_loop [OF steady_publish_round sound_publish_round \<open>fit w'\<close>] by blast
  qed
  then show ?thesis by (simp add: PublishPending_def [abs_def])
qed

lemma settles_CleanupStaleInputs:
  assumes "fit w"
  shows "settles (\<lambda>n. CleanupStaleInputs n now) w"
proof -
  let ?cutoff = "utc_time (gt_ns now - PendingInputMaxAge)"
  let ?n = "Suc (length (filter (stale_listed (gt_ns ?cutoff)) (db_pendings (w_db w))))"
  have "\<exists>w'. loopM ?n (cleanup_round ?cutoff now) w = (Inr (), w')"
    using cleanup_loop [of w ?cutoff ?n now] assms by (auto simp: fit_def staleBatchSize_def)
  then have "fst (loopM ?n (cleanup_round ?cutoff now) w) \<noteq> Inl FuelExhausted" by auto
  moreover have "sound (cleanup_round ?cutoff now)"
    unfolding cleanup_round_def deletePendingMessages_def by (intro sound_rules sound_ops sound_delete_unseen)
  ultimately show ?thesis unfolding CleanupStaleInputs_def
    using settles_loop [OF steady_cleanup_round _ assms] by blast
qed

lemma settles_close_loop:
  assumes "fit w"
  shows "settles (\<lambda>n. close_loop n now ws) w"
proof -
  have telegram: "onlyTelegramErrors e \<Longrightarrow> \<not> out_of_fuel e" for e
    by (induction e rule: onlyTelegramErrors.induct) (auto simp: list_all_iff list_ex_iff)
  let ?n = "Suc (notice_attempts w)"
  obtain r w' where run: "close_loop ?n now ws w = (r, w')" by (cases "close_loop ?n now ws w")
  have res: "aside w w'" "\<And>e. r = Inl e \<Longrightarrow> \<not> out_of_fuel e"
    using close_loop_ends [OF in_order_fit(2) [OF assms], of ?n now ws] run telegram
    by (auto simp: notices_moved_def split: sum.splits)
  have "quiet w w'" using res(1) by (simp add: aside_def quiet_def)
  moreover have "schema (w_db w')" using soundD [OF sound_close_loop run] assms by (simp add: fit_def)
  ultimately have "fit w'" by (rule fit_quiet [OF assms])
  with res(2) show ?thesis
    by (intro settles_enough [where F = "\<lambda>n. close_loop n now ws" and N = ?n]) (rule close_loop_more_fuel, assumption+, rule run)
qed

section \<open>A tick\<close>

lemma sound_tick_start: "sound (tick_start now)"
  unfolding tick_start_def by (intro sound_rules sound_ops)

lemmas tick_steps = settles_bindM settles_thenM settles_close_loop settles_CleanupStaleInputs settles_DispatchAlerts
  settles_PublishPending settles_steady

lemma settles_RunCheckinTransitions: "fit w \<Longrightarrow> settles (\<lambda>n. RunCheckinTransitions n now) w"
  unfolding RunCheckinTransitions_def
  by (intro tick_steps steady_rules steady_ops steady_leaderboards steady_checkin_transitions
      sound_rules sound_ops sound_checkin_transitions sound_retry_workspaces)

lemma settles_tick_body: "fit w \<Longrightarrow> settles (\<lambda>n. tick_body n now) w"
  unfolding tick_body_def
  by (intro settles_RunCheckinTransitions tick_steps steady_tick_start steady_DispatchDueCheckins steady_CleanupExpiredNotices
      steady_DispatchWeeklyReviews steady_DispatchFinalReviews sound_tick_start sound_ops)

lemma steady_lease: "steady (TryAcquireWorkerLease free)" "steady ReleaseLease"
    "sound (TryAcquireWorkerLease free)" "sound ReleaseLease"
  unfolding TryAcquireWorkerLease_def ReleaseLease_def by (intro steady_rules sound_rules)+

lemma out_of_fuel_leased:
  assumes "errors_join [a, map_option (WrappedError p) r] = Some e"
    and "\<And>x. a = Some x \<Longrightarrow> \<not> out_of_fuel x" and "\<And>x. r = Some x \<Longrightarrow> \<not> out_of_fuel x"
  shows "\<not> out_of_fuel e"
  using assms by (cases a; cases r) (auto simp: errors_join_def map_filter_def)

lemma settles_Tick: "fit w \<Longrightarrow> settles (\<lambda>n. Tick n free now) w"
proof -
  assume "fit w"
  have raise: "steady (bindM ReleaseLease (\<lambda>releaseErr. raise_opt (errors_join [err, releaseErr])))"
    if "\<And>e. err = Some e \<Longrightarrow> \<not> out_of_fuel e" for err
  proof -
    have "steady (bindM (err_of (query (\<lambda>_. ()))) (\<lambda>r. raise_opt (errors_join [err, map_option (WrappedError ''unlock worker lease'') r])))"
      using that by (intro steady_rules) (erule out_of_fuel_leased, blast+)
    then show ?thesis by (simp add: ReleaseLease_def bindM_assoc bindM_ret)
  qed
  have "settles (\<lambda>n. bindM (TryAcquireWorkerLease free) (\<lambda>acquired. if \<not> acquired then failM ErrWorkerLockBusy
     else bindM (err_of (tick_body n now)) (\<lambda>err. bindM ReleaseLease (\<lambda>releaseErr. raise_opt (errors_join [err, releaseErr]))))) w"
  proof (rule settles_bindM [OF settles_steady [OF steady_lease(1,3) \<open>fit w\<close>]])
    fix acquired w' assume w': "fit w'"
    have "settles (\<lambda>n. failM ErrWorkerLockBusy :: unit io) w'"
      by (rule settles_steady [OF _ _ w']) (auto intro!: steady_rules sound_rules simp: ErrWorkerLockBusy_def)
    moreover have "settles (\<lambda>n. bindM (err_of (tick_body n now)) (\<lambda>err.
        bindM ReleaseLease (\<lambda>releaseErr. raise_opt (errors_join [err, releaseErr])))) w'"
      by (rule settles_err_of [OF settles_tick_body [OF w']], rule settles_steady)
        (erule raise, intro sound_rules steady_lease)
    ultimately show "settles (\<lambda>n. if \<not> acquired then failM ErrWorkerLockBusy
        else bindM (err_of (tick_body n now)) (\<lambda>err. bindM ReleaseLease (\<lambda>releaseErr. raise_opt (errors_join [err, releaseErr])))) w'"
      by (cases acquired) simp_all
  qed
  then show ?thesis by (simp add: Tick_def)
qed



end
