(* ===== verification/GoJson.thy ===== *)
theory GoJson imports Input_Safety begin

text \<open>
  What the program uses of \<open>encoding/json\<close>: \<open>json.Marshal\<close> of objects, strings, integers and
  booleans, with the escapes of its HTML-safe strings, and a reader of JSON texts. Bytes that are no
  UTF-8 are written as U+FFFD. Reading what was written gives the value back.
\<close>

section \<open>Values\<close>

datatype js = ONull | OBool bool | ONum int | OStr bytes | OArr "js list" | OObj "(bytes \<times> js) list"

section \<open>Strings\<close>

definition backslash :: char where "backslash = CHR 0x5C"

definition dquote :: char where "dquote = CHR 0x22"

definition hex_digit :: "nat \<Rightarrow> char" where
  "hex_digit n = (if n < 10 then digit_char n else char_of (87 + n))"

definition u_escape :: "nat \<Rightarrow> bytes" where
  "u_escape r = [backslash, CHR ''u'', hex_digit (r div 4096 mod 16), hex_digit (r div 256 mod 16),
     hex_digit (r div 16 mod 16), hex_digit (r mod 16)]"

text \<open>The runes that are not copied, and what is written for them.\<close>

definition json_escapes :: "nat \<Rightarrow> bytes option" where
  "json_escapes r = (if r = 0x22 \<or> r = 0x5C then Some [backslash, byte r]
     else if r = 8 then Some [backslash, CHR ''b''] else if r = 12 then Some [backslash, CHR ''f'']
     else if r = 10 then Some [backslash, CHR ''n''] else if r = 13 then Some [backslash, CHR ''r'']
     else if r = 9 then Some [backslash, CHR ''t'']
     else if r < 0x20 \<or> r \<in> {0x3C, 0x3E, 0x26, 0x2028, 0x2029} then Some (u_escape r) else None)"

fun json_escape :: "bytes \<Rightarrow> bytes" where
  "json_escape [] = []"
| "json_escape (c # cs) = (let (r, n) = decode_rune c cs in
     (if r = 0xFFFD \<and> n = 1 then u_escape 0xFFFD
      else (case json_escapes r of Some e \<Rightarrow> e | None \<Rightarrow> c # take (n - 1) cs))
     @ json_escape (drop (n - 1) cs))"

definition write_string :: "bytes \<Rightarrow> bytes" where "write_string s = dquote # json_escape s @ [dquote]"

section \<open>Marshal\<close>

fun write_js :: "js \<Rightarrow> bytes" where
  "write_js ONull = ''null''"
| "write_js (OBool b) = (if b then ''true'' else ''false'')"
| "write_js (ONum n) = show_int n"
| "write_js (OStr s) = write_string s"
| "write_js (OArr vs) = ''['' @ join_with '','' (map write_js vs) @ '']''"
| "write_js (OObj fs) = ''{'' @ join_with '','' (map (\<lambda>(k, v). write_string k @ '':'' @ write_js v) fs) @ ''}''"

section \<open>Reading\<close>

definition hex_val :: "char \<Rightarrow> nat option" where
  "hex_val c = (let n = (of_char c :: nat) in
     if 48 \<le> n \<and> n \<le> 57 then Some (n - 48) else if 97 \<le> n \<and> n \<le> 102 then Some (n - 87)
     else if 65 \<le> n \<and> n \<le> 70 then Some (n - 55) else None)"

fun read_u4 :: "bytes \<Rightarrow> (nat \<times> bytes) option" where
  "read_u4 (a # b # c # d # s) = (case (hex_val a, hex_val b, hex_val c, hex_val d) of
      (Some w, Some x, Some y, Some z) \<Rightarrow> Some (w * 4096 + x * 256 + y * 16 + z, s) | _ \<Rightarrow> None)"
| "read_u4 _ = None"

text \<open>After \<open>backslash u\<close>; a pair of surrogates is one rune.\<close>

definition read_unit :: "bytes \<Rightarrow> (nat \<times> bytes) option" where
  "read_unit s = (case read_u4 s of
      None \<Rightarrow> None
    | Some (r, s1) \<Rightarrow>
        if is_rune r then Some (r, s1)
        else (case s1 of a # b # s2 \<Rightarrow>
              if a = backslash \<and> b = CHR ''u'' then (case read_u4 s2 of
                  Some (r2, s3) \<Rightarrow> if r < 0xDC00 \<and> 0xDC00 \<le> r2 \<and> r2 \<le> 0xDFFF
                    then Some (0x10000 + (r - 0xD800) * 1024 + (r2 - 0xDC00), s3) else Some (0xFFFD, s1)
                | None \<Rightarrow> Some (0xFFFD, s1))
              else Some (0xFFFD, s1)
           | _ \<Rightarrow> Some (0xFFFD, s1)))"

definition read_escape :: "bytes \<Rightarrow> (nat \<times> bytes) option" where
  "read_escape s = (case s of [] \<Rightarrow> None
     | c # s1 \<Rightarrow> if c = dquote then Some (0x22, s1) else if c = backslash then Some (0x5C, s1)
         else if c = CHR 0x2F then Some (0x2F, s1) else if c = CHR ''b'' then Some (8, s1)
         else if c = CHR ''f'' then Some (12, s1) else if c = CHR ''n'' then Some (10, s1)
         else if c = CHR ''r'' then Some (13, s1) else if c = CHR ''t'' then Some (9, s1)
         else if c = CHR ''u'' then read_unit s1 else None)"

lemma read_u4_length: "read_u4 s = Some (r, s') \<Longrightarrow> length s' < length s"
  by (induction s rule: read_u4.induct) (auto split: option.splits)

lemma read_escape_length: "read_escape s = Some (r, s') \<Longrightarrow> length s' < length s"
  by (auto simp: read_escape_def read_unit_def split: list.splits if_splits option.splits dest!: read_u4_length)

text \<open>The runes up to the closing quote.\<close>

function read_runes :: "bytes \<Rightarrow> (nat list \<times> bytes) option" where
  "read_runes s = (case s of [] \<Rightarrow> None
     | c # cs \<Rightarrow> if c = dquote then Some ([], cs)
         else if of_char c < (0x20 :: nat) then None
         else (case (if c = backslash then read_escape cs
               else (case decode_rune c cs of (r, n) \<Rightarrow> Some (r, drop (n - 1) cs))) of
             None \<Rightarrow> None
           | Some (r, rest) \<Rightarrow> map_option (\<lambda>(rs, rest'). (r # rs, rest')) (read_runes rest)))"
  by pat_completeness auto
termination
  by (relation "measure length") (auto split: if_splits prod.splits dest: read_escape_length)

declare read_runes.simps [simp del]

definition read_string :: "bytes \<Rightarrow> (bytes \<times> bytes) option" where
  "read_string s = map_option (\<lambda>(rs, rest). (utf8 rs, rest)) (read_runes s)"

text \<open>Blanks between the tokens; numbers are integers here.\<close>

definition skip_blanks :: "bytes \<Rightarrow> bytes" where
  "skip_blanks s = dropWhile (\<lambda>c. c \<in> {CHR '' '', CHR 0x09, CHR 0x0A, CHR 0x0D}) s"

definition read_number :: "bytes \<Rightarrow> (int \<times> bytes) option" where
  "read_number s = (let (neg, ds) = (if has_prefix s ''-'' then (True, drop 1 s) else (False, s));
      digits = takeWhile (\<lambda>c. digit_val c \<noteq> None) ds in
    if digits = [] then None
    else Some (let n = int (foldl (\<lambda>m c. 10 * m + the (digit_val c)) 0 digits) in if neg then - n else n,
               dropWhile (\<lambda>c. digit_val c \<noteq> None) ds))"

definition read_word :: "bytes \<Rightarrow> js \<Rightarrow> bytes \<Rightarrow> (js \<times> bytes) option" where
  "read_word word v s = (if has_prefix s word then Some (v, drop (length word) s) else None)"

fun read_js :: "nat \<Rightarrow> bytes \<Rightarrow> (js \<times> bytes) option"
and read_elements :: "nat \<Rightarrow> bytes \<Rightarrow> (js list \<times> bytes) option"
and read_fields :: "nat \<Rightarrow> bytes \<Rightarrow> ((bytes \<times> js) list \<times> bytes) option" where
  "read_js 0 s = None"
| "read_js (Suc n) s = (case skip_blanks s of [] \<Rightarrow> None
     | c # cs \<Rightarrow>
         if c = dquote then map_option (\<lambda>(t, rest). (OStr t, rest)) (read_string cs)
         else if c = CHR ''['' then (if has_prefix (skip_blanks cs) '']'' then Some (OArr [], drop 1 (skip_blanks cs))
           else map_option (\<lambda>(vs, rest). (OArr vs, rest)) (read_elements n cs))
         else if c = CHR ''{'' then (if has_prefix (skip_blanks cs) ''}'' then Some (OObj [], drop 1 (skip_blanks cs))
           else map_option (\<lambda>(fs, rest). (OObj fs, rest)) (read_fields n cs))
         else if c = CHR ''t'' then read_word ''true'' (OBool True) (c # cs)
         else if c = CHR ''f'' then read_word ''false'' (OBool False) (c # cs)
         else if c = CHR ''n'' then read_word ''null'' ONull (c # cs)
         else map_option (\<lambda>(k, rest). (ONum k, rest)) (read_number (c # cs)))"
| "read_elements 0 s = None"
| "read_elements (Suc n) s = (case read_js n s of None \<Rightarrow> None
     | Some (v, rest) \<Rightarrow> (case skip_blanks rest of [] \<Rightarrow> None
         | c # cs \<Rightarrow> if c = CHR '']'' then Some ([v], cs)
             else if c = CHR '','' then map_option (\<lambda>(vs, rest). (v # vs, rest)) (read_elements n cs) else None))"
| "read_fields 0 s = None"
| "read_fields (Suc n) s = (case skip_blanks s of [] \<Rightarrow> None
     | q # ks \<Rightarrow> if q \<noteq> dquote then None else (case read_string ks of None \<Rightarrow> None
         | Some (k, rest) \<Rightarrow> if \<not> has_prefix (skip_blanks rest) '':'' then None
             else (case read_js n (drop 1 (skip_blanks rest)) of None \<Rightarrow> None
                 | Some (v, rest) \<Rightarrow> (case skip_blanks rest of [] \<Rightarrow> None
                     | c # cs \<Rightarrow> if c = CHR ''}'' then Some ([(k, v)], cs)
                         else if c = CHR '','' then map_option (\<lambda>(fs, rest). ((k, v) # fs, rest)) (read_fields n cs)
                         else None))))"

text \<open>A whole text; every value is longer than its nesting, so the length is enough fuel.\<close>

definition read_json :: "bytes \<Rightarrow> js option" where
  "read_json s = (case read_js (Suc (length s)) s of
      Some (v, rest) \<Rightarrow> if skip_blanks rest = [] then Some v else None | None \<Rightarrow> None)"

section \<open>Strings are read as they were written\<close>

lemma hex_val_digit [simp]: "n < 16 \<Longrightarrow> hex_val (hex_digit n) = Some n"
  by (auto simp: hex_val_def hex_digit_def digit_char_def Let_def)

lemma read_u4_escape:
  assumes "r < 0x10000"
  shows "read_u4 (drop 2 (u_escape r) @ s) = Some (r, s)"
proof -
  define x y z where "x = r div 16" and "y = x div 16" and "z = y div 16"
  have d: "r div 256 = y" "r div 4096 = z" by (simp_all add: x_def y_def z_def div_mult2_eq [symmetric])
  have "z < 16" using assms by (simp add: d(2) [symmetric] less_mult_imp_div_less)
  moreover have "16 * x + r mod 16 = r" "16 * y + x mod 16 = x" "16 * z + y mod 16 = y"
    unfolding x_def y_def z_def by (rule mult_div_mod_eq)+
  then have "z * 4096 + y mod 16 * 256 + x mod 16 * 16 + r mod 16 = r" by linarith
  ultimately show ?thesis by (simp add: u_escape_def d x_def [symmetric])
qed

lemma read_runes_escape:
  "read_runes (backslash # s) = (case read_escape s of None \<Rightarrow> None
     | Some (r, rest) \<Rightarrow> map_option (\<lambda>(rs, rest'). (r # rs, rest')) (read_runes rest))"
  by (subst read_runes.simps) (simp add: backslash_def dquote_def)

lemma read_escape_simple:
  "read_escape (dquote # s) = Some (0x22, s)" "read_escape (backslash # s) = Some (0x5C, s)"
  "read_escape (CHR ''b'' # s) = Some (8, s)" "read_escape (CHR ''f'' # s) = Some (12, s)"
  "read_escape (CHR ''n'' # s) = Some (10, s)" "read_escape (CHR ''r'' # s) = Some (13, s)"
  "read_escape (CHR ''t'' # s) = Some (9, s)" "read_escape (CHR ''u'' # s) = read_unit s"
  by (simp_all add: read_escape_def dquote_def backslash_def)

lemma read_runes_u:
  assumes "is_rune r" and "r < 0x10000"
  shows "read_runes (u_escape r @ s) = map_option (\<lambda>(rs, rest). (r # rs, rest)) (read_runes s)"
proof -
  have "read_runes (u_escape r @ s) = read_runes (backslash # CHR ''u'' # drop 2 (u_escape r) @ s)"
    by (simp add: u_escape_def)
  also have "read_escape (CHR ''u'' # drop 2 (u_escape r) @ s) = Some (r, s)"
    using read_u4_escape [OF assms(2), of s] assms(1) unfolding read_escape_simple read_unit_def by simp
  then have "read_runes (backslash # CHR ''u'' # drop 2 (u_escape r) @ s) = map_option (\<lambda>(rs, rest). (r # rs, rest)) (read_runes s)"
    unfolding read_runes_escape by simp
  finally show ?thesis .
qed

lemma byte_special: "byte 0x22 = dquote" "byte 0x5C = backslash"
  by (simp_all add: byte_def dquote_def backslash_def char_of_def bit_0)

lemma json_escapes_read:
  assumes "json_escapes r = Some e"
  shows "read_runes (e @ s) = map_option (\<lambda>(rs, rest). (r # rs, rest)) (read_runes s)"
proof -
  consider "r = 0x22" "e = [backslash, dquote]" | "r = 0x5C" "e = [backslash, backslash]" | "r = 8" "e = [backslash, CHR ''b'']"
    | "r = 12" "e = [backslash, CHR ''f'']" | "r = 10" "e = [backslash, CHR ''n'']" | "r = 13" "e = [backslash, CHR ''r'']"
    | "r = 9" "e = [backslash, CHR ''t'']" | "e = u_escape r" "is_rune r" "r < 0x10000"
    using assms by (auto simp: json_escapes_def is_rune_def byte_special split: if_splits)
  then show ?thesis
    by cases (simp_all add: read_runes_escape read_escape_simple read_runes_u)
qed

text \<open>A sequence that is a rune is decoded from its own bytes.\<close>

lemma cont_byte_Some: "cont_byte lo hi s = Some x \<Longrightarrow> \<exists>c t. s = c # t \<and> (\<forall>t. cont_byte lo hi (c # t) = Some x)"
  by (auto simp: cont_byte_def split: list.splits if_splits)

lemma decode_cases:
  assumes "decode_rune c cs = (r, n)" and "\<not> (r = 0xFFFD \<and> n = 1)"
  shows "(of_char c < (0x80 :: nat) \<and> r = of_char c \<and> n = 1)
    \<or> (0xC2 \<le> (of_char c :: nat) \<and> (\<exists>ds es. cs = ds @ es \<and> length ds = n - 1 \<and> (\<forall>t. decode_rune c (ds @ t) = (r, n))))"
proof -
  let ?b = "of_char c :: nat"
  let ?lo = "if ?b = 0xE0 then 0xA0 else if ?b = 0xF0 then 0x90 else (0x80 :: nat)"
  let ?hi = "if ?b = 0xED then 0x9F else if ?b = 0xF4 then 0x8F else (0xBF :: nat)"
  consider "?b < 0x80" | "0xC2 \<le> ?b" "?b \<le> 0xDF" | "0xE0 \<le> ?b" "?b \<le> 0xEF" | "0xF0 \<le> ?b" "?b \<le> 0xF4"
    using assms by (fastforce simp: decode_rune_def Let_def split: if_splits)
  then show ?thesis
  proof cases
    case 1
    then show ?thesis using assms(1) by (simp add: decode_rune_def Let_def)
  next
    case 2
    have no: "\<not> ?b < 0x80" "?b \<noteq> 0xE0" "?b \<noteq> 0xF0" "?b \<noteq> 0xED" "?b \<noteq> 0xF4" using 2 by simp_all
    obtain x where x: "cont_byte 0x80 0xBF cs = Some x" "(r, n) = (?b mod 32 * 64 + x, 2)"
      using assms 2 no unfolding decode_rune_def Let_def by (auto split: option.splits)
    obtain d t where d: "cs = d # t" "\<And>t. cont_byte 0x80 0xBF (d # t) = Some x" using cont_byte_Some [OF x(1)] by blast
    have "decode_rune c ([d] @ t) = (r, n)" for t using x(2) d(2) [of t] 2 no by (simp add: decode_rune_def Let_def)
    then show ?thesis using 2 d(1) x(2) by (intro disjI2 conjI exI [of _ "[d]"] exI [of _ t]) auto
  next
    case 3
    have no: "\<not> ?b < 0x80" "\<not> ?b \<le> 0xDF" using 3 by simp_all
    obtain x y where x: "cont_byte ?lo ?hi cs = Some x" "cont_byte 0x80 0xBF (drop 1 cs) = Some y"
        "(r, n) = (?b mod 16 * 4096 + x * 64 + y, 3)"
      using assms 3 no unfolding decode_rune_def Let_def by (auto split: option.splits)
    obtain d t where d: "cs = d # t" "\<And>t. cont_byte ?lo ?hi (d # t) = Some x" using cont_byte_Some [OF x(1)] by blast
    obtain e t' where e: "t = e # t'" "\<And>t. cont_byte 0x80 0xBF (e # t) = Some y"
      using cont_byte_Some [of "0x80" "0xBF" t y] x(2) d(1) by auto
    have "decode_rune c ([d, e] @ t) = (r, n)" for t
      using d(2) [of "e # t"] e(2) [of t] 3 no unfolding decode_rune_def Let_def x(3) by simp
    then show ?thesis using 3 d(1) e(1) x(3) by (intro disjI2 conjI exI [of _ "[d, e]"] exI [of _ t']) auto
  next
    case 4
    have no: "\<not> ?b < 0x80" "\<not> ?b \<le> 0xDF" "\<not> ?b \<le> 0xEF" using 4 by simp_all
    obtain x y z where x: "cont_byte ?lo ?hi cs = Some x" "cont_byte 0x80 0xBF (drop 1 cs) = Some y"
        "cont_byte 0x80 0xBF (drop 2 cs) = Some z" "(r, n) = (?b mod 8 * 262144 + x * 4096 + y * 64 + z, 4)"
      using assms 4 no unfolding decode_rune_def Let_def by (auto split: option.splits)
    obtain d t where d: "cs = d # t" "\<And>t. cont_byte ?lo ?hi (d # t) = Some x" using cont_byte_Some [OF x(1)] by blast
    obtain e t' where e: "t = e # t'" "\<And>t. cont_byte 0x80 0xBF (e # t) = Some y"
      using cont_byte_Some [of "0x80" "0xBF" t y] x(2) d(1) by auto
    obtain f t'' where f: "t' = f # t''" "\<And>t. cont_byte 0x80 0xBF (f # t) = Some z"
      using cont_byte_Some [of "0x80" "0xBF" t' z] x(3) d(1) e(1) by auto
    have "decode_rune c ([d, e, f] @ t) = (r, n)" for t
      using d(2) [of "e # f # t"] e(2) [of "f # t"] f(2) [of t] 4 no unfolding decode_rune_def Let_def x(4) by simp
    then show ?thesis using 4 d(1) e(1) f(1) x(4) by (intro disjI2 conjI exI [of _ "[d, e, f]"] exI [of _ t'']) auto
  qed
qed

text \<open>One rune of a string and what follows it.\<close>

lemma read_runes_step:
  assumes "decode_rune c cs = (r, n)"
  shows "read_runes ((if r = 0xFFFD \<and> n = 1 then u_escape 0xFFFD
      else (case json_escapes r of Some e \<Rightarrow> e | None \<Rightarrow> c # take (n - 1) cs)) @ s)
    = map_option (\<lambda>(rs, rest). (r # rs, rest)) (read_runes s)"
proof (cases "r = 0xFFFD \<and> n = 1")
  case True
  then show ?thesis using read_runes_u [of "0xFFFD" s] by (simp add: is_rune_def)
next
  case ok: False
  show ?thesis
  proof (cases "json_escapes r")
    case (Some e)
    show ?thesis unfolding if_not_P [OF ok] Some option.case using Some by (rule json_escapes_read)
  next
    case None
    have d: "decode_rune c (take (n - 1) cs @ s) = (r, n)" and l: "n - 1 \<le> length cs"
      and c: "\<not> of_char c < (0x20 :: nat)" "c \<noteq> dquote" "c \<noteq> backslash"
    proof -
      consider "of_char c < (0x80 :: nat)" "r = of_char c" "n = 1"
        | ds es where "0xC2 \<le> (of_char c :: nat)" "cs = ds @ es" "length ds = n - 1" "\<And>t. decode_rune c (ds @ t) = (r, n)"
        using decode_cases [OF assms ok] by blast
      then have "decode_rune c (take (n - 1) cs @ s) = (r, n) \<and> n - 1 \<le> length cs \<and> \<not> of_char c < (0x20 :: nat)
          \<and> of_char c \<noteq> (0x22 :: nat) \<and> of_char c \<noteq> (0x5C :: nat)"
      proof cases
        case 1
        then show ?thesis using None by (auto simp: json_escapes_def decode_rune_def Let_def split: if_splits)
      qed auto
      then show "decode_rune c (take (n - 1) cs @ s) = (r, n)" "n - 1 \<le> length cs" "\<not> of_char c < (0x20 :: nat)"
        "c \<noteq> dquote" "c \<noteq> backslash" by (auto simp: dquote_def backslash_def)
    qed
    show ?thesis unfolding if_not_P [OF ok] None option.case using c d l by (subst read_runes.simps) simp
  qed
qed

lemma read_runes_written: "read_runes (json_escape s @ dquote # rest) = Some (runes_of s, rest)"
proof (induction s rule: runes_of.induct)
  case 1
  then show ?case by (subst read_runes.simps) (simp add: dquote_def)
next
  case (2 c cs)
  obtain r n where d: "decode_rune c cs = (r, n)" by (cases "decode_rune c cs")
  show ?case using 2 [OF d [symmetric] refl] read_runes_step [OF d] d by simp
qed

lemma read_write_string: "read_string (json_escape s @ dquote # rest) = Some (utf8 (runes_of s), rest)"
  by (simp add: read_string_def read_runes_written)

section \<open>Values are read as they were written\<close>

text \<open>What is left of a value: its strings with U+FFFD for the bytes that are no UTF-8.\<close>

definition valid_text :: "bytes \<Rightarrow> bytes" where "valid_text s = utf8 (runes_of s)"

lemma decode_ascii: "of_char c < (0x80 :: nat) \<Longrightarrow> decode_rune c cs = (of_char c, 1)"
  by (simp add: decode_rune_def Let_def)

lemma valid_text_ascii: "\<forall>c \<in> set s. of_char c < (0x80 :: nat) \<Longrightarrow> valid_text s = s"
proof -
  assume "\<forall>c \<in> set s. of_char c < (0x80 :: nat)"
  then have "runes_of s = map of_char s \<and> utf8 (map of_char s) = s"
    by (induction s) (simp_all add: decode_ascii utf8_def encode_rune_def byte_def)
  then show ?thesis by (simp add: valid_text_def)
qed

fun valid_js :: "js \<Rightarrow> js" where
  "valid_js ONull = ONull"
| "valid_js (OBool b) = OBool b"
| "valid_js (ONum n) = ONum n"
| "valid_js (OStr s) = OStr (valid_text s)"
| "valid_js (OArr vs) = OArr (map valid_js vs)"
| "valid_js (OObj fs) = OObj (map (\<lambda>(k, v). (valid_text k, valid_js v)) fs)"

lemma skip_blanks_Cons: "c \<notin> {CHR '' '', CHR 0x09, CHR 0x0A, CHR 0x0D} \<Longrightarrow> skip_blanks (c # s) = c # s"
  by (simp add: skip_blanks_def)

text \<open>Numbers end where no digit follows.\<close>

definition no_digit :: "bytes \<Rightarrow> bool" where "no_digit s \<longleftrightarrow> (case s of [] \<Rightarrow> True | c # _ \<Rightarrow> digit_val c = None)"

lemma foldl_digits: "foldl (\<lambda>m c. 10 * m + the (digit_val c)) 0 (show_nat n) = n"
proof (induction n rule: show_nat.induct)
  case (1 n)
  then show ?case by (subst show_nat.simps) simp
qed

lemma read_number_nat:
  "no_digit rest \<Longrightarrow> takeWhile (\<lambda>c. digit_val c \<noteq> None) (show_nat n @ rest) = show_nat n
    \<and> dropWhile (\<lambda>c. digit_val c \<noteq> None) (show_nat n @ rest) = rest"
  using show_nat_digits [of _ n] by (cases rest) (auto simp: no_digit_def takeWhile_append dropWhile_append)

lemma read_number_written: "no_digit rest \<Longrightarrow> read_number (show_int i @ rest) = Some (i, rest)"
proof -
  assume rest: "no_digit rest"
  note nat = read_number_nat [OF rest]
  show ?thesis
  proof (cases "i < 0")
    case True
    then show ?thesis using nat [of "nat (- i)"] by (simp add: read_number_def show_int_def has_prefix_def foldl_digits)
  next
    case False
    obtain c cs where c: "show_nat (nat i) = c # cs" by (cases "show_nat (nat i)") simp_all
    then have "digit_val c \<noteq> None" by (rule show_nat_hd)
    then have "c \<noteq> CHR ''-''" by (auto simp: digit_val_def)
    then have "\<not> has_prefix (show_nat (nat i) @ rest) ''-''" by (simp add: c has_prefix_def)
    then show ?thesis using False nat [of "nat i"] by (simp add: read_number_def show_int_def foldl_digits)
  qed
qed

text \<open>Lists and fields in their brackets.\<close>

lemma write_js_first:
  "\<exists>c cs. write_js v = c # cs \<and> c \<notin> {CHR '' '', CHR 0x09, CHR 0x0A, CHR 0x0D} \<and> c \<notin> {CHR '']'', CHR ''}'', CHR '':'', CHR '',''}"
proof (cases v)
  case (ONum i)
  obtain c cs where c: "show_int i = c # cs" by (cases "show_int i") (auto simp: show_int_def split: if_splits)
  have "c = CHR ''-'' \<or> digit_val c \<noteq> None"
    using c show_nat_hd [of "nat i" c cs] by (auto simp: show_int_def split: if_splits)
  then have "c \<notin> {CHR '' '', CHR 0x09, CHR 0x0A, CHR 0x0D}" "c \<notin> {CHR '']'', CHR ''}'', CHR '':'', CHR '',''}"
    by (auto simp: digit_val_def)
  then show ?thesis unfolding ONum write_js.simps c by blast
qed (auto simp: write_string_def dquote_def)

lemma no_digit_Cons: "no_digit (c # s) = (digit_val c = None)"
  by (simp add: no_digit_def)

lemma join_with_Cons: "join_with sep (x # xs) = (if xs = [] then x else x @ sep @ join_with sep xs)"
  by (cases xs) simp_all

definition write_field :: "bytes \<times> js \<Rightarrow> bytes" where
  "write_field = (\<lambda>(k, v). write_string k @ '':'' @ write_js v)"

lemma read_elements_written:
  assumes "vs \<noteq> []" and "length (join_with '','' (map write_js vs)) < n"
    and "\<And>v n rest. v \<in> set vs \<Longrightarrow> length (write_js v) \<le> n \<Longrightarrow> no_digit rest \<Longrightarrow> read_js n (write_js v @ rest) = Some (valid_js v, rest)"
  shows "read_elements n (join_with '','' (map write_js vs) @ '']'' @ rest) = Some (map valid_js vs, rest)"
  using assms
proof (induction vs arbitrary: n)
  case (Cons v vs)
  obtain m where n: "n = Suc m" using Cons.prems(2) by (cases n) simp_all
  have nd: "no_digit ('']'' @ rest)" "no_digit ('','' @ s)" for s by (simp_all add: no_digit_Cons digit_val_def)
  obtain c cs where v: "write_js v = c # cs" using write_js_first by blast
  show ?case
  proof (cases "vs = []")
    case True
    have "read_js m (write_js v @ '']'' @ rest) = Some (valid_js v, '']'' @ rest)"
      using Cons.prems(2) n True by (intro Cons.prems(3) nd) simp_all
    then show ?thesis using True by (simp add: n skip_blanks_Cons)
  next
    case False
    let ?rest = "join_with '','' (map write_js vs) @ '']'' @ rest"
    have "read_js m (write_js v @ '','' @ ?rest) = Some (valid_js v, '','' @ ?rest)"
      using Cons.prems(2) n False by (intro Cons.prems(3) nd) (simp_all add: join_with_Cons)
    moreover have "read_elements m ?rest = Some (map valid_js vs, rest)"
      using Cons.prems(2,3) n False v by (intro Cons.IH) (simp_all add: join_with_Cons)
    ultimately show ?thesis using False by (simp add: n skip_blanks_Cons join_with_Cons)
  qed
qed simp

lemma read_fields_written:
  assumes "fs \<noteq> []" and "length (join_with '','' (map write_field fs)) < n"
    and "\<And>k v n rest. (k, v) \<in> set fs \<Longrightarrow> length (write_js v) \<le> n \<Longrightarrow> no_digit rest \<Longrightarrow> read_js n (write_js v @ rest) = Some (valid_js v, rest)"
  shows "read_fields n (join_with '','' (map write_field fs) @ ''}'' @ rest) = Some (map (\<lambda>(k, v). (valid_text k, valid_js v)) fs, rest)"
  using assms
proof (induction fs arbitrary: n)
  case (Cons f fs)
  obtain k v where f: "f = (k, v)" by (cases f)
  obtain m where n: "n = Suc m" using Cons.prems(2) by (cases n) simp_all
  have nd: "no_digit (''}'' @ rest)" "no_digit ('','' @ s)" for s by (simp_all add: no_digit_Cons digit_val_def)
  have w: "write_field f @ s = dquote # json_escape k @ dquote # CHR '':'' # write_js v @ s" for s
    by (simp add: f write_field_def write_string_def)
  have q: "skip_blanks (dquote # s) = dquote # s" "skip_blanks (CHR '':'' # s) = CHR '':'' # s"
    "skip_blanks (CHR ''}'' # s) = CHR ''}'' # s" "skip_blanks (CHR '','' # s) = CHR '','' # s" for s
    by (simp_all add: skip_blanks_def dquote_def)
  show ?case
  proof (cases "fs = []")
    case True
    have "read_js m (write_js v @ ''}'' @ rest) = Some (valid_js v, ''}'' @ rest)"
      using Cons.prems(2) n True by (intro Cons.prems(3) [of k v] nd) (simp_all add: f write_field_def)
    then show ?thesis using True w [of "''}'' @ rest"]
      by (simp add: n q read_write_string has_prefix_def f valid_text_def)
  next
    case False
    let ?rest = "join_with '','' (map write_field fs) @ ''}'' @ rest"
    have "read_js m (write_js v @ '','' @ ?rest) = Some (valid_js v, '','' @ ?rest)"
      using Cons.prems(2) n False by (intro Cons.prems(3) [of k v] nd) (simp_all add: join_with_Cons f write_field_def)
    moreover have "read_fields m ?rest = Some (map (\<lambda>(k, v). (valid_text k, valid_js v)) fs, rest)"
    proof (rule Cons.IH [OF False])
      show "length (join_with '','' (map write_field fs)) < m" using Cons.prems(2) n False by (simp add: join_with_Cons)
    qed (rule Cons.prems(3) [OF list.set_intros(2)])
    ultimately show ?thesis using False w [of "'','' @ ?rest"]
      by (simp add: n q read_write_string has_prefix_def f join_with_Cons valid_text_def)
  qed
qed simp

lemma join_first:
  assumes "xs \<noteq> []" and "\<And>x. x \<in> set xs \<Longrightarrow> \<exists>c cs. x = c # cs \<and> P c"
  shows "\<exists>c cs. join_with sep xs = c # cs \<and> P c"
proof -
  obtain x ys where xs: "xs = x # ys" using assms(1) by (cases xs) simp_all
  then obtain c cs where "x = c # cs" "P c" using assms(2) [of x] by auto
  then show ?thesis by (simp add: xs join_with_Cons)
qed

lemma read_js_written:
  "length (write_js v) \<le> n \<Longrightarrow> no_digit rest \<Longrightarrow> read_js n (write_js v @ rest) = Some (valid_js v, rest)"
proof (induction v arbitrary: n rest)
  case ONull
  then show ?case by (cases n) (simp_all add: skip_blanks_Cons read_word_def has_prefix_def dquote_def)
next
  case (OBool b)
  then show ?case by (cases b; cases n) (simp_all add: skip_blanks_Cons read_word_def has_prefix_def dquote_def)
next
  case (ONum i)
  obtain c cs where c: "show_int i = c # cs" by (cases "show_int i") (auto simp: show_int_def split: if_splits)
  have "c = CHR ''-'' \<or> digit_val c \<noteq> None"
    using c show_nat_hd [of "nat i" c cs] by (auto simp: show_int_def split: if_splits)
  then have no: "c \<notin> {CHR '' '', CHR 0x09, CHR 0x0A, CHR 0x0D}" "c \<noteq> dquote" "c \<noteq> CHR ''[''" "c \<noteq> CHR ''{''"
    "c \<noteq> CHR ''t''" "c \<noteq> CHR ''f''" "c \<noteq> CHR ''n''"
    by (auto simp: digit_val_def dquote_def)
  obtain m where "n = Suc m" using ONum.prems(1) c by (cases n) simp_all
  then show ?case using no read_number_written [OF ONum.prems(2), of i] by (simp add: c skip_blanks_Cons)
next
  case (OStr s)
  then obtain m where "n = Suc m" by (cases n) (simp_all add: write_string_def)
  then show ?case by (simp add: write_string_def skip_blanks_def dquote_def) (simp add: read_write_string valid_text_def flip: dquote_def)
next
  case (OArr vs)
  then obtain m where n: "n = Suc m" by (cases n) simp_all
  show ?case
  proof (cases "vs = []")
    case True
    then show ?thesis by (simp add: n skip_blanks_Cons has_prefix_def dquote_def)
  next
    case False
    have "\<exists>c cs. join_with '','' (map write_js vs) = c # cs \<and> c \<notin> {CHR '' '', CHR 0x09, CHR 0x0A, CHR 0x0D} \<and> c \<noteq> CHR '']''"
    proof (rule join_first)
      fix x assume "x \<in> set (map write_js vs)"
      then obtain v where "x = write_js v" by auto
      then show "\<exists>c cs. x = c # cs \<and> c \<notin> {CHR '' '', CHR 0x09, CHR 0x0A, CHR 0x0D} \<and> c \<noteq> CHR '']''"
        using write_js_first [of v] by blast
    qed (simp add: False)
    then have "\<not> has_prefix (skip_blanks (join_with '','' (map write_js vs) @ '']'' @ rest)) '']''"
      by (auto simp: skip_blanks_Cons has_prefix_def)
    moreover have "read_elements m (join_with '','' (map write_js vs) @ '']'' @ rest) = Some (map valid_js vs, rest)"
      using False OArr n by (intro read_elements_written) simp_all
    ultimately show ?thesis by (simp add: n skip_blanks_Cons dquote_def)
  qed
next
  case (OObj fs)
  then obtain m where n: "n = Suc m" by (cases n) simp_all
  have w: "map (\<lambda>(k, v). write_string k @ '':'' @ write_js v) fs = map write_field fs" by (simp add: write_field_def)
  show ?case
  proof (cases "fs = []")
    case True
    then show ?thesis by (simp add: n skip_blanks_Cons has_prefix_def dquote_def)
  next
    case False
    have "\<exists>c cs. join_with '','' (map write_field fs) = c # cs \<and> c = dquote"
      using False by (intro join_first) (auto simp: write_field_def write_string_def)
    then have "\<not> has_prefix (skip_blanks (join_with '','' (map write_field fs) @ ''}'' @ rest)) ''}''"
      by (auto simp: skip_blanks_def has_prefix_def dquote_def)
    moreover have "read_fields m (join_with '','' (map write_field fs) @ ''}'' @ rest) = Some (map (\<lambda>(k, v). (valid_text k, valid_js v)) fs, rest)"
    proof (rule read_fields_written [OF False])
      show "length (join_with '','' (map write_field fs)) < m" using OObj.prems(1) n unfolding write_js.simps w by simp
      fix k v n' rest' assume "(k, v) \<in> set fs" "length (write_js v) \<le> n'" "no_digit rest'"
      then show "read_js n' (write_js v @ rest') = Some (valid_js v, rest')" by (intro OObj.IH) auto
    qed
    ultimately show ?thesis unfolding write_js.simps w by (simp add: n skip_blanks_Cons dquote_def)
  qed
qed

lemma read_json_written: "read_json (write_js v) = Some (valid_js v)"
  using read_js_written [of v "Suc (length (write_js v))" "[]"] by (simp add: read_json_def no_digit_def skip_blanks_def)

end
