(* ===== verification/Wire.thy ===== *)
theory Wire imports GoJson Telegram_Client Message_Texts begin

text \<open>
  What \<open>internal/telegram/client.go\<close> puts on the wire: the address, deadline and JSON body of every
  request, as the tags of \<open>types.go\<close> name its fields. The body of a message gives the message
  back, and the token in the address does not get into the text of an error.
\<close>

section \<open>Bodies\<close>

text \<open>A field with \<open>omitempty\<close> is written when it is not the zero value.\<close>

definition unless_empty :: "bytes \<Rightarrow> bool \<Rightarrow> js \<Rightarrow> (bytes \<times> js) list" where
  "unless_empty name zero v = (if zero then [] else [(name, v)])"

definition optional :: "bytes \<Rightarrow> ('a \<Rightarrow> js) \<Rightarrow> 'a option \<Rightarrow> (bytes \<times> js) list" where
  "optional name f v = (case v of None \<Rightarrow> [] | Some a \<Rightarrow> [(name, f a)])"

definition button_js :: "texts \<Rightarrow> button \<Rightarrow> js" where
  "button_js x b = OObj ((''text'', OStr (msg_text x (bt_text b)))
     # unless_empty ''callback_data'' (bt_data b = []) (OStr (bt_data b)))"

definition keyboard_js :: "texts \<Rightarrow> keyboard \<Rightarrow> js" where
  "keyboard_js x kb = OObj [(''inline_keyboard'', OArr (map (\<lambda>row. OArr (map (button_js x) row)) kb))]"

definition send_js :: "texts \<Rightarrow> send_message_request \<Rightarrow> bytes \<Rightarrow> js" where
  "send_js x r t = OObj ([(''chat_id'', ONum (sm_ChatID r))]
     @ unless_empty ''message_thread_id'' (sm_MessageThreadID r = 0) (ONum (sm_MessageThreadID r))
     @ [(''text'', OStr t)]
     @ unless_empty ''parse_mode'' (sm_ParseMode r = []) (OStr (sm_ParseMode r))
     @ optional ''reply_markup'' (keyboard_js x) (sm_ReplyMarkup r)
     @ unless_empty ''reply_to_message_id'' (sm_ReplyToMessageID r = 0) (ONum (sm_ReplyToMessageID r))
     @ unless_empty ''disable_notification'' (\<not> sm_DisableNotification r) (OBool (sm_DisableNotification r))
     @ optional ''disable_web_page_preview'' OBool (sm_DisableWebPagePreview r))"

definition edit_js :: "texts \<Rightarrow> edit_message_request \<Rightarrow> bytes \<Rightarrow> js" where
  "edit_js x r t = OObj ([(''chat_id'', ONum (em_ChatID r)), (''message_id'', ONum (em_MessageID r)), (''text'', OStr t)]
     @ unless_empty ''parse_mode'' (em_ParseMode r = []) (OStr (em_ParseMode r))
     @ optional ''reply_markup'' (keyboard_js x) (em_ReplyMarkup r))"

definition edit_markup_js :: "texts \<Rightarrow> int \<Rightarrow> int \<Rightarrow> keyboard option \<Rightarrow> js" where
  "edit_markup_js x chat mid kb = OObj ([(''chat_id'', ONum chat), (''message_id'', ONum mid)]
     @ optional ''reply_markup'' (keyboard_js x) kb)"

definition answer_js :: "bytes \<Rightarrow> bytes \<Rightarrow> js" where
  "answer_js qid t = OObj ((''callback_query_id'', OStr qid) # unless_empty ''text'' (t = []) (OStr t))"

definition create_topic_js :: "int \<Rightarrow> bytes \<Rightarrow> js" where
  "create_topic_js chat name = OObj [(''chat_id'', ONum chat), (''name'', OStr name)]"

definition edit_topic_js :: "int \<Rightarrow> int \<Rightarrow> bytes \<Rightarrow> js" where
  "edit_topic_js chat thread name =
     OObj [(''chat_id'', ONum chat), (''message_thread_id'', ONum thread), (''name'', OStr name)]"

text \<open>The bodies that are maps; \<open>json.Marshal\<close> writes their keys in order.\<close>

definition updates_js :: "int \<Rightarrow> int \<Rightarrow> js" where
  "updates_js offset timeout = OObj
     [(''allowed_updates'', OArr (map OStr [''message'', ''edited_message'', ''callback_query'', ''my_chat_member''])),
      (''offset'', ONum offset), (''timeout'', ONum timeout)]"

definition delete_js :: "int \<Rightarrow> int \<Rightarrow> js" where
  "delete_js chat mid = OObj [(''chat_id'', ONum chat), (''message_id'', ONum mid)]"

definition pin_js :: "int \<Rightarrow> int \<Rightarrow> js" where
  "pin_js chat mid = OObj [(''chat_id'', ONum chat), (''disable_notification'', OBool True), (''message_id'', ONum mid)]"

definition chat_js :: "int \<Rightarrow> js" where "chat_js chat = OObj [(''chat_id'', ONum chat)]"

definition member_js :: "int \<Rightarrow> int \<Rightarrow> js" where
  "member_js chat user = OObj [(''chat_id'', ONum chat), (''user_id'', ONum user)]"

text \<open>\<open>None\<close> only for a view that is no text of the program.\<close>

definition request_js :: "texts \<Rightarrow> tg_request \<Rightarrow> js option" where
  "request_js x req = (case req of
      GetUpdates offset timeout \<Rightarrow> Some (updates_js offset timeout)
    | AnswerCallbackQuery qid t \<Rightarrow> Some (answer_js qid t)
    | SendMessage r \<Rightarrow> map_option (send_js x r) (view_text x (sm_Text r))
    | EditMessageText r \<Rightarrow> map_option (edit_js x r) (view_text x (em_Text r))
    | EditMessageReplyMarkup chat mid kb \<Rightarrow> Some (edit_markup_js x chat mid kb)
    | DeleteMessage chat mid \<Rightarrow> Some (delete_js chat mid)
    | PinChatMessage chat mid \<Rightarrow> Some (pin_js chat mid)
    | GetMe \<Rightarrow> Some (OObj [])
    | GetChat chat \<Rightarrow> Some (chat_js chat)
    | GetChatMember chat user \<Rightarrow> Some (member_js chat user)
    | CreateForumTopic chat name \<Rightarrow> Some (create_topic_js chat name)
    | EditForumTopic chat thread name \<Rightarrow> Some (edit_topic_js chat thread name))"

definition request_body :: "texts \<Rightarrow> tg_request \<Rightarrow> bytes option" where
  "request_body x req = map_option write_js (request_js x req)"

section \<open>The exchange\<close>

definition apiURL :: "bytes \<Rightarrow> bytes \<Rightarrow> bytes" where
  "apiURL token m = ''https://api.telegram.org/bot'' @ token @ ''/'' @ m"

definition requestTimeout :: "bytes \<Rightarrow> int" where
  "requestTimeout m = (if m = ''getUpdates'' then 70 else if m = ''answerCallbackQuery'' then 8
     else if m = ''sendMessage'' then 60 else if m \<in> {''editMessageText'', ''editMessageReplyMarkup''} then 20
     else if m = ''deleteMessage'' then 15 else 30) * ns_per_sec"

record http_request =
  hr_Method :: bytes
  hr_URL :: bytes
  hr_ContentType :: bytes
  hr_Close :: bool
  hr_Body :: bytes
  hr_Deadline :: int

definition http_request_of :: "bytes \<Rightarrow> int \<Rightarrow> tg_request \<Rightarrow> bytes \<Rightarrow> http_request" where
  "http_request_of token now req encoded = \<lparr>hr_Method = ''POST'', hr_URL = apiURL token (method_of req),
     hr_ContentType = ''application/json'', hr_Close = (method_of req \<noteq> ''getUpdates''), hr_Body = encoded,
     hr_Deadline = now + requestTimeout (method_of req)\<rparr>"

text \<open>A long poll that Telegram may hold for the configured time ends before the deadline of its request,
  and every deadline before the timeout of the HTTP client.\<close>

definition client_timeout :: int where "client_timeout = 80 * ns_per_sec"

lemma deadlines: "0 < requestTimeout m" "requestTimeout m < client_timeout"
  by (simp_all add: requestTimeout_def client_timeout_def ns_per_sec_def)

section \<open>Reading a body\<close>

definition field :: "js \<Rightarrow> bytes \<Rightarrow> js option" where
  "field v name = (case v of OObj fs \<Rightarrow> map_of fs name | _ \<Rightarrow> None)"

definition str_field :: "js \<Rightarrow> bytes \<Rightarrow> bytes" where
  "str_field v name = (case field v name of Some (OStr s) \<Rightarrow> s | _ \<Rightarrow> [])"

definition int_field :: "js \<Rightarrow> bytes \<Rightarrow> int" where
  "int_field v name = (case field v name of Some (ONum n) \<Rightarrow> n | _ \<Rightarrow> 0)"

definition bool_field :: "js \<Rightarrow> bytes \<Rightarrow> bool" where
  "bool_field v name = (case field v name of Some (OBool b) \<Rightarrow> b | _ \<Rightarrow> False)"

definition elements :: "js option \<Rightarrow> js list" where
  "elements v = (case v of Some (OArr vs) \<Rightarrow> vs | _ \<Rightarrow> [])"

text \<open>The text and the callback data of every button.\<close>

definition read_keyboard :: "js \<Rightarrow> (bytes \<times> bytes) list list" where
  "read_keyboard v = map (\<lambda>row. map (\<lambda>b. (str_field b ''text'', str_field b ''callback_data'')) (elements (Some row)))
     (elements (field v ''inline_keyboard''))"

text \<open>The names of the fields are ASCII.\<close>

definition field_names :: "bytes list" where
  "field_names = [''chat_id'', ''message_thread_id'', ''text'', ''parse_mode'', ''reply_markup'', ''reply_to_message_id'',
     ''disable_notification'', ''disable_web_page_preview'', ''inline_keyboard'', ''callback_data'', ''message_id'',
     ''callback_query_id'', ''name'', ''allowed_updates'', ''offset'', ''timeout'', ''user_id'']"

lemma valid_name: "name \<in> set field_names \<Longrightarrow> valid_text name = name"
  by (rule valid_text_ascii) (auto simp: field_names_def)

lemma read_button:
  "(str_field (valid_js (button_js x b)) ''text'', str_field (valid_js (button_js x b)) ''callback_data'')
    = (valid_text (msg_text x (bt_text b)), valid_text (bt_data b))"
  by (simp add: button_js_def str_field_def field_def unless_empty_def valid_name field_names_def)
    (simp add: valid_text_def utf8_def)

lemma read_keyboard_written:
  "read_keyboard (valid_js (keyboard_js x kb))
    = map (map (\<lambda>b. (valid_text (msg_text x (bt_text b)), valid_text (bt_data b)))) kb"
  using read_button by (simp add: read_keyboard_def keyboard_js_def elements_def field_def valid_name field_names_def comp_def)

text \<open>A field is found under its name, and is the zero value when it was omitted.\<close>

lemma valid_fields:
  "map (\<lambda>(k, v). (valid_text k, valid_js v)) (unless_empty name zero v) = unless_empty (valid_text name) zero (valid_js v)"
  "map (\<lambda>(k, v). (valid_text k, valid_js v)) (optional name f o') = optional (valid_text name) (\<lambda>a. valid_js (f a)) o'"
  by (simp_all add: unless_empty_def optional_def split: option.split)

lemma map_of_fields:
  "map_of (unless_empty name zero v @ fs) k = (if k = name \<and> \<not> zero then Some v else map_of fs k)"
  "map_of (optional name f o' @ fs) k = (case o' of Some a \<Rightarrow> if k = name then Some (f a) else map_of fs k | None \<Rightarrow> map_of fs k)"
  "map_of (unless_empty name zero v) k = (if k = name \<and> \<not> zero then Some v else None)"
  "map_of (optional name f o') k = (case o' of Some a \<Rightarrow> if k = name then Some (f a) else None | None \<Rightarrow> None)"
  by (simp_all add: unless_empty_def optional_def split: option.split)

lemma read_request_body:
  "request_js x req = Some v \<Longrightarrow> \<exists>body. request_body x req = Some body \<and> read_json body = Some (valid_js v)"
  by (simp add: request_body_def read_json_written)

lemma valid_Nil [simp]: "valid_text [] = []" by (simp add: valid_text_def utf8_def)

lemma send_fields:
  assumes v_def: "v = valid_js (send_js x r t)"
  shows "int_field v ''chat_id'' = sm_ChatID r" "int_field v ''message_thread_id'' = sm_MessageThreadID r"
    "str_field v ''text'' = valid_text t" "str_field v ''parse_mode'' = valid_text (sm_ParseMode r)"
    "field v ''reply_markup'' = map_option (\<lambda>kb. valid_js (keyboard_js x kb)) (sm_ReplyMarkup r)"
    "int_field v ''reply_to_message_id'' = sm_ReplyToMessageID r"
    "bool_field v ''disable_notification'' = sm_DisableNotification r"
    "field v ''disable_web_page_preview'' = map_option OBool (sm_DisableWebPagePreview r)"
proof -
  have v: "v = OObj ([(''chat_id'', ONum (sm_ChatID r))]
     @ unless_empty ''message_thread_id'' (sm_MessageThreadID r = 0) (ONum (sm_MessageThreadID r))
     @ [(''text'', OStr (valid_text t))]
     @ unless_empty ''parse_mode'' (sm_ParseMode r = []) (OStr (valid_text (sm_ParseMode r)))
     @ optional ''reply_markup'' (\<lambda>kb. valid_js (keyboard_js x kb)) (sm_ReplyMarkup r)
     @ unless_empty ''reply_to_message_id'' (sm_ReplyToMessageID r = 0) (ONum (sm_ReplyToMessageID r))
     @ unless_empty ''disable_notification'' (\<not> sm_DisableNotification r) (OBool (sm_DisableNotification r))
     @ optional ''disable_web_page_preview'' OBool (sm_DisableWebPagePreview r))"
    unfolding v_def send_js_def by (simp add: valid_fields valid_name field_names_def)
  show "int_field v ''chat_id'' = sm_ChatID r" "int_field v ''message_thread_id'' = sm_MessageThreadID r"
    "str_field v ''text'' = valid_text t" "str_field v ''parse_mode'' = valid_text (sm_ParseMode r)"
    "field v ''reply_markup'' = map_option (\<lambda>kb. valid_js (keyboard_js x kb)) (sm_ReplyMarkup r)"
    "int_field v ''reply_to_message_id'' = sm_ReplyToMessageID r"
    "bool_field v ''disable_notification'' = sm_DisableNotification r"
    "field v ''disable_web_page_preview'' = map_option OBool (sm_DisableWebPagePreview r)"
    unfolding v int_field_def str_field_def bool_field_def field_def
    by (simp_all add: map_of_fields del: map_of_append split: option.split)
qed

text \<open>C4. The body of a sendMessage request, read back as JSON, has the chat, thread, text, parse mode,
  buttons with their callback data, reply target and flags of the request: omitted fields stand for
  zero values, and every escape of the text is undone.\<close>

theorem send_body_carries_the_request:
  assumes "view_text x (sm_Text r) = Some t"
  shows "\<exists>body v. request_body x (SendMessage r) = Some body \<and> read_json body = Some v
    \<and> int_field v ''chat_id'' = sm_ChatID r \<and> int_field v ''message_thread_id'' = sm_MessageThreadID r
    \<and> str_field v ''text'' = valid_text t \<and> str_field v ''parse_mode'' = valid_text (sm_ParseMode r)
    \<and> map_option read_keyboard (field v ''reply_markup'')
        = map_option (map (map (\<lambda>b. (valid_text (msg_text x (bt_text b)), valid_text (bt_data b))))) (sm_ReplyMarkup r)
    \<and> int_field v ''reply_to_message_id'' = sm_ReplyToMessageID r
    \<and> bool_field v ''disable_notification'' = sm_DisableNotification r
    \<and> field v ''disable_web_page_preview'' = map_option OBool (sm_DisableWebPagePreview r)"
proof -
  have "request_js x (SendMessage r) = Some (send_js x r t)" using assms by (simp add: request_js_def)
  then obtain body where "request_body x (SendMessage r) = Some body" "read_json body = Some (valid_js (send_js x r t))"
    using read_request_body by blast
  then show ?thesis
    by (intro exI [of _ body] exI [of _ "valid_js (send_js x r t)"])
      (simp add: send_fields [OF refl] option.map_comp comp_def read_keyboard_written)
qed

text \<open>A prepared report with a quotation mark and a line break, sent to a thread.\<close>

definition texts0 :: texts where "texts0 = \<lparr>tx_text = (\<lambda>k. k), tx_lower = (\<lambda>s. s), tx_sprint = (\<lambda>_. [])\<rparr>"

definition report_send :: send_message_request where
  "report_send = send_req (-100) 7 (View ''PreparedReport'' [VStr (''Say '' @ [dquote, CHR 0x0A])]) None"

theorem send_body_carries_the_request_witness:
  "\<exists>body v. request_body texts0 (SendMessage report_send) = Some body \<and> read_json body = Some v
    \<and> int_field v ''chat_id'' = -100 \<and> int_field v ''message_thread_id'' = 7
    \<and> str_field v ''text'' = ''Say '' @ [dquote, CHR 0x0A]"
proof -
  have "view_text texts0 (sm_Text report_send) = Some (''Say '' @ [dquote, CHR 0x0A])"
    by (simp add: report_send_def send_req_def view_text_def Let_def has_prefix_def first_some_def List.map_filter_simps
        daily_view_def routine_view_def goals_view_def)
  from send_body_carries_the_request [OF this] obtain body v where
    b: "request_body texts0 (SendMessage report_send) = Some body" "read_json body = Some v"
    and v: "int_field v ''chat_id'' = sm_ChatID report_send" "int_field v ''message_thread_id'' = sm_MessageThreadID report_send"
      "str_field v ''text'' = valid_text (''Say '' @ [dquote, CHR 0x0A])" by blast
  have "valid_text (''Say '' @ [dquote, CHR 0x0A]) = ''Say '' @ [dquote, CHR 0x0A]"
    by (rule valid_text_ascii) (simp add: dquote_def)
  then show ?thesis using b v by (simp add: report_send_def send_req_def)
qed

section \<open>The token stays out of the errors\<close>

text \<open>A token of the Bot API is digits, a colon and a key; no blank or angle bracket is in it.\<close>

definition token_shape :: "bytes \<Rightarrow> bool" where
  "token_shape token \<longleftrightarrow> CHR '':'' \<in> set token \<and> list_ex (\<lambda>c. digit_val c \<noteq> None) token
     \<and> list_all (\<lambda>c. c \<notin> {CHR '' '', CHR ''<'', CHR ''>''}) token"

lemma token_parts:
  assumes "token_shape token"
  shows "token \<noteq> []" "CHR ''<'' \<notin> set token" "CHR ''>'' \<notin> set token" "CHR '' '' \<notin> set token"
    "CHR '':'' \<in> set token" "\<exists>c \<in> set token. digit_val c \<noteq> None"
proof -
  have *: "CHR '':'' \<in> set token" "\<exists>c \<in> set token. digit_val c \<noteq> None"
      "\<forall>c \<in> set token. c \<notin> {CHR '' '', CHR ''<'', CHR ''>''}"
    using assms unfolding token_shape_def list_all_iff list_ex_iff by blast+
  show "CHR '':'' \<in> set token" "\<exists>c \<in> set token. digit_val c \<noteq> None" by (rule *)+
  show "CHR ''<'' \<notin> set token" "CHR ''>'' \<notin> set token" "CHR '' '' \<notin> set token" using *(3) by blast+
  show "token \<noteq> []" using *(1) by (cases token) simp_all
qed

lemma contains_str_set: "contains_str s p \<Longrightarrow> set p \<subseteq> set s"
proof (induction s)
  case (Cons c s)
  have "set p \<subseteq> set (c # s)" if "has_prefix (c # s) p"
    using that set_take_subset [of "length p" "c # s"] by (simp add: has_prefix_def del: take_Suc_Cons)
  with Cons show ?case by auto
qed simp

text \<open>A string without the separator is found on one side of it.\<close>

lemma has_prefix_apart: "c \<notin> set p \<Longrightarrow> has_prefix (a @ c # b) p \<longleftrightarrow> has_prefix a p"
proof (induction p arbitrary: a)
  case (Cons d p)
  then show ?case by (cases a) (auto simp: has_prefix_def)
qed (simp add: has_prefix_def)

lemma contains_str_apart:
  "c \<notin> set p \<Longrightarrow> p \<noteq> [] \<Longrightarrow> contains_str (a @ c # b) p \<longleftrightarrow> contains_str a p \<or> contains_str b p"
proof (induction a)
  case Nil
  then have "\<not> has_prefix (c # b) p" by (cases p) (auto simp: has_prefix_def)
  with Nil show ?case by simp
next
  case (Cons d a)
  have "has_prefix (d # a @ c # b) p = has_prefix (d # a) p" using has_prefix_apart [OF Cons(2), of "d # a" b] by simp
  with Cons show ?case by auto
qed

lemma replaced_prefix:
  "has_prefix (replace_fuel n token (CHR ''<'' # new) s) p \<Longrightarrow> CHR ''<'' \<notin> set p \<Longrightarrow> has_prefix s p"
proof (induction p arbitrary: n s)
  case (Cons d p)
  show ?case
  proof (cases n)
    case (Suc m)
    with Cons.prems obtain c cs where s: "s = c # cs" by (cases s) (auto simp: has_prefix_def)
    have "\<not> has_prefix s token" using Cons.prems Suc s by (auto simp: has_prefix_def)
    with Cons.prems Suc s have "c = d" "has_prefix (replace_fuel m token (CHR ''<'' # new) cs) p"
      by (auto simp: has_prefix_def)
    with Cons.IH [OF this(2)] Cons.prems(2) s show ?thesis by (simp add: has_prefix_def)
  qed (use Cons.prems in simp)
qed (simp add: has_prefix_def)

lemma replaced_nowhere:
  assumes "token_shape token" and "length s \<le> n"
  shows "\<not> contains_str (replace_fuel n token ''<redacted-token>'' s) token"
  using assms(2)
proof (induction n arbitrary: s)
  case 0
  with token_parts(1) [OF assms(1)] show ?case by simp
next
  case (Suc n)
  note t = token_parts [OF assms(1)]
  show ?case
  proof (cases s)
    case Nil
    with t show ?thesis by simp
  next
    case (Cons c cs)
    show ?thesis
    proof (cases "has_prefix (c # cs) token")
      case True
      have "\<not> contains_str ''redacted-token'' token"
        using contains_str_set [of "''redacted-token''" token] t(5) by auto
      moreover have "length (drop (length token) s) \<le> n" using Suc.prems t(1) Cons by (cases token) auto
      moreover have "contains_str (''<redacted-token>'' @ r) token
          \<longleftrightarrow> contains_str ''redacted-token'' token \<or> contains_str r token" for r
        using contains_str_apart [OF t(2,1), of "[]" "''redacted-token>'' @ r"]
          contains_str_apart [OF t(3,1), of "''redacted-token''" r] t(1) by (simp only: append.simps contains_str.simps simp_thms)
      ultimately show ?thesis
        using Suc.IH [of "drop (length token) s"] unfolding Cons replace_fuel.simps if_P [OF True] by blast
    next
      case False
      have "\<not> has_prefix (c # replace_fuel n token ''<redacted-token>'' cs) token"
        using replaced_prefix [of "Suc n" token "''redacted-token>''" "c # cs" token] t(2) False by auto
      with False Cons Suc show ?thesis by simp
    qed
  qed
qed

lemma redacted: "token_shape token \<Longrightarrow> \<not> contains_str (te_Description (redactError token e)) token"
  using replaced_nowhere [of token "te_Description e" "length (te_Description e)"]
  by (simp add: redactError_def replace_all_def token_parts)

text \<open>None of the words before the description of an error is the token.\<close>

lemma no_colon: "token_shape token \<Longrightarrow> CHR '':'' \<notin> set s \<Longrightarrow> \<not> contains_str s token"
  using contains_str_set token_parts(5) by blast

lemma no_colon_show_int: "CHR '':'' \<notin> set (show_int n)"
proof -
  have "CHR '':'' \<notin> set (show_nat k)" for k using show_nat_digits [of "CHR '':''" k] by (auto simp: digit_val_def)
  then show ?thesis by (simp add: show_int_def)
qed

lemma no_colon_method: "CHR '':'' \<notin> set (method_of req)"
  by (cases req) simp_all

lemma blank_apart: "token_shape token \<Longrightarrow> contains_str (a @ CHR '' '' # b) token \<longleftrightarrow> contains_str a token \<or> contains_str b token"
  by (rule contains_str_apart) (auto dest: token_parts)

lemma error_text_token:
  assumes "token_shape token" and "te_Method e = method_of req"
  shows "contains_str (tg_error_text e) token \<longleftrightarrow> contains_str (te_Description e) token"
proof -
  have "\<not> contains_str ''failed:'' token"
  proof
    assume "contains_str ''failed:'' token"
    then have "set token \<subseteq> set ''failed:''" by (rule contains_str_set)
    moreover have "\<forall>c \<in> set ''failed:''. digit_val c = None" by (simp add: digit_val_def)
    ultimately show False using token_parts(6) [OF assms(1)] by (meson subsetD)
  qed
  moreover have "\<not> contains_str ''telegram'' token" "\<not> contains_str (method_of req) token" "\<not> contains_str (show_int n) token" for n
    using no_colon [OF assms(1)] no_colon_method no_colon_show_int by (simp_all del: contains_str.simps)
  moreover have "tg_error_text e = ''telegram'' @ CHR '' '' # method_of req @ CHR '' '' # ''failed:'' @ CHR '' '' #
      (if 0 < te_StatusCode e then show_int (te_StatusCode e) @ CHR '' '' # te_Description e else te_Description e)"
    using assms(2) by (simp add: tg_error_text_def)
  ultimately show ?thesis by (simp only: blank_apart [OF assms(1)] simp_thms split: if_splits)
qed

lemma http_error_token:
  assumes "token_shape token" and "http_result token req out = Inl e"
    and "\<And>code body seconds ok d res. out = HttpResponse code body seconds (Decoded ok d res) \<Longrightarrow> \<not> contains_str d token"
  shows "\<not> contains_str (tg_error_text e) token"
proof -
  have m: "te_Method (redactError token (tg_err m c d a r)) = m" for m c d a r by (simp add: redactError_def tg_err_def)
  have "te_Method e = method_of req \<and> \<not> contains_str (te_Description e) token"
  proof (cases out)
    case (HttpFailed s wrote)
    with assms(2) redacted [OF assms(1)] show ?thesis by (auto simp: http_result_def Let_def m)
  next
    case (HttpResponse code body seconds dec)
    show ?thesis
    proof (cases "300 \<le> code")
      case True
      with HttpResponse assms(2) redacted [OF assms(1)] show ?thesis by (auto simp: http_result_def Let_def m)
    next
      case False
      show ?thesis
      proof (cases dec)
        case (Undecodable s)
        with False HttpResponse assms(2) redacted [OF assms(1)] show ?thesis by (auto simp: http_result_def Let_def m)
      next
        case (Decoded ok d res)
        have "\<not> contains_str (responseDescription req ok d) token"
          using assms(3) HttpResponse Decoded no_colon [OF assms(1), of "''getUpdates not ok''"] no_colon [OF assms(1), of "[]"]
          by (simp add: responseDescription_def del: contains_str.simps split: tg_request.split)
        with False HttpResponse Decoded assms(2) show ?thesis
          by (auto simp: http_result_def Let_def tg_err_def split: if_splits)
      qed
    qed
  qed
  with error_text_token [OF assms(1)] show ?thesis by blast
qed

text \<open>C2. The bot token, which is part of the address of every request, never gets into the text of an
  error that a call returns, whatever the transport or Telegram answers: if no description of a
  rejected request contains the token, no error does.\<close>

theorem token_stays_out_of_errors:
  assumes "token_shape (e_Token (w_env w))"
    and "\<And>k r code body seconds ok d res. w_http w k r = HttpResponse code body seconds (Decoded ok d res)
      \<Longrightarrow> \<not> contains_str d (e_Token (w_env w))"
  shows "case fst (callJSON req w) of Inl e \<Rightarrow> \<not> contains_str (err_text e) (e_Token (w_env w)) | Inr _ \<Rightarrow> True"
proof -
  obtain j where "fst (callJSON req w) = attempt_result req w j"
    using call_attempts_sent [of "retryAttempts (method_of req)" 1 "PlainError []" req w]
    by (auto simp: callJSON_def retryAttempts_def split: if_splits)
  moreover have "\<not> contains_str (tg_error_text e) (e_Token (w_env w))"
    if "http_result (e_Token (w_env w)) req (w_http w k req) = Inl e" for e k
    using http_error_token [OF assms(1) that] assms(2) by blast
  ultimately show ?thesis
    by (cases "http_result (e_Token (w_env w)) req (w_http w (length (w_sent w) + j) req)")
      (simp_all add: attempt_result_def)
qed

text \<open>A connection that breaks: the text of the transport names the address.\<close>

definition broken_world :: world where
  "broken_world = world0\<lparr>w_http := \<lambda>k req.
     HttpFailed (''Post '' @ apiURL ''1:token'' (method_of req) @ '': broken pipe'') True\<rparr>"

theorem token_stays_out_of_errors_witness:
  "case fst (callJSON (GetChat 5) broken_world) of Inl e \<Rightarrow> \<not> contains_str (err_text e) ''1:token'' | Inr _ \<Rightarrow> True"
proof -
  have t: "e_Token (w_env broken_world) = ''1:token''" by (simp add: broken_world_def world0_def env0_def)
  have "token_shape ''1:token''" by (simp add: token_shape_def digit_val_def)
  then show ?thesis
    using token_stays_out_of_errors [of broken_world "GetChat 5"] unfolding t by (simp add: broken_world_def)
qed

end
