(* ===== verification/Payload_Json.thy ===== *)
theory Payload_Json imports GoJson Row_Scan begin

text \<open>
  The JSON columns of \<open>models.go\<close>: how a payload and the items of a plan are written as JSON texts and
  read from them. The tables of the other theories hold payloads as maps; this theory shows that the
  maps are what the code makes of the texts.
\<close>

section \<open>Writing\<close>

text \<open>\<open>json.Marshal\<close> of a payload's value. A \<open>float64\<close> is written with all its digits below 2 to the 53.\<close>

fun json_js :: "json \<Rightarrow> js" where
  "json_js JNull = ONull"
| "json_js (JStr s) = OStr s"
| "json_js (JInt n) = ONum n"
| "json_js (JFloat n) = ONum n"
| "json_js (JInts ns) = OArr (map ONum ns)"
| "json_js (JList js) = OArr (map json_js js)"

text \<open>The entries of a payload in the order of their keys.\<close>

definition payload_fields :: "(bytes \<times> json) list \<Rightarrow> (bytes \<times> js) list" where
  "payload_fields es = map (\<lambda>(k, j). (k, json_js j)) es"

definition encodePayload :: "(bytes \<times> json) list \<Rightarrow> bytes" where
  "encodePayload es = write_js (OObj (payload_fields es))"

definition encodeStrings :: "bytes list \<Rightarrow> bytes" where "encodeStrings ss = write_js (OArr (map OStr ss))"

section \<open>Reading\<close>

text \<open>\<open>json.Unmarshal\<close> into \<open>any\<close>; no program writes booleans or objects into a payload.\<close>

fun js_json :: "js \<Rightarrow> json option" where
  "js_json ONull = Some JNull"
| "js_json (OStr s) = Some (JStr s)"
| "js_json (ONum n) = Some (JFloat (f64_of_int n))"
| "js_json (OArr vs) = (let js = map js_json vs in if None \<in> set js then None else Some (JList (map the js)))"
| "js_json (OBool b) = None"
| "js_json (OObj fs) = None"

text \<open>The last of two fields with the same name counts.\<close>

definition payload_of_fields :: "(bytes \<times> js) list \<Rightarrow> payload option" where
  "payload_of_fields fs = (if \<exists>v \<in> snd ` set fs. js_json v = None then None
     else Some (map_of (rev (map (\<lambda>(k, v). (k, the (js_json v))) fs))))"

definition decode_payload_text :: "bytes \<Rightarrow> payload option" where
  "decode_payload_text raw = (if raw = [] then Some Map.empty
     else (case read_json raw of
         Some (OObj fs) \<Rightarrow> payload_of_fields fs
       | Some ONull \<Rightarrow> Some Map.empty
       | _ \<Rightarrow> Some [''raw'' \<mapsto> JStr raw]))"

text \<open>Into \<open>[]string\<close>: \<open>null\<close> leaves the empty string, any other value is an error.\<close>

definition js_string :: "js \<Rightarrow> bytes option" where
  "js_string v = (case v of OStr s \<Rightarrow> Some s | ONull \<Rightarrow> Some [] | _ \<Rightarrow> None)"

definition decodeStringSlice :: "bytes \<Rightarrow> bytes list" where
  "decodeStringSlice raw = (if raw = [] then []
     else (case read_json raw of
         Some (OArr vs) \<Rightarrow> if None \<in> set (map js_string vs) then [] else map (\<lambda>v. the (js_string v)) vs
       | _ \<Rightarrow> []))"

section \<open>Reading what was written\<close>

text \<open>Values that JSON keeps: UTF-8 strings, and numbers that are exact as \<open>float64\<close>.\<close>

fun json_kept :: "json \<Rightarrow> bool" where
  "json_kept (JStr s) = (valid_text s = s)"
| "json_kept (JFloat n) = (\<bar>n\<bar> < 9007199254740992)"
| "json_kept (JList js) = list_all json_kept js"
| "json_kept j = True"

lemma js_json_written: "json_kept j \<Longrightarrow> js_json (valid_js (json_js j)) = Some (decode_json j)"
proof (induction j rule: json_js.induct)
  case (5 ns)
  show ?case by (auto simp: Let_def)
next
  case (6 js)
  then have "map js_json (map valid_js (map json_js js)) = map (\<lambda>j. Some (decode_json j)) js"
    by (auto simp: list_all_iff)
  moreover have "None \<notin> set (map (\<lambda>j. Some (decode_json j)) js)" by auto
  ultimately show ?case by (simp add: Let_def comp_def)
qed simp_all

definition entries_kept :: "(bytes \<times> json) list \<Rightarrow> bool" where
  "entries_kept es \<longleftrightarrow> distinct (map fst es) \<and> list_all (\<lambda>(k, j). valid_text k = k \<and> json_kept j) es"

lemma decoded_entries: "map_option decode_json (map_of es k) = map_of (map (\<lambda>(k, j). (k, decode_json j)) es) k"
  by (induction es) auto

lemma payload_of_written:
  assumes "entries_kept es" and "set fs = set (map (\<lambda>(k, v). (k, valid_js v)) (payload_fields es))" and "distinct (map fst fs)"
  shows "payload_of_fields fs = Some (decodePayload (map_of es))"
proof -
  let ?ds = "map (\<lambda>(k, j). (k, decode_json j)) es" and ?rs = "map (\<lambda>(k, v). (k, the (js_json v))) fs"
  have kept: "\<And>k j. (k, j) \<in> set es \<Longrightarrow> json_kept j" using assms(1) by (auto simp: entries_kept_def list_all_iff)
  have fs: "set fs = (\<lambda>(k, j). (k, valid_js (json_js j))) ` set es"
    by (simp add: assms(2) payload_fields_def image_image case_prod_beta)
  have none: "\<not> (\<exists>v \<in> snd ` set fs. js_json v = None)"
    unfolding fs using js_json_written kept by fastforce
  have "set ?rs = set ?ds"
    unfolding set_map fs image_image using js_json_written kept by (intro image_cong) auto
  moreover have "distinct (map fst (rev ?rs))" "distinct (map fst ?ds)"
    using assms(1,3) by (simp_all add: entries_kept_def comp_def case_prod_beta rev_map [symmetric])
  ultimately have "map_of (rev ?rs) = map_of ?ds" by (simp add: map_of_inject_set)
  moreover have "decodePayload (map_of es) = map_of ?ds"
    by (simp add: decodePayload_def decoded_entries fun_eq_iff)
  ultimately show ?thesis unfolding payload_of_fields_def if_not_P [OF none] by simp
qed

lemma written_not_empty: "write_js (OObj fs) \<noteq> []" "write_js (OArr vs) \<noteq> []"
  by simp_all

lemma decodeStringSlice_written: "decodeStringSlice (encodeStrings ss) = map valid_text ss"
proof -
  have "map js_string (map (\<lambda>s. OStr (valid_text s)) ss) = map (\<lambda>s. Some (valid_text s)) ss" by (simp add: js_string_def)
  moreover have "None \<notin> set (map (\<lambda>s. Some (valid_text s)) ss)" by auto
  ultimately show ?thesis
    unfolding decodeStringSlice_def encodeStrings_def if_not_P [OF written_not_empty(2)] read_json_written
    by (simp add: comp_def js_string_def)
qed

text \<open>A text of an object with the fields of a payload, in any order: a JSONB column keeps its own.\<close>

definition same_object :: "(bytes \<times> json) list \<Rightarrow> bytes \<Rightarrow> bool" where
  "same_object es raw = (case read_json raw of
      Some (OObj fs) \<Rightarrow> set fs = set (map (\<lambda>(k, v). (k, valid_js v)) (payload_fields es)) \<and> distinct (map fst fs)
    | _ \<Rightarrow> False)"

lemma same_object_written:
  assumes "entries_kept es"
  shows "same_object es (encodePayload es)"
proof -
  let ?fs = "map (\<lambda>(k, v). (k, valid_js v)) (payload_fields es)"
  have keys: "map (\<lambda>(k, v). (valid_text k, valid_js v)) (payload_fields es) = ?fs"
    using assms by (auto simp: payload_fields_def entries_kept_def list_all_iff)
  have "read_json (encodePayload es) = Some (OObj ?fs)"
    unfolding encodePayload_def read_json_written valid_js.simps keys ..
  moreover have "distinct (map fst ?fs)"
    using assms by (simp add: payload_fields_def entries_kept_def comp_def case_prod_beta)
  ultimately show ?thesis by (simp add: same_object_def)
qed

lemma same_object_read:
  assumes "entries_kept es" and "same_object es raw"
  shows "decode_payload_text raw = Some (decodePayload (map_of es))"
proof -
  obtain fs where fs: "read_json raw = Some (OObj fs)"
      "set fs = set (map (\<lambda>(k, v). (k, valid_js v)) (payload_fields es))" "distinct (map fst fs)"
    using assms(2) by (auto simp: same_object_def split: option.splits js.splits)
  moreover have "raw \<noteq> []" using fs(1) by (auto simp: read_json_def skip_blanks_def)
  ultimately show ?thesis using payload_of_written [OF assms(1) fs(2,3)] by (simp add: decode_payload_text_def)
qed

section \<open>Properties\<close>

text \<open>C11. The text of a payload is read back as the map that the other theories keep: every text of an
  object with the fields that were written, in whatever order and with whatever blanks the database
  gives it, is read as the payload with its integers as float64; the text that is written is such
  a text. The items of a plan are read back, too.\<close>

theorem payloads_are_read_back:
  assumes "entries_kept es"
  shows "same_object es (encodePayload es)
    \<and> (same_object es raw \<longrightarrow> decode_payload_text raw = Some (decodePayload (map_of es)))
    \<and> decodeStringSlice (encodeStrings items) = map valid_text items"
  using same_object_written [OF assms] same_object_read [OF assms] decodeStringSlice_written by blast

text \<open>The payload of an open prompt to which the user has written twice.\<close>

definition prompt_entries :: "(bytes \<times> json) list" where
  "prompt_entries = [(''prompt_message_id'', JInt 40), (''user_message_ids'', JInts [41, 42])]"

theorem payloads_are_read_back_witness:
  "decode_payload_text (encodePayload prompt_entries) = Some (decodePayload (map_of prompt_entries))
    \<and> payloadInt64Slice (decodePayload (map_of prompt_entries)) ''user_message_ids'' = [41, 42]"
proof -
  have "valid_text ''prompt_message_id'' = ''prompt_message_id''" "valid_text ''user_message_ids'' = ''user_message_ids''"
    by (rule valid_text_ascii; simp)+
  then have "entries_kept prompt_entries" by (simp add: entries_kept_def prompt_entries_def)
  then show ?thesis
    using payloads_are_read_back [of prompt_entries "encodePayload prompt_entries" "[]"]
    by (simp add: payloadInt64Slice_def decodePayload_def prompt_entries_def)
qed

end
