(* ===== verification/Requests.thy ===== *)
theory Requests imports Wire Talk App_Routine begin

text \<open>
  The requests a program sends. Statements of the storage send none; the rules here say when a
  program sends only proper requests, that is requests with a JSON body, texts with the parse mode of
  the formatters, and keyboards whose buttons all carry data.
\<close>

section \<open>Programs that send nothing\<close>

definition same_sent :: "world \<Rightarrow> world \<Rightarrow> bool" where "same_sent w w' \<longleftrightarrow> w_sent w' = w_sent w"

interpretation ssent: world_rel same_sent
  by unfold_locales (simp_all add: same_sent_def)

abbreviation silent :: "'a io \<Rightarrow> bool" where "silent \<equiv> wkeeps same_sent"

lemma silentI: "(\<And>w. w_sent (snd (m w)) = w_sent w) \<Longrightarrow> silent m"
  by (simp add: wkeeps_def same_sent_def)

lemma silentD: "silent m \<Longrightarrow> w_sent (snd (m w)) = w_sent w"
  by (simp add: wkeeps_def same_sent_def)

lemma w_sent_simps [simp]: "w_sent (bump w) = w_sent w" "w_sent (abort_tx w) = w_sent w" "w_sent (rollback d w) = w_sent w"
  by (simp_all add: bump_def abort_tx_def rollback_def)

lemma silent_stmt: "silent (stmt f)"
  by (rule silentI) (simp add: stmt_def split: tx_state.split option.split prod.split)

lemma silent_statements: "silent (stmt f)" "silent (query q)" "silent (exec g)"
  by (simp_all add: query_def exec_def silent_stmt)

lemma w_sent_inTx:
  "w_sent (snd (inTx m w)) = w_sent w \<or> (\<exists>w1. w_sent w1 = w_sent w \<and> w_sent (snd (inTx m w)) = w_sent (snd (m w1)))"
  "w_sent (snd (inTxVar v m' w)) = w_sent w \<or> (\<exists>w1. w_sent w1 = w_sent w \<and> w_sent (snd (inTxVar v m' w)) = w_sent (snd (m' w1)))"
proof -
  let ?w1 = "(bump w)\<lparr>w_tx := InTx (w_now w)\<rparr>"
  have "w_sent ?w1 = w_sent w" by simp
  moreover have "w_sent (snd (inTx m w)) \<in> {w_sent w, w_sent (snd (m ?w1))}"
    by (auto simp: inTx_def split: option.split sum.split tx_state.split prod.split)
  moreover have "w_sent (snd (inTxVar v m' w)) \<in> {w_sent w, w_sent (snd (m' ?w1))}"
    by (auto simp: inTxVar_def split: option.split sum.split tx_state.split prod.split)
  ultimately show
    "w_sent (snd (inTx m w)) = w_sent w \<or> (\<exists>w1. w_sent w1 = w_sent w \<and> w_sent (snd (inTx m w)) = w_sent (snd (m w1)))"
    "w_sent (snd (inTxVar v m' w)) = w_sent w \<or> (\<exists>w1. w_sent w1 = w_sent w \<and> w_sent (snd (inTxVar v m' w)) = w_sent (snd (m' w1)))"
    by blast+
qed

lemma silent_inTx: "silent m \<Longrightarrow> silent (inTx m)" "silent mv \<Longrightarrow> silent (inTxVar v mv)"
  using w_sent_inTx by (metis silentD silentI)+

text \<open>The rules that \<open>world_rel\<close> leaves out.\<close>

context world_rel
begin

lemma wkeeps_mapM: "(\<And>x. wkeeps W (f x)) \<Longrightarrow> wkeeps W (mapM f xs)"
  by (induction xs) (simp_all add: wkeeps_simple wkeeps_bindM)

lemma wkeeps_loopM: "wkeeps W body \<Longrightarrow> wkeeps W (loopM n body)"
  by (induction n) (simp_all add: wkeeps_simple wkeeps_bindM)

lemma wkeeps_raise: "wkeeps W (raise_opt e)"
  by (simp add: raise_opt_def wkeeps_simple split: option.split)

lemma wkeeps_pair: "(\<And>a b. wkeeps W (k a b)) \<Longrightarrow> wkeeps W (case p of (a, b) \<Rightarrow> k a b)"
  by (simp split: prod.split)

lemma wkeeps_nested:
  "(\<And>e. wkeeps W (g e)) \<Longrightarrow> wkeeps W m \<Longrightarrow> (\<And>a. wkeeps W (f a)) \<Longrightarrow>
    wkeeps W (case s of Inl e \<Rightarrow> g e | Inr None \<Rightarrow> m | Inr (Some a) \<Rightarrow> f a)"
  by (simp split: sum.split option.split)

lemmas wkeeps_program = wkeeps_rules wkeeps_mapM wkeeps_loopM wkeeps_raise wkeeps_pair wkeeps_nested

end

named_theorems silent_ops \<open>operations shown to send nothing\<close>

lemmas silent_rules = ssent.wkeeps_program silent_statements silent_inTx

section \<open>The storage sends nothing\<close>

lemma silent_workspace [silent_ops]:
  "silent (GetOrCreateWorkspace a1 b1 c1)" "silent (GetWorkspaceByChatID a2)" "silent (GetWorkspaceByID a3)"
  "silent (MarkWorkspaceReady a4)" "silent (SetSetupMessageID a5 b5)" "silent (UpsertTopicBinding a6 b6 c6 d6)"
  "silent (ListTopicBindings a7)" "silent (GetTopicBinding a8 b8)" "silent (SetTopicMessages a9 b9 c9 d9 e9 f9)"
  "silent (RegisterParticipant a10 b10 c10 d10)" "silent (GetParticipantByID a11)" "silent (CurrentNow a12)"
  "silent (SetClockOverride a13)" "silent current_now" "silent (delete_where a15 b15 c15)"
  "silent (ResetWorkspaceForE2E a16)" "silent (ActiveTopicBindings a17)"
  unfolding GetOrCreateWorkspace_def GetWorkspaceByChatID_def GetWorkspaceByID_def MarkWorkspaceReady_def
    SetSetupMessageID_def UpsertTopicBinding_def ListTopicBindings_def GetTopicBinding_def SetTopicMessages_def
    RegisterParticipant_def GetParticipantByID_def CurrentNow_def SetClockOverride_def current_now_def
    delete_where_def ResetWorkspaceForE2E_def ActiveTopicBindings_def Let_def
  by (intro silent_rules silent_ops)+

lemma silent_progress [silent_ops]:
  "silent (CreateProgressEvent a1 b1 c1 d1 e1)" "silent ClaimProgressEvent" "silent (update_count a4 b4 c4 d4)"
  "silent (RequeueProgressEvent a5)" "silent (MarkProgressEventFailed a6)"
  "silent (MarkProgressEventPublished a7 b7 c7)" "silent ListPendingProgressEvents" "silent ClaimPendingAlert"
  "silent (MarkAlertSent a10 b10)" "silent (RequeueAlert a11)" "silent (DeliveryReady a12 b12 c12)"
  "silent (RecordDeliveryFailure a13 b13 c13 d13 e13)" "silent (ClearDeliveryRetry a14 b14)"
  "silent (DeliveryRetryIDs a15 b15)"
  unfolding CreateProgressEvent_def ClaimProgressEvent_def requireDeliveryClaim_def update_count_def RequeueProgressEvent_def
    MarkProgressEventFailed_def MarkProgressEventPublished_def ListPendingProgressEvents_def ClaimPendingAlert_def
    MarkAlertSent_def RequeueAlert_def DeliveryReady_def RecordDeliveryFailure_def ClearDeliveryRetry_def
    DeliveryRetryIDs_def Let_def
  by (intro silent_rules silent_ops)+

lemma silent_today [silent_ops]:
  "silent (GetOpenTask a1 b1)" "silent (GetTaskForDate a2 b2 c2)" "silent (createDailyEntry a3 b3 c3 d3 e3 f3 g3 h3)"
  "silent (CreateDailyTask a4 b4 c4 d4 e4 f4 g4)" "silent (CreateDailySummary a5 b5 c5 d5)"
  "silent (SetDailyTaskCardMessageID a6 b6)" "silent (GetTask a7)" "silent ListTasksForTransition"
  "silent (UpdateTaskAwaitingReport a9 b9)" "silent (UpdateTaskFailed a10 b10)"
  "silent (close_open_entry a11 b11 c11 d11 e11 f11 g11)" "silent (SubmitTaskReport a12 b12 c12 d12 e12 f12 g12)"
  "silent (SyncDailyTaskProgressPayloads a13)" "silent (update_task_row a14 b14)" "silent (with_synced_events a15)"
  "silent (UpdateTaskTextFromSourceMessage a16 b16 c16 d16 e16)"
  "silent (UpdateTaskReportFromSourceMessage a17 b17 c17 d17 e17)"
  "silent (CreateAutoFailProgressEvent a18 b18 c18 d18)" "silent (GetOrCreateAlert a19 b19)"
  "silent (ListAlertsForTask a20)" "silent (AcknowledgeAlert a21 b21)" "silent (ClearAlertMessage a22)"
  "silent (GetAlert a23)" "silent (GetPendingInput a24 b24 c24)" "silent (UpsertPendingInput a25 b25 c25 d25 e25)"
  "silent (take_pending a26)" "silent (delete_pending a27)" "silent (ClaimPendingInput a28 b28 c28 d28)"
  "silent (ClearPendingInput a29 b29 c29)" "silent (ClearRoutineCheckinPendingInput a30 b30 c30 d30)"
  "silent (ClearGoalWeeklyReviewPendingInput a31 b31 c31 d31)"
  "silent (ClearGoalFinalReviewPendingInput a32 b32 c32 d32)" "silent (ListStalePendingInputContexts a33 b33)"
  "silent (ClaimStalePendingInput a34 b34)"
  unfolding GetOpenTask_def GetTaskForDate_def createDailyEntry_def CreateDailyTask_def CreateDailySummary_def
    SetDailyTaskCardMessageID_def GetTask_def ListTasksForTransition_def UpdateTaskAwaitingReport_def
    UpdateTaskFailed_def close_open_entry_def SubmitTaskReport_def SyncDailyTaskProgressPayloads_def
    update_task_row_def with_synced_events_def UpdateTaskTextFromSourceMessage_def
    UpdateTaskReportFromSourceMessage_def CreateAutoFailProgressEvent_def GetOrCreateAlert_def ListAlertsForTask_def
    AcknowledgeAlert_def ClearAlertMessage_def GetAlert_def GetPendingInput_def UpsertPendingInput_def
    take_pending_def delete_pending_def ClaimPendingInput_def ClearPendingInput_def
    ClearRoutineCheckinPendingInput_def ClearGoalWeeklyReviewPendingInput_def ClearGoalFinalReviewPendingInput_def
    ListStalePendingInputContexts_def ClaimStalePendingInput_def Let_def
  by (intro silent_rules silent_ops)+

lemma silent_routines [silent_ops]:
  "silent (UpsertRoutinePlan a1 b1 c1 d1 e1 f1)" "silent (GetRoutinePlan a2 b2)" "silent ListRoutinePlanContexts"
  "silent (ListRoutineCheckinItems a4)" "silent (with_items a5)" "silent (GetRoutineCheckin a6)"
  "silent (GetRoutineCheckinForDate a7 b7 c7)" "silent (scanRoutineCheckinContexts a8)"
  "silent ListOpenRoutineCheckinContexts" "silent ClaimPendingRoutineAutoCloseNoticeContext"
  "silent (GetOrCreateRoutineCheckin a11 b11)" "silent (upd_checkins a12 b12)" "silent (set_checkin a13 b13)"
  "silent (SetRoutineCheckinCardMessageID a14 b14 c14)" "silent (SetRoutineCheckinReminderMessageID a15 b15 c15)"
  "silent (ClearRoutineCheckinReminderMessageID a16)" "silent (SetRoutineCheckinAutoCloseNoticeMessageID a17 b17 c17)"
  "silent (ClearRoutineCheckinAutoCloseNoticeMessageID a18)" "silent (ListExpiredRoutineNoticeContexts a19)"
  "silent (AutoFailRoutineCheckin a20 b20)" "silent (SetRoutineCheckinItemStatus a21 b21 c21 d21 e21)"
  "silent (CompleteRoutineCheckinWithoutReflection a22 b22)" "silent (GetRoutineLeaderboard a23 b23)"
  unfolding UpsertRoutinePlan_def GetRoutinePlan_def ListRoutinePlanContexts_def ListRoutineCheckinItems_def with_items_def
    GetRoutineCheckin_def GetRoutineCheckinForDate_def scanRoutineCheckinContexts_def
    ListOpenRoutineCheckinContexts_def ClaimPendingRoutineAutoCloseNoticeContext_def GetOrCreateRoutineCheckin_def
    upd_checkins_def set_checkin_def SetRoutineCheckinCardMessageID_def SetRoutineCheckinReminderMessageID_def
    ClearRoutineCheckinReminderMessageID_def SetRoutineCheckinAutoCloseNoticeMessageID_def
    ClearRoutineCheckinAutoCloseNoticeMessageID_def ListExpiredRoutineNoticeContexts_def AutoFailRoutineCheckin_def
    SetRoutineCheckinItemStatus_def CompleteRoutineCheckinWithoutReflection_def GetRoutineLeaderboard_def Let_def
  by (intro silent_rules silent_ops)+

lemma silent_goals [silent_ops]:
  "silent (UpsertSeasonalGoalSet a1 b1 c1 d1 e1 f1 g1)" "silent (GetSeasonalGoalSet a2)"
  "silent (HasSeasonalGoalSetForParticipant a3 b3 c3)" "silent (upd_goals a4 b4)"
  "silent (SetSeasonalGoalCardMessageID a5 b5 c5)" "silent (ClearSeasonalGoalCardMessageID a6)"
  "silent ListSeasonalGoalSetContexts" "silent (GetGoalNudgeCooldown a8 b8)" "silent (MarkGoalNudgeShown a9 b9 c9)"
  "silent (GetOrCreateGoalWeeklyReview a10 b10 c10)" "silent (GetOpenGoalWeeklyReview a11)"
  "silent (upd_weekly a12 b12)" "silent (SetGoalWeeklyReviewPrompt a13 b13 c13 d13)"
  "silent (SetGoalWeeklyReviewReminderPrompt a14 b14 c14 d14)" "silent (MarkGoalWeeklyReviewSkipped a15 b15)"
  "silent (SubmitGoalWeeklyReview a16 b16 c16 d16 e16)" "silent (GetOrCreateGoalFinalReview a17)"
  "silent (SetGoalFinalReviewPrompt a18 b18 c18)" "silent (upd_final a19 b19 c19 d19)"
  "silent (SetGoalFinalReviewStatus a20 b20 c20)" "silent (AppendGoalFinalReviewSummaryPart a21 b21 c21 d21)"
  "silent (FinalizeGoalFinalReview a22 b22)"
  unfolding UpsertSeasonalGoalSet_def GetSeasonalGoalSet_def HasSeasonalGoalSetForParticipant_def upd_goals_def
    SetSeasonalGoalCardMessageID_def ClearSeasonalGoalCardMessageID_def ListSeasonalGoalSetContexts_def
    GetGoalNudgeCooldown_def MarkGoalNudgeShown_def GetOrCreateGoalWeeklyReview_def GetOpenGoalWeeklyReview_def
    upd_weekly_def SetGoalWeeklyReviewPrompt_def SetGoalWeeklyReviewReminderPrompt_def MarkGoalWeeklyReviewSkipped_def
    SubmitGoalWeeklyReview_def GetOrCreateGoalFinalReview_def SetGoalFinalReviewPrompt_def upd_final_def
    SetGoalFinalReviewStatus_def AppendGoalFinalReviewSummaryPart_def FinalizeGoalFinalReview_def Let_def
  by (intro silent_rules silent_ops)+

section \<open>Proper requests\<close>

definition has_text :: "texts \<Rightarrow> view \<Rightarrow> bool" where "has_text x v \<longleftrightarrow> view_text x v \<noteq> None"

definition keyboard_ok :: "keyboard \<Rightarrow> bool" where
  "keyboard_ok kb \<longleftrightarrow> list_all (\<lambda>row. row \<noteq> [] \<and> list_all (\<lambda>b. bt_data b \<noteq> []) row) kb"

definition proper_request :: "texts \<Rightarrow> tg_request \<Rightarrow> bool" where
  "proper_request x req \<longleftrightarrow> request_body x req \<noteq> None \<and> (case req of
      SendMessage r \<Rightarrow> sm_ParseMode r = ''HTML'' \<and> pred_option keyboard_ok (sm_ReplyMarkup r)
    | EditMessageText r \<Rightarrow> em_ParseMode r = ''HTML'' \<and> pred_option keyboard_ok (em_ReplyMarkup r)
    | EditMessageReplyMarkup _ _ kb \<Rightarrow> pred_option keyboard_ok kb
    | DeleteMessage _ mid \<Rightarrow> mid \<noteq> 0
    | _ \<Rightarrow> True)"

definition sent_proper :: "texts \<Rightarrow> world \<Rightarrow> world \<Rightarrow> bool" where
  "sent_proper x w w' \<longleftrightarrow> (\<exists>rs. w_sent w' = w_sent w @ rs \<and> list_all (proper_request x) rs)"

interpretation prp: world_rel "sent_proper x" for x
  by unfold_locales (auto simp: sent_proper_def)

abbreviation proper :: "texts \<Rightarrow> 'a io \<Rightarrow> bool" where "proper x \<equiv> wkeeps (sent_proper x)"

lemma silent_proper: "silent m \<Longrightarrow> proper x m"
  by (simp add: wkeeps_def same_sent_def sent_proper_def)

lemma proper_inTx: "proper x m \<Longrightarrow> proper x (inTx m)" "proper x mv \<Longrightarrow> proper x (inTxVar v mv)"
proof -
  assume "proper x m"
  then have "sent_proper x w1 (snd (m w1))" for w1 by (simp add: wkeeps_def)
  then show "proper x (inTx m)"
    unfolding wkeeps_def sent_proper_def using w_sent_inTx(1) [of m]
    by (metis append_Nil2 list.pred_inject(1))
next
  assume "proper x mv"
  then have "sent_proper x w1 (snd (mv w1))" for w1 by (simp add: wkeeps_def)
  then show "proper x (inTxVar v mv)"
    unfolding wkeeps_def sent_proper_def using w_sent_inTx(2) [of v mv]
    by (metis append_Nil2 list.pred_inject(1))
qed

lemma proper_callJSON: "proper_request x req \<Longrightarrow> proper x (callJSON req)"
proof -
  assume r: "proper_request x req"
  have "\<exists>m. w_sent (snd (callJSON req w)) = w_sent w @ replicate m req" for w
    using call_attempts_sent [of "retryAttempts (method_of req)" 1 "PlainError []" req w] by (auto simp: callJSON_def)
  with r show ?thesis
    unfolding wkeeps_def sent_proper_def by (metis in_set_replicate list_all_iff)
qed

text \<open>A value that a program gives.\<close>

definition yields :: "('a \<Rightarrow> bool) \<Rightarrow> 'a io \<Rightarrow> bool" where
  "yields Q m \<longleftrightarrow> (\<forall>w v. fst (m w) = Inr v \<longrightarrow> Q v)"

lemma proper_bind_yields:
  assumes "proper x m" and "yields Q m" and "\<And>v. Q v \<Longrightarrow> proper x (f v)"
  shows "proper x (bindM m f)"
proof (rule prp.wkeeps_pure)
  fix w
  obtain r w' where m: "m w = (r, w')" by (cases "m w")
  then have 1: "sent_proper x w w'" using assms(1) by (metis snd_conv wkeeps_def)
  show "sent_proper x w (snd (bindM m f w))"
  proof (cases r)
    case (Inr v)
    then have "proper x (f v)" using assms(2,3) m unfolding yields_def by (metis fst_conv)
    then show ?thesis using prp.step [OF 1] m Inr by (simp add: wkeeps_def)
  qed (use m 1 in simp)
qed

lemma yields_simps:
  "yields Q (ret v) = Q v" "yields Q (failM e)"
  "(\<And>v. yields Q (f v)) \<Longrightarrow> yields Q (bindM m f)" "yields Q n \<Longrightarrow> yields Q (thenM m n)"
  by (auto simp: yields_def ret_def failM_def thenM_def bindM_def split: prod.splits sum.splits)

section \<open>The methods of the client\<close>

definition send_ok :: "texts \<Rightarrow> send_message_request \<Rightarrow> bool" where
  "send_ok x r \<longleftrightarrow> has_text x (sm_Text r) \<and> sm_ParseMode r \<in> {[], ''HTML''} \<and> pred_option keyboard_ok (sm_ReplyMarkup r)"

definition edit_ok :: "texts \<Rightarrow> edit_message_request \<Rightarrow> bool" where
  "edit_ok x r \<longleftrightarrow> has_text x (em_Text r) \<and> em_ParseMode r \<in> {[], ''HTML''} \<and> pred_option keyboard_ok (em_ReplyMarkup r)"

lemma send_ok_simps [simp]:
  "send_ok x (send_req c t v kb) \<longleftrightarrow> has_text x v \<and> pred_option keyboard_ok kb"
  "send_ok x (SilentMessage r) = send_ok x r" "send_ok x (RegularMessage r) = send_ok x r"
  "send_ok x (ReplyMessage r m) = send_ok x r" "send_ok x (PingMessage r) = send_ok x r"
  "send_ok x (r\<lparr>sm_ReplyToMessageID := m\<rparr>) = send_ok x r" "send_ok x (r\<lparr>sm_DisableWebPagePreview := b\<rparr>) = send_ok x r" "send_ok x (r\<lparr>sm_DisableNotification := d\<rparr>) = send_ok x r"
  by (simp_all add: send_ok_def send_req_def SilentMessage_def RegularMessage_def ReplyMessage_def PingMessage_def)

lemma edit_ok_simps [simp]:
  "edit_ok x (edit_req c m v kb) \<longleftrightarrow> has_text x v \<and> pred_option keyboard_ok kb"
  "edit_ok x (r\<lparr>em_ChatID := c\<rparr>) = edit_ok x r" "edit_ok x (r\<lparr>em_MessageID := m\<rparr>) = edit_ok x r"
  by (simp_all add: edit_ok_def edit_req_def)

lemma proper_bodies:
  "send_ok x r \<Longrightarrow> proper_request x (SendMessage (if sm_ParseMode r = [] then r\<lparr>sm_ParseMode := ''HTML''\<rparr> else r))"
  "edit_ok x e \<Longrightarrow> proper_request x (EditMessageText (if em_ParseMode e = [] then e\<lparr>em_ParseMode := ''HTML''\<rparr> else e))"
  "pred_option keyboard_ok kb \<Longrightarrow> proper_request x (EditMessageReplyMarkup c m kb)"
  "mid \<noteq> 0 \<Longrightarrow> proper_request x (DeleteMessage c mid)" "proper_request x (PinChatMessage c m)"
  "proper_request x (AnswerCallbackQuery q t)" "proper_request x (GetChat c)" "proper_request x GetMe"
  "proper_request x (GetChatMember c u)" "proper_request x (CreateForumTopic c n)" "proper_request x (EditForumTopic c m n)"
  "proper_request x (GetUpdates i j)"
  by (auto simp: proper_request_def request_body_def request_js_def send_ok_def edit_ok_def has_text_def)

lemma proper_call_unless: "proper_request x req \<Longrightarrow> proper x (call_unless h req)"
  unfolding call_unless_def by (intro prp.wkeeps_program proper_callJSON)

lemma proper_telegram:
  "send_ok x r \<Longrightarrow> proper x (tgSendMessage r)" "edit_ok x e \<Longrightarrow> proper x (tgEditMessageText e)"
  "pred_option keyboard_ok kb \<Longrightarrow> proper x (tgEditMessageReplyMarkup c m kb)"
  "proper x (tgDeleteMessage c mid)" "proper x (tgPinChatMessage c m)" "proper x (tgAnswerCallbackQuery q t)"
  "proper x (tgGetChat c)" "proper x tgGetMe" "proper x (tgGetChatMember c u)" "proper x (tgCreateForumTopic c n)"
  "proper x (tgEditForumTopic c m n)" "proper x (tgPollUpdates i j)"
proof -
  show "proper x (tgDeleteMessage c mid)"
    by (cases "mid = 0") (simp_all add: tgDeleteMessage_def prp.wkeeps_simple proper_call_unless proper_bodies)
qed (unfold tgSendMessage_def tgEditMessageText_def tgEditMessageReplyMarkup_def tgPinChatMessage_def tgAnswerCallbackQuery_def
    tgGetChat_def tgGetMe_def tgGetChatMember_def tgCreateForumTopic_def tgEditForumTopic_def tgPollUpdates_def Let_def,
    (intro prp.wkeeps_program proper_callJSON proper_call_unless proper_bodies; assumption)+)

lemma proper_send_once: "send_ok x r \<Longrightarrow> proper x (tgSendMessageOnce r)"
proof -
  assume "send_ok x r"
  then have r: "proper_request x (SendMessage (if sm_ParseMode r = [] then r\<lparr>sm_ParseMode := ''HTML''\<rparr> else r))"
    by (rule proper_bodies)
  have "proper x (callJSONOnce (SendMessage (if sm_ParseMode r = [] then r\<lparr>sm_ParseMode := ''HTML''\<rparr> else r)))"
    using r by (intro prp.wkeeps_pure) (auto simp: callJSONOnce_def sent_proper_def)
  moreover have "proper x waitRateLimit" "proper x (recordRateLimit e)" for e
    by (rule prp.wkeeps_pure; simp add: waitRateLimit_def recordRateLimit_def sent_proper_def split: option.split)+
  ultimately show ?thesis
    unfolding tgSendMessageOnce_def Let_def by (intro prp.wkeeps_program)
qed

named_theorems proper_ops \<open>operations shown to send proper requests only\<close>

lemmas proper_rules = prp.wkeeps_program proper_telegram silent_statements [THEN silent_proper] proper_inTx

lemmas proper_store = silent_ops [THEN silent_proper]

section \<open>Texts and keyboards\<close>

lemma keyboards_ok [simp]:
  "keyboard_ok SetupKeyboard" "keyboard_ok TodayControlKeyboard" "keyboard_ok RoutineControlKeyboard"
  "keyboard_ok GoalsControlKeyboard" "keyboard_ok EmptyKeyboard" "keyboard_ok (RoutineItemKeyboard i j)"
  "keyboard_ok (GoalFinalStatusKeyboard i)" "keyboard_ok (GoalFinalCompleteKeyboard i)" "keyboard_ok (DailyTaskKeyboard i)"
  "keyboard_ok (DailyTaskStatusKeyboard i)" "keyboard_ok (DailySummaryStatusKeyboard i)" "keyboard_ok (AlertKeyboard i j)"
  "keyboard_ok (DismissKeyboard i)"
  by (simp_all add: keyboard_ok_def SetupKeyboard_def TodayControlKeyboard_def RoutineControlKeyboard_def
      GoalsControlKeyboard_def EmptyKeyboard_def RoutineItemKeyboard_def GoalFinalStatusKeyboard_def
      GoalFinalCompleteKeyboard_def DailyTaskKeyboard_def DailyTaskStatusKeyboard_def DailySummaryStatusKeyboard_def
      AlertKeyboard_def DismissKeyboard_def btn_def Let_def)

lemma has_text_plain:
  "\<not> has_prefix name ''above:'' \<Longrightarrow> daily_view x name args \<noteq> None \<or> routine_view x name args \<noteq> None
    \<or> goals_view x name args \<noteq> None \<or> args = [] \<Longrightarrow> has_text x (View name args)"
  by (auto simp: has_text_def view_text_def Let_def first_some_def List.map_filter_simps split: option.split list.split)

lemma text_view_has_text [simp]: "c \<noteq> CHR ''a'' \<Longrightarrow> has_text x (TextView (c # key))"
  unfolding TextView_def by (rule has_text_plain) (simp_all add: has_prefix_def)

lemma views_have_texts [simp]:
  "has_text x (View ''FormatProgressEvent'' [VEvent e])"
  "has_text x (View ''FormatDailyTaskCard'' [VTask t, VStr n, VStr u, VStr notice])"
  "has_text x (View ''DailyEntryAlertText'' [VAlert k, VKind d, VStr n, VStr u, VInt i, VStr seed])"
  "has_text x (View ''FormatSetupChecklist'' [VBool b1, VBool b2, VBool b3, VBool b4, VBool b5, VBool b6, VStr notice])"
  "has_text x (View ''warning'' [VMsg m])" "has_text x (View ''PreparedReport'' [VStr html])"
  "has_text x (View ''DailyTaskTextPrompt'' (case nudge of None \<Rightarrow> [] | Some g \<Rightarrow> [VMsg g]))"
  "has_text x (View ''DailyTaskReportPrompt'' (case nudge of None \<Rightarrow> [] | Some g \<Rightarrow> [VMsg g]))"
  "has_text x (View ''DailyTaskReportPrompt'' [])"
  by (auto intro!: has_text_plain simp: has_prefix_def daily_view_def nudge_text_def split: option.split)

lemma routine_views_have_texts [simp]:
  "has_text x (checkin_view ''FormatRoutineCheckinCard'' c p link notice)"
  "has_text x (checkin_view ''FormatRoutineCheckinStatusCard'' c p link notice)"
  "has_text x (checkin_view ''FormatRoutineCheckinFinishedCard'' c p link notice)"
  "has_text x (View ''RoutineReminderText'' [VCheckin c, VStr n, VStr u, VInt i])"
  "has_text x (View ''RoutineAutoClosedText'' [VCheckin c, VStr n, VStr u, VInt i, VStr link])"
  "has_text x (View ''FormatRoutineLeaderboard'' [VEntries es])" "has_text x (View ''FormatRoutinePlanSaved'' [VStr link])"
  "has_text x (View ''FormatRoutineReasonPrompt'' [VStr link])"
  by (auto intro!: has_text_plain simp: checkin_view_def has_prefix_def routine_view_def checkin_text_def)

lemma goal_views_have_texts [simp]:
  "has_text x (View ''SeasonalGoalsPrompt'' [VPeriod period])" "has_text x (View ''FormatGoalsSaved'' [VStr link])"
  "has_text x (View ''FormatGoalWeeklyReviewPrompt'' [VGoals g, VStr n, VStr u, VStr link, VInt days, VInt reviews])"
  "has_text x (View ''FormatGoalWeeklyReviewSaved'' [VWeekly r, VInt chat])"
  "has_text x (View ''FormatGoalFinalReviewPrompt'' [VGoals g, VStr n, VStr u, VStr link])"
  "has_text x (View ''FormatGoalFinalReflectionPrompt'' [VGoals g, VGoalStatus st])"
  "has_text x (View ''FormatGoalFinalReflectionDraft'' [VGoals g, VGoalStatus st, VInt k])"
  "has_text x (View ''FormatGoalFinalReviewSaved'' [VGoals g, VFinal f, VStr n, VStr u, VInt chat])"
  by (auto intro!: has_text_plain simp: has_prefix_def goals_view_def)

end
