(* ===== verification/Requests_Worker.thy ===== *)
theory Requests_Worker imports Requests Worker begin

text \<open>Every step of a worker tick sends proper requests only.\<close>

section \<open>Deliveries\<close>

declare proper_store [proper_ops]

lemma proper_Run [proper_ops]: "proper x fn \<Longrightarrow> proper x (Run op i now fn)" "proper x fn \<Longrightarrow> proper x (RunSent op i now fn)"
  unfolding Run_def RunSent_def Defer_def by (intro proper_rules proper_ops | assumption)+

lemma proper_Defer [proper_ops]: "proper x (Defer op i now c)"
  unfolding Defer_def by (intro proper_rules proper_ops)

lemma proper_Compensate [proper_ops]:
  "proper x (CompensateSentMessage c m None)" "proper x k \<Longrightarrow> proper x (CompensateSentMessage c m (Some k))"
  unfolding CompensateSentMessage_def by (auto intro!: proper_rules proper_ops)

lemma proper_cleanup [proper_ops]: "proper x (DeleteBestEffort c m s n)" "edit_ok x f \<Longrightarrow> proper x (CloseBestEffort c m s n f)"
  unfolding DeleteBestEffort_def CloseBestEffort_def Let_def by (intro proper_rules | simp)+

section \<open>Daily tasks, events and alerts\<close>

lemma proper_transitions [proper_ops]: "proper x (RunDailyTaskTransitions now)"
proof -
  have step: "proper x (apply_transition task w tr now)" for task w tr
    unfolding apply_transition_def
    by (auto intro!: proper_rules proper_ops split: option.split daily_task_status.split)
  have "proper x (transition_loop now tasks)" for tasks
    by (induction tasks) (unfold transition_loop.simps, (intro proper_rules proper_ops step | assumption)+)
  then show ?thesis unfolding RunDailyTaskTransitions_def by (intro proper_rules proper_ops)
qed

lemma proper_join_and_fail: "proper x k \<Longrightarrow> proper x (join_and_fail es k)"
  unfolding join_and_fail_def by (intro proper_rules)

lemma proper_PublishPending [proper_ops]: "proper x (PublishPending n)"
  unfolding PublishPending_def publish_round_def
  by (intro proper_rules proper_ops proper_join_and_fail | simp add: progress_view_def)+

lemma proper_deletePending [proper_ops]:
  "proper x (deletePendingMessages c p s n)" "proper x (routine_deletePendingMessages c p s n)"
proof -
  have "proper x (delete_unseen c s n seen ms)" for seen ms
    by (induction ms arbitrary: seen) (auto intro!: proper_rules proper_ops)
  then show "proper x (deletePendingMessages c p s n)" "proper x (routine_deletePendingMessages c p s n)"
    unfolding deletePendingMessages_def routine_deletePendingMessages_def by this+
qed

lemma proper_CleanupStaleInputs [proper_ops]: "proper x (CleanupStaleInputs n now)"
  unfolding CleanupStaleInputs_def cleanup_round_def by (intro proper_rules proper_ops)

lemma proper_DispatchAlerts [proper_ops]: "proper x (DispatchAlerts n)"
  unfolding DispatchAlerts_def alert_round_def send_alert_def deferUnavailableAlert_def Let_def
  by (intro proper_rules proper_ops proper_join_and_fail | simp add: card_view_def alert_view_def)+

section \<open>Routines\<close>

lemma proper_closeRoutineNotice [proper_ops]: "proper x (closeRoutineNotice c m s n)"
  unfolding closeRoutineNotice_def by (intro proper_ops) simp

lemma proper_DispatchDueCheckins [proper_ops]: "proper x (DispatchDueCheckins now)"
  unfolding DispatchDueCheckins_def dispatch_checkin_def send_checkin_card_def Let_def
  by (intro proper_rules proper_ops | simp)+

lemma proper_close_loop: "proper x (close_loop n now r)"
proof -
  have "proper x (deliverRoutineAutoCloseNotice item now)" for item
    unfolding deliverRoutineAutoCloseNotice_def update_closed_card_def Let_def
    by (intro proper_rules proper_ops | simp)+
  then have "proper x (close_tx now)"
    unfolding close_tx_def by (intro proper_rules proper_ops)
  then show ?thesis
    by (induction n arbitrary: r) (unfold close_loop.simps, (intro proper_rules proper_ops | assumption)+)
qed

lemma proper_leaderboards [proper_ops]: "proper x (RefreshLeaderboard w c now)" "proper x (retry_workspaces ids r)"
proof -
  show "proper x (RefreshLeaderboard w c now)"
    unfolding RefreshLeaderboard_def post_leaderboard_def Let_def by (intro proper_rules proper_ops | simp)+
  show "proper x (retry_workspaces ids r)"
    by (induction ids arbitrary: r) (unfold retry_workspaces.simps, (intro proper_rules proper_ops | assumption)+)
qed

lemma proper_RunCheckinTransitions [proper_ops]: "proper x (RunCheckinTransitions n now)"
proof -
  have step: "proper x (checkin_transition now item)" for item
    unfolding checkin_transition_def auto_fail_checkin_def send_reminder_def Let_def
    by (intro proper_rules proper_ops | simp)+
  have "proper x (checkin_transitions now items r)" for items r
    by (induction items arbitrary: r) (unfold checkin_transitions.simps, (intro proper_rules step | assumption)+)
  then show ?thesis
    unfolding RunCheckinTransitions_def by (intro proper_rules proper_ops proper_close_loop)
qed

lemma proper_CleanupExpiredNotices [proper_ops]: "proper x (CleanupExpiredNotices now)"
  unfolding CleanupExpiredNotices_def cleanup_notice_def Let_def by (intro proper_rules proper_ops)

section \<open>Goals\<close>

lemma silent_rule_loop [proper_ops]: "proper x (rule_loop f)"
  by (rule silent_proper, rule silentI) (simp add: rule_loop_def)

lemma proper_closeWeekly [proper_ops]: "proper x (closeWeeklyReviewPrompt c m s n)"
  unfolding closeWeeklyReviewPrompt_def by (intro proper_ops) simp

lemma proper_sendWeekly [proper_ops]: "proper x (sendWeeklyReviewPrompt item topic review now b)"
  unfolding sendWeeklyReviewPrompt_def deliverWeeklyReviewPrompt_def persist_weekly_prompt_def Let_def
  by (intro proper_rules proper_ops | simp)+

lemma proper_weekly_action:
  "proper x a \<Longrightarrow> proper x b \<Longrightarrow> proper x c \<Longrightarrow> proper x (case act of GoalWeeklyReviewNoAction \<Rightarrow> a
     | GoalWeeklyReviewRemind \<Rightarrow> b | GoalWeeklyReviewSkip \<Rightarrow> c)"
  by (cases act) simp_all

lemma proper_DispatchWeeklyReviews [proper_ops]: "proper x (DispatchWeeklyReviews now)"
proof -
  have "proper x (advanceWeeklyReview item topic review now)" for item topic review
    unfolding advanceWeeklyReview_def Let_def by (intro proper_rules proper_weekly_action proper_ops)
  then show ?thesis
    unfolding DispatchWeeklyReviews_def weekly_round_def unless_deferred_def Let_def by (intro proper_rules proper_ops)
qed

lemma proper_DispatchFinalReviews [proper_ops]: "proper x (DispatchFinalReviews now)"
  unfolding DispatchFinalReviews_def final_round_def send_final_prompt_def Let_def
  by (intro proper_rules proper_ops | simp)+

lemma proper_Tick: "proper x (Tick fuel free now)"
  unfolding Tick_def TryAcquireWorkerLease_def ReleaseLease_def tick_body_def tick_start_def
  by (intro proper_rules proper_ops)

end
