(* ===== verification/Requests_Bot.thy ===== *)
theory Requests_Bot imports Requests_Worker Processes Report_Command Control begin

text \<open>
  Every handler of the bot, the report command and with them both processes send proper requests only.
\<close>

section \<open>Shared message handling\<close>

lemma bot_views [simp]:
  "send_ok x (silent_req c t v kb) \<longleftrightarrow> has_text x v \<and> pred_option keyboard_ok kb"
  "has_text x (card_view tk n u notice)" "has_text x (user_card_view tk us)" "has_text x (progress_view e)"
  "has_text x (checklist_view p notice)"
  "pred_option keyboard_ok (dailyTaskCardKeyboard tk)" "keyboard_ok (dailyEntryStatusKeyboard tk)"
  by (simp_all add: silent_req_def card_view_def user_card_view_def progress_view_def checklist_view_def
      dailyTaskCardKeyboard_def dailyEntryStatusKeyboard_def)

lemma bot_checkin_views [simp]:
  "has_text x (user_checkin_view ''FormatRoutineCheckinCard'' c ci u)"
  "has_text x (user_checkin_view ''FormatRoutineCheckinStatusCard'' c ci u)"
  "has_text x (user_checkin_view ''FormatRoutineCheckinFinishedCard'' c ci u)"
  by (auto intro!: has_text_plain simp: user_checkin_view_def has_prefix_def routine_view_def checkin_text_def)

lemma above_prompt_text [simp]: "has_text x (above_prompt key (TextView prompt))"
  by (auto simp: above_prompt_def TextView_def has_text_def view_text_def has_prefix_def Let_def first_some_def
      List.map_filter_simps split: option.split)

lemma proper_handler_ends: "proper x (answer_text k)" "proper x no_answer" "proper x m \<Longrightarrow> proper x (step m)"
  unfolding step_def answer_text_def no_answer_def by (intro proper_rules | assumption)+

lemma proper_message_ops [proper_ops]:
  "proper x (showDailyEntryStatus c m t)" "proper x (dismissTelegramMessage c m)"
  "has_text x v \<Longrightarrow> pred_option keyboard_ok kb \<Longrightarrow> proper x (editMessageSafe c m v kb)"
  unfolding showDailyEntryStatus_def unless_unmodified_def dismissTelegramMessage_def editMessageSafe_def
  by (intro proper_rules | simp)+

lemma proper_editOrQueue [proper_ops]: "edit_ok x r \<Longrightarrow> proper x (editMessageOrQueueProgressAlert w r t th)"
  unfolding editMessageOrQueueProgressAlert_def by (intro proper_rules proper_ops)

lemma proper_refresh_events [proper_ops]: "proper x (refresh_events w c es)"
  unfolding refresh_events_def by (intro proper_rules proper_ops | simp)+

lemma proper_alert_messages [proper_ops]: "proper x (dismissAlertMessage c a m)" "proper x (dismissTaskAlerts c i)"
  unfolding dismissTaskAlerts_def dismissAlertMessage_def Let_def by (intro proper_rules proper_ops)+

lemma proper_input_ops [proper_ops]:
  "proper x (message_input_of m)" "proper x (refreshPendingInputActivity w u t p m')" "proper x (deletePendingUserMessages c pl)"
  "proper x (ensureWorkspaceLoaded c)" "proper x (register_user i us)"
  unfolding message_input_of_def refreshPendingInputActivity_def deletePendingUserMessages_def ensureWorkspaceLoaded_def
    register_user_def by (intro proper_rules proper_ops)+

lemma proper_with_workspace: "(\<And>w. proper x (f w)) \<Longrightarrow> proper x (with_workspace c k f)"
  unfolding with_workspace_def by (intro proper_rules proper_ops | assumption)+

lemmas proper_handler_rules = proper_with_workspace proper_rules proper_handler_ends

lemma proper_openSetupPrompt [proper_ops]: "has_text x t \<Longrightarrow> proper x (openSetupPrompt w u m k t)"
  unfolding openSetupPrompt_def send_setup_prompt_def Let_def
  by (intro proper_handler_rules proper_ops | simp)+

section \<open>Routines\<close>

lemma proper_handleRoutineConfigure [proper_ops]: "proper x (handleRoutineConfigure u m)"
  unfolding handleRoutineConfigure_def by (intro proper_with_workspace proper_ops) simp

lemma proper_delete_inputs [proper_ops]: "proper x (delete_inputs c p)"
  unfolding delete_inputs_def Let_def by (intro proper_rules proper_ops)

lemma proper_consumeRoutinePlan [proper_ops]: "proper x (consumeRoutinePlan w u m p)"
  unfolding consumeRoutinePlan_def snapshot_plan_def Let_def by (intro proper_rules proper_ops | simp)+

lemma proper_advanceRoutineCheckin [proper_ops]: "proper x (advanceRoutineCheckin w c m u ci)"
  unfolding advanceRoutineCheckin_def Let_def by (intro proper_rules proper_ops | simp)+

lemma proper_handleRoutineItem [proper_ops]: "proper x (handleRoutineItem u m i k st)"
  unfolding handleRoutineItem_def ask_reason_def Let_def by (intro proper_handler_rules proper_ops | simp)+

lemma proper_consumeRoutineReason [proper_ops]: "proper x (consumeRoutineReason w u m)"
  unfolding consumeRoutineReason_def save_reason_def Let_def by (intro proper_rules proper_ops | simp)+

section \<open>Goals\<close>

lemma proper_goal_prompts [proper_ops]: "proper x (goalNudge w p s st)" "proper x (seasonalGoalsPrompt w)"
  unfolding goalNudge_def MaybeNudge_def seasonalGoalsPrompt_def by (intro proper_rules proper_ops)+

lemma proper_seasonal_prompt:
  assumes "\<And>period. proper x (f (View ''SeasonalGoalsPrompt'' [VPeriod period]))"
  shows "proper x (bindM (seasonalGoalsPrompt w) f)"
proof (rule proper_bind_yields [OF proper_goal_prompts(2)])
  show "yields (\<lambda>v. \<exists>period. v = View ''SeasonalGoalsPrompt'' [VPeriod period]) (seasonalGoalsPrompt w)"
    unfolding seasonalGoalsPrompt_def by (simp add: yields_simps)
qed (use assms in auto)

lemma above_seasonal_text [simp]: "has_text x (above_prompt key (View ''SeasonalGoalsPrompt'' [VPeriod period]))"
  by (simp add: above_prompt_def has_text_def view_text_def has_prefix_def Let_def first_some_def List.map_filter_simps
      daily_view_def routine_view_def goals_view_def)

lemma proper_handleGoalsConfigure [proper_ops]: "proper x (handleGoalsConfigure u m)"
  unfolding handleGoalsConfigure_def by (intro proper_with_workspace proper_seasonal_prompt proper_ops) simp

lemma proper_consume_goals [proper_ops]:
  "proper x (consumeSeasonalGoals w u m p)" "proper x (consumeGoalWeeklyReview w u m)"
  unfolding consumeSeasonalGoals_def drop_goal_card_def consumeGoalWeeklyReview_def Let_def
  by (intro proper_seasonal_prompt proper_rules proper_ops | simp)+

lemma proper_final_txs [proper_ops]:
  "proper x (final_status_tx w u m g st)" "proper x (final_complete_tx w u m g)" "proper x (reflection_tx w u m)"
  unfolding final_status_tx_def final_complete_tx_def reflection_tx_def Let_def
  by (intro proper_rules proper_ops)+

lemma proper_final_shows [proper_ops]: "proper x (show_final_prompt w u m i st g r)" "proper x (show_final_saved m g r p)"
  unfolding show_final_prompt_def show_final_saved_def Let_def by (intro proper_rules proper_ops | simp)+

lemma proper_handleGoalFinalStatus [proper_ops]: "proper x (handleGoalFinalStatus u m g st)"
  unfolding handleGoalFinalStatus_def
  by (intro proper_with_workspace prp.wkeeps_bindM proper_ops)
    (auto split: prod.split option.split intro!: proper_rules proper_ops)

lemma proper_consumeGoalFinalReflection [proper_ops]: "proper x (consumeGoalFinalReflection w u m)"
  unfolding consumeGoalFinalReflection_def Let_def by (intro proper_rules proper_ops | simp)+

lemma proper_handleGoalFinalComplete [proper_ops]: "proper x (handleGoalFinalComplete u m g)"
  unfolding handleGoalFinalComplete_def
  by (intro proper_with_workspace prp.wkeeps_bindM proper_ops)
    (auto split: prod.split option.split intro!: proper_rules proper_ops)

section \<open>Set-up and daily entries\<close>

lemma proper_prerequisites [proper_ops]: "proper x (CheckPrerequisites c)" "proper x (IsGroupAdmin c u)"
  unfolding CheckPrerequisites_def IsGroupAdmin_def Let_def by (intro proper_rules)+

lemma proper_EnsureWorkspaceTopics [proper_ops]: "proper x (EnsureWorkspaceTopics c t z)"
proof -
  have topic: "proper x (ensureTopicBinding wid ex c key)" for wid ex key
    unfolding ensureTopicBinding_def create_topic_def TopicTitles_def by (intro proper_rules proper_ops)
  have "proper x (ensure_topics wid ex c keys th ch)" for wid ex keys th ch
    by (induction keys arbitrary: th ch) (unfold ensure_topics.simps, (intro proper_rules topic | assumption)+)
  then show ?thesis unfolding EnsureWorkspaceTopics_def by (intro proper_rules proper_ops)
qed

lemma proper_setup_messages [proper_ops]: "proper x (ensureWorkspace c t)" "proper x (upsertSetupMessage c t fb n)"
  unfolding ensureWorkspace_def upsertSetupMessage_def reuse_fallback_def send_setup_message_def default_timezone_def Let_def
  by (intro proper_handler_rules proper_ops | simp)+

lemma proper_handleMyChatMember: "proper x (handleMyChatMember e)"
  unfolding handleMyChatMember_def by (intro proper_handler_rules proper_ops)

lemma proper_ensureTopicMessage:
  "has_text x v \<Longrightarrow> pred_option keyboard_ok kb \<Longrightarrow> proper x (ensureTopicMessage w c th k cur v kb ic pin)"
  unfolding ensureTopicMessage_def by (intro proper_handler_rules proper_ops | simp)+

lemma proper_handleSetupStart: "proper x (handleSetupStart m)"
proof -
  have one: "proper x (ensure_messages w c th k b (topic_messages key) ch)" for w c th k b key ch
    by (cases key) (auto intro!: proper_rules proper_ensureTopicMessage)
  have all: "proper x (ensure_all_messages w c ths bs ks ch)" for w c ths bs ks ch
    by (induction ks arbitrary: ch) (unfold ensure_all_messages.simps, (intro proper_rules one | assumption)+)
  show ?thesis unfolding handleSetupStart_def Let_def by (intro proper_handler_rules proper_ops all | simp)+
qed

lemma proper_handleTodayAdd: "proper x (handleTodayAdd u m)"
  unfolding handleTodayAdd_def today_busy_def add_summary_def ask_task_def Let_def
  by (intro proper_handler_rules proper_ops | simp)+

lemma proper_consumeDailyTaskText: "proper x (consumeDailyTaskText w u m)"
  unfolding consumeDailyTaskText_def Let_def by (intro proper_handler_rules proper_ops | simp)+

lemma rejected_text [simp]: "has_text x (TextView (dailyReportRejectedText a b))"
  by (simp add: dailyReportRejectedText_def)

lemma proper_consumeDailyReport: "proper x (consumeDailyReport w u m k)"
  unfolding consumeDailyReport_def report_tx_def submit_status_def reject_report_def show_report_def Let_def
  by (intro proper_handler_rules proper_ops | simp)+

lemma proper_handleTaskReport: "proper x (handleTaskReport u m i)"
  unfolding handleTaskReport_def Let_def by (intro proper_handler_rules proper_ops)

lemma proper_ask_report [proper_ops]: "proper x (ask_report w u m task st kind)"
proof -
  have "proper x (status_prompt w task st)"
    unfolding status_prompt_def by (intro proper_handler_rules proper_ops)
  moreover have "yields (has_text x) (status_prompt w task st)"
    unfolding status_prompt_def by (auto simp: yields_simps split: option.split intro!: yields_simps(3))
  ultimately show ?thesis
    unfolding ask_report_def by (rule proper_bind_yields) (intro proper_handler_rules proper_ops | simp)+
qed

lemma proper_handleTaskStatus: "proper x (handleTaskStatus u m i st)"
  unfolding handleTaskStatus_def Let_def by (intro proper_handler_rules proper_ops)

lemma proper_notices: "proper x (handleAlertAck u m i)" "proper x (handleNoticeDismiss m')"
  unfolding handleAlertAck_def handleNoticeDismiss_def Let_def by (intro proper_handler_rules proper_ops)+

section \<open>Updates\<close>

lemma proper_handleMessage: "proper x (handleMessage m)"
  unfolding handleMessage_def handlePendingInputMessage_def consume_input_def
  by (intro proper_handler_rules proper_ops proper_consumeDailyTaskText proper_consumeDailyReport
      | simp add: proper_consumeDailyTaskText proper_consumeDailyReport proper_ops split: pending_input_kind.split)+

lemma proper_handleEditedMessage: "proper x (handleEditedMessage m)"
  unfolding handleEditedMessage_def edited_entry_def Let_def by (intro proper_handler_rules proper_ops | simp)+

lemma proper_authorizeCallback: "proper x (authorizeCallback u m p)"
  unfolding authorizeCallback_def authorize_task_def or_stale_def authorizeOwnedCallback_def
  by (cases "cb_Kind p"; simp only: callback_kind.case) (intro proper_handler_rules proper_ops)+

lemma proper_run_callback: "proper x (run_callback u m p)"
  unfolding run_callback_def
  by (cases "cb_Kind p"; simp only: callback_kind.case)
    (intro proper_handler_rules proper_ops proper_handleSetupStart proper_handleTodayAdd proper_handleTaskReport
      proper_handleTaskStatus proper_notices)+

lemma proper_HandleUpdate [proper_ops]: "proper x (HandleUpdate u)"
proof -
  have "proper x (handleCallback q)" for q
    unfolding handleCallback_def by (intro proper_handler_rules proper_ops proper_authorizeCallback proper_run_callback)
  then show ?thesis
    unfolding HandleUpdate_def
    by (intro proper_handler_rules proper_ops proper_handleMyChatMember proper_handleMessage proper_handleEditedMessage)
qed

section \<open>The processes\<close>

lemma proper_clock: "proper x (pause k)" "proper x control_pause" "proper x (await_tick s p t)" "proper x (configure cfg)"
  "proper x (know_self me)"
  by (rule silent_proper, rule silentI;
      simp add: pause_def control_pause_def await_tick_def configure_def know_self_def Let_def)+

lemma proper_poll_rounds: "proper x (poll_rounds n t s)"
proof -
  have handle: "proper x (handle_update u)" for u
    unfolding handle_update_def answer_callback_def Let_def case_prod_beta by (intro proper_rules proper_ops)
  have batch: "proper x (processUpdates handle_update off us)" for off us
    by (induction us arbitrary: off) (unfold processUpdates.simps, (intro proper_rules handle | assumption)+)
  have round: "proper x (poll_round t s)" for s
    unfolding poll_round_def Let_def by (intro proper_rules batch proper_clock)
  show ?thesis
    by (induction n arbitrary: s) (unfold poll_rounds.simps, (intro proper_rules round | assumption)+)
qed

lemma proper_accepted: "proper x (accepted loaded)"
  unfolding accepted_def by (intro proper_rules proper_clock)

lemma proper_api_run: "proper x (api_run n loaded)"
  unfolding api_run_def by (intro proper_rules proper_accepted proper_clock proper_poll_rounds)

lemma proper_worker_run: "proper x (worker_run n fuel free loaded)"
proof -
  have "proper x (worker_rounds n fuel free k start period taken)" for k start period taken
    by (induction n arbitrary: k taken)
      (unfold worker_rounds.simps, (intro proper_rules proper_Tick proper_clock | assumption)+)
  then show ?thesis unfolding worker_run_def by (intro proper_rules proper_accepted)
qed

lemma proper_handleTick: "proper x (handleTick n fuel free)"
proof -
  have "proper x (tick_until n fuel free k deadline)" for k deadline
    by (induction n arbitrary: k)
      (unfold tick_until.simps, (intro proper_rules proper_Tick proper_clock | assumption)+)
  then show ?thesis unfolding handleTick_def by (intro proper_rules)
qed

lemma reads_silent: "reads m \<Longrightarrow> silent m"
  by (rule silentI) (simp add: reads_def same_oracle_def)

lemma proper_report_run: "proper x (report_run read loaded a)"
proof -
  note quiet = reads_silent [THEN silent_proper]
  have deliver: "proper x (deliver tgSendMessageOnce wid month r)" for wid month r
    unfolding deliver_def
    by (intro proper_rules proper_send_once quiet [OF reads_Status] quiet [OF reads_pure(5)]
        | simp add: report_request_def send_ok_def send_req_def)+
  have publish: "proper x (Publish (if sender then Some tgSendMessageOnce else None) wid month input)" for sender wid month input
    unfolding Publish_def publish_checked_def
    by (cases sender; simp only: if_True if_False option.case)
      (intro proper_rules deliver quiet [OF reads_Status] quiet [OF reads_Validate])+
  show ?thesis
    unfolding report_run_def
    by (intro proper_rules publish quiet [OF reads_Snapshot] quiet [OF reads_Status] quiet [OF reads_Validate]
        quiet [OF reads_needs_sender] quiet [OF reads_pure(5)])
qed

section \<open>Properties\<close>

text \<open>C3. Whatever the users do, the database holds and Telegram answers, each request that a process sends is
  proper: its text exists and its body can be written, messages carry the parse mode of the
  formatters, no message 0 is deleted, and every button of a keyboard carries data. This holds for
  any number of rounds of the polling process and of the worker, a tick of the control server and a
  run of the report command, and for every catalogue of texts.\<close>

theorem every_request_is_proper:
  "(\<exists>rs. w_sent (snd (api_run n loaded w)) = w_sent w @ rs \<and> list_all (proper_request x) rs)
   \<and> (\<exists>rs. w_sent (snd (worker_run n fuel free loaded w)) = w_sent w @ rs \<and> list_all (proper_request x) rs)
   \<and> (\<exists>rs. w_sent (snd (handleTick n fuel free w)) = w_sent w @ rs \<and> list_all (proper_request x) rs)
   \<and> (\<exists>rs. w_sent (snd (report_run read loaded a w)) = w_sent w @ rs \<and> list_all (proper_request x) rs)"
  using proper_api_run [of x n loaded] proper_worker_run [of x n fuel free loaded] proper_handleTick [of x n fuel free]
    proper_report_run [of x read loaded a]
  by (simp add: wkeeps_def sent_proper_def)

end
